(* ===== verification/Prelude.thy ===== *)
theory Prelude
  imports Main "HOL-Library.Word"
begin

text \<open>
  Shared vocabulary of the development: the exceptions the modelled code raises, results
  as sums with a monadic bind, ordered guard lists, Python datetimes, JSON values, and the
  named theorem collections that the component theories fill.

  \<^item> An exception is a value \<open>Inl e\<close> of a sum type, a normal return is \<open>Inr v\<close>; \<open>bindE\<close>
    sequences two calls and stops at the first exception, as Python does.
  \<^item> A validator of the code (a chain of \<open>if not ok: raise E\<close>) is a list of pairs of a
    condition and the exception, run by \<open>require\<close> in the order of the source.
  \<^item> A Python \<open>datetime\<close> is its wall clock in microseconds and its UTC offset, \<open>None\<close> for a
    naive one. \<open>naive\<close> and \<open>aware\<close> are the two conversions at the database boundary.
\<close>

named_theorems validate_simps \<open>guard lists and monadic results, as equivalences\<close>
named_theorems time_simps \<open>datetimes at the database boundary\<close>

subsection \<open>Exceptions\<close>

datatype exn =
    ValueError string
  | TypeError string
  | RuntimeError string
  | DatabaseError string
  | InvalidJobTransition string string
  | JobAuthorizationDenied string
  | JobAuthorityUnavailable string
  | AIJobAccessDenied
  | AIJobNotFound
  | InvalidIdempotencyKey
  | InvalidIdempotencyRequest string
  | IdempotencyConflictError
  | IdempotencyInProgressError
  | IdempotencyStateError string
  | InvalidSession
  | InvalidRefreshToken
  | RefreshReplayDetected
  | InvalidRevocationReason
  | KeyError string
  | OverflowError string
  | InvalidToken
  | EnvelopeSignatureError string
  | RejectDelivery string
  | StructuredAuditError string
  | PreconditionRequired
  | InvalidStrongETag string
  | InvalidMemberCursor string
  | InvalidMemberUpdate string
  | RoleTemplateUnavailable
  | TenantApplicantUnavailable
  | TenantResourceNotFound
  | TenantAuthorizationDenied string
  | MembershipMutationDenied string
  | VersionConflict
  | IdempotentResultUnavailable string
  | InvitationUnavailable
  | InvitationAuthorizationDenied string
  | InvitationRoleDenied
  | InvitationBlindIndexRetirementBlocked
  | InvitationDeliveryUnavailable

type_synonym 'a result = "exn + 'a"

subsection \<open>Sequencing results\<close>

definition bindE :: "'e + 'a \<Rightarrow> ('a \<Rightarrow> 'e + 'b) \<Rightarrow> 'e + 'b" where
  "bindE m f = (case m of Inl e \<Rightarrow> Inl e | Inr a \<Rightarrow> f a)"

lemma bindE_Inl [simp]: "bindE (Inl e) f = Inl e"
  by (simp add: bindE_def)

lemma bindE_Inr [simp]: "bindE (Inr a) f = f a"
  by (simp add: bindE_def)

lemma bindE_eq_Inr [validate_simps]:
  "bindE m f = Inr b \<longleftrightarrow> (\<exists>a. m = Inr a \<and> f a = Inr b)"
  by (cases m) simp_all

lemma bindE_eq_Inl [validate_simps]:
  "bindE m f = Inl e \<longleftrightarrow> m = Inl e \<or> (\<exists>a. m = Inr a \<and> f a = Inl e)"
  by (cases m) simp_all

lemma bindE_assoc: "bindE (bindE m f) g = bindE m (\<lambda>x. bindE (f x) g)"
  by (cases m) simp_all

lemma bindE_cong [fundef_cong]:
  "m = m' \<Longrightarrow> (\<And>a. m' = Inr a \<Longrightarrow> f a = f' a) \<Longrightarrow> bindE m f = bindE m' f'"
  by (cases m') simp_all

subsection \<open>Ordered guards\<close>

fun require :: "(bool \<times> 'e) list \<Rightarrow> 'e + unit" where
  "require [] = Inr ()"
| "require ((ok, e) # cs) = (if ok then require cs else Inl e)"

lemma require_eq_Inr [validate_simps]:
  "require cs = Inr u \<longleftrightarrow> (\<forall>(ok, e) \<in> set cs. ok)"
  by (induction cs rule: require.induct) auto

lemma require_total: "require cs = Inr () \<or> (\<exists>e. require cs = Inl e \<and> (False, e) \<in> set cs)"
  by (induction cs rule: require.induct) auto

lemma require_first_failure:
  assumes "require cs = Inl e"
  shows "\<exists>pre post. cs = pre @ (False, e) # post \<and> (\<forall>(ok, e') \<in> set pre. ok)"
  using assms
proof (induction cs rule: require.induct)
  case 1
  then show ?case by simp
next
  case (2 ok e' cs)
  show ?case
  proof (cases ok)
    case True
    with 2 obtain pre post where "cs = pre @ (False, e) # post" "\<forall>(ok, e') \<in> set pre. ok"
      by auto
    with True show ?thesis by (intro exI [of _ "(ok, e') # pre"] exI [of _ post]) auto
  next
    case False
    with 2 show ?thesis by (intro exI [of _ "[]"] exI [of _ cs]) auto
  qed
qed

lemma require_append [simp]:
  "require (cs @ ds) = bindE (require cs) (\<lambda>_. require ds)"
  by (induction cs rule: require.induct) auto

declare require.simps [simp del]

lemmas require_eval = require.simps

lemma require_Inl: "require cs \<noteq> Inr () \<longleftrightarrow> (\<exists>e. require cs = Inl e)"
  using require_total [of cs] by auto

subsection \<open>Datetimes\<close>

text \<open>Wall clock in microseconds; the offset is \<open>None\<close> for a naive datetime.\<close>

record datetime =
  dt_wall :: int
  dt_offset :: "int option"

definition is_utc :: "datetime \<Rightarrow> bool" where
  "is_utc d \<longleftrightarrow> dt_offset d = Some 0"

definition instant :: "datetime \<Rightarrow> int" where
  "instant d = dt_wall d - (case dt_offset d of None \<Rightarrow> 0 | Some z \<Rightarrow> z)"

definition seconds :: "int \<Rightarrow> int" where
  "seconds n = n * 1000000"

definition dt_plus :: "datetime \<Rightarrow> int \<Rightarrow> datetime" where
  "dt_plus d delta = d\<lparr>dt_wall := dt_wall d + delta\<rparr>"

definition naive :: "datetime \<Rightarrow> int result" where
  "naive d = (if is_utc d then Inr (dt_wall d)
              else Inl (ValueError ''database timestamp must be UTC-aware''))"

definition aware :: "int \<Rightarrow> datetime" where
  "aware w = \<lparr>dt_wall = w, dt_offset = Some 0\<rparr>"

lemma is_utc_aware [simp]: "is_utc (aware w)"
  by (simp add: is_utc_def aware_def)

lemma instant_aware [simp]: "instant (aware w) = w"
  by (simp add: instant_def aware_def)

lemma dt_wall_aware [simp]: "dt_wall (aware w) = w"
  by (simp add: aware_def)

lemma instant_utc [time_simps]: "is_utc d \<Longrightarrow> instant d = dt_wall d"
  by (simp add: is_utc_def instant_def)

lemma naive_aware [simp]: "naive (aware w) = Inr w"
  by (simp add: naive_def)

lemma naive_eq_Inr [time_simps]: "naive d = Inr w \<longleftrightarrow> is_utc d \<and> w = dt_wall d"
  by (auto simp: naive_def)

lemma aware_dt_wall: "is_utc d \<Longrightarrow> aware (dt_wall d) = d"
  by (cases d) (simp add: aware_def is_utc_def)

lemma is_utc_dt_plus [simp]: "is_utc (dt_plus d n) = is_utc d"
  by (simp add: is_utc_def dt_plus_def)

lemma dt_wall_dt_plus [simp]: "dt_wall (dt_plus d n) = dt_wall d + n"
  by (simp add: dt_plus_def)

lemma instant_dt_plus [simp]: "instant (dt_plus d n) = instant d + n"
  by (simp add: dt_plus_def instant_def)

definition naive_optional :: "datetime option \<Rightarrow> int option result" where
  "naive_optional d = (case d of None \<Rightarrow> Inr None | Some v \<Rightarrow> bindE (naive v) (\<lambda>w. Inr (Some w)))"

definition aware_optional :: "int option \<Rightarrow> datetime option" where
  "aware_optional w = map_option aware w"

lemma naive_optional_aware_optional [simp]: "naive_optional (aware_optional w) = Inr w"
  by (cases w) (simp_all add: naive_optional_def aware_optional_def)

lemma aware_optional_None [simp]: "aware_optional w = None \<longleftrightarrow> w = None"
  by (simp add: aware_optional_def)

subsection \<open>Byte strings and JSON values\<close>

type_synonym bytes = "8 word list"

datatype json =
    JNull
  | JBool bool
  | JInt int
  | JStr string
  | JList "json list"
  | JObj "(string \<times> json) list"

end
