(* ===== verification/Base64.thy ===== *)
theory Base64
  imports Text
begin

text \<open>
  \<open>base64.urlsafe_b64encode\<close>, \<open>base64.urlsafe_b64decode\<close> and \<open>base64.b64decode(validate=True)\<close> of
  the standard library.  The lenient decoder is the automaton of \<open>binascii.a2b_base64\<close>: characters
  outside the alphabet are skipped, padding ends the input once it completes a group.
\<close>

text \<open>The alphabet \<open>A-Z a-z 0-9 - _\<close>, by position.\<close>

definition b64_char :: "nat \<Rightarrow> char" where
  "b64_char i =
     (if i < 26 then char_of (65 + i) else if i < 52 then char_of (71 + i)
      else if i < 62 then char_of (i - 4) else if i = 62 then CHR ''-'' else CHR ''_'')"

definition b64_index :: "char \<Rightarrow> nat option" where
  "b64_index c =
     (if is_upper c then Some (code c - 65)
      else if is_lower c then Some (code c - 71)
      else if is_digit c then Some (code c + 4)
      else if c = CHR ''-'' \<or> c = CHR ''+'' then Some 62
      else if c = CHR ''_'' \<or> c = CHR ''/'' then Some 63
      else None)"

text \<open>Position in the group of four, the bits left over, the padding seen, the bytes so far.\<close>

fun a2b_base64 :: "nat \<Rightarrow> nat \<Rightarrow> nat \<Rightarrow> string \<Rightarrow> nat list option" where
  "a2b_base64 quad left pads [] = (if quad = 0 then Some [] else None)"
| "a2b_base64 quad left pads (c # cs) =
     (if c = CHR ''='' then
        (if 2 \<le> quad then (if 4 \<le> quad + Suc pads then Some [] else a2b_base64 quad left (Suc pads) cs)
         else a2b_base64 quad left pads cs)
      else case b64_index c of
        None \<Rightarrow> a2b_base64 quad left pads cs
      | Some v \<Rightarrow>
          (if quad = 0 then a2b_base64 1 v 0 cs
           else if quad = 1 then map_option ((#) (left * 4 + v div 16)) (a2b_base64 2 (v mod 16) 0 cs)
           else if quad = 2 then map_option ((#) (left * 16 + v div 4)) (a2b_base64 3 (v mod 4) 0 cs)
           else map_option ((#) (left * 64 + v)) (a2b_base64 0 0 0 cs)))"

definition urlsafe_b64decode :: "string \<Rightarrow> bytes option" where
  "urlsafe_b64decode s = map_option (map byte) (a2b_base64 0 0 0 s)"

text \<open>The encoder without its padding (\<open>rstrip("=")\<close>).\<close>

fun b64_groups :: "nat list \<Rightarrow> string" where
  "b64_groups [] = []"
| "b64_groups [a] = [b64_char (a div 4), b64_char (a mod 4 * 16)]"
| "b64_groups [a, b] = [b64_char (a div 4), b64_char (a mod 4 * 16 + b div 16), b64_char (b mod 16 * 4)]"
| "b64_groups (a # b # c # rest) =
     b64_char (a div 4) # b64_char (a mod 4 * 16 + b div 16) # b64_char (b mod 16 * 4 + c div 64)
       # b64_char (c mod 64) # b64_groups rest"

definition urlsafe_b64encode_unpadded :: "bytes \<Rightarrow> string" where
  "urlsafe_b64encode_unpadded bs = b64_groups (map unat bs)"

text \<open>The strict decoder of the key rings: standard alphabet, full groups, padding at the end only.\<close>

definition std_b64_char :: "char \<Rightarrow> bool" where
  "std_b64_char c \<longleftrightarrow> is_alnum c \<or> c = CHR ''+'' \<or> c = CHR ''/''"

definition b64decode_strict :: "string \<Rightarrow> bytes option" where
  "b64decode_strict s =
     (let data = takeWhile std_b64_char s; padding = dropWhile std_b64_char s in
      if length s mod 4 = 0 \<and> padding \<in> {[], ''='', ''==''} then urlsafe_b64decode s else None)"

subsection \<open>Facts\<close>

lemma code_b64_char:
  "i < 64 \<Longrightarrow> code (b64_char i) =
     (if i < 26 then 65 + i else if i < 52 then 71 + i else if i < 62 then i - 4 else if i = 62 then 45 else 95)"
  by (simp add: b64_char_def code_def)

lemma code_inject: "code c = code d \<Longrightarrow> c = d"
  by (simp add: code_def)

lemma b64_index_char:
  assumes "i < 64"
  shows "b64_index (b64_char i) = Some i \<and> b64_char i \<noteq> CHR ''=''"
proof -
  consider "i < 26" | "26 \<le> i" "i < 52" | "52 \<le> i" "i < 62" | "i = 62" | "i = 63" using assms by linarith
  then show ?thesis
  proof cases
    case 4
    then show ?thesis by (simp add: b64_char_def b64_index_def is_upper_def is_lower_def is_digit_def code_def)
  next
    case 5
    then show ?thesis by (simp add: b64_char_def b64_index_def is_upper_def is_lower_def is_digit_def code_def)
  qed (use code_b64_char [OF assms] code_inject in
        \<open>auto simp: b64_index_def is_upper_def is_lower_def is_digit_def code_def [of "CHR ''=''"]
           dest: arg_cong [where f = code]\<close>)
qed

definition url_b64_char :: "char \<Rightarrow> bool" where
  "url_b64_char c \<longleftrightarrow> is_alnum c \<or> c = CHR ''_'' \<or> c = CHR ''-''"

lemma url_b64_char_char:
  assumes "i < 64"
  shows "url_b64_char (b64_char i)"
proof -
  consider "i < 62" | "i = 62" | "i = 63" using assms by linarith
  then show ?thesis
    using code_b64_char [OF assms]
    by cases (auto simp: url_b64_char_def is_alnum_def is_upper_def is_lower_def is_digit_def b64_char_def)
qed

lemma url_b64_char_index:
  assumes "url_b64_char c"
  obtains v where "b64_index c = Some v" "v < 64" "c \<noteq> CHR ''=''"
proof -
  have "\<exists>v<64. b64_index c = Some v" and "c \<noteq> CHR ''=''"
    using assms
    by (auto simp: url_b64_char_def b64_index_def is_alnum_def is_upper_def is_lower_def is_digit_def code_def)
  then show ?thesis using that by blast
qed

text \<open>How many bytes a run of alphabet characters followed by two pads decodes to.\<close>

lemma a2b_length:
  assumes "list_all url_b64_char s" "quad < 4" "pads = 0" "(length s + quad) mod 4 \<noteq> 1"
  shows "\<exists>bs. a2b_base64 quad left pads (s @ ''=='') = Some bs
    \<and> length bs = (length s + quad) * 3 div 4 - quad * 3 div 4"
  using assms
proof (induction s arbitrary: quad left pads)
  case Nil
  then have "quad = 0 \<or> quad = 2 \<or> quad = 3" by auto
  then show ?case using Nil by auto
next
  case (Cons c s)
  obtain v where v: "b64_index c = Some v" "c \<noteq> CHR ''=''" using Cons.prems(1) by (auto elim: url_b64_char_index)
  have quad: "quad = 0 \<or> quad = 1 \<or> quad = 2 \<or> quad = 3" using Cons.prems(2) by auto
  have s: "list_all url_b64_char s" using Cons.prems(1) by simp
  show ?case
    using quad
  proof (elim disjE)
    assume q: "quad = 0"
    then have "(length s + 1) mod 4 \<noteq> 1" using Cons.prems(4) by simp
    then obtain bs where "a2b_base64 1 v 0 (s @ ''=='') = Some bs" "length bs = (length s + 1) * 3 div 4"
      using Cons.IH [OF s, of 1 0 v] by auto
    then show ?thesis using v q by simp
  next
    assume q: "quad = 1"
    then have "(length s + 2) mod 4 \<noteq> 1" using Cons.prems(4) by simp
    then obtain bs where "a2b_base64 2 (v mod 16) 0 (s @ ''=='') = Some bs" "length bs = (length s + 2) * 3 div 4 - 1"
      using Cons.IH [OF s, of 2 0 "v mod 16"] by auto
    moreover have "1 \<le> (length s + 2) * 3 div 4" by presburger
    ultimately show ?thesis using v q by simp
  next
    assume q: "quad = 2"
    then have "(length s + 3) mod 4 \<noteq> 1" using Cons.prems(4) by (simp add: ac_simps)
    then obtain bs where "a2b_base64 3 (v mod 4) 0 (s @ ''=='') = Some bs" "length bs = (length s + 3) * 3 div 4 - 2"
      using Cons.IH [OF s, of 3 0 "v mod 4"] by auto
    moreover have "2 \<le> (length s + 3) * 3 div 4" by presburger
    ultimately show ?thesis using v q by (simp add: ac_simps)
  next
    assume q: "quad = 3"
    then have "(length s + 0) mod 4 \<noteq> 1" using Cons.prems(4) by (simp add: ac_simps mod_Suc)
    then obtain bs where "a2b_base64 0 0 0 (s @ ''=='') = Some bs" "length bs = length s * 3 div 4"
      using Cons.IH [OF s, of 0 0 0] by auto
    moreover have "(Suc (length s) + 3) * 3 div 4 = length s * 3 div 4 + 3"
    proof -
      have "(Suc (length s) + 3) * 3 = 3 * 4 + length s * 3" by simp
      then show ?thesis by simp
    qed
    moreover have "3 * 3 div 4 = (2::nat)" by simp
    ultimately have "length ((left * 64 + v) # bs) = (length (c # s) + quad) * 3 div 4 - quad * 3 div 4"
      using q by (simp only: list.size length_Cons) simp
    then show ?thesis using v q \<open>a2b_base64 0 0 0 (s @ ''=='') = Some bs\<close>
      by (intro exI [of _ "(left * 64 + v) # bs"]) simp
  qed
qed

lemma sextets:
  assumes "a < 256" "b < 256" "c < (256::nat)"
  shows "a div 4 < 64" "a mod 4 * 16 < 64" "b mod 16 * 4 < 64" "c mod 64 < 64"
    "b div 16 < 16" "c div 64 < 4" "a mod 4 * 16 + b div 16 < 64" "b mod 16 * 4 + c div 64 < 64"
    "(a mod 4 * 16 + b div 16) div 16 = a mod 4" "(a mod 4 * 16 + b div 16) mod 16 = b div 16"
    "(b mod 16 * 4 + c div 64) div 4 = b mod 16" "(b mod 16 * 4 + c div 64) mod 4 = c div 64"
  using assms by (auto simp: less_mult_imp_div_less)

lemma a2b_char:
  "i < 64 \<Longrightarrow> a2b_base64 quad left pads (b64_char i # cs) =
     (if quad = 0 then a2b_base64 1 i 0 cs
      else if quad = 1 then map_option ((#) (left * 4 + i div 16)) (a2b_base64 2 (i mod 16) 0 cs)
      else if quad = 2 then map_option ((#) (left * 16 + i div 4)) (a2b_base64 3 (i mod 4) 0 cs)
      else map_option ((#) (left * 64 + i)) (a2b_base64 0 0 0 cs))"
  using b64_index_char [of i] by simp

lemma b64_groups_decode:
  assumes "list_all (\<lambda>b. b < 256) bs"
  shows "a2b_base64 0 0 pads (b64_groups bs @ ''=='') = Some bs"
  using assms
proof (induction bs arbitrary: pads rule: b64_groups.induct)
  case 1
  then show ?case by simp
next
  case (2 a)
  then show ?case using sextets [of a 0 0] by (simp add: a2b_char del: a2b_base64.simps(2)) simp
next
  case (3 a b)
  then show ?case using sextets [of a b 0] by (simp add: a2b_char del: a2b_base64.simps(2)) simp
next
  case (4 a b c rest)
  then show ?case using sextets [of a b c] by (simp add: a2b_char del: a2b_base64.simps(2))
qed

end
