(* ===== verification/Uuid7.thy ===== *)
theory Uuid7
  imports Prelude
begin

text \<open>
  \<open>domain/common.py\<close>: RFC 9562 identifiers of version 7. A UUID is its 128-bit integer;
  \<open>uuid_version\<close> and \<open>uuid_is_rfc4122\<close> read the bits that Python's \<open>UUID.version\<close> and
  \<open>UUID.variant\<close> read. \<open>new_uuid7\<close> is parameterised by the clock and by the two values
  \<open>secrets.randbits\<close> returns.
\<close>

unbundle bit_operations_syntax

type_synonym uuid = "128 word"

definition uuid_is_rfc4122 :: "uuid \<Rightarrow> bool" where
  "uuid_is_rfc4122 u \<longleftrightarrow> bit u 63 \<and> \<not> bit u 62"

definition uuid_version :: "uuid \<Rightarrow> uuid" where
  "uuid_version u = drop_bit 76 u AND 15"

definition is_uuid7 :: "uuid \<Rightarrow> bool" where
  "is_uuid7 u \<longleftrightarrow> uuid_is_rfc4122 u \<and> uuid_version u = 7 \<and> u \<noteq> 0"

definition require_uuid7 :: "uuid \<Rightarrow> string \<Rightarrow> uuid result" where
  "require_uuid7 u field =
     (if is_uuid7 u then Inr u else Inl (ValueError (field @ '' must be an RFC 9562 UUIDv7'')))"

definition uuid7_layout :: "int \<Rightarrow> int \<Rightarrow> int \<Rightarrow> int" where
  "uuid7_layout timestamp random_a random_b =
     push_bit 80 timestamp OR push_bit 76 7 OR push_bit 64 random_a OR push_bit 62 2 OR random_b"

definition new_uuid7 :: "int \<Rightarrow> int \<Rightarrow> int \<Rightarrow> uuid result" where
  "new_uuid7 timestamp random_a random_b =
     (if \<not> (0 \<le> timestamp \<and> timestamp < push_bit 48 1)
      then Inl (ValueError ''UUIDv7 timestamp out of range'')
      else
        let value = uuid7_layout timestamp random_a random_b
        in if 0 \<le> value \<and> value < push_bit 128 1 then Inr (word_of_int value)
           else Inl (ValueError ''int is out of range (need a 128-bit value)''))"

subsection \<open>The bits of the layout\<close>

lemma bit_nonneg_bound: "0 \<le> (x::int) \<Longrightarrow> x < 2 ^ k \<Longrightarrow> bit x n \<Longrightarrow> n < k"
proof (rule ccontr)
  assume x: "0 \<le> x" "x < 2 ^ k" "bit x n" and "\<not> n < k"
  then have "x < 2 ^ n"
    by (meson linorder_not_le one_le_numeral order_less_le_trans power_increasing)
  with x show False by (simp add: bit_iff_odd div_pos_pos_trivial)
qed

lemma bit_version_field: "bit (push_bit 76 (7::int)) n \<longleftrightarrow> 76 \<le> n \<and> n < 79"
proof -
  have "(7::int) = mask 3" by (simp add: mask_eq_exp_minus_1)
  then show ?thesis by (simp only: bit_push_bit_iff bit_mask_iff) auto
qed

lemma bit_variant_field: "bit (push_bit 62 (2::int)) n \<longleftrightarrow> n = 63"
proof -
  have "push_bit 62 (2::int) = 2 ^ 63" by simp
  then show ?thesis by (simp only: bit_exp_iff) auto
qed

lemma bit_layout:
  "bit (uuid7_layout t ra rb) n \<longleftrightarrow>
     (80 \<le> n \<and> bit t (n - 80)) \<or> (76 \<le> n \<and> n < 79) \<or> (64 \<le> n \<and> bit ra (n - 64))
       \<or> n = 63 \<or> bit rb n"
  unfolding uuid7_layout_def
  by (simp only: bit_or_iff bit_version_field bit_variant_field) (auto simp: bit_push_bit_iff)

lemma layout_range:
  assumes "0 \<le> t" "t < 2 ^ 48" "0 \<le> ra" "ra < 2 ^ 12" "0 \<le> rb" "rb < 2 ^ 62"
  shows "0 \<le> uuid7_layout t ra rb" "uuid7_layout t ra rb < 2 ^ 128"
proof -
  show nn: "0 \<le> uuid7_layout t ra rb"
    using assms by (simp add: uuid7_layout_def)
  have "take_bit 128 (uuid7_layout t ra rb) = uuid7_layout t ra rb"
  proof (rule bit_eqI)
    fix n
    have "bit t (n - 80) \<Longrightarrow> 80 \<le> n \<Longrightarrow> n < 128"
      using bit_nonneg_bound [OF assms(1,2), of "n - 80"] by arith
    moreover have "bit ra (n - 64) \<Longrightarrow> 64 \<le> n \<Longrightarrow> n < 128"
      using bit_nonneg_bound [OF assms(3,4), of "n - 64"] by arith
    moreover have "bit rb n \<Longrightarrow> n < 128"
      using bit_nonneg_bound [OF assms(5,6), of n] by arith
    ultimately show "bit (take_bit 128 (uuid7_layout t ra rb)) n = bit (uuid7_layout t ra rb) n"
      by (auto simp: bit_take_bit_iff bit_layout)
  qed
  then show "uuid7_layout t ra rb < 2 ^ 128"
    by (metis take_bit_int_less_exp)
qed

lemma new_uuid7_eq:
  assumes "0 \<le> t" "t < 2 ^ 48" "0 \<le> ra" "ra < 2 ^ 12" "0 \<le> rb" "rb < 2 ^ 62"
  shows "new_uuid7 t ra rb = Inr (word_of_int (uuid7_layout t ra rb))"
  using assms layout_range [OF assms]
  by (simp add: new_uuid7_def uuid7_layout_def Let_def)

lemma bit_uuid7:
  "bit (word_of_int (uuid7_layout t ra rb) :: uuid) n \<longleftrightarrow> n < 128 \<and> bit (uuid7_layout t ra rb) n"
  by (simp add: bit_word_of_int_iff)

lemma layout_is_uuid7:
  assumes "0 \<le> ra" "ra < 2 ^ 12" "0 \<le> rb" "rb < 2 ^ 62"
  shows "is_uuid7 (word_of_int (uuid7_layout t ra rb))" (is "is_uuid7 ?u")
proof -
  have rb: "\<not> bit rb 62" and ra: "12 \<le> n \<Longrightarrow> \<not> bit ra n" and rb': "62 \<le> n \<Longrightarrow> \<not> bit rb n" for n
    using bit_nonneg_bound [OF assms(1,2)] bit_nonneg_bound [OF assms(3,4)] by fastforce+
  have variant: "uuid_is_rfc4122 ?u"
    using rb by (simp add: uuid_is_rfc4122_def bit_uuid7 bit_layout)
  have "uuid_version ?u = 7"
  proof (rule bit_word_eqI)
    fix n assume "n < LENGTH(128)"
    have 15: "(15 :: uuid) = mask 4" and 7: "(7 :: uuid) = mask 3"
      by (simp_all add: mask_eq_exp_minus_1)
    show "bit (uuid_version ?u) n = bit (7 :: uuid) n"
      unfolding uuid_version_def 15 7
      by (auto simp: bit_and_iff bit_drop_bit_eq bit_mask_iff bit_uuid7 bit_layout ra rb')
  qed
  moreover have "?u \<noteq> 0"
    using variant by (auto simp: uuid_is_rfc4122_def)
  ultimately show ?thesis using variant by (simp add: is_uuid7_def)
qed

lemma layout_timestamp:
  assumes "0 \<le> t" "t < 2 ^ 48" "0 \<le> ra" "ra < 2 ^ 12" "0 \<le> rb" "rb < 2 ^ 62"
  shows "uint (drop_bit 80 (word_of_int (uuid7_layout t ra rb) :: uuid)) = t"
proof -
  have "drop_bit 80 (uuid7_layout t ra rb) = t"
  proof (rule bit_eqI)
    fix n
    show "bit (drop_bit 80 (uuid7_layout t ra rb)) n = bit t n"
      using bit_nonneg_bound [OF assms(3,4), of "n + 16"] bit_nonneg_bound [OF assms(5,6), of "n + 80"]
      by (auto simp: bit_drop_bit_eq bit_layout add.commute)
  qed
  moreover have "uint (word_of_int (uuid7_layout t ra rb) :: uuid) = uuid7_layout t ra rb"
    using layout_range [OF assms] by (simp add: uint_word_of_int)
  ultimately show ?thesis by (simp add: drop_bit_eq_div uint_div)
qed

lemma new_uuid7_out_of_range:
  "\<not> (0 \<le> t \<and> t < 2 ^ 48) \<Longrightarrow> new_uuid7 t ra rb = Inl (ValueError ''UUIDv7 timestamp out of range'')"
  by (auto simp: new_uuid7_def)

subsection \<open>Properties\<close>

lemma timestamp_readable:
  assumes "0 \<le> random_a" "random_a < 2 ^ 12" "0 \<le> random_b" "random_b < 2 ^ 62"
    and "new_uuid7 timestamp random_a random_b = Inr u"
  shows "0 \<le> timestamp \<and> timestamp < 2 ^ 48 \<and> is_uuid7 u \<and> uint (drop_bit 80 u) = timestamp"
proof (cases "0 \<le> timestamp \<and> timestamp < 2 ^ 48")
  case True
  then have "u = word_of_int (uuid7_layout timestamp random_a random_b)"
    using assms by (simp add: new_uuid7_eq)
  with True assms(1-4) show ?thesis by (simp only: layout_timestamp layout_is_uuid7)
next
  case False
  then show ?thesis using assms(5) by (auto simp: new_uuid7_out_of_range)
qed

text \<open>
  \<open>new_uuid7\<close> returns an identifier for exactly the 48-bit timestamps; whatever the
  random bits are, the identifier is a well-formed UUIDv7, so it passes \<open>require_uuid7\<close> at
  every later boundary, and its upper 48 bits give the timestamp back.
\<close>
theorem new_uuid7_well_formed:
  assumes "0 \<le> random_a" "random_a < 2 ^ 12" "0 \<le> random_b" "random_b < 2 ^ 62"
  shows "(case new_uuid7 timestamp random_a random_b of
            Inr u \<Rightarrow> 0 \<le> timestamp \<and> timestamp < 2 ^ 48 \<and> require_uuid7 u field = Inr u
              \<and> uint (drop_bit 80 u) = timestamp
          | Inl e \<Rightarrow> \<not> (0 \<le> timestamp \<and> timestamp < 2 ^ 48)
              \<and> e = ValueError ''UUIDv7 timestamp out of range'')"
proof (cases "0 \<le> timestamp \<and> timestamp < 2 ^ 48")
  case True
  then show ?thesis
    using assms
    by (simp add: new_uuid7_eq layout_timestamp require_uuid7_def layout_is_uuid7)
next
  case False
  then show ?thesis by (auto simp: new_uuid7_out_of_range)
qed

lemma new_uuid7_well_formed_witness:
  "new_uuid7 1700000000000 5 9 = Inr (0x18bcfe5680070058000000000000009 :: uuid)
   \<and> (case new_uuid7 1700000000000 5 9 of Inr u \<Rightarrow> is_uuid7 u | Inl e \<Rightarrow> False)"
proof
  show *: "new_uuid7 1700000000000 5 9 = Inr (0x18bcfe5680070058000000000000009 :: uuid)"
    by (simp add: new_uuid7_def uuid7_layout_def)
  show "(case new_uuid7 1700000000000 5 9 of Inr u \<Rightarrow> is_uuid7 u | Inl e \<Rightarrow> False)"
    using new_uuid7_well_formed [of 5 9 1700000000000 "''id''"] *
    by (auto simp: require_uuid7_def split: if_splits)
qed

text \<open>
  Identifiers are ordered by creation time: of two identifiers generated at different
  milliseconds the later one is the larger 128-bit number, whatever their random bits.  The
  outbox relies on it when it claims rows in the order of their ids.
\<close>
theorem new_uuid7_time_ordered:
  assumes "0 \<le> ra" "ra < 2 ^ 12" "0 \<le> rb" "rb < 2 ^ 62" "0 \<le> ra'" "ra' < 2 ^ 12" "0 \<le> rb'" "rb' < 2 ^ 62"
    and "new_uuid7 t ra rb = Inr u" "new_uuid7 t' ra' rb' = Inr u'" "t < t'"
  shows "u < u'"
proof (rule ccontr)
  assume "\<not> u < u'"
  then have "uint u' \<le> uint u" by (simp add: word_less_def)
  then have "uint (drop_bit 80 u') \<le> uint (drop_bit 80 u)"
    by (simp add: drop_bit_eq_div uint_div zdiv_mono1)
  moreover have "uint (drop_bit 80 u) = t" "uint (drop_bit 80 u') = t'"
    using timestamp_readable [OF assms(1-4,9)] timestamp_readable [OF assms(5-8,10)] by auto
  ultimately show False using assms(11) by simp
qed

lemma new_uuid7_time_ordered_witness:
  "\<exists>u u'. new_uuid7 1 4095 7 = Inr u \<and> new_uuid7 2 0 0 = Inr u' \<and> u < u'"
  using new_uuid7_time_ordered [of 4095 7 0 0 1 _ 2]
  by (simp add: new_uuid7_def uuid7_layout_def)

text \<open>Sample identifiers, for the evaluations on concrete inputs.\<close>

definition u7 :: "uuid \<Rightarrow> uuid" where
  "u7 n = 0x70008000000000000000 OR n"

lemma u7_uuid7 [simp]:
  "is_uuid7 (u7 1)" "is_uuid7 (u7 2)" "is_uuid7 (u7 3)" "is_uuid7 (u7 4)" "is_uuid7 (u7 5)"
  "is_uuid7 (u7 6)" "is_uuid7 (u7 7)" "is_uuid7 (u7 8)" "is_uuid7 (u7 9)" "is_uuid7 (u7 10)"
  "is_uuid7 (u7 11)" "is_uuid7 (u7 12)" "is_uuid7 (u7 13)" "is_uuid7 (u7 14)" "is_uuid7 (u7 15)"
  by (simp_all add: is_uuid7_def uuid_is_rfc4122_def uuid_version_def u7_def)

end
