(* ===== verification/Calendar.thy ===== *)
theory Calendar
  imports Text Uuid7
begin

text \<open>
  Renderings of the standard library that the signed messages rest on: fixed-width digits,
  \<open>str(UUID)\<close>, and the ISO form of a UTC datetime with its calendar (\<open>date.fromordinal\<close>).  Each is
  injective, which is what a signature over the rendering needs.  The epoch of \<open>dt_wall\<close> is
  1970-01-01T00:00:00.
\<close>

subsection \<open>Digits\<close>

fun pad :: "nat \<Rightarrow> nat \<Rightarrow> nat \<Rightarrow> string" where
  "pad b 0 n = []"
| "pad b (Suc k) n = pad b k (n div b) @ [hex_digit (n mod b)]"

lemma length_pad [simp]: "length (pad b k n) = k"
  by (induction k arbitrary: n) auto

lemma code_char_of: "n < 256 \<Longrightarrow> code (char_of n) = n"
  unfolding code_def of_char_of by simp

lemma code_hex_digit: "i < 16 \<Longrightarrow> code (hex_digit i) = (if i < 10 then 48 + i else 87 + i)"
  unfolding hex_digit_def by (rule code_char_of) (cases "i < 10", simp_all)

lemma hex_digit_inject:
  assumes "i < 16" "j < 16" "hex_digit i = hex_digit j"
  shows "i = j"
proof -
  have "(if i < 10 then 48 + i else 87 + i) = (if j < 10 then 48 + j else 87 + j)"
    using code_hex_digit [OF assms(1)] code_hex_digit [OF assms(2)] assms(3) by metis
  then show ?thesis by presburger
qed

lemma pad_inject:
  assumes "1 < b" "b \<le> 16" "n < b ^ k" "m < b ^ k" "pad b k n = pad b k m"
  shows "n = m"
  using assms(3-5)
proof (induction k arbitrary: n m)
  case (Suc k)
  have "n div b < b ^ k" "m div b < b ^ k"
    using Suc.prems(1,2) assms(1) by (simp_all add: less_mult_imp_div_less mult.commute)
  then have eq: "n div b = m div b" using Suc.IH Suc.prems(3) by simp
  have "n mod b < 16" "m mod b < 16"
    using assms(1,2) by (meson mod_less_divisor order_less_le_trans less_trans zero_less_one)+
  moreover have "hex_digit (n mod b) = hex_digit (m mod b)" using Suc.prems(3) by simp
  ultimately have "n mod b = m mod b" by (intro hex_digit_inject)
  with eq show ?case by (metis div_mod_decomp)
qed simp

definition digit_value :: "char \<Rightarrow> nat" where
  "digit_value c = code c - 48"

lemma nat_digits_value: "foldl (\<lambda>a c. 10 * a + digit_value c) 0 (nat_digits n) = n"
proof (induction n rule: nat_digits.induct)
  case (1 n)
  show ?case
  proof (cases "n < 10")
    case True
    then show ?thesis by (subst nat_digits.simps) (simp add: digit_value_def code_def)
  next
    case False
    then show ?thesis using 1 by (subst nat_digits.simps) (simp add: digit_value_def code_def)
  qed
qed

lemma nat_digits_inject: "nat_digits n = nat_digits m \<Longrightarrow> n = m"
  by (metis nat_digits_value)

lemma nat_digits_chars: "c \<in> set (nat_digits n) \<Longrightarrow> 48 \<le> code c \<and> code c \<le> 57"
proof (induction n rule: nat_digits.induct)
  case (1 n)
  then show ?case
    by (cases "n < 10") (auto simp: nat_digits.simps [of n] code_def take_bit_eq_mod)
qed

lemma length_nat_digits: "n < 10 ^ Suc k \<Longrightarrow> length (nat_digits n) \<le> Suc k"
proof (induction k arbitrary: n)
  case 0
  then show ?case by (subst nat_digits.simps) simp
next
  case (Suc k)
  have "n div 10 < 10 ^ Suc k" using Suc.prems by (simp add: less_mult_imp_div_less)
  then show ?case using Suc.IH [of "n div 10"] by (subst nat_digits.simps) simp
qed

subsection \<open>UUID text\<close>

definition uuid_str :: "uuid \<Rightarrow> string" where
  "uuid_str u = (let h = pad 16 32 (unat u) in
     take 8 h @ ''-'' @ take 4 (drop 8 h) @ ''-'' @ take 4 (drop 12 h) @ ''-'' @ take 4 (drop 16 h) @ ''-'' @ drop 20 h)"

lemma length_uuid_str [simp]: "length (uuid_str u) = 36"
  by (simp add: uuid_str_def Let_def)

lemma uuid_str_inject:
  assumes "uuid_str u = uuid_str v"
  shows "u = v"
proof -
  have split: "drop n h = take m (drop n h) @ drop (n + m) h" for n m and h :: string
    by (metis append_take_drop_id drop_drop add.commute)
  let ?h = "pad 16 32 (unat u)" and ?k = "pad 16 32 (unat v)"
  have parts: "take 8 ?h = take 8 ?k" "take 4 (drop 8 ?h) = take 4 (drop 8 ?k)"
    "take 4 (drop 12 ?h) = take 4 (drop 12 ?k)" "take 4 (drop 16 ?h) = take 4 (drop 16 ?k)" "drop 20 ?h = drop 20 ?k"
    using assms unfolding uuid_str_def Let_def by (simp_all add: append_eq_append_conv del: pad.simps)
  then have "drop 16 ?h = drop 16 ?k" using split [of 16 ?h 4] split [of 16 ?k 4] by simp
  then have "drop 12 ?h = drop 12 ?k" using parts split [of 12 ?h 4] split [of 12 ?k 4] by simp
  then have "drop 8 ?h = drop 8 ?k" using parts split [of 8 ?h 4] split [of 8 ?k 4] by simp
  then have "?h = ?k" using parts(1) append_take_drop_id [of 8 ?h] append_take_drop_id [of 8 ?k] by metis
  moreover have "unat w < 16 ^ 32" for w :: uuid
    using unsigned_less [of w, where 'a = nat] by simp
  ultimately have "unat u = unat v" by (intro pad_inject) auto
  then show ?thesis by (simp add: word_unat_eq_iff)
qed

subsection \<open>The calendar\<close>

text \<open>Year, month and day of a day number, counted from 0 for 0001-01-01.\<close>

definition leap_year :: "nat \<Rightarrow> bool" where
  "leap_year y \<longleftrightarrow> y mod 4 = 0 \<and> (y mod 100 \<noteq> 0 \<or> y mod 400 = 0)"

definition days_before_year :: "nat \<Rightarrow> nat" where
  "days_before_year y = (let p = y - 1 in p * 365 + p div 4 - p div 100 + p div 400)"

definition year_and_day :: "nat \<Rightarrow> nat \<times> nat" where
  "year_and_day n =
     (let n400 = n div 146097; r400 = n mod 146097;
          n100 = r400 div 36524; r100 = r400 mod 36524;
          n4 = r100 div 1461; r4 = r100 mod 1461;
          n1 = r4 div 365; r1 = r4 mod 365;
          year = n400 * 400 + n100 * 100 + n4 * 4 + n1 + 1
      in if n1 = 4 \<or> n100 = 4 then (year - 1, 365) else (year, r1))"

definition month_lengths :: "bool \<Rightarrow> nat list" where
  "month_lengths leap = [31, if leap then 29 else 28, 31, 30, 31, 30, 31, 31, 30, 31, 30, 31]"

fun month_and_day :: "nat list \<Rightarrow> nat \<Rightarrow> nat \<Rightarrow> nat \<times> nat" where
  "month_and_day [] m d = (m, d)"
| "month_and_day (l # ls) m d = (if d < l then (m, d) else month_and_day ls (Suc m) (d - l))"

lemma days_before_year_split:
  assumes "b \<le> 3" "c \<le> 24" "d \<le> 3"
  shows "days_before_year (a * 400 + b * 100 + c * 4 + d + 1) = 146097 * a + 36524 * b + 1461 * c + 365 * d"
proof -
  let ?p = "a * 400 + b * 100 + c * 4 + d"
  have "?p div 4 = a * 100 + b * 25 + c" "?p div 100 = a * 4 + b" "?p div 400 = a"
    using assms by (auto intro!: div_nat_eqI)
  then show ?thesis by (simp add: days_before_year_def Let_def)
qed

lemma last_leap_day: "x < 1461 \<Longrightarrow> x div 365 = 4 \<Longrightarrow> x mod 365 = (0::nat)"
  using mult_div_mod_eq [of 365 x] by linarith

lemma year_and_day_inverse:
  assumes "year_and_day n = (y, r)"
  shows "days_before_year y + r = n" "r \<le> 365"
proof -
  define a b c d e where "a = n div 146097" and "b = n mod 146097 div 36524" and "c = n mod 146097 mod 36524 div 1461"
    and "d = n mod 146097 mod 36524 mod 1461 div 365" and "e = n mod 146097 mod 36524 mod 1461 mod 365"
  have n: "n = 146097 * a + 36524 * b + 1461 * c + 365 * d + e"
    unfolding a_def b_def c_def d_def e_def by (simp add: algebra_simps flip: mult.assoc)
  have "n mod 146097 mod 36524 < 25 * 1461"
    by (rule order_less_trans [OF mod_less_divisor]) simp_all
  then have "c < 25" unfolding c_def by (rule less_mult_imp_div_less)
  then have c: "c \<le> 24" by simp
  have "n mod 146097 < 5 * 36524" by (rule order_less_trans [OF mod_less_divisor]) simp_all
  then have "b < 5" unfolding b_def by (rule less_mult_imp_div_less)
  then have b: "b \<le> 4" by simp
  have "n mod 146097 mod 36524 mod 1461 < 5 * 365" by (rule order_less_trans [OF mod_less_divisor]) simp_all
  then have "d < 5" unfolding d_def by (rule less_mult_imp_div_less)
  then have d: "d \<le> 4" by simp
  have e: "e < 365" unfolding e_def by (rule mod_less_divisor) simp
  have b4: "c = 0 \<and> d = 0 \<and> e = 0" if "b = 4"
  proof -
    have "n mod 146097 mod 36524 = 0" using that mod_less_divisor [of 146097 n] mult_div_mod_eq [of 36524 "n mod 146097"]
      unfolding b_def by linarith
    then show ?thesis unfolding c_def d_def e_def by simp
  qed
  have d4: "e = 0" if "d = 4"
    using that unfolding d_def e_def by (intro last_leap_day) simp_all
  have yr: "(y, r) = (if d = 4 \<or> b = 4 then (a * 400 + b * 100 + c * 4 + d, 365) else (a * 400 + b * 100 + c * 4 + d + 1, e))"
  proof -
    have "year_and_day n = (if d = 4 \<or> b = 4 then (a * 400 + b * 100 + c * 4 + d + 1 - 1, 365)
        else (a * 400 + b * 100 + c * 4 + d + 1, e))"
      unfolding year_and_day_def Let_def a_def b_def c_def d_def e_def by (rule if_cong) auto
    then show ?thesis using assms by simp
  qed
  consider "b = 4" | "b \<le> 3" "d = 4" | "b \<le> 3" "d \<le> 3" using b d by linarith
  then have "days_before_year y + r = n \<and> r \<le> 365"
  proof cases
    case 1
    then show ?thesis using yr b4 days_before_year_split [of 3 24 3 a] n by (simp add: ac_simps)
  next
    case 2
    then show ?thesis using yr d4 days_before_year_split [of b c 3 a] c n by (simp add: ac_simps)
  next
    case 3
    then show ?thesis using yr days_before_year_split [of b c d a] c n e by simp
  qed
  then show "days_before_year y + r = n" "r \<le> 365" by simp_all
qed

lemma month_and_day_inverse:
  "month_and_day ls m d = (m', d') \<Longrightarrow>
     m \<le> m' \<and> m' \<le> m + length ls \<and> sum_list (take (m' - m) ls) + d' = d"
proof (induction ls m d rule: month_and_day.induct)
  case (2 l ls m d)
  show ?case
  proof (cases "d < l")
    case False
    with 2 have "Suc m \<le> m' \<and> m' \<le> Suc m + length ls \<and> sum_list (take (m' - Suc m) ls) + d' = d - l" by simp
    moreover from this have "m' - m = Suc (m' - Suc m)" by arith
    ultimately show ?thesis using False by auto
  qed (use 2 in simp)
qed simp

lemma day_bound:
  "month_and_day ls m d = (m', d') \<Longrightarrow> d < sum_list ls + 32 \<Longrightarrow> list_all (\<lambda>l. l \<le> 31) ls \<Longrightarrow> d' < 32"
  by (induction ls m d rule: month_and_day.induct) (auto split: if_splits)

subsection \<open>\<open>_canonical_datetime\<close>\<close>

text \<open>The instant 1970-01-01 is day 719162 of the calendar; \<open>%Y\<close> is not padded.\<close>

definition calendar_day :: "datetime \<Rightarrow> int" where
  "calendar_day d = 719162 + dt_wall d div 86400000000"

definition canonical_datetime :: "datetime \<Rightarrow> string result" where
  "canonical_datetime d =
     (if \<not> is_utc d then Inl (ValueError ''envelope issued_at must be UTC-aware'')
      else
        let (year, r) = year_and_day (nat (calendar_day d));
            (month, day) = month_and_day (month_lengths (leap_year year)) 1 r;
            tod = nat (dt_wall d mod 86400000000);
            s = tod div 1000000; us = tod mod 1000000
        in Inr (nat_digits year @ ''-'' @ pad 10 2 month @ ''-'' @ pad 10 2 (day + 1) @ ''T''
             @ pad 10 2 (s div 3600) @ '':'' @ pad 10 2 (s div 60 mod 60) @ '':'' @ pad 10 2 (s mod 60)
             @ (if us = 0 then [] else ''.'' @ pad 10 6 us) @ ''Z''))"

text \<open>What Python's \<open>datetime\<close> can represent: years 1 to 9999.\<close>

definition representable :: "datetime \<Rightarrow> bool" where
  "representable d \<longleftrightarrow> 0 \<le> calendar_day d \<and> calendar_day d < 3652059"


lemma split_at_dash:
  assumes "CHR ''-'' \<notin> set s" "CHR ''-'' \<notin> set s'" "s @ CHR ''-'' # t = s' @ CHR ''-'' # t'"
  shows "s = s' \<and> t = t'"
  using assms
proof (induction s arbitrary: s')
  case Nil
  then show ?case by (cases s') auto
next
  case (Cons c s)
  then show ?case by (cases s') auto
qed

lemma nat_digits_no_dash: "CHR ''-'' \<notin> set (nat_digits n)"
  using nat_digits_chars [of "CHR ''-''" n] by (auto simp: code_def)

lemma fraction_inject:
  assumes "n < 1000000" "m < 1000000"
    and "(if n = 0 then [] else ''.'' @ pad 10 6 n) @ ''Z'' = (if m = 0 then [] else ''.'' @ pad 10 6 m) @ ''Z''"
  shows "n = m"
proof (cases "n = 0 \<or> m = 0")
  case True
  then show ?thesis using arg_cong [OF assms(3), of length] by (auto split: if_splits simp del: pad.simps)
next
  case False
  then have "pad 10 6 n = pad 10 6 m" using assms(3) by (simp del: pad.simps)
  then show ?thesis using assms(1,2) by (intro pad_inject) auto
qed

lemma time_of_day_inject:
  assumes "s < 86400" "s' < (86400::nat)" "s div 3600 = s' div 3600" "s div 60 mod 60 = s' div 60 mod 60"
    "s mod 60 = s' mod 60"
  shows "s = s'"
proof -
  have "s div 60 div 60 = s' div 60 div 60" using assms(3) by (simp flip: div_mult2_eq)
  then have "s div 60 = s' div 60" using assms(4) by (metis div_mult_mod_eq)
  then show ?thesis using assms(5) by (metis div_mult_mod_eq)
qed

lemma month_lengths_sum: "sum_list (month_lengths leap) = (if leap then 366 else 365)"
  "list_all (\<lambda>l. l \<le> 31) (month_lengths leap)" "length (month_lengths leap) = 12"
  by (simp_all add: month_lengths_def)

lemma civil_inject:
  assumes "year_and_day n = (y, r)" "month_and_day (month_lengths (leap_year y)) 1 r = (m, d)"
    and "year_and_day n' = (y', r')" "month_and_day (month_lengths (leap_year y')) 1 r' = (m', d')"
    and "y' = y" "m' = m" "d' = d"
  shows "n' = n"
proof -
  have "r' = r" using month_and_day_inverse [OF assms(2)] month_and_day_inverse [OF assms(4)] assms(5-7) by simp
  then show ?thesis
    using year_and_day_inverse(1) [OF assms(1)] year_and_day_inverse(1) [OF assms(3)] assms(5) by simp
qed

lemma civil_bounds:
  assumes "year_and_day n = (y, r)" "month_and_day (month_lengths (leap_year y)) 1 r = (m, d)"
  shows "m < 100" "d + 1 < 100"
proof -
  show "m < 100"
    using month_and_day_inverse [OF assms(2)] month_lengths_sum(3) [of "leap_year y"] by simp
  have "r < sum_list (month_lengths (leap_year y)) + 32"
    using year_and_day_inverse(2) [OF assms(1)] by (simp add: month_lengths_sum)
  then show "d + 1 < 100"
    using day_bound [OF assms(2) _ month_lengths_sum(2)] by simp
qed

lemma pad2_inject: "n < 100 \<Longrightarrow> m < 100 \<Longrightarrow> pad 10 2 n = pad 10 2 m \<longleftrightarrow> n = m"
  using pad_inject [of 10 n 2 m] by auto

lemma canonical_datetime_inject:
  assumes "canonical_datetime d = Inr s" "canonical_datetime d' = Inr s" "representable d" "representable d'"
  shows "d = d'"
proof -
  have utc: "is_utc d" "is_utc d'" using assms(1,2) by (auto simp: canonical_datetime_def split: if_splits)
  obtain y r where y: "year_and_day (nat (calendar_day d)) = (y, r)" by fastforce
  obtain y' r' where y': "year_and_day (nat (calendar_day d')) = (y', r')" by fastforce
  obtain m e where m: "month_and_day (month_lengths (leap_year y)) 1 r = (m, e)" by fastforce
  obtain m' e' where m': "month_and_day (month_lengths (leap_year y')) 1 r' = (m', e')" by fastforce
  define t t' where "t = nat (dt_wall d mod 86400000000)" and "t' = nat (dt_wall d' mod 86400000000)"
  define h h' where "h = t div 1000000" and "h' = t' div 1000000"
  have bound: "t < 86400000000" "t' < 86400000000" by (simp_all add: t_def t'_def nat_less_iff)
  then have hb: "h < 86400" "h' < 86400" unfolding h_def h'_def by (simp_all add: less_mult_imp_div_less)
  have eq: "nat_digits y @ ''-'' @ pad 10 2 m @ ''-'' @ pad 10 2 (e + 1) @ ''T''
      @ pad 10 2 (h div 3600) @ '':'' @ pad 10 2 (h div 60 mod 60) @ '':'' @ pad 10 2 (h mod 60)
      @ (if t mod 1000000 = 0 then [] else ''.'' @ pad 10 6 (t mod 1000000)) @ ''Z''
    = nat_digits y' @ ''-'' @ pad 10 2 m' @ ''-'' @ pad 10 2 (e' + 1) @ ''T''
      @ pad 10 2 (h' div 3600) @ '':'' @ pad 10 2 (h' div 60 mod 60) @ '':'' @ pad 10 2 (h' mod 60)
      @ (if t' mod 1000000 = 0 then [] else ''.'' @ pad 10 6 (t' mod 1000000)) @ ''Z''"
    using assms(1,2) utc y y' m m'
    unfolding canonical_datetime_def Let_def t_def [symmetric] t'_def [symmetric] h_def [symmetric] h'_def [symmetric]
    by (simp del: pad.simps)
  define R R' where "R = pad 10 2 m @ ''-'' @ pad 10 2 (e + 1) @ ''T''
      @ pad 10 2 (h div 3600) @ '':'' @ pad 10 2 (h div 60 mod 60) @ '':'' @ pad 10 2 (h mod 60)
      @ (if t mod 1000000 = 0 then [] else ''.'' @ pad 10 6 (t mod 1000000)) @ ''Z''"
    and "R' = pad 10 2 m' @ ''-'' @ pad 10 2 (e' + 1) @ ''T''
      @ pad 10 2 (h' div 3600) @ '':'' @ pad 10 2 (h' div 60 mod 60) @ '':'' @ pad 10 2 (h' mod 60)
      @ (if t' mod 1000000 = 0 then [] else ''.'' @ pad 10 6 (t' mod 1000000)) @ ''Z''"
  have "nat_digits y @ CHR ''-'' # R = nat_digits y' @ CHR ''-'' # R'"
    using eq by (simp only: R_def R'_def append_Cons append_Nil)
  then have yy: "y = y'" and rest: "R = R'"
    using split_at_dash [OF nat_digits_no_dash nat_digits_no_dash] nat_digits_inject by metis+
  have parts: "pad 10 2 m = pad 10 2 m'" "pad 10 2 (e + 1) = pad 10 2 (e' + 1)"
    "pad 10 2 (h div 3600) = pad 10 2 (h' div 3600)" "pad 10 2 (h div 60 mod 60) = pad 10 2 (h' div 60 mod 60)"
    "pad 10 2 (h mod 60) = pad 10 2 (h' mod 60)"
    "(if t mod 1000000 = 0 then [] else ''.'' @ pad 10 6 (t mod 1000000)) @ ''Z''
      = (if t' mod 1000000 = 0 then [] else ''.'' @ pad 10 6 (t' mod 1000000)) @ ''Z''"
    using rest unfolding R_def R'_def by (simp_all del: pad.simps add: append_eq_append_conv)
  note b = civil_bounds [OF y m] civil_bounds [OF y' m']
  have "m = m'" "e = e'" using parts(1,2) b by (simp_all add: pad2_inject del: pad.simps)
  then have days: "nat (calendar_day d) = nat (calendar_day d')"
    using civil_inject [OF y m y' m'] yy by simp
  have "h div 3600 < 100" "h' div 3600 < 100" "h div 60 mod 60 < 100" "h' div 60 mod 60 < 100" "h mod 60 < 100" "h' mod 60 < 100"
    using hb mod_less_divisor [of 60 h] mod_less_divisor [of 60 h'] mod_less_divisor [of 60 "h div 60"]
      mod_less_divisor [of 60 "h' div 60"] by (auto intro!: less_mult_imp_div_less order_less_trans [of _ 60 100])
  then have "h div 3600 = h' div 3600" "h div 60 mod 60 = h' div 60 mod 60" "h mod 60 = h' mod 60"
    using parts(3-5) pad2_inject by blast+
  then have "h = h'" by (rule time_of_day_inject [OF hb])
  moreover have "t mod 1000000 = t' mod 1000000" using parts(6) by (intro fraction_inject) simp_all
  ultimately have "t = t'" unfolding h_def h'_def by (metis div_mult_mod_eq)
  moreover have "dt_wall d div 86400000000 = dt_wall d' div 86400000000"
    using days assms(3,4) unfolding representable_def calendar_day_def by linarith
  moreover have "dt_wall d mod 86400000000 = dt_wall d' mod 86400000000"
    using \<open>t = t'\<close> by (simp add: t_def t'_def)
  ultimately have "dt_wall d = dt_wall d'" by (metis div_mult_mod_eq)
  then show ?thesis using utc by (cases d; cases d') (simp add: is_utc_def)
qed

lemma canonical_datetime_length:
  assumes "canonical_datetime d = Inr s" "representable d"
  shows "length s \<le> 30"
proof -
  obtain y r where y: "year_and_day (nat (calendar_day d)) = (y, r)" by fastforce
  obtain m e where m: "month_and_day (month_lengths (leap_year y)) 1 r = (m, e)" by fastforce
  have "days_before_year y < 3652059"
    using year_and_day_inverse [OF y] assms(2) unfolding representable_def by linarith
  then have "y < 10000" by (simp add: days_before_year_def Let_def)
  then have "length (nat_digits y) \<le> 4" using length_nat_digits [of y 3] by simp
  then show ?thesis
    using assms(1) y m by (auto simp: canonical_datetime_def Let_def split: if_splits simp del: pad.simps)
qed

lemma pad_numeral: "pad b (numeral k) n = pad b (pred_numeral k) (n div b) @ [hex_digit (n mod b)]"
  by (simp add: numeral_eq_Suc)

lemma canonical_datetime_sample:
  "canonical_datetime (aware 1709164800123456) = Inr ''2024-02-29T00:00:00.123456Z''"
proof -
  have day: "nat (calendar_day (aware 1709164800123456)) = 738944" by (simp add: calendar_day_def)
  have y: "year_and_day 738944 = (2024, 59)" by (simp add: year_and_day_def Let_def)
  have m: "month_and_day (month_lengths (leap_year 2024)) 1 59 = (2, 28)"
    by (simp add: month_lengths_def leap_year_def numeral_2_eq_2)
  show ?thesis
    unfolding canonical_datetime_def day y m Let_def prod.case
    by (simp add: pad_numeral nat_digits.simps hex_digit_def) code_simp
qed

end
