(* ===== verification/Tables.thy ===== *)
theory Tables
  imports Prelude
begin

text \<open>
  The SQL statements the repositories issue, over a table that is the list of its rows:
  \<open>SELECT ... LIMIT 1\<close>, \<open>UPDATE ... SET ... WHERE ...\<close> with its row count and the
  \<open>CHECK\<close> constraints of the table, and \<open>INSERT\<close> with its unique keys.  A statement that
  breaks a constraint raises \<open>DatabaseError\<close> and the transaction rolls back.

  Almost every write of the repositories is a \<^emph>\<open>guarded update\<close>: one statement whose
  \<open>WHERE\<close> clause names one row and repeats the state the caller expects, and whose row count
  tells the caller whether it won. The locale \<open>guarded_update\<close> states that contract once;
  \<open>cas_update\<close> adds that a winner invalidates the guard of a rival.  The component theories
  interpret them on their statements.
\<close>

named_theorems table_rules \<open>facts about the tables after a statement\<close>

subsection \<open>Statements\<close>

definition sql_scalar :: "('r \<Rightarrow> bool) \<Rightarrow> 'r list \<Rightarrow> 'r option" where
  "sql_scalar p rows = find p rows"

definition sql_update ::
    "('r \<Rightarrow> bool) \<Rightarrow> ('r \<Rightarrow> bool) \<Rightarrow> ('r \<Rightarrow> 'r) \<Rightarrow> 'r list \<Rightarrow> ('r list \<times> nat) result" where
  "sql_update chk p f rows =
     (if list_all (\<lambda>r. chk (f r)) (filter p rows)
      then Inr (map (\<lambda>r. if p r then f r else r) rows, length (filter p rows))
      else Inl (DatabaseError ''check constraint violated''))"

definition sql_insert ::
    "('r \<Rightarrow> bool) \<Rightarrow> ('r \<Rightarrow> 'r \<Rightarrow> bool) \<Rightarrow> 'r \<Rightarrow> 'r list \<Rightarrow> 'r list result" where
  "sql_insert chk conflict r rows =
     (if \<not> chk r then Inl (DatabaseError ''check constraint violated'')
      else if list_ex (conflict r) rows then Inl (DatabaseError ''duplicate key'')
      else Inr (rows @ [r]))"

definition row_of :: "('r \<Rightarrow> 'k) \<Rightarrow> 'k \<Rightarrow> 'r list \<Rightarrow> 'r option" where
  "row_of key k rows = find (\<lambda>r. key r = k) rows"

subsection \<open>Facts about single statements\<close>

lemma find_SomeD: "find p rows = Some r \<Longrightarrow> r \<in> set rows \<and> p r"
  by (induction rows) (auto split: if_splits)

lemma sql_scalar_SomeD: "sql_scalar p rows = Some r \<Longrightarrow> r \<in> set rows \<and> p r"
  by (simp add: sql_scalar_def find_SomeD)

lemma row_of_SomeD: "row_of key k rows = Some r \<Longrightarrow> r \<in> set rows \<and> key r = k"
  unfolding row_of_def by (rule find_SomeD)

lemma row_of_iff:
  "distinct (map key rows) \<Longrightarrow> row_of key k rows = Some r \<longleftrightarrow> r \<in> set rows \<and> key r = k"
  by (induction rows) (auto simp: row_of_def)

lemma row_of_append:
  "row_of key k (rows @ rows') = (case row_of key k rows of None \<Rightarrow> row_of key k rows' | Some r \<Rightarrow> Some r)"
  by (induction rows) (auto simp: row_of_def)

lemma row_of_map:
  "(\<And>r. key (f r) = key r) \<Longrightarrow> row_of key k (map f rows) = map_option f (row_of key k rows)"
  by (induction rows) (auto simp: row_of_def)

lemma sql_scalar_row_of: "sql_scalar (\<lambda>r. key r = k) rows = row_of key k rows"
  by (simp add: sql_scalar_def row_of_def)

lemma row_of_None: "row_of key k rows = None \<longleftrightarrow> k \<notin> key ` set rows"
  by (induction rows) (auto simp: row_of_def)

lemma sql_update_Inr:
  "sql_update chk p f rows = Inr (rows', n) \<longleftrightarrow>
     (\<forall>r\<in>set rows. p r \<longrightarrow> chk (f r)) \<and> rows' = map (\<lambda>r. if p r then f r else r) rows
       \<and> n = length (filter p rows)"
  by (auto simp: sql_update_def list_all_iff)

lemma sql_update_rows_related:
  assumes "sql_update chk p f rows = Inr (rows', n)"
    and "\<And>r. r \<in> set rows \<Longrightarrow> R r r" and "\<And>r. r \<in> set rows \<Longrightarrow> p r \<Longrightarrow> R r (f r)"
  shows "list_all2 R rows rows'"
  using assms by (auto simp: sql_update_Inr list_all2_map2 intro: list_all2_refl list.rel_refl_strong)

lemma sql_update_preserves:
  assumes "sql_update chk p f rows = Inr (rows', n)" "list_all P rows"
    and "\<And>r. r \<in> set rows \<Longrightarrow> P r \<Longrightarrow> p r \<Longrightarrow> chk (f r) \<Longrightarrow> P (f r)"
  shows "list_all P rows'"
  using assms by (auto simp: sql_update_Inr list_all_iff)

lemma sql_update_chk:
  "sql_update chk p f rows = Inr (rows', n) \<Longrightarrow> list_all chk rows \<Longrightarrow> list_all chk rows'"
  by (rule sql_update_preserves)

lemma sql_update_miss:
  "sql_update chk p f rows = Inr (rows', 0) \<Longrightarrow> rows' = rows"
  by (auto simp: sql_update_Inr filter_empty_conv intro: map_idI)

lemma sql_update_none:
  "(\<And>r. r \<in> set rows \<Longrightarrow> \<not> p r) \<Longrightarrow> sql_update chk p f rows = Inr (rows, 0)"
  by (auto simp: sql_update_Inr intro!: map_idI [symmetric])

lemma sql_insert_Inr [table_rules]:
  "sql_insert chk conflict r rows = Inr rows' \<longleftrightarrow>
     chk r \<and> (\<forall>r'\<in>set rows. \<not> conflict r r') \<and> rows' = rows @ [r]"
  by (auto simp: sql_insert_def list_ex_iff)

lemma sql_insert_distinct:
  assumes "sql_insert chk conflict r rows = Inr rows'" "distinct (map key rows)"
    and "\<And>r'. key r' = key r \<Longrightarrow> conflict r r'"
  shows "distinct (map key rows')"
  using assms by (force simp: sql_insert_Inr)

lemma sql_insert_chk:
  "sql_insert chk conflict r rows = Inr rows' \<Longrightarrow> list_all chk rows \<Longrightarrow> list_all chk rows'"
  by (auto simp: sql_insert_Inr list_all_iff)

lemma length_filter_unique:
  assumes "distinct (map key rows)" and "\<And>r. p r \<Longrightarrow> key r = k"
  shows "length (filter p rows) \<le> 1"
  using assms(1)
proof (induction rows)
  case (Cons r rows)
  show ?case
  proof (cases "p r")
    case True
    with Cons.prems have "filter p rows = []"
      by (auto simp: filter_empty_conv dest: assms(2)) (metis assms(2) image_eqI)
    then show ?thesis by simp
  next
    case False
    with Cons show ?thesis by simp
  qed
qed simp

subsection \<open>The guarded update\<close>

locale guarded_update =
  fixes key :: "'r \<Rightarrow> 'k"
    and chk :: "'r \<Rightarrow> bool"
    and guard :: "'q \<Rightarrow> 'r \<Rightarrow> bool"
    and change :: "'q \<Rightarrow> 'r \<Rightarrow> 'r"
    and target :: "'q \<Rightarrow> 'k"
    and admissible :: "'q \<Rightarrow> 'r \<Rightarrow> bool"
  assumes guard_target: "guard q r \<Longrightarrow> key r = target q"
    and change_key: "key (change q r) = key r"
    and change_chk: "chk r \<Longrightarrow> guard q r \<Longrightarrow> admissible q r \<Longrightarrow> chk (change q r)"
begin

lemma never_rejected:
  assumes "list_all chk rows" "\<And>r. r \<in> set rows \<Longrightarrow> guard q r \<Longrightarrow> admissible q r"
  shows "\<exists>rows' n. sql_update chk (guard q) (change q) rows = Inr (rows', n)"
  using assms by (auto simp: sql_update_Inr list_all_iff change_chk)

lemma rowcount_le_1:
  assumes "distinct (map key rows)" "sql_update chk (guard q) (change q) rows = Inr (rows', n)"
  shows "n \<le> 1"
  using length_filter_unique [OF assms(1), of "guard q" "target q"] assms(2)
  by (simp add: sql_update_Inr guard_target)

lemma keys_kept:
  "sql_update chk (guard q) (change q) rows = Inr (rows', n) \<Longrightarrow> map key rows' = map key rows"
  by (auto simp: sql_update_Inr change_key)

lemma distinct_kept:
  "sql_update chk (guard q) (change q) rows = Inr (rows', n) \<Longrightarrow> distinct (map key rows)
     \<Longrightarrow> distinct (map key rows')"
  by (simp add: keys_kept)

lemma row_after:
  assumes "sql_update chk (guard q) (change q) rows = Inr (rows', n)"
  shows "row_of key k rows' =
    map_option (\<lambda>r. if guard q r then change q r else r) (row_of key k rows)"
proof -
  have "row_of key k (map (\<lambda>r. if guard q r then change q r else r) rows) =
      map_option (\<lambda>r. if guard q r then change q r else r) (row_of key k rows)"
    by (induction rows) (auto simp: row_of_def change_key)
  with assms show ?thesis by (simp add: sql_update_Inr)
qed

lemma other_rows_kept:
  assumes "sql_update chk (guard q) (change q) rows = Inr (rows', n)" "k \<noteq> target q"
  shows "row_of key k rows' = row_of key k rows"
proof (cases "row_of key k rows")
  case (Some r)
  then have "\<not> guard q r" using assms(2) guard_target row_of_SomeD by metis
  with Some assms(1) show ?thesis by (simp add: row_after)
qed (simp add: row_after [OF assms(1)])

lemma wins_iff:
  assumes "distinct (map key rows)" "sql_update chk (guard q) (change q) rows = Inr (rows', n)"
  shows "n = 1 \<longleftrightarrow> (\<exists>r. row_of key (target q) rows = Some r \<and> guard q r)"
proof
  assume "n = 1"
  then have "filter (guard q) rows \<noteq> []" using assms(2) by (auto simp: sql_update_Inr)
  then obtain r where r: "r \<in> set rows" "guard q r" by (auto simp: filter_empty_conv)
  then show "\<exists>r. row_of key (target q) rows = Some r \<and> guard q r"
    using assms(1) guard_target by (auto simp: row_of_iff)
next
  assume "\<exists>r. row_of key (target q) rows = Some r \<and> guard q r"
  then have "filter (guard q) rows \<noteq> []" by (auto simp: filter_empty_conv dest: row_of_SomeD)
  then have "n \<noteq> 0" using assms(2) by (auto simp: sql_update_Inr)
  then show "n = 1" using rowcount_le_1 [OF assms] by simp
qed

lemma winner_row:
  assumes "distinct (map key rows)" "sql_update chk (guard q) (change q) rows = Inr (rows', 1)"
  obtains r where "row_of key (target q) rows = Some r" "guard q r"
    "row_of key (target q) rows' = Some (change q r)"
  using wins_iff [OF assms] row_after [OF assms(2)] by auto

lemma loser_kept:
  assumes "distinct (map key rows)" "sql_update chk (guard q) (change q) rows = Inr (rows', n)" "n \<noteq> 1"
  shows "rows' = rows"
proof -
  have "n = 0" using rowcount_le_1 [OF assms(1,2)] assms(3) by simp
  then show ?thesis using assms(2) by (auto dest: sql_update_miss)
qed

end

text \<open>
  A compare-and-swap: \<open>stale q q'\<close> says that the two requests expect the same state, so that
  once \<open>q\<close> has won, \<open>q'\<close> can only lose.
\<close>

locale cas_update = guarded_update +
  fixes stale :: "'c \<Rightarrow> 'c \<Rightarrow> bool"
  assumes stale_target: "stale q q' \<Longrightarrow> target q' = target q"
    and stale_loses: "stale q q' \<Longrightarrow> guard q r \<Longrightarrow> \<not> guard q' (change q r)"
begin

lemma one_winner:
  assumes "distinct (map key rows)" "stale q q'"
    and "sql_update chk (guard q) (change q) rows = Inr (rows', 1)"
    and "sql_update chk (guard q') (change q') rows' = Inr (rows'', n)"
  shows "n = 0 \<and> rows'' = rows'"
proof -
  have d: "distinct (map key rows')" using assms(1,3) distinct_kept by blast
  obtain r where "row_of key (target q) rows' = Some (change q r)" "guard q r"
    using assms(1,3) by (rule winner_row)
  then have "n \<noteq> 1"
    using wins_iff [OF d assms(4)] assms(2) by (auto simp: stale_target stale_loses)
  then show ?thesis
    using rowcount_le_1 [OF d assms(4)] loser_kept [OF d assms(4)] by simp
qed

end

end
