(* ===== verification/Tenancy.thy ===== *)
theory Tenancy
  imports Uuid7
begin

text \<open>
  \<open>domain/tenancy.py\<close>: tenants, departments and memberships with the checks their
  constructors run, the tenant context a request carries, and the normalisation of tenant
  names.  A Python string that users type is the list of its Unicode code points (\<open>ustring\<close>),
  because the code counts code points; the Unicode tables behind \<open>unicodedata.normalize\<close> and
  \<open>str.casefold\<close> are parameters.
\<close>

subsection \<open>Unicode text\<close>

type_synonym ustring = "nat list"

text \<open>\<open>str.isspace\<close>, the characters \<open>str.strip\<close> removes.\<close>

definition is_space :: "nat \<Rightarrow> bool" where
  "is_space c \<longleftrightarrow> (9 \<le> c \<and> c \<le> 13) \<or> (28 \<le> c \<and> c \<le> 32) \<or> c = 133 \<or> c = 160 \<or> c = 5760
     \<or> (8192 \<le> c \<and> c \<le> 8202) \<or> c = 8232 \<or> c = 8233 \<or> c = 8239 \<or> c = 8287 \<or> c = 12288"

definition strip :: "ustring \<Rightarrow> ustring" where
  "strip s = rev (dropWhile is_space (rev (dropWhile is_space s)))"

lemma strip_Nil [simp]: "strip [] = []"
  by (simp add: strip_def)

lemma dropWhile_idem_hd: "s = [] \<or> \<not> p (hd s) \<Longrightarrow> dropWhile p s = s"
  by (cases s) auto

lemma strip_ends:
  "strip s = [] \<or> (\<not> is_space (hd (strip s)) \<and> \<not> is_space (last (strip s)))"
proof (cases "strip s = []")
  case False
  let ?t = "dropWhile is_space s"
  have t: "?t \<noteq> []"
  proof
    assume "?t = []"
    then have "strip s = []" by (simp only: strip_def rev.simps dropWhile.simps)
    with False show False ..
  qed
  have l: "\<not> is_space (last (strip s))"
    using False hd_dropWhile [of is_space "rev ?t"] by (simp add: strip_def last_rev)
  have "strip s = rev (dropWhile is_space (rev ?t))" by (simp add: strip_def)
  moreover have "rev ?t = takeWhile is_space (rev ?t) @ dropWhile is_space (rev ?t)" by simp
  ultimately have "?t = strip s @ rev (takeWhile is_space (rev ?t))"
    by (metis rev_append rev_rev_ident)
  then have "hd ?t = hd (strip s)" using False by (metis hd_append2)
  then show ?thesis using l hd_dropWhile [OF t] by simp
qed simp

lemma strip_strip [simp]: "strip (strip s) = strip s"
proof (cases "strip s = []")
  case False
  then have h: "\<not> is_space (hd (strip s))" "\<not> is_space (hd (rev (strip s)))"
    using strip_ends [of s] by (auto simp: hd_rev)
  have "dropWhile is_space (strip s) = strip s" "dropWhile is_space (rev (strip s)) = rev (strip s)"
    using h by (auto intro: dropWhile_idem_hd)
  then show ?thesis by (simp only: strip_def [of "strip s"] rev_rev_ident)
qed simp

subsection \<open>Enumerations\<close>

datatype TenantStatus =
  TenantStatus_PENDING_VERIFICATION | TenantStatus_ACTIVE | TenantStatus_SUSPENDED | TenantStatus_CLOSED

datatype DepartmentStatus = DepartmentStatus_ACTIVE | DepartmentStatus_DISABLED

datatype MembershipStatus =
  MembershipStatus_INVITED | MembershipStatus_ACTIVE | MembershipStatus_SUSPENDED | MembershipStatus_REVOKED

datatype MemberType =
  MemberType_OWNER | MemberType_INTERNAL | MemberType_STUDENT | MemberType_EXTERNAL_CLIENT

subsection \<open>Tenant names\<close>

record NormalizedTenantName =
  display_value :: ustring
  normalized_value :: ustring

definition normalize_tenant_name ::
    "(ustring \<Rightarrow> ustring) \<Rightarrow> (ustring \<Rightarrow> ustring) \<Rightarrow> ustring \<Rightarrow> NormalizedTenantName result" where
  "normalize_tenant_name nfkc casefold value =
     (let display = strip (nfkc value) in
      if display = [] \<or> length display > 255 then Inl (ValueError ''tenant name is invalid'')
      else let normalized = casefold display in
        if length normalized > 255 then Inl (ValueError ''tenant name is invalid'')
        else Inr \<lparr>display_value = display, normalized_value = normalized\<rparr>)"

subsection \<open>Field checks\<close>

definition version_ok :: "int \<Rightarrow> bool" where
  "version_ok v \<longleftrightarrow> 1 \<le> v"

definition text_ok :: "ustring \<Rightarrow> bool" where
  "text_ok s \<longleftrightarrow> strip s \<noteq> [] \<and> length s \<le> 255"

definition uuid7_error :: exn where
  "uuid7_error = ValueError ''identifier must be an RFC 9562 UUIDv7''"

definition utc_error :: exn where
  "utc_error = ValueError ''timestamp must be UTC-aware''"

definition version_error :: exn where
  "version_error = ValueError ''version must be a positive integer''"

subsection \<open>Tenants, departments, memberships\<close>

record Tenant =
  tenant_id :: uuid
  tenant_name :: ustring
  tenant_normalized_name :: ustring
  tenant_tenant_type :: string
  tenant_status :: TenantStatus
  tenant_version :: int
  tenant_created_by_user_id :: uuid
  tenant_review_status :: string

definition Tenant_post_init :: "Tenant \<Rightarrow> unit result" where
  "Tenant_post_init t = require
     [(is_uuid7 (tenant_id t), uuid7_error),
      (text_ok (tenant_name t), ValueError ''tenant name is invalid''),
      (text_ok (tenant_normalized_name t), ValueError ''normalized tenant name is invalid''),
      (tenant_tenant_type t \<in> {''law_firm'', ''enterprise'', ''university''}, ValueError ''unknown tenant type''),
      (version_ok (tenant_version t), version_error),
      (is_uuid7 (tenant_created_by_user_id t), uuid7_error),
      (tenant_review_status t \<in> {''pending'', ''approved'', ''rejected''},
        ValueError ''unknown tenant review status'')]"

record Department =
  dept_id :: uuid
  dept_tenant_id :: uuid
  dept_parent_id :: "uuid option"
  dept_name :: ustring
  dept_status :: DepartmentStatus
  dept_version :: int

definition Department_post_init :: "Department \<Rightarrow> unit result" where
  "Department_post_init d = require
     [(is_uuid7 (dept_id d), uuid7_error),
      (is_uuid7 (dept_tenant_id d), uuid7_error),
      (pred_option is_uuid7 (dept_parent_id d), uuid7_error),
      (text_ok (dept_name d), ValueError ''department name is invalid''),
      (version_ok (dept_version d), version_error)]"

record Membership =
  mem_id :: uuid
  mem_tenant_id :: uuid
  mem_user_id :: uuid
  mem_department_id :: "uuid option"
  mem_member_type :: MemberType
  mem_status :: MembershipStatus
  mem_valid_from :: datetime
  mem_valid_until :: "datetime option"
  mem_authz_version :: int
  mem_version :: int

text \<open>The window is compared by instants; both ends have passed the UTC check before.\<close>

definition Membership_post_init :: "Membership \<Rightarrow> unit result" where
  "Membership_post_init m = require
     [(is_uuid7 (mem_id m), uuid7_error),
      (is_uuid7 (mem_tenant_id m), uuid7_error),
      (is_uuid7 (mem_user_id m), uuid7_error),
      (pred_option is_uuid7 (mem_department_id m), uuid7_error),
      (is_utc (mem_valid_from m), utc_error),
      (pred_option is_utc (mem_valid_until m), utc_error),
      (pred_option (\<lambda>u. instant (mem_valid_from m) < instant u) (mem_valid_until m),
        ValueError ''membership validity window is invalid''),
      (version_ok (mem_authz_version m), version_error),
      (version_ok (mem_version m), version_error)]"

subsection \<open>Properties\<close>

text \<open>
  A name that \<open>normalize_tenant_name\<close> accepts passes the text check of \<open>Tenant\<close> for its
  display value, carries no surrounding white space, and is a fixed point: normalising the
  display value again gives the same pair.  The only fact used of the Unicode tables is that
  NFKC leaves a stripped NFKC string unchanged (normalization forms are closed under taking
  substrings, UAX 15).
\<close>
theorem normalize_tenant_name_stable:
  assumes "normalize_tenant_name nfkc casefold value = Inr name"
    and "\<And>s. nfkc (strip (nfkc s)) = strip (nfkc s)"
  shows "text_ok (display_value name) \<and> strip (display_value name) = display_value name
     \<and> length (normalized_value name) \<le> 255
     \<and> normalize_tenant_name nfkc casefold (display_value name) = Inr name"
  using assms
  by (auto simp: normalize_tenant_name_def Let_def text_ok_def split: if_splits)

lemma normalize_tenant_name_stable_witness:
  "normalize_tenant_name id id [32, 97, 98, 12288] = Inr \<lparr>display_value = [97, 98], normalized_value = [97, 98]\<rparr>
   \<and> text_ok [97, 98]"
proof
  show *: "normalize_tenant_name id id [32, 97, 98, 12288] =
      Inr \<lparr>display_value = [97, 98], normalized_value = [97, 98]\<rparr>"
    by (simp add: normalize_tenant_name_def strip_def is_space_def Let_def)
  show "text_ok [97, 98]"
    using normalize_tenant_name_stable [OF *] by simp
qed

end
