(* ===== verification/Authorization.thy ===== *)
theory Authorization
  imports Tenancy
begin

text \<open>
  \<open>domain/authorization.py\<close>: the attribute based policy of the API.  \<open>PolicyEngine_decide\<close> is
  the engine; the private \<open>_..._reason\<close> functions of the source are the definitions of the same
  names.  Python's \<open>isinstance\<close> tests hold by typing and are left out; every test on a value is
  kept, and a \<open>ValueError\<close> inside the engine becomes the reason \<open>policy_error\<close>, as in the source.

  The specification \<open>grants\<close> says in one conjunction what an allowed decision means;
  \<open>decide_allowed_iff\<close> proves the cascade of early returns equivalent to it.
\<close>

subsection \<open>Enumerations and their string values\<close>

datatype Action =
    TENANT_READ | TENANT_UPDATE | DEPARTMENT_READ | DEPARTMENT_MANAGE | MEMBERSHIP_READ
  | MEMBERSHIP_INVITE | MEMBERSHIP_UPDATE | MEMBERSHIP_REVOKE | ROLE_READ | ROLE_ASSIGN
  | EXTERNAL_SERVICE_ENABLE | TENANT_APPLICATION_READ | TENANT_APPLICATION_REVIEW
  | PLATFORM_ADMIN_BOOTSTRAP

fun Action_value :: "Action \<Rightarrow> string" where
  "Action_value TENANT_READ = ''tenant.read''"
| "Action_value TENANT_UPDATE = ''tenant.update''"
| "Action_value DEPARTMENT_READ = ''department.read''"
| "Action_value DEPARTMENT_MANAGE = ''department.manage''"
| "Action_value MEMBERSHIP_READ = ''membership.read''"
| "Action_value MEMBERSHIP_INVITE = ''membership.invite''"
| "Action_value MEMBERSHIP_UPDATE = ''membership.update''"
| "Action_value MEMBERSHIP_REVOKE = ''membership.revoke''"
| "Action_value ROLE_READ = ''role.read''"
| "Action_value ROLE_ASSIGN = ''role.assign''"
| "Action_value EXTERNAL_SERVICE_ENABLE = ''external_service.enable''"
| "Action_value TENANT_APPLICATION_READ = ''tenant_application.read''"
| "Action_value TENANT_APPLICATION_REVIEW = ''tenant_application.review''"
| "Action_value PLATFORM_ADMIN_BOOTSTRAP = ''platform_admin.bootstrap''"

definition all_actions :: "Action list" where
  "all_actions = [TENANT_READ, TENANT_UPDATE, DEPARTMENT_READ, DEPARTMENT_MANAGE, MEMBERSHIP_READ,
     MEMBERSHIP_INVITE, MEMBERSHIP_UPDATE, MEMBERSHIP_REVOKE, ROLE_READ, ROLE_ASSIGN,
     EXTERNAL_SERVICE_ENABLE, TENANT_APPLICATION_READ, TENANT_APPLICATION_REVIEW,
     PLATFORM_ADMIN_BOOTSTRAP]"

datatype PrincipalAudience = PrincipalAudience_TENANT | PrincipalAudience_PLATFORM

datatype ResourceAccessPath =
    Path_DEPARTMENT | Path_OWNER | Path_SHARED | Path_MATTER_TEAM | Path_CLASS | Path_CLIENT_DELEGATION

datatype ResourceState =
    ResourceState_ACTIVE | ResourceState_DRAFT | ResourceState_PENDING_REVIEW | ResourceState_APPROVED
  | ResourceState_DISABLED | ResourceState_DELETED | ResourceState_REVOKED | ResourceState_CLOSED

datatype ConfidentialityLevel = PUBLIC | INTERNAL | CONFIDENTIAL | RESTRICTED

fun confidentiality_rank :: "ConfidentialityLevel \<Rightarrow> nat" where
  "confidentiality_rank PUBLIC = 0"
| "confidentiality_rank INTERNAL = 1"
| "confidentiality_rank CONFIDENTIAL = 2"
| "confidentiality_rank RESTRICTED = 3"

text \<open>The ranks order the levels, so that the library's facts on linear orders apply to them.\<close>

instantiation ConfidentialityLevel :: linorder
begin

definition less_eq_ConfidentialityLevel :: "ConfidentialityLevel \<Rightarrow> ConfidentialityLevel \<Rightarrow> bool" where
  "less_eq_ConfidentialityLevel a b \<longleftrightarrow> confidentiality_rank a \<le> confidentiality_rank b"

definition less_ConfidentialityLevel :: "ConfidentialityLevel \<Rightarrow> ConfidentialityLevel \<Rightarrow> bool" where
  "less_ConfidentialityLevel a b \<longleftrightarrow> confidentiality_rank a < confidentiality_rank b"

lemma confidentiality_rank_inject: "confidentiality_rank a = confidentiality_rank b \<longleftrightarrow> a = b"
  by (cases a; cases b) simp_all

instance
  by standard
     (auto simp: less_eq_ConfidentialityLevel_def less_ConfidentialityLevel_def
       confidentiality_rank_inject [symmetric])

end

definition action_risk :: "Action \<Rightarrow> string" where
  "action_risk a =
     (if a = DEPARTMENT_READ then ''low''
      else if a \<in> {TENANT_READ, DEPARTMENT_MANAGE, MEMBERSHIP_READ, ROLE_READ} then ''medium''
      else if a \<in> {TENANT_APPLICATION_REVIEW, PLATFORM_ADMIN_BOOTSTRAP} then ''critical''
      else ''high'')"

definition known_permission_codes :: "string set" where
  "known_permission_codes = set (map Action_value all_actions)"

definition known_role_codes :: "string set" where
  "known_role_codes = {''tenant_owner'', ''tenant_admin'', ''department_admin'', ''lawyer_or_legal'',
     ''assistant'', ''teacher'', ''student'', ''external_client'', ''super_admin'',
     ''security_auditor'', ''operations_support'', ''content_operator''}"

definition platform_actions :: "Action set" where
  "platform_actions = {TENANT_APPLICATION_READ, TENANT_APPLICATION_REVIEW, PLATFORM_ADMIN_BOOTSTRAP}"

definition audited_actions :: "Action set" where
  "audited_actions = {TENANT_UPDATE, DEPARTMENT_MANAGE, MEMBERSHIP_INVITE, MEMBERSHIP_UPDATE,
     MEMBERSHIP_REVOKE, ROLE_ASSIGN, EXTERNAL_SERVICE_ENABLE, TENANT_APPLICATION_READ,
     TENANT_APPLICATION_REVIEW, PLATFORM_ADMIN_BOOTSTRAP}"

definition terminal_resource_states :: "ResourceState set" where
  "terminal_resource_states =
     {ResourceState_DISABLED, ResourceState_DELETED, ResourceState_REVOKED, ResourceState_CLOSED}"

lemma Action_value_inject [simp]: "Action_value a = Action_value b \<longleftrightarrow> a = b"
  by (cases a; cases b) simp_all

lemma Action_value_known [simp]: "Action_value a \<in> known_permission_codes"
  by (cases a) (simp_all add: known_permission_codes_def all_actions_def)

subsection \<open>Requests\<close>

record AuthorizationScope =
  department_ids :: "uuid set"
  allow_tenant_wide :: bool
  allow_owned :: bool
  allow_shared :: bool
  allow_matter_team :: bool
  allow_class :: bool
  allow_client_delegation :: bool
  maximum_confidentiality :: ConfidentialityLevel
  unrecognized_scope_codes :: "string set"

record TenantContext =
  ctx_tenant_id :: uuid
  ctx_membership_id :: "uuid option"
  ctx_membership_user_id :: "uuid option"
  ctx_department_id :: "uuid option"
  ctx_tenant_status :: TenantStatus
  ctx_membership_status :: "MembershipStatus option"
  ctx_valid_from :: "datetime option"
  ctx_valid_until :: "datetime option"
  ctx_authz_version :: "int option"
  ctx_session_authz_version :: "int option"
  ctx_scope :: AuthorizationScope

record Principal =
  pr_user_id :: uuid
  pr_session_id :: uuid
  pr_audience :: PrincipalAudience
  pr_tenant_id :: "uuid option"
  pr_membership_id :: "uuid option"
  pr_user_status :: string
  pr_session_valid :: bool
  pr_auth_version :: int
  pr_session_auth_version :: int
  pr_permissions :: "string set"
  pr_role_codes :: "string set"
  pr_authenticated_at :: datetime

record ResourceAttributes =
  res_tenant_id :: uuid
  res_state :: ResourceState
  res_access_paths :: "ResourceAccessPath set"
  res_department_id :: "uuid option"
  res_owner_user_id :: "uuid option"
  res_shared_with_membership_ids :: "uuid set"
  res_matter_team_membership_ids :: "uuid set"
  res_class_membership_ids :: "uuid set"
  res_delegated_client_membership_ids :: "uuid set"
  res_confidentiality :: ConfidentialityLevel
  res_approval_status :: "string option"
  res_unrecognized_fields :: "string set"

record AuthorizationDecision =
  allowed :: bool
  reason_code :: string
  policy_version :: string
  audit_required :: bool

definition POLICY_VERSION :: string where
  "POLICY_VERSION = ''identity-authz-v1''"

definition deny :: "string \<Rightarrow> AuthorizationDecision" where
  "deny reason = \<lparr>allowed = False, reason_code = reason, policy_version = POLICY_VERSION, audit_required = True\<rparr>"

subsection \<open>The reasons\<close>

definition is_uuid7_opt :: "uuid option \<Rightarrow> bool" where
  "is_uuid7_opt u \<longleftrightarrow> (case u of None \<Rightarrow> False | Some v \<Rightarrow> is_uuid7 v)"

definition positive_int :: "int option \<Rightarrow> bool" where
  "positive_int v \<longleftrightarrow> (case v of None \<Rightarrow> False | Some n \<Rightarrow> 1 \<le> n)"

definition valid_uuid_set :: "uuid set \<Rightarrow> bool" where
  "valid_uuid_set s \<longleftrightarrow> (\<forall>u\<in>s. is_uuid7 u)"

definition identity_reason :: "Principal \<Rightarrow> string option" where
  "identity_reason p =
     (if \<not> is_uuid7 (pr_user_id p) \<or> pr_user_status p \<noteq> ''active'' \<or> \<not> is_utc (pr_authenticated_at p)
      then Some ''identity_invalid'' else None)"

definition session_reason :: "Principal \<Rightarrow> TenantContext \<Rightarrow> datetime \<Rightarrow> string option" where
  "session_reason p c now =
     (if \<not> is_uuid7 (pr_session_id p) \<or> \<not> pr_session_valid p
         \<or> \<not> positive_int (Some (pr_auth_version p)) \<or> \<not> positive_int (Some (pr_session_auth_version p))
         \<or> pr_auth_version p \<noteq> pr_session_auth_version p \<or> \<not> is_utc now
      then Some ''session_invalid''
      else if pr_audience p = PrincipalAudience_TENANT
         \<and> (\<not> positive_int (ctx_authz_version c) \<or> \<not> positive_int (ctx_session_authz_version c)
            \<or> ctx_authz_version c \<noteq> ctx_session_authz_version c)
      then Some ''session_invalid'' else None)"

definition tenant_match_reason ::
    "Principal \<Rightarrow> TenantContext \<Rightarrow> Action \<Rightarrow> ResourceAttributes \<Rightarrow> string option" where
  "tenant_match_reason p c a r =
     (if \<not> is_uuid7 (ctx_tenant_id c)
         \<or> (ctx_department_id c \<noteq> None \<and> \<not> is_uuid7_opt (ctx_department_id c))
         \<or> \<not> is_uuid7 (res_tenant_id r) \<or> res_tenant_id r \<noteq> ctx_tenant_id c
      then Some ''tenant_mismatch''
      else case pr_audience p of
        PrincipalAudience_TENANT \<Rightarrow>
          (if a \<in> platform_actions
              \<or> \<not> is_uuid7_opt (pr_tenant_id p) \<or> \<not> is_uuid7_opt (pr_membership_id p)
              \<or> \<not> is_uuid7_opt (ctx_membership_id c) \<or> \<not> is_uuid7_opt (ctx_membership_user_id c)
              \<or> pr_tenant_id p \<noteq> Some (ctx_tenant_id c)
              \<or> pr_membership_id p \<noteq> ctx_membership_id c
              \<or> ctx_membership_user_id c \<noteq> Some (pr_user_id p)
           then Some ''tenant_mismatch'' else None)
      | PrincipalAudience_PLATFORM \<Rightarrow>
          (if a \<notin> platform_actions
              \<or> pr_tenant_id p \<noteq> None \<or> pr_membership_id p \<noteq> None
              \<or> ctx_membership_id c \<noteq> None \<or> ctx_membership_user_id c \<noteq> None
              \<or> ctx_department_id c \<noteq> None \<or> ctx_membership_status c \<noteq> None
              \<or> ctx_valid_from c \<noteq> None \<or> ctx_valid_until c \<noteq> None
              \<or> ctx_authz_version c \<noteq> None \<or> ctx_session_authz_version c \<noteq> None
           then Some ''tenant_mismatch'' else None))"

definition tenant_status_reason :: "TenantContext \<Rightarrow> Action \<Rightarrow> string option" where
  "tenant_status_reason c a =
     (case ctx_tenant_status c of
        TenantStatus_ACTIVE \<Rightarrow> None
      | TenantStatus_PENDING_VERIFICATION \<Rightarrow>
          (if a = EXTERNAL_SERVICE_ENABLE then Some ''tenant_status_denied'' else None)
      | _ \<Rightarrow> Some ''tenant_status_denied'')"

text \<open>The two \<open>raise ValueError\<close> of the source are the \<open>Inl\<close> branches.\<close>

definition membership_reason :: "Principal \<Rightarrow> TenantContext \<Rightarrow> datetime \<Rightarrow> string option result" where
  "membership_reason p c now =
     (if pr_audience p = PrincipalAudience_PLATFORM then Inr None
      else if ctx_membership_status c \<noteq> Some MembershipStatus_ACTIVE then Inr (Some ''membership_inactive'')
      else case ctx_valid_from c of
        None \<Rightarrow> Inl (ValueError ''invalid membership timestamp'')
      | Some from \<Rightarrow>
          (if \<not> is_utc from then Inl (ValueError ''invalid membership timestamp'')
           else if instant now < instant from then Inr (Some ''membership_not_yet_valid'')
           else case ctx_valid_until c of
             None \<Rightarrow> Inr None
           | Some until \<Rightarrow>
               (if \<not> is_utc until then Inl (ValueError ''invalid membership timestamp'')
                else if instant until \<le> instant now then Inr (Some ''membership_expired'')
                else Inr None)))"

definition permission_reason :: "Principal \<Rightarrow> Action \<Rightarrow> string option" where
  "permission_reason p a =
     (if \<exists>v\<in>pr_permissions p. v \<notin> known_permission_codes then Some ''unknown_permission''
      else if \<exists>v\<in>pr_role_codes p. v \<notin> known_role_codes then Some ''unknown_role''
      else if Action_value a \<notin> pr_permissions p then Some ''permission_denied''
      else None)"

definition valid_resource_attributes :: "ResourceAttributes \<Rightarrow> bool" where
  "valid_resource_attributes r \<longleftrightarrow>
     (res_department_id r \<noteq> None \<longrightarrow> is_uuid7_opt (res_department_id r))
     \<and> (res_owner_user_id r \<noteq> None \<longrightarrow> is_uuid7_opt (res_owner_user_id r))
     \<and> valid_uuid_set (res_shared_with_membership_ids r)
     \<and> valid_uuid_set (res_matter_team_membership_ids r)
     \<and> valid_uuid_set (res_class_membership_ids r)
     \<and> valid_uuid_set (res_delegated_client_membership_ids r)
     \<and> res_approval_status r \<in> {None, Some ''draft'', Some ''pending_review'', Some ''changes_requested'',
          Some ''approved'', Some ''rejected''}"

definition path_check ::
    "Principal \<Rightarrow> TenantContext \<Rightarrow> ResourceAttributes \<Rightarrow> ResourceAccessPath \<Rightarrow> bool" where
  "path_check p c r path =
     (let scope = ctx_scope c;
          member_in = (\<lambda>ids. case ctx_membership_id c of None \<Rightarrow> False | Some m \<Rightarrow> m \<in> ids)
      in case path of
        Path_DEPARTMENT \<Rightarrow> (case res_department_id r of None \<Rightarrow> False | Some d \<Rightarrow> d \<in> department_ids scope)
      | Path_OWNER \<Rightarrow> allow_owned scope \<and> res_owner_user_id r = Some (pr_user_id p)
      | Path_SHARED \<Rightarrow> allow_shared scope \<and> member_in (res_shared_with_membership_ids r)
      | Path_MATTER_TEAM \<Rightarrow> allow_matter_team scope \<and> member_in (res_matter_team_membership_ids r)
      | Path_CLASS \<Rightarrow> allow_class scope \<and> member_in (res_class_membership_ids r)
      | Path_CLIENT_DELEGATION \<Rightarrow>
          allow_client_delegation scope \<and> member_in (res_delegated_client_membership_ids r))"

definition scope_reason :: "Principal \<Rightarrow> TenantContext \<Rightarrow> ResourceAttributes \<Rightarrow> string option" where
  "scope_reason p c r =
     (let scope = ctx_scope c in
      if unrecognized_scope_codes scope \<noteq> {} then Some ''unknown_scope''
      else if res_unrecognized_fields r \<noteq> {} then Some ''unknown_resource_attributes''
      else if \<not> valid_resource_attributes r then Some ''unknown_resource_attributes''
      else if \<not> valid_uuid_set (department_ids scope) then Some ''unknown_scope''
      else if confidentiality_rank (maximum_confidentiality scope) < confidentiality_rank (res_confidentiality r)
      then Some ''resource_scope_denied''
      else if pr_audience p = PrincipalAudience_PLATFORM then None
      else if allow_tenant_wide scope then None
      else if res_access_paths r = {} then Some ''resource_scope_denied''
      else if \<exists>path\<in>res_access_paths r. path_check p c r path then None
      else Some ''resource_scope_denied'')"

definition resource_state_reason :: "ResourceAttributes \<Rightarrow> string option" where
  "resource_state_reason r =
     (if res_state r \<in> terminal_resource_states then Some ''resource_state_denied'' else None)"

subsection \<open>The engine\<close>

text \<open>\<open>deny_or\<close> is the repeated \<open>if reason is not None: return _deny(reason)\<close>.\<close>

definition deny_or :: "string option \<Rightarrow> AuthorizationDecision result \<Rightarrow> AuthorizationDecision result" where
  "deny_or reason rest = (case reason of Some code \<Rightarrow> Inr (deny code) | None \<Rightarrow> rest)"

definition decide_inner ::
    "Principal \<Rightarrow> TenantContext \<Rightarrow> Action \<Rightarrow> ResourceAttributes \<Rightarrow> datetime \<Rightarrow> AuthorizationDecision result" where
  "decide_inner p c a r now =
     deny_or (identity_reason p)
      (deny_or (session_reason p c now)
       (deny_or (tenant_match_reason p c a r)
        (deny_or (tenant_status_reason c a)
         (bindE (membership_reason p c now) (\<lambda>reason.
           deny_or reason
            (deny_or (permission_reason p a)
             (deny_or (scope_reason p c r)
              (deny_or (resource_state_reason r)
                (Inr \<lparr>allowed = True, reason_code = ''allowed'', policy_version = POLICY_VERSION,
                      audit_required = a \<in> audited_actions\<rparr>)))))))))"

definition PolicyEngine_decide ::
    "Principal \<Rightarrow> TenantContext \<Rightarrow> Action \<Rightarrow> ResourceAttributes \<Rightarrow> datetime \<Rightarrow> AuthorizationDecision" where
  "PolicyEngine_decide p c a r now =
     (case decide_inner p c a r now of Inr d \<Rightarrow> d | Inl e \<Rightarrow> deny ''policy_error'')"

subsection \<open>The specification\<close>

definition live_session :: "Principal \<Rightarrow> datetime \<Rightarrow> bool" where
  "live_session p now \<longleftrightarrow>
     is_uuid7 (pr_user_id p) \<and> pr_user_status p = ''active'' \<and> is_utc (pr_authenticated_at p)
     \<and> is_uuid7 (pr_session_id p) \<and> pr_session_valid p \<and> 1 \<le> pr_auth_version p
     \<and> pr_session_auth_version p = pr_auth_version p \<and> is_utc now"

definition active_member :: "Principal \<Rightarrow> TenantContext \<Rightarrow> datetime \<Rightarrow> bool" where
  "active_member p c now \<longleftrightarrow>
     pr_tenant_id p = Some (ctx_tenant_id c)
     \<and> is_uuid7_opt (pr_membership_id p) \<and> ctx_membership_id c = pr_membership_id p
     \<and> ctx_membership_user_id c = Some (pr_user_id p)
     \<and> positive_int (ctx_authz_version c) \<and> ctx_session_authz_version c = ctx_authz_version c
     \<and> ctx_membership_status c = Some MembershipStatus_ACTIVE
     \<and> (\<exists>from. ctx_valid_from c = Some from \<and> is_utc from \<and> instant from \<le> instant now)
     \<and> pred_option (\<lambda>until. is_utc until \<and> instant now < instant until) (ctx_valid_until c)"

definition no_membership :: "Principal \<Rightarrow> TenantContext \<Rightarrow> bool" where
  "no_membership p c \<longleftrightarrow>
     pr_tenant_id p = None \<and> pr_membership_id p = None \<and> ctx_membership_id c = None
     \<and> ctx_membership_user_id c = None \<and> ctx_department_id c = None \<and> ctx_membership_status c = None
     \<and> ctx_valid_from c = None \<and> ctx_valid_until c = None \<and> ctx_authz_version c = None
     \<and> ctx_session_authz_version c = None"

definition tenant_open :: "TenantContext \<Rightarrow> Action \<Rightarrow> bool" where
  "tenant_open c a \<longleftrightarrow> ctx_tenant_status c = TenantStatus_ACTIVE
     \<or> (ctx_tenant_status c = TenantStatus_PENDING_VERIFICATION \<and> a \<noteq> EXTERNAL_SERVICE_ENABLE)"

definition holds_permission :: "Principal \<Rightarrow> Action \<Rightarrow> bool" where
  "holds_permission p a \<longleftrightarrow> Action_value a \<in> pr_permissions p
     \<and> pr_permissions p \<subseteq> known_permission_codes \<and> pr_role_codes p \<subseteq> known_role_codes"

definition well_formed_request :: "TenantContext \<Rightarrow> ResourceAttributes \<Rightarrow> bool" where
  "well_formed_request c r \<longleftrightarrow>
     is_uuid7 (ctx_tenant_id c) \<and> pred_option is_uuid7 (ctx_department_id c)
     \<and> unrecognized_scope_codes (ctx_scope c) = {} \<and> valid_uuid_set (department_ids (ctx_scope c))
     \<and> res_unrecognized_fields r = {} \<and> valid_resource_attributes r"

definition reaches_resource :: "Principal \<Rightarrow> TenantContext \<Rightarrow> ResourceAttributes \<Rightarrow> bool" where
  "reaches_resource p c r \<longleftrightarrow>
     res_confidentiality r \<le> maximum_confidentiality (ctx_scope c)
     \<and> (pr_audience p = PrincipalAudience_TENANT \<longrightarrow>
          allow_tenant_wide (ctx_scope c) \<or> (\<exists>path\<in>res_access_paths r. path_check p c r path))"

definition grants ::
    "Principal \<Rightarrow> TenantContext \<Rightarrow> Action \<Rightarrow> ResourceAttributes \<Rightarrow> datetime \<Rightarrow> bool" where
  "grants p c a r now \<longleftrightarrow>
     live_session p now \<and> well_formed_request c r \<and> res_tenant_id r = ctx_tenant_id c
     \<and> (case pr_audience p of
          PrincipalAudience_TENANT \<Rightarrow> a \<notin> platform_actions \<and> active_member p c now
        | PrincipalAudience_PLATFORM \<Rightarrow> a \<in> platform_actions \<and> no_membership p c)
     \<and> tenant_open c a \<and> holds_permission p a \<and> reaches_resource p c r
     \<and> res_state r \<notin> terminal_resource_states"

subsection \<open>Each reason against its part of the specification\<close>

named_theorems reason_simps \<open>when a reason of the policy does not fire\<close>

lemma identity_None [reason_simps]:
  "identity_reason p = None \<longleftrightarrow>
     is_uuid7 (pr_user_id p) \<and> pr_user_status p = ''active'' \<and> is_utc (pr_authenticated_at p)"
  by (simp add: identity_reason_def)

lemma session_None [reason_simps]:
  "session_reason p c now = None \<longleftrightarrow>
     is_uuid7 (pr_session_id p) \<and> pr_session_valid p \<and> 1 \<le> pr_auth_version p
     \<and> pr_session_auth_version p = pr_auth_version p \<and> is_utc now
     \<and> (pr_audience p = PrincipalAudience_TENANT \<longrightarrow>
          positive_int (ctx_authz_version c) \<and> ctx_session_authz_version c = ctx_authz_version c)"
  by (auto simp: session_reason_def positive_int_def split: option.splits)

lemma tenant_status_None [reason_simps]: "tenant_status_reason c a = None \<longleftrightarrow> tenant_open c a"
  by (auto simp: tenant_status_reason_def tenant_open_def split: TenantStatus.splits)

lemma permission_None [reason_simps]: "permission_reason p a = None \<longleftrightarrow> holds_permission p a"
  by (auto simp: permission_reason_def holds_permission_def)

lemma resource_state_None [reason_simps]:
  "resource_state_reason r = None \<longleftrightarrow> res_state r \<notin> terminal_resource_states"
  by (simp add: resource_state_reason_def)

lemma scope_None [reason_simps]:
  "scope_reason p c r = None \<longleftrightarrow>
     unrecognized_scope_codes (ctx_scope c) = {} \<and> valid_uuid_set (department_ids (ctx_scope c))
     \<and> res_unrecognized_fields r = {} \<and> valid_resource_attributes r \<and> reaches_resource p c r"
  by (cases "pr_audience p")
     (auto simp: scope_reason_def Let_def reaches_resource_def less_eq_ConfidentialityLevel_def)

lemma deny_or_allowed:
  "(\<exists>d. deny_or reason rest = Inr d \<and> allowed d) \<longleftrightarrow> reason = None \<and> (\<exists>d. rest = Inr d \<and> allowed d)"
  by (auto simp: deny_or_def deny_def split: option.splits)

lemma decide_allowed_reasons:
  "allowed (PolicyEngine_decide p c a r now) \<longleftrightarrow>
     identity_reason p = None \<and> session_reason p c now = None \<and> tenant_match_reason p c a r = None
     \<and> tenant_status_reason c a = None \<and> membership_reason p c now = Inr None
     \<and> permission_reason p a = None \<and> scope_reason p c r = None \<and> resource_state_reason r = None"
proof -
  have "allowed (PolicyEngine_decide p c a r now) \<longleftrightarrow> (\<exists>d. decide_inner p c a r now = Inr d \<and> allowed d)"
    by (auto simp: PolicyEngine_decide_def deny_def split: sum.splits)
  also have "\<dots> \<longleftrightarrow> identity_reason p = None \<and> session_reason p c now = None \<and> tenant_match_reason p c a r = None
     \<and> tenant_status_reason c a = None \<and> membership_reason p c now = Inr None
     \<and> permission_reason p a = None \<and> scope_reason p c r = None \<and> resource_state_reason r = None"
  proof (cases "membership_reason p c now")
    case (Inl e)
    then show ?thesis by (simp add: decide_inner_def deny_or_allowed)
  next
    case (Inr reason)
    then show ?thesis by (simp add: decide_inner_def deny_or_allowed)
  qed
  finally show ?thesis .
qed

lemma pred_option_uuid7: "(x \<noteq> None \<longrightarrow> is_uuid7_opt x) \<longleftrightarrow> pred_option is_uuid7 x"
  by (cases x) (auto simp: is_uuid7_opt_def)

lemma membership_None_tenant:
  "pr_audience p = PrincipalAudience_TENANT \<Longrightarrow>
     membership_reason p c now = Inr None \<longleftrightarrow>
       ctx_membership_status c = Some MembershipStatus_ACTIVE
       \<and> (\<exists>from. ctx_valid_from c = Some from \<and> is_utc from \<and> instant from \<le> instant now)
       \<and> pred_option (\<lambda>until. is_utc until \<and> instant now < instant until) (ctx_valid_until c)"
  by (auto simp: membership_reason_def split: option.splits if_splits)

lemma tenant_match_None_tenant:
  "pr_audience p = PrincipalAudience_TENANT \<Longrightarrow> is_uuid7 (pr_user_id p) \<Longrightarrow>
     tenant_match_reason p c a r = None \<longleftrightarrow>
       is_uuid7 (ctx_tenant_id c) \<and> pred_option is_uuid7 (ctx_department_id c)
       \<and> res_tenant_id r = ctx_tenant_id c \<and> a \<notin> platform_actions
       \<and> pr_tenant_id p = Some (ctx_tenant_id c) \<and> is_uuid7_opt (pr_membership_id p)
       \<and> ctx_membership_id c = pr_membership_id p \<and> ctx_membership_user_id c = Some (pr_user_id p)"
  unfolding tenant_match_reason_def pred_option_uuid7 [symmetric]
  by (auto simp: is_uuid7_opt_def)

lemma no_membership_department: "no_membership p c \<Longrightarrow> ctx_department_id c = None"
  by (simp add: no_membership_def)

lemma tenant_match_None_platform:
  "pr_audience p = PrincipalAudience_PLATFORM \<Longrightarrow>
     tenant_match_reason p c a r = None \<longleftrightarrow>
       is_uuid7 (ctx_tenant_id c) \<and> res_tenant_id r = ctx_tenant_id c \<and> a \<in> platform_actions
       \<and> no_membership p c"
  by (auto simp: tenant_match_reason_def no_membership_def)

lemma reasons_iff_grants:
  "identity_reason p = None \<and> session_reason p c now = None \<and> tenant_match_reason p c a r = None
     \<and> tenant_status_reason c a = None \<and> membership_reason p c now = Inr None
     \<and> permission_reason p a = None \<and> scope_reason p c r = None \<and> resource_state_reason r = None
   \<longleftrightarrow> grants p c a r now"
proof (cases "pr_audience p")
  case PrincipalAudience_TENANT
  show ?thesis
  proof (cases "is_uuid7 (pr_user_id p)")
    case True
    show ?thesis
      unfolding reason_simps tenant_match_None_tenant [OF PrincipalAudience_TENANT True]
        membership_None_tenant [OF PrincipalAudience_TENANT] grants_def live_session_def
        well_formed_request_def active_member_def
      using PrincipalAudience_TENANT by (simp only: PrincipalAudience.case) blast
  next
    case False
    then show ?thesis by (simp add: reason_simps grants_def live_session_def)
  qed
next
  case PrincipalAudience_PLATFORM
  then have m: "membership_reason p c now = Inr None" by (simp add: membership_reason_def)
  show ?thesis
    unfolding reason_simps tenant_match_None_platform [OF PrincipalAudience_PLATFORM] m grants_def
      live_session_def well_formed_request_def
    using PrincipalAudience_PLATFORM
    by (cases "no_membership p c") (auto dest: no_membership_department)
qed

lemma allowedD: "allowed (PolicyEngine_decide p c a r now) \<Longrightarrow> grants p c a r now"
  by (simp only: decide_allowed_reasons reasons_iff_grants)

lemma grants_allowed: "grants p c a r now \<Longrightarrow> allowed (PolicyEngine_decide p c a r now)"
  by (simp only: decide_allowed_reasons reasons_iff_grants)

text \<open>The outcomes of the cascade: the permit for the action or a denial with a known code.\<close>

definition permit :: "Action \<Rightarrow> AuthorizationDecision" where
  "permit a = \<lparr>allowed = True, reason_code = ''allowed'', policy_version = POLICY_VERSION,
               audit_required = a \<in> audited_actions\<rparr>"

definition denial_codes :: "string list" where
  "denial_codes = [''policy_error'', ''identity_invalid'', ''session_invalid'', ''tenant_mismatch'',
     ''tenant_status_denied'', ''membership_inactive'', ''membership_not_yet_valid'',
     ''membership_expired'', ''unknown_permission'', ''unknown_role'', ''permission_denied'',
     ''unknown_scope'', ''unknown_resource_attributes'', ''resource_scope_denied'',
     ''resource_state_denied'']"

definition coded :: "Action \<Rightarrow> AuthorizationDecision result \<Rightarrow> bool" where
  "coded a m \<longleftrightarrow> (case m of Inl e \<Rightarrow> True | Inr d \<Rightarrow> d = permit a \<or> (\<exists>x\<in>set denial_codes. d = deny x))"

lemma coded_permit: "coded a (Inr (permit a))"
  by (simp add: coded_def)

lemma coded_deny_or:
  "(\<And>x. reason = Some x \<Longrightarrow> x \<in> set denial_codes) \<Longrightarrow> coded a rest \<Longrightarrow> coded a (deny_or reason rest)"
  by (auto simp: deny_or_def coded_def split: option.splits)

lemma coded_bindE: "(\<And>x. m = Inr x \<Longrightarrow> coded a (f x)) \<Longrightarrow> coded a (bindE m f)"
  by (cases m) (auto simp: coded_def)

lemma reason_codes:
  "identity_reason p = Some x \<Longrightarrow> x \<in> set denial_codes"
  "session_reason p c now = Some x \<Longrightarrow> x \<in> set denial_codes"
  "tenant_match_reason p c a r = Some x \<Longrightarrow> x \<in> set denial_codes"
  "tenant_status_reason c a = Some x \<Longrightarrow> x \<in> set denial_codes"
  "membership_reason p c now = Inr (Some x) \<Longrightarrow> x \<in> set denial_codes"
  "permission_reason p a = Some x \<Longrightarrow> x \<in> set denial_codes"
  "scope_reason p c r = Some x \<Longrightarrow> x \<in> set denial_codes"
  "resource_state_reason r = Some x \<Longrightarrow> x \<in> set denial_codes"
  unfolding identity_reason_def session_reason_def tenant_match_reason_def tenant_status_reason_def
    membership_reason_def permission_reason_def scope_reason_def resource_state_reason_def Let_def
  by (auto simp: denial_codes_def split: if_splits option.splits PrincipalAudience.splits TenantStatus.splits)

lemma decide_cases:
  obtains "PolicyEngine_decide p c a r now = permit a"
  | x where "x \<in> set denial_codes" "PolicyEngine_decide p c a r now = deny x"
proof -
  have tail: "coded a (deny_or (permission_reason p a) (deny_or (scope_reason p c r)
      (deny_or (resource_state_reason r) (Inr (permit a)))))"
    by (intro coded_deny_or coded_permit) (erule reason_codes)+
  have "coded a (bindE (membership_reason p c now) (\<lambda>reason. deny_or reason
      (deny_or (permission_reason p a) (deny_or (scope_reason p c r)
        (deny_or (resource_state_reason r) (Inr (permit a)))))))"
    by (rule coded_bindE, rule coded_deny_or [OF _ tail]) (simp add: reason_codes(5))
  then have "coded a (decide_inner p c a r now)"
    unfolding decide_inner_def permit_def [symmetric]
    by (intro coded_deny_or) (assumption | erule reason_codes)+
  moreover have "''policy_error'' \<in> set denial_codes" by (simp add: denial_codes_def)
  ultimately show ?thesis
    using that by (fastforce simp: PolicyEngine_decide_def coded_def split: sum.splits)
qed

lemma denial_not_allowed: "x \<in> set denial_codes \<Longrightarrow> x \<noteq> ''allowed''"
  by (auto simp: denial_codes_def)

subsection \<open>Properties\<close>

text \<open>
  C24. The policy engine allows a request exactly when the specification \<open>grants\<close> holds: a
  live session, a well-formed request whose resource lies in the tenant of the context, the
  right audience (an active member for tenant actions, no membership at all for platform
  actions), an open tenant, the permission, a path to the resource within the
  confidentiality ceiling, and a resource that is not in a terminal state.
\<close>
theorem decide_allowed_iff:
  "allowed (PolicyEngine_decide p c a r now) \<longleftrightarrow> grants p c a r now"
  by (simp only: decide_allowed_reasons reasons_iff_grants)


text \<open>
  Every outcome is accounted for: the engine never raises, the reason is \<open>allowed\<close>
  exactly for a permit, every denial carries one of the fifteen known codes and is always
  audited, and a permit is audited exactly for the audited actions.
\<close>
theorem decide_outcome:
  "let d = PolicyEngine_decide p c a r now in
     (allowed d \<longleftrightarrow> reason_code d = ''allowed'') \<and> policy_version d = POLICY_VERSION
     \<and> (if allowed d then audit_required d \<longleftrightarrow> a \<in> audited_actions
        else audit_required d \<and> reason_code d \<in> set denial_codes)"
  by (rule decide_cases [of p c a r now])
     (auto simp: permit_def deny_def Let_def dest: denial_not_allowed)

text \<open>
  Widening a scope never takes an access away: when every flag, the department set and
  the confidentiality ceiling of the new scope include those of the old one (and its
  departments are well-formed ids), whatever was allowed stays allowed.
\<close>
theorem decide_scope_monotone:
  assumes "allowed (PolicyEngine_decide p c a r now)"
    and "department_ids (ctx_scope c) \<subseteq> department_ids s'" "valid_uuid_set (department_ids s')"
    and "unrecognized_scope_codes s' = {}"
    and "maximum_confidentiality (ctx_scope c) \<le> maximum_confidentiality s'"
    and "allow_tenant_wide (ctx_scope c) \<le> allow_tenant_wide s'" "allow_owned (ctx_scope c) \<le> allow_owned s'"
    and "allow_shared (ctx_scope c) \<le> allow_shared s'" "allow_matter_team (ctx_scope c) \<le> allow_matter_team s'"
    and "allow_class (ctx_scope c) \<le> allow_class s'"
    and "allow_client_delegation (ctx_scope c) \<le> allow_client_delegation s'"
  shows "allowed (PolicyEngine_decide p (c\<lparr>ctx_scope := s'\<rparr>) a r now)"
proof (rule grants_allowed)
  let ?c' = "c\<lparr>ctx_scope := s'\<rparr>"
  have g: "grants p c a r now" by (rule allowedD) (rule assms(1))
  have path: "path_check p c r x \<Longrightarrow> path_check p ?c' r x" for x
    using assms(2,7-11) by (cases x) (auto simp: path_check_def Let_def split: option.splits)
  have "reaches_resource p ?c' r"
    using g assms(5,6) path by (auto simp: grants_def reaches_resource_def)
  then show "grants p ?c' a r now"
    using g assms(3,4)
    by (cases "pr_audience p")
       (auto simp: grants_def active_member_def no_membership_def well_formed_request_def tenant_open_def)
qed

subsection \<open>A concrete request\<close>

definition sample_scope :: AuthorizationScope where
  "sample_scope = \<lparr>department_ids = {}, allow_tenant_wide = False, allow_owned = True, allow_shared = False,
     allow_matter_team = False, allow_class = False, allow_client_delegation = False,
     maximum_confidentiality = CONFIDENTIAL, unrecognized_scope_codes = {}\<rparr>"

definition sample_context :: TenantContext where
  "sample_context = \<lparr>ctx_tenant_id = u7 1, ctx_membership_id = Some (u7 2), ctx_membership_user_id = Some (u7 3),
     ctx_department_id = None, ctx_tenant_status = TenantStatus_ACTIVE,
     ctx_membership_status = Some MembershipStatus_ACTIVE, ctx_valid_from = Some (aware 0),
     ctx_valid_until = None, ctx_authz_version = Some 1, ctx_session_authz_version = Some 1,
     ctx_scope = sample_scope\<rparr>"

definition sample_principal :: Principal where
  "sample_principal = \<lparr>pr_user_id = u7 3, pr_session_id = u7 4, pr_audience = PrincipalAudience_TENANT,
     pr_tenant_id = Some (u7 1), pr_membership_id = Some (u7 2), pr_user_status = ''active'',
     pr_session_valid = True, pr_auth_version = 1, pr_session_auth_version = 1,
     pr_permissions = {''tenant.read''}, pr_role_codes = {''tenant_owner''}, pr_authenticated_at = aware 5\<rparr>"

definition sample_resource :: ResourceAttributes where
  "sample_resource = \<lparr>res_tenant_id = u7 1, res_state = ResourceState_ACTIVE, res_access_paths = {Path_OWNER},
     res_department_id = None, res_owner_user_id = Some (u7 3), res_shared_with_membership_ids = {},
     res_matter_team_membership_ids = {}, res_class_membership_ids = {},
     res_delegated_client_membership_ids = {}, res_confidentiality = INTERNAL,
     res_approval_status = None, res_unrecognized_fields = {}\<rparr>"

lemma sample_reasons:
  "identity_reason sample_principal = None"
  "session_reason sample_principal sample_context (aware 9) = None"
  "tenant_match_reason sample_principal sample_context TENANT_READ sample_resource = None"
  "tenant_status_reason sample_context TENANT_READ = None"
  "membership_reason sample_principal sample_context (aware 9) = Inr None"
  "permission_reason sample_principal TENANT_READ = None"
  "scope_reason sample_principal sample_context sample_resource = None"
  "resource_state_reason sample_resource = None"
  by (simp_all add: sample_principal_def sample_context_def sample_scope_def sample_resource_def
      identity_reason_def session_reason_def positive_int_def tenant_match_reason_def is_uuid7_opt_def
      platform_actions_def tenant_status_reason_def membership_reason_def permission_reason_def
      known_permission_codes_def all_actions_def known_role_codes_def scope_reason_def Let_def
      valid_resource_attributes_def valid_uuid_set_def path_check_def resource_state_reason_def
      terminal_resource_states_def)

lemma sample_allowed: "allowed (PolicyEngine_decide sample_principal sample_context TENANT_READ sample_resource (aware 9))"
  by (simp only: decide_allowed_reasons sample_reasons simp_thms)


lemma decide_scope_monotone_witness:
  "allowed (PolicyEngine_decide sample_principal
     (sample_context\<lparr>ctx_scope := sample_scope\<lparr>allow_shared := True, maximum_confidentiality := RESTRICTED\<rparr>\<rparr>)
     TENANT_READ sample_resource (aware 9))"
  by (rule decide_scope_monotone [OF sample_allowed])
     (simp_all add: sample_context_def sample_scope_def valid_uuid_set_def less_eq_ConfidentialityLevel_def)

end
