(* ===== verification/AIJobs.thy ===== *)
theory AIJobs
  imports Authorization "HOL-Library.List_Lexorder" "HOL-Library.Char_ord"
begin

text \<open>
  \<open>domain/ai_jobs.py\<close>: the durable AI job: its statuses and the transitions between them, the
  retry schedule, the lease and lifetime rules, the authorization scopes, and the records that
  cross the boundaries of the runtime with the checks of their constructors
  (\<open>..._post_init\<close>, one \<open>require\<close> list per \<open>__post_init__\<close>, in source order).

  The record \<open>AIJob\<close> is polymorphic in its timestamps: \<open>datetime AIJob\<close> is the domain object,
  \<open>int AIJob\<close> the database row with naive UTC microseconds.
\<close>

subsection \<open>Fixed runtime invariants\<close>

definition MAX_ATTEMPTS :: int where "MAX_ATTEMPTS = 10"
definition RETRY_BUCKET_SECONDS :: "int list" where "RETRY_BUCKET_SECONDS = [5, 30, 120]"
definition MAX_JOB_LIFETIME :: int where "MAX_JOB_LIFETIME = seconds (24 * 60 * 60)"
definition JOB_POLICY_VERSION :: string where "JOB_POLICY_VERSION = ''ai-job-policy-v1''"
definition JOB_SCOPE_MANIFEST_VERSION :: string where "JOB_SCOPE_MANIFEST_VERSION = ''ai-job-scope-v1''"
definition SYNTHETIC_HANDLER_KIND :: string where "SYNTHETIC_HANDLER_KIND = ''synthetic.v1''"
definition SYNTHETIC_INPUT_SCHEMA_VERSION :: string where
  "SYNTHETIC_INPUT_SCHEMA_VERSION = ''synthetic-input-v1''"

fun join_with :: "string \<Rightarrow> string list \<Rightarrow> string" where
  "join_with sep [] = []"
| "join_with sep [s] = s"
| "join_with sep (s # ss) = s @ sep @ join_with sep ss"

definition ai_job_manifest_digest :: "(string \<Rightarrow> bytes) \<Rightarrow> string \<Rightarrow> string list \<Rightarrow> bytes result" where
  "ai_job_manifest_digest sha256 version permission_codes =
     (if version = [] then Inl (ValueError ''manifest version must be a non-empty string'')
      else Inr (sha256 (''ai-job-manifest:v1:'' @ join_with ''|'' (version # sort permission_codes))))"

subsection \<open>Enumerations\<close>

datatype AIJobStatus =
    QUEUED | RUNNING | RETRY_SCHEDULED | CANCEL_REQUESTED | SUCCEEDED | FAILED | CANCELLED

fun AIJobStatus_value :: "AIJobStatus \<Rightarrow> string" where
  "AIJobStatus_value QUEUED = ''queued''"
| "AIJobStatus_value RUNNING = ''running''"
| "AIJobStatus_value RETRY_SCHEDULED = ''retry_scheduled''"
| "AIJobStatus_value CANCEL_REQUESTED = ''cancel_requested''"
| "AIJobStatus_value SUCCEEDED = ''succeeded''"
| "AIJobStatus_value FAILED = ''failed''"
| "AIJobStatus_value CANCELLED = ''cancelled''"

datatype InboxStatus = InboxStatus_ACCEPTED | InboxStatus_PROCESSING | InboxStatus_COMPLETED | InboxStatus_REJECTED

datatype PublicAIJobStatus =
    Public_QUEUED | Public_RUNNING | Public_SUCCEEDED | Public_FAILED | Public_CANCELLED | Public_WAITING_REVIEW

datatype AIJobPermission = Permission_CREATE | Permission_READ | Permission_CANCEL

fun AIJobPermission_value :: "AIJobPermission \<Rightarrow> string" where
  "AIJobPermission_value Permission_CREATE = ''ai_job.create''"
| "AIJobPermission_value Permission_READ = ''ai_job.read''"
| "AIJobPermission_value Permission_CANCEL = ''ai_job.cancel''"

datatype JobVisibility = OWNER_ONLY
datatype RiskClass = SYNTHETIC
datatype ReleaseState = NON_PUBLISHABLE
datatype JobScopeCode = OWNER_SHARED | TENANT_WIDE

subsection \<open>Status transitions\<close>

definition allowed_transitions :: "(AIJobStatus \<times> AIJobStatus) list" where
  "allowed_transitions =
     [(QUEUED, RUNNING), (QUEUED, CANCELLED), (QUEUED, FAILED),
      (RUNNING, SUCCEEDED), (RUNNING, RETRY_SCHEDULED), (RUNNING, FAILED), (RUNNING, CANCEL_REQUESTED),
      (CANCEL_REQUESTED, CANCELLED),
      (RETRY_SCHEDULED, RUNNING), (RETRY_SCHEDULED, CANCELLED), (RETRY_SCHEDULED, FAILED)]"

definition terminal_job_statuses :: "AIJobStatus set" where
  "terminal_job_statuses = {SUCCEEDED, FAILED, CANCELLED}"

definition lease_holding_statuses :: "AIJobStatus set" where
  "lease_holding_statuses = {RUNNING, CANCEL_REQUESTED}"

definition require_transition :: "AIJobStatus \<Rightarrow> AIJobStatus \<Rightarrow> unit result" where
  "require_transition source tgt =
     (if (source, tgt) \<notin> set allowed_transitions
      then Inl (InvalidJobTransition (AIJobStatus_value source) (AIJobStatus_value tgt))
      else Inr ())"

fun to_public_status :: "AIJobStatus \<Rightarrow> PublicAIJobStatus" where
  "to_public_status QUEUED = Public_QUEUED"
| "to_public_status RETRY_SCHEDULED = Public_QUEUED"
| "to_public_status RUNNING = Public_RUNNING"
| "to_public_status CANCEL_REQUESTED = Public_RUNNING"
| "to_public_status SUCCEEDED = Public_SUCCEEDED"
| "to_public_status FAILED = Public_FAILED"
| "to_public_status CANCELLED = Public_CANCELLED"

subsection \<open>Retry schedule, lease timing, lifetime\<close>

definition retry_delay_seconds :: "int \<Rightarrow> int result" where
  "retry_delay_seconds attempt_no =
     (if attempt_no < 1 then Inl (ValueError ''attempt number must be a positive integer'')
      else let index = min (attempt_no - 1) (int (length RETRY_BUCKET_SECONDS) - 1)
        in Inr (RETRY_BUCKET_SECONDS ! nat index))"

text \<open>\<open>timedelta / 2\<close> rounds to the nearest microsecond, ties to even.\<close>

definition timedelta_half :: "int \<Rightarrow> int" where
  "timedelta_half d =
     (if even d then d div 2 else if even (d div 2) then d div 2 else d div 2 + 1)"

definition validate_runtime_timing :: "int \<Rightarrow> int \<Rightarrow> unit result" where
  "validate_runtime_timing lease heartbeat = require
     [(0 < lease, ValueError ''lease must be a positive duration''),
      (0 < heartbeat, ValueError ''heartbeat must be a positive duration''),
      (heartbeat < timedelta_half lease, ValueError ''heartbeat must be less than half the lease'')]"

definition utc_check :: "datetime \<Rightarrow> string \<Rightarrow> bool \<times> exn" where
  "utc_check d name = (is_utc d, ValueError (name @ '' must be UTC-aware''))"

definition positive_check :: "int \<Rightarrow> string \<Rightarrow> bool \<times> exn" where
  "positive_check v name = (1 \<le> v, ValueError (name @ '' must be a positive integer''))"

definition uuid_check :: "uuid \<Rightarrow> string \<Rightarrow> bool \<times> exn" where
  "uuid_check u name = (is_uuid7 u, ValueError (name @ '' must be an RFC 9562 UUIDv7''))"

definition optional_check :: "('a \<Rightarrow> string \<Rightarrow> bool \<times> exn) \<Rightarrow> 'a option \<Rightarrow> string \<Rightarrow> bool \<times> exn" where
  "optional_check check v name = (case v of None \<Rightarrow> (True, ValueError name) | Some x \<Rightarrow> check x name)"

lemmas check_defs = utc_check_def positive_check_def uuid_check_def

lemma optional_check_Some [simp]: "optional_check check (Some x) name = check x name"
  by (simp add: optional_check_def)

lemma optional_check_None [simp]: "fst (optional_check check None name)"
  by (simp add: optional_check_def)

definition validate_job_lifetime :: "datetime \<Rightarrow> datetime \<Rightarrow> unit result" where
  "validate_job_lifetime submitted_at expires_at = require
     [utc_check submitted_at ''submitted_at'',
      utc_check expires_at ''expires_at'',
      (instant submitted_at < instant expires_at, ValueError ''job expires_at must be after submitted_at''),
      (instant expires_at - instant submitted_at \<le> MAX_JOB_LIFETIME,
        ValueError ''job lifetime must not exceed 24 hours'')]"

subsection \<open>Scopes\<close>

record JobAuthorizationScope =
  scope_owner :: bool
  scope_shared :: bool
  scope_tenant_wide :: bool

definition scope_code :: "JobAuthorizationScope \<Rightarrow> JobScopeCode result" where
  "scope_code s =
     (if scope_tenant_wide s then
        (if \<not> (scope_owner s \<and> scope_shared s)
         then Inl (ValueError ''tenant-wide scope requires owner and shared access'')
         else Inr TENANT_WIDE)
      else if scope_owner s \<and> scope_shared s then Inr OWNER_SHARED
      else Inl (ValueError ''job authorization scope has no supported mapping''))"

subsection \<open>Records of the runtime\<close>

record ActorSnapshot =
  actor_user_id :: uuid
  actor_membership_id :: uuid
  actor_session_id :: uuid
  auth_version_at_submit :: int
  authz_version_at_submit :: int
  role_codes_at_submit :: "string set"
  permission_codes_at_submit :: "string set"
  policy_version_at_submit :: string
  actor_authenticated_at :: datetime
  actor_submitted_at :: datetime

definition ActorSnapshot_post_init :: "ActorSnapshot \<Rightarrow> unit result" where
  "ActorSnapshot_post_init a = require
     [uuid_check (actor_user_id a) ''actor user_id'',
      uuid_check (actor_membership_id a) ''actor membership_id'',
      uuid_check (actor_session_id a) ''actor session_id'',
      positive_check (auth_version_at_submit a) ''auth_version_at_submit'',
      positive_check (authz_version_at_submit a) ''authz_version_at_submit'',
      (policy_version_at_submit a \<noteq> [], ValueError ''actor snapshot policy version is invalid''),
      utc_check (actor_authenticated_at a) ''authenticated_at'',
      utc_check (actor_submitted_at a) ''submitted_at'']"

record 't JobExecutionGrant =
  grant_id :: uuid
  grant_tenant_id :: uuid
  grant_job_id :: uuid
  grant_user_id :: uuid
  grant_membership_id :: uuid
  grant_permission_code :: AIJobPermission
  grant_auth_version_at_submit :: int
  grant_authz_version_at_submit :: int
  grant_policy_version :: string
  grant_job_scope_manifest_version :: string
  grant_job_scope_code :: JobScopeCode
  grant_issued_at :: 't
  grant_revoked_at :: "'t option"
  grant_revocation_reason_code :: "string option"
  grant_version :: int

definition JobExecutionGrant_post_init :: "datetime JobExecutionGrant \<Rightarrow> unit result" where
  "JobExecutionGrant_post_init g = require
     [uuid_check (grant_id g) ''grant id'',
      uuid_check (grant_tenant_id g) ''grant tenant_id'',
      uuid_check (grant_job_id g) ''grant job_id'',
      uuid_check (grant_user_id g) ''grant user_id'',
      uuid_check (grant_membership_id g) ''grant membership_id'',
      (grant_permission_code g = Permission_CREATE,
        ValueError ''durable grant permission code must be ai_job.create''),
      positive_check (grant_auth_version_at_submit g) ''grant auth_version_at_submit'',
      positive_check (grant_authz_version_at_submit g) ''grant authz_version_at_submit'',
      (grant_policy_version g \<noteq> [], ValueError ''grant policy version is invalid''),
      (grant_job_scope_manifest_version g \<noteq> [],
        ValueError ''grant job scope manifest version is invalid''),
      utc_check (grant_issued_at g) ''grant issued_at'',
      positive_check (grant_version g) ''grant version'',
      optional_check utc_check (grant_revoked_at g) ''grant revoked_at'',
      ((grant_revoked_at g = None) = (grant_revocation_reason_code g = None),
        ValueError ''grant revocation timestamp and reason must be set together'')]"

record JobExecutionPrincipal =
  jep_user_id :: uuid
  jep_tenant_id :: uuid
  jep_membership_id :: uuid
  jep_role_codes :: "string set"
  jep_permission_codes :: "string set"

definition JobExecutionPrincipal_post_init :: "JobExecutionPrincipal \<Rightarrow> unit result" where
  "JobExecutionPrincipal_post_init p = require
     [uuid_check (jep_user_id p) ''principal user_id'',
      uuid_check (jep_tenant_id p) ''principal tenant_id'',
      uuid_check (jep_membership_id p) ''principal membership_id'']"

record 't AIJob =
  job_id :: uuid
  job_tenant_id :: uuid
  job_handler_code :: string
  job_handler_version :: string
  job_input_schema_version :: string
  job_input_json :: "(string \<times> json) list"
  job_input_fingerprint :: bytes
  job_created_by_user_id :: uuid
  job_created_by_membership_id :: uuid
  job_created_by_session_id :: uuid
  job_actor_snapshot_json :: "(string \<times> json) list"
  job_policy_version_at_submit :: string
  job_visibility :: JobVisibility
  job_status :: AIJobStatus
  job_current_attempt_no :: int
  job_max_attempts :: int
  job_risk_class :: RiskClass
  job_release_state :: ReleaseState
  job_idempotency_record_id :: uuid
  job_correlation_id :: uuid
  job_submitted_at :: 't
  job_expires_at :: 't
  job_version :: int
  job_next_attempt_at :: "'t option"
  job_lease_owner :: "string option"
  job_lease_token :: "uuid option"
  job_lease_fence :: "int option"
  job_lease_expires_at :: "'t option"
  job_cancel_requested_at :: "'t option"
  job_cancel_requested_by_user_id :: "uuid option"
  job_cancel_reason_code :: "string option"
  job_result_json :: "(string \<times> json) list option"
  job_failure_class :: "string option"
  job_failure_code :: "string option"
  job_started_at :: "'t option"
  job_completed_at :: "'t option"

definition AIJob_post_init :: "datetime AIJob \<Rightarrow> unit result" where
  "AIJob_post_init j = require
     [uuid_check (job_id j) ''job id'',
      uuid_check (job_tenant_id j) ''job tenant_id'',
      uuid_check (job_created_by_user_id j) ''job created_by_user_id'',
      uuid_check (job_created_by_membership_id j) ''job created_by_membership_id'',
      uuid_check (job_created_by_session_id j) ''job created_by_session_id'',
      uuid_check (job_idempotency_record_id j) ''job idempotency_record_id'',
      uuid_check (job_correlation_id j) ''job correlation_id'',
      optional_check uuid_check (job_lease_token j) ''job lease_token'',
      optional_check uuid_check (job_cancel_requested_by_user_id j) ''job cancel_requested_by_user_id'',
      (length (job_input_fingerprint j) = 32, ValueError ''job input fingerprint must be 32 bytes''),
      positive_check (job_version j) ''job version'',
      positive_check (job_max_attempts j) ''job max_attempts'',
      (job_max_attempts j \<le> MAX_ATTEMPTS, ValueError ''job max_attempts exceeds the limit''),
      (0 \<le> job_current_attempt_no j \<and> job_current_attempt_no j \<le> job_max_attempts j,
        ValueError ''job current_attempt_no is out of range''),
      utc_check (job_submitted_at j) ''job submitted_at'',
      utc_check (job_expires_at j) ''job expires_at'',
      optional_check utc_check (job_next_attempt_at j) ''job next_attempt_at'',
      optional_check utc_check (job_lease_expires_at j) ''job lease_expires_at'',
      optional_check utc_check (job_cancel_requested_at j) ''job cancel_requested_at'',
      optional_check utc_check (job_started_at j) ''job started_at'',
      optional_check utc_check (job_completed_at j) ''job completed_at'']"

text \<open>
  The handles \<open>cancellation_probe\<close>, \<open>effect_store\<close>, \<open>lease_heartbeat\<close>, \<open>tenant_context\<close> and
  \<open>input\<close> of the execution context are opaque to its constructor and left out.
\<close>

record ExecutionContext =
  exec_job_id :: uuid
  exec_tenant_id :: uuid
  exec_handler_code :: string
  exec_handler_version :: string
  exec_actor_principal :: JobExecutionPrincipal
  exec_grant :: "datetime JobExecutionGrant"
  exec_scope :: JobAuthorizationScope
  exec_attempt_id :: uuid
  exec_attempt_no :: int
  exec_lease_token :: uuid
  exec_lease_fence :: int
  exec_lease_expires_at :: datetime
  exec_correlation_id :: uuid
  exec_trigger_message_id :: uuid

definition ExecutionContext_post_init :: "ExecutionContext \<Rightarrow> unit result" where
  "ExecutionContext_post_init x = require
     [uuid_check (exec_job_id x) ''execution job_id'',
      uuid_check (exec_tenant_id x) ''execution tenant_id'',
      uuid_check (exec_attempt_id x) ''execution attempt_id'',
      uuid_check (exec_lease_token x) ''execution lease_token'',
      uuid_check (exec_correlation_id x) ''execution correlation_id'',
      uuid_check (exec_trigger_message_id x) ''execution trigger_message_id'',
      (exec_handler_code x \<noteq> [], ValueError ''execution handler code is invalid''),
      (exec_handler_version x \<noteq> [], ValueError ''execution handler version is invalid''),
      positive_check (exec_attempt_no x) ''execution attempt_no'',
      positive_check (exec_lease_fence x) ''execution lease_fence'',
      utc_check (exec_lease_expires_at x) ''execution lease_expires_at'']"

record JobAccess =
  access_tenant_id :: uuid
  access_job_id :: uuid
  access_membership_id :: uuid
  access_level :: string
  access_generation :: int
  access_revoked_at :: "datetime option"

definition JobAccess_post_init :: "JobAccess \<Rightarrow> unit result" where
  "JobAccess_post_init a = require
     [uuid_check (access_tenant_id a) ''access tenant_id'',
      uuid_check (access_job_id a) ''access job_id'',
      uuid_check (access_membership_id a) ''access membership_id'',
      (access_level a = ''read'', ValueError ''job access level must be read''),
      positive_check (access_generation a) ''access generation'',
      optional_check utc_check (access_revoked_at a) ''access revoked_at'']"

definition JobAccess_active :: "JobAccess \<Rightarrow> bool" where
  "JobAccess_active a \<longleftrightarrow> access_revoked_at a = None"

record NewAIJobOutbox =
  new_ob_id :: uuid
  new_ob_tenant_id :: uuid
  new_ob_job_id :: uuid
  new_ob_dispatch_generation :: int
  new_ob_envelope_generation :: int
  new_ob_max_envelope_generations :: int
  new_ob_event_type :: string
  new_ob_routing_key :: string
  new_ob_schema_version :: int
  new_ob_available_at :: datetime

definition NewAIJobOutbox_post_init :: "NewAIJobOutbox \<Rightarrow> unit result" where
  "NewAIJobOutbox_post_init b = require
     [uuid_check (new_ob_id b) ''outbox id'',
      uuid_check (new_ob_tenant_id b) ''outbox tenant_id'',
      uuid_check (new_ob_job_id b) ''outbox job_id'',
      positive_check (new_ob_dispatch_generation b) ''outbox dispatch_generation'',
      positive_check (new_ob_envelope_generation b) ''outbox envelope_generation'',
      positive_check (new_ob_max_envelope_generations b) ''outbox max_envelope_generations'',
      (new_ob_envelope_generation b \<le> new_ob_max_envelope_generations b,
        ValueError ''outbox envelope generation exceeds its cap''),
      (new_ob_event_type b \<noteq> [], ValueError ''outbox event type is invalid''),
      (new_ob_routing_key b \<noteq> [], ValueError ''outbox routing key is invalid''),
      positive_check (new_ob_schema_version b) ''outbox schema_version'',
      utc_check (new_ob_available_at b) ''outbox available_at'']"

record NewAIJobGraph =
  graph_job :: "datetime AIJob"
  graph_grant :: "datetime JobExecutionGrant"
  graph_outbox :: NewAIJobOutbox

definition NewAIJobGraph_post_init :: "NewAIJobGraph \<Rightarrow> unit result" where
  "NewAIJobGraph_post_init g = require
     [(job_tenant_id (graph_job g) = grant_tenant_id (graph_grant g)
        \<and> job_tenant_id (graph_job g) = new_ob_tenant_id (graph_outbox g)
        \<and> job_id (graph_job g) = grant_job_id (graph_grant g)
        \<and> job_id (graph_job g) = new_ob_job_id (graph_outbox g),
       ValueError ''job graph parts must reference the same tenant and job'')]"

record ClaimJobRequest =
  claim_tenant_id :: uuid
  claim_job_id :: uuid
  claim_worker_instance_ref :: string
  claim_lease_token :: uuid
  claim_lease_fence :: int
  claim_attempt_id :: uuid
  claim_attempt_no :: int
  claim_trigger_message_id :: uuid
  claim_handler_code :: string
  claim_handler_version :: string
  claim_started_at :: datetime
  claim_lease_expires_at :: datetime

definition ClaimJobRequest_post_init :: "ClaimJobRequest \<Rightarrow> unit result" where
  "ClaimJobRequest_post_init c = require
     [uuid_check (claim_tenant_id c) ''claim tenant_id'',
      uuid_check (claim_job_id c) ''claim job_id'',
      uuid_check (claim_lease_token c) ''claim lease_token'',
      uuid_check (claim_attempt_id c) ''claim attempt_id'',
      uuid_check (claim_trigger_message_id c) ''claim trigger_message_id'',
      (claim_worker_instance_ref c \<noteq> [], ValueError ''claim worker instance ref is invalid''),
      positive_check (claim_lease_fence c) ''claim lease_fence'',
      positive_check (claim_attempt_no c) ''claim attempt_no'',
      (claim_handler_code c \<noteq> [], ValueError ''claim handler code is invalid''),
      (claim_handler_version c \<noteq> [], ValueError ''claim handler version is invalid''),
      utc_check (claim_started_at c) ''claim started_at'',
      utc_check (claim_lease_expires_at c) ''claim lease_expires_at'',
      (instant (claim_started_at c) < instant (claim_lease_expires_at c),
        ValueError ''claim lease expiry must be after start'')]"

record ClaimedExecution =
  exe_job :: "datetime AIJob"
  exe_attempt_id :: uuid
  exe_attempt_no :: int
  exe_lease_token :: uuid
  exe_lease_fence :: int
  exe_trigger_message_id :: uuid
  exe_worker_instance_ref :: string
  exe_lease_expires_at :: datetime

definition ClaimedExecution_post_init :: "ClaimedExecution \<Rightarrow> unit result" where
  "ClaimedExecution_post_init x = require
     [uuid_check (exe_attempt_id x) ''claimed attempt_id'',
      uuid_check (exe_lease_token x) ''claimed lease_token'',
      uuid_check (exe_trigger_message_id x) ''claimed trigger_message_id'',
      positive_check (exe_attempt_no x) ''claimed attempt_no'',
      positive_check (exe_lease_fence x) ''claimed lease_fence'',
      utc_check (exe_lease_expires_at x) ''claimed lease_expires_at'']"

text \<open>\<open>ClaimedExecution | ClaimRejected\<close>, the second with its reason code.\<close>

datatype ClaimOutcome = Claimed ClaimedExecution | ClaimRejected string

record FencedHeartbeat =
  hb_tenant_id :: uuid
  hb_job_id :: uuid
  hb_lease_token :: uuid
  hb_lease_fence :: int
  hb_expected_version :: int
  hb_heartbeat_at :: datetime
  hb_lease_expires_at :: datetime

definition FencedHeartbeat_post_init :: "FencedHeartbeat \<Rightarrow> unit result" where
  "FencedHeartbeat_post_init h = require
     [uuid_check (hb_tenant_id h) ''heartbeat tenant_id'',
      uuid_check (hb_job_id h) ''heartbeat job_id'',
      uuid_check (hb_lease_token h) ''heartbeat lease_token'',
      positive_check (hb_lease_fence h) ''heartbeat lease_fence'',
      positive_check (hb_expected_version h) ''heartbeat expected_version'',
      utc_check (hb_heartbeat_at h) ''heartbeat heartbeat_at'',
      utc_check (hb_lease_expires_at h) ''heartbeat lease_expires_at'',
      (instant (hb_heartbeat_at h) < instant (hb_lease_expires_at h),
        ValueError ''heartbeat lease expiry must be after heartbeat time'')]"

record FencedFinalizeSuccess =
  fin_tenant_id :: uuid
  fin_job_id :: uuid
  fin_lease_token :: uuid
  fin_lease_fence :: int
  fin_expected_version :: int
  fin_result :: "(string \<times> json) list"
  fin_now :: datetime

definition FencedFinalizeSuccess_post_init :: "FencedFinalizeSuccess \<Rightarrow> unit result" where
  "FencedFinalizeSuccess_post_init f = require
     [uuid_check (fin_tenant_id f) ''finalize tenant_id'',
      uuid_check (fin_job_id f) ''finalize job_id'',
      uuid_check (fin_lease_token f) ''finalize lease_token'',
      positive_check (fin_lease_fence f) ''finalize lease_fence'',
      positive_check (fin_expected_version f) ''finalize expected_version'',
      utc_check (fin_now f) ''finalize now'']"

subsection \<open>Facts about the statuses\<close>

lemma retry_bucket_cases:
  "retry_delay_seconds n = (if n < 1 then Inl (ValueError ''attempt number must be a positive integer'')
     else Inr (if n = 1 then 5 else if n = 2 then 30 else 120))"
proof -
  have "n = 1 \<or> n = 2 \<or> 3 \<le> n \<or> n < 1" by linarith
  then show ?thesis
    by (auto simp: retry_delay_seconds_def RETRY_BUCKET_SECONDS_def min_def)
qed

lemma timedelta_half_bounds: "2 * timedelta_half d \<le> d + 1" "d - 1 \<le> 2 * timedelta_half d"
  unfolding timedelta_half_def by presburger+

inductive status_path :: "AIJobStatus \<Rightarrow> AIJobStatus \<Rightarrow> bool" where
  here: "status_path s s"
| step: "status_path s t \<Longrightarrow> require_transition t u = Inr () \<Longrightarrow> status_path s u"

lemma require_transition_Inr: "require_transition s t = Inr u \<longleftrightarrow> (s, t) \<in> set allowed_transitions"
  by (simp add: require_transition_def)

lemma status_path_one: "(s, t) \<in> set allowed_transitions \<Longrightarrow> status_path s t"
  by (rule status_path.step [OF status_path.here]) (simp add: require_transition_Inr)

lemma status_path_trans: "status_path t u \<Longrightarrow> status_path s t \<Longrightarrow> status_path s u"
  by (induction rule: status_path.induct) (auto intro: status_path.step)

lemma terminal_no_successor:
  "s \<in> terminal_job_statuses \<Longrightarrow> require_transition s t \<noteq> Inr ()"
  by (auto simp: terminal_job_statuses_def require_transition_def allowed_transitions_def)

text \<open>
  The transition table is a proper life cycle. A terminal status admits no transition, so
  whatever path leaves it stays there; every other status has a path to a terminal one; no
  transition re-enters \<open>QUEUED\<close>, and a job only ever succeeds from \<open>RUNNING\<close>.
\<close>
theorem job_life_cycle:
  "(s \<in> terminal_job_statuses \<longleftrightarrow> (\<forall>t. require_transition s t \<noteq> Inr ()))
   \<and> (s \<in> terminal_job_statuses \<and> status_path s t \<longrightarrow> t = s)
   \<and> (\<exists>t\<in>terminal_job_statuses. status_path s t)
   \<and> require_transition s QUEUED \<noteq> Inr ()
   \<and> (require_transition s SUCCEEDED = Inr () \<longrightarrow> s = RUNNING)"
proof -
  have absorbing: "status_path s t \<Longrightarrow> s \<in> terminal_job_statuses \<Longrightarrow> t = s" for s t
    by (induction rule: status_path.induct) (auto dest: terminal_no_successor)
  have succ: "s \<in> terminal_job_statuses \<or> (\<exists>t. require_transition s t = Inr ())"
    unfolding require_transition_Inr
    by (cases s) (auto simp: terminal_job_statuses_def allowed_transitions_def)
  have run: "status_path RUNNING FAILED" "status_path QUEUED FAILED" "status_path RETRY_SCHEDULED FAILED"
    "status_path CANCEL_REQUESTED CANCELLED"
    by (simp_all add: status_path_one allowed_transitions_def)
  have "\<exists>t\<in>terminal_job_statuses. status_path s t"
    using run status_path.here by (cases s) (auto simp: terminal_job_statuses_def)
  moreover have "require_transition s QUEUED \<noteq> Inr ()"
    by (simp add: require_transition_Inr allowed_transitions_def)
  moreover have "require_transition s SUCCEEDED = Inr () \<longrightarrow> s = RUNNING"
    by (simp add: require_transition_Inr allowed_transitions_def)
  ultimately show ?thesis
    using absorbing succ terminal_no_successor by blast
qed

text \<open>
  The lease timing that \<open>validate_runtime_timing\<close> accepts leaves room for two heartbeats
  within one lease, whatever the rounding of \<open>lease / 2\<close> to microseconds does: a worker that
  misses one heartbeat still extends its lease in time.
\<close>
theorem runtime_timing_two_heartbeats:
  assumes "validate_runtime_timing lease heartbeat = Inr ()"
  shows "0 < heartbeat \<and> 2 * heartbeat < lease"
  using assms timedelta_half_bounds(1) [of lease]
  by (auto simp: validate_runtime_timing_def validate_simps)

lemma runtime_timing_two_heartbeats_witness:
  "validate_runtime_timing (seconds 60) (seconds 20) = Inr () \<and> 2 * seconds 20 < seconds 60"
proof -
  have v: "validate_runtime_timing (seconds 60) (seconds 20) = Inr ()"
    by (simp add: validate_runtime_timing_def require_eval seconds_def timedelta_half_def)
  show ?thesis using v runtime_timing_two_heartbeats [OF v] by simp
qed

lemma job_life_cycle_witness:
  "require_transition SUCCEEDED RUNNING \<noteq> Inr () \<and> (\<exists>t. t \<in> terminal_job_statuses \<and> status_path CANCEL_REQUESTED t)
   \<and> \<not> status_path FAILED RUNNING"
  using job_life_cycle [of SUCCEEDED] job_life_cycle [of CANCEL_REQUESTED] job_life_cycle [of FAILED RUNNING]
  by (auto simp: terminal_job_statuses_def)

text \<open>
  The retry delay is defined for exactly the positive attempt numbers, never decreases with
  the attempt and never exceeds two minutes.
\<close>
theorem retry_delay_schedule:
  "(case retry_delay_seconds n of
      Inl e \<Rightarrow> n < 1
    | Inr d \<Rightarrow> 1 \<le> n \<and> 5 \<le> d \<and> d \<le> 120
        \<and> (case retry_delay_seconds (n + 1) of Inl e \<Rightarrow> False | Inr d' \<Rightarrow> d \<le> d'))"
  by (auto simp: retry_bucket_cases)

end
