(* ===== verification/GrantPolicy.thy ===== *)
theory GrantPolicy
  imports AIJobs
begin

text \<open>
  \<open>application/ai_jobs.py\<close>: the scope a set of roles gives over AI jobs (\<open>resolve\<close> for requests,
  \<open>resolve_scope\<close> of the authority loader for workers), the authority snapshot a worker reloads
  before it executes anything, and \<open>authorize\<close>, the durable grant policy over that snapshot.
\<close>

subsection \<open>Scopes of roles\<close>

definition tenant_wide_roles :: "string set" where
  "tenant_wide_roles = {''tenant_owner'', ''tenant_admin''}"

definition owner_shared_roles :: "string set" where
  "owner_shared_roles = {''department_admin'', ''lawyer_or_legal'', ''assistant'', ''teacher''}"

definition JOB_SCOPE_BY_ROLE :: "string \<Rightarrow> JobAuthorizationScope option" where
  "JOB_SCOPE_BY_ROLE role =
     (if role \<in> tenant_wide_roles
      then Some \<lparr>scope_owner = True, scope_shared = True, scope_tenant_wide = True\<rparr>
      else if role \<in> owner_shared_roles
      then Some \<lparr>scope_owner = True, scope_shared = True, scope_tenant_wide = False\<rparr>
      else None)"

definition scope_from_code :: "JobScopeCode \<Rightarrow> JobAuthorizationScope" where
  "scope_from_code code =
     (if code = TENANT_WIDE then \<lparr>scope_owner = True, scope_shared = True, scope_tenant_wide = True\<rparr>
      else \<lparr>scope_owner = True, scope_shared = True, scope_tenant_wide = False\<rparr>)"

text \<open>\<open>any(scope.f for scope in scopes)\<close> over the mapped roles.\<close>

definition any_scope :: "(JobAuthorizationScope \<Rightarrow> bool) \<Rightarrow> string set \<Rightarrow> bool" where
  "any_scope f roles \<longleftrightarrow> (\<exists>role\<in>roles. case JOB_SCOPE_BY_ROLE role of None \<Rightarrow> False | Some s \<Rightarrow> f s)"

definition union_scope :: "string set \<Rightarrow> JobAuthorizationScope" where
  "union_scope roles = \<lparr>scope_owner = any_scope scope_owner roles, scope_shared = any_scope scope_shared roles,
     scope_tenant_wide = any_scope scope_tenant_wide roles\<rparr>"

definition JobAuthorizationResolver_resolve ::
    "string set \<Rightarrow> string set \<Rightarrow> AIJobPermission \<Rightarrow> JobAuthorizationScope result" where
  "JobAuthorizationResolver_resolve permissions role_codes permission =
     (if AIJobPermission_value permission \<notin> permissions then Inl (JobAuthorizationDenied ''permission_denied'')
      else if role_codes = {} \<or> (\<exists>role\<in>role_codes. JOB_SCOPE_BY_ROLE role = None)
      then Inl (JobAuthorizationDenied ''job_scope_unmapped'')
      else Inr (union_scope role_codes))"

text \<open>\<open>_resolve_scope\<close> of the loader: scope, its code, and whether some role is unknown.\<close>

definition resolve_scope :: "string set \<Rightarrow> (JobAuthorizationScope \<times> JobScopeCode \<times> bool) result" where
  "resolve_scope role_codes =
     (let unknown_or_mixed = role_codes = {} \<or> (\<exists>role\<in>role_codes. JOB_SCOPE_BY_ROLE role = None) in
      if \<exists>role\<in>role_codes. JOB_SCOPE_BY_ROLE role \<noteq> None then
        bindE (scope_code (union_scope role_codes)) (\<lambda>code.
          Inr (union_scope role_codes, code, unknown_or_mixed))
      else Inr (\<lparr>scope_owner = False, scope_shared = False, scope_tenant_wide = False\<rparr>, OWNER_SHARED,
                unknown_or_mixed))"

subsection \<open>The durable grant policy\<close>

record JobAuthoritySnapshot =
  snap_job :: "datetime AIJob"
  snap_grant :: "datetime JobExecutionGrant"
  snap_user_active :: bool
  snap_tenant_active :: bool
  snap_membership :: Membership
  snap_role_codes :: "string set"
  snap_permission_codes :: "string set"
  snap_auth_version :: int
  snap_authz_version :: int
  snap_resolved_scope :: JobAuthorizationScope
  snap_resolved_scope_code :: JobScopeCode
  snap_granted_scope :: JobAuthorizationScope
  snap_unknown_or_mixed_role_codes :: bool

definition membership_active_at :: "JobAuthoritySnapshot \<Rightarrow> datetime \<Rightarrow> bool" where
  "membership_active_at s now \<longleftrightarrow>
     mem_status (snap_membership s) = MembershipStatus_ACTIVE
     \<and> instant (mem_valid_from (snap_membership s)) \<le> instant now
     \<and> (case mem_valid_until (snap_membership s) of None \<Rightarrow> True | Some u \<Rightarrow> instant now < instant u)"

record JobAuthorizationDecision =
  job_allowed :: bool
  job_reason_code :: string

definition grant_checks :: "JobAuthoritySnapshot \<Rightarrow> datetime \<Rightarrow> (bool \<times> string) list" where
  "grant_checks s now =
     (let job = snap_job s; grant = snap_grant s; membership = snap_membership s in
     [(job_tenant_id job = grant_tenant_id grant, ''grant_tenant_mismatch''),
      (job_id job = grant_job_id grant, ''grant_job_mismatch''),
      (job_created_by_user_id job = grant_user_id grant, ''grant_owner_mismatch''),
      (job_created_by_membership_id job = grant_membership_id grant, ''grant_membership_mismatch''),
      (instant now < instant (job_expires_at job), ''job_expired''),
      (grant_revoked_at grant = None, ''grant_revoked''),
      (snap_user_active s, ''user_inactive''),
      (snap_tenant_active s, ''tenant_inactive''),
      (membership_active_at s now, ''membership_inactive''),
      (mem_user_id membership = grant_user_id grant, ''membership_user_mismatch''),
      (mem_tenant_id membership = grant_tenant_id grant, ''membership_tenant_mismatch''),
      (grant_auth_version_at_submit grant = snap_auth_version s, ''auth_version_changed''),
      (grant_authz_version_at_submit grant = snap_authz_version s, ''authz_version_changed''),
      (grant_permission_code grant = Permission_CREATE, ''grant_permission_invalid''),
      (grant_policy_version grant = JOB_POLICY_VERSION, ''grant_policy_version_mismatch''),
      (grant_job_scope_manifest_version grant = JOB_SCOPE_MANIFEST_VERSION, ''grant_manifest_version_mismatch''),
      (grant_job_scope_code grant = snap_resolved_scope_code s, ''grant_scope_code_mismatch''),
      (AIJobPermission_value Permission_CREATE \<in> snap_permission_codes s, ''permission_denied''),
      (\<not> snap_unknown_or_mixed_role_codes s, ''unknown_role''),
      (snap_resolved_scope s = snap_granted_scope s, ''scope_mismatch'')])"

text \<open>
  The checks are a tuple, so all of them are evaluated first; comparing the job's expiry with a
  naive \<open>now\<close> raises \<open>TypeError\<close>.
\<close>

definition DurableGrantPolicy_authorize ::
    "JobAuthoritySnapshot \<Rightarrow> datetime \<Rightarrow> JobAuthorizationDecision result" where
  "DurableGrantPolicy_authorize s now =
     (if dt_offset now = None
      then Inl (TypeError ''can't compare offset-naive and offset-aware datetimes'')
      else Inr (case require (grant_checks s now) of
                  Inl reason \<Rightarrow> \<lparr>job_allowed = False, job_reason_code = reason\<rparr>
                | Inr _ \<Rightarrow> \<lparr>job_allowed = True, job_reason_code = ''allowed''\<rparr>))"

subsection \<open>Facts\<close>

lemma role_scope_owner_shared:
  "JOB_SCOPE_BY_ROLE role = Some s \<Longrightarrow> scope_owner s \<and> scope_shared s"
  by (auto simp: JOB_SCOPE_BY_ROLE_def split: if_splits)

lemma role_scope_tenant_wide:
  "JOB_SCOPE_BY_ROLE role = Some s \<Longrightarrow> scope_tenant_wide s \<longleftrightarrow> role \<in> tenant_wide_roles"
  by (auto simp: JOB_SCOPE_BY_ROLE_def split: if_splits)

lemma any_scope_tenant_wide:
  "any_scope scope_tenant_wide roles \<longleftrightarrow> roles \<inter> tenant_wide_roles \<noteq> {}"
proof -
  have "role \<in> tenant_wide_roles \<Longrightarrow> JOB_SCOPE_BY_ROLE role \<noteq> None" for role
    by (simp add: JOB_SCOPE_BY_ROLE_def)
  then show ?thesis
    by (fastforce simp: any_scope_def role_scope_tenant_wide split: option.splits)
qed

lemma union_scope_mapped:
  "\<exists>role\<in>roles. JOB_SCOPE_BY_ROLE role \<noteq> None \<Longrightarrow>
     any_scope scope_owner roles \<and> any_scope scope_shared roles"
  by (force simp: any_scope_def dest: role_scope_owner_shared split: option.splits)

definition role_scope_code :: "string set \<Rightarrow> JobScopeCode" where
  "role_scope_code roles =
     (if roles \<inter> tenant_wide_roles \<noteq> {} then TENANT_WIDE else OWNER_SHARED)"

lemma union_scope_code:
  assumes "\<exists>role\<in>roles. JOB_SCOPE_BY_ROLE role \<noteq> None"
  shows "scope_code (union_scope roles) = Inr (role_scope_code roles)
     \<and> union_scope roles = scope_from_code (role_scope_code roles)"
  using union_scope_mapped [OF assms]
  by (simp add: scope_code_def union_scope_def role_scope_code_def scope_from_code_def any_scope_tenant_wide)

lemma resolve_scope_total:
  obtains scope code unknown where "resolve_scope roles = Inr (scope, code, unknown)"
    "code = (if \<exists>role\<in>roles. JOB_SCOPE_BY_ROLE role \<noteq> None then role_scope_code roles else OWNER_SHARED)"
    "\<not> unknown \<Longrightarrow> scope = scope_from_code code \<and> roles \<noteq> {} \<and> (\<forall>role\<in>roles. JOB_SCOPE_BY_ROLE role \<noteq> None)"
proof (cases "\<exists>role\<in>roles. JOB_SCOPE_BY_ROLE role \<noteq> None")
  case True
  show ?thesis
    by (rule that) (use True union_scope_code [OF True] in \<open>auto simp: resolve_scope_def\<close>)
next
  case False
  show ?thesis
    by (rule that) (use False in \<open>auto simp: resolve_scope_def\<close>)
qed

lemma authorize_allowed:
  "DurableGrantPolicy_authorize s now = Inr d \<Longrightarrow> job_allowed d \<longleftrightarrow> (\<forall>(ok, reason) \<in> set (grant_checks s now). ok)"
  using require_eq_Inr [of "grant_checks s now" "()"]
  by (auto simp: DurableGrantPolicy_authorize_def split: if_splits sum.splits)

lemma authorize_utc:
  "is_utc now \<Longrightarrow> \<exists>d. DurableGrantPolicy_authorize s now = Inr d"
  by (simp add: DurableGrantPolicy_authorize_def is_utc_def)

lemma authorize_reason:
  assumes "DurableGrantPolicy_authorize s now = Inr d" "\<not> job_allowed d"
  shows "(False, job_reason_code d) \<in> set (grant_checks s now)"
  using assms require_first_failure [of "grant_checks s now"]
  by (fastforce simp: DurableGrantPolicy_authorize_def split: if_splits sum.splits)


text \<open>What the authority loader puts in the scope fields of a snapshot.\<close>

definition loaded_scopes :: "JobAuthoritySnapshot \<Rightarrow> bool" where
  "loaded_scopes s \<longleftrightarrow>
     resolve_scope (snap_role_codes s) =
       Inr (snap_resolved_scope s, snap_resolved_scope_code s, snap_unknown_or_mixed_role_codes s)
     \<and> snap_granted_scope s = scope_from_code (grant_job_scope_code (snap_grant s))"

lemma loaded_scopes_agree:
  assumes "loaded_scopes s" "\<not> snap_unknown_or_mixed_role_codes s"
  shows "snap_resolved_scope s = scope_from_code (snap_resolved_scope_code s)
    \<and> snap_resolved_scope_code s = role_scope_code (snap_role_codes s)
    \<and> snap_role_codes s \<noteq> {} \<and> (\<forall>role\<in>snap_role_codes s. JOB_SCOPE_BY_ROLE role \<noteq> None)"
proof (rule resolve_scope_total [of "snap_role_codes s"])
  fix scope code unknown
  assume *: "resolve_scope (snap_role_codes s) = Inr (scope, code, unknown)"
    "code = (if \<exists>role\<in>snap_role_codes s. JOB_SCOPE_BY_ROLE role \<noteq> None
             then role_scope_code (snap_role_codes s) else OWNER_SHARED)"
    "\<not> unknown \<Longrightarrow> scope = scope_from_code code \<and> snap_role_codes s \<noteq> {}
       \<and> (\<forall>role\<in>snap_role_codes s. JOB_SCOPE_BY_ROLE role \<noteq> None)"
  then have eq: "scope = snap_resolved_scope s" "code = snap_resolved_scope_code s" "\<not> unknown"
    using assms by (simp_all add: loaded_scopes_def)
  have known: "snap_role_codes s \<noteq> {}" "\<forall>role\<in>snap_role_codes s. JOB_SCOPE_BY_ROLE role \<noteq> None"
    using *(3) eq(3) by simp_all
  then have "\<exists>role\<in>snap_role_codes s. JOB_SCOPE_BY_ROLE role \<noteq> None" by blast
  then have "code = role_scope_code (snap_role_codes s)" using *(2) by simp
  then show ?thesis using known *(3) eq by simp
qed

lemma authorize_eq:
  assumes "DurableGrantPolicy_authorize s now = Inr d"
  shows "d = (case require (grant_checks s now) of
     Inl reason \<Rightarrow> \<lparr>job_allowed = False, job_reason_code = reason\<rparr>
   | Inr _ \<Rightarrow> \<lparr>job_allowed = True, job_reason_code = ''allowed''\<rparr>)"
  using assms unfolding DurableGrantPolicy_authorize_def by (cases "dt_offset now = None") simp_all

lemma reason_first:
  assumes "DurableGrantPolicy_authorize s now = Inr d" "\<not> job_allowed d"
  shows "\<exists>pre post. grant_checks s now = pre @ (False, job_reason_code d) # post \<and> (\<forall>(ok, r) \<in> set pre. ok)"
proof (cases "require (grant_checks s now)")
  case (Inl reason)
  then have "job_reason_code d = reason" using authorize_eq [OF assms(1)] by simp
  then show ?thesis using require_first_failure [OF Inl] by simp
next
  case (Inr u)
  then show ?thesis using authorize_eq [OF assms(1)] assms(2) by simp
qed

lemma grant_check_names:
  "length (grant_checks s now) = 20"
  "map snd (grant_checks s now) = [''grant_tenant_mismatch'', ''grant_job_mismatch'', ''grant_owner_mismatch'',
   ''grant_membership_mismatch'', ''job_expired'', ''grant_revoked'', ''user_inactive'', ''tenant_inactive'',
   ''membership_inactive'', ''membership_user_mismatch'', ''membership_tenant_mismatch'', ''auth_version_changed'',
   ''authz_version_changed'', ''grant_permission_invalid'', ''grant_policy_version_mismatch'',
   ''grant_manifest_version_mismatch'', ''grant_scope_code_mismatch'', ''permission_denied'', ''unknown_role'',
   ''scope_mismatch'']"
  "distinct (map snd (grant_checks s now))"
  by (simp_all add: grant_checks_def Let_def)

lemma reason_unique:
  assumes "grant_checks s now = pre @ (False, r) # post" "(ok, r) \<in> set (grant_checks s now)"
  shows "\<not> ok"
proof -
  have "distinct (map snd (grant_checks s now))" by (rule grant_check_names)
  then show ?thesis using assms by (auto simp: image_iff)
qed

text \<open>
  C29. An allowed decision binds the execution to the grant: the job, the grant and the membership
  name the same tenant, user and membership; user, tenant and membership are active, now lies in the
  validity window of the membership and before the expiry of the job, the grant is not revoked, neither
  version changed since submission, policy and manifest are the current ones, the permission is the one
  granted and still held.  No role is unmapped, and when the scope fields are those the authority loader
  computes from the roles, the roles still give exactly the scope granted.
\<close>

theorem authorize_binds_grant:
  assumes "DurableGrantPolicy_authorize s now = Inr d" "job_allowed d"
  shows "job_tenant_id (snap_job s) = grant_tenant_id (snap_grant s)
    \<and> mem_tenant_id (snap_membership s) = grant_tenant_id (snap_grant s)
    \<and> job_id (snap_job s) = grant_job_id (snap_grant s)
    \<and> mem_user_id (snap_membership s) = job_created_by_user_id (snap_job s)
    \<and> grant_user_id (snap_grant s) = job_created_by_user_id (snap_job s)
    \<and> job_created_by_membership_id (snap_job s) = grant_membership_id (snap_grant s)
    \<and> snap_user_active s \<and> snap_tenant_active s \<and> mem_status (snap_membership s) = MembershipStatus_ACTIVE
    \<and> instant (mem_valid_from (snap_membership s)) \<le> instant now
    \<and> (\<forall>u. mem_valid_until (snap_membership s) = Some u \<longrightarrow> instant now < instant u)
    \<and> instant now < instant (job_expires_at (snap_job s)) \<and> grant_revoked_at (snap_grant s) = None
    \<and> grant_auth_version_at_submit (snap_grant s) = snap_auth_version s
    \<and> grant_authz_version_at_submit (snap_grant s) = snap_authz_version s
    \<and> grant_policy_version (snap_grant s) = JOB_POLICY_VERSION
    \<and> grant_job_scope_manifest_version (snap_grant s) = JOB_SCOPE_MANIFEST_VERSION
    \<and> grant_permission_code (snap_grant s) = Permission_CREATE \<and> ''ai_job.create'' \<in> snap_permission_codes s
    \<and> \<not> snap_unknown_or_mixed_role_codes s
    \<and> grant_job_scope_code (snap_grant s) = snap_resolved_scope_code s \<and> snap_resolved_scope s = snap_granted_scope s
    \<and> (loaded_scopes s \<longrightarrow> snap_role_codes s \<noteq> {} \<and> snap_role_codes s \<subseteq> tenant_wide_roles \<union> owner_shared_roles
         \<and> grant_job_scope_code (snap_grant s) = role_scope_code (snap_role_codes s))"
proof -
  have all: "\<forall>(ok, reason) \<in> set (grant_checks s now). ok"
    using authorize_allowed [OF assms(1)] assms(2) by simp
  have known: "\<not> snap_unknown_or_mixed_role_codes s" and code: "grant_job_scope_code (snap_grant s) = snap_resolved_scope_code s"
    using all by (simp_all add: grant_checks_def Let_def)
  have mapped: "JOB_SCOPE_BY_ROLE role \<noteq> None \<longleftrightarrow> role \<in> tenant_wide_roles \<union> owner_shared_roles" for role
    by (simp add: JOB_SCOPE_BY_ROLE_def)
  have "snap_role_codes s \<noteq> {} \<and> snap_role_codes s \<subseteq> tenant_wide_roles \<union> owner_shared_roles
      \<and> grant_job_scope_code (snap_grant s) = role_scope_code (snap_role_codes s)" if "loaded_scopes s"
    using loaded_scopes_agree [OF that known] code mapped by auto
  moreover have "membership_active_at s now" using all by (simp add: grant_checks_def Let_def)
  then have "mem_status (snap_membership s) = MembershipStatus_ACTIVE"
    "instant (mem_valid_from (snap_membership s)) \<le> instant now"
    "\<forall>u. mem_valid_until (snap_membership s) = Some u \<longrightarrow> instant now < instant u"
    by (auto simp: membership_active_at_def)
  ultimately show ?thesis
    using all by (simp add: grant_checks_def Let_def)
qed

text \<open>
  The last check of the policy cannot be the one that denies: over a snapshot whose scopes
  the loader computed, the reason is never \<open>scope_mismatch\<close>, because equal scope codes and known
  roles already give equal scopes.
\<close>

theorem scope_mismatch_unreachable:
  assumes "DurableGrantPolicy_authorize s now = Inr d" "loaded_scopes s"
  shows "job_reason_code d \<noteq> ''scope_mismatch''"
proof
  assume r: "job_reason_code d = ''scope_mismatch''"
  then have "\<not> job_allowed d" using authorize_eq [OF assms(1)] by (auto split: sum.splits)
  then obtain pre post where cs: "grant_checks s now = pre @ (False, ''scope_mismatch'') # post"
      and ok: "\<forall>(ok, r) \<in> set pre. ok"
    using reason_first [OF assms(1)] r by auto
  have len: "length pre = 19"
  proof (rule ccontr)
    assume "length pre \<noteq> 19"
    moreover have "length pre < 20" using arg_cong [OF cs, of length] grant_check_names(1) [of s now] by simp
    moreover have "map snd (grant_checks s now) ! length pre = ''scope_mismatch''" by (simp add: cs nth_append)
    moreover have "map snd (grant_checks s now) ! 19 = ''scope_mismatch''" by (simp add: grant_check_names(2))
    ultimately show False
      using nth_eq_iff_index_eq [OF grant_check_names(3) [of s now], of "length pre" 19]
        grant_check_names(1) [of s now] by simp
  qed
  have pre: "pre = take 19 (grant_checks s now)" using cs len by simp
  have last: "grant_checks s now ! 19 = (False, ''scope_mismatch'')" using cs len by (simp add: nth_append)
  have "\<not> snap_unknown_or_mixed_role_codes s" "grant_job_scope_code (snap_grant s) = snap_resolved_scope_code s"
    using ok pre by (simp_all add: grant_checks_def Let_def)
  moreover have "snap_resolved_scope s \<noteq> snap_granted_scope s"
    using last by (simp add: grant_checks_def Let_def)
  ultimately show False
    using loaded_scopes_agree [OF assms(2)] assms(2) by (simp add: loaded_scopes_def)
qed

text \<open>
  Over an unchanged snapshot the authority is an interval of time: if a job may run at two
  instants it may run at every instant between them.
\<close>

theorem authorize_window_convex:
  assumes "DurableGrantPolicy_authorize s t1 = Inr d1" "job_allowed d1"
    and "DurableGrantPolicy_authorize s t3 = Inr d3" "job_allowed d3"
    and "DurableGrantPolicy_authorize s t2 = Inr d2" "instant t1 \<le> instant t2" "instant t2 \<le> instant t3"
  shows "job_allowed d2"
proof -
  have ok: "\<forall>(ok, reason) \<in> set (grant_checks s t1). ok" "\<forall>(ok, reason) \<in> set (grant_checks s t3). ok"
    using authorize_allowed [OF assms(1)] authorize_allowed [OF assms(3)] assms(2,4) by simp_all
  then have "membership_active_at s t1" "membership_active_at s t3" "instant t3 < instant (job_expires_at (snap_job s))"
    by (simp_all add: grant_checks_def Let_def)
  then have "membership_active_at s t2" "instant t2 < instant (job_expires_at (snap_job s))"
    using assms(6,7) by (auto simp: membership_active_at_def split: option.splits)
  then show ?thesis
    using ok(1) authorize_allowed [OF assms(5)] by (simp add: grant_checks_def Let_def)
qed

text \<open>
  The two resolutions of a role set agree: when a request may act under the resolver's scope,
  the worker's loader computes the same scope with a code that reads back to it, and reports no
  unknown role.
\<close>

theorem resolver_loader_agree:
  assumes "JobAuthorizationResolver_resolve permissions roles permission = Inr scope"
  shows "\<exists>code. resolve_scope roles = Inr (scope, code, False) \<and> scope_code scope = Inr code
    \<and> scope_from_code code = scope"
proof -
  have known: "roles \<noteq> {}" "\<forall>role\<in>roles. JOB_SCOPE_BY_ROLE role \<noteq> None" and scope: "scope = union_scope roles"
    using assms by (auto simp: JobAuthorizationResolver_resolve_def split: if_splits)
  then have some: "\<exists>role\<in>roles. JOB_SCOPE_BY_ROLE role \<noteq> None" by blast
  show ?thesis
    using known some scope union_scope_code [OF some] by (auto simp: resolve_scope_def)
qed

subsection \<open>A concrete snapshot\<close>

definition sample_job :: "datetime AIJob" where
  "sample_job = \<lparr>job_id = u7 5, job_tenant_id = u7 1, job_handler_code = ''synthetic'', job_handler_version = ''1'',
     job_input_schema_version = ''1'', job_input_json = [], job_input_fingerprint = replicate 32 0,
     job_created_by_user_id = u7 3, job_created_by_membership_id = u7 2, job_created_by_session_id = u7 4,
     job_actor_snapshot_json = [], job_policy_version_at_submit = JOB_POLICY_VERSION, job_visibility = OWNER_ONLY,
     job_status = QUEUED, job_current_attempt_no = 0, job_max_attempts = 4, job_risk_class = SYNTHETIC,
     job_release_state = NON_PUBLISHABLE, job_idempotency_record_id = u7 6, job_correlation_id = u7 7,
     job_submitted_at = aware 10, job_expires_at = aware 900000010, job_version = 1, job_next_attempt_at = None,
     job_lease_owner = None, job_lease_token = None, job_lease_fence = None, job_lease_expires_at = None,
     job_cancel_requested_at = None, job_cancel_requested_by_user_id = None, job_cancel_reason_code = None,
     job_result_json = None, job_failure_class = None, job_failure_code = None, job_started_at = None,
     job_completed_at = None\<rparr>"

definition sample_grant :: "datetime JobExecutionGrant" where
  "sample_grant = \<lparr>grant_id = u7 8, grant_tenant_id = u7 1, grant_job_id = u7 5, grant_user_id = u7 3,
     grant_membership_id = u7 2, grant_permission_code = Permission_CREATE, grant_auth_version_at_submit = 1,
     grant_authz_version_at_submit = 1, grant_policy_version = JOB_POLICY_VERSION,
     grant_job_scope_manifest_version = JOB_SCOPE_MANIFEST_VERSION, grant_job_scope_code = OWNER_SHARED,
     grant_issued_at = aware 10, grant_revoked_at = None, grant_revocation_reason_code = None, grant_version = 1\<rparr>"

definition sample_membership :: Membership where
  "sample_membership = \<lparr>mem_id = u7 2, mem_tenant_id = u7 1, mem_user_id = u7 3, mem_department_id = None,
     mem_member_type = MemberType_INTERNAL, mem_status = MembershipStatus_ACTIVE, mem_valid_from = aware 0,
     mem_valid_until = None, mem_authz_version = 1, mem_version = 1\<rparr>"

definition sample_snapshot :: "string \<Rightarrow> JobAuthoritySnapshot" where
  "sample_snapshot role = \<lparr>snap_job = sample_job, snap_grant = sample_grant, snap_user_active = True,
     snap_tenant_active = True, snap_membership = sample_membership, snap_role_codes = {role},
     snap_permission_codes = {''ai_job.create''}, snap_auth_version = 1, snap_authz_version = 1,
     snap_resolved_scope = union_scope {role}, snap_resolved_scope_code = role_scope_code {role},
     snap_granted_scope = scope_from_code OWNER_SHARED, snap_unknown_or_mixed_role_codes = False\<rparr>"

lemma teacher_mapped: "\<exists>role\<in>{''teacher''}. JOB_SCOPE_BY_ROLE role \<noteq> None" "''teacher'' \<notin> tenant_wide_roles"
  by (simp_all add: JOB_SCOPE_BY_ROLE_def tenant_wide_roles_def owner_shared_roles_def)

lemma teacher_loaded: "loaded_scopes (sample_snapshot ''teacher'')"
  using union_scope_code [OF teacher_mapped(1)] teacher_mapped(1)
  by (auto simp: loaded_scopes_def sample_snapshot_def resolve_scope_def sample_grant_def)

lemma teacher_allowed:
  "0 \<le> t \<Longrightarrow> t < 900000010 \<Longrightarrow>
     DurableGrantPolicy_authorize (sample_snapshot ''teacher'') (aware t) = Inr \<lparr>job_allowed = True, job_reason_code = ''allowed''\<rparr>"
  using union_scope_code [OF teacher_mapped(1)] teacher_mapped(2)
  by (simp add: DurableGrantPolicy_authorize_def grant_checks_def Let_def sample_snapshot_def sample_job_def
      sample_grant_def sample_membership_def membership_active_at_def role_scope_code_def require_eval
      aware_def instant_def)

lemma authorize_binds_grant_witness:
  "DurableGrantPolicy_authorize (sample_snapshot ''teacher'') (aware 20) =
     Inr \<lparr>job_allowed = True, job_reason_code = ''allowed''\<rparr>
   \<and> mem_status sample_membership = MembershipStatus_ACTIVE
   \<and> grant_job_scope_code sample_grant = role_scope_code {''teacher''}"
  using authorize_binds_grant [OF teacher_allowed [of 20]] teacher_loaded teacher_allowed [of 20]
  by (simp add: sample_snapshot_def)

lemma scope_mismatch_unreachable_witness:
  "\<exists>d. DurableGrantPolicy_authorize (sample_snapshot ''teacher'') (aware 900000010) = Inr d
     \<and> \<not> job_allowed d \<and> job_reason_code d \<noteq> ''scope_mismatch''"
proof -
  obtain d where d: "DurableGrantPolicy_authorize (sample_snapshot ''teacher'') (aware 900000010) = Inr d"
    using authorize_utc [of "aware 900000010"] by auto
  have "(False, ''job_expired'') \<in> set (grant_checks (sample_snapshot ''teacher'') (aware 900000010))"
    by (simp add: grant_checks_def Let_def sample_snapshot_def sample_job_def)
  then have "\<not> job_allowed d" using authorize_allowed [OF d] by auto
  then show ?thesis using d scope_mismatch_unreachable [OF d teacher_loaded] by blast
qed

lemma authorize_window_convex_witness:
  "\<exists>d. DurableGrantPolicy_authorize (sample_snapshot ''teacher'') (aware 20) = Inr d \<and> job_allowed d"
proof -
  obtain d where d: "DurableGrantPolicy_authorize (sample_snapshot ''teacher'') (aware 20) = Inr d"
    using authorize_utc [of "aware 20"] by auto
  then show ?thesis
    using authorize_window_convex [OF teacher_allowed [of 10] _ teacher_allowed [of 30] _ d] by simp
qed

lemma resolver_loader_agree_witness:
  "\<exists>scope code. JobAuthorizationResolver_resolve {''ai_job.read''} {''teacher''} Permission_READ = Inr scope
     \<and> resolve_scope {''teacher''} = Inr (scope, code, False)"
proof -
  have r: "JobAuthorizationResolver_resolve {''ai_job.read''} {''teacher''} Permission_READ = Inr (union_scope {''teacher''})"
    using teacher_mapped(1) by (auto simp: JobAuthorizationResolver_resolve_def)
  then show ?thesis using resolver_loader_agree [OF r] by blast
qed

end
