(* ===== verification/Idempotency.thy ===== *)
theory Idempotency
  imports Text Uuid7 Tables
begin

text \<open>
  \<open>application/idempotency.py\<close> and \<open>repositories/idempotency.py\<close>: at-most-once execution of a
  request under a client key. The service hashes the key, fingerprints the declared business
  values of the body, and drives one row of the table \<open>idempotency_records\<close> through
  reserved / completed / failed.  The hash functions and \<open>json.loads\<close> are the fields of
  \<open>externals\<close>.
\<close>

record externals =
  ext_sha256 :: "bytes \<Rightarrow> bytes"
  ext_hmac_sha256 :: "bytes \<Rightarrow> bytes \<Rightarrow> bytes"
  ext_json_loads :: "string \<Rightarrow> json option"

subsection \<open>Values of the service\<close>

datatype IdempotencyScopeType = ScopeType_USER | ScopeType_MEMBERSHIP | ScopeType_PLATFORM
datatype IdempotencyStatus = RESERVED | COMPLETED | IdempotencyStatus_FAILED
datatype IdempotencyMutationEffect = CHANGED | NO_CHANGE

fun IdempotencyMutationEffect_value :: "IdempotencyMutationEffect \<Rightarrow> string" where
  "IdempotencyMutationEffect_value CHANGED = ''changed''"
| "IdempotencyMutationEffect_value NO_CHANGE = ''no_change''"

record IdempotencyScope =
  scope_type :: IdempotencyScopeType
  scope_id :: uuid
  scope_tenant_id :: "uuid option"

definition IdempotencyScope_post_init :: "IdempotencyScope \<Rightarrow> unit result" where
  "IdempotencyScope_post_init s = require
     [(is_uuid7 (scope_id s), ValueError ''idempotency scope_id must be an RFC 9562 UUIDv7''),
      (scope_type s = ScopeType_MEMBERSHIP \<longrightarrow> (case scope_tenant_id s of None \<Rightarrow> False | Some t \<Rightarrow> is_uuid7 t),
        ValueError ''idempotency tenant_id must be an RFC 9562 UUIDv7''),
      (scope_type s \<noteq> ScopeType_MEMBERSHIP \<longrightarrow> scope_tenant_id s = None,
        ValueError ''only membership idempotency scopes carry tenant_id'')]"

type_synonym json_path = "string list"

record IdempotencyFingerprintPayload =
  payload_values :: "(string \<times> json) list"
  payload_business_paths :: "json_path list"
  payload_secret_paths :: "json_path list"

definition paths_ok :: "json_path list \<Rightarrow> bool" where
  "paths_ok paths \<longleftrightarrow> list_all (\<lambda>p. p \<noteq> [] \<and> list_all (\<lambda>part. part \<noteq> []) p) paths"

definition strict_prefix_path :: "json_path \<Rightarrow> json_path \<Rightarrow> bool" where
  "strict_prefix_path left right \<longleftrightarrow> left \<noteq> right \<and> length left < length right \<and> take (length left) right = left"

definition FingerprintPayload_post_init :: "IdempotencyFingerprintPayload \<Rightarrow> unit result" where
  "FingerprintPayload_post_init p =
     (let business = payload_business_paths p; secret = payload_secret_paths p in
      require
       [(paths_ok business, InvalidIdempotencyRequest ''business_paths contains an invalid JSON path''),
        (paths_ok secret, InvalidIdempotencyRequest ''secret_paths contains an invalid JSON path''),
        (list_all (\<lambda>b. b \<notin> set secret) business, InvalidIdempotencyRequest ''fingerprint paths must not overlap''),
        (list_all (\<lambda>l. list_all (\<lambda>r. \<not> strict_prefix_path l r) (business @ secret)) (business @ secret),
          InvalidIdempotencyRequest ''fingerprint paths must not overlap'')])"

record IdempotencyRequest =
  req_key :: string
  req_method :: string
  req_canonical_route :: string
  req_body :: IdempotencyFingerprintPayload

record PreparedIdempotencyRequest =
  prep_key_hash :: bytes
  prep_request_fingerprint :: bytes
  prep_canonical_method :: string
  prep_canonical_route :: string

record IdempotencyResultReference =
  ref_result_type :: string
  ref_result_id :: uuid
  ref_mutation_effect :: "IdempotencyMutationEffect option"
  ref_cache_authz_version :: "int option"

definition token_char :: "char \<Rightarrow> bool" where
  "token_char c \<longleftrightarrow> is_lower c \<or> is_digit c \<or> c \<in> set ''_.:-''"

definition token_matches :: "nat \<Rightarrow> string \<Rightarrow> bool" where
  "token_matches extra s \<longleftrightarrow> s \<noteq> [] \<and> is_lower (hd s) \<and> length s \<le> Suc extra \<and> list_all token_char (tl s)"

definition ResultReference_post_init :: "IdempotencyResultReference \<Rightarrow> unit result" where
  "ResultReference_post_init r = require
     [(token_matches 63 (ref_result_type r), ValueError ''idempotency result type is invalid''),
      (is_uuid7 (ref_result_id r), ValueError ''idempotency result_id must be an RFC 9562 UUIDv7''),
      (pred_option (\<lambda>v. 1 \<le> v \<and> v \<le> 2147483647) (ref_cache_authz_version r),
        ValueError ''idempotency cache authz version is invalid'')]"

record IdempotencyReservation =
  rsv_record_id :: uuid
  rsv_request_fingerprint :: bytes
  rsv_replay :: "IdempotencyResultReference option"

definition is_replay :: "IdempotencyReservation \<Rightarrow> bool" where
  "is_replay r \<longleftrightarrow> rsv_replay r \<noteq> None"

subsection \<open>The fingerprint of a body\<close>

fun json_container :: "json \<Rightarrow> bool" where
  "json_container (JObj kvs) = True"
| "json_container (JList vs) = True"
| "json_container v = False"

fun canonical_business_leaf :: "json \<Rightarrow> json result" where
  "canonical_business_leaf (JObj kvs) =
     Inl (InvalidIdempotencyRequest ''fingerprint paths must terminate at an exact scalar leaf'')"
| "canonical_business_leaf (JList vs) =
     (if list_ex json_container vs
      then Inl (InvalidIdempotencyRequest ''fingerprint sequence values require an explicit safe scalar schema'')
      else Inr (JList vs))"
| "canonical_business_leaf v = Inr v"

definition require_explicit_leaf :: "json \<Rightarrow> string \<Rightarrow> unit result" where
  "require_explicit_leaf v classification =
     (case canonical_business_leaf v of Inr _ \<Rightarrow> Inr ()
      | Inl _ \<Rightarrow> Inl (InvalidIdempotencyRequest (classification @ '' paths must classify exact scalar leaves'')))"

text \<open>\<open>None\<close> is the marker \<open>_OMIT\<close>.\<close>

fun project_explicit_paths ::
    "json_path list \<Rightarrow> json_path list \<Rightarrow> json_path \<Rightarrow> json \<Rightarrow> json option result"
  and project_items ::
    "json_path list \<Rightarrow> json_path list \<Rightarrow> json_path \<Rightarrow> (string \<times> json) list \<Rightarrow> (string \<times> json) list result" where
  "project_explicit_paths business secret path v =
     (if path \<in> set secret then bindE (require_explicit_leaf v ''secret'') (\<lambda>_. Inr None)
      else if path \<in> set business then bindE (canonical_business_leaf v) (\<lambda>leaf. Inr (Some leaf))
      else case v of
        JObj kvs \<Rightarrow> bindE (project_items business secret path kvs) (\<lambda>items. Inr (Some (JObj items)))
      | _ \<Rightarrow> Inl (InvalidIdempotencyRequest ''request body contains an unclassified business or secret field''))"
| "project_items business secret path [] = Inr []"
| "project_items business secret path ((k, child) # rest) =
     bindE (project_explicit_paths business secret (path @ [k]) child) (\<lambda>projected.
     bindE (project_items business secret path rest) (\<lambda>items.
       Inr (case projected of None \<Rightarrow> items | Some w \<Rightarrow> (k, w) # items)))"

definition canonical_business_values :: "IdempotencyFingerprintPayload \<Rightarrow> json result" where
  "canonical_business_values p =
     bindE (project_explicit_paths (payload_business_paths p) (payload_secret_paths p) [] (JObj (payload_values p)))
       (\<lambda>projected. case projected of
          Some (JObj kvs) \<Rightarrow> Inr (JObj kvs)
        | _ \<Rightarrow> Inl (InvalidIdempotencyRequest ''fingerprint payload must remain an object''))"

subsection \<open>Preparing a request\<close>

definition key_char :: "char \<Rightarrow> bool" where
  "key_char c \<longleftrightarrow> is_alnum c \<or> c \<in> set ''._~:-''"

definition route_char :: "char \<Rightarrow> bool" where
  "route_char c \<longleftrightarrow> is_alnum c \<or> c \<in> set ''._~:/{}-''"

text \<open>
  \<open>urllib.parse.urlsplit\<close>: leading control characters and blanks are stripped, tabs and line
  breaks removed, then scheme, network location, query and fragment are cut off in turn.  The
  result is (scheme, netloc, path, query, fragment).
\<close>

definition scheme_char :: "char \<Rightarrow> bool" where
  "scheme_char c \<longleftrightarrow> is_alnum c \<or> c \<in> set ''+-.''"

definition split_at :: "(char \<Rightarrow> bool) \<Rightarrow> string \<Rightarrow> string \<times> string" where
  "split_at p s = (takeWhile (\<lambda>c. \<not> p c) s, dropWhile (\<lambda>c. \<not> p c) s)"

definition urlsplit :: "string \<Rightarrow> string \<times> string \<times> string \<times> string \<times> string" where
  "urlsplit raw =
     (let url = filter (\<lambda>c. code c \<notin> {9, 10, 13}) (dropWhile (\<lambda>c. code c \<le> 32) raw);
          (pre, post) = split_at (\<lambda>c. c = CHR '':'') url;
          has_scheme = post \<noteq> [] \<and> pre \<noteq> [] \<and> (is_upper (hd pre) \<or> is_lower (hd pre)) \<and> list_all scheme_char pre;
          scheme = (if has_scheme then pre else []);
          url1 = (if has_scheme then tl post else url);
          (netloc, url2) = (if take 2 url1 = ''//'' then split_at (\<lambda>c. c \<in> set ''/?#'') (drop 2 url1) else ([], url1));
          (url3, frag) = split_at (\<lambda>c. c = CHR ''#'') url2;
          (path, query) = split_at (\<lambda>c. c = CHR ''?'') url3
      in (scheme, netloc, path, drop 1 query, drop 1 frag))"

definition rstrip_slash :: "string \<Rightarrow> string" where
  "rstrip_slash s = rev (dropWhile (\<lambda>c. c = CHR ''/'') (rev s))"

definition canonical_method :: "string \<Rightarrow> string result" where
  "canonical_method v =
     (let method = map to_upper v in
      if matches_class is_upper 1 16 method then Inr method
      else Inl (InvalidIdempotencyRequest ''HTTP method is invalid''))"

definition canonical_route :: "string \<Rightarrow> string result" where
  "canonical_route v =
     (let (scheme, netloc, path, query, frag) = urlsplit v in
      if scheme \<noteq> [] \<or> netloc \<noteq> [] \<or> query \<noteq> [] \<or> frag \<noteq> []
      then Inl (InvalidIdempotencyRequest ''canonical route must be a path without query data'')
      else
        let route = (if rstrip_slash path = [] then ''/'' else rstrip_slash path) in
        if route \<noteq> [] \<and> hd route = CHR ''/'' \<and> matches_class route_char 1 511 (tl route) then Inr route
        else Inl (InvalidIdempotencyRequest ''canonical route is invalid''))"

definition newline :: "8 word" where "newline = byte 10"

definition fingerprint_input :: "string \<Rightarrow> string \<Rightarrow> json \<Rightarrow> bytes" where
  "fingerprint_input method route body = ascii method @ [newline] @ ascii route @ [newline] @ utf8 (json_dumps body)"

definition prepare :: "externals \<Rightarrow> bytes \<Rightarrow> IdempotencyRequest \<Rightarrow> PreparedIdempotencyRequest result" where
  "prepare ext secret request =
     (if \<not> matches_class key_char 16 128 (req_key request) then Inl InvalidIdempotencyKey
      else bindE (canonical_method (req_method request)) (\<lambda>method.
        bindE (canonical_route (req_canonical_route request)) (\<lambda>route.
        bindE (canonical_business_values (req_body request)) (\<lambda>body.
          Inr \<lparr>prep_key_hash = ext_hmac_sha256 ext secret (ascii ''idempotency-key:v1:'' @ ascii (req_key request)),
               prep_request_fingerprint =
                 ext_sha256 ext (ascii ''idempotency-request:v1:'' @ fingerprint_input method route body),
               prep_canonical_method = method,
               prep_canonical_route = route\<rparr>))))"

subsection \<open>The table\<close>

record idem_row =
  idem_id :: uuid
  idem_tenant_id :: "uuid option"
  idem_scope_type :: IdempotencyScopeType
  idem_scope_id :: uuid
  idem_operation :: string
  idem_key_hash :: bytes
  idem_request_fingerprint :: bytes
  idem_status :: IdempotencyStatus
  idem_result_type :: "string option"
  idem_result_id :: "uuid option"
  idem_expires_at :: int
  idem_version :: int

definition idem_check :: "idem_row \<Rightarrow> bool" where
  "idem_check r \<longleftrightarrow> (idem_scope_type r = ScopeType_MEMBERSHIP) = (idem_tenant_id r \<noteq> None)"

definition idem_key :: "idem_row \<Rightarrow> IdempotencyScopeType \<times> uuid \<times> string \<times> bytes" where
  "idem_key r = (idem_scope_type r, idem_scope_id r, idem_operation r, idem_key_hash r)"

definition idem_scope :: "idem_row \<Rightarrow> IdempotencyScope" where
  "idem_scope r = \<lparr>scope_type = idem_scope_type r, scope_id = idem_scope_id r, scope_tenant_id = idem_tenant_id r\<rparr>"

record NewIdempotencyRecord =
  new_idem_id :: uuid
  new_idem_scope :: IdempotencyScope
  new_idem_operation :: string
  new_idem_key_hash :: bytes
  new_idem_request_fingerprint :: bytes
  new_idem_expires_at :: datetime

record StoredIdempotencyRecord =
  stored_id :: uuid
  stored_scope :: IdempotencyScope
  stored_operation :: string
  stored_key_hash :: bytes
  stored_request_fingerprint :: bytes
  stored_status :: IdempotencyStatus
  stored_result :: "IdempotencyResultReference option"
  stored_expires_at :: datetime

definition result_metadata :: "IdempotencyResultReference \<Rightarrow> json" where
  "result_metadata r = JObj
     [(''a'', case ref_cache_authz_version r of None \<Rightarrow> JNull | Some v \<Rightarrow> JInt v),
      (''e'', case ref_mutation_effect r of None \<Rightarrow> JNull | Some e \<Rightarrow> JStr (IdempotencyMutationEffect_value e)),
      (''t'', JStr (ref_result_type r))]"

definition serialize_result_type :: "IdempotencyResultReference \<Rightarrow> string result" where
  "serialize_result_type r =
     (if ref_mutation_effect r = None \<and> ref_cache_authz_version r = None then Inr (ref_result_type r)
      else
        let encoded = json_dumps (result_metadata r)
        in if length encoded > 64 then Inl (IdempotencyStateError ''idempotency result metadata is too large'')
           else Inr encoded)"

definition result_reference :: "string \<Rightarrow> uuid \<Rightarrow> IdempotencyMutationEffect option \<Rightarrow> int option
    \<Rightarrow> IdempotencyResultReference result" where
  "result_reference t i e a =
     (let r = \<lparr>ref_result_type = t, ref_result_id = i, ref_mutation_effect = e, ref_cache_authz_version = a\<rparr>
      in bindE (ResultReference_post_init r) (\<lambda>_. Inr r))"

definition mutation_effect_of :: "json \<Rightarrow> IdempotencyMutationEffect option option" where
  "mutation_effect_of v =
     (case v of JNull \<Rightarrow> Some None
      | JStr s \<Rightarrow> (if s = ''changed'' then Some (Some CHANGED) else if s = ''no_change'' then Some (Some NO_CHANGE) else None)
      | _ \<Rightarrow> None)"

definition metadata_error :: exn where
  "metadata_error = IdempotencyStateError ''idempotency result metadata is invalid''"

definition deserialize_result_type :: "externals \<Rightarrow> string \<Rightarrow> uuid \<Rightarrow> IdempotencyResultReference result" where
  "deserialize_result_type ext v result_id =
     (if take 1 v \<noteq> ''{'' then result_reference v result_id None None
      else case ext_json_loads ext v of
        Some (JObj kvs) \<Rightarrow>
          (if fst ` set kvs \<noteq> {''a'', ''e'', ''t''} then Inl metadata_error
           else case (map_of kvs ''a'', map_of kvs ''e'', map_of kvs ''t'') of
             (Some a, Some e, Some (JStr t)) \<Rightarrow>
               (case (mutation_effect_of e, (case a of JNull \<Rightarrow> Some None | JInt n \<Rightarrow> Some (Some n) | _ \<Rightarrow> None)) of
                  (Some effect, Some version) \<Rightarrow>
                    (case result_reference t result_id effect version of
                       Inr r \<Rightarrow> Inr r | Inl _ \<Rightarrow> Inl metadata_error)
                | _ \<Rightarrow> Inl metadata_error)
           | _ \<Rightarrow> Inl metadata_error)
      | _ \<Rightarrow> Inl metadata_error)"

definition stored_record :: "externals \<Rightarrow> idem_row \<Rightarrow> StoredIdempotencyRecord result" where
  "stored_record ext m =
     bindE (case (idem_result_type m, idem_result_id m) of
        (None, None) \<Rightarrow> Inr None
      | (Some t, Some i) \<Rightarrow> bindE (deserialize_result_type ext t i) (\<lambda>r. Inr (Some r))
      | _ \<Rightarrow> Inl (IdempotencyStateError ''idempotency result reference is incomplete'')) (\<lambda>result.
     bindE (require [(length (idem_key_hash m) = 32 \<and> length (idem_request_fingerprint m) = 32,
        IdempotencyStateError ''idempotency digests have invalid lengths'')]) (\<lambda>_.
     bindE (IdempotencyScope_post_init (idem_scope m)) (\<lambda>_.
       Inr \<lparr>stored_id = idem_id m, stored_scope = idem_scope m, stored_operation = idem_operation m,
            stored_key_hash = idem_key_hash m, stored_request_fingerprint = idem_request_fingerprint m,
            stored_status = idem_status m, stored_result = result,
            stored_expires_at = aware (idem_expires_at m)\<rparr>)))"

subsection \<open>The repository\<close>

text \<open>
  \<open>INSERT ... ON DUPLICATE KEY UPDATE id = id\<close> leaves the table alone when the primary key or
  the unique key is taken, then the row of the key is read under a lock.
\<close>

definition candidate_row :: "NewIdempotencyRecord \<Rightarrow> int \<Rightarrow> idem_row" where
  "candidate_row cand expires =
     \<lparr>idem_id = new_idem_id cand, idem_tenant_id = scope_tenant_id (new_idem_scope cand),
      idem_scope_type = scope_type (new_idem_scope cand), idem_scope_id = scope_id (new_idem_scope cand),
      idem_operation = new_idem_operation cand, idem_key_hash = new_idem_key_hash cand,
      idem_request_fingerprint = new_idem_request_fingerprint cand, idem_status = RESERVED,
      idem_result_type = None, idem_result_id = None, idem_expires_at = expires, idem_version = 1\<rparr>"

definition repo_acquire :: "externals \<Rightarrow> NewIdempotencyRecord \<Rightarrow> idem_row list
    \<Rightarrow> ((StoredIdempotencyRecord \<times> bool) \<times> idem_row list) result" where
  "repo_acquire ext cand rows =
     bindE (naive (new_idem_expires_at cand)) (\<lambda>expires.
     let r = candidate_row cand expires;
         duplicate = list_ex (\<lambda>r'. idem_id r' = idem_id r \<or> idem_key r' = idem_key r) rows
     in if \<not> idem_check r then Inl (DatabaseError ''check constraint violated'')
        else
          let rows' = (if duplicate then rows else rows @ [r])
          in case sql_scalar (\<lambda>r'. idem_key r' = idem_key r) rows' of
               None \<Rightarrow> Inl (IdempotencyStateError ''idempotency record disappeared during reservation'')
             | Some m \<Rightarrow> bindE (stored_record ext m) (\<lambda>stored.
                 if stored_scope stored \<noteq> new_idem_scope cand
                 then Inl (IdempotencyStateError ''idempotency scope collision'')
                 else Inr ((stored, idem_id m = new_idem_id cand), rows')))"

record restart_query =
  rst_record_id :: uuid
  rst_old_fingerprint :: bytes
  rst_new_fingerprint :: bytes
  rst_allowed_statuses :: "IdempotencyStatus list"
  rst_expired_before :: "int option"
  rst_expires_at :: int

definition restart_where :: "restart_query \<Rightarrow> idem_row \<Rightarrow> bool" where
  "restart_where q r \<longleftrightarrow> idem_id r = rst_record_id q \<and> idem_request_fingerprint r = rst_old_fingerprint q
     \<and> idem_status r \<in> set (rst_allowed_statuses q)
     \<and> (case rst_expired_before q of None \<Rightarrow> True | Some t \<Rightarrow> idem_expires_at r \<le> t)"

definition restart_values :: "restart_query \<Rightarrow> idem_row \<Rightarrow> idem_row" where
  "restart_values q r = r\<lparr>idem_request_fingerprint := rst_new_fingerprint q, idem_status := RESERVED,
     idem_result_type := None, idem_result_id := None, idem_expires_at := rst_expires_at q,
     idem_version := idem_version r + 1\<rparr>"

definition repo_restart :: "uuid \<Rightarrow> bytes \<Rightarrow> bytes \<Rightarrow> IdempotencyStatus list \<Rightarrow> datetime option \<Rightarrow> datetime
    \<Rightarrow> idem_row list \<Rightarrow> (bool \<times> idem_row list) result" where
  "repo_restart record_id old_fp new_fp allowed_statuses expired_before expires_at rows =
     (if allowed_statuses = [] then Inl (ValueError ''idempotency restart statuses must be strongly typed'')
      else bindE (naive_optional expired_before) (\<lambda>before.
        bindE (naive expires_at) (\<lambda>expires.
        let q = \<lparr>rst_record_id = record_id, rst_old_fingerprint = old_fp, rst_new_fingerprint = new_fp,
                 rst_allowed_statuses = allowed_statuses, rst_expired_before = before, rst_expires_at = expires\<rparr>
        in bindE (sql_update idem_check (restart_where q) (restart_values q) rows) (\<lambda>(rows', n).
             Inr (n = 1, rows')))))"

record finish_query =
  fq_record_id :: uuid
  fq_fingerprint :: bytes
  fq_status :: IdempotencyStatus
  fq_result_type :: "string option"
  fq_result_id :: "uuid option"

definition finish_where :: "finish_query \<Rightarrow> idem_row \<Rightarrow> bool" where
  "finish_where q r \<longleftrightarrow> idem_id r = fq_record_id q \<and> idem_status r = RESERVED
     \<and> idem_request_fingerprint r = fq_fingerprint q"

definition finish_values :: "finish_query \<Rightarrow> idem_row \<Rightarrow> idem_row" where
  "finish_values q r = r\<lparr>idem_status := fq_status q, idem_result_type := fq_result_type q,
     idem_result_id := fq_result_id q, idem_version := idem_version r + 1\<rparr>"

definition repo_complete :: "uuid \<Rightarrow> bytes \<Rightarrow> IdempotencyResultReference \<Rightarrow> datetime
    \<Rightarrow> idem_row list \<Rightarrow> (bool \<times> idem_row list) result" where
  "repo_complete record_id fp result now rows =
     bindE (serialize_result_type result) (\<lambda>t.
     bindE (naive now) (\<lambda>_.
     let q = \<lparr>fq_record_id = record_id, fq_fingerprint = fp, fq_status = COMPLETED,
              fq_result_type = Some t, fq_result_id = Some (ref_result_id result)\<rparr>
     in bindE (sql_update idem_check (finish_where q) (finish_values q) rows) (\<lambda>(rows', n). Inr (n = 1, rows'))))"

definition repo_fail :: "uuid \<Rightarrow> bytes \<Rightarrow> datetime \<Rightarrow> idem_row list \<Rightarrow> (bool \<times> idem_row list) result" where
  "repo_fail record_id fp now rows =
     bindE (naive now) (\<lambda>_.
     let q = \<lparr>fq_record_id = record_id, fq_fingerprint = fp, fq_status = IdempotencyStatus_FAILED,
              fq_result_type = None, fq_result_id = None\<rparr>
     in bindE (sql_update idem_check (finish_where q) (finish_values q) rows) (\<lambda>(rows', n). Inr (n = 1, rows')))"

subsection \<open>The service\<close>

definition IdempotencyService_init :: "bytes \<Rightarrow> int \<Rightarrow> unit result" where
  "IdempotencyService_init key_hash_secret ttl = require
     [(32 \<le> length key_hash_secret,
        ValueError ''idempotency key hash secret must contain at least 32 bytes''),
      (seconds 60 \<le> ttl \<and> ttl \<le> seconds (7 * 24 * 60 * 60),
        ValueError ''idempotency TTL must be between one minute and seven days'')]"

definition idem_utc_error :: exn where
  "idem_utc_error = ValueError ''idempotency time must be UTC-aware''"

definition IdempotencyService_reserve ::
    "externals \<Rightarrow> bytes \<Rightarrow> int \<Rightarrow> IdempotencyScope \<Rightarrow> string \<Rightarrow> IdempotencyRequest \<Rightarrow> datetime \<Rightarrow> uuid
      \<Rightarrow> idem_row list \<Rightarrow> (IdempotencyReservation \<times> idem_row list) result" where
  "IdempotencyService_reserve ext secret ttl scope operation request now fresh rows =
     bindE (prepare ext secret request) (\<lambda>prepared.
     bindE (require [(is_utc now, idem_utc_error),
                     (token_matches 127 operation, ValueError ''idempotency operation is invalid'')]) (\<lambda>_.
     let fp = prep_request_fingerprint prepared;
         expires = dt_plus now ttl;
         cand = \<lparr>new_idem_id = fresh, new_idem_scope = scope, new_idem_operation = operation,
                 new_idem_key_hash = prep_key_hash prepared, new_idem_request_fingerprint = fp,
                 new_idem_expires_at = expires\<rparr>;
         recovered = (\<lambda>record statuses before err rows1.
           bindE (repo_restart (stored_id record) (stored_request_fingerprint record) fp statuses before expires rows1)
             (\<lambda>(restarted, rows2).
               if restarted
               then Inr (\<lparr>rsv_record_id = stored_id record, rsv_request_fingerprint = fp, rsv_replay = None\<rparr>, rows2)
               else Inl (IdempotencyStateError err)))
     in bindE (repo_acquire ext cand rows) (\<lambda>((record, inserted), rows1).
       if inserted
       then Inr (\<lparr>rsv_record_id = stored_id record, rsv_request_fingerprint = fp, rsv_replay = None\<rparr>, rows1)
       else if stored_request_fingerprint record \<noteq> fp then Inl IdempotencyConflictError
       else case stored_status record of
         COMPLETED \<Rightarrow>
           (case stored_result record of
              None \<Rightarrow> Inl (IdempotencyStateError ''completed idempotency record has no result'')
            | Some result \<Rightarrow>
                Inr (\<lparr>rsv_record_id = stored_id record, rsv_request_fingerprint = fp, rsv_replay = Some result\<rparr>, rows1))
       | IdempotencyStatus_FAILED \<Rightarrow>
           recovered record [IdempotencyStatus_FAILED] None
             ''failed idempotency record could not be recovered'' rows1
       | RESERVED \<Rightarrow>
           (if instant (stored_expires_at record) \<le> instant now
            then recovered record [RESERVED] (Some now)
              ''expired idempotency record could not be recovered'' rows1
            else Inl IdempotencyInProgressError))))"

definition IdempotencyService_complete ::
    "IdempotencyReservation \<Rightarrow> IdempotencyResultReference \<Rightarrow> datetime \<Rightarrow> idem_row list \<Rightarrow> idem_row list result" where
  "IdempotencyService_complete rsv result now rows =
     (if is_replay rsv then Inl (IdempotencyStateError ''a replay reservation cannot be completed again'')
      else if \<not> is_utc now then Inl idem_utc_error
      else bindE (repo_complete (rsv_record_id rsv) (rsv_request_fingerprint rsv) result now rows) (\<lambda>(ok, rows').
        if ok then Inr rows'
        else Inl (IdempotencyStateError ''idempotency reservation is no longer completable'')))"

definition IdempotencyService_fail ::
    "IdempotencyReservation \<Rightarrow> datetime \<Rightarrow> idem_row list \<Rightarrow> idem_row list result" where
  "IdempotencyService_fail rsv now rows =
     (if is_replay rsv then Inl (IdempotencyStateError ''a replay reservation cannot fail'')
      else if \<not> is_utc now then Inl idem_utc_error
      else bindE (repo_fail (rsv_record_id rsv) (rsv_request_fingerprint rsv) now rows) (\<lambda>(ok, rows').
        if ok then Inr rows'
        else Inl (IdempotencyStateError ''idempotency reservation is no longer fail-able'')))"

subsection \<open>The statements as compare-and-swap\<close>

interpretation finish: cas_update idem_id idem_check finish_where finish_values fq_record_id "\<lambda>q r. True"
  "\<lambda>q q'. fq_record_id q' = fq_record_id q \<and> fq_status q \<noteq> RESERVED"
  by unfold_locales (auto simp: finish_where_def finish_values_def idem_check_def)

text \<open>
  Two restarts compete for the same state when both want a failed row, or when the second wants a
  row that had expired before the first one's new expiry.
\<close>

interpretation restart: cas_update idem_id idem_check restart_where restart_values rst_record_id "\<lambda>q r. True"
  "\<lambda>q q'. rst_record_id q' = rst_record_id q \<and>
     (RESERVED \<notin> set (rst_allowed_statuses q')
      \<or> (\<exists>t. rst_expired_before q' = Some t \<and> t < rst_expires_at q))"
  by unfold_locales (auto simp: restart_where_def restart_values_def idem_check_def)

definition idem_table_ok :: "idem_row list \<Rightarrow> bool" where
  "idem_table_ok rows \<longleftrightarrow> distinct (map idem_id rows) \<and> distinct (map idem_key rows) \<and> list_all idem_check rows"

lemma idem_key_values [simp]:
  "idem_key (finish_values q r) = idem_key r" "idem_key (restart_values rq r) = idem_key r"
  by (simp_all add: idem_key_def finish_values_def restart_values_def)

text \<open>A reservation is held when its row is reserved under its fingerprint.\<close>

definition held :: "idem_row \<Rightarrow> IdempotencyReservation \<Rightarrow> bool" where
  "held m rsv \<longleftrightarrow> idem_status m = RESERVED \<and> idem_request_fingerprint m = rsv_request_fingerprint rsv
     \<and> idem_id m = rsv_record_id rsv \<and> idem_result_type m = None \<and> idem_result_id m = None
     \<and> length (idem_key_hash m) = 32 \<and> length (idem_request_fingerprint m) = 32
     \<and> IdempotencyScope_post_init (idem_scope m) = Inr ()"

lemma stored_record_Inr:
  "stored_record ext m = Inr s \<Longrightarrow>
     length (idem_key_hash m) = 32 \<and> length (idem_request_fingerprint m) = 32
     \<and> IdempotencyScope_post_init (idem_scope m) = Inr ()
     \<and> stored_id s = idem_id m \<and> stored_scope s = idem_scope m
     \<and> stored_request_fingerprint s = idem_request_fingerprint m \<and> stored_status s = idem_status m
     \<and> stored_expires_at s = aware (idem_expires_at m)"
  by (auto simp: stored_record_def validate_simps)

lemma stored_record_held:
  "held m rsv \<Longrightarrow> \<exists>s. stored_record ext m = Inr s"
  by (auto simp: stored_record_def held_def require_eval)

definition cand_key :: "NewIdempotencyRecord \<Rightarrow> IdempotencyScopeType \<times> uuid \<times> string \<times> bytes" where
  "cand_key c = (scope_type (new_idem_scope c), scope_id (new_idem_scope c), new_idem_operation c, new_idem_key_hash c)"

lemma candidate_key [simp]: "idem_key (candidate_row cand e) = cand_key cand"
  by (simp add: candidate_row_def idem_key_def cand_key_def)

lemma candidate_scope [simp]: "idem_scope (candidate_row cand e) = new_idem_scope cand"
  by (simp add: candidate_row_def idem_scope_def)

lemma candidate_id [simp]: "idem_id (candidate_row cand e) = new_idem_id cand"
  by (simp add: candidate_row_def)

lemma idem_check_scope: "idem_scope r = idem_scope r' \<Longrightarrow> idem_check r = idem_check r'"
  by (simp add: idem_scope_def idem_check_def)

definition taken :: "NewIdempotencyRecord \<Rightarrow> idem_row list \<Rightarrow> bool" where
  "taken cand rows \<longleftrightarrow> (\<exists>r\<in>set rows. idem_id r = new_idem_id cand \<or> idem_key r = cand_key cand)"

lemma acquire_eq:
  assumes "is_utc (new_idem_expires_at cand)"
  shows "repo_acquire ext cand rows =
    (let r = candidate_row cand (dt_wall (new_idem_expires_at cand));
         rows' = (if taken cand rows then rows else rows @ [r]) in
     if \<not> idem_check r then Inl (DatabaseError ''check constraint violated'')
     else case row_of idem_key (cand_key cand) rows' of
            None \<Rightarrow> Inl (IdempotencyStateError ''idempotency record disappeared during reservation'')
          | Some m \<Rightarrow> bindE (stored_record ext m) (\<lambda>stored.
              if stored_scope stored \<noteq> new_idem_scope cand
              then Inl (IdempotencyStateError ''idempotency scope collision'')
              else Inr ((stored, idem_id m = new_idem_id cand), rows')))"
  using assms
  by (simp add: repo_acquire_def naive_def Let_def sql_scalar_row_of list_ex_iff taken_def)

lemma acquire_existing:
  assumes "row_of idem_key (cand_key cand) rows = Some m" "stored_record ext m = Inr s"
    and "idem_scope m = new_idem_scope cand" "idem_check m" "is_utc (new_idem_expires_at cand)"
    and "new_idem_id cand \<noteq> idem_id m"
  shows "repo_acquire ext cand rows = Inr ((s, False), rows)"
proof -
  have "taken cand rows" using row_of_SomeD [OF assms(1)] by (auto simp: taken_def)
  moreover have "idem_check (candidate_row cand e)" for e
    using assms(3,4) idem_check_scope [of m "candidate_row cand e"] by simp
  moreover have "stored_scope s = new_idem_scope cand" using stored_record_Inr [OF assms(2)] assms(3) by simp
  ultimately show ?thesis
    using assms(1,2,6) by (simp add: acquire_eq [OF assms(5)])
qed


lemma acquire_Inr:
  assumes "repo_acquire ext cand rows = Inr ((s, inserted), rows')"
  obtains m where "row_of idem_key (cand_key cand) rows' = Some m" "stored_record ext m = Inr s"
    "idem_scope m = new_idem_scope cand" "idem_check m" "is_utc (new_idem_expires_at cand)"
    "inserted \<longleftrightarrow> idem_id m = new_idem_id cand"
    "if taken cand rows then rows' = rows
     else m = candidate_row cand (dt_wall (new_idem_expires_at cand)) \<and> rows' = rows @ [m]"
proof -
  let ?r = "candidate_row cand (dt_wall (new_idem_expires_at cand))"
  have utc: "is_utc (new_idem_expires_at cand)"
    using assms by (auto simp: repo_acquire_def naive_def split: if_splits)
  have chk: "idem_check ?r" and rows': "rows' = (if taken cand rows then rows else rows @ [?r])"
    using assms by (auto simp: acquire_eq [OF utc] Let_def validate_simps split: if_splits option.splits)
  then obtain m where m: "row_of idem_key (cand_key cand) rows' = Some m" "stored_record ext m = Inr s"
      "stored_scope s = new_idem_scope cand" "inserted \<longleftrightarrow> idem_id m = new_idem_id cand"
    using assms by (auto simp: acquire_eq [OF utc] Let_def validate_simps split: if_splits option.splits)
  have sc: "idem_scope m = new_idem_scope cand" using m(2,3) stored_record_Inr by metis
  have "idem_check m" using sc chk idem_check_scope [of m ?r] by simp
  moreover have "m = ?r" if "\<not> taken cand rows"
  proof -
    have "row_of idem_key (cand_key cand) rows = None"
      using that by (auto simp: row_of_None taken_def)
    moreover have "row_of idem_key (cand_key cand) [?r] = Some ?r" by (simp add: row_of_def)
    ultimately show ?thesis using m(1) rows' that by (simp add: row_of_append)
  qed
  ultimately show ?thesis
    using that [OF m(1,2) sc _ utc m(4)] rows' by (cases "taken cand rows") auto
qed

lemma acquire_table_ok:
  assumes "repo_acquire ext cand rows = Inr ((s, inserted), rows')" "idem_table_ok rows"
  shows "idem_table_ok rows'"
proof (rule acquire_Inr [OF assms(1)])
  fix m
  assume "idem_check m" "if taken cand rows then rows' = rows
     else m = candidate_row cand (dt_wall (new_idem_expires_at cand)) \<and> rows' = rows @ [m]"
  then show ?thesis
    using assms(2) by (auto simp: idem_table_ok_def taken_def split: if_splits)
qed

lemma restart_Inr:
  assumes "repo_restart i old fp statuses before expires rows = Inr (True, rows')" "idem_table_ok rows"
  obtains m e where "m \<in> set rows" "idem_id m = i" "idem_request_fingerprint m = old"
    "idem_status m \<in> set statuses" "e = dt_wall expires" "is_utc expires"
    "rows' = map (\<lambda>r. if r = m then m\<lparr>idem_request_fingerprint := fp, idem_status := RESERVED,
       idem_result_type := None, idem_result_id := None, idem_expires_at := e, idem_version := idem_version m + 1\<rparr> else r) rows"
proof -
  obtain b q where q: "q = \<lparr>rst_record_id = i, rst_old_fingerprint = old, rst_new_fingerprint = fp,
        rst_allowed_statuses = statuses, rst_expired_before = b, rst_expires_at = dt_wall expires\<rparr>"
    and up: "sql_update idem_check (restart_where q) (restart_values q) rows = Inr (rows', 1)" and utc: "is_utc expires"
    using assms(1) by (auto simp: repo_restart_def validate_simps time_simps Let_def split: if_splits prod.splits)
  have d: "distinct (map idem_id rows)" using assms(2) by (simp add: idem_table_ok_def)
  obtain m where m: "row_of idem_id i rows = Some m" "restart_where q m"
    using restart.winner_row [OF d up] q by auto
  have im: "idem_id m = rst_record_id q" using m(2) by (simp add: restart_where_def)
  have only: "restart_where q r \<longleftrightarrow> r = m" if "r \<in> set rows" for r
  proof
    assume "restart_where q r"
    then have "idem_id r = idem_id m" using im by (simp add: restart_where_def)
    then show "r = m" using d that row_of_SomeD [OF m(1)] by (auto simp: distinct_map dest: inj_onD)
  qed (simp add: m(2))
  have "rows' = map (\<lambda>r. if r = m then restart_values q m else r) rows"
    using up only by (auto simp: sql_update_Inr)
  then show ?thesis
    using that [of m "dt_wall expires"] row_of_SomeD [OF m(1)] m(2) utc
    by (simp add: q restart_where_def restart_values_def)
qed


lemma prepare_key_hash:
  "prepare ext secret request = Inr p \<Longrightarrow>
     prep_key_hash p = ext_hmac_sha256 ext secret (ascii ''idempotency-key:v1:'' @ ascii (req_key request))"
  by (auto simp: prepare_def validate_simps split: if_splits)

definition request_key ::
    "IdempotencyScope \<Rightarrow> string \<Rightarrow> PreparedIdempotencyRequest \<Rightarrow> IdempotencyScopeType \<times> uuid \<times> string \<times> bytes" where
  "request_key scope operation p = (scope_type scope, scope_id scope, operation, prep_key_hash p)"

text \<open>What a fresh or recovered reservation leaves in the table.\<close>

lemma reserve_holds:
  assumes r: "IdempotencyService_reserve ext secret ttl scope operation request now fresh rows = Inr (rsv, rows')"
    and "rsv_replay rsv = None" "idem_table_ok rows" "fresh \<notin> idem_id ` set rows"
  obtains p m where "prepare ext secret request = Inr p" "is_utc now" "token_matches 127 operation"
    "row_of idem_key (request_key scope operation p) rows' = Some m" "held m rsv" "idem_scope m = scope"
    "idem_expires_at m = instant now + ttl" "rsv_request_fingerprint rsv = prep_request_fingerprint p"
    "idem_check m" "idem_table_ok rows'"
proof -
  obtain p where p: "prepare ext secret request = Inr p" and now: "is_utc now" and op: "token_matches 127 operation"
    using r by (auto simp: IdempotencyService_reserve_def validate_simps)
  define cand where "cand = \<lparr>new_idem_id = fresh, new_idem_scope = scope, new_idem_operation = operation,
     new_idem_key_hash = prep_key_hash p, new_idem_request_fingerprint = prep_request_fingerprint p,
     new_idem_expires_at = dt_plus now ttl\<rparr>"
  have key: "cand_key cand = request_key scope operation p"
    by (simp add: cand_def cand_key_def request_key_def)
  obtain s inserted rows1 where acq: "repo_acquire ext cand rows = Inr ((s, inserted), rows1)"
    using r p now op by (auto simp: IdempotencyService_reserve_def validate_simps Let_def require_eval cand_def)
  obtain m where m: "row_of idem_key (cand_key cand) rows1 = Some m" "stored_record ext m = Inr s"
    "idem_scope m = new_idem_scope cand" "idem_check m" "inserted \<longleftrightarrow> idem_id m = new_idem_id cand"
    and rows1: "if taken cand rows then rows1 = rows
     else m = candidate_row cand (dt_wall (new_idem_expires_at cand)) \<and> rows1 = rows @ [m]"
    by (rule acquire_Inr [OF acq])
  have m1: "row_of idem_key (request_key scope operation p) rows1 = Some m" using m(1) key by simp
  have exp: "new_idem_expires_at cand = dt_plus now ttl" "new_idem_scope cand = scope"
    by (simp_all add: cand_def)
  note s = stored_record_Inr [OF m(2)]
  have ok1: "idem_table_ok rows1" by (rule acquire_table_ok [OF acq assms(3)])
  show ?thesis
  proof (cases inserted)
    case True
    have "\<not> taken cand rows"
      using True m(1,5) rows1 assms(4) row_of_SomeD [OF m(1)] by (auto simp: cand_def)
    then have cr: "m = candidate_row cand (dt_wall (dt_plus now ttl))" using rows1 exp by simp
    then have "idem_status m = RESERVED" "idem_result_type m = None" "idem_result_id m = None"
       "idem_request_fingerprint m = prep_request_fingerprint p" "idem_expires_at m = instant now + ttl"
      using now by (simp_all add: candidate_row_def cand_def time_simps)
    moreover have "rsv = \<lparr>rsv_record_id = idem_id m, rsv_request_fingerprint = prep_request_fingerprint p,
        rsv_replay = None\<rparr>" "rows' = rows1"
      using r p now op acq True s
      by (auto simp: IdempotencyService_reserve_def validate_simps Let_def require_eval cand_def [symmetric])
    ultimately show ?thesis
      using that [OF p now op, of m] m1 m(3,4) s ok1 exp(2)
      by (simp add: held_def)
  next
    case False
    have rest: "(if stored_request_fingerprint s \<noteq> prep_request_fingerprint p then Inl IdempotencyConflictError
       else case stored_status s of
         COMPLETED \<Rightarrow> (case stored_result s of None \<Rightarrow> Inl (IdempotencyStateError ''completed idempotency record has no result'')
            | Some result \<Rightarrow> Inr (\<lparr>rsv_record_id = stored_id s, rsv_request_fingerprint = prep_request_fingerprint p, rsv_replay = Some result\<rparr>, rows1))
       | IdempotencyStatus_FAILED \<Rightarrow>
           bindE (repo_restart (stored_id s) (stored_request_fingerprint s) (prep_request_fingerprint p) [IdempotencyStatus_FAILED] None (dt_plus now ttl) rows1)
             (\<lambda>(restarted, rows2). if restarted then Inr (\<lparr>rsv_record_id = stored_id s, rsv_request_fingerprint = prep_request_fingerprint p, rsv_replay = None\<rparr>, rows2)
               else Inl (IdempotencyStateError ''failed idempotency record could not be recovered''))
       | RESERVED \<Rightarrow> (if instant (stored_expires_at s) \<le> instant now then
           bindE (repo_restart (stored_id s) (stored_request_fingerprint s) (prep_request_fingerprint p) [RESERVED] (Some now) (dt_plus now ttl) rows1)
             (\<lambda>(restarted, rows2). if restarted then Inr (\<lparr>rsv_record_id = stored_id s, rsv_request_fingerprint = prep_request_fingerprint p, rsv_replay = None\<rparr>, rows2)
               else Inl (IdempotencyStateError ''expired idempotency record could not be recovered''))
           else Inl IdempotencyInProgressError)) = Inr (rsv, rows')"
      using r p now op acq False
      by (simp add: IdempotencyService_reserve_def validate_simps Let_def require_eval cand_def [symmetric] cong: IdempotencyStatus.case_cong)
    have fp: "idem_request_fingerprint m = prep_request_fingerprint p"
      using rest s by (auto split: if_splits)
    obtain statuses before where
      rst: "repo_restart (idem_id m) (idem_request_fingerprint m) (prep_request_fingerprint p) statuses before (dt_plus now ttl) rows1 = Inr (True, rows')"
      and rsv: "rsv = \<lparr>rsv_record_id = idem_id m, rsv_request_fingerprint = prep_request_fingerprint p, rsv_replay = None\<rparr>"
      using rest assms(2) s fp
      by (auto simp: validate_simps split: if_splits IdempotencyStatus.splits option.splits prod.splits)
    obtain m0 e where m0: "m0 \<in> set rows1" "idem_id m0 = idem_id m" "e = dt_wall (dt_plus now ttl)"
      and rows': "rows' = map (\<lambda>r. if r = m0 then m0\<lparr>idem_request_fingerprint := prep_request_fingerprint p, idem_status := RESERVED,
       idem_result_type := None, idem_result_id := None, idem_expires_at := e, idem_version := idem_version m0 + 1\<rparr> else r) rows1"
      by (rule restart_Inr [OF rst ok1])
    have "m0 = m"
      using m0(1,2) row_of_SomeD [OF m(1)] ok1 by (auto simp: idem_table_ok_def distinct_map inj_on_def)
    let ?m = "m\<lparr>idem_request_fingerprint := prep_request_fingerprint p, idem_status := RESERVED,
       idem_result_type := None, idem_result_id := None, idem_expires_at := e, idem_version := idem_version m + 1\<rparr>"
    have row: "row_of idem_key (cand_key cand) rows' = Some ?m"
      unfolding rows' \<open>m0 = m\<close>
      by (subst row_of_map) (auto simp: idem_key_def m(1))
    have "map idem_id rows' = map idem_id rows1" "map idem_key rows' = map idem_key rows1"
      unfolding rows' \<open>m0 = m\<close> by (auto simp: idem_key_def)
    moreover have "list_all idem_check rows'"
      using ok1 unfolding rows' \<open>m0 = m\<close> by (auto simp: idem_table_ok_def list_all_iff idem_check_def)
    ultimately have ok': "idem_table_ok rows'" using ok1 by (simp add: idem_table_ok_def)
    have "idem_scope ?m = idem_scope m" by (simp add: idem_scope_def)
    then show ?thesis
      using that [OF p now op row [unfolded key]] m s ok' now fp rsv m0(3)
      by (simp add: held_def cand_def time_simps idem_check_def)
  qed
qed


lemma reserve_existing:
  assumes p: "prepare ext secret request = Inr p" and now: "is_utc now" and op: "token_matches 127 operation"
    and m: "row_of idem_key (request_key scope operation p) rows = Some m" "stored_record ext m = Inr s"
      "idem_scope m = scope" "idem_check m" "fresh \<noteq> idem_id m"
  shows "idem_request_fingerprint m \<noteq> prep_request_fingerprint p \<Longrightarrow>
      IdempotencyService_reserve ext secret ttl scope operation request now fresh rows = Inl IdempotencyConflictError"
    and "idem_request_fingerprint m = prep_request_fingerprint p \<Longrightarrow> idem_status m = RESERVED \<Longrightarrow>
      instant now < idem_expires_at m \<Longrightarrow>
      IdempotencyService_reserve ext secret ttl scope operation request now fresh rows = Inl IdempotencyInProgressError"
    and "idem_request_fingerprint m = prep_request_fingerprint p \<Longrightarrow> idem_status m = COMPLETED \<Longrightarrow>
      stored_result s = Some result \<Longrightarrow>
      IdempotencyService_reserve ext secret ttl scope operation request now fresh rows =
        Inr (\<lparr>rsv_record_id = idem_id m, rsv_request_fingerprint = prep_request_fingerprint p,
              rsv_replay = Some result\<rparr>, rows)"
proof -
  define cand where "cand = \<lparr>new_idem_id = fresh, new_idem_scope = scope, new_idem_operation = operation,
     new_idem_key_hash = prep_key_hash p, new_idem_request_fingerprint = prep_request_fingerprint p,
     new_idem_expires_at = dt_plus now ttl\<rparr>"
  have acq: "repo_acquire ext cand rows = Inr ((s, False), rows)"
    using m now
    by (intro acquire_existing) (simp_all add: cand_def cand_key_def request_key_def)
  note s = stored_record_Inr [OF m(2)]
  note unfolded = IdempotencyService_reserve_def require_eval Let_def cand_def [symmetric] p now op acq s
  show "idem_request_fingerprint m \<noteq> prep_request_fingerprint p \<Longrightarrow>
      IdempotencyService_reserve ext secret ttl scope operation request now fresh rows = Inl IdempotencyConflictError"
    by (simp add: unfolded)
  show "idem_request_fingerprint m = prep_request_fingerprint p \<Longrightarrow> idem_status m = RESERVED \<Longrightarrow>
      instant now < idem_expires_at m \<Longrightarrow>
      IdempotencyService_reserve ext secret ttl scope operation request now fresh rows = Inl IdempotencyInProgressError"
    by (simp add: unfolded time_simps)
  show "idem_request_fingerprint m = prep_request_fingerprint p \<Longrightarrow> idem_status m = COMPLETED \<Longrightarrow>
      stored_result s = Some result \<Longrightarrow>
      IdempotencyService_reserve ext secret ttl scope operation request now fresh rows =
        Inr (\<lparr>rsv_record_id = idem_id m, rsv_request_fingerprint = prep_request_fingerprint p,
              rsv_replay = Some result\<rparr>, rows)"
    by (simp add: unfolded)
qed

text \<open>
  C28. A reservation excludes every rival until it expires: a second request under the same key,
  scope and operation is refused, as in progress when it has the same fingerprint and as a
  conflict when it has another one.
\<close>

theorem reserve_exclusive:
  assumes "IdempotencyService_reserve ext secret ttl scope operation request now fresh rows = Inr (rsv, rows')"
    and "rsv_replay rsv = None" "idem_table_ok rows" "fresh \<notin> idem_id ` set rows"
    and p: "prepare ext secret request = Inr p" and p': "prepare ext secret request' = Inr p'"
    and "req_key request' = req_key request" "fresh' \<notin> idem_id ` set rows'"
    and now': "is_utc now'" "instant now' < instant now + ttl"
  shows "IdempotencyService_reserve ext secret ttl scope operation request' now' fresh' rows' =
    Inl (if prep_request_fingerprint p' = prep_request_fingerprint p
         then IdempotencyInProgressError else IdempotencyConflictError)"
proof (rule reserve_holds [OF assms(1-4)])
  fix q m
  assume q: "prepare ext secret request = Inr q" and op: "token_matches 127 operation"
    and m: "row_of idem_key (request_key scope operation q) rows' = Some m" "held m rsv"
      "idem_scope m = scope" "idem_expires_at m = instant now + ttl"
      "rsv_request_fingerprint rsv = prep_request_fingerprint q" "idem_check m"
  have key: "request_key scope operation p' = request_key scope operation q"
    using prepare_key_hash [OF q] prepare_key_hash [OF p'] assms(7) by (simp add: request_key_def)
  obtain s where s: "stored_record ext m = Inr s" using stored_record_held [OF m(2)] by blast
  have fresh: "fresh' \<noteq> idem_id m" using assms(8) row_of_SomeD [OF m(1)] by auto
  note again = reserve_existing [OF p' now'(1) op m(1) [folded key] s m(3,6) fresh, where ttl = ttl]
  show ?thesis
    using again(1,2) m(2,4,5) p q now'(2) by (simp add: held_def)
qed

lemma deserialize_serialize:
  assumes "serialize_result_type r = Inr t" "ResultReference_post_init r = Inr ()"
    and "ext_json_loads ext (json_dumps (result_metadata r)) = Some (result_metadata r)"
  shows "deserialize_result_type ext t (ref_result_id r) = Inr r"
proof -
  have again: "result_reference (ref_result_type r) (ref_result_id r) (ref_mutation_effect r) (ref_cache_authz_version r) = Inr r"
    using assms(2) by (cases r) (simp add: result_reference_def Let_def)
  show ?thesis
  proof (cases "ref_mutation_effect r = None \<and> ref_cache_authz_version r = None")
    case True
    then have t: "t = ref_result_type r" using assms(1) by (simp add: serialize_result_type_def)
    have "token_matches 63 t" using assms(2) t by (auto simp: ResultReference_post_init_def require_eq_Inr)
    then have "take 1 t \<noteq> ''{''" by (cases t) (auto simp: token_matches_def is_lower_def code_def)
    then show ?thesis using again True t by (simp add: deserialize_result_type_def)
  next
    case False
    then have t: "t = json_dumps (result_metadata r)"
      using assms(1) by (auto simp: serialize_result_type_def Let_def split: if_splits)
    have "take 1 t = ''{''" unfolding t by (simp add: result_metadata_def)
    moreover have "mutation_effect_of (case ref_mutation_effect r of None \<Rightarrow> JNull | Some e \<Rightarrow> JStr (IdempotencyMutationEffect_value e))
        = Some (ref_mutation_effect r)"
      by (cases "ref_mutation_effect r"; simp add: mutation_effect_of_def) (rename_tac e, case_tac e; simp)
    ultimately show ?thesis
      using assms(3) again unfolding deserialize_result_type_def t
      by (auto simp: result_metadata_def split: option.splits)
  qed
qed


lemma stored_record_completed:
  assumes "held m rsv" "serialize_result_type r = Inr t" "deserialize_result_type ext t (ref_result_id r) = Inr r"
  shows "\<exists>s. stored_record ext (m\<lparr>idem_status := COMPLETED, idem_result_type := Some t,
     idem_result_id := Some (ref_result_id r), idem_version := v\<rparr>) = Inr s \<and> stored_result s = Some r"
  using assms by (auto simp: stored_record_def held_def require_eval idem_scope_def)

lemma complete_Inr:
  assumes "IdempotencyService_complete rsv result now rows = Inr rows'" "idem_table_ok rows"
    and m: "row_of idem_key k rows = Some m" "held m rsv"
  obtains t where "serialize_result_type result = Inr t"
    "row_of idem_key k rows' = Some (m\<lparr>idem_status := COMPLETED, idem_result_type := Some t,
       idem_result_id := Some (ref_result_id result), idem_version := idem_version m + 1\<rparr>)"
    "map idem_id rows' = map idem_id rows"
proof -
  obtain t q where t: "serialize_result_type result = Inr t"
    and q: "q = \<lparr>fq_record_id = rsv_record_id rsv, fq_fingerprint = rsv_request_fingerprint rsv, fq_status = COMPLETED,
              fq_result_type = Some t, fq_result_id = Some (ref_result_id result)\<rparr>"
    and up: "sql_update idem_check (finish_where q) (finish_values q) rows = Inr (rows', 1)"
    using assms(1) by (auto simp: IdempotencyService_complete_def repo_complete_def validate_simps Let_def split: if_splits prod.splits)
  have rows': "rows' = map (\<lambda>r. if finish_where q r then finish_values q r else r) rows"
    using up by (simp add: sql_update_Inr)
  have "row_of idem_key k rows' = Some (finish_values q m)"
    unfolding rows' using m by (subst row_of_map) (auto simp: finish_where_def q held_def)
  then show ?thesis
    using that [OF t] finish.keys_kept [OF up] by (simp add: finish_values_def q)
qed

text \<open>The table holds the completed record of a request and replays its result.\<close>

definition answered :: "externals \<Rightarrow> IdempotencyScope \<Rightarrow> string \<Rightarrow> PreparedIdempotencyRequest \<Rightarrow> uuid
    \<Rightarrow> IdempotencyResultReference \<Rightarrow> idem_row list \<Rightarrow> bool" where
  "answered ext scope operation p record_id result rows \<longleftrightarrow>
     token_matches 127 operation \<and> record_id \<in> idem_id ` set rows
     \<and> (\<exists>m s. row_of idem_key (request_key scope operation p) rows = Some m \<and> stored_record ext m = Inr s
          \<and> stored_result s = Some result \<and> idem_status m = COMPLETED \<and> idem_id m = record_id
          \<and> idem_request_fingerprint m = prep_request_fingerprint p \<and> idem_scope m = scope \<and> idem_check m)"

lemma answered_replays:
  assumes "answered ext scope operation p record_id result rows" "prepare ext secret request = Inr q"
    and "prep_key_hash q = prep_key_hash p" "is_utc now" "fresh \<notin> idem_id ` set rows"
  shows "IdempotencyService_reserve ext secret ttl scope operation request now fresh rows =
    (if prep_request_fingerprint q = prep_request_fingerprint p
     then Inr (\<lparr>rsv_record_id = record_id, rsv_request_fingerprint = prep_request_fingerprint p,
                rsv_replay = Some result\<rparr>, rows)
     else Inl IdempotencyConflictError)"
proof -
  obtain m s where m: "row_of idem_key (request_key scope operation q) rows = Some m" "stored_record ext m = Inr s"
    "stored_result s = Some result" "idem_status m = COMPLETED" "idem_id m = record_id"
    "idem_request_fingerprint m = prep_request_fingerprint p" "idem_scope m = scope" "idem_check m"
    and op: "token_matches 127 operation"
    using assms(1,3) by (auto simp: answered_def request_key_def)
  have fresh: "fresh \<noteq> idem_id m" using assms(1,5) m(5) by (auto simp: answered_def)
  show ?thesis
    using reserve_existing(1,3) [OF assms(2,4) op m(1,2,7,8) fresh, where ttl = ttl] m by auto
qed

lemma complete_answers:
  assumes "IdempotencyService_reserve ext secret ttl scope operation request now fresh rows = Inr (rsv, rows1)"
    and "rsv_replay rsv = None" "idem_table_ok rows" "fresh \<notin> idem_id ` set rows"
    and finished: "IdempotencyService_complete rsv result now1 rows1 = Inr rows2"
    and reads_back: "\<And>t. serialize_result_type result = Inr t \<Longrightarrow> deserialize_result_type ext t (ref_result_id result) = Inr result"
    and p: "prepare ext secret request = Inr p"
  shows "answered ext scope operation p (rsv_record_id rsv) result rows2
    \<and> rsv_request_fingerprint rsv = prep_request_fingerprint p"
proof (rule reserve_holds [OF assms(1-4)])
  fix q m
  assume q: "prepare ext secret request = Inr q" and op: "token_matches 127 operation"
    and m: "row_of idem_key (request_key scope operation q) rows1 = Some m" "held m rsv"
      "idem_scope m = scope" "rsv_request_fingerprint rsv = prep_request_fingerprint q" "idem_check m"
      "idem_table_ok rows1"
  have pq: "q = p" using p q by simp
  obtain t where t: "serialize_result_type result = Inr t" and
    m2: "row_of idem_key (request_key scope operation q) rows2 = Some (m\<lparr>idem_status := COMPLETED,
       idem_result_type := Some t, idem_result_id := Some (ref_result_id result), idem_version := idem_version m + 1\<rparr>)"
    (is "_ = Some ?m") by (rule complete_Inr [OF finished m(6,1,2)])
  obtain s where s: "stored_record ext ?m = Inr s" "stored_result s = Some result"
    using stored_record_completed [OF m(2) t reads_back [OF t]] by blast
  have other: "idem_scope ?m = scope" "idem_check ?m"
    using m(3,5) by (simp_all add: idem_scope_def idem_check_def)
  have "idem_id ?m \<in> idem_id ` set rows2"
    using imageI [OF conjunct1 [OF row_of_SomeD [OF m2]], of idem_id] .
  then show ?thesis
    using m(2,4) m2 s other op unfolding pq answered_def by (auto simp: held_def)
qed

text \<open>
  Once a reservation is completed, every later request with the same key and the same
  business values replays the stored result, at any time and without touching the table.
\<close>

theorem completed_replays:
  assumes "IdempotencyService_reserve ext secret ttl scope operation request now fresh rows = Inr (rsv, rows1)"
    and "rsv_replay rsv = None" "idem_table_ok rows" "fresh \<notin> idem_id ` set rows"
    and finished: "IdempotencyService_complete rsv result now1 rows1 = Inr rows2"
    and "ResultReference_post_init result = Inr ()"
    and "ext_json_loads ext (json_dumps (result_metadata result)) = Some (result_metadata result)"
    and p: "prepare ext secret request = Inr p" and p': "prepare ext secret request' = Inr p'"
    and "req_key request' = req_key request" "prep_request_fingerprint p' = prep_request_fingerprint p"
    and "is_utc now2" "fresh2 \<notin> idem_id ` set rows2"
  shows "IdempotencyService_reserve ext secret ttl scope operation request' now2 fresh2 rows2 =
    Inr (\<lparr>rsv_record_id = rsv_record_id rsv, rsv_request_fingerprint = rsv_request_fingerprint rsv,
          rsv_replay = Some result\<rparr>, rows2)"
proof -
  have a: "answered ext scope operation p (rsv_record_id rsv) result rows2 \<and> rsv_request_fingerprint rsv = prep_request_fingerprint p"
    using complete_answers [OF assms(1-4) finished _ p] deserialize_serialize assms(6,7) by blast
  have "prep_key_hash p' = prep_key_hash p"
    using prepare_key_hash [OF p] prepare_key_hash [OF p'] assms(10) by simp
  then show ?thesis
    using answered_replays [OF conjunct1 [OF a] p' _ assms(12,13), of ttl] a assms(11) by simp
qed

text \<open>Two bodies that differ in their secret leaves only.\<close>

fun same_but_secrets :: "json_path list \<Rightarrow> json_path \<Rightarrow> json \<Rightarrow> json \<Rightarrow> bool"
  and same_items :: "json_path list \<Rightarrow> json_path \<Rightarrow> (string \<times> json) list \<Rightarrow> (string \<times> json) list \<Rightarrow> bool" where
  "same_but_secrets secret path v w \<longleftrightarrow>
     path \<in> set secret \<or> v = w \<or>
     (case (v, w) of (JObj kvs, JObj kvs') \<Rightarrow> same_items secret path kvs kvs' | _ \<Rightarrow> False)"
| "same_items secret path [] ws \<longleftrightarrow> ws = []"
| "same_items secret path ((k, v) # vs) ws \<longleftrightarrow>
     (case ws of [] \<Rightarrow> False
      | (k', w) # ws' \<Rightarrow> k' = k \<and> same_but_secrets secret (path @ [k]) v w \<and> same_items secret path vs ws')"

lemma project_same_but_secrets:
  "project_explicit_paths business secret path v = Inr a \<Longrightarrow> same_but_secrets secret path v w \<Longrightarrow>
     project_explicit_paths business secret path w = Inr b \<Longrightarrow> a = b"
  "project_items business secret path vs = Inr as \<Longrightarrow> same_items secret path vs ws \<Longrightarrow>
     project_items business secret path ws = Inr bs \<Longrightarrow> as = bs"
proof (induction business secret path v and business secret path vs arbitrary: a w b and as ws bs
    rule: project_explicit_paths_project_items.induct)
  case (1 business secret path v)
  consider "path \<in> set secret" | "v = w"
    | kvs kvs' where "path \<notin> set secret" "v = JObj kvs" "w = JObj kvs'" "same_items secret path kvs kvs'"
    using 1(3) unfolding same_but_secrets.simps by (cases v; cases w; simp) blast+
  then show ?case
  proof cases
    case 1
    then show ?thesis using "1.prems"(1,3) by (simp add: validate_simps)
  next
    case 2
    then show ?thesis using "1.prems"(1,3) by simp
  next
    case 3
    have no: "path \<notin> set business" using "1.prems"(1) 3 by (auto simp: validate_simps)
    obtain as where as: "project_items business secret path kvs = Inr as" "a = Some (JObj as)"
      using "1.prems"(1) 3 no by (auto simp: validate_simps)
    obtain bs where bs: "project_items business secret path kvs' = Inr bs" "b = Some (JObj bs)"
      using "1.prems"(3) 3 no by (auto simp: validate_simps)
    show ?thesis using "1.IH" [OF 3(1) no 3(2) as(1) 3(4) bs(1)] as(2) bs(2) by simp
  qed
next
  case (2 business secret path)
  then show ?case by simp
next
  case (3 business secret path k child rest)
  obtain w ws' where ws: "ws = (k, w) # ws'" "same_but_secrets secret (path @ [k]) child w"
      "same_items secret path rest ws'"
    using 3(4) by (auto split: list.splits)
  obtain x xs where x: "project_explicit_paths business secret (path @ [k]) child = Inr x"
      "project_items business secret path rest = Inr xs"
      "as = (case x of None \<Rightarrow> xs | Some w \<Rightarrow> (k, w) # xs)"
    using 3(3) by (auto simp: validate_simps)
  obtain y ys where y: "project_explicit_paths business secret (path @ [k]) w = Inr y"
      "project_items business secret path ws' = Inr ys"
      "bs = (case y of None \<Rightarrow> ys | Some w \<Rightarrow> (k, w) # ys)"
    using 3(5) ws(1) by (auto simp: validate_simps)
  have "x = y" by (rule 3(1) [OF x(1) ws(2) y(1)])
  moreover have "xs = ys" by (rule 3(2) [OF x(1) x(2) ws(3) y(2)])
  ultimately show ?case using x(3) y(3) by (cases y) simp_all
qed

lemma business_object:
  "m = Inr a \<Longrightarrow> (case a of Some (JObj kvs) \<Rightarrow> Inr (JObj kvs) | _ \<Rightarrow> Inl e) = Inr b \<Longrightarrow> m = Inr (Some b)"
  by (cases a; simp) (rename_tac v, case_tac v; simp)

lemma canonical_business_values_Inr:
  "canonical_business_values p = Inr b \<Longrightarrow>
    project_explicit_paths (payload_business_paths p) (payload_secret_paths p) [] (JObj (payload_values p)) = Inr (Some b)"
  unfolding canonical_business_values_def bindE_eq_Inr
  by (elim exE conjE, drule (1) business_object) simp

text \<open>
  The fingerprint of a request does not depend on its secret values: two accepted bodies of
  the same shape that differ only below the declared secret paths are prepared to the same key
  hash and fingerprint.
\<close>

theorem fingerprint_ignores_secrets:
  assumes "prepare ext secret request = Inr p" "prepare ext secret request' = Inr p'"
    and "req_key request' = req_key request" "req_method request' = req_method request"
    and "req_canonical_route request' = req_canonical_route request"
    and "payload_business_paths (req_body request') = payload_business_paths (req_body request)"
    and "payload_secret_paths (req_body request') = payload_secret_paths (req_body request)"
    and "same_but_secrets (payload_secret_paths (req_body request)) []
           (JObj (payload_values (req_body request))) (JObj (payload_values (req_body request')))"
  shows "p' = p"
proof -
  obtain b where b: "canonical_business_values (req_body request) = Inr b"
    using assms(1) by (auto simp: prepare_def validate_simps split: if_splits)
  obtain b' where b': "canonical_business_values (req_body request') = Inr b'"
    using assms(2) by (auto simp: prepare_def validate_simps split: if_splits)
  have "b = b'"
    using project_same_but_secrets(1) [OF _ assms(8)] canonical_business_values_Inr [OF b]
      canonical_business_values_Inr [OF b'] assms(6,7) by force
  then show ?thesis
    using assms b b' by (auto simp: prepare_def validate_simps split: if_splits)
qed


subsection \<open>A concrete request\<close>

definition sample_reference :: IdempotencyResultReference where
  "sample_reference = \<lparr>ref_result_type = ''ai_job'', ref_result_id = u7 9, ref_mutation_effect = Some CHANGED,
     ref_cache_authz_version = None\<rparr>"

definition sample_externals :: externals where
  "sample_externals = \<lparr>ext_sha256 = (\<lambda>b. take 32 (rev b @ replicate 32 0)),
     ext_hmac_sha256 = (\<lambda>k b. take 32 (rev b @ k)), ext_json_loads = (\<lambda>s. Some (result_metadata sample_reference))\<rparr>"

definition sample_secret :: bytes where
  "sample_secret = replicate 32 7"

definition sample_user_scope :: IdempotencyScope where
  "sample_user_scope = \<lparr>scope_type = ScopeType_USER, scope_id = u7 3, scope_tenant_id = None\<rparr>"

definition sample_body :: "string \<Rightarrow> string \<Rightarrow> IdempotencyFingerprintPayload" where
  "sample_body title password =
     \<lparr>payload_values = [(''title'', JStr title), (''password'', JStr password)],
      payload_business_paths = [[''title'']], payload_secret_paths = [[''password'']]\<rparr>"

definition sample_request :: "string \<Rightarrow> string \<Rightarrow> IdempotencyRequest" where
  "sample_request title password = \<lparr>req_key = ''0123456789abcdef'', req_method = ''post'',
     req_canonical_route = ''/v1/jobs/'', req_body = sample_body title password\<rparr>"

abbreviation sample_reserve :: "string \<Rightarrow> int \<Rightarrow> uuid \<Rightarrow> idem_row list \<Rightarrow> (IdempotencyReservation \<times> idem_row list) result" where
  "sample_reserve title t fresh rows \<equiv> IdempotencyService_reserve sample_externals sample_secret (seconds 3600)
     sample_user_scope ''job.create'' (sample_request title ''hidden'') (aware t) fresh rows"

lemma sample_run:
  "case sample_reserve ''x'' 5 (u7 1) [] of Inl _ \<Rightarrow> False
   | Inr (rsv, rows) \<Rightarrow> rsv_replay rsv = None \<and> u7 2 \<notin> set (map idem_id rows)
       \<and> (case IdempotencyService_complete rsv sample_reference (aware 6) rows of Inl _ \<Rightarrow> False
          | Inr rows2 \<Rightarrow> u7 2 \<notin> set (map idem_id rows2))"
  "case (prepare sample_externals sample_secret (sample_request ''x'' ''hidden''),
         prepare sample_externals sample_secret (sample_request ''y'' ''other''),
         prepare sample_externals sample_secret (sample_request ''x'' ''other'')) of
     (Inr p, Inr p', Inr p'') \<Rightarrow> prep_request_fingerprint p' \<noteq> prep_request_fingerprint p \<and> p'' = p
   | _ \<Rightarrow> False"
  by code_simp+

lemma sample_reserved:
  obtains rsv rows rows2 where "sample_reserve ''x'' 5 (u7 1) [] = Inr (rsv, rows)" "rsv_replay rsv = None"
    "u7 2 \<notin> idem_id ` set rows" "IdempotencyService_complete rsv sample_reference (aware 6) rows = Inr rows2"
    "u7 2 \<notin> idem_id ` set rows2"
proof (cases "sample_reserve ''x'' 5 (u7 1) []")
  case (Inr x)
  obtain rsv rows where x: "x = (rsv, rows)" by (cases x)
  show ?thesis
    using that [of rsv rows] sample_run(1) Inr x
    by (cases "IdempotencyService_complete rsv sample_reference (aware 6) rows") auto
qed (use sample_run(1) in simp)

lemma sample_reference_valid:
  "ResultReference_post_init sample_reference = Inr ()"
  by (simp add: ResultReference_post_init_def require_eval sample_reference_def token_matches_def
      token_char_def is_lower_def is_digit_def code_def)

lemma reserve_exclusive_witness:
  "\<exists>rsv rows. sample_reserve ''x'' 5 (u7 1) [] = Inr (rsv, rows)
     \<and> IdempotencyService_reserve sample_externals sample_secret (seconds 3600) sample_user_scope ''job.create''
          (sample_request ''y'' ''other'') (aware 6) (u7 2) rows = Inl IdempotencyConflictError"
proof -
  obtain rsv rows where run: "sample_reserve ''x'' 5 (u7 1) [] = Inr (rsv, rows)" "rsv_replay rsv = None"
      "u7 2 \<notin> idem_id ` set rows" by (rule sample_reserved)
  obtain p p' where p: "prepare sample_externals sample_secret (sample_request ''x'' ''hidden'') = Inr p"
      "prepare sample_externals sample_secret (sample_request ''y'' ''other'') = Inr p'"
      "prep_request_fingerprint p' \<noteq> prep_request_fingerprint p"
    using sample_run(2) by (auto split: sum.splits)
  have "IdempotencyService_reserve sample_externals sample_secret (seconds 3600) sample_user_scope ''job.create''
          (sample_request ''y'' ''other'') (aware 6) (u7 2) rows = Inl IdempotencyConflictError"
    using reserve_exclusive [OF run(1,2) _ _ p(1,2) _ run(3), of "aware 6"] p(3)
    by (simp add: idem_table_ok_def sample_request_def seconds_def)
  then show ?thesis using run(1) by blast
qed

lemma completed_replays_witness:
  "\<exists>rsv rows rows2. sample_reserve ''x'' 5 (u7 1) [] = Inr (rsv, rows)
     \<and> IdempotencyService_complete rsv sample_reference (aware 6) rows = Inr rows2
     \<and> sample_reserve ''x'' 900000000000 (u7 2) rows2 =
       Inr (\<lparr>rsv_record_id = rsv_record_id rsv, rsv_request_fingerprint = rsv_request_fingerprint rsv,
             rsv_replay = Some sample_reference\<rparr>, rows2)"
proof -
  obtain rsv rows rows2 where run: "sample_reserve ''x'' 5 (u7 1) [] = Inr (rsv, rows)" "rsv_replay rsv = None"
      "IdempotencyService_complete rsv sample_reference (aware 6) rows = Inr rows2" "u7 2 \<notin> idem_id ` set rows2"
    by (rule sample_reserved)
  obtain p where p: "prepare sample_externals sample_secret (sample_request ''x'' ''hidden'') = Inr p"
    using sample_run(2) by (auto split: sum.splits)
  have "ext_json_loads sample_externals s = Some (result_metadata sample_reference)" for s
    by (simp add: sample_externals_def)
  then show ?thesis
    using completed_replays [OF run(1,2) _ _ run(3) sample_reference_valid _ p p, of "aware 900000000000" "u7 2"] run
    by (auto simp: idem_table_ok_def)
qed

lemma fingerprint_ignores_secrets_witness:
  "\<exists>p. prepare sample_externals sample_secret (sample_request ''x'' ''hidden'') = Inr p
     \<and> prepare sample_externals sample_secret (sample_request ''x'' ''other'') = Inr p"
proof -
  obtain p p'' where p: "prepare sample_externals sample_secret (sample_request ''x'' ''hidden'') = Inr p"
      "prepare sample_externals sample_secret (sample_request ''x'' ''other'') = Inr p''"
    using sample_run(2) by (auto split: sum.splits)
  then show ?thesis
    using fingerprint_ignores_secrets [OF p] by (simp add: sample_request_def sample_body_def)
qed

end
