(* ===== verification/Envelope.thy ===== *)
theory Envelope
  imports Calendar Base64
begin

text \<open>
  \<open>messaging/envelope.py\<close>, \<open>messaging/signing.py\<close> and \<open>messaging/delivery.py\<close>: the signed
  reference that travels over the broker, its canonical signing input, the signer and the verifier,
  and the codec that parses a delivery.  Ed25519, SHA-256, \<open>orjson.loads\<close> and the coercions of
  pydantic are fields of the records \<open>crypto\<close> and \<open>wire_parsers\<close>.
\<close>

subsection \<open>The envelope\<close>

record AIJobEnvelope =
  env_schema_version :: int
  env_message_id :: uuid
  env_job_id :: uuid
  env_tenant_id :: uuid
  env_correlation_id :: uuid
  env_issued_at :: datetime
  env_nonce :: string
  env_signature :: string

definition kid_char :: "char \<Rightarrow> bool" where
  "kid_char c \<longleftrightarrow> is_alnum c \<or> c = CHR ''.'' \<or> c = CHR ''_'' \<or> c = CHR ''-''"

definition NONCE_PATTERN :: "string \<Rightarrow> bool" where
  "NONCE_PATTERN v \<longleftrightarrow> matches_class url_b64_char 22 22 v"

text \<open>
  \<open>_SIGNATURE_PATTERN\<close> with its two groups.  The last group has 86 characters and no dot, so the
  match is unique: the group is the end of the text, the dot before it ends the kid.
\<close>

definition SIGNATURE_PATTERN :: "string \<Rightarrow> (string \<times> string) option" where
  "SIGNATURE_PATTERN v =
     (let rest = drop 8 v; n = length rest - 87; kid = take n rest; encoded = drop (Suc n) rest in
      if take 8 v = ''ed25519.'' \<and> 88 \<le> length rest \<and> rest ! n = CHR ''.''
        \<and> matches_class kid_char 1 64 kid \<and> matches_class url_b64_char 86 86 encoded
      then Some (kid, encoded) else None)"

definition nonce_error :: exn where
  "nonce_error = ValueError ''nonce must be an unpadded Base64URL 128-bit value''"

definition validate_nonce :: "string \<Rightarrow> string result" where
  "validate_nonce v =
     (if \<not> NONCE_PATTERN v then Inl nonce_error
      else case urlsafe_b64decode (v @ ''=='') of
        None \<Rightarrow> Inl nonce_error
      | Some decoded \<Rightarrow>
          (if length decoded \<noteq> 16 then Inl (ValueError ''nonce must decode to exactly 16 bytes'') else Inr v))"

definition validate_signature :: "string \<Rightarrow> string result" where
  "validate_signature v =
     (case SIGNATURE_PATTERN v of
        None \<Rightarrow> Inl (ValueError ''signature must use the ed25519.<kid>.<base64url> form'')
      | Some (kid, encoded) \<Rightarrow>
          (case urlsafe_b64decode (encoded @ ''=='') of
             None \<Rightarrow> Inl (ValueError ''signature is not valid Base64URL'')
           | Some decoded \<Rightarrow>
               (if length decoded \<noteq> 64 then Inl (ValueError ''signature must decode to exactly 64 bytes'')
                else Inr v)))"

definition AIJobEnvelope_validate :: "AIJobEnvelope \<Rightarrow> unit result" where
  "AIJobEnvelope_validate e =
     (if env_schema_version e \<noteq> 1 then Inl (ValueError ''Input should be 1'')
      else bindE (validate_nonce (env_nonce e)) (\<lambda>_.
           bindE (validate_signature (env_signature e)) (\<lambda>_. Inr ())))"

text \<open>The property \<open>kid\<close>; its \<open>assert\<close> cannot fail on a validated envelope.\<close>

definition env_kid :: "AIJobEnvelope \<Rightarrow> string" where
  "env_kid e = (case SIGNATURE_PATTERN (env_signature e) of Some (kid, _) \<Rightarrow> kid | None \<Rightarrow> [])"

subsection \<open>The signing input\<close>

definition be32 :: "nat \<Rightarrow> bytes" where
  "be32 n = [byte (n div 16777216), byte (n div 65536 mod 256), byte (n div 256 mod 256), byte (n mod 256)]"

definition chunk :: "string \<Rightarrow> string \<Rightarrow> bytes" where
  "chunk name content =
     be32 (length name) @ ascii name @ be32 (length content) @ ascii content"

definition canonical_bytes :: "AIJobEnvelope \<Rightarrow> bytes result" where
  "canonical_bytes e =
     bindE (canonical_datetime (env_issued_at e)) (\<lambda>issued_at.
       Inr (chunk ''schema_version'' ''1''
          @ chunk ''message_id'' (uuid_str (env_message_id e))
          @ chunk ''job_id'' (uuid_str (env_job_id e))
          @ chunk ''tenant_id'' (uuid_str (env_tenant_id e))
          @ chunk ''correlation_id'' (uuid_str (env_correlation_id e))
          @ chunk ''issued_at'' issued_at
          @ chunk ''nonce'' (env_nonce e)))"

definition envelope_to_json :: "AIJobEnvelope \<Rightarrow> (string \<times> json) list result" where
  "envelope_to_json e =
     bindE (canonical_datetime (env_issued_at e)) (\<lambda>issued_at.
       Inr [(''schema_version'', JInt (env_schema_version e)),
            (''message_id'', JStr (uuid_str (env_message_id e))),
            (''job_id'', JStr (uuid_str (env_job_id e))),
            (''tenant_id'', JStr (uuid_str (env_tenant_id e))),
            (''correlation_id'', JStr (uuid_str (env_correlation_id e))),
            (''issued_at'', JStr issued_at),
            (''nonce'', JStr (env_nonce e)),
            (''signature'', JStr (env_signature e))])"

subsection \<open>Signing\<close>

record crypto =
  ed25519_public :: "bytes \<Rightarrow> bytes"
  ed25519_sign :: "bytes \<Rightarrow> bytes \<Rightarrow> bytes"
  ed25519_loadable :: "bytes \<Rightarrow> bool"
  ed25519_verify :: "bytes \<Rightarrow> bytes \<Rightarrow> bytes \<Rightarrow> bool"
  sha256 :: "bytes \<Rightarrow> bytes"

type_synonym key_ring = "(string \<times> bytes) list"

text \<open>A ring from a JSON object of Base64 keys.\<close>

definition is_blank :: "string \<Rightarrow> bool" where
  "is_blank s \<longleftrightarrow> list_all (\<lambda>c. code c \<in> {9, 10, 11, 12, 13, 28, 29, 30, 31, 32, 133, 160}) s"

fun decode_ring_entries :: "string \<Rightarrow> (string \<times> string) list \<Rightarrow> key_ring result" where
  "decode_ring_entries field_name [] = Inr []"
| "decode_ring_entries field_name ((kid, material) # rest) =
     (if length kid < 1 \<or> 64 < length kid then Inl (ValueError (field_name @ '' contains an invalid kid''))
      else if is_blank material then Inl (ValueError (field_name @ '' contains a blank key for '' @ kid))
      else case b64decode_strict material of
        None \<Rightarrow> Inl (ValueError (field_name @ '' key '' @ kid @ '' must be valid Base64''))
      | Some raw \<Rightarrow>
          (if length raw \<noteq> 32
           then Inl (ValueError (field_name @ '' key '' @ kid @ '' must decode to exactly 32 bytes''))
           else bindE (decode_ring_entries field_name rest) (\<lambda>ring. Inr ((kid, raw) # ring))))"

definition decode_ring :: "(string \<times> string) list \<Rightarrow> string \<Rightarrow> key_ring result" where
  "decode_ring mapping field_name =
     (if mapping = [] then Inl (ValueError (field_name @ '' must not be empty''))
      else bindE (decode_ring_entries field_name mapping) (\<lambda>decoded.
        if distinct (map snd decoded) then Inr decoded
        else Inl (ValueError (field_name @ '' must not repeat decoded key material''))))"

record EnvelopeSigner =
  seed_ring :: key_ring
  active_kid :: string

definition EnvelopeSigner_init :: "key_ring \<Rightarrow> string \<Rightarrow> EnvelopeSigner result" where
  "EnvelopeSigner_init ring kid =
     bindE (require
       [(ring \<noteq> [], ValueError ''seed ring must not be empty''),
        (list_all (\<lambda>(k, seed). length seed = 32) ring, ValueError ''seed ring must contain 32-byte seeds''),
        (map_of ring kid \<noteq> None, ValueError ''active kid must identify a configured seed'')])
       (\<lambda>_. Inr \<lparr>seed_ring = ring, active_kid = kid\<rparr>)"

text \<open>\<open>model_copy(update=...)\<close> does not validate the new signature.\<close>

definition EnvelopeSigner_sign :: "crypto \<Rightarrow> EnvelopeSigner \<Rightarrow> AIJobEnvelope \<Rightarrow> AIJobEnvelope result" where
  "EnvelopeSigner_sign cr signer e =
     (case map_of (seed_ring signer) (active_kid signer) of
        None \<Rightarrow> Inl (KeyError (active_kid signer))
      | Some seed \<Rightarrow> bindE (canonical_bytes e) (\<lambda>message.
          let encoded = urlsafe_b64encode_unpadded (ed25519_sign cr seed message)
          in Inr (e\<lparr>env_signature := ''ed25519.'' @ active_kid signer @ ''.'' @ encoded\<rparr>)))"

definition EnvelopeVerifier_init :: "key_ring \<Rightarrow> key_ring result" where
  "EnvelopeVerifier_init ring =
     bindE (require
       [(ring \<noteq> [], ValueError ''verify ring must not be empty''),
        (list_all (\<lambda>(k, key). length key = 32) ring, ValueError ''verify ring must contain 32-byte public keys'')])
       (\<lambda>_. Inr ring)"

text \<open>\<open>s.partition(".")\<close> without its separator.\<close>

definition partition_dot :: "string \<Rightarrow> string \<times> string" where
  "partition_dot s = (takeWhile (\<lambda>c. c \<noteq> CHR ''.'') s, drop 1 (dropWhile (\<lambda>c. c \<noteq> CHR ''.'') s))"

definition signature_bytes :: "string \<Rightarrow> bytes result" where
  "signature_bytes signature =
     (let encoded = snd (partition_dot signature);
          encoded' = (if CHR ''.'' \<in> set encoded then snd (partition_dot encoded) else encoded)
      in case urlsafe_b64decode (encoded' @ ''=='') of
           None \<Rightarrow> Inl (EnvelopeSignatureError ''invalid signature encoding'')
         | Some raw \<Rightarrow> Inr raw)"

definition EnvelopeVerifier_verify :: "crypto \<Rightarrow> key_ring \<Rightarrow> AIJobEnvelope \<Rightarrow> AIJobEnvelope result" where
  "EnvelopeVerifier_verify cr ring e =
     (case map_of ring (env_kid e) of
        None \<Rightarrow> Inl (EnvelopeSignatureError ''unknown kid'')
      | Some public_key \<Rightarrow>
          (if \<not> ed25519_loadable cr public_key then Inl (EnvelopeSignatureError ''invalid public key'')
           else bindE (signature_bytes (env_signature e)) (\<lambda>raw.
                bindE (canonical_bytes e) (\<lambda>message.
                  if ed25519_verify cr public_key raw message then Inr e
                  else Inl (EnvelopeSignatureError ''signature mismatch'')))))"

definition envelope_digest :: "crypto \<Rightarrow> AIJobEnvelope \<Rightarrow> bytes result" where
  "envelope_digest cr e = bindE (canonical_bytes e) (\<lambda>b. Inr (sha256 cr b))"

subsection \<open>Deliveries\<close>

record RawDelivery =
  raw_body :: bytes
  raw_content_type :: string
  raw_received_at :: datetime
  raw_redelivered :: bool

record wire_parsers =
  orjson_loads :: "bytes \<Rightarrow> json option"
  pydantic_int :: "json \<Rightarrow> int option"
  pydantic_uuid :: "json \<Rightarrow> uuid option"
  pydantic_datetime :: "json \<Rightarrow> datetime option"
  pydantic_str :: "json \<Rightarrow> string option"

definition require_size_and_content_type :: "RawDelivery \<Rightarrow> RawDelivery result" where
  "require_size_and_content_type d =
     (if raw_content_type d \<noteq> ''application/json'' then Inl (RejectDelivery ''unsupported_content_type'')
      else if raw_body d = [] \<or> length (raw_body d) > 16 * 1024 then Inl (RejectDelivery ''invalid_delivery_size'')
      else Inr d)"

definition envelope_fields :: "string list" where
  "envelope_fields = [''schema_version'', ''message_id'', ''job_id'', ''tenant_id'', ''correlation_id'',
     ''issued_at'', ''nonce'', ''signature'']"

definition payload_field :: "(string \<times> json) list \<Rightarrow> (json \<Rightarrow> 'a option) \<Rightarrow> string \<Rightarrow> 'a option" where
  "payload_field payload parse name = Option.bind (map_of payload name) parse"

text \<open>\<open>AIJobEnvelope.model_validate(payload)\<close>: exactly the eight fields, each coerced, then the validators.\<close>

definition model_validate :: "wire_parsers \<Rightarrow> (string \<times> json) list \<Rightarrow> AIJobEnvelope option" where
  "model_validate wp payload =
     (if \<not> list_all (\<lambda>(k, _). k \<in> set envelope_fields) payload then None
      else case (payload_field payload (pydantic_int wp) ''schema_version'', payload_field payload (pydantic_uuid wp) ''message_id'',
          payload_field payload (pydantic_uuid wp) ''job_id'', payload_field payload (pydantic_uuid wp) ''tenant_id'',
          payload_field payload (pydantic_uuid wp) ''correlation_id'', payload_field payload (pydantic_datetime wp) ''issued_at'',
          payload_field payload (pydantic_str wp) ''nonce'', payload_field payload (pydantic_str wp) ''signature'') of
        (Some v, Some m, Some j, Some t, Some c, Some i, Some n, Some s) \<Rightarrow>
          (let e = \<lparr>env_schema_version = v, env_message_id = m, env_job_id = j, env_tenant_id = t,
                    env_correlation_id = c, env_issued_at = i, env_nonce = n, env_signature = s\<rparr>
           in case AIJobEnvelope_validate e of Inl _ \<Rightarrow> None | Inr _ \<Rightarrow> Some e)
      | _ \<Rightarrow> None)"

text \<open>Equality of two dictionaries; Python compares \<open>True\<close> and \<open>1\<close> as equal.\<close>

fun py_scalar :: "json \<Rightarrow> json" where
  "py_scalar (JBool b) = JInt (if b then 1 else 0)"
| "py_scalar v = v"

definition same_dict :: "(string \<times> json) list \<Rightarrow> (string \<times> json) list \<Rightarrow> bool" where
  "same_dict a b \<longleftrightarrow> fst ` set a = fst ` set b
     \<and> list_all (\<lambda>(k, _). map_option py_scalar (map_of a k) = map_option py_scalar (map_of b k)) a"

definition parse_and_require_canonical :: "wire_parsers \<Rightarrow> RawDelivery \<Rightarrow> AIJobEnvelope result" where
  "parse_and_require_canonical wp d =
     (case orjson_loads wp (raw_body d) of
        None \<Rightarrow> Inl (RejectDelivery ''invalid_envelope_json'')
      | Some (JObj payload) \<Rightarrow>
          (case model_validate wp payload of
             None \<Rightarrow> Inl (RejectDelivery ''invalid_envelope_fields'')
           | Some e \<Rightarrow> bindE (envelope_to_json e) (\<lambda>canonical.
               if same_dict canonical payload then Inr e
               else Inl (RejectDelivery ''non_canonical_envelope'')))
      | Some _ \<Rightarrow> Inl (RejectDelivery ''invalid_envelope_shape''))"


subsection \<open>The signing input determines the signed fields\<close>

lemma unat_byte: "a < 256 \<Longrightarrow> unat (byte a) = a"
  unfolding byte_def by (subst unat_of_nat) (simp add: mod_less)

lemma byte_inject: "a < 256 \<Longrightarrow> b < 256 \<Longrightarrow> byte a = byte b \<Longrightarrow> a = b"
  by (metis unat_byte)

lemma ascii_inject: "ascii s = ascii t \<Longrightarrow> s = t"
  unfolding ascii_def
proof (induction s arbitrary: t)
  case (Cons c s)
  then obtain d t' where t: "t = d # t'" "byte (code c) = byte (code d)" "map (\<lambda>c. byte (code c)) s = map (\<lambda>c. byte (code c)) t'"
    by (cases t) auto
  have "code c = code d" using t(2) by (rule byte_inject [rotated 2]) (simp_all add: code_def)
  then show ?case using t Cons.IH code_inject by blast
qed simp

lemma be32_inject:
  assumes "n < 2 ^ 32" "m < 2 ^ 32" "be32 n = be32 m"
  shows "n = m"
proof -
  have top: "n div 16777216 < 256" "m div 16777216 < 256"
    using assms(1,2) by (auto intro!: less_mult_imp_div_less)
  have eqs: "byte (n div 16777216) = byte (m div 16777216)" "byte (n div 65536 mod 256) = byte (m div 65536 mod 256)"
    "byte (n div 256 mod 256) = byte (m div 256 mod 256)" "byte (n mod 256) = byte (m mod 256)"
    using assms(3) unfolding be32_def list.inject by blast+
  have small: "k mod 256 < 256" for k :: nat by (rule mod_less_divisor) simp
  have parts: "n div 16777216 = m div 16777216" "n div 65536 mod 256 = m div 65536 mod 256"
    "n div 256 mod 256 = m div 256 mod 256" "n mod 256 = m mod 256"
    by (rule byte_inject [OF top eqs(1)], rule byte_inject [OF small small eqs(2)],
        rule byte_inject [OF small small eqs(3)], rule byte_inject [OF small small eqs(4)])
  have join: "a div 256 = b div 256 \<Longrightarrow> a mod 256 = b mod 256 \<Longrightarrow> a = b" for a b :: nat
    by (metis div_mult_mod_eq)
  have "k div 65536 div 256 = k div 16777216" "k div 256 div 256 = k div 65536" for k :: nat
    by (simp_all flip: div_mult2_eq)
  then show ?thesis using parts join by metis
qed

lemma length_ascii [simp]: "length (ascii s) = length s"
  by (simp add: ascii_def)

lemma chunk_inject:
  assumes "chunk name c @ r = chunk name c' @ r'" "length c < 2 ^ 32" "length c' < 2 ^ 32"
  shows "c = c' \<and> r = r'"
proof -
  have eq: "be32 (length c) @ ascii c @ r = be32 (length c') @ ascii c' @ r'"
    using assms(1) by (simp add: chunk_def)
  then have "be32 (length c) = be32 (length c')" by (simp add: be32_def)
  then have "length c = length c'" using be32_inject assms(2,3) by blast
  then have "ascii c = ascii c'" "r = r'" using eq by (simp_all add: append_eq_append_conv)
  then show ?thesis using ascii_inject by blast
qed

lemma validated_nonce: "AIJobEnvelope_validate e = Inr () \<Longrightarrow> length (env_nonce e) = 22"
  by (auto simp: AIJobEnvelope_validate_def validate_simps validate_nonce_def NONCE_PATTERN_def matches_class_def
      split: if_splits)

text \<open>
  C30. The signing input binds every field but the signature: two validated envelopes with the
  same canonical bytes carry the same message, job, tenant and correlation identifiers, the same
  instant and the same nonce.  No two references share a signature input or an inbox digest input.
\<close>

theorem canonical_bytes_bind:
  assumes "canonical_bytes e = Inr b" "canonical_bytes e' = Inr b"
    and "AIJobEnvelope_validate e = Inr ()" "AIJobEnvelope_validate e' = Inr ()"
    and "representable (env_issued_at e)" "representable (env_issued_at e')"
  shows "e' = e\<lparr>env_signature := env_signature e'\<rparr>"
proof -
  obtain i i' where i: "canonical_datetime (env_issued_at e) = Inr i" "canonical_datetime (env_issued_at e') = Inr i'"
    using assms(1,2) by (auto simp: canonical_bytes_def validate_simps)
  have len: "length i < 2 ^ 32" "length i' < 2 ^ 32" "length (env_nonce e) < 2 ^ 32" "length (env_nonce e') < 2 ^ 32"
    using canonical_datetime_length [OF i(1) assms(5)] canonical_datetime_length [OF i(2) assms(6)]
      validated_nonce [OF assms(3)] validated_nonce [OF assms(4)] by simp_all
  have id: "length (uuid_str u) < 2 ^ 32" for u by simp
  note eq = trans [OF assms(1) assms(2) [symmetric]]
  have b: "chunk ''schema_version'' ''1'' @ chunk ''message_id'' (uuid_str (env_message_id e))
      @ chunk ''job_id'' (uuid_str (env_job_id e)) @ chunk ''tenant_id'' (uuid_str (env_tenant_id e))
      @ chunk ''correlation_id'' (uuid_str (env_correlation_id e)) @ chunk ''issued_at'' i @ chunk ''nonce'' (env_nonce e) @ []
    = chunk ''schema_version'' ''1'' @ chunk ''message_id'' (uuid_str (env_message_id e'))
      @ chunk ''job_id'' (uuid_str (env_job_id e')) @ chunk ''tenant_id'' (uuid_str (env_tenant_id e'))
      @ chunk ''correlation_id'' (uuid_str (env_correlation_id e')) @ chunk ''issued_at'' i' @ chunk ''nonce'' (env_nonce e') @ []"
    using eq i by (simp only: canonical_bytes_def bindE_Inr sum.inject append_Nil2)
  note m = chunk_inject [OF chunk_inject [OF b, THEN conjunct2] id id]
  have "length (''1''::string) < 2 ^ 32" by simp
  note s = chunk_inject [OF b this this, THEN conjunct2]
  note m = chunk_inject [OF s id id]
  note j = chunk_inject [OF m [THEN conjunct2] id id]
  note t = chunk_inject [OF j [THEN conjunct2] id id]
  note c = chunk_inject [OF t [THEN conjunct2] id id]
  note d = chunk_inject [OF c [THEN conjunct2] len(1,2)]
  note n = chunk_inject [OF d [THEN conjunct2] len(3,4)]
  have "env_issued_at e = env_issued_at e'"
    using canonical_datetime_inject i d assms(5,6) by metis
  moreover have "env_schema_version e = 1" "env_schema_version e' = 1"
    using assms(3,4) by (auto simp: AIJobEnvelope_validate_def split: if_splits)
  ultimately show ?thesis
    using m j t c n uuid_str_inject by (cases e; cases e') auto
qed

subsection \<open>Signing and verifying\<close>

lemma a2b_incomplete:
  assumes "list_all url_b64_char s" "quad < 4" "(length s + quad) mod 4 = 1"
  shows "a2b_base64 quad left pads (s @ ''=='') = None"
  using assms
proof (induction s arbitrary: quad left pads)
  case Nil
  then have "quad = 1" by auto
  then show ?case by simp
next
  case (Cons c s)
  obtain v where v: "b64_index c = Some v" "c \<noteq> CHR ''=''" using Cons.prems(1) by (auto elim: url_b64_char_index)
  have s: "list_all url_b64_char s" using Cons.prems(1) by simp
  consider "quad = 0" | "quad = 1" | "quad = 2" | "quad = 3" using Cons.prems(2) by linarith
  then show ?case
  proof cases
    case 1
    then have "(length s + 1) mod 4 = 1" using Cons.prems(3) by simp
    then show ?thesis using Cons.IH [OF s, of 1] v 1 by simp
  next
    case 2
    then have "(length s + 2) mod 4 = 1" using Cons.prems(3) by simp
    then show ?thesis using Cons.IH [OF s, of 2] v 2 by simp
  next
    case 3
    then have "length (c # s) + quad = length s + 3" by simp
    then have "(length s + 3) mod 4 = 1" using Cons.prems(3) by metis
    then show ?thesis using Cons.IH [OF s, of 3] v 3 by simp
  next
    case 4
    then have "length (c # s) + quad = length s + 0 + 4" by simp
    then have "(length s + 0) mod 4 = 1" using Cons.prems(3) by (metis mod_add_self2)
    then show ?thesis using Cons.IH [OF s, of 0] v 4 by simp
  qed
qed

lemma a2b_skip:
  "a2b_base64 quad left pads (filter (\<lambda>c. c = CHR ''='' \<or> b64_index c \<noteq> None) s) = a2b_base64 quad left pads s"
  by (induction quad left pads s rule: a2b_base64.induct) (auto split: option.splits)

lemma dot_skipped: "b64_index (CHR ''.'') = None"
  by (simp add: b64_index_def is_upper_def is_lower_def is_digit_def code_def)

lemma kept_char:
  assumes "c = CHR ''.'' \<or> url_b64_char c"
  shows "(c = CHR ''='' \<or> b64_index c \<noteq> None) = (c \<noteq> CHR ''.'')"
proof (cases "c = CHR ''.''")
  case True
  then show ?thesis using dot_skipped by simp
next
  case False
  then obtain v where "b64_index c = Some v" using assms by (auto elim: url_b64_char_index)
  with False show ?thesis by simp
qed

lemma decoded_length:
  assumes "urlsafe_b64decode (s @ ''=='') = Some raw" "list_all (\<lambda>c. c = CHR ''.'' \<or> url_b64_char c) s"
  shows "length raw = length (filter (\<lambda>c. c \<noteq> CHR ''.'') s) * 3 div 4"
proof -
  let ?t = "filter (\<lambda>c. c \<noteq> CHR ''.'') s"
  have "filter (\<lambda>c. c = CHR ''='' \<or> b64_index c \<noteq> None) s = ?t"
    using assms(2) kept_char by (intro filter_cong refl) (auto simp: list_all_iff)
  then have "a2b_base64 0 0 0 (s @ ''=='') = a2b_base64 0 0 0 (?t @ ''=='')"
    using a2b_skip [of 0 0 0 "s @ ''==''"] by simp
  moreover have "list_all url_b64_char ?t" using assms(2) by (auto simp: list_all_iff)
  ultimately show ?thesis
    using assms(1) a2b_incomplete [of ?t 0 0 0] a2b_length [of ?t 0 0 0]
    by (cases "length ?t mod 4 = 1") (auto simp: urlsafe_b64decode_def)
qed

lemma if_Some_eq: "(if c then Some x else None) = Some y \<longleftrightarrow> c \<and> x = y"
  by simp

lemma SIGNATURE_PATTERN_Some:
  assumes "SIGNATURE_PATTERN v = Some (kid, encoded)"
  shows "v = ''ed25519.'' @ kid @ ''.'' @ encoded" "list_all kid_char kid" "length kid \<le> 64" "kid \<noteq> []"
    "list_all url_b64_char encoded" "length encoded = 86"
proof -
  let ?rest = "drop 8 v" and ?n = "length (drop 8 v) - 87"
  have p: "take 8 v = ''ed25519.''" "88 \<le> length ?rest" "?rest ! ?n = CHR ''.''" "kid = take ?n ?rest"
    "encoded = drop (Suc ?n) ?rest" "matches_class kid_char 1 64 kid" "matches_class url_b64_char 86 86 encoded"
    using assms unfolding SIGNATURE_PATTERN_def Let_def if_Some_eq prod.inject by blast+
  have "?rest = kid @ ?rest ! ?n # encoded"
    unfolding p(4,5) by (rule id_take_nth_drop) (use p(2) in arith)
  then show "v = ''ed25519.'' @ kid @ ''.'' @ encoded"
    using p(1,3) append_take_drop_id [of 8 v] by simp
  show "list_all kid_char kid" "length kid \<le> 64" "kid \<noteq> []" "list_all url_b64_char encoded" "length encoded = 86"
    using p(6,7) by (auto simp: matches_class_def)
qed

lemma SIGNATURE_PATTERN_build:
  assumes "matches_class kid_char 1 64 kid" "matches_class url_b64_char 86 86 encoded"
  shows "SIGNATURE_PATTERN (''ed25519.'' @ kid @ ''.'' @ encoded) = Some (kid, encoded)"
proof -
  let ?v = "''ed25519.'' @ kid @ ''.'' @ encoded"
  have len: "length encoded = 86" using assms(2) by (simp add: matches_class_def)
  then have "length (drop 8 ?v) - 87 = length kid" by simp
  moreover have "drop 8 ?v = kid @ CHR ''.'' # encoded" by simp
  moreover have "1 \<le> length kid" using assms(1) by (simp add: matches_class_def)
  ultimately show ?thesis
    using assms len unfolding SIGNATURE_PATTERN_def Let_def by simp
qed

lemma partition_dot_split:
  "CHR ''.'' \<notin> set a \<Longrightarrow> partition_dot (a @ CHR ''.'' # r) = (a, r)"
  by (induction a) (auto simp: partition_dot_def)

lemma url_no_dot: "url_b64_char c \<Longrightarrow> c \<noteq> CHR ''.''"
  by (auto simp: url_b64_char_def is_alnum_def is_upper_def is_lower_def is_digit_def code_def)

lemma signature_bytes_first_dot:
  assumes "CHR ''.'' \<notin> set a"
  shows "signature_bytes (''ed25519.'' @ (a @ ''.'' @ r) @ ''.'' @ encoded) =
     (case urlsafe_b64decode (r @ ''.'' @ encoded @ ''=='') of
        None \<Rightarrow> Inl (EnvelopeSignatureError ''invalid signature encoding'') | Some raw \<Rightarrow> Inr raw)"
proof -
  have "snd (partition_dot (''ed25519.'' @ (a @ ''.'' @ r) @ ''.'' @ encoded)) = a @ CHR ''.'' # (r @ ''.'' @ encoded)"
    by (simp add: partition_dot_def)
  then show ?thesis by (simp add: signature_bytes_def partition_dot_split [OF assms])
qed

lemma signature_bytes_plain:
  assumes "CHR ''.'' \<notin> set kid"
  shows "signature_bytes (''ed25519.'' @ kid @ ''.'' @ encoded) =
     (case urlsafe_b64decode (encoded @ ''=='') of
        None \<Rightarrow> Inl (EnvelopeSignatureError ''invalid signature encoding'') | Some raw \<Rightarrow> Inr raw)"
proof -
  have "snd (partition_dot (''ed25519.'' @ kid @ ''.'' @ encoded)) = kid @ CHR ''.'' # encoded"
    by (simp add: partition_dot_def)
  then show ?thesis by (simp add: signature_bytes_def partition_dot_split [OF assms])
qed

lemma b64_groups_shape:
  "list_all (\<lambda>b. b < 256) bs \<Longrightarrow> list_all url_b64_char (b64_groups bs)"
  "length (b64_groups bs) = (length bs * 4 + 2) div 3"
proof (induction bs rule: b64_groups.induct)
  case (4 a b c rest)
  { case 1 then show ?case using 4(1) sextets [of a b c] by (simp add: url_b64_char_char) }
  { case 2 then show ?case using 4(2) by simp }
qed (use sextets [of _ _ 0] sextets [of _ 0 0] in \<open>auto simp: url_b64_char_char\<close>)

lemma encode_decode:
  "urlsafe_b64decode (urlsafe_b64encode_unpadded bs @ ''=='') = Some bs"
proof -
  have bytes: "list_all (\<lambda>b. b < 256) (map unat bs)"
    using unsigned_less [where 'a = nat and 'b = 8] by (auto simp: list_all_iff)
  have "byte (unat w) = w" for w by (simp add: byte_def)
  then show ?thesis
    using b64_groups_decode [OF bytes, of 0]
    by (simp add: urlsafe_b64decode_def urlsafe_b64encode_unpadded_def comp_def)
qed

lemma encoded_signature:
  assumes "length bs = 64"
  shows "matches_class url_b64_char 86 86 (urlsafe_b64encode_unpadded bs)"
proof -
  have bytes: "list_all (\<lambda>b. b < 256) (map unat bs)"
    using unsigned_less [where 'a = nat and 'b = 8] by (auto simp: list_all_iff)
  show ?thesis
    using b64_groups_shape(1) [OF bytes] b64_groups_shape(2) [of "map unat bs"] assms
    by (simp add: matches_class_def urlsafe_b64encode_unpadded_def)
qed

lemma canonical_bytes_signature [simp]:
  "canonical_bytes (e\<lparr>env_signature := s\<rparr>) = canonical_bytes e"
  by (simp add: canonical_bytes_def)

lemma signed_verifies:
  assumes "EnvelopeSigner_init ring kid = Inr signer" "EnvelopeSigner_sign cr signer e = Inr sent"
    and "matches_class kid_char 1 64 kid" "CHR ''.'' \<notin> set kid" "AIJobEnvelope_validate e = Inr ()"
    and "\<And>seed m. length (ed25519_sign cr seed m) = 64"
    and "\<And>seed m. ed25519_verify cr (ed25519_public cr seed) (ed25519_sign cr seed m) m"
    and "\<And>seed. ed25519_loadable cr (ed25519_public cr seed)"
    and "\<And>seed. map_of ring kid = Some seed \<Longrightarrow> map_of verify_ring kid = Some (ed25519_public cr seed)"
  shows "EnvelopeVerifier_verify cr verify_ring sent = Inr sent \<and> AIJobEnvelope_validate sent = Inr ()
    \<and> env_kid sent = kid \<and> sent = e\<lparr>env_signature := env_signature sent\<rparr>"
proof -
  have signer: "signer = \<lparr>seed_ring = ring, active_kid = kid\<rparr>"
    using assms(1) by (auto simp: EnvelopeSigner_init_def validate_simps)
  obtain seed m where seed: "map_of ring kid = Some seed" and m: "canonical_bytes e = Inr m"
    and sent: "sent = e\<lparr>env_signature := ''ed25519.'' @ kid @ ''.''
        @ urlsafe_b64encode_unpadded (ed25519_sign cr seed m)\<rparr>"
    using assms(2) by (auto simp: EnvelopeSigner_sign_def signer validate_simps Let_def split: option.splits)
  let ?enc = "urlsafe_b64encode_unpadded (ed25519_sign cr seed m)"
  have pat: "SIGNATURE_PATTERN (''ed25519.'' @ kid @ ''.'' @ ?enc) = Some (kid, ?enc)"
    using SIGNATURE_PATTERN_build [OF assms(3) encoded_signature] assms(6) by blast
  have kid: "env_kid sent = kid" by (simp add: env_kid_def sent pat del: append.simps)
  have "AIJobEnvelope_validate sent = Inr ()"
    using assms(5,6) pat encode_decode [of "ed25519_sign cr seed m"]
    by (auto simp: AIJobEnvelope_validate_def validate_simps validate_signature_def sent simp del: append.simps split: if_splits)
  moreover have "EnvelopeVerifier_verify cr verify_ring sent = Inr sent"
    using assms(7,8) assms(9) [OF seed] signature_bytes_plain [OF assms(4), of ?enc]
      encode_decode [of "ed25519_sign cr seed m"] m
    unfolding EnvelopeVerifier_verify_def kid by (simp add: sent del: append.simps)
  ultimately show ?thesis using kid by (simp add: sent)
qed

text \<open>
  C31. What the publisher signs the worker accepts: an envelope signed under a kid without dots is
  a valid envelope that differs from the unsigned one in its signature only, and a verifier whose
  ring maps that kid to the public key of the seed returns it.  Used of Ed25519: signatures have 64
  bytes, and the public key of a seed loads and verifies what the seed signs.
\<close>

theorem sign_then_verify:
  assumes "EnvelopeSigner_init ring kid = Inr signer" "EnvelopeSigner_sign cr signer e = Inr sent"
    and "matches_class kid_char 1 64 kid" "CHR ''.'' \<notin> set kid" "AIJobEnvelope_validate e = Inr ()"
    and "\<And>seed m. length (ed25519_sign cr seed m) = 64"
    and "\<And>seed m. ed25519_verify cr (ed25519_public cr seed) (ed25519_sign cr seed m) m"
    and "\<And>seed. ed25519_loadable cr (ed25519_public cr seed)"
    and "\<And>seed. map_of ring kid = Some seed \<Longrightarrow> map_of verify_ring kid = Some (ed25519_public cr seed)"
  shows "EnvelopeVerifier_verify cr verify_ring sent = Inr sent \<and> AIJobEnvelope_validate sent = Inr ()
    \<and> env_kid sent = kid \<and> sent = e\<lparr>env_signature := env_signature sent\<rparr>"
  using assms by (rule signed_verifies)

text \<open>
  C32. A kid with a dot never verifies. The signature pattern admits dots in the kid, but
  \<open>_signature_bytes\<close> cuts the text at its second dot, so that part of such a kid is decoded as if it
  belonged to the signature: whatever the ring holds, the verifier rejects every envelope whose kid has a
  character after its first dot that is not a dot.  Used of Ed25519: only 64-byte signatures verify.
\<close>

theorem dotted_kid_never_verifies:
  assumes "AIJobEnvelope_validate e = Inr ()"
    and "env_kid e = a @ ''.'' @ r" "CHR ''.'' \<notin> set a" "\<exists>c\<in>set r. c \<noteq> CHR ''.''"
    and "\<And>key raw m. ed25519_verify cr key raw m \<Longrightarrow> length raw = 64"
  shows "EnvelopeVerifier_verify cr ring e \<noteq> Inr e'"
proof
  assume v: "EnvelopeVerifier_verify cr ring e = Inr e'"
  then obtain key raw m where raw: "signature_bytes (env_signature e) = Inr raw" and "ed25519_verify cr key raw m"
    by (auto simp: EnvelopeVerifier_verify_def validate_simps split: option.splits if_splits)
  then have len: "length raw = 64" using assms(5) by blast
  obtain kid encoded where pat: "SIGNATURE_PATTERN (env_signature e) = Some (kid, encoded)"
    using assms(1) by (auto simp: AIJobEnvelope_validate_def validate_simps validate_signature_def split: if_splits option.splits)
  have kid: "kid = a @ ''.'' @ r" using assms(2) pat by (simp add: env_kid_def)
  note p = SIGNATURE_PATTERN_Some [OF pat]
  have dec: "urlsafe_b64decode ((r @ ''.'' @ encoded) @ ''=='') = Some raw"
    using raw signature_bytes_first_dot [OF assms(3), of r encoded] p(1) kid by (auto split: option.splits)
  have "list_all (\<lambda>c. c = CHR ''.'' \<or> url_b64_char c) (r @ ''.'' @ encoded)"
    using p(2,5) kid by (auto simp: list_all_iff kid_char_def url_b64_char_def)
  from decoded_length [OF dec this]
  have "length raw = length (filter (\<lambda>c. c \<noteq> CHR ''.'') r @ encoded) * 3 div 4"
    using p(5) url_no_dot by (simp add: list_all_iff filter_id_conv)
  moreover have "1 \<le> length (filter (\<lambda>c. c \<noteq> CHR ''.'') r)"
    using assms(4) by (auto simp: Suc_le_eq filter_empty_conv)
  ultimately show False using len p(6) by simp
qed

text \<open>
  The codec only lets canonical deliveries through: whatever the parsers coerce, an accepted
  body is a JSON object with exactly the eight fields, each equal to the canonical rendering of the
  envelope, so that the envelope determines its wire form.
\<close>

theorem accepted_delivery_canonical:
  assumes "parse_and_require_canonical wp d = Inr e"
  shows "AIJobEnvelope_validate e = Inr () \<and>
    (\<exists>payload canonical. orjson_loads wp (raw_body d) = Some (JObj payload) \<and> envelope_to_json e = Inr canonical
       \<and> fst ` set payload = set envelope_fields
       \<and> map_of payload ''message_id'' = Some (JStr (uuid_str (env_message_id e)))
       \<and> map_of payload ''job_id'' = Some (JStr (uuid_str (env_job_id e)))
       \<and> map_of payload ''tenant_id'' = Some (JStr (uuid_str (env_tenant_id e)))
       \<and> map_of payload ''nonce'' = Some (JStr (env_nonce e))
       \<and> map_of payload ''signature'' = Some (JStr (env_signature e)))"
proof -
  obtain payload canonical where l: "orjson_loads wp (raw_body d) = Some (JObj payload)"
    and v: "model_validate wp payload = Some e" and c: "envelope_to_json e = Inr canonical"
    and same: "same_dict canonical payload"
    using assms by (auto simp: parse_and_require_canonical_def validate_simps split: option.splits json.splits if_splits)
  have ok: "AIJobEnvelope_validate e = Inr ()"
    using v by (auto simp: model_validate_def Let_def split: if_splits option.splits sum.splits)
  have str: "Some (JStr t) = map_option py_scalar x \<Longrightarrow> x = Some (JStr t)" for x t
    by (cases x; simp) (rename_tac y, case_tac y; simp)
  obtain i where canonical: "canonical = [(''schema_version'', JInt (env_schema_version e)),
            (''message_id'', JStr (uuid_str (env_message_id e))), (''job_id'', JStr (uuid_str (env_job_id e))),
            (''tenant_id'', JStr (uuid_str (env_tenant_id e))), (''correlation_id'', JStr (uuid_str (env_correlation_id e))),
            (''issued_at'', JStr i), (''nonce'', JStr (env_nonce e)), (''signature'', JStr (env_signature e))]"
    using c by (auto simp: envelope_to_json_def validate_simps)
  have "fst ` set payload = set envelope_fields"
    using same by (auto simp: same_dict_def canonical envelope_fields_def)
  moreover have field: "map_of payload k = Some (JStr t)"
    if "map_of canonical k = Some (JStr t)" for k t
  proof -
    have "map_option py_scalar (map_of canonical k) = map_option py_scalar (map_of payload k)"
      using same map_of_SomeD [OF that] by (auto simp: same_dict_def list_all_iff)
    then show ?thesis using that str by simp
  qed
  moreover have "map_of payload ''message_id'' = Some (JStr (uuid_str (env_message_id e)))"
    "map_of payload ''job_id'' = Some (JStr (uuid_str (env_job_id e)))"
    "map_of payload ''tenant_id'' = Some (JStr (uuid_str (env_tenant_id e)))"
    "map_of payload ''nonce'' = Some (JStr (env_nonce e))"
    "map_of payload ''signature'' = Some (JStr (env_signature e))"
    by (rule field; simp add: canonical)+
  ultimately show ?thesis using ok l c by blast
qed

subsection \<open>A concrete envelope\<close>

definition sample_signature :: "string \<Rightarrow> string" where
  "sample_signature kid = ''ed25519.'' @ kid @ ''.'' @ replicate 86 (CHR ''A'')"

definition sample_envelope :: "string \<Rightarrow> AIJobEnvelope" where
  "sample_envelope kid = \<lparr>env_schema_version = 1, env_message_id = u7 11, env_job_id = u7 5, env_tenant_id = u7 1,
     env_correlation_id = u7 7, env_issued_at = aware 1709164800123456, env_nonce = replicate 22 (CHR ''A''),
     env_signature = sample_signature kid\<rparr>"

definition sample_crypto :: crypto where
  "sample_crypto = \<lparr>ed25519_public = id, ed25519_sign = (\<lambda>seed m. replicate 64 7),
     ed25519_loadable = (\<lambda>key. True), ed25519_verify = (\<lambda>key raw m. raw = replicate 64 7),
     sha256 = (\<lambda>b. take 32 (rev b @ replicate 32 0))\<rparr>"

lemma a_is_url: "url_b64_char (CHR ''A'')"
  by (simp add: url_b64_char_def is_alnum_def is_upper_def code_def)

lemma a_block: "list_all url_b64_char (replicate n (CHR ''A''))"
  by (simp add: a_is_url list_all_iff)

lemma sample_validate:
  assumes "matches_class kid_char 1 64 kid"
  shows "AIJobEnvelope_validate (sample_envelope kid) = Inr ()" "env_kid (sample_envelope kid) = kid"
proof -
  have pat: "SIGNATURE_PATTERN (sample_signature kid) = Some (kid, replicate 86 (CHR ''A''))"
    unfolding sample_signature_def
    by (rule SIGNATURE_PATTERN_build [OF assms]) (simp add: matches_class_def a_block)
  have n: "length (replicate 22 (CHR ''A'')) = 22" "length (replicate 86 (CHR ''A'')) = 86" by (rule length_replicate)+
  have dec: "\<exists>raw. urlsafe_b64decode (replicate k (CHR ''A'') @ ''=='') = Some raw \<and> length raw = k * 3 div 4"
    if k: "k mod 4 \<noteq> Suc 0" for k
  proof -
    obtain bs where "a2b_base64 0 0 0 (replicate k (CHR ''A'') @ ''=='') = Some bs" "length bs = k * 3 div 4"
      using a2b_length [OF a_block, of 0 0 k 0] k by auto
    then show ?thesis by (simp add: urlsafe_b64decode_def)
  qed
  obtain nonce where nonce: "urlsafe_b64decode (replicate 22 (CHR ''A'') @ ''=='') = Some nonce" "length nonce = 16"
    using dec [of 22] by auto
  obtain sig where sig: "urlsafe_b64decode (replicate 86 (CHR ''A'') @ ''=='') = Some sig" "length sig = 64"
    using dec [of 86] by auto
  show "AIJobEnvelope_validate (sample_envelope kid) = Inr ()"
    using nonce sig pat
    by (simp add: AIJobEnvelope_validate_def sample_envelope_def validate_nonce_def validate_signature_def
        NONCE_PATTERN_def matches_class_def a_block)
  show "env_kid (sample_envelope kid) = kid" by (simp add: env_kid_def sample_envelope_def pat)
qed

lemma sample_kids:
  "matches_class kid_char 1 64 ''k1''" "matches_class kid_char 1 64 ''k2''" "matches_class kid_char 1 64 ''k.1''"
  by (simp_all add: matches_class_def kid_char_def is_alnum_def is_upper_def is_lower_def is_digit_def code_def)

lemma sample_representable: "representable (env_issued_at (sample_envelope kid))"
  by (simp add: representable_def calendar_day_def sample_envelope_def)

lemma sample_bytes: "\<exists>b. canonical_bytes (sample_envelope kid) = Inr b"
  by (simp add: canonical_bytes_def sample_envelope_def canonical_datetime_sample)

lemma canonical_bytes_bind_witness:
  "\<exists>b. canonical_bytes (sample_envelope ''k1'') = Inr b \<and> canonical_bytes (sample_envelope ''k2'') = Inr b
     \<and> sample_envelope ''k2'' = (sample_envelope ''k1'')\<lparr>env_signature := sample_signature ''k2''\<rparr>"
proof -
  obtain b where b: "canonical_bytes (sample_envelope ''k1'') = Inr b" using sample_bytes by blast
  then have b': "canonical_bytes (sample_envelope ''k2'') = Inr b"
    by (simp add: canonical_bytes_def sample_envelope_def)
  show ?thesis
    using b b' canonical_bytes_bind [OF b b' sample_validate(1) [OF sample_kids(1)] sample_validate(1) [OF sample_kids(2)]
        sample_representable sample_representable]
    by (auto simp: sample_envelope_def)
qed

lemma sign_then_verify_witness:
  "\<exists>signer sent. EnvelopeSigner_init [(''k1'', replicate 32 9)] ''k1'' = Inr signer
     \<and> EnvelopeSigner_sign sample_crypto signer (sample_envelope ''k2'') = Inr sent
     \<and> EnvelopeVerifier_verify sample_crypto [(''k1'', replicate 32 9)] sent = Inr sent"
proof -
  let ?ring = "[(''k1'', replicate 32 (9 :: 8 word))]" and ?signer = "\<lparr>seed_ring = [(''k1'', replicate 32 9)], active_kid = ''k1''\<rparr>"
  have init: "EnvelopeSigner_init ?ring ''k1'' = Inr ?signer"
    by (simp add: EnvelopeSigner_init_def require_eval)
  obtain b where "canonical_bytes (sample_envelope ''k2'') = Inr b" using sample_bytes by blast
  then obtain sent where sign: "EnvelopeSigner_sign sample_crypto ?signer (sample_envelope ''k2'') = Inr sent"
    by (simp add: EnvelopeSigner_sign_def Let_def)
  have "EnvelopeVerifier_verify sample_crypto ?ring sent = Inr sent"
    using sign_then_verify [OF init sign sample_kids(1) _ sample_validate(1) [OF sample_kids(2)], of ?ring]
    by (simp add: sample_crypto_def)
  then show ?thesis using init sign by blast
qed

lemma dotted_kid_never_verifies_witness:
  "AIJobEnvelope_validate (sample_envelope ''k.1'') = Inr ()
   \<and> EnvelopeVerifier_verify sample_crypto [(''k.1'', replicate 32 9)] (sample_envelope ''k.1'') \<noteq> Inr (sample_envelope ''k.1'')"
  using dotted_kid_never_verifies [OF sample_validate(1) [OF sample_kids(3)], of "''k''" "''1''" sample_crypto]
    sample_validate [OF sample_kids(3)]
  by (simp add: sample_crypto_def)

definition sample_parsers :: wire_parsers where
  "sample_parsers = \<lparr>orjson_loads = (\<lambda>b. case envelope_to_json (sample_envelope ''k1'') of Inr kvs \<Rightarrow> Some (JObj kvs) | Inl _ \<Rightarrow> None),
     pydantic_int = (\<lambda>v. case v of JInt i \<Rightarrow> Some i | _ \<Rightarrow> None),
     pydantic_uuid = (\<lambda>v. find (\<lambda>u. v = JStr (uuid_str u)) [u7 11, u7 5, u7 1, u7 7]),
     pydantic_datetime = (\<lambda>v. Some (aware 1709164800123456)),
     pydantic_str = (\<lambda>v. case v of JStr s \<Rightarrow> Some s | _ \<Rightarrow> None)\<rparr>"

lemma uuid_str_eq: "uuid_str u = uuid_str v \<longleftrightarrow> u = v"
  using uuid_str_inject by blast

lemma u7_different: "u7 11 \<noteq> u7 5" "u7 11 \<noteq> u7 1" "u7 5 \<noteq> u7 1" "u7 11 \<noteq> u7 7" "u7 5 \<noteq> u7 7" "u7 1 \<noteq> u7 7"
  by (simp_all add: u7_def)

lemma sample_parse:
  "parse_and_require_canonical sample_parsers
     \<lparr>raw_body = [1], raw_content_type = ''application/json'', raw_received_at = aware 0, raw_redelivered = False\<rparr>
   = Inr (sample_envelope ''k1'')"
  using sample_validate(1) [OF sample_kids(1)] u7_different
  by (simp add: parse_and_require_canonical_def sample_parsers_def envelope_to_json_def sample_envelope_def
      canonical_datetime_sample model_validate_def envelope_fields_def payload_field_def uuid_str_eq same_dict_def
     )

lemma accepted_delivery_canonical_witness:
  "\<exists>payload. orjson_loads sample_parsers [1] = Some (JObj payload)
     \<and> map_of payload ''message_id'' = Some (JStr (uuid_str (u7 11)))"
  using accepted_delivery_canonical [OF sample_parse] by (auto simp: sample_envelope_def)

end
