(* ===== verification/JobTables.thy ===== *)
theory JobTables
  imports Tables GrantPolicy Envelope Idempotency
begin

text \<open>
  The tables of the AI job runtime (\<open>models/ai_jobs.py\<close> and what the runtime reads of the identity,
  tenancy and authorization models), their \<open>CHECK\<close> constraints and unique keys, and the conversions
  between rows and domain values (\<open>_job\<close>, \<open>_job_model\<close>, \<open>_grant\<close>, \<open>_access\<close>, \<open>_membership\<close>,
  \<open>_claimed_outbox\<close> of \<open>repositories/ai_jobs.py\<close>).  A job row is an \<open>AIJob\<close> whose timestamps are
  naive; enumerations are typed, so that the \<open>IN\<close> checks of the status columns hold by typing.
\<close>

subsection \<open>Jobs\<close>

type_synonym job_row = "int AIJob"
type_synonym grant_row = "int JobExecutionGrant"

definition claimable_statuses :: "AIJobStatus list" where
  "claimable_statuses = [QUEUED, RETRY_SCHEDULED]"

definition lease_columns :: "job_row \<Rightarrow> bool list" where
  "lease_columns r = [job_lease_owner r \<noteq> None, job_lease_token r \<noteq> None, job_lease_fence r \<noteq> None,
     job_lease_expires_at r \<noteq> None]"

text \<open>
  The checks \<open>ai_job_max_attempts\<close>, \<open>ai_job_current_attempt_no\<close>, \<open>ai_job_lease_consistency\<close>,
  \<open>ai_job_terminal_consistency\<close> and \<open>ai_job_lifetime\<close>.
\<close>

definition job_check :: "job_row \<Rightarrow> bool" where
  "job_check r \<longleftrightarrow>
     1 \<le> job_max_attempts r \<and> job_max_attempts r \<le> 10
     \<and> 0 \<le> job_current_attempt_no r \<and> job_current_attempt_no r \<le> job_max_attempts r
     \<and> ((list_all Not (lease_columns r) \<and> job_status r \<notin> lease_holding_statuses)
        \<or> (list_all id (lease_columns r) \<and> job_status r \<in> lease_holding_statuses))
     \<and> ((job_status r \<in> terminal_job_statuses \<and> job_completed_at r \<noteq> None \<and> job_next_attempt_at r = None)
        \<or> (job_status r \<notin> terminal_job_statuses \<and> job_completed_at r = None))
     \<and> job_submitted_at r < job_expires_at r
     \<and> job_expires_at r \<le> job_submitted_at r + seconds (24 * 60 * 60)"

text \<open>\<open>AIJob(...)\<close> over the columns: every timestamp through \<open>_aware\<close>, then the constructor's checks.\<close>

definition aware_job :: "job_row \<Rightarrow> datetime AIJob" where
  "aware_job r =
     \<lparr>job_id = job_id r, job_tenant_id = job_tenant_id r, job_handler_code = job_handler_code r,
      job_handler_version = job_handler_version r, job_input_schema_version = job_input_schema_version r,
      job_input_json = job_input_json r, job_input_fingerprint = job_input_fingerprint r,
      job_created_by_user_id = job_created_by_user_id r,
      job_created_by_membership_id = job_created_by_membership_id r,
      job_created_by_session_id = job_created_by_session_id r,
      job_actor_snapshot_json = job_actor_snapshot_json r,
      job_policy_version_at_submit = job_policy_version_at_submit r, job_visibility = job_visibility r,
      job_status = job_status r, job_current_attempt_no = job_current_attempt_no r,
      job_max_attempts = job_max_attempts r, job_risk_class = job_risk_class r,
      job_release_state = job_release_state r, job_idempotency_record_id = job_idempotency_record_id r,
      job_correlation_id = job_correlation_id r, job_submitted_at = aware (job_submitted_at r),
      job_expires_at = aware (job_expires_at r), job_version = job_version r,
      job_next_attempt_at = aware_optional (job_next_attempt_at r), job_lease_owner = job_lease_owner r,
      job_lease_token = job_lease_token r, job_lease_fence = job_lease_fence r,
      job_lease_expires_at = aware_optional (job_lease_expires_at r),
      job_cancel_requested_at = aware_optional (job_cancel_requested_at r),
      job_cancel_requested_by_user_id = job_cancel_requested_by_user_id r,
      job_cancel_reason_code = job_cancel_reason_code r, job_result_json = job_result_json r,
      job_failure_class = job_failure_class r, job_failure_code = job_failure_code r,
      job_started_at = aware_optional (job_started_at r),
      job_completed_at = aware_optional (job_completed_at r)\<rparr>"

definition job_of_row :: "job_row \<Rightarrow> datetime AIJob result" where
  "job_of_row r = bindE (AIJob_post_init (aware_job r)) (\<lambda>_. Inr (aware_job r))"

definition job_model :: "datetime AIJob \<Rightarrow> job_row result" where
  "job_model j =
     bindE (naive (job_submitted_at j)) (\<lambda>submitted.
     bindE (naive (job_expires_at j)) (\<lambda>expires.
     bindE (naive_optional (job_next_attempt_at j)) (\<lambda>next_at.
     bindE (naive_optional (job_lease_expires_at j)) (\<lambda>lease_at.
     bindE (naive_optional (job_cancel_requested_at j)) (\<lambda>cancel_at.
     bindE (naive_optional (job_started_at j)) (\<lambda>started.
     bindE (naive_optional (job_completed_at j)) (\<lambda>completed.
       Inr \<lparr>job_id = job_id j, job_tenant_id = job_tenant_id j, job_handler_code = job_handler_code j,
        job_handler_version = job_handler_version j, job_input_schema_version = job_input_schema_version j,
        job_input_json = job_input_json j, job_input_fingerprint = job_input_fingerprint j,
        job_created_by_user_id = job_created_by_user_id j,
        job_created_by_membership_id = job_created_by_membership_id j,
        job_created_by_session_id = job_created_by_session_id j,
        job_actor_snapshot_json = job_actor_snapshot_json j,
        job_policy_version_at_submit = job_policy_version_at_submit j, job_visibility = job_visibility j,
        job_status = job_status j, job_current_attempt_no = job_current_attempt_no j,
        job_max_attempts = job_max_attempts j, job_risk_class = job_risk_class j,
        job_release_state = job_release_state j, job_idempotency_record_id = job_idempotency_record_id j,
        job_correlation_id = job_correlation_id j, job_submitted_at = submitted,
        job_expires_at = expires, job_version = job_version j,
        job_next_attempt_at = next_at, job_lease_owner = job_lease_owner j,
        job_lease_token = job_lease_token j, job_lease_fence = job_lease_fence j,
        job_lease_expires_at = lease_at, job_cancel_requested_at = cancel_at,
        job_cancel_requested_by_user_id = job_cancel_requested_by_user_id j,
        job_cancel_reason_code = job_cancel_reason_code j, job_result_json = job_result_json j,
        job_failure_class = job_failure_class j, job_failure_code = job_failure_code j,
        job_started_at = started, job_completed_at = completed\<rparr>)))))))"

subsection \<open>Grants, access, attempts\<close>

definition grant_check :: "grant_row \<Rightarrow> bool" where
  "grant_check g \<longleftrightarrow> grant_permission_code g = Permission_CREATE
     \<and> (grant_revoked_at g = None) = (grant_revocation_reason_code g = None)"

definition grant_conflict :: "grant_row \<Rightarrow> grant_row \<Rightarrow> bool" where
  "grant_conflict g h \<longleftrightarrow> grant_id g = grant_id h
     \<or> (grant_tenant_id g, grant_job_id g) = (grant_tenant_id h, grant_job_id h)"

definition aware_grant :: "grant_row \<Rightarrow> datetime JobExecutionGrant" where
  "aware_grant g =
     \<lparr>grant_id = grant_id g, grant_tenant_id = grant_tenant_id g, grant_job_id = grant_job_id g,
      grant_user_id = grant_user_id g, grant_membership_id = grant_membership_id g,
      grant_permission_code = grant_permission_code g,
      grant_auth_version_at_submit = grant_auth_version_at_submit g,
      grant_authz_version_at_submit = grant_authz_version_at_submit g,
      grant_policy_version = grant_policy_version g,
      grant_job_scope_manifest_version = grant_job_scope_manifest_version g,
      grant_job_scope_code = grant_job_scope_code g, grant_issued_at = aware (grant_issued_at g),
      grant_revoked_at = aware_optional (grant_revoked_at g),
      grant_revocation_reason_code = grant_revocation_reason_code g, grant_version = grant_version g\<rparr>"

definition grant_of_row :: "grant_row \<Rightarrow> datetime JobExecutionGrant result" where
  "grant_of_row g = bindE (JobExecutionGrant_post_init (aware_grant g)) (\<lambda>_. Inr (aware_grant g))"

record access_row =
  acc_tenant_id :: uuid
  acc_job_id :: uuid
  acc_membership_id :: uuid
  acc_access_level :: string
  acc_generation :: int
  acc_revoked_at :: "int option"

definition access_of_row :: "access_row \<Rightarrow> JobAccess result" where
  "access_of_row a =
     (let v = \<lparr>access_tenant_id = acc_tenant_id a, access_job_id = acc_job_id a,
               access_membership_id = acc_membership_id a, access_level = acc_access_level a,
               access_generation = acc_generation a, access_revoked_at = aware_optional (acc_revoked_at a)\<rparr>
      in bindE (JobAccess_post_init v) (\<lambda>_. Inr v))"

datatype AttemptStatus = Attempt_CLAIMED | Attempt_RUNNING | Attempt_SUCCEEDED | Attempt_RETRYABLE_FAILED
  | Attempt_PERMANENT_FAILED | Attempt_CANCELLED | Attempt_LEASE_EXPIRED

record attempt_row =
  att_id :: uuid
  att_tenant_id :: uuid
  att_job_id :: uuid
  att_attempt_no :: int
  att_status :: AttemptStatus
  att_trigger_message_id :: uuid
  att_worker_instance_ref :: "string option"
  att_lease_token :: uuid
  att_lease_fence :: int
  att_handler_code :: string
  att_handler_version :: string
  att_started_at :: int
  att_finished_at :: "int option"
  att_version :: int

definition attempt_check :: "attempt_row \<Rightarrow> bool" where
  "attempt_check a \<longleftrightarrow> 1 \<le> att_attempt_no a \<and> att_attempt_no a \<le> 10"

text \<open>Primary key, one row per attempt number, one attempt per triggering message.\<close>

definition attempt_conflict :: "attempt_row \<Rightarrow> attempt_row \<Rightarrow> bool" where
  "attempt_conflict a b \<longleftrightarrow> att_id a = att_id b
     \<or> (att_tenant_id a, att_job_id a, att_attempt_no a) = (att_tenant_id b, att_job_id b, att_attempt_no b)
     \<or> (att_tenant_id a, att_trigger_message_id a) = (att_tenant_id b, att_trigger_message_id b)"

subsection \<open>Outbox and inbox\<close>

datatype OutboxStatus = Outbox_PENDING | Outbox_PUBLISHING | Outbox_PUBLISHED | Outbox_BLOCKED | Outbox_SUPERSEDED

record outbox_row =
  ob_id :: uuid
  ob_tenant_id :: uuid
  ob_job_id :: uuid
  ob_dispatch_generation :: int
  ob_envelope_generation :: int
  ob_max_envelope_generations :: int
  ob_event_type :: string
  ob_routing_key :: string
  ob_schema_version :: int
  ob_message_id :: "uuid option"
  ob_correlation_id :: "uuid option"
  ob_issued_at :: "int option"
  ob_nonce :: "string option"
  ob_signature :: "string option"
  ob_envelope_digest :: "bytes option"
  ob_recovery_source_fence :: "int option"
  ob_source_attempt_id :: "uuid option"
  ob_status :: OutboxStatus
  ob_available_at :: int
  ob_publish_attempt_count :: int
  ob_max_publish_attempts :: int
  ob_claim_owner :: "string option"
  ob_claim_token :: "uuid option"
  ob_claim_fence :: "int option"
  ob_claim_expires_at :: "int option"
  ob_published_at :: "int option"
  ob_confirmed_at :: "int option"
  ob_last_error_code :: "string option"
  ob_version :: int

definition claim_columns :: "outbox_row \<Rightarrow> bool list" where
  "claim_columns b = [ob_claim_owner b \<noteq> None, ob_claim_token b \<noteq> None, ob_claim_fence b \<noteq> None,
     ob_claim_expires_at b \<noteq> None]"

definition outbox_check :: "outbox_row \<Rightarrow> bool" where
  "outbox_check b \<longleftrightarrow>
     1 \<le> ob_envelope_generation b \<and> ob_envelope_generation b \<le> ob_max_envelope_generations b
     \<and> 1 \<le> ob_max_envelope_generations b \<and> ob_max_envelope_generations b \<le> 4
     \<and> (ob_source_attempt_id b = None) = (ob_recovery_source_fence b = None)
     \<and> 0 \<le> ob_publish_attempt_count b \<and> ob_publish_attempt_count b \<le> 2147483647
     \<and> (list_all Not (claim_columns b) \<or> list_all id (claim_columns b))"

text \<open>Unique keys; \<open>NULL\<close> never conflicts.\<close>

definition outbox_conflict :: "outbox_row \<Rightarrow> outbox_row \<Rightarrow> bool" where
  "outbox_conflict a b \<longleftrightarrow> ob_id a = ob_id b
     \<or> (ob_tenant_id a, ob_job_id a, ob_dispatch_generation a, ob_envelope_generation a)
        = (ob_tenant_id b, ob_job_id b, ob_dispatch_generation b, ob_envelope_generation b)
     \<or> (ob_message_id a \<noteq> None \<and> (ob_tenant_id a, ob_message_id a) = (ob_tenant_id b, ob_message_id b))
     \<or> (ob_recovery_source_fence a \<noteq> None
         \<and> (ob_tenant_id a, ob_job_id a, ob_recovery_source_fence a, ob_envelope_generation a)
           = (ob_tenant_id b, ob_job_id b, ob_recovery_source_fence b, ob_envelope_generation b))"

record inbox_row =
  ib_id :: uuid
  ib_tenant_id :: uuid
  ib_message_id :: uuid
  ib_job_id :: uuid
  ib_schema_version :: int
  ib_envelope_digest :: bytes
  ib_nonce_digest :: bytes
  ib_status :: InboxStatus
  ib_first_received_at :: int
  ib_last_received_at :: int
  ib_delivery_count :: int
  ib_handling_attempt_id :: "uuid option"
  ib_handling_fence :: "int option"
  ib_completed_at :: "int option"
  ib_rejection_code :: "string option"

definition inbox_check :: "inbox_row \<Rightarrow> bool" where
  "inbox_check i \<longleftrightarrow> (ib_handling_attempt_id i = None) = (ib_handling_fence i = None)"

definition inbox_conflict :: "inbox_row \<Rightarrow> inbox_row \<Rightarrow> bool" where
  "inbox_conflict i k \<longleftrightarrow> ib_id i = ib_id k
     \<or> (ib_tenant_id i, ib_message_id i) = (ib_tenant_id k, ib_message_id k)
     \<or> (ib_tenant_id i, ib_nonce_digest i) = (ib_tenant_id k, ib_nonce_digest k)"

subsection \<open>What the runtime reads of the other models\<close>

record user_row =
  usr_id :: uuid
  usr_status :: string
  usr_auth_version :: int

record tenant_row =
  ten_id :: uuid
  ten_status :: TenantStatus

record membership_row =
  mbr_id :: uuid
  mbr_tenant_id :: uuid
  mbr_user_id :: uuid
  mbr_department_id :: "uuid option"
  mbr_member_type :: MemberType
  mbr_status :: MembershipStatus
  mbr_valid_from :: int
  mbr_valid_until :: "int option"
  mbr_authz_version :: int
  mbr_version :: int

definition membership_of_row :: "membership_row \<Rightarrow> Membership result" where
  "membership_of_row r =
     (let m = \<lparr>mem_id = mbr_id r, mem_tenant_id = mbr_tenant_id r, mem_user_id = mbr_user_id r,
               mem_department_id = mbr_department_id r, mem_member_type = mbr_member_type r,
               mem_status = mbr_status r, mem_valid_from = aware (mbr_valid_from r),
               mem_valid_until = aware_optional (mbr_valid_until r),
               mem_authz_version = mbr_authz_version r, mem_version = mbr_version r\<rparr>
      in bindE (Membership_post_init m) (\<lambda>_. Inr m))"

record role_row =
  rol_id :: uuid
  rol_tenant_id :: uuid
  rol_code :: string
  rol_status :: string

record assignment_row =
  asg_tenant_id :: uuid
  asg_membership_id :: uuid
  asg_role_id :: uuid

record role_permission_row =
  rpm_tenant_id :: uuid
  rpm_role_id :: uuid
  rpm_permission_id :: uuid

record permission_row =
  prm_id :: uuid
  prm_code :: string
  prm_status :: string

text \<open>Of \<open>auth_sessions\<close> only the key \<open>(user_id, id)\<close> that jobs refer to.\<close>

record job_db =
  db_jobs :: "job_row list"
  db_grants :: "grant_row list"
  db_access :: "access_row list"
  db_attempts :: "attempt_row list"
  db_outbox :: "outbox_row list"
  db_inbox :: "inbox_row list"
  db_users :: "user_row list"
  db_tenants :: "tenant_row list"
  db_memberships :: "membership_row list"
  db_roles :: "role_row list"
  db_assignments :: "assignment_row list"
  db_role_permissions :: "role_permission_row list"
  db_permissions :: "permission_row list"
  db_idempotency :: "idem_row list"
  db_sessions :: "(uuid \<times> uuid) list"

subsection \<open>Facts\<close>

lemma naive_optional_Inr: "naive_optional d = Inr w \<Longrightarrow> aware_optional w = d"
  by (auto simp: naive_optional_def aware_optional_def validate_simps time_simps aware_dt_wall split: option.splits)

lemma aware_of_naive: "naive d = Inr w \<Longrightarrow> aware w = d"
  by (simp add: time_simps aware_dt_wall)

text \<open>Storing a job and reading it back is the identity.\<close>

lemma job_model_aware: "job_model j = Inr r \<Longrightarrow> aware_job r = j"
  by (cases j) (auto simp: job_model_def aware_job_def validate_simps naive_optional_Inr aware_of_naive
      dest!: naive_optional_Inr)

lemma job_model_id:
  "job_model j = Inr r \<Longrightarrow> job_id r = job_id j \<and> job_tenant_id r = job_tenant_id j \<and> job_status r = job_status j"
  by (auto simp: job_model_def validate_simps)

lemma aware_job_fields [simp]:
  "job_id (aware_job r) = job_id r" "job_tenant_id (aware_job r) = job_tenant_id r"
  "job_status (aware_job r) = job_status r" "job_current_attempt_no (aware_job r) = job_current_attempt_no r"
  "job_lease_fence (aware_job r) = job_lease_fence r" "job_handler_code (aware_job r) = job_handler_code r"
  "job_handler_version (aware_job r) = job_handler_version r" "job_expires_at (aware_job r) = aware (job_expires_at r)"
  "job_created_by_user_id (aware_job r) = job_created_by_user_id r"
  "job_created_by_membership_id (aware_job r) = job_created_by_membership_id r"
  by (simp_all add: aware_job_def)

lemma job_of_row_Inr: "job_of_row r = Inr j \<Longrightarrow> j = aware_job r"
  by (auto simp: job_of_row_def validate_simps)

lemma grant_of_row_Inr: "grant_of_row r = Inr g \<Longrightarrow> g = aware_grant r"
  by (auto simp: grant_of_row_def validate_simps)

end
