(* ===== verification/JobStore.thy ===== *)
theory JobStore
  imports JobTables
begin

text \<open>
  \<open>SqlAlchemyAIJobRepository\<close> and \<open>SqlAlchemyAIJobAuthorityLoader\<close>
  (\<open>repositories/ai_jobs.py\<close>): one definition per method, over the database of \<open>JobTables\<close>.  Each
  guarded \<open>UPDATE\<close> is split into its \<open>WHERE\<close> and its \<open>values\<close>, and is an instance of the
  compare-and-swap contract of \<open>Tables\<close>.  Rows added to the session are inserted at once; foreign
  keys are checked where a method inserts or rebinds a row.
\<close>

subsection \<open>Reading\<close>

definition foreign_key :: "bool \<Rightarrow> unit result" where
  "foreign_key ok = (if ok then Inr () else Inl (DatabaseError ''foreign key constraint fails''))"

definition require_context :: "TenantContext \<Rightarrow> unit result" where
  "require_context c =
     bindE (require_uuid7 (ctx_tenant_id c) ''tenant context tenant_id'') (\<lambda>_.
     bindE (case ctx_membership_id c of None \<Rightarrow> Inr ()
        | Some m \<Rightarrow> bindE (require_uuid7 m ''tenant context membership_id'') (\<lambda>_. Inr ())) (\<lambda>_.
     case ctx_membership_user_id c of None \<Rightarrow> Inr ()
        | Some u \<Rightarrow> bindE (require_uuid7 u ''tenant context membership_user_id'') (\<lambda>_. Inr ())))"

definition find_job :: "uuid \<Rightarrow> uuid \<Rightarrow> job_row list \<Rightarrow> job_row option" where
  "find_job tenant job rows = sql_scalar (\<lambda>r. job_tenant_id r = tenant \<and> job_id r = job) rows"

definition repo_get :: "TenantContext \<Rightarrow> uuid \<Rightarrow> job_db \<Rightarrow> datetime AIJob option result" where
  "repo_get context job db =
     bindE (require_context context) (\<lambda>_.
     bindE (require_uuid7 job ''job_id'') (\<lambda>_.
       case find_job (ctx_tenant_id context) job (db_jobs db) of
         None \<Rightarrow> Inr None
       | Some r \<Rightarrow> bindE (job_of_row r) (\<lambda>j. Inr (Some j))))"

definition repo_get_access :: "TenantContext \<Rightarrow> uuid \<Rightarrow> uuid \<Rightarrow> job_db \<Rightarrow> JobAccess option result" where
  "repo_get_access context job membership db =
     bindE (require_context context) (\<lambda>_.
     bindE (require_uuid7 job ''job_id'') (\<lambda>_.
     bindE (require_uuid7 membership ''membership_id'') (\<lambda>_.
       case sql_scalar (\<lambda>a. acc_tenant_id a = ctx_tenant_id context \<and> acc_job_id a = job
              \<and> acc_membership_id a = membership) (db_access db) of
         None \<Rightarrow> Inr None
       | Some a \<Rightarrow> bindE (access_of_row a) (\<lambda>v. Inr (Some v)))))"

subsection \<open>Creating a job\<close>

definition has_job :: "job_db \<Rightarrow> uuid \<Rightarrow> uuid \<Rightarrow> bool" where
  "has_job db tenant job \<longleftrightarrow> list_ex (\<lambda>r. job_tenant_id r = tenant \<and> job_id r = job) (db_jobs db)"

definition has_member :: "job_db \<Rightarrow> uuid \<Rightarrow> uuid \<Rightarrow> uuid \<Rightarrow> bool" where
  "has_member db tenant membership user \<longleftrightarrow>
     list_ex (\<lambda>m. mbr_tenant_id m = tenant \<and> mbr_id m = membership \<and> mbr_user_id m = user) (db_memberships db)"

definition has_record :: "job_db \<Rightarrow> uuid \<Rightarrow> uuid \<Rightarrow> bool" where
  "has_record db tenant record_id \<longleftrightarrow>
     list_ex (\<lambda>i. idem_tenant_id i = Some tenant \<and> idem_id i = record_id) (db_idempotency db)"

definition has_session :: "job_db \<Rightarrow> uuid \<Rightarrow> uuid \<Rightarrow> bool" where
  "has_session db user session \<longleftrightarrow> (user, session) \<in> set (db_sessions db)"

definition grant_model :: "datetime JobExecutionGrant \<Rightarrow> grant_row result" where
  "grant_model g = bindE (naive (grant_issued_at g)) (\<lambda>issued.
     Inr \<lparr>grant_id = grant_id g, grant_tenant_id = grant_tenant_id g, grant_job_id = grant_job_id g,
        grant_user_id = grant_user_id g, grant_membership_id = grant_membership_id g,
        grant_permission_code = grant_permission_code g,
        grant_auth_version_at_submit = grant_auth_version_at_submit g,
        grant_authz_version_at_submit = grant_authz_version_at_submit g,
        grant_policy_version = grant_policy_version g,
        grant_job_scope_manifest_version = grant_job_scope_manifest_version g,
        grant_job_scope_code = grant_job_scope_code g, grant_issued_at = issued,
        grant_revoked_at = None, grant_revocation_reason_code = None, grant_version = 1\<rparr>)"

definition outbox_model :: "NewAIJobOutbox \<Rightarrow> uuid \<Rightarrow> outbox_row result" where
  "outbox_model b correlation = bindE (naive (new_ob_available_at b)) (\<lambda>available.
     Inr \<lparr>ob_id = new_ob_id b, ob_tenant_id = new_ob_tenant_id b, ob_job_id = new_ob_job_id b,
        ob_dispatch_generation = new_ob_dispatch_generation b,
        ob_envelope_generation = new_ob_envelope_generation b,
        ob_max_envelope_generations = new_ob_max_envelope_generations b,
        ob_event_type = new_ob_event_type b, ob_routing_key = new_ob_routing_key b,
        ob_schema_version = new_ob_schema_version b, ob_message_id = None,
        ob_correlation_id = Some correlation, ob_issued_at = None, ob_nonce = None, ob_signature = None,
        ob_envelope_digest = None, ob_recovery_source_fence = None, ob_source_attempt_id = None,
        ob_status = Outbox_PENDING, ob_available_at = available, ob_publish_attempt_count = 0,
        ob_max_publish_attempts = 8, ob_claim_owner = None, ob_claim_token = None, ob_claim_fence = None,
        ob_claim_expires_at = None, ob_published_at = None, ob_confirmed_at = None,
        ob_last_error_code = None, ob_version = 1\<rparr>)"

definition add_job_graph :: "NewAIJobGraph \<Rightarrow> job_db \<Rightarrow> job_db result" where
  "add_job_graph g db =
     bindE (job_model (graph_job g)) (\<lambda>r.
     bindE (foreign_key (has_member db (job_tenant_id r) (job_created_by_membership_id r) (job_created_by_user_id r)
        \<and> has_session db (job_created_by_user_id r) (job_created_by_session_id r)
        \<and> has_record db (job_tenant_id r) (job_idempotency_record_id r))) (\<lambda>_.
     bindE (sql_insert job_check (\<lambda>a b. job_id a = job_id b) r (db_jobs db)) (\<lambda>jobs.
     bindE (grant_model (graph_grant g)) (\<lambda>grant.
     bindE (outbox_model (graph_outbox g) (job_correlation_id (graph_job g))) (\<lambda>outbox.
     let db1 = db\<lparr>db_jobs := jobs\<rparr> in
     bindE (foreign_key (has_job db1 (grant_tenant_id grant) (grant_job_id grant)
        \<and> has_member db1 (grant_tenant_id grant) (grant_membership_id grant) (grant_user_id grant))) (\<lambda>_.
     bindE (sql_insert grant_check grant_conflict grant (db_grants db)) (\<lambda>grants.
     bindE (foreign_key (has_job db1 (ob_tenant_id outbox) (ob_job_id outbox))) (\<lambda>_.
     bindE (sql_insert outbox_check outbox_conflict outbox (db_outbox db)) (\<lambda>rows.
       Inr (db1\<lparr>db_grants := grants, db_outbox := rows\<rparr>))))))))))"

subsection \<open>Claiming and finishing a job\<close>

definition claim_where :: "ClaimJobRequest \<Rightarrow> job_row \<Rightarrow> bool" where
  "claim_where q r \<longleftrightarrow> job_tenant_id r = claim_tenant_id q \<and> job_id r = claim_job_id q
     \<and> job_status r \<in> set claimable_statuses \<and> job_lease_owner r = None
     \<and> dt_wall (claim_started_at q) < job_expires_at r
     \<and> (case job_next_attempt_at r of None \<Rightarrow> True | Some t \<Rightarrow> t \<le> dt_wall (claim_started_at q))"

definition claim_values :: "ClaimJobRequest \<Rightarrow> job_row \<Rightarrow> job_row" where
  "claim_values q r = r\<lparr>job_status := RUNNING, job_current_attempt_no := claim_attempt_no q,
     job_lease_owner := Some (claim_worker_instance_ref q), job_lease_token := Some (claim_lease_token q),
     job_lease_fence := Some (claim_lease_fence q),
     job_lease_expires_at := Some (dt_wall (claim_lease_expires_at q)),
     job_started_at := Some (dt_wall (claim_started_at q)), job_version := job_version r + 1\<rparr>"

definition claimed_attempt :: "ClaimJobRequest \<Rightarrow> attempt_row" where
  "claimed_attempt q =
     \<lparr>att_id = claim_attempt_id q, att_tenant_id = claim_tenant_id q, att_job_id = claim_job_id q,
      att_attempt_no = claim_attempt_no q, att_status = Attempt_CLAIMED,
      att_trigger_message_id = claim_trigger_message_id q,
      att_worker_instance_ref = Some (claim_worker_instance_ref q), att_lease_token = claim_lease_token q,
      att_lease_fence = claim_lease_fence q, att_handler_code = claim_handler_code q,
      att_handler_version = claim_handler_version q, att_started_at = dt_wall (claim_started_at q),
      att_finished_at = None, att_version = 1\<rparr>"

definition claimed_execution :: "ClaimJobRequest \<Rightarrow> datetime AIJob \<Rightarrow> ClaimedExecution" where
  "claimed_execution q j =
     \<lparr>exe_job = j, exe_attempt_id = claim_attempt_id q, exe_attempt_no = claim_attempt_no q,
      exe_lease_token = claim_lease_token q, exe_lease_fence = claim_lease_fence q,
      exe_trigger_message_id = claim_trigger_message_id q,
      exe_worker_instance_ref = claim_worker_instance_ref q,
      exe_lease_expires_at = claim_lease_expires_at q\<rparr>"

definition claim_due_job :: "ClaimJobRequest \<Rightarrow> job_db \<Rightarrow> (ClaimOutcome \<times> job_db) result" where
  "claim_due_job q db =
     bindE (naive (claim_started_at q)) (\<lambda>_.
     bindE (naive (claim_lease_expires_at q)) (\<lambda>_.
     bindE (sql_update job_check (claim_where q) (claim_values q) (db_jobs db)) (\<lambda>(jobs, n).
       if n \<noteq> 1 then Inr (ClaimRejected ''job_not_claimable'', db\<lparr>db_jobs := jobs\<rparr>)
       else
         bindE (foreign_key (has_job (db\<lparr>db_jobs := jobs\<rparr>) (claim_tenant_id q) (claim_job_id q))) (\<lambda>_.
         bindE (sql_insert attempt_check attempt_conflict (claimed_attempt q) (db_attempts db)) (\<lambda>attempts.
         case find_job (claim_tenant_id q) (claim_job_id q) jobs of
           None \<Rightarrow> Inl (RuntimeError ''claimed job disappeared'')
         | Some r \<Rightarrow>
             bindE (job_of_row r) (\<lambda>j.
             bindE (ClaimedExecution_post_init (claimed_execution q j)) (\<lambda>_.
               Inr (Claimed (claimed_execution q j), db\<lparr>db_jobs := jobs, db_attempts := attempts\<rparr>))))))))"

definition heartbeat_where :: "FencedHeartbeat \<Rightarrow> job_row \<Rightarrow> bool" where
  "heartbeat_where q r \<longleftrightarrow> job_tenant_id r = hb_tenant_id q \<and> job_id r = hb_job_id q
     \<and> job_lease_token r = Some (hb_lease_token q) \<and> job_lease_fence r = Some (hb_lease_fence q)
     \<and> job_version r = hb_expected_version q \<and> job_status r \<in> lease_holding_statuses"

definition heartbeat_values :: "FencedHeartbeat \<Rightarrow> job_row \<Rightarrow> job_row" where
  "heartbeat_values q r = r\<lparr>job_lease_expires_at := Some (dt_wall (hb_lease_expires_at q)),
     job_version := job_version r + 1\<rparr>"

definition repo_heartbeat :: "FencedHeartbeat \<Rightarrow> job_db \<Rightarrow> (bool \<times> job_db) result" where
  "repo_heartbeat q db =
     bindE (naive (hb_lease_expires_at q)) (\<lambda>_.
     bindE (naive (hb_heartbeat_at q)) (\<lambda>_.
     bindE (sql_update job_check (heartbeat_where q) (heartbeat_values q) (db_jobs db)) (\<lambda>(jobs, n).
       Inr (n = 1, db\<lparr>db_jobs := jobs\<rparr>))))"

definition finalize_where :: "FencedFinalizeSuccess \<Rightarrow> job_row \<Rightarrow> bool" where
  "finalize_where q r \<longleftrightarrow> job_tenant_id r = fin_tenant_id q \<and> job_id r = fin_job_id q
     \<and> job_lease_token r = Some (fin_lease_token q) \<and> job_lease_fence r = Some (fin_lease_fence q)
     \<and> job_version r = fin_expected_version q \<and> job_status r = RUNNING"

definition finalize_values :: "FencedFinalizeSuccess \<Rightarrow> job_row \<Rightarrow> job_row" where
  "finalize_values q r = r\<lparr>job_status := SUCCEEDED, job_result_json := Some (fin_result q),
     job_completed_at := Some (dt_wall (fin_now q)), job_lease_owner := None, job_lease_token := None,
     job_lease_fence := None, job_lease_expires_at := None, job_next_attempt_at := None,
     job_version := job_version r + 1\<rparr>"

definition finish_attempt_where :: "FencedFinalizeSuccess \<Rightarrow> attempt_row \<Rightarrow> bool" where
  "finish_attempt_where q a \<longleftrightarrow> att_tenant_id a = fin_tenant_id q \<and> att_job_id a = fin_job_id q
     \<and> att_lease_fence a = fin_lease_fence q \<and> att_status a = Attempt_CLAIMED"

definition finish_attempt_values :: "FencedFinalizeSuccess \<Rightarrow> attempt_row \<Rightarrow> attempt_row" where
  "finish_attempt_values q a = a\<lparr>att_status := Attempt_SUCCEEDED, att_finished_at := Some (dt_wall (fin_now q)),
     att_version := att_version a + 1\<rparr>"

definition finalize_success :: "FencedFinalizeSuccess \<Rightarrow> job_db \<Rightarrow> (bool \<times> job_db) result" where
  "finalize_success q db =
     bindE (naive (fin_now q)) (\<lambda>_.
     bindE (sql_update job_check (finalize_where q) (finalize_values q) (db_jobs db)) (\<lambda>(jobs, n).
       if n \<noteq> 1 then Inr (False, db\<lparr>db_jobs := jobs\<rparr>)
       else bindE (sql_update attempt_check (finish_attempt_where q) (finish_attempt_values q) (db_attempts db))
         (\<lambda>(attempts, _). Inr (True, db\<lparr>db_jobs := jobs, db_attempts := attempts\<rparr>))))"

text \<open>The common guard of \<open>fail_job_without_attempt\<close> and \<open>cancel_claimable_job\<close>.\<close>

definition unstarted_where :: "uuid \<Rightarrow> uuid \<Rightarrow> job_row \<Rightarrow> bool" where
  "unstarted_where tenant job r \<longleftrightarrow> job_tenant_id r = tenant \<and> job_id r = job
     \<and> job_status r \<in> set claimable_statuses \<and> job_lease_owner r = None \<and> job_lease_token r = None"

record fail_query =
  fail_tenant_id :: uuid
  fail_job_id :: uuid
  fail_failure_class :: string
  fail_failure_code :: string
  fail_now :: datetime

definition fail_where :: "fail_query \<Rightarrow> job_row \<Rightarrow> bool" where
  "fail_where q r \<longleftrightarrow> unstarted_where (fail_tenant_id q) (fail_job_id q) r"

definition fail_values :: "fail_query \<Rightarrow> job_row \<Rightarrow> job_row" where
  "fail_values q r = r\<lparr>job_status := FAILED, job_failure_class := Some (fail_failure_class q),
     job_failure_code := Some (fail_failure_code q), job_completed_at := Some (dt_wall (fail_now q)),
     job_next_attempt_at := None, job_version := job_version r + 1\<rparr>"

definition fail_job_without_attempt :: "fail_query \<Rightarrow> job_db \<Rightarrow> (bool \<times> job_db) result" where
  "fail_job_without_attempt q db =
     bindE (require_uuid7 (fail_tenant_id q) ''fail job tenant_id'') (\<lambda>_.
     bindE (require_uuid7 (fail_job_id q) ''fail job job_id'') (\<lambda>_.
     bindE (naive (fail_now q)) (\<lambda>_.
     bindE (sql_update job_check (fail_where q) (fail_values q) (db_jobs db)) (\<lambda>(jobs, n).
       Inr (n = 1, db\<lparr>db_jobs := jobs\<rparr>)))))"

record cancel_query =
  cancel_tenant_id :: uuid
  cancel_job_id :: uuid
  cancel_now :: datetime

definition cancel_where :: "cancel_query \<Rightarrow> job_row \<Rightarrow> bool" where
  "cancel_where q r \<longleftrightarrow> unstarted_where (cancel_tenant_id q) (cancel_job_id q) r"

definition cancel_values :: "cancel_query \<Rightarrow> job_row \<Rightarrow> job_row" where
  "cancel_values q r = r\<lparr>job_status := CANCELLED, job_completed_at := Some (dt_wall (cancel_now q)),
     job_next_attempt_at := None, job_version := job_version r + 1\<rparr>"

definition cancel_claimable_job :: "cancel_query \<Rightarrow> job_db \<Rightarrow> (bool \<times> job_db) result" where
  "cancel_claimable_job q db =
     bindE (require_uuid7 (cancel_tenant_id q) ''cancel job tenant_id'') (\<lambda>_.
     bindE (require_uuid7 (cancel_job_id q) ''cancel job job_id'') (\<lambda>_.
     bindE (naive (cancel_now q)) (\<lambda>_.
     bindE (sql_update job_check (cancel_where q) (cancel_values q) (db_jobs db)) (\<lambda>(jobs, n).
       Inr (n = 1, db\<lparr>db_jobs := jobs\<rparr>)))))"

subsection \<open>The updates of jobs as compare-and-swap\<close>

lemmas job_update_defs = claim_where_def claim_values_def heartbeat_where_def heartbeat_values_def
  finalize_where_def finalize_values_def fail_where_def fail_values_def cancel_where_def cancel_values_def
  unstarted_where_def

lemmas job_check_defs = job_check_def lease_columns_def lease_holding_statuses_def terminal_job_statuses_def
  claimable_statuses_def

interpretation claim: cas_update job_id job_check claim_where claim_values claim_job_id
  "\<lambda>q r. 0 \<le> claim_attempt_no q \<and> claim_attempt_no q \<le> job_max_attempts r"
  "\<lambda>q q'. claim_job_id q' = claim_job_id q"
  by unfold_locales (auto simp: claim_where_def claim_values_def job_check_defs)

interpretation heartbeat: cas_update job_id job_check heartbeat_where heartbeat_values hb_job_id "\<lambda>q r. True"
  "\<lambda>q q'. hb_job_id q' = hb_job_id q \<and> hb_expected_version q' = hb_expected_version q"
  by unfold_locales (auto simp: heartbeat_where_def heartbeat_values_def job_check_defs)

interpretation finalize: cas_update job_id job_check finalize_where finalize_values fin_job_id "\<lambda>q r. True"
  "\<lambda>q q'. fin_job_id q' = fin_job_id q"
  by unfold_locales (auto simp: finalize_where_def finalize_values_def job_check_defs)

interpretation fail_job: cas_update job_id job_check fail_where fail_values fail_job_id "\<lambda>q r. True"
  "\<lambda>q q'. fail_job_id q' = fail_job_id q"
  by unfold_locales (auto simp: fail_where_def fail_values_def unstarted_where_def job_check_defs)

interpretation cancel_job: cas_update job_id job_check cancel_where cancel_values cancel_job_id "\<lambda>q r. True"
  "\<lambda>q q'. cancel_job_id q' = cancel_job_id q"
  by unfold_locales (auto simp: cancel_where_def cancel_values_def unstarted_where_def job_check_defs)

end
