(* ===== verification/JobMessages.thy ===== *)
theory JobMessages
  imports JobStore
begin

text \<open>
  The outbox and inbox methods of \<open>SqlAlchemyAIJobRepository\<close> and the authority loader
  (\<open>repositories/ai_jobs.py\<close>).  The publisher and the worker only touch their tables through them.
\<close>

subsection \<open>The inbox\<close>

definition find_inbox :: "uuid \<Rightarrow> uuid \<Rightarrow> inbox_row list \<Rightarrow> inbox_row option" where
  "find_inbox tenant message rows = sql_scalar (\<lambda>i. ib_tenant_id i = tenant \<and> ib_message_id i = message) rows"

definition repo_inbox_row :: "uuid \<Rightarrow> uuid \<Rightarrow> job_db \<Rightarrow> inbox_row option result" where
  "repo_inbox_row tenant message db =
     bindE (require_uuid7 tenant ''inbox tenant_id'') (\<lambda>_.
     bindE (require_uuid7 message ''inbox message_id'') (\<lambda>_.
       Inr (find_inbox tenant message (db_inbox db))))"

definition accepted_row :: "uuid \<Rightarrow> uuid \<Rightarrow> uuid \<Rightarrow> uuid \<Rightarrow> bytes \<Rightarrow> bytes \<Rightarrow> int \<Rightarrow> inbox_row" where
  "accepted_row inbox tenant message job digest nonce t =
     \<lparr>ib_id = inbox, ib_tenant_id = tenant, ib_message_id = message, ib_job_id = job, ib_schema_version = 1,
      ib_envelope_digest = digest, ib_nonce_digest = nonce, ib_status = InboxStatus_ACCEPTED,
      ib_first_received_at = t, ib_last_received_at = t, ib_delivery_count = 1,
      ib_handling_attempt_id = None, ib_handling_fence = None, ib_completed_at = None,
      ib_rejection_code = None\<rparr>"

definition insert_inbox_accepted ::
    "uuid \<Rightarrow> uuid \<Rightarrow> uuid \<Rightarrow> uuid \<Rightarrow> bytes \<Rightarrow> bytes \<Rightarrow> datetime \<Rightarrow> job_db \<Rightarrow> job_db result" where
  "insert_inbox_accepted inbox tenant message job digest nonce now db =
     bindE (require_uuid7 inbox ''inbox id'') (\<lambda>_.
     bindE (require_uuid7 tenant ''inbox tenant_id'') (\<lambda>_.
     bindE (require_uuid7 message ''inbox message_id'') (\<lambda>_.
     bindE (require_uuid7 job ''inbox job_id'') (\<lambda>_.
     bindE (require [(length digest = 32, ValueError ''inbox envelope digest must be 32 bytes''),
                     (length nonce = 32, ValueError ''inbox nonce digest must be 32 bytes'')]) (\<lambda>_.
     bindE (naive now) (\<lambda>t.
     bindE (foreign_key (has_job db tenant job)) (\<lambda>_.
     bindE (sql_insert inbox_check inbox_conflict (accepted_row inbox tenant message job digest nonce t) (db_inbox db))
       (\<lambda>rows. Inr (db\<lparr>db_inbox := rows\<rparr>)))))))))"

record terminal_query =
  term_inbox_id :: uuid
  term_rejection_code :: "string option"
  term_now :: datetime

definition terminal_where :: "terminal_query \<Rightarrow> inbox_row \<Rightarrow> bool" where
  "terminal_where q i \<longleftrightarrow> ib_id i = term_inbox_id q \<and> ib_handling_attempt_id i = None \<and> ib_handling_fence i = None
     \<and> ib_status i \<in> {InboxStatus_ACCEPTED, InboxStatus_PROCESSING}"

definition terminal_values :: "terminal_query \<Rightarrow> inbox_row \<Rightarrow> inbox_row" where
  "terminal_values q i = i\<lparr>ib_status := InboxStatus_COMPLETED, ib_completed_at := Some (dt_wall (term_now q)),
     ib_rejection_code := term_rejection_code q\<rparr>"

definition complete_inbox_terminal :: "terminal_query \<Rightarrow> job_db \<Rightarrow> (bool \<times> job_db) result" where
  "complete_inbox_terminal q db =
     bindE (require_uuid7 (term_inbox_id q) ''inbox id'') (\<lambda>_.
     bindE (naive (term_now q)) (\<lambda>_.
     bindE (sql_update inbox_check (terminal_where q) (terminal_values q) (db_inbox db)) (\<lambda>(rows, n).
       Inr (n = 1, db\<lparr>db_inbox := rows\<rparr>))))"

record bind_query =
  bind_inbox_id :: uuid
  bind_attempt_id :: uuid
  bind_lease_fence :: int
  bind_now :: datetime

definition bind_where :: "bind_query \<Rightarrow> inbox_row \<Rightarrow> bool" where
  "bind_where q i \<longleftrightarrow> ib_id i = bind_inbox_id q \<and> ib_handling_attempt_id i = None \<and> ib_handling_fence i = None
     \<and> ib_status i = InboxStatus_ACCEPTED"

definition bind_values :: "bind_query \<Rightarrow> inbox_row \<Rightarrow> inbox_row" where
  "bind_values q i = i\<lparr>ib_status := InboxStatus_PROCESSING, ib_handling_attempt_id := Some (bind_attempt_id q),
     ib_handling_fence := Some (bind_lease_fence q), ib_last_received_at := dt_wall (bind_now q)\<rparr>"

text \<open>The foreign key \<open>fk_ai_job_inbox_handling_attempt\<close> over the rows the update touches.\<close>

definition handling_attempt_exists :: "job_db \<Rightarrow> bind_query \<Rightarrow> bool" where
  "handling_attempt_exists db q \<longleftrightarrow>
     list_all (\<lambda>i. bind_where q i \<longrightarrow>
       list_ex (\<lambda>a. att_tenant_id a = ib_tenant_id i \<and> att_job_id a = ib_job_id i
         \<and> att_id a = bind_attempt_id q \<and> att_lease_fence a = bind_lease_fence q) (db_attempts db)) (db_inbox db)"

definition bind_inbox_processing :: "bind_query \<Rightarrow> job_db \<Rightarrow> (bool \<times> job_db) result" where
  "bind_inbox_processing q db =
     bindE (require_uuid7 (bind_inbox_id q) ''inbox id'') (\<lambda>_.
     bindE (require_uuid7 (bind_attempt_id q) ''attempt id'') (\<lambda>_.
     bindE (naive (bind_now q)) (\<lambda>_.
     bindE (foreign_key (handling_attempt_exists db q)) (\<lambda>_.
     bindE (sql_update inbox_check (bind_where q) (bind_values q) (db_inbox db)) (\<lambda>(rows, n).
       Inr (n = 1, db\<lparr>db_inbox := rows\<rparr>))))))"

interpretation complete_inbox: cas_update ib_id inbox_check terminal_where terminal_values term_inbox_id "\<lambda>q r. True"
  "\<lambda>q q'. term_inbox_id q' = term_inbox_id q"
  by unfold_locales (auto simp: terminal_where_def terminal_values_def inbox_check_def)

interpretation bind_inbox: cas_update ib_id inbox_check bind_where bind_values bind_inbox_id "\<lambda>q r. True"
  "\<lambda>q q'. bind_inbox_id q' = bind_inbox_id q"
  by unfold_locales (auto simp: bind_where_def bind_values_def inbox_check_def)

subsection \<open>The outbox\<close>

record ClaimCandidate =
  cand_tenant_id :: uuid
  cand_job_id :: uuid
  cand_correlation_id :: uuid
  cand_schema_version :: int

record ClaimedOutbox =
  co_id :: uuid
  co_tenant_id :: uuid
  co_job_id :: uuid
  co_routing_key :: string
  co_envelope :: AIJobEnvelope
  co_envelope_digest :: bytes
  co_claim_token :: uuid
  co_claim_fence :: int
  co_version :: int
  co_publish_attempt_count :: int
  co_max_publish_attempts :: int

text \<open>The envelope factory and \<open>new_uuid7\<close> take the position in the batch: each call is fresh.\<close>

type_synonym EnvelopeFactory = "nat \<Rightarrow> ClaimCandidate \<Rightarrow> AIJobEnvelope result"

definition due_outbox :: "int \<Rightarrow> outbox_row \<Rightarrow> bool" where
  "due_outbox now b \<longleftrightarrow>
     (ob_status b = Outbox_PENDING \<and> ob_available_at b \<le> now)
     \<or> (ob_status b = Outbox_PUBLISHING \<and> (case ob_claim_expires_at b of None \<Rightarrow> False | Some t \<Rightarrow> t < now))"

text \<open>\<open>ORDER BY id LIMIT n FOR UPDATE SKIP LOCKED\<close>; \<open>locked\<close> are the rows other transactions hold.\<close>

definition select_outbox :: "int \<Rightarrow> nat \<Rightarrow> (uuid \<Rightarrow> bool) \<Rightarrow> outbox_row list \<Rightarrow> outbox_row list" where
  "select_outbox now limit locked rows =
     take limit (filter (\<lambda>b. \<not> locked (ob_id b)) (sort_key ob_id (filter (due_outbox now) rows)))"

definition assign_envelope :: "crypto \<Rightarrow> EnvelopeFactory \<Rightarrow> nat \<Rightarrow> outbox_row \<Rightarrow> outbox_row result" where
  "assign_envelope cr factory i b =
     (if ob_message_id b \<noteq> None then Inr b
      else case ob_correlation_id b of
        None \<Rightarrow> Inl (RuntimeError ''outbox row is missing its correlation id'')
      | Some correlation \<Rightarrow>
          bindE (factory i \<lparr>cand_tenant_id = ob_tenant_id b, cand_job_id = ob_job_id b,
              cand_correlation_id = correlation, cand_schema_version = ob_schema_version b\<rparr>) (\<lambda>e.
          bindE (naive (env_issued_at e)) (\<lambda>issued.
          bindE (envelope_digest cr e) (\<lambda>digest.
            Inr (b\<lparr>ob_message_id := Some (env_message_id e), ob_nonce := Some (env_nonce e),
              ob_issued_at := Some issued, ob_signature := Some (env_signature e),
              ob_envelope_digest := Some digest\<rparr>)))))"

definition claim_outbox_values :: "string \<Rightarrow> uuid \<Rightarrow> int \<Rightarrow> outbox_row \<Rightarrow> outbox_row" where
  "claim_outbox_values worker token expires b = b\<lparr>ob_status := Outbox_PUBLISHING, ob_claim_owner := Some worker,
     ob_claim_token := Some token,
     ob_claim_fence := Some ((case ob_claim_fence b of None \<Rightarrow> 0 | Some f \<Rightarrow> f) + 1),
     ob_claim_expires_at := Some expires, ob_publish_attempt_count := ob_publish_attempt_count b + 1,
     ob_version := ob_version b + 1\<rparr>"

definition row_envelope :: "outbox_row \<Rightarrow> AIJobEnvelope option" where
  "row_envelope b =
     (case (ob_message_id b, ob_correlation_id b, ob_nonce b, ob_signature b, ob_issued_at b) of
        (Some m, Some c, Some n, Some s, Some t) \<Rightarrow>
          Some \<lparr>env_schema_version = ob_schema_version b, env_message_id = m, env_job_id = ob_job_id b,
            env_tenant_id = ob_tenant_id b, env_correlation_id = c, env_issued_at = aware t,
            env_nonce = n, env_signature = s\<rparr>
      | _ \<Rightarrow> None)"

definition claimed_outbox :: "outbox_row \<Rightarrow> ClaimedOutbox result" where
  "claimed_outbox b =
     (case (row_envelope b, ob_claim_token b, ob_claim_fence b, ob_envelope_digest b) of
        (Some e, Some token, Some fence, Some digest) \<Rightarrow>
          bindE (AIJobEnvelope_validate e) (\<lambda>_.
            Inr \<lparr>co_id = ob_id b, co_tenant_id = ob_tenant_id b, co_job_id = ob_job_id b,
              co_routing_key = ob_routing_key b, co_envelope = e, co_envelope_digest = digest,
              co_claim_token = token, co_claim_fence = fence, co_version = ob_version b,
              co_publish_attempt_count = ob_publish_attempt_count b,
              co_max_publish_attempts = ob_max_publish_attempts b\<rparr>)
      | _ \<Rightarrow> Inl (RuntimeError ''claimed outbox envelope is incomplete''))"

fun claim_rows :: "crypto \<Rightarrow> EnvelopeFactory \<Rightarrow> (nat \<Rightarrow> uuid) \<Rightarrow> string \<Rightarrow> int \<Rightarrow> nat \<Rightarrow> outbox_row list
    \<Rightarrow> (outbox_row \<times> ClaimedOutbox) list result" where
  "claim_rows cr factory tokens worker expires i [] = Inr []"
| "claim_rows cr factory tokens worker expires i (b # bs) =
     bindE (assign_envelope cr factory i b) (\<lambda>b1.
     let b2 = claim_outbox_values worker (tokens i) expires b1 in
     bindE (claimed_outbox b2) (\<lambda>c.
     bindE (claim_rows cr factory tokens worker expires (Suc i) bs) (\<lambda>rest. Inr ((b2, c) # rest))))"

text \<open>The flush writes the changed rows back: checks first, then the unique keys.\<close>

definition write_back :: "outbox_row list \<Rightarrow> outbox_row list \<Rightarrow> outbox_row list" where
  "write_back changed rows = map (\<lambda>b. case row_of ob_id (ob_id b) changed of None \<Rightarrow> b | Some c \<Rightarrow> c) rows"

fun pairwise_free :: "('a \<Rightarrow> 'a \<Rightarrow> bool) \<Rightarrow> 'a list \<Rightarrow> bool" where
  "pairwise_free conflict [] \<longleftrightarrow> True"
| "pairwise_free conflict (x # xs) \<longleftrightarrow> list_all (\<lambda>y. \<not> conflict x y) xs \<and> pairwise_free conflict xs"

definition flush_outbox :: "outbox_row list \<Rightarrow> outbox_row list \<Rightarrow> outbox_row list result" where
  "flush_outbox changed rows =
     (if \<not> list_all outbox_check changed then Inl (DatabaseError ''check constraint violated'')
      else if \<not> pairwise_free outbox_conflict (write_back changed rows) then Inl (DatabaseError ''duplicate key'')
      else Inr (write_back changed rows))"

definition claim_outbox_batch ::
    "crypto \<Rightarrow> EnvelopeFactory \<Rightarrow> (nat \<Rightarrow> uuid) \<Rightarrow> (uuid \<Rightarrow> bool) \<Rightarrow> datetime \<Rightarrow> datetime \<Rightarrow> string \<Rightarrow> nat
      \<Rightarrow> job_db \<Rightarrow> (ClaimedOutbox list \<times> job_db) result" where
  "claim_outbox_batch cr factory tokens locked now expires worker limit db =
     bindE (naive now) (\<lambda>n.
     bindE (naive expires) (\<lambda>x.
     bindE (claim_rows cr factory tokens worker x 0 (select_outbox n limit locked (db_outbox db))) (\<lambda>claimed.
     bindE (flush_outbox (map fst claimed) (db_outbox db)) (\<lambda>rows.
       Inr (map snd claimed, db\<lparr>db_outbox := rows\<rparr>)))))"

datatype PublisherErrorCode = RABBIT_UNROUTABLE | RABBIT_NACK | RABBIT_TIMEOUT | RABBIT_CHANNEL_CLOSED
  | RABBIT_CONNECTION_LOST | PUBLISH_EXHAUSTED

fun PublisherErrorCode_value :: "PublisherErrorCode \<Rightarrow> string" where
  "PublisherErrorCode_value RABBIT_UNROUTABLE = ''rabbit_unroutable''"
| "PublisherErrorCode_value RABBIT_NACK = ''rabbit_nack''"
| "PublisherErrorCode_value RABBIT_TIMEOUT = ''rabbit_timeout''"
| "PublisherErrorCode_value RABBIT_CHANNEL_CLOSED = ''rabbit_channel_closed''"
| "PublisherErrorCode_value RABBIT_CONNECTION_LOST = ''rabbit_connection_lost''"
| "PublisherErrorCode_value PUBLISH_EXHAUSTED = ''publish_exhausted''"

text \<open>The guard that \<open>mark_published\<close> and both branches of \<open>release_or_block\<close> share.\<close>

record settle_query =
  set_claim :: ClaimedOutbox
  set_error :: "PublisherErrorCode option"
  set_now :: datetime

definition settle_where :: "settle_query \<Rightarrow> outbox_row \<Rightarrow> bool" where
  "settle_where q b \<longleftrightarrow> ob_id b = co_id (set_claim q) \<and> ob_claim_token b = Some (co_claim_token (set_claim q))
     \<and> ob_claim_fence b = Some (co_claim_fence (set_claim q)) \<and> ob_version b = co_version (set_claim q)
     \<and> ob_status b = Outbox_PUBLISHING"

definition published_values :: "settle_query \<Rightarrow> outbox_row \<Rightarrow> outbox_row" where
  "published_values q b = b\<lparr>ob_status := Outbox_PUBLISHED, ob_published_at := Some (dt_wall (set_now q)),
     ob_confirmed_at := Some (dt_wall (set_now q)), ob_version := ob_version b + 1\<rparr>"

definition released_values :: "settle_query \<Rightarrow> outbox_row \<Rightarrow> outbox_row" where
  "released_values q b =
     (let cleared = b\<lparr>ob_last_error_code := map_option PublisherErrorCode_value (set_error q),
        ob_claim_owner := None, ob_claim_token := None, ob_claim_fence := None, ob_claim_expires_at := None,
        ob_version := ob_version b + 1\<rparr>
      in if co_max_publish_attempts (set_claim q) \<le> co_publish_attempt_count (set_claim q)
         then cleared\<lparr>ob_status := Outbox_BLOCKED\<rparr>
         else cleared\<lparr>ob_status := Outbox_PENDING, ob_available_at := dt_wall (set_now q) + seconds 5\<rparr>)"

definition mark_published :: "ClaimedOutbox \<Rightarrow> datetime \<Rightarrow> job_db \<Rightarrow> (bool \<times> job_db) result" where
  "mark_published claim now db =
     bindE (naive now) (\<lambda>_.
     let q = \<lparr>set_claim = claim, set_error = None, set_now = now\<rparr> in
     bindE (sql_update outbox_check (settle_where q) (published_values q) (db_outbox db)) (\<lambda>(rows, n).
       Inr (n = 1, db\<lparr>db_outbox := rows\<rparr>)))"

text \<open>The blocking branch never reads the clock, so a naive \<open>now\<close> does not raise there.\<close>

definition release_or_block ::
    "ClaimedOutbox \<Rightarrow> PublisherErrorCode \<Rightarrow> datetime \<Rightarrow> job_db \<Rightarrow> (bool \<times> job_db) result" where
  "release_or_block claim error now db =
     bindE (if co_max_publish_attempts claim \<le> co_publish_attempt_count claim then Inr 0
            else naive (dt_plus now (seconds 5))) (\<lambda>_.
     let q = \<lparr>set_claim = claim, set_error = Some error, set_now = now\<rparr> in
     bindE (sql_update outbox_check (settle_where q) (released_values q) (db_outbox db)) (\<lambda>(rows, n).
       Inr (n = 1, db\<lparr>db_outbox := rows\<rparr>)))"

interpretation publish: cas_update ob_id outbox_check settle_where published_values "\<lambda>q. co_id (set_claim q)" "\<lambda>q r. True"
  "\<lambda>q q'. co_id (set_claim q') = co_id (set_claim q)"
  by unfold_locales (auto simp: settle_where_def published_values_def outbox_check_def claim_columns_def)

interpretation release: cas_update ob_id outbox_check settle_where released_values "\<lambda>q. co_id (set_claim q)" "\<lambda>q r. True"
  "\<lambda>q q'. co_id (set_claim q') = co_id (set_claim q)"
  by unfold_locales (auto simp: settle_where_def released_values_def outbox_check_def claim_columns_def Let_def)

subsection \<open>Roles and the authority of a job\<close>

text \<open>
  The role query: one row per active role assigned to the membership and per permission of it; the
  permission column is \<open>NULL\<close> where a role has no permission row or the permission is not active.
\<close>

definition role_permission_codes :: "job_db \<Rightarrow> role_row \<Rightarrow> string option list" where
  "role_permission_codes db role =
     (let links = filter (\<lambda>l. rpm_tenant_id l = rol_tenant_id role \<and> rpm_role_id l = rol_id role) (db_role_permissions db);
          code = (\<lambda>l. map_option prm_code (sql_scalar (\<lambda>p. prm_id p = rpm_permission_id l \<and> prm_status p = ''active'')
            (db_permissions db)))
      in if links = [] then [None] else map code links)"

definition role_rows :: "uuid \<Rightarrow> uuid \<Rightarrow> job_db \<Rightarrow> (string \<times> string option) list" where
  "role_rows tenant membership db =
     concat (map (\<lambda>role.
       concat (map (\<lambda>asg. if asg_tenant_id asg = rol_tenant_id role \<and> asg_role_id asg = rol_id role
           \<and> asg_membership_id asg = membership
         then map (Pair (rol_code role)) (role_permission_codes db role) else []) (db_assignments db)))
       (filter (\<lambda>role. rol_tenant_id role = tenant \<and> rol_status role = ''active'') (db_roles db)))"

definition permission_codes_of :: "(string \<times> string option) list \<Rightarrow> string set" where
  "permission_codes_of rows = set (List.map_filter snd rows)"

definition lookup_membership_permissions :: "uuid \<Rightarrow> uuid \<Rightarrow> job_db \<Rightarrow> string set result" where
  "lookup_membership_permissions tenant membership db =
     bindE (require_uuid7 tenant ''membership tenant_id'') (\<lambda>_.
     bindE (require_uuid7 membership ''membership id'') (\<lambda>_.
       Inr (permission_codes_of (role_rows tenant membership db))))"

definition load_authority :: "uuid \<Rightarrow> uuid \<Rightarrow> job_db \<Rightarrow> JobAuthoritySnapshot result" where
  "load_authority tenant job db =
     bindE (require_uuid7 tenant ''authority tenant_id'') (\<lambda>_.
     bindE (require_uuid7 job ''authority job_id'') (\<lambda>_.
     case find_job tenant job (db_jobs db) of
       None \<Rightarrow> Inl (JobAuthorityUnavailable ''job_unavailable'')
     | Some stored_job \<Rightarrow>
     (case sql_scalar (\<lambda>g. grant_tenant_id g = tenant \<and> grant_job_id g = job) (db_grants db) of
       None \<Rightarrow> Inl (JobAuthorityUnavailable ''grant_unavailable'')
     | Some grant \<Rightarrow>
     (case (sql_scalar (\<lambda>u. usr_id u = grant_user_id grant) (db_users db),
            sql_scalar (\<lambda>t. ten_id t = tenant) (db_tenants db),
            sql_scalar (\<lambda>m. mbr_tenant_id m = tenant \<and> mbr_id m = grant_membership_id grant) (db_memberships db)) of
       (Some user, Some ten, Some member) \<Rightarrow>
         (let rows = role_rows tenant (grant_membership_id grant) db; roles = fst ` set rows in
          bindE (resolve_scope roles) (\<lambda>(scope, code, unknown).
          bindE (job_of_row stored_job) (\<lambda>j.
          bindE (grant_of_row grant) (\<lambda>g.
          bindE (membership_of_row member) (\<lambda>m.
            Inr \<lparr>snap_job = j, snap_grant = g, snap_user_active = (usr_status user = ''active''),
              snap_tenant_active = (ten_status ten = TenantStatus_ACTIVE), snap_membership = m,
              snap_role_codes = roles, snap_permission_codes = permission_codes_of rows,
              snap_auth_version = usr_auth_version user, snap_authz_version = mbr_authz_version member,
              snap_resolved_scope = scope, snap_resolved_scope_code = code,
              snap_granted_scope = scope_from_code (grant_job_scope_code grant),
              snap_unknown_or_mixed_role_codes = unknown\<rparr>)))))
     | _ \<Rightarrow> Inl (JobAuthorityUnavailable ''authority_unavailable'')))))"

end
