(* ===== verification/JobRuntime.thy ===== *)
theory JobRuntime
  imports JobMessages
begin

text \<open>
  \<open>application/ai_job_runtime.py\<close> with the processes that run it (\<open>workers/ai_job_worker.py\<close>,
  \<open>workers/ai_job_publisher.py\<close>, the consumer of \<open>messaging/rabbitmq.py\<close>, \<open>outbox_claim.py\<close>,
  \<open>ai_jobs_uow.py\<close>): the worker that accepts a delivery in one transaction and the publisher that
  claims, publishes and settles outbox rows in separate transactions.  Fresh identifiers, the clock
  and the outcome of a publication are arguments.
\<close>

datatype DeliveryDecision = ACK_DUPLICATE | ACK_TERMINAL | ACK_CLAIMED | REJECT_NO_REQUEUE

subsection \<open>The unit of work\<close>

text \<open>\<open>__aexit__\<close>: commit after a normal return, roll back after an exception.\<close>

definition unit_of_work :: "(job_db \<Rightarrow> ('a \<times> job_db) result) \<Rightarrow> job_db \<Rightarrow> 'a result \<times> job_db" where
  "unit_of_work body db = (case body db of Inr (a, db') \<Rightarrow> (Inr a, db') | Inl e \<Rightarrow> (Inl e, db))"

subsection \<open>The worker\<close>

record worker =
  wk_instance_ref :: string
  wk_lease_seconds :: int

definition AIJobWorkerService_init :: "string \<Rightarrow> int \<Rightarrow> worker result" where
  "AIJobWorkerService_init ref lease =
     bindE (require
       [(ref \<noteq> [], ValueError ''worker instance ref must be non-empty text''),
        (1 \<le> lease, ValueError ''worker lease seconds must be a positive integer'')])
       (\<lambda>_. Inr \<lparr>wk_instance_ref = ref, wk_lease_seconds = lease\<rparr>)"

record fresh_ids =
  fresh_inbox :: uuid
  fresh_lease :: uuid
  fresh_attempt :: uuid

definition worker_claim :: "worker \<Rightarrow> fresh_ids \<Rightarrow> uuid \<Rightarrow> uuid \<Rightarrow> uuid \<Rightarrow> datetime AIJob \<Rightarrow> datetime \<Rightarrow> ClaimJobRequest" where
  "worker_claim w ids tenant message job j now =
     \<lparr>claim_tenant_id = tenant, claim_job_id = job, claim_worker_instance_ref = wk_instance_ref w,
      claim_lease_token = fresh_lease ids,
      claim_lease_fence = (case job_lease_fence j of None \<Rightarrow> 0 | Some f \<Rightarrow> f) + 1,
      claim_attempt_id = fresh_attempt ids, claim_attempt_no = job_current_attempt_no j + 1,
      claim_trigger_message_id = message, claim_handler_code = job_handler_code j,
      claim_handler_version = job_handler_version j, claim_started_at = now,
      claim_lease_expires_at = dt_plus now (seconds (wk_lease_seconds w))\<rparr>"

text \<open>The two branches after the authority check.\<close>

definition deny_delivery :: "uuid \<Rightarrow> uuid \<Rightarrow> uuid \<Rightarrow> AIJobStatus \<Rightarrow> string \<Rightarrow> datetime \<Rightarrow> job_db
    \<Rightarrow> (DeliveryDecision \<times> job_db) result" where
  "deny_delivery inbox tenant job status reason now db =
     bindE (complete_inbox_terminal \<lparr>term_inbox_id = inbox, term_rejection_code = Some reason, term_now = now\<rparr> db)
       (\<lambda>(_, db2).
     if status \<in> set claimable_statuses then
       bindE (fail_job_without_attempt \<lparr>fail_tenant_id = tenant, fail_job_id = job,
          fail_failure_class = ''authorization'', fail_failure_code = reason, fail_now = now\<rparr> db2)
         (\<lambda>(_, db3). Inr (ACK_TERMINAL, db3))
     else Inr (ACK_TERMINAL, db2))"

definition claim_delivery :: "worker \<Rightarrow> fresh_ids \<Rightarrow> uuid \<Rightarrow> uuid \<Rightarrow> uuid \<Rightarrow> datetime AIJob \<Rightarrow> datetime \<Rightarrow> job_db
    \<Rightarrow> (DeliveryDecision \<times> job_db) result" where
  "claim_delivery w ids tenant message job j now db =
     (let q = worker_claim w ids tenant message job j now in
     bindE (ClaimJobRequest_post_init q) (\<lambda>_.
     bindE (claim_due_job q db) (\<lambda>(outcome, db2).
       case outcome of
         ClaimRejected reason \<Rightarrow>
           bindE (complete_inbox_terminal \<lparr>term_inbox_id = fresh_inbox ids, term_rejection_code = Some reason,
              term_now = now\<rparr> db2) (\<lambda>(_, db3). Inr (ACK_TERMINAL, db3))
       | Claimed x \<Rightarrow>
           bindE (bind_inbox_processing \<lparr>bind_inbox_id = fresh_inbox ids, bind_attempt_id = exe_attempt_id x,
              bind_lease_fence = exe_lease_fence x, bind_now = now\<rparr> db2) (\<lambda>(_, db3). Inr (ACK_CLAIMED, db3)))))"

definition accept_delivery :: "crypto \<Rightarrow> worker \<Rightarrow> fresh_ids \<Rightarrow> uuid \<Rightarrow> uuid \<Rightarrow> uuid \<Rightarrow> AIJobEnvelope \<Rightarrow> datetime
    \<Rightarrow> job_db \<Rightarrow> (DeliveryDecision \<times> job_db) result" where
  "accept_delivery cr w ids tenant message job e now db =
     bindE (repo_inbox_row tenant message db) (\<lambda>existing.
     case existing of
       Some row \<Rightarrow> bindE (envelope_digest cr e) (\<lambda>digest.
         Inr (if ib_envelope_digest row = digest then ACK_DUPLICATE else REJECT_NO_REQUEUE, db))
     | None \<Rightarrow>
         bindE (envelope_digest cr e) (\<lambda>digest.
         bindE (insert_inbox_accepted (fresh_inbox ids) tenant message job digest
            (sha256 cr (ascii (env_nonce e))) now db) (\<lambda>db1.
         bindE (load_authority tenant job db1) (\<lambda>authority.
         bindE (DurableGrantPolicy_authorize authority now) (\<lambda>decision.
           if \<not> job_allowed decision
           then deny_delivery (fresh_inbox ids) tenant job (job_status (snap_job authority))
                  (job_reason_code decision) now db1
           else claim_delivery w ids tenant message job (snap_job authority) now db1)))))"

text \<open>\<open>WorkerProcess._accept\<close>: one unit of work per delivery.\<close>

definition worker_accept :: "crypto \<Rightarrow> fresh_ids \<Rightarrow> AIJobEnvelope \<Rightarrow> datetime \<Rightarrow> job_db
    \<Rightarrow> DeliveryDecision result \<times> job_db" where
  "worker_accept cr ids e received_at =
     unit_of_work (\<lambda>db. bindE (AIJobWorkerService_init ''worker'' 60) (\<lambda>w.
       accept_delivery cr w ids (env_tenant_id e) (env_message_id e) (env_job_id e) e received_at db))"

text \<open>
  \<open>AioPikaJobConsumer._on_message\<close>: what happens to the message, the rejection code that is
  observed, and the database.  An exception that escapes leaves the message unsettled.
\<close>

datatype BrokerAction = Broker_ACK | Broker_REJECT | Broker_UNSETTLED exn

definition on_message :: "crypto \<Rightarrow> wire_parsers \<Rightarrow> key_ring \<Rightarrow> fresh_ids \<Rightarrow> RawDelivery \<Rightarrow> job_db
    \<Rightarrow> BrokerAction \<times> string option \<times> job_db" where
  "on_message cr wp ring ids raw db =
     (case bindE (require_size_and_content_type raw) (parse_and_require_canonical wp) of
        Inl (RejectDelivery rejection) \<Rightarrow> (Broker_REJECT, Some rejection, db)
      | Inl other \<Rightarrow> (Broker_UNSETTLED other, None, db)
      | Inr e \<Rightarrow>
          (case EnvelopeVerifier_verify cr ring e of
             Inl (EnvelopeSignatureError m) \<Rightarrow> (Broker_REJECT, Some ''envelope_signature_error'', db)
           | Inl other \<Rightarrow> (Broker_UNSETTLED other, None, db)
           | Inr _ \<Rightarrow>
               (case worker_accept cr ids e (raw_received_at raw) db of
                  (Inl err, db') \<Rightarrow> (Broker_UNSETTLED err, None, db')
                | (Inr REJECT_NO_REQUEUE, db') \<Rightarrow> (Broker_REJECT, Some ''delivery_rejected'', db')
                | (Inr _, db') \<Rightarrow> (Broker_ACK, None, db'))))"

subsection \<open>The publisher\<close>

definition new_nonce :: "bytes \<Rightarrow> string" where
  "new_nonce random = urlsafe_b64encode_unpadded random"

text \<open>\<open>_signing_envelope_factory\<close>; its fresh values come from position \<open>i\<close> of the batch.\<close>

definition signing_envelope_factory ::
    "crypto \<Rightarrow> EnvelopeSigner \<Rightarrow> (nat \<Rightarrow> uuid) \<Rightarrow> (nat \<Rightarrow> bytes) \<Rightarrow> (nat \<Rightarrow> datetime) \<Rightarrow> EnvelopeFactory" where
  "signing_envelope_factory cr signer ids nonces clock i c =
     (if cand_schema_version c \<noteq> 1
      then Inl (ValueError ''only ai job envelope schema version 1 is supported'')
      else
        let e = \<lparr>env_schema_version = 1, env_message_id = ids i, env_job_id = cand_job_id c,
           env_tenant_id = cand_tenant_id c, env_correlation_id = cand_correlation_id c,
           env_issued_at = clock i, env_nonce = new_nonce (nonces i),
           env_signature = ''ed25519.dev.'' @ replicate 86 (CHR ''p'')\<rparr>
        in bindE (AIJobEnvelope_validate e) (\<lambda>_. EnvelopeSigner_sign cr signer e))"

record PublishReceipt =
  rec_confirmed :: bool
  rec_error_code :: "PublisherErrorCode option"

record PublishBatchResult =
  res_claimed :: nat
  res_published :: nat
  res_failed :: nat

text \<open>
  \<open>publish i\<close> is the outcome of the \<open>i\<close>-th publication, \<open>between i\<close> what other processes do to the
  database while it is under way.
\<close>

fun publish_loop :: "(nat \<Rightarrow> AIJobEnvelope \<Rightarrow> string \<Rightarrow> PublishReceipt result) \<Rightarrow> (nat \<Rightarrow> job_db \<Rightarrow> job_db) \<Rightarrow> datetime
    \<Rightarrow> nat \<Rightarrow> ClaimedOutbox list \<Rightarrow> nat \<Rightarrow> nat \<Rightarrow> job_db \<Rightarrow> (nat \<times> nat) result \<times> job_db" where
  "publish_loop publish between now i [] published failed db = (Inr (published, failed), db)"
| "publish_loop publish between now i (c # cs) published failed db =
     (case publish i (co_envelope c) (co_routing_key c) of
        Inl e \<Rightarrow> (Inl e, between i db)
      | Inr receipt \<Rightarrow>
          (let db1 = between i db;
               marked = (if rec_confirmed receipt then unit_of_work (mark_published c now) db1 else (Inr False, db1))
           in case marked of
                (Inl e, db2) \<Rightarrow> (Inl e, db2)
              | (Inr True, db2) \<Rightarrow> publish_loop publish between now (Suc i) cs (Suc published) failed db2
              | (Inr False, db2) \<Rightarrow>
                  (let error = (case rec_error_code receipt of None \<Rightarrow> RABBIT_TIMEOUT | Some err \<Rightarrow> err)
                   in case unit_of_work (release_or_block c error now) db2 of
                        (Inl e, db3) \<Rightarrow> (Inl e, db3)
                      | (Inr _, db3) \<Rightarrow> publish_loop publish between now (Suc i) cs published (Suc failed) db3)))"

definition publish_batch :: "crypto \<Rightarrow> EnvelopeFactory \<Rightarrow> (nat \<Rightarrow> uuid) \<Rightarrow> (uuid \<Rightarrow> bool)
    \<Rightarrow> (nat \<Rightarrow> AIJobEnvelope \<Rightarrow> string \<Rightarrow> PublishReceipt result) \<Rightarrow> (nat \<Rightarrow> job_db \<Rightarrow> job_db) \<Rightarrow> datetime \<Rightarrow> nat
    \<Rightarrow> job_db \<Rightarrow> PublishBatchResult result \<times> job_db" where
  "publish_batch cr factory tokens locked publish between now limit db =
     (case unit_of_work (claim_outbox_batch cr factory tokens locked now (dt_plus now (seconds 30)) ''publisher'' limit) db of
        (Inl e, db1) \<Rightarrow> (Inl e, db1)
      | (Inr claimed, db1) \<Rightarrow>
          (case publish_loop publish between now 0 claimed 0 0 db1 of
             (Inl e, db2) \<Rightarrow> (Inl e, db2)
           | (Inr (published, failed), db2) \<Rightarrow>
               (Inr \<lparr>res_claimed = length claimed, res_published = published, res_failed = failed\<rparr>, db2)))"

end
