(* ===== verification/JobInvariant.thy ===== *)
theory JobInvariant
  imports JobRuntime
begin

text \<open>
  The runtime as a state machine: \<open>runtime_step\<close> is one committed transaction of any process over
  the job database (a request that submits or cancels a job, a delivery that the worker accepts, a
  heartbeat or a completion, a publisher transaction, or another service that writes its own
  tables).  \<open>runtime_ok\<close> is the invariant of the tables; from it the life cycle of a job follows:
  it is claimed at most once, by the message whose inbox row is bound to its only attempt.
\<close>

named_theorems step_effects \<open>what a successful operation did to the tables\<close>

subsection \<open>Effects of the operations\<close>

lemma foreign_key_Inr [validate_simps]: "foreign_key ok = Inr u \<longleftrightarrow> ok"
  by (simp add: foreign_key_def)

lemma if_Inr_guard [validate_simps]: "(if c then Inl e else m) = Inr x \<longleftrightarrow> \<not> c \<and> m = Inr x"
  by simp

lemma split_Inr [validate_simps]: "(case p of (a, b) \<Rightarrow> f a b) = Inr x \<longleftrightarrow> (\<exists>a b. p = (a, b) \<and> f a b = Inr x)"
  by (cases p) simp

text \<open>An update that hits exactly the row appended last.\<close>

lemma sql_update_last:
  assumes "sql_update chk p f (rows @ [r]) = Inr (rows', n)" "p r" "\<forall>x\<in>set rows. \<not> p x"
  shows "rows' = rows @ [f r] \<and> n = 1"
proof -
  have "map (\<lambda>x. if p x then f x else x) rows = rows" using assms(3) by (auto intro: map_idI)
  moreover have "filter p rows = []" using assms(3) by (auto simp: filter_empty_conv)
  ultimately show ?thesis using assms by (auto simp: sql_update_Inr)
qed

lemma repo_inbox_row_Inr: "repo_inbox_row t m db = Inr x \<Longrightarrow> x = find_inbox t m (db_inbox db)"
  by (auto simp: repo_inbox_row_def validate_simps)

lemma insert_inbox_accepted_Inr [step_effects]:
  "insert_inbox_accepted inbox t m j digest nonce now db = Inr db' \<Longrightarrow>
     has_job db t j \<and> is_utc now
     \<and> (\<forall>i\<in>set (db_inbox db). \<not> inbox_conflict (accepted_row inbox t m j digest nonce (dt_wall now)) i)
     \<and> db' = db\<lparr>db_inbox := db_inbox db @ [accepted_row inbox t m j digest nonce (dt_wall now)]\<rparr>"
  by (auto simp: insert_inbox_accepted_def validate_simps time_simps table_rules)

lemma complete_inbox_terminal_Inr [step_effects]:
  "complete_inbox_terminal q db = Inr (ok, db') \<Longrightarrow>
     \<exists>rows n. sql_update inbox_check (terminal_where q) (terminal_values q) (db_inbox db) = Inr (rows, n)
       \<and> ok = (n = 1) \<and> db' = db\<lparr>db_inbox := rows\<rparr>"
  by (auto simp: complete_inbox_terminal_def validate_simps)

lemma bind_inbox_processing_Inr [step_effects]:
  "bind_inbox_processing q db = Inr (ok, db') \<Longrightarrow>
     \<exists>rows n. sql_update inbox_check (bind_where q) (bind_values q) (db_inbox db) = Inr (rows, n)
       \<and> ok = (n = 1) \<and> db' = db\<lparr>db_inbox := rows\<rparr>"
  by (auto simp: bind_inbox_processing_def validate_simps)

lemma fail_job_without_attempt_Inr [step_effects]:
  "fail_job_without_attempt q db = Inr (ok, db') \<Longrightarrow>
     \<exists>rows n. sql_update job_check (fail_where q) (fail_values q) (db_jobs db) = Inr (rows, n)
       \<and> ok = (n = 1) \<and> db' = db\<lparr>db_jobs := rows\<rparr>"
  by (auto simp: fail_job_without_attempt_def validate_simps)

lemma cancel_claimable_job_Inr [step_effects]:
  "cancel_claimable_job q db = Inr (ok, db') \<Longrightarrow>
     \<exists>rows n. sql_update job_check (cancel_where q) (cancel_values q) (db_jobs db) = Inr (rows, n)
       \<and> ok = (n = 1) \<and> db' = db\<lparr>db_jobs := rows\<rparr>"
  by (auto simp: cancel_claimable_job_def validate_simps)

lemma repo_heartbeat_Inr [step_effects]:
  "repo_heartbeat q db = Inr (ok, db') \<Longrightarrow>
     \<exists>rows n. sql_update job_check (heartbeat_where q) (heartbeat_values q) (db_jobs db) = Inr (rows, n)
       \<and> ok = (n = 1) \<and> db' = db\<lparr>db_jobs := rows\<rparr>"
  by (auto simp: repo_heartbeat_def validate_simps)

lemma finalize_success_Inr [step_effects]:
  "finalize_success q db = Inr (ok, db') \<Longrightarrow>
     \<exists>rows n. sql_update job_check (finalize_where q) (finalize_values q) (db_jobs db) = Inr (rows, n)
       \<and> ok = (n = 1)
       \<and> (if n = 1
          then \<exists>attempts k. sql_update attempt_check (finish_attempt_where q) (finish_attempt_values q) (db_attempts db)
                  = Inr (attempts, k) \<and> db' = db\<lparr>db_jobs := rows, db_attempts := attempts\<rparr>
          else db' = db\<lparr>db_jobs := rows\<rparr>)"
  by (auto simp: finalize_success_def validate_simps split: if_splits)

lemma claim_due_job_Rejected:
  "claim_due_job q db = Inr (ClaimRejected reason, db') \<Longrightarrow>
     \<exists>rows n. sql_update job_check (claim_where q) (claim_values q) (db_jobs db) = Inr (rows, n)
       \<and> n \<noteq> 1 \<and> reason = ''job_not_claimable'' \<and> db' = db\<lparr>db_jobs := rows\<rparr>"
  by (auto simp: claim_due_job_def validate_simps Let_def split: if_splits option.splits)

lemma claim_due_job_Claimed:
  "claim_due_job q db = Inr (Claimed x, db') \<Longrightarrow>
     \<exists>rows r. sql_update job_check (claim_where q) (claim_values q) (db_jobs db) = Inr (rows, 1)
       \<and> attempt_check (claimed_attempt q) \<and> (\<forall>a\<in>set (db_attempts db). \<not> attempt_conflict (claimed_attempt q) a)
       \<and> find_job (claim_tenant_id q) (claim_job_id q) rows = Some r
       \<and> x = claimed_execution q (aware_job r)
       \<and> db' = db\<lparr>db_jobs := rows, db_attempts := db_attempts db @ [claimed_attempt q]\<rparr>"
  by (auto simp: claim_due_job_def validate_simps table_rules Let_def split: if_splits option.splits
      dest!: job_of_row_Inr)

subsection \<open>What a delivery does\<close>

text \<open>The inbox row of a delivery is settled by the statement that names its fresh identifier.\<close>

lemma deny_delivery_Inr:
  assumes "deny_delivery inbox t j st reason now (db\<lparr>db_inbox := rows @ [i]\<rparr>) = Inr (d, db')"
    and "ib_id i = inbox" "ib_handling_attempt_id i = None" "ib_handling_fence i = None"
    and "ib_status i = InboxStatus_ACCEPTED" "\<forall>k\<in>set rows. ib_id k \<noteq> inbox"
  defines "tq \<equiv> \<lparr>term_inbox_id = inbox, term_rejection_code = Some reason, term_now = now\<rparr>"
    and "fq \<equiv> \<lparr>fail_tenant_id = t, fail_job_id = j, fail_failure_class = ''authorization'',
      fail_failure_code = reason, fail_now = now\<rparr>"
  shows "d = ACK_TERMINAL
    \<and> (\<exists>jobs n. (if st \<in> set claimable_statuses
          then sql_update job_check (fail_where fq) (fail_values fq) (db_jobs db) = Inr (jobs, n)
          else jobs = db_jobs db)
        \<and> db' = db\<lparr>db_jobs := jobs, db_inbox := rows @ [terminal_values tq i]\<rparr>)"
proof -
  have guard: "terminal_where tq i" "\<forall>k\<in>set rows. \<not> terminal_where tq k"
    using assms(2-6) by (auto simp: terminal_where_def tq_def)
  obtain ok db2 where c: "complete_inbox_terminal tq (db\<lparr>db_inbox := rows @ [i]\<rparr>) = Inr (ok, db2)"
    and rest: "(if st \<in> set claimable_statuses
        then bindE (fail_job_without_attempt fq db2) (\<lambda>(_, db3). Inr (ACK_TERMINAL, db3))
        else Inr (ACK_TERMINAL, db2)) = Inr (d, db')"
    using assms(1) unfolding deny_delivery_def tq_def [symmetric] fq_def [symmetric]
    by (auto simp: validate_simps simp del: if_Inr_guard)
  obtain rows' n where "sql_update inbox_check (terminal_where tq) (terminal_values tq) (rows @ [i]) = Inr (rows', n)"
    and db2: "db2 = db\<lparr>db_inbox := rows'\<rparr>"
    using complete_inbox_terminal_Inr [OF c] by auto
  then have "rows' = rows @ [terminal_values tq i]" using guard by (auto dest: sql_update_last)
  with rest db2 show ?thesis
    by (auto simp: validate_simps dest!: fail_job_without_attempt_Inr split: if_splits)
qed

lemma claim_delivery_Inr:
  assumes "claim_delivery w ids t m j job now (db\<lparr>db_inbox := rows @ [i]\<rparr>) = Inr (d, db')"
    and "ib_id i = fresh_inbox ids" "ib_handling_attempt_id i = None" "ib_handling_fence i = None"
    and "ib_status i = InboxStatus_ACCEPTED" "\<forall>k\<in>set rows. ib_id k \<noteq> fresh_inbox ids"
  defines "tq \<equiv> \<lparr>term_inbox_id = fresh_inbox ids, term_rejection_code = Some ''job_not_claimable'', term_now = now\<rparr>"
    and "q \<equiv> worker_claim w ids t m j job now"
    and "bq \<equiv> \<lparr>bind_inbox_id = fresh_inbox ids, bind_attempt_id = fresh_attempt ids,
      bind_lease_fence = claim_lease_fence (worker_claim w ids t m j job now), bind_now = now\<rparr>"
  shows "d = ACK_TERMINAL
      \<and> (\<exists>jobs n. sql_update job_check (claim_where q) (claim_values q) (db_jobs db) = Inr (jobs, n) \<and> n \<noteq> 1
          \<and> db' = db\<lparr>db_jobs := jobs, db_inbox := rows @ [terminal_values tq i]\<rparr>)
    \<or> d = ACK_CLAIMED
      \<and> (\<exists>jobs. sql_update job_check (claim_where q) (claim_values q) (db_jobs db) = Inr (jobs, 1)
          \<and> attempt_check (claimed_attempt q) \<and> (\<forall>a\<in>set (db_attempts db). \<not> attempt_conflict (claimed_attempt q) a)
          \<and> db' = db\<lparr>db_jobs := jobs, db_attempts := db_attempts db @ [claimed_attempt q],
                db_inbox := rows @ [bind_values bq i]\<rparr>)"
proof -
  have guards: "terminal_where tq i" "\<forall>k\<in>set rows. \<not> terminal_where tq k"
    "bind_where bq i" "\<forall>k\<in>set rows. \<not> bind_where bq k"
    using assms(2-6) by (auto simp: terminal_where_def bind_where_def tq_def bq_def)
  obtain outcome db2 where c: "claim_due_job q (db\<lparr>db_inbox := rows @ [i]\<rparr>) = Inr (outcome, db2)"
    and rest: "(case outcome of
       ClaimRejected reason \<Rightarrow>
         bindE (complete_inbox_terminal \<lparr>term_inbox_id = fresh_inbox ids, term_rejection_code = Some reason,
            term_now = now\<rparr> db2) (\<lambda>(_, db3). Inr (ACK_TERMINAL, db3))
     | Claimed x \<Rightarrow>
         bindE (bind_inbox_processing \<lparr>bind_inbox_id = fresh_inbox ids, bind_attempt_id = exe_attempt_id x,
            bind_lease_fence = exe_lease_fence x, bind_now = now\<rparr> db2) (\<lambda>(_, db3). Inr (ACK_CLAIMED, db3)))
       = Inr (d, db')"
    using assms(1) unfolding claim_delivery_def q_def [symmetric] by (auto simp: validate_simps Let_def)
  show ?thesis
  proof (cases outcome)
    case (ClaimRejected reason)
    then obtain jobs n where u: "sql_update job_check (claim_where q) (claim_values q) (db_jobs db) = Inr (jobs, n)"
      "n \<noteq> 1" "reason = ''job_not_claimable''" "db2 = db\<lparr>db_jobs := jobs, db_inbox := rows @ [i]\<rparr>"
      using claim_due_job_Rejected [of q "db\<lparr>db_inbox := rows @ [i]\<rparr>"] c by auto
    obtain ok db3 where t: "complete_inbox_terminal tq db2 = Inr (ok, db3)" and d: "d = ACK_TERMINAL" "db' = db3"
      using rest ClaimRejected u(3) by (auto simp: validate_simps tq_def)
    obtain rows' k where "sql_update inbox_check (terminal_where tq) (terminal_values tq) (rows @ [i]) = Inr (rows', k)"
      and "db3 = db2\<lparr>db_inbox := rows'\<rparr>"
      using complete_inbox_terminal_Inr [OF t] u(4) by auto
    moreover from this have "rows' = rows @ [terminal_values tq i]" using guards by (auto dest: sql_update_last)
    ultimately show ?thesis using u d by auto
  next
    case (Claimed x)
    then obtain jobs r where u: "sql_update job_check (claim_where q) (claim_values q) (db_jobs db) = Inr (jobs, 1)"
      "attempt_check (claimed_attempt q)" "\<forall>a\<in>set (db_attempts db). \<not> attempt_conflict (claimed_attempt q) a"
      "x = claimed_execution q (aware_job r)"
      "db2 = db\<lparr>db_jobs := jobs, db_attempts := db_attempts db @ [claimed_attempt q], db_inbox := rows @ [i]\<rparr>"
      using claim_due_job_Claimed [of q "db\<lparr>db_inbox := rows @ [i]\<rparr>"] c by auto
    have "\<lparr>bind_inbox_id = fresh_inbox ids, bind_attempt_id = exe_attempt_id x, bind_lease_fence = exe_lease_fence x,
        bind_now = now\<rparr> = bq"
      using u(4) by (simp add: claimed_execution_def bq_def q_def worker_claim_def)
    then obtain ok db3 where t: "bind_inbox_processing bq db2 = Inr (ok, db3)" and d: "d = ACK_CLAIMED" "db' = db3"
      using rest Claimed by (auto simp: validate_simps)
    obtain rows' k where "sql_update inbox_check (bind_where bq) (bind_values bq) (rows @ [i]) = Inr (rows', k)"
      and "db3 = db2\<lparr>db_inbox := rows'\<rparr>"
      using bind_inbox_processing_Inr [OF t] u(5) by auto
    moreover from this have "rows' = rows @ [bind_values bq i]" using guards by (auto dest: sql_update_last)
    ultimately show ?thesis using u d by auto
  qed
qed

lemma role_rows_inbox [simp]: "role_rows t m (db\<lparr>db_inbox := rows\<rparr>) = role_rows t m db"
proof -
  have "role_permission_codes (db\<lparr>db_inbox := rows\<rparr>) = role_permission_codes db"
    by (rule ext) (simp add: role_permission_codes_def)
  then show ?thesis by (simp add: role_rows_def cong: if_cong)
qed

lemma load_authority_inbox [simp]: "load_authority t j (db\<lparr>db_inbox := rows\<rparr>) = load_authority t j db"
  by (simp add: load_authority_def Let_def split: option.split)

lemma load_authority_Inr:
  "load_authority t j db = Inr s \<Longrightarrow>
     \<exists>r. find_job t j (db_jobs db) = Some r \<and> snap_job s = aware_job r \<and> job_of_row r = Inr (aware_job r)"
  by (auto simp: load_authority_def validate_simps Let_def split: option.splits dest: job_of_row_Inr)

definition denial :: "fresh_ids \<Rightarrow> string \<Rightarrow> datetime \<Rightarrow> terminal_query" where
  "denial ids reason now = \<lparr>term_inbox_id = fresh_inbox ids, term_rejection_code = Some reason, term_now = now\<rparr>"

definition authority_failure :: "uuid \<Rightarrow> uuid \<Rightarrow> string \<Rightarrow> datetime \<Rightarrow> fail_query" where
  "authority_failure t j reason now = \<lparr>fail_tenant_id = t, fail_job_id = j,
     fail_failure_class = ''authorization'', fail_failure_code = reason, fail_now = now\<rparr>"

definition binding :: "fresh_ids \<Rightarrow> int \<Rightarrow> datetime \<Rightarrow> bind_query" where
  "binding ids fence now = \<lparr>bind_inbox_id = fresh_inbox ids, bind_attempt_id = fresh_attempt ids,
     bind_lease_fence = fence, bind_now = now\<rparr>"

text \<open>The first delivery of a message: its new inbox row, and what holds whatever follows.\<close>

definition first_row :: "crypto \<Rightarrow> fresh_ids \<Rightarrow> uuid \<Rightarrow> uuid \<Rightarrow> uuid \<Rightarrow> AIJobEnvelope \<Rightarrow> bytes \<Rightarrow> datetime \<Rightarrow> inbox_row" where
  "first_row cr ids t m j e digest now =
     accepted_row (fresh_inbox ids) t m j digest (sha256 cr (ascii (env_nonce e))) (dt_wall now)"

definition first_delivery :: "crypto \<Rightarrow> fresh_ids \<Rightarrow> uuid \<Rightarrow> uuid \<Rightarrow> uuid \<Rightarrow> AIJobEnvelope \<Rightarrow> datetime \<Rightarrow> job_db
    \<Rightarrow> inbox_row \<Rightarrow> job_row \<Rightarrow> JobAuthoritySnapshot \<Rightarrow> JobAuthorizationDecision \<Rightarrow> bool" where
  "first_delivery cr ids t m j e now db i r authority decision \<longleftrightarrow>
     (\<exists>digest. envelope_digest cr e = Inr digest \<and> i = first_row cr ids t m j e digest now)
     \<and> find_inbox t m (db_inbox db) = None \<and> is_utc now \<and> has_job db t j
     \<and> (\<forall>k\<in>set (db_inbox db). \<not> inbox_conflict i k)
     \<and> load_authority t j db = Inr authority \<and> DurableGrantPolicy_authorize authority now = Inr decision
     \<and> find_job t j (db_jobs db) = Some r \<and> snap_job authority = aware_job r"

lemma accept_deliveryE:
  assumes "accept_delivery cr w ids t m j e now db = Inr (d, db')"
  obtains
    (seen) row digest where "find_inbox t m (db_inbox db) = Some row" "envelope_digest cr e = Inr digest"
      "d = (if ib_envelope_digest row = digest then ACK_DUPLICATE else REJECT_NO_REQUEUE)" "db' = db"
  | (denied) i r authority decision jobs n where "first_delivery cr ids t m j e now db i r authority decision"
      "\<not> job_allowed decision" "d = ACK_TERMINAL"
      "if job_status r \<in> set claimable_statuses
       then sql_update job_check (fail_where (authority_failure t j (job_reason_code decision) now))
              (fail_values (authority_failure t j (job_reason_code decision) now)) (db_jobs db) = Inr (jobs, n)
       else jobs = db_jobs db"
      "db' = db\<lparr>db_jobs := jobs, db_inbox := db_inbox db @ [terminal_values (denial ids (job_reason_code decision) now) i]\<rparr>"
  | (lost) i r authority decision q jobs n where "first_delivery cr ids t m j e now db i r authority decision"
      "job_allowed decision" "q = worker_claim w ids t m j (aware_job r) now" "d = ACK_TERMINAL"
      "sql_update job_check (claim_where q) (claim_values q) (db_jobs db) = Inr (jobs, n)" "n \<noteq> 1"
      "db' = db\<lparr>db_jobs := jobs, db_inbox := db_inbox db @ [terminal_values (denial ids ''job_not_claimable'' now) i]\<rparr>"
  | (claimed) i r authority decision q jobs where "first_delivery cr ids t m j e now db i r authority decision"
      "job_allowed decision" "q = worker_claim w ids t m j (aware_job r) now" "d = ACK_CLAIMED"
      "sql_update job_check (claim_where q) (claim_values q) (db_jobs db) = Inr (jobs, 1)"
      "attempt_check (claimed_attempt q)" "\<forall>a\<in>set (db_attempts db). \<not> attempt_conflict (claimed_attempt q) a"
      "db' = db\<lparr>db_jobs := jobs, db_attempts := db_attempts db @ [claimed_attempt q],
         db_inbox := db_inbox db @ [bind_values (binding ids (claim_lease_fence q) now) i]\<rparr>"
proof -
  obtain existing where ex: "existing = find_inbox t m (db_inbox db)" and
    body: "(case existing of
       Some row \<Rightarrow> bindE (envelope_digest cr e) (\<lambda>digest.
         Inr (if ib_envelope_digest row = digest then ACK_DUPLICATE else REJECT_NO_REQUEUE, db))
     | None \<Rightarrow>
         bindE (envelope_digest cr e) (\<lambda>digest.
         bindE (insert_inbox_accepted (fresh_inbox ids) t m j digest (sha256 cr (ascii (env_nonce e))) now db) (\<lambda>db1.
         bindE (load_authority t j db1) (\<lambda>authority.
         bindE (DurableGrantPolicy_authorize authority now) (\<lambda>decision.
           if \<not> job_allowed decision
           then deny_delivery (fresh_inbox ids) t j (job_status (snap_job authority)) (job_reason_code decision) now db1
           else claim_delivery w ids t m j (snap_job authority) now db1))))) = Inr (d, db')"
    using assms by (auto simp: accept_delivery_def bindE_eq_Inr dest: repo_inbox_row_Inr)
  show thesis
  proof (cases existing)
    case (Some row)
    with body seen ex [symmetric] show thesis by (auto simp: bindE_eq_Inr)
  next
    case None
    with body obtain digest db1 authority decision where
      dig: "envelope_digest cr e = Inr digest" and
      ins: "insert_inbox_accepted (fresh_inbox ids) t m j digest (sha256 cr (ascii (env_nonce e))) now db = Inr db1" and
      load: "load_authority t j db1 = Inr authority" and pol: "DurableGrantPolicy_authorize authority now = Inr decision" and
      fin: "(if \<not> job_allowed decision
           then deny_delivery (fresh_inbox ids) t j (job_status (snap_job authority)) (job_reason_code decision) now db1
           else claim_delivery w ids t m j (snap_job authority) now db1) = Inr (d, db')"
      by (auto simp: bindE_eq_Inr)
    define i where "i = first_row cr ids t m j e digest now"
    have db1: "db1 = db\<lparr>db_inbox := db_inbox db @ [i]\<rparr>" and free: "\<forall>k\<in>set (db_inbox db). \<not> inbox_conflict i k"
      and base: "is_utc now" "has_job db t j"
      using insert_inbox_accepted_Inr [OF ins] by (auto simp: i_def first_row_def)
    obtain r where r: "find_job t j (db_jobs db) = Some r" "snap_job authority = aware_job r"
      using load_authority_Inr [OF load] db1 by auto
    have fd: "first_delivery cr ids t m j e now db i r authority decision"
      unfolding first_delivery_def using dig i_def None ex base free load pol r db1 by auto
    have i: "ib_id i = fresh_inbox ids" "ib_handling_attempt_id i = None" "ib_handling_fence i = None"
      "ib_status i = InboxStatus_ACCEPTED" "\<forall>k\<in>set (db_inbox db). ib_id k \<noteq> fresh_inbox ids"
      using free by (auto simp: i_def first_row_def accepted_row_def inbox_conflict_def)
    show thesis
    proof (cases "job_allowed decision")
      case False
      have "deny_delivery (fresh_inbox ids) t j (job_status r) (job_reason_code decision) now
          (db\<lparr>db_inbox := db_inbox db @ [i]\<rparr>) = Inr (d, db')"
        using fin False r(2) db1 by simp
      from deny_delivery_Inr [OF this i] obtain jobs n where "d = ACK_TERMINAL"
        "if job_status r \<in> set claimable_statuses
         then sql_update job_check (fail_where (authority_failure t j (job_reason_code decision) now))
                (fail_values (authority_failure t j (job_reason_code decision) now)) (db_jobs db) = Inr (jobs, n)
         else jobs = db_jobs db"
        "db' = db\<lparr>db_jobs := jobs, db_inbox := db_inbox db @ [terminal_values (denial ids (job_reason_code decision) now) i]\<rparr>"
        unfolding authority_failure_def denial_def by blast
      then show thesis using denied fd False by blast
    next
      case True
      have "claim_delivery w ids t m j (aware_job r) now (db\<lparr>db_inbox := db_inbox db @ [i]\<rparr>) = Inr (d, db')"
        using fin True r(2) db1 by simp
      from claim_delivery_Inr [OF this i] show thesis
        unfolding denial_def [symmetric] binding_def [symmetric]
        using lost [OF fd True refl] claimed [OF fd True refl] by blast
    qed
  qed
qed

subsection \<open>The invariant of the tables\<close>

definition job_keys :: "job_row list \<Rightarrow> (uuid \<times> uuid) set" where
  "job_keys jobs = (\<lambda>r. (job_tenant_id r, job_id r)) ` set jobs"

definition of_job :: "job_row \<Rightarrow> attempt_row \<Rightarrow> bool" where
  "of_job r a \<longleftrightarrow> att_tenant_id a = job_tenant_id r \<and> att_job_id a = job_id r"

text \<open>
  The attempts of a job are determined by its status: none before it is claimed or when it ends
  without having run, one claimed attempt that holds the lease of the row while it runs, and that
  same attempt, succeeded, afterwards.
\<close>

definition attempts_match :: "job_row \<Rightarrow> attempt_row list \<Rightarrow> bool" where
  "attempts_match r as \<longleftrightarrow>
     (if job_status r \<in> lease_holding_statuses
      then \<exists>a. as = [a] \<and> att_status a = Attempt_CLAIMED \<and> job_lease_token r = Some (att_lease_token a)
             \<and> job_lease_fence r = Some (att_lease_fence a) \<and> att_attempt_no a = job_current_attempt_no r
      else if job_status r = SUCCEEDED
      then \<exists>a. as = [a] \<and> att_status a = Attempt_SUCCEEDED \<and> att_attempt_no a = job_current_attempt_no r
      else as = [] \<and> job_current_attempt_no r = 0)"

definition jobs_ok :: "job_row list \<Rightarrow> attempt_row list \<Rightarrow> bool" where
  "jobs_ok jobs as \<longleftrightarrow> list_all job_check jobs \<and> distinct (map job_id jobs)
     \<and> list_all attempt_check as \<and> distinct (map att_id as)
     \<and> (\<forall>r\<in>set jobs. attempts_match r (filter (of_job r) as))
     \<and> (\<forall>a\<in>set as. (att_tenant_id a, att_job_id a) \<in> job_keys jobs)"

definition handles :: "inbox_row \<Rightarrow> attempt_row \<Rightarrow> bool" where
  "handles i a \<longleftrightarrow> ib_tenant_id i = att_tenant_id a \<and> ib_job_id i = att_job_id a
     \<and> ib_message_id i = att_trigger_message_id a \<and> ib_handling_attempt_id i = Some (att_id a)
     \<and> ib_handling_fence i = Some (att_lease_fence a)"

text \<open>Between transactions every inbox row is either finished or bound to the attempt it started.\<close>

definition settled :: "attempt_row list \<Rightarrow> inbox_row \<Rightarrow> bool" where
  "settled as i \<longleftrightarrow>
     (ib_status i = InboxStatus_COMPLETED \<and> ib_handling_attempt_id i = None \<and> ib_completed_at i \<noteq> None)
     \<or> (ib_status i = InboxStatus_PROCESSING \<and> (\<exists>a\<in>set as. handles i a))"

definition inbox_ok :: "job_row list \<Rightarrow> attempt_row list \<Rightarrow> inbox_row list \<Rightarrow> bool" where
  "inbox_ok jobs as ib \<longleftrightarrow> list_all inbox_check ib \<and> distinct (map ib_id ib)
     \<and> distinct (map (\<lambda>i. (ib_tenant_id i, ib_message_id i)) ib)
     \<and> (\<forall>i\<in>set ib. (ib_tenant_id i, ib_job_id i) \<in> job_keys jobs \<and> settled as i)
     \<and> (\<forall>a\<in>set as. \<exists>i\<in>set ib. handles i a)"

definition outbox_ok :: "job_row list \<Rightarrow> outbox_row list \<Rightarrow> bool" where
  "outbox_ok jobs ob \<longleftrightarrow> list_all outbox_check ob \<and> distinct (map ob_id ob)
     \<and> (\<forall>b\<in>set ob. (ob_tenant_id b, ob_job_id b) \<in> job_keys jobs)"

definition runtime_ok :: "job_db \<Rightarrow> bool" where
  "runtime_ok db \<longleftrightarrow> jobs_ok (db_jobs db) (db_attempts db)
     \<and> inbox_ok (db_jobs db) (db_attempts db) (db_inbox db) \<and> outbox_ok (db_jobs db) (db_outbox db)"

lemma has_job_keys: "has_job db t j \<longleftrightarrow> (t, j) \<in> job_keys (db_jobs db)"
  by (auto simp: has_job_def job_keys_def list_ex_iff)

lemma find_job_SomeD: "find_job t j jobs = Some r \<Longrightarrow> r \<in> set jobs \<and> job_tenant_id r = t \<and> job_id r = j"
  by (auto simp: find_job_def dest: sql_scalar_SomeD)

lemma job_of_id:
  "distinct (map job_id jobs) \<Longrightarrow> r \<in> set jobs \<Longrightarrow> r' \<in> set jobs \<Longrightarrow> job_id r = job_id r' \<Longrightarrow> r = r'"
  by (auto simp: distinct_map dest: inj_onD)

text \<open>An update of jobs that keeps their identity.\<close>

lemma job_update_keys:
  assumes "sql_update chk p f jobs = Inr (jobs', n)" "\<And>r. job_id (f r) = job_id r \<and> job_tenant_id (f r) = job_tenant_id r"
  shows "job_keys jobs' = job_keys jobs \<and> map job_id jobs' = map job_id jobs"
proof -
  have "map (\<lambda>r. (job_tenant_id r, job_id r)) jobs' = map (\<lambda>r. (job_tenant_id r, job_id r)) jobs"
    using assms by (auto simp: sql_update_Inr)
  then have "set (map (\<lambda>r. (job_tenant_id r, job_id r)) jobs') = set (map (\<lambda>r. (job_tenant_id r, job_id r)) jobs)"
    by (rule arg_cong)
  moreover have "map job_id jobs' = map job_id jobs" using assms by (auto simp: sql_update_Inr)
  ultimately show ?thesis by (simp add: job_keys_def)
qed

lemma of_job_cong: "job_id r' = job_id r \<Longrightarrow> job_tenant_id r' = job_tenant_id r \<Longrightarrow> of_job r' = of_job r"
  by (auto simp: of_job_def fun_eq_iff)

lemma jobs_ok_update:
  assumes "sql_update job_check p f jobs = Inr (jobs', n)" "jobs_ok jobs as"
    and keep: "\<And>r. job_id (f r) = job_id r \<and> job_tenant_id (f r) = job_tenant_id r"
    and match: "\<And>r. r \<in> set jobs \<Longrightarrow> p r \<Longrightarrow> attempts_match r (filter (of_job r) as)
      \<Longrightarrow> attempts_match (f r) (filter (of_job r) as)"
  shows "jobs_ok jobs' as"
proof -
  have "\<forall>r\<in>set jobs'. attempts_match r (filter (of_job r) as)"
  proof
    fix r' assume "r' \<in> set jobs'"
    then obtain r where r: "r \<in> set jobs" "r' = (if p r then f r else r)"
      using assms(1) by (auto simp: sql_update_Inr)
    moreover have "of_job (f r) = of_job r" using keep of_job_cong by blast
    ultimately show "attempts_match r' (filter (of_job r') as)"
      using match assms(2) by (auto simp: jobs_ok_def)
  qed
  moreover have "list_all job_check jobs'" using sql_update_chk [OF assms(1)] assms(2) by (simp add: jobs_ok_def)
  ultimately show ?thesis using assms(2) job_update_keys [OF assms(1) keep] by (simp add: jobs_ok_def)
qed

lemma heartbeat_jobs_ok:
  "sql_update job_check (heartbeat_where q) (heartbeat_values q) jobs = Inr (jobs', n) \<Longrightarrow> jobs_ok jobs as \<Longrightarrow> jobs_ok jobs' as"
  by (erule (1) jobs_ok_update) (auto simp: heartbeat_where_def heartbeat_values_def attempts_match_def)

lemma fail_jobs_ok:
  "sql_update job_check (fail_where q) (fail_values q) jobs = Inr (jobs', n) \<Longrightarrow> jobs_ok jobs as \<Longrightarrow> jobs_ok jobs' as"
  by (erule (1) jobs_ok_update)
    (auto simp: fail_where_def fail_values_def unstarted_where_def attempts_match_def claimable_statuses_def
      lease_holding_statuses_def)

lemma cancel_jobs_ok:
  "sql_update job_check (cancel_where q) (cancel_values q) jobs = Inr (jobs', n) \<Longrightarrow> jobs_ok jobs as \<Longrightarrow> jobs_ok jobs' as"
  by (erule (1) jobs_ok_update)
    (auto simp: cancel_where_def cancel_values_def unstarted_where_def attempts_match_def claimable_statuses_def
      lease_holding_statuses_def)

lemma claim_jobs_ok:
  assumes "sql_update job_check (claim_where q) (claim_values q) jobs = Inr (jobs', 1)" "jobs_ok jobs as"
    and "attempt_check (claimed_attempt q)" "\<forall>a\<in>set as. \<not> attempt_conflict (claimed_attempt q) a"
  shows "jobs_ok jobs' (as @ [claimed_attempt q])"
proof -
  have d: "distinct (map job_id jobs)" and m: "\<And>r. r \<in> set jobs \<Longrightarrow> attempts_match r (filter (of_job r) as)"
    using assms(2) by (auto simp: jobs_ok_def)
  have keep: "\<And>r. job_id (claim_values q r) = job_id r \<and> job_tenant_id (claim_values q r) = job_tenant_id r"
    by (simp add: claim_values_def)
  obtain r0 where "row_of job_id (claim_job_id q) jobs = Some r0" and g0: "claim_where q r0"
    using claim.winner_row [OF d assms(1)] by blast
  then have r0: "r0 \<in> set jobs" "job_id r0 = claim_job_id q" by (auto dest: row_of_SomeD)
  have t0: "job_tenant_id r0 = claim_tenant_id q" "job_status r0 \<in> set claimable_statuses"
    using g0 by (auto simp: claim_where_def)
  have none: "filter (of_job r0) as = []"
    using m [OF r0(1)] t0(2) by (auto simp: attempts_match_def claimable_statuses_def lease_holding_statuses_def)
  have "\<forall>r\<in>set jobs'. attempts_match r (filter (of_job r) (as @ [claimed_attempt q]))"
  proof
    fix r' assume "r' \<in> set jobs'"
    then obtain r where r: "r \<in> set jobs" "r' = (if claim_where q r then claim_values q r else r)"
      using assms(1) by (auto simp: sql_update_Inr)
    show "attempts_match r' (filter (of_job r') (as @ [claimed_attempt q]))"
    proof (cases "r = r0")
      case True
      have "of_job (claim_values q r0) = of_job r0" using keep of_job_cong by blast
      then show ?thesis
        using r True g0 none r0(2) t0(1)
        by (auto simp: attempts_match_def of_job_def claimed_attempt_def claim_values_def lease_holding_statuses_def)
    next
      case False
      then have "job_id r \<noteq> claim_job_id q" using job_of_id [OF d r(1) r0(1)] r0(2) by auto
      then have "r' = r" "\<not> of_job r (claimed_attempt q)" using r(2) by (auto simp: claim_where_def of_job_def claimed_attempt_def)
      then show ?thesis using m [OF r(1)] by simp
    qed
  qed
  moreover have "list_all job_check jobs'" using sql_update_chk [OF assms(1)] assms(2) by (simp add: jobs_ok_def)
  moreover have "(claim_tenant_id q, claim_job_id q) \<in> job_keys jobs" using r0 t0(1) by (force simp: job_keys_def)
  moreover have "distinct (map att_id (as @ [claimed_attempt q]))"
    using assms(2,4) by (auto simp: jobs_ok_def attempt_conflict_def)
  ultimately show ?thesis
    using assms(2,3) job_update_keys [OF assms(1) keep] by (auto simp: jobs_ok_def claimed_attempt_def)
qed

lemma finalize_jobs_ok:
  assumes "sql_update job_check (finalize_where q) (finalize_values q) jobs = Inr (jobs', 1)" "jobs_ok jobs as"
    and "sql_update attempt_check (finish_attempt_where q) (finish_attempt_values q) as = Inr (as', k)"
  shows "jobs_ok jobs' as'"
proof -
  have d: "distinct (map job_id jobs)" and m: "\<And>r. r \<in> set jobs \<Longrightarrow> attempts_match r (filter (of_job r) as)"
    using assms(2) by (auto simp: jobs_ok_def)
  have keep: "\<And>r. job_id (finalize_values q r) = job_id r \<and> job_tenant_id (finalize_values q r) = job_tenant_id r"
    by (simp add: finalize_values_def)
  let ?f = "\<lambda>a. if finish_attempt_where q a then finish_attempt_values q a else a"
  have as': "as' = map ?f as" using assms(3) by (simp add: sql_update_Inr)
  have fld: "att_id (?f a) = att_id a" "att_tenant_id (?f a) = att_tenant_id a" "att_job_id (?f a) = att_job_id a" for a
    by (simp_all add: finish_attempt_values_def)
  have filt: "filter (of_job r) as' = map ?f (filter (of_job r) as)" for r
    unfolding as' filter_map
    by (rule arg_cong [of _ _ "map ?f"], rule filter_cong) (auto simp: of_job_def finish_attempt_values_def)
  obtain r0 where "row_of job_id (fin_job_id q) jobs = Some r0" and g0: "finalize_where q r0"
    using finalize.winner_row [OF d assms(1)] by blast
  then have r0: "r0 \<in> set jobs" "job_id r0 = fin_job_id q" by (auto dest: row_of_SomeD)
  have t0: "job_tenant_id r0 = fin_tenant_id q" "job_status r0 = RUNNING" "job_lease_fence r0 = Some (fin_lease_fence q)"
    using g0 by (auto simp: finalize_where_def)
  have "\<forall>r\<in>set jobs'. attempts_match r (filter (of_job r) as')"
  proof
    fix r' assume "r' \<in> set jobs'"
    then obtain r where r: "r \<in> set jobs" "r' = (if finalize_where q r then finalize_values q r else r)"
      using assms(1) by (auto simp: sql_update_Inr)
    show "attempts_match r' (filter (of_job r') as')"
    proof (cases "r = r0")
      case True
      obtain a where a: "filter (of_job r0) as = [a]" "att_status a = Attempt_CLAIMED"
        "att_lease_fence a = fin_lease_fence q" "att_attempt_no a = job_current_attempt_no r0"
        using m [OF r0(1)] t0 by (auto simp: attempts_match_def lease_holding_statuses_def)
      then have "a \<in> set (filter (of_job r0) as)" by simp
      then have "of_job r0 a" by simp
      then have "finish_attempt_where q a" using a t0(1) r0(2) by (simp add: finish_attempt_where_def of_job_def)
      then have "filter (of_job r0) as' = [finish_attempt_values q a]" using filt a(1) by simp
      moreover have "of_job (finalize_values q r0) = of_job r0" using keep of_job_cong by blast
      ultimately show ?thesis
        using r True g0 a(4)
        by (auto simp: attempts_match_def finish_attempt_values_def finalize_values_def lease_holding_statuses_def)
    next
      case False
      then have no: "job_id r \<noteq> fin_job_id q" using job_of_id [OF d r(1) r0(1)] r0(2) by auto
      then have "r' = r" using r(2) by (auto simp: finalize_where_def)
      moreover have "map ?f (filter (of_job r) as) = filter (of_job r) as"
        using no by (intro map_idI) (auto simp: of_job_def finish_attempt_where_def)
      ultimately show ?thesis using m [OF r(1)] filt by simp
    qed
  qed
  moreover have "list_all job_check jobs'" using sql_update_chk [OF assms(1)] assms(2) by (simp add: jobs_ok_def)
  moreover have "list_all attempt_check as'" using sql_update_chk [OF assms(3)] assms(2) by (simp add: jobs_ok_def)
  moreover have "map att_id as' = map att_id as" by (simp add: as' fld(1))
  moreover have "(att_tenant_id a, att_job_id a) \<in> job_keys jobs" if a: "a \<in> set as'" for a
  proof -
    obtain b where "b \<in> set as" "a = ?f b" using a as' by auto
    then show ?thesis using assms(2) fld [of b] by (simp add: jobs_ok_def)
  qed
  ultimately show ?thesis
    using assms(2) job_update_keys [OF assms(1) keep] by (simp add: jobs_ok_def)
qed

lemma jobs_ok_new:
  assumes "sql_insert job_check (\<lambda>a b. job_id a = job_id b) r jobs = Inr jobs'" "jobs_ok jobs as"
    and "job_status r = QUEUED" "job_current_attempt_no r = 0"
  shows "jobs_ok jobs' as"
proof -
  have r: "job_check r" "\<forall>k\<in>set jobs. job_id r \<noteq> job_id k" "jobs' = jobs @ [r]"
    using assms(1) by (auto simp: sql_insert_Inr)
  have "\<not> of_job r a" if a: "a \<in> set as" for a
  proof -
    obtain k where "k \<in> set jobs" "att_job_id a = job_id k"
      using assms(2) a by (auto simp: jobs_ok_def job_keys_def image_iff)
    then show ?thesis using r(2) by (auto simp: of_job_def)
  qed
  then have "attempts_match r (filter (of_job r) as)"
    using assms(3,4) by (auto simp: attempts_match_def lease_holding_statuses_def filter_empty_conv)
  then show ?thesis using assms(2) r by (auto simp: jobs_ok_def job_keys_def)
qed

text \<open>The inbox sees of the other tables only the keys of the jobs and the identity of the attempts.\<close>

lemma settled_mono: "settled as i \<Longrightarrow> (\<And>a. a \<in> set as \<Longrightarrow> handles i a \<Longrightarrow> \<exists>b\<in>set bs. handles i b) \<Longrightarrow> settled bs i"
  by (auto simp: settled_def)

lemma inbox_ok_mono:
  assumes "inbox_ok jobs as ib" "job_keys jobs \<subseteq> job_keys jobs'"
    and "\<And>i a. a \<in> set as \<Longrightarrow> handles i a \<Longrightarrow> \<exists>b\<in>set bs. handles i b"
    and "\<And>b. b \<in> set bs \<Longrightarrow> \<exists>a\<in>set as. \<forall>i. handles i a \<longrightarrow> handles i b"
  shows "inbox_ok jobs' bs ib"
proof -
  have "settled as i \<Longrightarrow> settled bs i" for i by (rule settled_mono) (use assms(3) in auto)
  moreover have "\<exists>i\<in>set ib. handles i b" if b: "b \<in> set bs" for b
    using assms(1) assms(4) [OF b] unfolding inbox_ok_def by blast
  ultimately show ?thesis using assms(1,2) by (auto simp: inbox_ok_def)
qed

lemma finish_inbox_ok:
  assumes "inbox_ok jobs as ib" "job_keys jobs' = job_keys jobs"
    and "sql_update attempt_check (finish_attempt_where q) (finish_attempt_values q) as = Inr (as', k)"
  shows "inbox_ok jobs' as' ib"
proof (rule inbox_ok_mono [OF assms(1)])
  let ?f = "\<lambda>a. if finish_attempt_where q a then finish_attempt_values q a else a"
  have as': "as' = map ?f as" using assms(3) by (simp add: sql_update_Inr)
  have h: "handles i (?f a) = handles i a" for i a by (simp add: handles_def finish_attempt_values_def)
  show "\<exists>b\<in>set as'. handles i b" if "a \<in> set as" "handles i a" for i a
  proof (rule bexI)
    show "handles i (?f a)" using h that(2) by blast
    show "?f a \<in> set as'" using that(1) unfolding as' set_map by (rule imageI)
  qed
  show "\<exists>a\<in>set as. \<forall>i. handles i a \<longrightarrow> handles i b" if b: "b \<in> set as'" for b
  proof -
    obtain a where "a \<in> set as" "b = ?f a" using b as' by auto
    then show ?thesis using h [of _ a] by auto
  qed
qed (simp add: assms(2))

lemma inbox_ok_append:
  assumes "inbox_ok jobs as ib" "\<forall>k\<in>set ib. \<not> inbox_conflict i k" "inbox_check i"
    and "(ib_tenant_id i, ib_job_id i) \<in> job_keys jobs" "job_keys jobs' = job_keys jobs"
    and "settled (as @ new) i" "\<forall>a\<in>set new. handles i a"
  shows "inbox_ok jobs' (as @ new) (ib @ [i])"
proof -
  have "settled as k \<Longrightarrow> settled (as @ new) k" for k by (auto simp: settled_def)
  then show ?thesis using assms by (auto simp: inbox_ok_def inbox_conflict_def)
qed

lemma outbox_ok_keys: "outbox_ok jobs ob \<Longrightarrow> job_keys jobs \<subseteq> job_keys jobs' \<Longrightarrow> outbox_ok jobs' ob"
  by (auto simp: outbox_ok_def)

lemma outbox_ok_update:
  assumes "sql_update outbox_check p f ob = Inr (ob', n)" "outbox_ok jobs ob"
    and keep: "\<And>b. ob_id (f b) = ob_id b \<and> ob_tenant_id (f b) = ob_tenant_id b \<and> ob_job_id (f b) = ob_job_id b"
  shows "outbox_ok jobs ob'"
proof -
  have "map ob_id ob' = map ob_id ob" using assms(1) keep by (auto simp: sql_update_Inr)
  moreover have "list_all outbox_check ob'" using sql_update_chk [OF assms(1)] assms(2) by (simp add: outbox_ok_def)
  moreover have "(ob_tenant_id b, ob_job_id b) \<in> job_keys jobs" if b: "b \<in> set ob'" for b
    using assms(1,2) b keep by (auto simp: sql_update_Inr outbox_ok_def split: if_splits)
  ultimately show ?thesis using assms(2) by (simp add: outbox_ok_def)
qed

subsection \<open>What a publisher transaction does\<close>

text \<open>The row \<open>b\<close> claimed as \<open>b'\<close> at position \<open>k\<close> of a batch.\<close>

definition claimed_as :: "crypto \<Rightarrow> EnvelopeFactory \<Rightarrow> (nat \<Rightarrow> uuid) \<Rightarrow> string \<Rightarrow> int \<Rightarrow> outbox_row \<Rightarrow> outbox_row \<Rightarrow> bool" where
  "claimed_as cr factory tokens worker x b b' \<longleftrightarrow>
     (\<exists>k b1. assign_envelope cr factory k b = Inr b1 \<and> b' = claim_outbox_values worker (tokens k) x b1)"

lemma assign_envelope_keeps:
  "assign_envelope cr factory k b = Inr b1 \<Longrightarrow>
     ob_id b1 = ob_id b \<and> ob_tenant_id b1 = ob_tenant_id b \<and> ob_job_id b1 = ob_job_id b \<and> ob_version b1 = ob_version b
     \<and> ob_correlation_id b1 = ob_correlation_id b \<and> ob_schema_version b1 = ob_schema_version b
     \<and> ob_status b1 = ob_status b \<and> ob_publish_attempt_count b1 = ob_publish_attempt_count b"
  by (auto simp: assign_envelope_def validate_simps split: if_splits option.splits)

lemma claimed_as_keeps:
  "claimed_as cr factory tokens worker x b b' \<Longrightarrow>
     ob_id b' = ob_id b \<and> ob_tenant_id b' = ob_tenant_id b \<and> ob_job_id b' = ob_job_id b"
  by (auto simp: claimed_as_def claim_outbox_values_def dest!: assign_envelope_keeps)

lemma claimed_asI:
  "assign_envelope cr factory k b = Inr b1 \<Longrightarrow>
     claimed_as cr factory tokens worker x b (claim_outbox_values worker (tokens k) x b1)"
  by (auto simp: claimed_as_def)

lemma claim_rows_related:
  "claim_rows cr factory tokens worker x i bs = Inr res \<Longrightarrow>
     list_all2 (\<lambda>b p. claimed_as cr factory tokens worker x b (fst p) \<and> claimed_outbox (fst p) = Inr (snd p)) bs res"
proof (induction bs arbitrary: i res)
  case (Cons b bs)
  then show ?case by (auto simp: validate_simps Let_def intro: claimed_asI)
qed simp

lemma select_outbox_rows:
  "set (select_outbox n limit locked rows) \<subseteq> {b \<in> set rows. due_outbox n b}"
  "distinct (map ob_id rows) \<Longrightarrow> distinct (map ob_id (select_outbox n limit locked rows))"
proof -
  show "set (select_outbox n limit locked rows) \<subseteq> {b \<in> set rows. due_outbox n b}"
    by (auto simp: select_outbox_def dest: in_set_takeD)
  assume "distinct (map ob_id rows)"
  then have "distinct (map ob_id (sort_key ob_id (filter (due_outbox n) rows)))"
    by (simp add: distinct_map inj_on_def)
  then show "distinct (map ob_id (select_outbox n limit locked rows))"
    by (simp add: select_outbox_def distinct_map_filter take_map [symmetric])
qed

lemma claim_outbox_batch_Inr:
  assumes "claim_outbox_batch cr factory tokens locked now expires worker limit db = Inr (claimed, db')"
    and "distinct (map ob_id (db_outbox db))"
  obtains rows x where "db' = db\<lparr>db_outbox := rows\<rparr>" "dt_wall expires = x" "is_utc now"
    "list_all2 (\<lambda>b b'. b' = b \<or> due_outbox (dt_wall now) b \<and> claimed_as cr factory tokens worker x b b' \<and> outbox_check b')
       (db_outbox db) rows"
    "\<forall>c\<in>set claimed. \<exists>b\<in>set (db_outbox db). \<exists>b'\<in>set rows. claimed_as cr factory tokens worker x b b'
       \<and> due_outbox (dt_wall now) b \<and> claimed_outbox b' = Inr c"
proof -
  let ?rows = "db_outbox db" and ?x = "dt_wall expires"
  define sel where "sel = select_outbox (dt_wall now) limit locked ?rows"
  obtain res rows where utc: "is_utc now"
    and res: "claim_rows cr factory tokens worker ?x 0 sel = Inr res"
    and flush: "flush_outbox (map fst res) ?rows = Inr rows"
    and out: "claimed = map snd res" "db' = db\<lparr>db_outbox := rows\<rparr>"
    using assms(1) by (auto simp: claim_outbox_batch_def validate_simps time_simps sel_def)
  have rel: "list_all2 (\<lambda>b p. claimed_as cr factory tokens worker ?x b (fst p) \<and> claimed_outbox (fst p) = Inr (snd p)) sel res"
    by (rule claim_rows_related [OF res])
  have chk: "\<forall>b\<in>set (map fst res). outbox_check b" and rows: "rows = write_back (map fst res) ?rows"
    using flush by (auto simp: flush_outbox_def list_all_iff split: if_splits)
  have sel: "set sel \<subseteq> {b \<in> set ?rows. due_outbox (dt_wall now) b}" "distinct (map ob_id sel)"
    unfolding sel_def using select_outbox_rows assms(2) by blast+
  have ids: "map ob_id (map fst res) = map ob_id sel"
    using rel by (intro nth_equalityI) (auto simp: list_all2_conv_all_nth dest: claimed_as_keeps)
  have source: "\<exists>b\<in>set sel. claimed_as cr factory tokens worker ?x b (fst p) \<and> claimed_outbox (fst p) = Inr (snd p)"
    if p: "p \<in> set res" for p
  proof -
    obtain k where "k < length res" "p = res ! k" using p by (auto simp: in_set_conv_nth)
    then show ?thesis using rel by (intro bexI [of _ "sel ! k"]) (auto simp: list_all2_conv_all_nth)
  qed
  have same: "b = b0" if "b \<in> set ?rows" "b0 \<in> set ?rows" "ob_id b = ob_id b0" for b b0
    using assms(2) that by (auto simp: distinct_map dest: inj_onD)
  have change: "b' = b \<or> due_outbox (dt_wall now) b \<and> claimed_as cr factory tokens worker ?x b b' \<and> outbox_check b'"
    if b: "b \<in> set ?rows" "b' = (case row_of ob_id (ob_id b) (map fst res) of None \<Rightarrow> b | Some c \<Rightarrow> c)" for b b'
  proof (cases "row_of ob_id (ob_id b) (map fst res)")
    case (Some c)
    then obtain p where p: "p \<in> set res" "c = fst p" "ob_id c = ob_id b" using row_of_SomeD [OF Some] by auto
    then obtain b0 where b0: "b0 \<in> set sel" "claimed_as cr factory tokens worker ?x b0 c" using source by blast
    then have "b0 = b" using same [of b0 b] b(1) p(3) sel(1) claimed_as_keeps [OF b0(2)] by auto
    then show ?thesis using b0 b(2) Some sel(1) chk p by auto
  qed (use b in simp)
  have 1: "list_all2 (\<lambda>b b'. b' = b \<or> due_outbox (dt_wall now) b \<and> claimed_as cr factory tokens worker ?x b b' \<and> outbox_check b')
      ?rows rows"
    unfolding rows write_back_def list.rel_map by (rule list.rel_refl_strong) (use change in blast)
  have 2: "\<exists>b\<in>set ?rows. \<exists>b'\<in>set rows. claimed_as cr factory tokens worker ?x b b'
       \<and> due_outbox (dt_wall now) b \<and> claimed_outbox b' = Inr c" if c: "c \<in> set claimed" for c
  proof -
    obtain p where p: "p \<in> set res" "c = snd p" using c out(1) by auto
    then obtain b where b: "b \<in> set sel" "claimed_as cr factory tokens worker ?x b (fst p)" "claimed_outbox (fst p) = Inr c"
      using source by blast
    have "row_of ob_id (ob_id b) (map fst res) = Some (fst p)"
      using row_of_iff [of ob_id "map fst res"] sel(2) ids p(1) claimed_as_keeps [OF b(2)] by auto
    then have "fst p \<in> set rows" using b(1) sel(1) by (force simp: rows write_back_def image_iff)
    then show ?thesis using b sel(1) by blast
  qed
  show thesis using that [OF out(2) refl utc 1] 2 by blast
qed

lemma add_job_graph_Inr:
  assumes "add_job_graph g db = Inr db'"
  obtains r grant outbox where "job_model (graph_job g) = Inr r" "grant_model (graph_grant g) = Inr grant"
    "outbox_model (graph_outbox g) (job_correlation_id (graph_job g)) = Inr outbox"
    "sql_insert job_check (\<lambda>a b. job_id a = job_id b) r (db_jobs db) = Inr (db_jobs db @ [r])"
    "sql_insert grant_check grant_conflict grant (db_grants db) = Inr (db_grants db @ [grant])"
    "sql_insert outbox_check outbox_conflict outbox (db_outbox db) = Inr (db_outbox db @ [outbox])"
    "(ob_tenant_id outbox, ob_job_id outbox) \<in> job_keys (db_jobs db @ [r])"
    "db' = db\<lparr>db_jobs := db_jobs db @ [r], db_grants := db_grants db @ [grant], db_outbox := db_outbox db @ [outbox]\<rparr>"
  using assms by (auto simp: add_job_graph_def validate_simps Let_def table_rules has_job_keys)

lemma outbox_ok_new:
  assumes "sql_insert outbox_check outbox_conflict b ob = Inr (ob @ [b])" "outbox_ok jobs ob"
    and "(ob_tenant_id b, ob_job_id b) \<in> job_keys jobs"
  shows "outbox_ok jobs (ob @ [b])"
  using assms by (auto simp: outbox_ok_def sql_insert_Inr outbox_conflict_def)

lemma outbox_ok_claimed:
  assumes "list_all2 (\<lambda>b b'. b' = b \<or> P b \<and> claimed_as cr factory tokens worker x b b' \<and> outbox_check b') ob ob'"
    and "outbox_ok jobs ob"
  shows "outbox_ok jobs ob'"
proof -
  let ?key = "\<lambda>b. (ob_id b, ob_tenant_id b, ob_job_id b)"
  have "map ?key ob' = map ?key ob"
    using assms(1) by (intro nth_equalityI) (auto simp: list_all2_conv_all_nth dest: claimed_as_keeps)
  then have "map fst (map ?key ob') = map fst (map ?key ob)" "set (map snd (map ?key ob')) = set (map snd (map ?key ob))"
    by simp_all
  then have k: "map ob_id ob' = map ob_id ob"
    "(\<lambda>b. (ob_tenant_id b, ob_job_id b)) ` set ob' = (\<lambda>b. (ob_tenant_id b, ob_job_id b)) ` set ob"
    by (simp_all add: comp_def)
  have "list_all outbox_check ob'"
    using assms by (auto simp: list_all_length list_all2_conv_all_nth outbox_ok_def)
  moreover have "\<forall>b\<in>set ob'. (ob_tenant_id b, ob_job_id b) \<in> job_keys jobs"
  proof
    fix b assume "b \<in> set ob'"
    then have "(ob_tenant_id b, ob_job_id b) \<in> (\<lambda>b. (ob_tenant_id b, ob_job_id b)) ` set ob" using k(2) by blast
    then show "(ob_tenant_id b, ob_job_id b) \<in> job_keys jobs" using assms(2) by (auto simp: outbox_ok_def)
  qed
  ultimately show ?thesis using assms(2) k(1) by (simp add: outbox_ok_def)
qed

lemma mark_published_Inr [step_effects]:
  "mark_published c now db = Inr (ok, db') \<Longrightarrow>
     \<exists>rows n. sql_update outbox_check (settle_where \<lparr>set_claim = c, set_error = None, set_now = now\<rparr>)
         (published_values \<lparr>set_claim = c, set_error = None, set_now = now\<rparr>) (db_outbox db) = Inr (rows, n)
       \<and> ok = (n = 1) \<and> db' = db\<lparr>db_outbox := rows\<rparr>"
  by (auto simp: mark_published_def validate_simps Let_def)

lemma release_or_block_Inr [step_effects]:
  "release_or_block c error now db = Inr (ok, db') \<Longrightarrow>
     \<exists>rows n. sql_update outbox_check (settle_where \<lparr>set_claim = c, set_error = Some error, set_now = now\<rparr>)
         (released_values \<lparr>set_claim = c, set_error = Some error, set_now = now\<rparr>) (db_outbox db) = Inr (rows, n)
       \<and> ok = (n = 1) \<and> db' = db\<lparr>db_outbox := rows\<rparr>"
  by (auto simp: release_or_block_def bindE_eq_Inr split_Inr Let_def)

lemma settle_values_keys:
  "ob_id (published_values q b) = ob_id b \<and> ob_tenant_id (published_values q b) = ob_tenant_id b
     \<and> ob_job_id (published_values q b) = ob_job_id b"
  "ob_id (released_values q b) = ob_id b \<and> ob_tenant_id (released_values q b) = ob_tenant_id b
     \<and> ob_job_id (released_values q b) = ob_job_id b"
  by (simp_all add: published_values_def released_values_def Let_def)

lemma runtime_ok_outbox: "runtime_ok db \<Longrightarrow> outbox_ok (db_jobs db) rows \<Longrightarrow> runtime_ok (db\<lparr>db_outbox := rows\<rparr>)"
  by (simp add: runtime_ok_def)

lemma runtime_ok_parts:
  "runtime_ok db \<Longrightarrow> jobs_ok (db_jobs db) (db_attempts db)" "runtime_ok db \<Longrightarrow> outbox_ok (db_jobs db) (db_outbox db)"
  "runtime_ok db \<Longrightarrow> inbox_ok (db_jobs db) (db_attempts db) (db_inbox db)"
  "runtime_ok db \<Longrightarrow> distinct (map job_id (db_jobs db))" "runtime_ok db \<Longrightarrow> distinct (map ob_id (db_outbox db))"
  by (simp_all add: runtime_ok_def jobs_ok_def outbox_ok_def)

subsection \<open>The step relation\<close>

text \<open>
  One committed transaction.  \<open>submit\<close> takes a graph as \<open>AIJobService.create\<close> builds it; \<open>elsewhere\<close>
  is any transaction of another service, which writes neither the jobs nor their attempts, inbox or
  outbox rows.
\<close>

inductive runtime_step :: "crypto \<Rightarrow> EnvelopeSigner \<Rightarrow> job_db \<Rightarrow> job_db \<Rightarrow> bool" for cr signer where
  submit: "NewAIJobGraph_post_init g = Inr () \<Longrightarrow> job_status (graph_job g) = QUEUED
    \<Longrightarrow> job_current_attempt_no (graph_job g) = 0 \<Longrightarrow> add_job_graph g db = Inr db' \<Longrightarrow> runtime_step cr signer db db'"
| deliver: "accept_delivery cr w ids t m j e now db = Inr (d, db') \<Longrightarrow> runtime_step cr signer db db'"
| heartbeat: "repo_heartbeat hq db = Inr (ok, db') \<Longrightarrow> runtime_step cr signer db db'"
| finish: "finalize_success fq db = Inr (ok, db') \<Longrightarrow> runtime_step cr signer db db'"
| cancel: "cancel_claimable_job cq db = Inr (ok, db') \<Longrightarrow> runtime_step cr signer db db'"
| claim_batch: "claim_outbox_batch cr (signing_envelope_factory cr signer uuids nonces clock) tokens locked now
      expires publisher limit db = Inr (claimed, db') \<Longrightarrow> runtime_step cr signer db db'"
| published: "mark_published c now db = Inr (ok, db') \<Longrightarrow> runtime_step cr signer db db'"
| released: "release_or_block c error now db = Inr (ok, db') \<Longrightarrow> runtime_step cr signer db db'"
| elsewhere: "db_jobs db' = db_jobs db \<Longrightarrow> db_attempts db' = db_attempts db \<Longrightarrow> db_inbox db' = db_inbox db
    \<Longrightarrow> db_outbox db' = db_outbox db \<Longrightarrow> runtime_step cr signer db db'"

inductive runtime_run :: "crypto \<Rightarrow> EnvelopeSigner \<Rightarrow> job_db \<Rightarrow> job_db \<Rightarrow> bool" for cr signer where
  idle: "runtime_run cr signer db db"
| more: "runtime_run cr signer db db1 \<Longrightarrow> runtime_step cr signer db1 db2 \<Longrightarrow> runtime_run cr signer db db2"

lemma runtime_run_trans: "runtime_run cr signer db1 db2 \<Longrightarrow> runtime_run cr signer db db1 \<Longrightarrow> runtime_run cr signer db db2"
  by (induction rule: runtime_run.induct) (auto intro: runtime_run.more)

text \<open>A predicate that every step keeps holds along every run from an initial state in which it holds.\<close>

lemma runtime_run_keeps:
  assumes "runtime_run cr signer db db'" "P db" "\<And>db1 db2. runtime_step cr signer db1 db2 \<Longrightarrow> P db1 \<Longrightarrow> P db2"
  shows "P db'"
  using assms(1,2) by (induction rule: runtime_run.induct) (auto intro: assms(3))

subsection \<open>Every step keeps the invariant\<close>

lemma job_values_keys:
  "job_id (claim_values cq r) = job_id r \<and> job_tenant_id (claim_values cq r) = job_tenant_id r"
  "job_id (heartbeat_values hq r) = job_id r \<and> job_tenant_id (heartbeat_values hq r) = job_tenant_id r"
  "job_id (finalize_values fq r) = job_id r \<and> job_tenant_id (finalize_values fq r) = job_tenant_id r"
  "job_id (fail_values xq r) = job_id r \<and> job_tenant_id (fail_values xq r) = job_tenant_id r"
  "job_id (cancel_values nq r) = job_id r \<and> job_tenant_id (cancel_values nq r) = job_tenant_id r"
  by (simp_all add: job_update_defs)

lemma inbox_ok_jobs: "inbox_ok jobs as ib \<Longrightarrow> job_keys jobs' = job_keys jobs \<Longrightarrow> inbox_ok jobs' as ib"
  by (simp add: inbox_ok_def)

lemma runtime_ok_jobs:
  assumes "runtime_ok db" "jobs_ok jobs (db_attempts db)" "job_keys jobs = job_keys (db_jobs db)"
  shows "runtime_ok (db\<lparr>db_jobs := jobs\<rparr>)"
  using assms inbox_ok_jobs outbox_ok_keys by (auto simp: runtime_ok_def)

lemma submit_ok:
  assumes "add_job_graph g db = Inr db'" "job_status (graph_job g) = QUEUED"
    and "job_current_attempt_no (graph_job g) = 0" "runtime_ok db"
  shows "runtime_ok db'"
proof -
  obtain r grant outbox where r: "job_model (graph_job g) = Inr r"
    and ins: "sql_insert job_check (\<lambda>a b. job_id a = job_id b) r (db_jobs db) = Inr (db_jobs db @ [r])"
    and ob: "sql_insert outbox_check outbox_conflict outbox (db_outbox db) = Inr (db_outbox db @ [outbox])"
      "(ob_tenant_id outbox, ob_job_id outbox) \<in> job_keys (db_jobs db @ [r])"
    and db': "db' = db\<lparr>db_jobs := db_jobs db @ [r], db_grants := db_grants db @ [grant], db_outbox := db_outbox db @ [outbox]\<rparr>"
    using assms(1) by (rule add_job_graph_Inr)
  have "job_status r = QUEUED" "job_current_attempt_no r = 0"
    using assms(2,3) job_model_aware [OF r] by (metis aware_job_fields(3), metis aware_job_fields(4))
  then have jobs: "jobs_ok (db_jobs db @ [r]) (db_attempts db)"
    using jobs_ok_new [OF ins] assms(4) by (simp add: runtime_ok_def)
  have mono: "job_keys (db_jobs db) \<subseteq> job_keys (db_jobs db @ [r])" by (auto simp: job_keys_def)
  have inbox: "inbox_ok (db_jobs db @ [r]) (db_attempts db) (db_inbox db)"
    by (rule inbox_ok_mono [OF _ mono]) (use assms(4) in \<open>auto simp: runtime_ok_def\<close>)
  have "outbox_ok (db_jobs db @ [r]) (db_outbox db)"
    using assms(4) mono by (auto simp: runtime_ok_def intro: outbox_ok_keys)
  then have "outbox_ok (db_jobs db @ [r]) (db_outbox db @ [outbox])" using outbox_ok_new ob by blast
  with jobs inbox show ?thesis by (simp add: db' runtime_ok_def)
qed

lemma first_delivery_row:
  "first_delivery cr ids t m j e now db i r authority decision \<Longrightarrow>
     ib_tenant_id i = t \<and> ib_message_id i = m \<and> ib_job_id i = j \<and> ib_id i = fresh_inbox ids
     \<and> ib_handling_attempt_id i = None \<and> ib_handling_fence i = None \<and> ib_status i = InboxStatus_ACCEPTED
     \<and> (t, j) \<in> job_keys (db_jobs db) \<and> (\<forall>k\<in>set (db_inbox db). \<not> inbox_conflict i k)"
  by (auto simp: first_delivery_def first_row_def accepted_row_def has_job_keys)

lemma terminal_row_ok:
  assumes "inbox_ok jobs as ib" "ib_handling_attempt_id i = None" "ib_handling_fence i = None"
    and "\<forall>k\<in>set ib. \<not> inbox_conflict i k" "(ib_tenant_id i, ib_job_id i) \<in> job_keys jobs" "job_keys jobs' = job_keys jobs"
  shows "inbox_ok jobs' as (ib @ [terminal_values q i])"
  using inbox_ok_append [of jobs as ib "terminal_values q i" jobs' "[]"] assms
  by (simp add: terminal_values_def inbox_check_def inbox_conflict_def settled_def)

lemma deliver_ok:
  assumes "accept_delivery cr w ids t m j e now db = Inr (d, db')" "runtime_ok db"
  shows "runtime_ok db'"
  using assms(1)
proof (cases rule: accept_deliveryE)
  case seen
  then show ?thesis using assms(2) by simp
next
  case (denied i r authority decision jobs n)
  note i = first_delivery_row [OF denied(1)]
  have "jobs_ok jobs (db_attempts db) \<and> job_keys jobs = job_keys (db_jobs db)"
  proof (cases "job_status r \<in> set claimable_statuses")
    case True
    then have u: "sql_update job_check (fail_where (authority_failure t j (job_reason_code decision) now))
        (fail_values (authority_failure t j (job_reason_code decision) now)) (db_jobs db) = Inr (jobs, n)"
      using denied(4) by simp
    show ?thesis
      using fail_jobs_ok [OF u] job_update_keys [OF u job_values_keys(4)] assms(2) by (simp add: runtime_ok_def)
  next
    case False
    then show ?thesis using denied(4) assms(2) by (simp add: runtime_ok_def)
  qed
  then have jobs: "jobs_ok jobs (db_attempts db)" and keys: "job_keys jobs = job_keys (db_jobs db)" by auto
  show ?thesis
    unfolding denied(5) using assms(2) jobs keys i terminal_row_ok outbox_ok_keys by (auto simp: runtime_ok_def)
next
  case (lost i r authority decision q jobs n)
  note i = first_delivery_row [OF lost(1)]
  have d: "distinct (map job_id (db_jobs db))" using assms(2) by (simp add: runtime_ok_def jobs_ok_def)
  have "jobs = db_jobs db" using claim.loser_kept [OF d lost(5,6)] .
  then show ?thesis
    unfolding lost(7) using assms(2) i terminal_row_ok by (auto simp: runtime_ok_def)
next
  case (claimed i r authority decision q jobs)
  note i = first_delivery_row [OF claimed(1)]
  have keys: "job_keys jobs = job_keys (db_jobs db)"
    using job_update_keys [OF claimed(5) job_values_keys(1)] by simp
  have jobs: "jobs_ok jobs (db_attempts db @ [claimed_attempt q])"
    using claim_jobs_ok [OF claimed(5) _ claimed(6,7)] assms(2) by (simp add: runtime_ok_def)
  let ?i = "bind_values (binding ids (claim_lease_fence q) now) i"
  have "handles ?i (claimed_attempt q)"
    using i by (simp add: handles_def bind_values_def binding_def claimed_attempt_def claimed(3) worker_claim_def)
  then have "inbox_ok jobs (db_attempts db @ [claimed_attempt q]) (db_inbox db @ [?i])"
    using assms(2) i keys
    by (intro inbox_ok_append [of "db_jobs db"])
      (auto simp: runtime_ok_def bind_values_def inbox_check_def inbox_conflict_def settled_def)
  then show ?thesis
    unfolding claimed(8) using assms(2) jobs keys outbox_ok_keys by (auto simp: runtime_ok_def)
qed

lemma finish_ok:
  assumes "finalize_success q db = Inr (ok, db')" "runtime_ok db"
  shows "runtime_ok db'"
proof -
  obtain rows n where u: "sql_update job_check (finalize_where q) (finalize_values q) (db_jobs db) = Inr (rows, n)"
    and fin: "if n = 1 then \<exists>attempts k. sql_update attempt_check (finish_attempt_where q) (finish_attempt_values q)
         (db_attempts db) = Inr (attempts, k) \<and> db' = db\<lparr>db_jobs := rows, db_attempts := attempts\<rparr>
       else db' = db\<lparr>db_jobs := rows\<rparr>"
    using finalize_success_Inr [OF assms(1)] by blast
  have d: "distinct (map job_id (db_jobs db))" using assms(2) by (simp add: runtime_ok_def jobs_ok_def)
  have keys: "job_keys rows = job_keys (db_jobs db)" using job_update_keys [OF u job_values_keys(3)] by simp
  show ?thesis
  proof (cases "n = 1")
    case True
    with fin obtain attempts k where a: "sql_update attempt_check (finish_attempt_where q) (finish_attempt_values q)
         (db_attempts db) = Inr (attempts, k)" and db': "db' = db\<lparr>db_jobs := rows, db_attempts := attempts\<rparr>" by auto
    have "jobs_ok rows attempts"
      using finalize_jobs_ok [OF _ _ a] u True assms(2) by (auto simp: runtime_ok_def)
    moreover have "inbox_ok rows attempts (db_inbox db)"
      using finish_inbox_ok [OF _ keys a] assms(2) by (auto simp: runtime_ok_def)
    ultimately show ?thesis using assms(2) keys outbox_ok_keys by (auto simp: runtime_ok_def db')
  next
    case False
    then show ?thesis using fin finalize.loser_kept [OF d u] assms(2) by simp
  qed
qed

theorem runtime_step_ok: "runtime_step cr signer db db' \<Longrightarrow> runtime_ok db \<Longrightarrow> runtime_ok db'"
proof (induction rule: runtime_step.induct)
  case (submit g db db')
  show ?case by (rule submit_ok [OF submit.hyps(4,2,3) submit.prems])
next
  case (deliver w ids t m j e now db d db')
  then show ?case by (rule deliver_ok)
next
  case (heartbeat hq db ok db')
  then obtain rows n where u: "sql_update job_check (heartbeat_where hq) (heartbeat_values hq) (db_jobs db) = Inr (rows, n)"
    "db' = db\<lparr>db_jobs := rows\<rparr>" by (auto dest!: repo_heartbeat_Inr)
  show ?case
    unfolding u(2) using heartbeat.prems heartbeat_jobs_ok [OF u(1)] job_update_keys [OF u(1) job_values_keys(2)]
    by (intro runtime_ok_jobs) (auto simp: runtime_ok_def)
next
  case (finish fq db ok db')
  then show ?case by (rule finish_ok)
next
  case (cancel cq db ok db')
  then obtain rows n where u: "sql_update job_check (cancel_where cq) (cancel_values cq) (db_jobs db) = Inr (rows, n)"
    "db' = db\<lparr>db_jobs := rows\<rparr>" by (auto dest!: cancel_claimable_job_Inr)
  show ?case
    unfolding u(2) using cancel.prems cancel_jobs_ok [OF u(1)] job_update_keys [OF u(1) job_values_keys(5)]
    by (intro runtime_ok_jobs) (auto simp: runtime_ok_def)
next
  case (claim_batch uuids nonces clock tokens locked now expires publisher limit db claimed db')
  note ob = runtime_ok_parts(2,5) [OF claim_batch.prems]
  from claim_batch.hyps ob(2) show ?case
  proof (rule claim_outbox_batch_Inr)
    fix rows x
    assume db': "db' = db\<lparr>db_outbox := rows\<rparr>" and
      "list_all2 (\<lambda>b b'. b' = b \<or> due_outbox (dt_wall now) b
         \<and> claimed_as cr (signing_envelope_factory cr signer uuids nonces clock) tokens publisher x b b'
         \<and> outbox_check b') (db_outbox db) rows"
    then have "outbox_ok (db_jobs db) rows" using outbox_ok_claimed ob(1) by blast
    then show "runtime_ok db'" unfolding db' using claim_batch.prems by (rule runtime_ok_outbox [rotated])
  qed
next
  case (published c now db ok db')
  from mark_published_Inr [OF published.hyps] obtain rows n where
    u: "sql_update outbox_check (settle_where \<lparr>set_claim = c, set_error = None, set_now = now\<rparr>)
         (published_values \<lparr>set_claim = c, set_error = None, set_now = now\<rparr>) (db_outbox db) = Inr (rows, n)"
    "db' = db\<lparr>db_outbox := rows\<rparr>" by blast
  show ?case
    unfolding u(2) using published.prems outbox_ok_update [OF u(1) _ settle_values_keys(1)]
    by (intro runtime_ok_outbox) (auto dest: runtime_ok_parts)
next
  case (released c error now db ok db')
  from release_or_block_Inr [OF released.hyps] obtain rows n where
    u: "sql_update outbox_check (settle_where \<lparr>set_claim = c, set_error = Some error, set_now = now\<rparr>)
         (released_values \<lparr>set_claim = c, set_error = Some error, set_now = now\<rparr>) (db_outbox db) = Inr (rows, n)"
    "db' = db\<lparr>db_outbox := rows\<rparr>" by blast
  show ?case
    unfolding u(2) using released.prems outbox_ok_update [OF u(1) _ settle_values_keys(2)]
    by (intro runtime_ok_outbox) (auto dest: runtime_ok_parts)
next
  case (elsewhere db' db)
  then show ?case by (simp add: runtime_ok_def)
qed

end
