(* ===== verification/JobSamples.thy ===== *)
theory JobSamples
  imports JobInvariant
begin

text \<open>
  A concrete database with one queued job of a teacher, and the delivery of its message, for the
  evaluations of the runtime on concrete inputs.
\<close>

definition sample_row :: job_row where
  "sample_row = (case job_model sample_job of Inr r \<Rightarrow> r | Inl _ \<Rightarrow> undefined)"

definition sample_outbox_row :: outbox_row where
  "sample_outbox_row = \<lparr>ob_id = u7 9, ob_tenant_id = u7 1, ob_job_id = u7 5, ob_dispatch_generation = 1,
     ob_envelope_generation = 1, ob_max_envelope_generations = 4, ob_event_type = ''ai.job.execute'',
     ob_routing_key = ''ai.job.execute'', ob_schema_version = 1, ob_message_id = None,
     ob_correlation_id = Some (u7 7), ob_issued_at = None, ob_nonce = None, ob_signature = None,
     ob_envelope_digest = None, ob_recovery_source_fence = None, ob_source_attempt_id = None,
     ob_status = Outbox_PENDING, ob_available_at = 10, ob_publish_attempt_count = 0,
     ob_max_publish_attempts = 8, ob_claim_owner = None, ob_claim_token = None, ob_claim_fence = None,
     ob_claim_expires_at = None, ob_published_at = None, ob_confirmed_at = None,
     ob_last_error_code = None, ob_version = 1\<rparr>"

definition sample_db :: job_db where
  "sample_db = \<lparr>db_jobs = [sample_row],
     db_grants = (case grant_model sample_grant of Inr g \<Rightarrow> [g] | Inl _ \<Rightarrow> []), db_access = [], db_attempts = [],
     db_outbox = [sample_outbox_row], db_inbox = [],
     db_users = [\<lparr>usr_id = u7 3, usr_status = ''active'', usr_auth_version = 1\<rparr>],
     db_tenants = [\<lparr>ten_id = u7 1, ten_status = TenantStatus_ACTIVE\<rparr>],
     db_memberships = [\<lparr>mbr_id = u7 2, mbr_tenant_id = u7 1, mbr_user_id = u7 3, mbr_department_id = None,
        mbr_member_type = MemberType_INTERNAL, mbr_status = MembershipStatus_ACTIVE, mbr_valid_from = 0,
        mbr_valid_until = None, mbr_authz_version = 1, mbr_version = 1\<rparr>],
     db_roles = [\<lparr>rol_id = u7 13, rol_tenant_id = u7 1, rol_code = ''teacher'', rol_status = ''active''\<rparr>],
     db_assignments = [\<lparr>asg_tenant_id = u7 1, asg_membership_id = u7 2, asg_role_id = u7 13\<rparr>],
     db_role_permissions = [\<lparr>rpm_tenant_id = u7 1, rpm_role_id = u7 13, rpm_permission_id = u7 14\<rparr>],
     db_permissions = [\<lparr>prm_id = u7 14, prm_code = ''ai_job.create'', prm_status = ''active''\<rparr>],
     db_idempotency = [], db_sessions = [(u7 3, u7 4)]\<rparr>"

definition sample_worker :: worker where
  "sample_worker = \<lparr>wk_instance_ref = ''worker'', wk_lease_seconds = 60\<rparr>"

definition sample_ids :: fresh_ids where
  "sample_ids = \<lparr>fresh_inbox = u7 10, fresh_lease = u7 12, fresh_attempt = u7 15\<rparr>"

lemma sample_row_fields:
  "job_model sample_job = Inr sample_row" "aware_job sample_row = sample_job"
  "job_id sample_row = u7 5" "job_tenant_id sample_row = u7 1" "job_status sample_row = QUEUED"
  "job_current_attempt_no sample_row = 0" "job_lease_owner sample_row = None" "job_lease_token sample_row = None"
  "job_next_attempt_at sample_row = None" "job_expires_at sample_row = 900000010"
  by (simp_all add: sample_row_def job_model_def sample_job_def naive_optional_def aware_job_def aware_optional_def)

lemma sample_row_check: "job_check sample_row"
  by (simp add: sample_row_def job_model_def sample_job_def naive_optional_def job_check_defs seconds_def)

lemma sample_ok: "runtime_ok sample_db"
  using sample_row_check
  by (simp add: runtime_ok_def sample_db_def jobs_ok_def inbox_ok_def outbox_ok_def attempts_match_def sample_row_fields
      lease_holding_statuses_def sample_outbox_row_def outbox_check_def claim_columns_def job_keys_def)

lemma sample_job_valid: "AIJob_post_init sample_job = Inr ()"
  by (simp add: AIJob_post_init_def sample_job_def require_eval check_defs optional_check_def MAX_ATTEMPTS_def require_uuid7_def)

definition sample_grant_row :: grant_row where
  "sample_grant_row = \<lparr>grant_id = u7 8, grant_tenant_id = u7 1, grant_job_id = u7 5, grant_user_id = u7 3,
     grant_membership_id = u7 2, grant_permission_code = Permission_CREATE, grant_auth_version_at_submit = 1,
     grant_authz_version_at_submit = 1, grant_policy_version = JOB_POLICY_VERSION,
     grant_job_scope_manifest_version = JOB_SCOPE_MANIFEST_VERSION, grant_job_scope_code = OWNER_SHARED,
     grant_issued_at = 10, grant_revoked_at = None, grant_revocation_reason_code = None, grant_version = 1\<rparr>"

lemma sample_grants: "db_grants sample_db = [sample_grant_row]" "aware_grant sample_grant_row = sample_grant"
  "grant_of_row sample_grant_row = Inr sample_grant"
  by (simp_all add: sample_db_def grant_model_def sample_grant_def sample_grant_row_def aware_grant_def
      grant_of_row_def JobExecutionGrant_post_init_def require_eval check_defs optional_check_def aware_optional_def require_uuid7_def
      JOB_POLICY_VERSION_def JOB_SCOPE_MANIFEST_VERSION_def)

lemma sample_tables:
  "db_jobs sample_db = [sample_row]" "db_attempts sample_db = []" "db_inbox sample_db = []"
  "db_outbox sample_db = [sample_outbox_row]"
  by (simp_all add: sample_db_def)

lemma sample_roles: "role_rows (u7 1) (u7 2) sample_db = [(''teacher'', Some ''ai_job.create'')]"
  by (simp add: role_rows_def sample_db_def role_permission_codes_def sql_scalar_def)

lemma sample_find: "find_job (u7 1) (u7 5) [sample_row] = Some sample_row"
  by (simp add: find_job_def sql_scalar_def sample_row_fields)

lemma sample_scope: "resolve_scope {''teacher''} = Inr (union_scope {''teacher''}, role_scope_code {''teacher''}, False)"
  using union_scope_code [OF teacher_mapped(1)] teacher_mapped(1) by (auto simp: resolve_scope_def)

lemma sample_codes: "permission_codes_of [(''teacher'', Some ''ai_job.create'')] = {''ai_job.create''}"
  by (simp add: permission_codes_of_def List.map_filter_simps)

lemma sample_authority: "load_authority (u7 1) (u7 5) sample_db = Inr (sample_snapshot ''teacher'')"
proof -
  have g: "sql_scalar (\<lambda>g. grant_tenant_id g = u7 1 \<and> grant_job_id g = u7 5) (db_grants sample_db) = Some sample_grant_row"
    by (simp add: sample_grants sql_scalar_def sample_grant_row_def)
  have f: "grant_user_id sample_grant_row = u7 3" "grant_membership_id sample_grant_row = u7 2"
    "grant_job_scope_code sample_grant_row = OWNER_SHARED"
    by (simp_all add: sample_grant_row_def)
  have u: "sql_scalar (\<lambda>u. usr_id u = u7 3) (db_users sample_db)
      = Some \<lparr>usr_id = u7 3, usr_status = ''active'', usr_auth_version = 1\<rparr>"
    and t: "sql_scalar (\<lambda>t. ten_id t = u7 1) (db_tenants sample_db) = Some \<lparr>ten_id = u7 1, ten_status = TenantStatus_ACTIVE\<rparr>"
    by (simp_all add: sample_db_def sql_scalar_def)
  obtain row where m: "sql_scalar (\<lambda>m. mbr_tenant_id m = u7 1 \<and> mbr_id m = u7 2) (db_memberships sample_db) = Some row"
    "membership_of_row row = Inr sample_membership" "mbr_authz_version row = 1"
    by (simp add: sample_db_def sql_scalar_def membership_of_row_def sample_membership_def Let_def aware_optional_def
        Membership_post_init_def require_eval check_defs require_uuid7_def version_error_def version_ok_def)
  have j: "job_of_row sample_row = Inr sample_job"
    by (simp add: job_of_row_def sample_row_fields sample_job_valid)
  show ?thesis
    unfolding load_authority_def sample_tables sample_find option.case g f u t m(1) prod.case sample_roles
    using m(2,3) sample_scope j
    by (simp add: require_uuid7_def f sample_grants sample_snapshot_def sample_codes Let_def)
qed

text \<open>The worker claims the job on the first delivery of its message.\<close>

definition sample_claim :: ClaimJobRequest where
  "sample_claim = worker_claim sample_worker sample_ids (u7 1) (u7 11) (u7 5) sample_job (aware 20)"

lemma sample_claim_valid: "ClaimJobRequest_post_init sample_claim = Inr ()"
  by (simp add: sample_claim_def worker_claim_def ClaimJobRequest_post_init_def require_eval check_defs require_uuid7_def
      sample_job_def sample_worker_def sample_ids_def seconds_def)

lemma sample_claim_fields:
  "claim_tenant_id sample_claim = u7 1" "claim_job_id sample_claim = u7 5" "claim_started_at sample_claim = aware 20"
  "claim_attempt_no sample_claim = 1" "claim_lease_fence sample_claim = 1" "claim_attempt_id sample_claim = u7 15"
  "claim_trigger_message_id sample_claim = u7 11" "claim_lease_token sample_claim = u7 12"
  "claim_lease_expires_at sample_claim = aware 60000020" "claim_worker_instance_ref sample_claim = ''worker''"
  by (simp_all add: sample_claim_def worker_claim_def sample_job_def sample_worker_def sample_ids_def seconds_def
      dt_plus_def aware_def)

lemma sample_claim_where: "claim_where sample_claim sample_row"
  by (simp add: claim_where_def sample_claim_fields sample_row_fields claimable_statuses_def)

lemma sample_claimed_check: "job_check (claim_values sample_claim sample_row)"
  using claim.change_chk [OF sample_row_check sample_claim_where]
  by (simp add: sample_claim_fields sample_row_def job_model_def sample_job_def naive_optional_def)

lemma sample_claimed_job: "\<exists>j. job_of_row (claim_values sample_claim sample_row) = Inr j"
proof -
  have "aware_job (claim_values sample_claim sample_row) = sample_job\<lparr>job_status := RUNNING, job_current_attempt_no := 1,
      job_lease_owner := Some ''worker'', job_lease_token := Some (u7 12), job_lease_fence := Some 1,
      job_lease_expires_at := Some (aware 60000020), job_started_at := Some (aware 20), job_version := 2\<rparr>"
    by (simp add: claim_values_def aware_job_def sample_claim_fields sample_row_def job_model_def sample_job_def
        naive_optional_def aware_optional_def)
  then have "AIJob_post_init (aware_job (claim_values sample_claim sample_row)) = Inr ()"
    by (simp add: AIJob_post_init_def sample_job_def require_eval check_defs optional_check_def MAX_ATTEMPTS_def
        require_uuid7_def)
  then show ?thesis by (simp add: job_of_row_def)
qed

lemma sample_claim_due:
  "\<exists>x. claim_due_job sample_claim (sample_db\<lparr>db_inbox := ib\<rparr>) = Inr (Claimed x,
     sample_db\<lparr>db_jobs := [claim_values sample_claim sample_row], db_attempts := [claimed_attempt sample_claim], db_inbox := ib\<rparr>)
     \<and> exe_attempt_id x = u7 15 \<and> exe_lease_fence x = 1"
proof -
  obtain j where j: "job_of_row (claim_values sample_claim sample_row) = Inr j" using sample_claimed_job by blast
  have u: "sql_update job_check (claim_where sample_claim) (claim_values sample_claim) [sample_row]
      = Inr ([claim_values sample_claim sample_row], 1)"
    using sample_claim_where sample_claimed_check by (simp add: sql_update_def)
  have f: "find_job (u7 1) (u7 5) [claim_values sample_claim sample_row] = Some (claim_values sample_claim sample_row)"
    by (simp add: find_job_def sql_scalar_def claim_values_def sample_row_fields)
  have a: "sql_insert attempt_check attempt_conflict (claimed_attempt sample_claim) [] = Inr [claimed_attempt sample_claim]"
    by (simp add: sql_insert_def attempt_check_def claimed_attempt_def sample_claim_fields)
  have p: "ClaimedExecution_post_init (claimed_execution sample_claim j) = Inr ()"
    by (simp add: ClaimedExecution_post_init_def claimed_execution_def sample_claim_fields require_eval check_defs
        require_uuid7_def)
  show ?thesis
    using u f a p j
    by (simp add: claim_due_job_def sample_claim_fields sample_tables foreign_key_def has_job_def claim_values_def
        sample_row_fields) (simp add: claimed_execution_def sample_claim_fields)
qed

lemma sample_bind:
  assumes "ib_id i = u7 10" "ib_handling_attempt_id i = None" "ib_handling_fence i = None" "ib_status i = InboxStatus_ACCEPTED"
    and "ib_tenant_id i = u7 1" "ib_job_id i = u7 5" "db_inbox db = [i]" "db_attempts db = [claimed_attempt sample_claim]"
  shows "\<exists>db'. bind_inbox_processing (binding sample_ids 1 (aware 20)) db = Inr (True, db')"
  using assms
  by (simp add: bind_inbox_processing_def binding_def sample_ids_def require_uuid7_def foreign_key_def
      handling_attempt_exists_def bind_where_def sql_update_def bind_values_def inbox_check_def claimed_attempt_def
      sample_claim_fields)

lemma sample_insert:
  "\<exists>digest i. envelope_digest sample_crypto (sample_envelope ''k1'') = Inr digest
     \<and> i = first_row sample_crypto sample_ids (u7 1) (u7 11) (u7 5) (sample_envelope ''k1'') digest (aware n)
     \<and> insert_inbox_accepted (fresh_inbox sample_ids) (u7 1) (u7 11) (u7 5) digest
         (sha256 sample_crypto (ascii (env_nonce (sample_envelope ''k1'')))) (aware n) sample_db
       = Inr (sample_db\<lparr>db_inbox := [i]\<rparr>)"
proof -
  obtain digest where dig: "envelope_digest sample_crypto (sample_envelope ''k1'') = Inr digest" "length digest = 32"
    using sample_bytes [of "''k1''"] by (auto simp: envelope_digest_def sample_crypto_def)
  have non: "length (sha256 sample_crypto (ascii (env_nonce (sample_envelope ''k1'')))) = 32"
    by (simp add: sample_crypto_def)
  have "insert_inbox_accepted (fresh_inbox sample_ids) (u7 1) (u7 11) (u7 5) digest
      (sha256 sample_crypto (ascii (env_nonce (sample_envelope ''k1'')))) (aware n) sample_db
      = Inr (sample_db\<lparr>db_inbox := [first_row sample_crypto sample_ids (u7 1) (u7 11) (u7 5) (sample_envelope ''k1'')
          digest (aware n)]\<rparr>)"
    using dig(2) non
    by (simp add: insert_inbox_accepted_def sample_ids_def require_uuid7_def require_eval foreign_key_def has_job_def
        sample_tables sample_row_fields sql_insert_def inbox_check_def accepted_row_def first_row_def)
  then show ?thesis using dig by blast
qed

lemma sample_unseen: "repo_inbox_row (u7 1) (u7 11) sample_db = Inr None"
  by (simp add: repo_inbox_row_def require_uuid7_def find_inbox_def sql_scalar_def sample_tables)

lemma sample_accept:
  "\<exists>db'. accept_delivery sample_crypto sample_worker sample_ids (u7 1) (u7 11) (u7 5) (sample_envelope ''k1'') (aware 20)
     sample_db = Inr (ACK_CLAIMED, db')"
proof -
  obtain digest i where dig: "envelope_digest sample_crypto (sample_envelope ''k1'') = Inr digest"
    and i: "i = first_row sample_crypto sample_ids (u7 1) (u7 11) (u7 5) (sample_envelope ''k1'') digest (aware 20)"
    and ins: "insert_inbox_accepted (fresh_inbox sample_ids) (u7 1) (u7 11) (u7 5) digest
         (sha256 sample_crypto (ascii (env_nonce (sample_envelope ''k1'')))) (aware 20) sample_db
       = Inr (sample_db\<lparr>db_inbox := [i]\<rparr>)"
    using sample_insert [of 20] by blast
  have ifl: "ib_id i = u7 10" "ib_handling_attempt_id i = None" "ib_handling_fence i = None"
    "ib_status i = InboxStatus_ACCEPTED" "ib_tenant_id i = u7 1" "ib_job_id i = u7 5"
    by (simp_all add: i first_row_def accepted_row_def sample_ids_def)
  obtain x where x: "claim_due_job sample_claim (sample_db\<lparr>db_inbox := [i]\<rparr>) = Inr (Claimed x,
     sample_db\<lparr>db_jobs := [claim_values sample_claim sample_row], db_attempts := [claimed_attempt sample_claim], db_inbox := [i]\<rparr>)"
    "exe_attempt_id x = u7 15" "exe_lease_fence x = 1"
    using sample_claim_due by blast
  obtain db' where b: "bind_inbox_processing (binding sample_ids 1 (aware 20))
     (sample_db\<lparr>db_jobs := [claim_values sample_claim sample_row], db_attempts := [claimed_attempt sample_claim], db_inbox := [i]\<rparr>)
     = Inr (True, db')"
    using sample_bind [OF ifl] by fastforce
  have "claim_delivery sample_worker sample_ids (u7 1) (u7 11) (u7 5) sample_job (aware 20) (sample_db\<lparr>db_inbox := [i]\<rparr>)
      = Inr (ACK_CLAIMED, db')"
    using x b sample_claim_valid
    by (simp add: claim_delivery_def sample_claim_def [symmetric] binding_def) (simp add: sample_ids_def)
  then show ?thesis
    using teacher_allowed [of 20]
    by (simp add: accept_delivery_def sample_unseen dig ins sample_authority)
      (simp add: sample_snapshot_def)
qed

end
