(* ===== verification/JobSafety.thy ===== *)
theory JobSafety
  imports JobSamples
begin

text \<open>
  What the invariant of \<open>JobInvariant\<close> gives: the runtime refines an abstract executor that runs
  every job at most once, for exactly one message, and redelivered messages change nothing.
\<close>

subsection \<open>The abstract executor\<close>

datatype phase = Waiting | Executing uuid | Executed uuid | Abandoned

inductive phase_step :: "phase option \<Rightarrow> phase option \<Rightarrow> bool" where
  submitted: "phase_step None (Some Waiting)"
| started: "phase_step (Some Waiting) (Some (Executing m))"
| finished: "phase_step (Some (Executing m)) (Some (Executed m))"
| abandoned: "phase_step (Some Waiting) (Some Abandoned)"

inductive_cases phase_step_fromE: "phase_step (Some p) q"

fun phase_of :: "AIJobStatus \<Rightarrow> attempt_row list \<Rightarrow> phase option" where
  "phase_of QUEUED [] = Some Waiting"
| "phase_of RETRY_SCHEDULED [] = Some Waiting"
| "phase_of RUNNING [a] = Some (Executing (att_trigger_message_id a))"
| "phase_of CANCEL_REQUESTED [a] = Some (Executing (att_trigger_message_id a))"
| "phase_of SUCCEEDED [a] = Some (Executed (att_trigger_message_id a))"
| "phase_of FAILED [] = Some Abandoned"
| "phase_of CANCELLED [] = Some Abandoned"
| "phase_of _ _ = None"

text \<open>The abstraction: the phase of the job with identifier \<open>k\<close>.\<close>

definition execution :: "job_db \<Rightarrow> uuid \<Rightarrow> phase option" where
  "execution db k = (case row_of job_id k (db_jobs db) of None \<Rightarrow> None
     | Some r \<Rightarrow> phase_of (job_status r) (filter (of_job r) (db_attempts db)))"

definition stutters :: "job_db \<Rightarrow> job_db \<Rightarrow> bool" where
  "stutters db db' \<longleftrightarrow> execution db' = execution db"

definition advances :: "uuid \<Rightarrow> job_db \<Rightarrow> job_db \<Rightarrow> bool" where
  "advances k db db' \<longleftrightarrow> phase_step (execution db k) (execution db' k) \<and> (\<forall>k'. k' \<noteq> k \<longrightarrow> execution db' k' = execution db k')"

lemma phase_total: "attempts_match r as \<Longrightarrow> \<exists>p. phase_of (job_status r) as = Some p"
  by (cases "job_status r") (auto simp: attempts_match_def lease_holding_statuses_def)

lemma execution_cong: "db_jobs db' = db_jobs db \<Longrightarrow> db_attempts db' = db_attempts db \<Longrightarrow> execution db' = execution db"
  by (simp add: execution_def fun_eq_iff split: option.split)

lemma row_of_map_if:
  "(\<And>r. job_id (f r) = job_id r) \<Longrightarrow>
     row_of job_id k (map (\<lambda>r. if p r then f r else r) jobs) = map_option (\<lambda>r. if p r then f r else r) (row_of job_id k jobs)"
  by (induction jobs) (auto simp: row_of_def)

text \<open>An update of jobs that touches one row with the given key, and the attempts of that job only.\<close>

lemma execution_update:
  assumes "sql_update job_check p f (db_jobs db) = Inr (jobs, n)" "db_jobs db' = jobs"
    and keep: "\<And>r. job_id (f r) = job_id r \<and> job_tenant_id (f r) = job_tenant_id r"
    and target: "\<And>r. p r \<Longrightarrow> job_id r = k"
    and others: "\<And>r. r \<in> set (db_jobs db) \<Longrightarrow> job_id r \<noteq> k
      \<Longrightarrow> filter (of_job r) (db_attempts db') = filter (of_job r) (db_attempts db)"
  shows "\<forall>k'. k' \<noteq> k \<longrightarrow> execution db' k' = execution db k'"
    and "execution db' k = (case row_of job_id k (db_jobs db) of None \<Rightarrow> None
      | Some r \<Rightarrow> phase_of (job_status (if p r then f r else r)) (filter (of_job r) (db_attempts db')))"
proof -
  have row: "row_of job_id k' jobs = map_option (\<lambda>r. if p r then f r else r) (row_of job_id k' (db_jobs db))" for k'
    using assms(1) keep by (simp add: sql_update_Inr row_of_map_if)
  show "\<forall>k'. k' \<noteq> k \<longrightarrow> execution db' k' = execution db k'"
  proof (intro allI impI)
    fix k' assume k': "k' \<noteq> k"
    show "execution db' k' = execution db k'"
    proof (cases "row_of job_id k' (db_jobs db)")
      case (Some r)
      then have r: "r \<in> set (db_jobs db)" "job_id r = k'" by (auto dest: row_of_SomeD)
      then have "\<not> p r" using k' target by auto
      then show ?thesis using Some row r k' others assms(2) by (simp add: execution_def)
    qed (simp add: execution_def row assms(2))
  qed
  have "of_job (f r) = of_job r" for r using keep of_job_cong by blast
  then show "execution db' k = (case row_of job_id k (db_jobs db) of None \<Rightarrow> None
      | Some r \<Rightarrow> phase_of (job_status (if p r then f r else r)) (filter (of_job r) (db_attempts db')))"
    using row [of k] assms(2) by (simp add: execution_def split: option.split)
qed

definition refines_step :: "uuid \<Rightarrow> job_db \<Rightarrow> job_db \<Rightarrow> bool" where
  "refines_step k db db' \<longleftrightarrow> stutters db db' \<or> advances k db db'"

lemma refines_step_cases:
  assumes "\<forall>k'. k' \<noteq> k \<longrightarrow> execution db' k' = execution db k'"
    and "execution db' k = execution db k \<or> phase_step (execution db k) (execution db' k)"
  shows "refines_step k db db'"
proof (cases "execution db' k = execution db k")
  case True
  then have "execution db' = execution db" using assms(1) by (metis ext)
  then show ?thesis by (simp add: refines_step_def stutters_def)
qed (use assms in \<open>auto simp: refines_step_def advances_def\<close>)

lemma execution_row:
  "runtime_ok db \<Longrightarrow> row_of job_id k (db_jobs db) = Some r \<Longrightarrow>
     attempts_match r (filter (of_job r) (db_attempts db))
     \<and> execution db k = phase_of (job_status r) (filter (of_job r) (db_attempts db))"
  by (auto simp: execution_def runtime_ok_def jobs_ok_def dest: row_of_SomeD)

lemma status_update_refines:
  assumes "sql_update job_check p f (db_jobs db) = Inr (jobs, n)" "db_jobs db' = jobs" "db_attempts db' = db_attempts db"
    and "runtime_ok db" "\<And>r. job_id (f r) = job_id r \<and> job_tenant_id (f r) = job_tenant_id r"
    and "\<And>r. p r \<Longrightarrow> job_id r = k"
    and step: "\<And>r as. p r \<Longrightarrow> attempts_match r as \<Longrightarrow> phase_of (job_status (f r)) as = phase_of (job_status r) as
      \<or> phase_step (phase_of (job_status r) as) (phase_of (job_status (f r)) as)"
  shows "refines_step k db db'"
proof (rule refines_step_cases)
  note upd = execution_update [OF assms(1,2,5,6)]
  show "\<forall>k'. k' \<noteq> k \<longrightarrow> execution db' k' = execution db k'" by (rule upd(1)) (simp_all add: assms(3))
  have now: "execution db' k = (case row_of job_id k (db_jobs db) of None \<Rightarrow> None
      | Some r \<Rightarrow> phase_of (job_status (if p r then f r else r)) (filter (of_job r) (db_attempts db')))"
    by (rule upd(2)) (simp_all add: assms(3))
  show "execution db' k = execution db k \<or> phase_step (execution db k) (execution db' k)"
  proof (cases "row_of job_id k (db_jobs db)")
    case None
    then show ?thesis using now by (simp add: execution_def)
  next
    case (Some r)
    note row = execution_row [OF assms(4) Some]
    show ?thesis using step [of r] row now Some by (cases "p r") (simp_all add: assms(3))
  qed
qed

lemma heartbeat_refines:
  assumes "repo_heartbeat q db = Inr (ok, db')" "runtime_ok db"
  shows "refines_step (hb_job_id q) db db'"
proof -
  obtain rows n where u: "sql_update job_check (heartbeat_where q) (heartbeat_values q) (db_jobs db) = Inr (rows, n)"
    "db' = db\<lparr>db_jobs := rows\<rparr>" using repo_heartbeat_Inr [OF assms(1)] by auto
  show ?thesis
    by (rule status_update_refines [OF u(1) _ _ assms(2) job_values_keys(2)])
      (auto simp: u(2) heartbeat_where_def heartbeat_values_def)
qed

lemma unstarted_refines:
  assumes "job_status r \<in> set claimable_statuses" "attempts_match r as" "s = FAILED \<or> s = CANCELLED"
  shows "phase_step (phase_of (job_status r) as) (phase_of s as)"
  using assms by (auto simp: claimable_statuses_def attempts_match_def lease_holding_statuses_def intro: phase_step.intros)

lemma cancel_refines:
  assumes "cancel_claimable_job q db = Inr (ok, db')" "runtime_ok db"
  shows "refines_step (cancel_job_id q) db db'"
proof -
  obtain rows n where u: "sql_update job_check (cancel_where q) (cancel_values q) (db_jobs db) = Inr (rows, n)"
    "db' = db\<lparr>db_jobs := rows\<rparr>" using cancel_claimable_job_Inr [OF assms(1)] by auto
  show ?thesis
  proof (rule status_update_refines [OF u(1) _ _ assms(2) job_values_keys(5)])
    show "phase_of (job_status (cancel_values q r)) as = phase_of (job_status r) as
      \<or> phase_step (phase_of (job_status r) as) (phase_of (job_status (cancel_values q r)) as)"
      if "cancel_where q r" "attempts_match r as" for r as
      by (rule disjI2, rule unstarted_refines) (use that in \<open>auto simp: cancel_where_def unstarted_where_def cancel_values_def\<close>)
  qed (auto simp: u(2) cancel_where_def unstarted_where_def)
qed

lemma fail_refines:
  assumes "sql_update job_check (fail_where q) (fail_values q) (db_jobs db) = Inr (jobs, n)" "runtime_ok db"
    and "db_jobs db' = jobs" "db_attempts db' = db_attempts db"
  shows "refines_step (fail_job_id q) db db'"
proof (rule status_update_refines [OF assms(1,3,4,2) job_values_keys(4)])
  show "phase_of (job_status (fail_values q r)) as = phase_of (job_status r) as
    \<or> phase_step (phase_of (job_status r) as) (phase_of (job_status (fail_values q r)) as)"
    if "fail_where q r" "attempts_match r as" for r as
    by (rule disjI2, rule unstarted_refines) (use that in \<open>auto simp: fail_where_def unstarted_where_def fail_values_def\<close>)
qed (auto simp: fail_where_def unstarted_where_def)

lemma finish_refines:
  assumes "finalize_success q db = Inr (ok, db')" "runtime_ok db"
  shows "refines_step (fin_job_id q) db db'"
proof -
  obtain rows n where u: "sql_update job_check (finalize_where q) (finalize_values q) (db_jobs db) = Inr (rows, n)"
    and fin: "if n = 1 then \<exists>attempts k. sql_update attempt_check (finish_attempt_where q) (finish_attempt_values q)
         (db_attempts db) = Inr (attempts, k) \<and> db' = db\<lparr>db_jobs := rows, db_attempts := attempts\<rparr>
       else db' = db\<lparr>db_jobs := rows\<rparr>"
    using finalize_success_Inr [OF assms(1)] by blast
  note d = runtime_ok_parts(4) [OF assms(2)]
  show ?thesis
  proof (cases "n = 1")
    case False
    then have "db' = db" using fin finalize.loser_kept [OF d u] by simp
    then show ?thesis by (simp add: refines_step_def stutters_def)
  next
    case True
    with fin obtain attempts k where a: "sql_update attempt_check (finish_attempt_where q) (finish_attempt_values q)
         (db_attempts db) = Inr (attempts, k)" and db': "db' = db\<lparr>db_jobs := rows, db_attempts := attempts\<rparr>" by auto
    let ?f = "\<lambda>a. if finish_attempt_where q a then finish_attempt_values q a else a"
    have filt: "filter (of_job r) attempts = map ?f (filter (of_job r) (db_attempts db))" for r
      using a unfolding sql_update_Inr
      by (auto simp: filter_map of_job_def finish_attempt_values_def comp_def intro!: arg_cong [of _ _ "map ?f"] filter_cong)
    have others: "filter (of_job r) attempts = filter (of_job r) (db_attempts db)" if "job_id r \<noteq> fin_job_id q" for r
      using filt [of r] that by (auto simp: of_job_def finish_attempt_where_def intro!: map_idI)
    note upd = execution_update [OF u _ job_values_keys(3), of db' "fin_job_id q"]
    have "rows = db_jobs db'" by (simp add: db')
    show ?thesis
    proof (rule refines_step_cases)
      show "\<forall>k'. k' \<noteq> fin_job_id q \<longrightarrow> execution db' k' = execution db k'"
        by (rule upd(1)) (auto simp: db' finalize_where_def others)
      have now: "execution db' (fin_job_id q) = (case row_of job_id (fin_job_id q) (db_jobs db) of None \<Rightarrow> None
          | Some r \<Rightarrow> phase_of (job_status (if finalize_where q r then finalize_values q r else r))
              (filter (of_job r) (db_attempts db')))"
        by (rule upd(2)) (auto simp: db' finalize_where_def others)
      obtain r where r: "row_of job_id (fin_job_id q) (db_jobs db) = Some r" "finalize_where q r"
        using finalize.wins_iff [OF d u] True by auto
      note row = execution_row [OF assms(2) r(1)]
      have "job_status r = RUNNING" using r(2) by (simp add: finalize_where_def)
      then obtain a where a: "filter (of_job r) (db_attempts db) = [a]"
        using row by (auto simp: attempts_match_def lease_holding_statuses_def)
      have "phase_step (execution db (fin_job_id q)) (execution db' (fin_job_id q))"
        using now row r a filt [of r] \<open>job_status r = RUNNING\<close>
        by (auto simp: db' finalize_values_def finish_attempt_values_def intro: phase_step.finished)
      then show "execution db' (fin_job_id q) = execution db (fin_job_id q)
        \<or> phase_step (execution db (fin_job_id q)) (execution db' (fin_job_id q))" by simp
    qed
  qed
qed

lemma worker_claim_job [simp]: "claim_job_id (worker_claim w ids t m j job now) = j"
  "claim_tenant_id (worker_claim w ids t m j job now) = t"
  "claim_trigger_message_id (worker_claim w ids t m j job now) = m"
  by (simp_all add: worker_claim_def)

lemma claimed_execution_phase:
  assumes "sql_update job_check (claim_where q) (claim_values q) (db_jobs db) = Inr (jobs, 1)" "runtime_ok db"
    and "db_jobs db' = jobs" "db_attempts db' = db_attempts db @ [claimed_attempt q]"
  shows "execution db (claim_job_id q) = Some Waiting"
    and "execution db' (claim_job_id q) = Some (Executing (claim_trigger_message_id q))"
    and "\<forall>k'. k' \<noteq> claim_job_id q \<longrightarrow> execution db' k' = execution db k'"
proof -
  note d = runtime_ok_parts(4) [OF assms(2)]
  have target: "\<And>r. claim_where q r \<Longrightarrow> job_id r = claim_job_id q" by (simp add: claim_where_def)
  have others: "filter (of_job r) (db_attempts db') = filter (of_job r) (db_attempts db)" if "job_id r \<noteq> claim_job_id q" for r
    using that by (simp add: assms(4) of_job_def claimed_attempt_def)
  note upd = execution_update [OF assms(1,3) job_values_keys(1) target]
  show "\<forall>k'. k' \<noteq> claim_job_id q \<longrightarrow> execution db' k' = execution db k'"
    by (rule upd(1)) (simp_all add: others)
  have now: "execution db' (claim_job_id q) = (case row_of job_id (claim_job_id q) (db_jobs db) of None \<Rightarrow> None
      | Some r \<Rightarrow> phase_of (job_status (if claim_where q r then claim_values q r else r)) (filter (of_job r) (db_attempts db')))"
    by (rule upd(2)) (simp_all add: others)
  obtain r where r: "row_of job_id (claim_job_id q) (db_jobs db) = Some r" "claim_where q r"
    using claim.wins_iff [OF d assms(1)] by auto
  note row = execution_row [OF assms(2) r(1)]
  have r2: "job_id r = claim_job_id q" "job_tenant_id r = claim_tenant_id q" "job_status r \<in> set claimable_statuses"
    using r(2) by (auto simp: claim_where_def)
  have none: "filter (of_job r) (db_attempts db) = []"
    using row r2(3) by (auto simp: attempts_match_def claimable_statuses_def lease_holding_statuses_def)
  show "execution db (claim_job_id q) = Some Waiting"
    using row none r2(3) by (auto simp: claimable_statuses_def)
  have "filter (of_job r) (db_attempts db') = [claimed_attempt q]"
    using none r2 by (simp add: assms(4) of_job_def claimed_attempt_def)
  then show "execution db' (claim_job_id q) = Some (Executing (claim_trigger_message_id q))"
    using now r by (simp add: claim_values_def claimed_attempt_def)
qed

lemma deliver_refines:
  assumes "accept_delivery cr w ids t m j e now db = Inr (d, db')" "runtime_ok db"
  shows "refines_step j db db'"
  using assms(1)
proof (cases rule: accept_deliveryE)
  case seen
  then show ?thesis by (simp add: refines_step_def stutters_def)
next
  case (denied i r authority decision jobs n)
  show ?thesis
  proof (cases "job_status r \<in> set claimable_statuses")
    case True
    then have "sql_update job_check (fail_where (authority_failure t j (job_reason_code decision) now))
        (fail_values (authority_failure t j (job_reason_code decision) now)) (db_jobs db) = Inr (jobs, n)"
      using denied(4) by simp
    from fail_refines [OF this assms(2)] show ?thesis by (simp add: denied(5) authority_failure_def)
  next
    case False
    then show ?thesis
      using denied(4) execution_cong [of db' db] by (simp add: denied(5) refines_step_def stutters_def)
  qed
next
  case (lost i r authority decision q jobs n)
  have "jobs = db_jobs db" using claim.loser_kept [OF runtime_ok_parts(4) [OF assms(2)] lost(5,6)] .
  then show ?thesis
    using execution_cong [of db' db] by (simp add: lost(7) refines_step_def stutters_def)
next
  case (claimed i r authority decision q jobs)
  have "db_jobs db' = jobs" "db_attempts db' = db_attempts db @ [claimed_attempt q]" by (simp_all add: claimed(8))
  from claimed_execution_phase [OF claimed(5) assms(2) this] show ?thesis
    by (auto simp: refines_step_def advances_def claimed(3) intro: phase_step.started)
qed

lemma submit_refines:
  assumes "add_job_graph g db = Inr db'" "job_status (graph_job g) = QUEUED" "runtime_ok db"
  shows "refines_step (job_id (graph_job g)) db db'"
proof -
  obtain r grant outbox where r: "job_model (graph_job g) = Inr r"
    and ins: "sql_insert job_check (\<lambda>a b. job_id a = job_id b) r (db_jobs db) = Inr (db_jobs db @ [r])"
    and db': "db' = db\<lparr>db_jobs := db_jobs db @ [r], db_grants := db_grants db @ [grant], db_outbox := db_outbox db @ [outbox]\<rparr>"
    using assms(1) by (rule add_job_graph_Inr)
  have id: "job_id r = job_id (graph_job g)" "job_status r = QUEUED"
    using job_model_id [OF r] assms(2) by auto
  have new: "row_of job_id (job_id r) (db_jobs db) = None"
    using ins by (auto simp: row_of_None sql_insert_Inr)
  have "filter (of_job r) (db_attempts db) = []"
  proof -
    have "\<not> of_job r a" if a: "a \<in> set (db_attempts db)" for a
    proof -
      obtain k where "k \<in> set (db_jobs db)" "att_job_id a = job_id k"
        using runtime_ok_parts(1) [OF assms(3)] a by (auto simp: jobs_ok_def job_keys_def image_iff)
      then show ?thesis using ins by (auto simp: of_job_def sql_insert_Inr)
    qed
    then show ?thesis by (simp add: filter_empty_conv)
  qed
  then have "execution db' (job_id r) = Some Waiting" "execution db (job_id r) = None"
    using new id(2) by (simp_all add: execution_def db' row_of_append) (simp add: row_of_def)
  moreover have "execution db' k = execution db k" if "k \<noteq> job_id r" for k
    using that by (simp add: execution_def db' row_of_append) (simp add: row_of_def split: option.split)
  ultimately show ?thesis
    unfolding id(1) [symmetric] by (auto simp: refines_step_def advances_def intro: phase_step.submitted)
qed

lemma runtime_step_refines:
  assumes "runtime_step cr signer db db'" "runtime_ok db"
  shows "stutters db db' \<or> (\<exists>k. advances k db db')"
  using assms
proof (cases rule: runtime_step.cases)
  case (submit g)
  then show ?thesis using submit_refines [OF submit(4,2) assms(2)] by (auto simp: refines_step_def)
next
  case (deliver w ids t m j e now d)
  then show ?thesis using deliver_refines [OF deliver assms(2)] by (auto simp: refines_step_def)
next
  case (heartbeat hq ok)
  then show ?thesis using heartbeat_refines [OF heartbeat assms(2)] by (auto simp: refines_step_def)
next
  case (finish fq ok)
  then show ?thesis using finish_refines [OF finish assms(2)] by (auto simp: refines_step_def)
next
  case (cancel cq ok)
  then show ?thesis using cancel_refines [OF cancel assms(2)] by (auto simp: refines_step_def)
next
  case (claim_batch uuids nonces clock tokens locked now expires publisher limit claimed)
  obtain rows where "db' = db\<lparr>db_outbox := rows\<rparr>"
    using claim_outbox_batch_Inr [OF claim_batch runtime_ok_parts(5) [OF assms(2)]] by metis
  then show ?thesis using execution_cong [of db' db] by (auto simp: stutters_def)
next
  case (published c now ok)
  then show ?thesis using execution_cong [of db' db] by (auto simp: stutters_def dest!: mark_published_Inr)
next
  case (released c error now ok)
  then show ?thesis using execution_cong [of db' db] by (auto simp: stutters_def dest!: release_or_block_Inr)
next
  case elsewhere
  then show ?thesis using execution_cong [of db' db] by (auto simp: stutters_def)
qed

subsection \<open>Jobs run at most once\<close>

lemma runtime_run_ok: "runtime_run cr signer db db' \<Longrightarrow> runtime_ok db \<Longrightarrow> runtime_ok db'"
  by (induction rule: runtime_run.induct) (auto intro: runtime_step_ok)

lemma claimed_phases:
  assumes "accept_delivery cr w ids t m j e now db = Inr (ACK_CLAIMED, db')" "runtime_ok db"
  shows "execution db j = Some Waiting \<and> execution db' j = Some (Executing m)"
  using assms(1)
proof (cases rule: accept_deliveryE)
  case (claimed i r authority decision q jobs)
  have "db_jobs db' = jobs" "db_attempts db' = db_attempts db @ [claimed_attempt q]" by (simp_all add: claimed(8))
  from claimed_execution_phase(1,2) [OF claimed(5) assms(2) this] show ?thesis by (simp add: claimed(3))
qed (auto split: if_splits)

lemma started_stays:
  assumes "runtime_step cr signer db db'" "runtime_ok db" "execution db k = Some p" "p \<noteq> Waiting"
  shows "\<exists>p'. execution db' k = Some p' \<and> p' \<noteq> Waiting"
  using runtime_step_refines [OF assms(1,2)]
proof
  assume "stutters db db'"
  then show ?thesis using assms(3,4) by (simp add: stutters_def)
next
  assume "\<exists>k'. advances k' db db'"
  then obtain k' where k': "advances k' db db'" by blast
  show ?thesis
  proof (cases "k' = k")
    case True
    then have "phase_step (Some p) (execution db' k)" using k' assms(3) by (simp add: advances_def)
    then show ?thesis using assms(4) by (auto elim: phase_step_fromE)
  qed (use k' assms(3,4) in \<open>auto simp: advances_def\<close>)
qed

text \<open>
  C1. The job tables refine the abstract executor: from any state that satisfies the invariant,
  whatever the processes do, the invariant holds, every stored job has a phase, and each
  transaction either leaves all phases alone or moves exactly one job by one step of the executor
  (submitted, started by one message, finished for that same message, abandoned before it started).
\<close>
theorem runtime_refines_executor:
  assumes "runtime_ok db0" "runtime_run cr signer db0 db" "runtime_step cr signer db db'"
  shows "runtime_ok db' \<and> (\<forall>r\<in>set (db_jobs db'). \<exists>p. execution db' (job_id r) = Some p)
    \<and> ((\<forall>k. execution db' k = execution db k)
       \<or> (\<exists>k. phase_step (execution db k) (execution db' k) \<and> (\<forall>k'. k' \<noteq> k \<longrightarrow> execution db' k' = execution db k')))"
proof -
  have ok: "runtime_ok db" using runtime_run_ok assms(1,2) by blast
  then have ok': "runtime_ok db'" using runtime_step_ok assms(3) by blast
  have "\<exists>p. execution db' (job_id r) = Some p" if "r \<in> set (db_jobs db')" for r
  proof -
    have "row_of job_id (job_id r) (db_jobs db') = Some r"
      using that by (simp add: row_of_iff [OF runtime_ok_parts(4) [OF ok']])
    note row = execution_row [OF ok' this]
    show ?thesis using phase_total [OF conjunct1 [OF row]] row by simp
  qed
  moreover have "(\<forall>k. execution db' k = execution db k)
       \<or> (\<exists>k. phase_step (execution db k) (execution db' k) \<and> (\<forall>k'. k' \<noteq> k \<longrightarrow> execution db' k' = execution db k'))"
    using runtime_step_refines [OF assms(3) ok] by (auto simp: stutters_def advances_def)
  ultimately show ?thesis using ok' by blast
qed

lemma runtime_refines_executor_witness:
  "\<exists>db'. accept_delivery sample_crypto sample_worker sample_ids (u7 1) (u7 11) (u7 5) (sample_envelope ''k1'') (aware 20)
       sample_db = Inr (ACK_CLAIMED, db')
     \<and> runtime_ok db' \<and> execution db' (u7 5) = Some (Executing (u7 11))"
proof -
  obtain db' where a: "accept_delivery sample_crypto sample_worker sample_ids (u7 1) (u7 11) (u7 5)
      (sample_envelope ''k1'') (aware 20) sample_db = Inr (ACK_CLAIMED, db')" using sample_accept by blast
  have "runtime_ok db'"
    using runtime_refines_executor [OF sample_ok runtime_run.idle runtime_step.deliver [OF a]] by blast
  then show ?thesis using a claimed_phases [OF a sample_ok] by blast
qed

text \<open>
  C2. A job is claimed at most once: after a delivery has claimed it, no delivery of any message
  claims it again, whatever transactions of any process lie between the two.
\<close>
theorem job_claimed_once:
  assumes "runtime_ok db" "accept_delivery cr w ids t m j e now db = Inr (ACK_CLAIMED, db1)"
    and "runtime_run cr signer db1 db2" "accept_delivery cr' w' ids' t' m' j e' now' db2 = Inr (d, db3)"
  shows "d \<noteq> ACK_CLAIMED"
proof
  assume d: "d = ACK_CLAIMED"
  have ok1: "runtime_ok db1" using deliver_ok assms(1,2) by blast
  have "runtime_ok db2 \<and> (\<exists>p. execution db2 j = Some p \<and> p \<noteq> Waiting)"
    using assms(3)
  proof (rule runtime_run_keeps)
    show "runtime_ok db1 \<and> (\<exists>p. execution db1 j = Some p \<and> p \<noteq> Waiting)"
      using ok1 claimed_phases [OF assms(2,1)] by simp
  qed (use runtime_step_ok started_stays in blast)
  then show False using claimed_phases [of cr' w' ids' t' m' j e' now' db2 db3] assms(4) d by auto
qed

subsection \<open>Redelivered messages\<close>

lemma find_inbox_append:
  "find_inbox t m (ib @ [i]) = (case find_inbox t m ib of Some row \<Rightarrow> Some row
     | None \<Rightarrow> if ib_tenant_id i = t \<and> ib_message_id i = m then Some i else None)"
  by (induction ib) (auto simp: find_inbox_def sql_scalar_def)

text \<open>Once a message has an inbox row, it keeps that row.\<close>

lemma inbox_row_kept:
  assumes "runtime_step cr signer db db'" "runtime_ok db" "find_inbox t m (db_inbox db) = Some row"
  shows "find_inbox t m (db_inbox db') = Some row"
  using assms(1)
proof (cases rule: runtime_step.cases)
  case (submit g)
  then show ?thesis using assms(3) by (elim add_job_graph_Inr) simp
next
  case (deliver w ids t m j e now d)
  then show ?thesis
    using assms(3) by (cases rule: accept_deliveryE) (simp_all add: find_inbox_append)
next
  case (heartbeat hq ok)
  then show ?thesis using assms(3) by (auto dest!: repo_heartbeat_Inr)
next
  case (finish fq ok)
  then show ?thesis using assms(3) by (auto dest!: finalize_success_Inr split: if_splits)
next
  case (cancel cq ok)
  then show ?thesis using assms(3) by (auto dest!: cancel_claimable_job_Inr)
next
  case (claim_batch uuids nonces clock tokens locked now expires publisher limit claimed)
  obtain rows where "db' = db\<lparr>db_outbox := rows\<rparr>"
    using claim_outbox_batch_Inr [OF claim_batch runtime_ok_parts(5) [OF assms(2)]] by metis
  then show ?thesis using assms(3) by simp
next
  case (published c now ok)
  then show ?thesis using assms(3) by (auto dest!: mark_published_Inr)
next
  case (released c error now ok)
  then show ?thesis using assms(3) by (auto dest!: release_or_block_Inr)
next
  case elsewhere
  then show ?thesis using assms(3) by simp
qed

lemma accepted_row_stored:
  assumes "accept_delivery cr w ids t m j e now db = Inr (d, db')" "d \<noteq> REJECT_NO_REQUEUE"
  shows "\<exists>row. find_inbox t m (db_inbox db') = Some row \<and> envelope_digest cr e = Inr (ib_envelope_digest row)"
  using assms(1)
proof (cases rule: accept_deliveryE)
  case (seen row digest)
  then show ?thesis using assms(2) by (auto split: if_splits)
qed (auto simp: find_inbox_append first_delivery_def first_row_def accepted_row_def terminal_values_def bind_values_def)

lemma accept_seen:
  assumes "repo_inbox_row t m db = Inr (Some row)" "envelope_digest cr e = Inr digest"
  shows "accept_delivery cr w ids t m j e now db =
    Inr (if ib_envelope_digest row = digest then ACK_DUPLICATE else REJECT_NO_REQUEUE, db)"
  using assms by (simp add: accept_delivery_def)

text \<open>
  C4. Processing is idempotent: once a message was accepted, whatever its outcome, a redelivery
  of it to any worker at any later state answers \<open>ACK_DUPLICATE\<close> without touching the database,
  and a different envelope under the same message identifier is rejected, again without a trace.
  The inbox row is still the one of the first acceptance, its delivery count included: the design asks
  for a legitimate duplicate to be counted before it is acknowledged, which the code does not do.
\<close>
theorem redelivery_changes_nothing:
  assumes "runtime_ok db" "accept_delivery cr w ids t m j e now db = Inr (d, db1)" "d \<noteq> REJECT_NO_REQUEUE"
    and "runtime_run cr signer db1 db2" "envelope_digest cr e' = Inr digest"
  shows "accept_delivery cr w' ids' t m j' e' now' db2 =
    Inr (if envelope_digest cr e = Inr digest then ACK_DUPLICATE else REJECT_NO_REQUEUE, db2)
    \<and> (\<exists>row. find_inbox t m (db_inbox db1) = Some row \<and> find_inbox t m (db_inbox db2) = Some row)"
proof -
  obtain row where row: "find_inbox t m (db_inbox db1) = Some row" "envelope_digest cr e = Inr (ib_envelope_digest row)"
    using accepted_row_stored [OF assms(2,3)] by blast
  have kept: "runtime_ok db2 \<and> find_inbox t m (db_inbox db2) = Some row"
    using assms(4)
  proof (rule runtime_run_keeps)
    show "runtime_ok db1 \<and> find_inbox t m (db_inbox db1) = Some row"
      using deliver_ok [OF assms(2,1)] row(1) by simp
  qed (use runtime_step_ok inbox_row_kept in blast)
  moreover have "\<exists>x. repo_inbox_row t m db = Inr x"
    using assms(2) by (auto simp: accept_delivery_def bindE_eq_Inr)
  ultimately have "repo_inbox_row t m db2 = Inr (Some row)"
    by (auto simp: repo_inbox_row_def validate_simps)
  then show ?thesis using accept_seen assms(5) row kept by auto
qed

lemma sample_digest: "\<exists>digest. envelope_digest sample_crypto (sample_envelope kid) = Inr digest"
  using sample_bytes [of kid] by (auto simp: envelope_digest_def)

lemma claimed_counts_one:
  assumes "accept_delivery cr w ids t m j e now db = Inr (ACK_CLAIMED, db')"
  shows "\<exists>row. find_inbox t m (db_inbox db') = Some row \<and> ib_delivery_count row = 1"
  using assms
proof (cases rule: accept_deliveryE)
  case (claimed i r authority decision q jobs)
  then show ?thesis
    by (auto simp: find_inbox_append first_delivery_def first_row_def accepted_row_def bind_values_def)
qed (auto split: if_splits)

lemma redelivery_changes_nothing_witness:
  "\<exists>db1 row. accept_delivery sample_crypto sample_worker sample_ids (u7 1) (u7 11) (u7 5) (sample_envelope ''k1'') (aware 20)
       sample_db = Inr (ACK_CLAIMED, db1)
     \<and> accept_delivery sample_crypto sample_worker sample_ids (u7 1) (u7 11) (u7 5) (sample_envelope ''k1'') (aware 30) db1
       = Inr (ACK_DUPLICATE, db1)
     \<and> find_inbox (u7 1) (u7 11) (db_inbox db1) = Some row \<and> ib_delivery_count row = 1"
proof -
  obtain db1 where a: "accept_delivery sample_crypto sample_worker sample_ids (u7 1) (u7 11) (u7 5)
      (sample_envelope ''k1'') (aware 20) sample_db = Inr (ACK_CLAIMED, db1)" using sample_accept by blast
  obtain digest where d: "envelope_digest sample_crypto (sample_envelope ''k1'') = Inr digest" using sample_digest by blast
  show ?thesis
    using a d claimed_counts_one [OF a]
      redelivery_changes_nothing [OF sample_ok a _ runtime_run.idle d, of sample_worker sample_ids "u7 5" "aware 30"]
    by auto
qed

lemma job_claimed_once_witness:
  "\<exists>db1 d db2. accept_delivery sample_crypto sample_worker sample_ids (u7 1) (u7 11) (u7 5) (sample_envelope ''k1'') (aware 20)
       sample_db = Inr (ACK_CLAIMED, db1)
     \<and> accept_delivery sample_crypto sample_worker sample_ids (u7 1) (u7 11) (u7 5) (sample_envelope ''k1'') (aware 30) db1
       = Inr (d, db2) \<and> d \<noteq> ACK_CLAIMED"
proof -
  obtain db1 where a: "accept_delivery sample_crypto sample_worker sample_ids (u7 1) (u7 11) (u7 5)
      (sample_envelope ''k1'') (aware 20) sample_db = Inr (ACK_CLAIMED, db1)" using sample_accept by blast
  obtain row where "find_inbox (u7 1) (u7 11) (db_inbox db1) = Some row"
    "envelope_digest sample_crypto (sample_envelope ''k1'') = Inr (ib_envelope_digest row)"
    using accepted_row_stored [OF a] by auto
  then obtain d where "accept_delivery sample_crypto sample_worker sample_ids (u7 1) (u7 11) (u7 5)
      (sample_envelope ''k1'') (aware 30) db1 = Inr (d, db1)"
    using accept_seen [of "u7 1" "u7 11" db1 row sample_crypto "sample_envelope ''k1''"]
    by (simp add: repo_inbox_row_def require_uuid7_def)
  then show ?thesis
    using a job_claimed_once [OF sample_ok a runtime_run.idle] by blast
qed

end
