(* ===== verification/JobDelivery.thy ===== *)
theory JobDelivery
  imports JobSafety
begin

text \<open>
  What one delivery does, decision by decision: which checks an \<open>ACK_CLAIMED\<close> implies and what it
  wrote, what a denied authority leaves behind, which rows of other tenants it can reach (none), and
  what happens to a message that names no job.
\<close>

lemma find_job_row:
  "distinct (map job_id jobs) \<Longrightarrow> find_job t j jobs = Some r \<Longrightarrow> row_of job_id j jobs = Some r \<and> r \<in> set jobs"
  by (auto simp: row_of_iff dest: find_job_SomeD)

lemma updated_row:
  assumes "sql_update chk p f jobs = Inr (jobs', n)" "distinct (map job_id jobs)" "find_job t j jobs = Some r"
    and "\<And>r. job_id (f r) = job_id r \<and> job_tenant_id (f r) = job_tenant_id r"
  shows "find_job t j jobs' = Some (if p r then f r else r)"
proof -
  have jobs': "jobs' = map (\<lambda>r. if p r then f r else r) jobs" using assms(1) by (simp add: sql_update_Inr)
  show ?thesis
    using assms(3) unfolding jobs' find_job_def sql_scalar_def
    by (induction jobs) (auto simp: assms(4) split: if_splits)
qed

lemma updated_filter:
  assumes "sql_update chk p f rows = Inr (rows', n)" "\<And>r. p r \<Longrightarrow> \<not> Q r" "\<And>r. Q (f r) = Q r"
  shows "filter Q rows' = filter Q rows"
proof -
  have rows': "rows' = map (\<lambda>r. if p r then f r else r) rows" using assms(1) by (simp add: sql_update_Inr)
  show ?thesis unfolding rows' using assms(2,3) by (induction rows) auto
qed

text \<open>
  C3. A claim is never made without authority. When a delivery answers \<open>ACK_CLAIMED\<close>, the
  policy allowed the authority loaded in the same transaction, the job was claimable, unleased and
  not expired, and it now runs under a fresh lease of the worker; the delivery added exactly one
  attempt, for this message, and one inbox row that is bound to it, and wrote nothing else.
\<close>
theorem claimed_delivery_authorized:
  assumes "runtime_ok db" "accept_delivery cr w ids t m j e now db = Inr (ACK_CLAIMED, db')"
  shows "\<exists>authority decision r q i.
      load_authority t j db = Inr authority \<and> DurableGrantPolicy_authorize authority now = Inr decision
    \<and> job_allowed decision \<and> find_job t j (db_jobs db) = Some r \<and> claim_where q r
    \<and> q = worker_claim w ids t m j (aware_job r) now \<and> find_job t j (db_jobs db') = Some (claim_values q r)
    \<and> filter (\<lambda>r. (job_tenant_id r, job_id r) \<noteq> (t, j)) (db_jobs db')
        = filter (\<lambda>r. (job_tenant_id r, job_id r) \<noteq> (t, j)) (db_jobs db)
    \<and> db_attempts db' = db_attempts db @ [claimed_attempt q] \<and> db_inbox db' = db_inbox db @ [i]
    \<and> handles i (claimed_attempt q) \<and> ib_status i = InboxStatus_PROCESSING
    \<and> db' = db\<lparr>db_jobs := db_jobs db', db_attempts := db_attempts db', db_inbox := db_inbox db'\<rparr>"
  using assms(2)
proof (cases rule: accept_deliveryE)
  case (claimed i r authority decision q jobs)
  note d = runtime_ok_parts(4) [OF assms(1)]
  have fd: "load_authority t j db = Inr authority" "DurableGrantPolicy_authorize authority now = Inr decision"
    "find_job t j (db_jobs db) = Some r"
    using claimed(1) by (auto simp: first_delivery_def)
  have target: "\<And>r. claim_where q r \<Longrightarrow> job_tenant_id r = t \<and> job_id r = j" by (simp add: claim_where_def claimed(3))
  obtain r' where r': "row_of job_id j (db_jobs db) = Some r'" "claim_where q r'"
    using claim.wins_iff [OF d claimed(5)] by (auto simp: claimed(3))
  then have w: "claim_where q r" using find_job_row [OF d fd(3)] by simp
  let ?i = "bind_values (binding ids (claim_lease_fence q) now) i"
  have "handles ?i (claimed_attempt q)" "ib_status ?i = InboxStatus_PROCESSING"
    using first_delivery_row [OF claimed(1)]
    by (simp_all add: handles_def bind_values_def binding_def claimed_attempt_def claimed(3) worker_claim_def)
  moreover have others: "filter (\<lambda>r. (job_tenant_id r, job_id r) \<noteq> (t, j)) jobs
      = filter (\<lambda>r. (job_tenant_id r, job_id r) \<noteq> (t, j)) (db_jobs db)"
    by (rule updated_filter [OF claimed(5)]) (use target job_values_keys(1) in auto)
  moreover have "find_job t j jobs = Some (claim_values q r)"
    using updated_row [OF claimed(5) d fd(3) job_values_keys(1)] w by simp
  ultimately show ?thesis
    using fd claimed(2,3) w others
    by (intro exI [of _ authority] exI [of _ decision] exI [of _ r] exI [of _ q] exI [of _ ?i]) (simp add: claimed(8))
qed (auto split: if_splits)

lemma claimed_delivery_authorized_witness:
  "\<exists>db' authority decision. accept_delivery sample_crypto sample_worker sample_ids (u7 1) (u7 11) (u7 5) (sample_envelope ''k1'')
       (aware 20) sample_db = Inr (ACK_CLAIMED, db')
     \<and> load_authority (u7 1) (u7 5) sample_db = Inr authority
     \<and> DurableGrantPolicy_authorize authority (aware 20) = Inr decision \<and> job_allowed decision"
proof -
  obtain db' where a: "accept_delivery sample_crypto sample_worker sample_ids (u7 1) (u7 11) (u7 5)
      (sample_envelope ''k1'') (aware 20) sample_db = Inr (ACK_CLAIMED, db')" using sample_accept by blast
  show ?thesis using claimed_delivery_authorized [OF sample_ok a] a by metis
qed

text \<open>The code of a denial is the name of a check of the policy.\<close>

lemma reason_in_policy:
  assumes "DurableGrantPolicy_authorize s now = Inr d" "\<not> job_allowed d"
  shows "job_reason_code d \<noteq> ''authorization_revoked''"
proof -
  have "job_reason_code d \<in> set (map snd (grant_checks s now))"
    using authorize_reason [OF assms] by force
  then show ?thesis unfolding grant_check_names(2) by auto
qed

lemma denied_delivery_core:
  assumes "runtime_ok db" "accept_delivery cr w ids t m j e now db = Inr (d, db')"
    and "find_inbox t m (db_inbox db) = None" "load_authority t j db = Inr authority"
    and "DurableGrantPolicy_authorize authority now = Inr decision" "\<not> job_allowed decision"
  shows "d = ACK_TERMINAL \<and> db_attempts db' = db_attempts db
    \<and> (\<exists>i. db_inbox db' = db_inbox db @ [i] \<and> ib_message_id i = m \<and> ib_status i = InboxStatus_COMPLETED
         \<and> ib_rejection_code i = Some (job_reason_code decision))
    \<and> (\<exists>r r'. find_job t j (db_jobs db) = Some r \<and> find_job t j (db_jobs db') = Some r'
         \<and> (if job_status r \<in> set claimable_statuses
            then job_status r' = FAILED \<and> job_failure_class r' = Some ''authorization''
              \<and> job_failure_code r' = Some (job_reason_code decision)
            else r' = r))"
  using assms(2)
proof (cases rule: accept_deliveryE)
  case (denied i r authority' decision' jobs n)
  note d = runtime_ok_parts(4) [OF assms(1)]
  have fd: "decision' = decision" "find_job t j (db_jobs db) = Some r"
    using denied(1) assms(4,5) by (auto simp: first_delivery_def)
  let ?q = "authority_failure t j (job_reason_code decision) now"
  have "\<exists>r'. find_job t j jobs = Some r'
         \<and> (if job_status r \<in> set claimable_statuses
            then job_status r' = FAILED \<and> job_failure_class r' = Some ''authorization''
              \<and> job_failure_code r' = Some (job_reason_code decision)
            else r' = r)"
  proof (cases "job_status r \<in> set claimable_statuses")
    case True
    then have u: "sql_update job_check (fail_where ?q) (fail_values ?q) (db_jobs db) = Inr (jobs, n)"
      using denied(4) fd(1) by simp
    have "r \<in> set (db_jobs db)" "job_tenant_id r = t" "job_id r = j" using find_job_SomeD [OF fd(2)] by auto
    moreover from this have "job_lease_owner r = None" "job_lease_token r = None"
      using runtime_ok_parts(1) [OF assms(1)] True
      by (auto simp: jobs_ok_def list_all_iff job_check_defs)
    ultimately have "fail_where ?q r"
      using True by (simp add: fail_where_def unstarted_where_def authority_failure_def)
    then show ?thesis
      using updated_row [OF u d fd(2) job_values_keys(4)] True by (simp add: fail_values_def authority_failure_def)
  next
    case False
    then show ?thesis using denied(4) fd(2) by simp
  qed
  then show ?thesis
    using denied(3) first_delivery_row [OF denied(1)] fd by (simp add: denied(5) terminal_values_def denial_def)
qed (use assms(3-6) in \<open>auto simp: first_delivery_def\<close>)

text \<open>
  C5. A delivery whose authority is denied fails closed: it is acknowledged, starts no attempt,
  completes its inbox row with the reason of the policy, and a job that had not started ends as
  failed with that reason; a job in any other status is left alone.  The reason is the name of a
  check of the policy that does not hold, such as \<open>grant_revoked\<close>; the design fixes the
  code of the failed job to \<open>authorization_revoked\<close> or \<open>job_expired\<close>, and only the
  second of the two is a reason of the policy.
\<close>
theorem denied_delivery_fails_closed:
  assumes "runtime_ok db" "accept_delivery cr w ids t m j e now db = Inr (d, db')"
    and "find_inbox t m (db_inbox db) = None" "load_authority t j db = Inr authority"
    and "DurableGrantPolicy_authorize authority now = Inr decision" "\<not> job_allowed decision"
  shows "d = ACK_TERMINAL \<and> db_attempts db' = db_attempts db
    \<and> (\<exists>i. db_inbox db' = db_inbox db @ [i] \<and> ib_message_id i = m \<and> ib_status i = InboxStatus_COMPLETED
         \<and> ib_rejection_code i = Some (job_reason_code decision))
    \<and> (\<exists>r r'. find_job t j (db_jobs db) = Some r \<and> find_job t j (db_jobs db') = Some r'
         \<and> (if job_status r \<in> set claimable_statuses
            then job_status r' = FAILED \<and> job_failure_class r' = Some ''authorization''
              \<and> job_failure_code r' = Some (job_reason_code decision)
            else r' = r))
    \<and> (False, job_reason_code decision) \<in> set (grant_checks authority now)
    \<and> job_reason_code decision \<noteq> ''authorization_revoked''"
  using denied_delivery_core [OF assms] authorize_reason [OF assms(5,6)] reason_in_policy [OF assms(5,6)] by blast

text \<open>The first delivery of the sample message for a job of any database with an empty inbox.\<close>

lemma sample_first_insert:
  assumes "db_inbox db = []" "has_job db (u7 1) k" "is_uuid7 k"
  obtains digest i where "envelope_digest sample_crypto (sample_envelope ''k1'') = Inr digest"
    "i = first_row sample_crypto sample_ids (u7 1) (u7 11) k (sample_envelope ''k1'') digest (aware n)"
    "insert_inbox_accepted (fresh_inbox sample_ids) (u7 1) (u7 11) k digest
         (sha256 sample_crypto (ascii (env_nonce (sample_envelope ''k1'')))) (aware n) db = Inr (db\<lparr>db_inbox := [i]\<rparr>)"
    "repo_inbox_row (u7 1) (u7 11) db = Inr None" "inbox_check i"
proof -
  obtain digest where dig: "envelope_digest sample_crypto (sample_envelope ''k1'') = Inr digest" "length digest = 32"
    using sample_bytes [of "''k1''"] by (auto simp: envelope_digest_def sample_crypto_def)
  have non: "length (sha256 sample_crypto (ascii (env_nonce (sample_envelope ''k1'')))) = 32"
    by (simp add: sample_crypto_def)
  show thesis
    by (rule that [OF dig(1) refl])
      (use assms dig(2) non in \<open>simp_all add: insert_inbox_accepted_def sample_ids_def require_uuid7_def require_eval
        foreign_key_def sql_insert_def inbox_check_def accepted_row_def first_row_def repo_inbox_row_def find_inbox_def
        sql_scalar_def\<close>)
qed

lemma sample_settles:
  assumes "inbox_check i"
  shows "\<exists>rows n. sql_update inbox_check (terminal_where q) (terminal_values q) [i] = Inr (rows, n)"
  using complete_inbox.never_rejected [of "[i]" q] assms by simp

lemma sample_first_denied:
  assumes "db_inbox db = []" "has_job db (u7 1) k" "is_uuid7 k" "list_all job_check (db_jobs db)"
    and "load_authority (u7 1) k db = Inr s" "DurableGrantPolicy_authorize s (aware n) = Inr decision" "\<not> job_allowed decision"
  shows "\<exists>db'. accept_delivery sample_crypto sample_worker sample_ids (u7 1) (u7 11) k (sample_envelope ''k1'') (aware n) db
    = Inr (ACK_TERMINAL, db')"
proof (rule sample_first_insert [OF assms(1-3), of n])
  fix digest i
  assume dig: "envelope_digest sample_crypto (sample_envelope ''k1'') = Inr digest"
    and ins: "insert_inbox_accepted (fresh_inbox sample_ids) (u7 1) (u7 11) k digest
         (sha256 sample_crypto (ascii (env_nonce (sample_envelope ''k1'')))) (aware n) db = Inr (db\<lparr>db_inbox := [i]\<rparr>)"
    and unseen: "repo_inbox_row (u7 1) (u7 11) db = Inr None" and i: "inbox_check i"
  let ?q = "authority_failure (u7 1) k (job_reason_code decision) (aware n)"
  have "\<exists>jobs n. sql_update job_check (fail_where ?q) (fail_values ?q) (db_jobs db) = Inr (jobs, n)"
    using fail_job.never_rejected [of "db_jobs db" ?q] assms(4) by simp
  then have "\<exists>db'. deny_delivery (fresh_inbox sample_ids) (u7 1) k status (job_reason_code decision) (aware n)
      (db\<lparr>db_inbox := [i]\<rparr>) = Inr (ACK_TERMINAL, db')" for status
    using sample_settles [OF i, of "denial sample_ids (job_reason_code decision) (aware n)"] assms(3)
    by (auto simp: deny_delivery_def complete_inbox_terminal_def fail_job_without_attempt_def require_uuid7_def sample_ids_def
        authority_failure_def denial_def)
  then show ?thesis
    using assms(5-7) by (simp add: accept_delivery_def unseen dig ins)
qed

lemma sample_denied:
  "\<exists>decision db'. DurableGrantPolicy_authorize (sample_snapshot ''teacher'') (aware 900000010) = Inr decision
     \<and> \<not> job_allowed decision
     \<and> accept_delivery sample_crypto sample_worker sample_ids (u7 1) (u7 11) (u7 5) (sample_envelope ''k1'') (aware 900000010)
         sample_db = Inr (ACK_TERMINAL, db')"
proof -
  obtain decision where pol: "DurableGrantPolicy_authorize (sample_snapshot ''teacher'') (aware 900000010) = Inr decision"
    using authorize_utc [of "aware 900000010"] by auto
  have "(False, ''job_expired'') \<in> set (grant_checks (sample_snapshot ''teacher'') (aware 900000010))"
    by (simp add: grant_checks_def Let_def sample_snapshot_def sample_job_def)
  then have no: "\<not> job_allowed decision" using authorize_allowed [OF pol] by auto
  have "has_job sample_db (u7 1) (u7 5)" "list_all job_check (db_jobs sample_db)" "db_inbox sample_db = []"
    by (simp_all add: has_job_def sample_tables sample_row_fields sample_row_check)
  then show ?thesis using sample_first_denied [OF _ _ _ _ sample_authority pol no] pol no by auto
qed

lemma denied_delivery_fails_closed_witness:
  "\<exists>db' r. accept_delivery sample_crypto sample_worker sample_ids (u7 1) (u7 11) (u7 5) (sample_envelope ''k1'')
       (aware 900000010) sample_db = Inr (ACK_TERMINAL, db')
     \<and> find_job (u7 1) (u7 5) (db_jobs db') = Some r \<and> job_status r = FAILED \<and> db_attempts db' = []"
proof -
  obtain decision db' where pol: "DurableGrantPolicy_authorize (sample_snapshot ''teacher'') (aware 900000010) = Inr decision"
    "\<not> job_allowed decision"
    and a: "accept_delivery sample_crypto sample_worker sample_ids (u7 1) (u7 11) (u7 5) (sample_envelope ''k1'')
         (aware 900000010) sample_db = Inr (ACK_TERMINAL, db')"
    using sample_denied by blast
  have "find_inbox (u7 1) (u7 11) (db_inbox sample_db) = None"
    by (simp add: find_inbox_def sql_scalar_def sample_tables)
  from denied_delivery_fails_closed [OF sample_ok a this sample_authority pol] a show ?thesis
    by (auto simp: sample_tables sample_find sample_row_fields claimable_statuses_def)
qed

text \<open>
  C6. A delivery stays inside its tenant: of the jobs, attempts and inbox rows it changes none
  that belongs to another tenant, and it writes no other table.
\<close>
theorem delivery_tenant_isolation:
  assumes "accept_delivery cr w ids t m j e now db = Inr (d, db')" "t' \<noteq> t"
  shows "filter (\<lambda>r. job_tenant_id r = t') (db_jobs db') = filter (\<lambda>r. job_tenant_id r = t') (db_jobs db)
    \<and> filter (\<lambda>a. att_tenant_id a = t') (db_attempts db') = filter (\<lambda>a. att_tenant_id a = t') (db_attempts db)
    \<and> filter (\<lambda>i. ib_tenant_id i = t') (db_inbox db') = filter (\<lambda>i. ib_tenant_id i = t') (db_inbox db)
    \<and> db' = db\<lparr>db_jobs := db_jobs db', db_attempts := db_attempts db', db_inbox := db_inbox db'\<rparr>"
proof -
  have upd: "filter (\<lambda>r. job_tenant_id r = t') jobs = filter (\<lambda>r. job_tenant_id r = t') (db_jobs db)"
    if "sql_update job_check p f (db_jobs db) = Inr (jobs, n)" "\<And>r. p r \<Longrightarrow> job_tenant_id r = t"
      "\<And>r. job_tenant_id (f r) = job_tenant_id r" for p f jobs n
    by (rule updated_filter [OF that(1)]) (use that(2,3) assms(2) in auto)
  show ?thesis
    using assms(1)
  proof (cases rule: accept_deliveryE)
    case seen
    then show ?thesis by simp
  next
    case (denied i r authority decision jobs n)
    have "filter (\<lambda>r. job_tenant_id r = t') jobs = filter (\<lambda>r. job_tenant_id r = t') (db_jobs db)"
      using denied(4) upd [of "fail_where (authority_failure t j (job_reason_code decision) now)"
          "fail_values (authority_failure t j (job_reason_code decision) now)" jobs n] job_values_keys(4)
      by (auto simp: fail_where_def unstarted_where_def authority_failure_def split: if_splits)
    then show ?thesis
      using first_delivery_row [OF denied(1)] assms(2) by (simp add: denied(5) terminal_values_def)
  next
    case (lost i r authority decision q jobs n)
    have "filter (\<lambda>r. job_tenant_id r = t') jobs = filter (\<lambda>r. job_tenant_id r = t') (db_jobs db)"
      using upd [OF lost(5)] job_values_keys(1) by (simp add: claim_where_def lost(3))
    then show ?thesis
      using first_delivery_row [OF lost(1)] assms(2) by (simp add: lost(7) terminal_values_def)
  next
    case (claimed i r authority decision q jobs)
    have "filter (\<lambda>r. job_tenant_id r = t') jobs = filter (\<lambda>r. job_tenant_id r = t') (db_jobs db)"
      using upd [OF claimed(5)] job_values_keys(1) by (simp add: claim_where_def claimed(3))
    then show ?thesis
      using first_delivery_row [OF claimed(1)] assms(2)
      by (simp add: claimed(8) bind_values_def claimed_attempt_def claimed(3))
  qed
qed

lemma delivery_tenant_isolation_witness:
  "\<exists>db'. accept_delivery sample_crypto sample_worker sample_ids (u7 1) (u7 11) (u7 5) (sample_envelope ''k1'') (aware 20)
       sample_db = Inr (ACK_CLAIMED, db')
     \<and> filter (\<lambda>a. att_tenant_id a = u7 2) (db_attempts db') = [] \<and> db_outbox db' = [sample_outbox_row]"
proof -
  obtain db' where a: "accept_delivery sample_crypto sample_worker sample_ids (u7 1) (u7 11) (u7 5)
      (sample_envelope ''k1'') (aware 20) sample_db = Inr (ACK_CLAIMED, db')" using sample_accept by blast
  have "u7 2 \<noteq> u7 1" by (simp add: u7_def)
  note iso = delivery_tenant_isolation [OF a this]
  then have "db_outbox db' = db_outbox sample_db" by (metis job_db.select_convs(5) job_db.surjective job_db.update_convs(1,4,6))
  then show ?thesis using a iso by (auto simp: sample_tables)
qed

lemma find_job_None: "find_job t j jobs = None \<longleftrightarrow> (t, j) \<notin> job_keys jobs"
  by (auto simp: find_job_def sql_scalar_def find_None_iff job_keys_def)

lemma insert_without_job:
  "(t, j) \<notin> job_keys (db_jobs db) \<Longrightarrow>
     \<exists>err. insert_inbox_accepted inbox t m j digest nonce now db = Inl err \<and> (\<forall>r. err \<noteq> JobAuthorityUnavailable r)"
  by (cases "insert_inbox_accepted inbox t m j digest nonce now db")
    (auto simp: insert_inbox_accepted_def bindE_eq_Inl bindE_eq_Inr foreign_key_def has_job_keys require_uuid7_def
      naive_def sql_insert_def require_eval split: if_splits)

lemma canonical_datetime_error:
  "canonical_datetime d = Inl err \<Longrightarrow> err = ValueError ''envelope issued_at must be UTC-aware''"
  by (cases "is_utc d") (simp_all add: canonical_datetime_def Let_def split: prod.splits)

lemma digest_error: "envelope_digest cr e = Inl err \<Longrightarrow> err \<noteq> JobAuthorityUnavailable r"
  by (auto simp: envelope_digest_def canonical_bytes_def bindE_eq_Inl dest: canonical_datetime_error)

text \<open>
  C39. A verified message of an unknown job is never settled: the foreign key of the inbox row
  fails before the authority is loaded, so the exception escapes, the message is neither
  acknowledged nor rejected, nothing is stored, and the reason \<open>job_unavailable\<close> is never given.
\<close>
theorem unknown_job_unsettled:
  assumes "bindE (require_size_and_content_type raw) (parse_and_require_canonical wp) = Inr e"
    and "EnvelopeVerifier_verify cr ring e = Inr e'" "find_job (env_tenant_id e) (env_job_id e) (db_jobs db) = None"
    and "find_inbox (env_tenant_id e) (env_message_id e) (db_inbox db) = None"
  shows "\<exists>err. on_message cr wp ring ids raw db = (Broker_UNSETTLED err, None, db)
    \<and> err \<noteq> JobAuthorityUnavailable ''job_unavailable''"
proof -
  let ?t = "env_tenant_id e" and ?m = "env_message_id e" and ?j = "env_job_id e"
  have "\<exists>err. accept_delivery cr w ids ?t ?m ?j e now db = Inl err \<and> err \<noteq> JobAuthorityUnavailable ''job_unavailable''" for w now
  proof (cases "repo_inbox_row ?t ?m db")
    case (Inl err)
    then show ?thesis by (auto simp: accept_delivery_def repo_inbox_row_def require_uuid7_def bindE_eq_Inl split: if_splits)
  next
    case (Inr x)
    then have x: "x = None" using repo_inbox_row_Inr assms(4) by metis
    show ?thesis
    proof (cases "envelope_digest cr e")
      case (Inl err)
      then show ?thesis using Inr x digest_error by (auto simp: accept_delivery_def)
    next
      case (Inr digest)
      obtain err where "insert_inbox_accepted (fresh_inbox ids) ?t ?m ?j digest (sha256 cr (ascii (env_nonce e))) now db = Inl err"
        "\<forall>r. err \<noteq> JobAuthorityUnavailable r"
        using insert_without_job assms(3) find_job_None by metis
      then show ?thesis using Inr \<open>repo_inbox_row ?t ?m db = Inr x\<close> x by (simp add: accept_delivery_def)
    qed
  qed
  then obtain err where err: "accept_delivery cr \<lparr>wk_instance_ref = ''worker'', wk_lease_seconds = 60\<rparr> ids ?t ?m ?j e
      (raw_received_at raw) db = Inl err" "err \<noteq> JobAuthorityUnavailable ''job_unavailable''" by blast
  have "worker_accept cr ids e (raw_received_at raw) db = (Inl err, db)"
    using err(1) by (simp add: worker_accept_def unit_of_work_def AIJobWorkerService_init_def require_eval)
  then have "on_message cr wp ring ids raw db = (Broker_UNSETTLED err, None, db)"
    using assms(1,2) by (simp add: on_message_def)
  then show ?thesis using err(2) by blast
qed

definition trusting_crypto :: crypto where
  "trusting_crypto = sample_crypto\<lparr>ed25519_verify := (\<lambda>key raw message. True)\<rparr>"

lemma trusting_verify:
  "EnvelopeVerifier_verify trusting_crypto [(''k1'', replicate 32 9)] (sample_envelope ''k1'') = Inr (sample_envelope ''k1'')"
proof -
  obtain b where b: "canonical_bytes (sample_envelope ''k1'') = Inr b" using sample_bytes by blast
  have "\<exists>raw. signature_bytes (sample_signature ''k1'') = Inr raw"
  proof -
    obtain raw where "a2b_base64 0 0 0 (replicate 86 (CHR ''A'') @ ''=='') = Some raw"
      using a2b_length [OF a_block, of 0 0 86 0] by auto
    then show ?thesis
      unfolding sample_signature_def by (subst signature_bytes_plain) (simp_all add: urlsafe_b64decode_def)
  qed
  then show ?thesis
    using b sample_validate(2) [OF sample_kids(1)]
    by (auto simp: EnvelopeVerifier_verify_def trusting_crypto_def sample_crypto_def) (simp add: sample_envelope_def)
qed

lemma unknown_job_unsettled_witness:
  "\<exists>err. on_message trusting_crypto sample_parsers [(''k1'', replicate 32 9)] sample_ids
     \<lparr>raw_body = [1], raw_content_type = ''application/json'', raw_received_at = aware 0, raw_redelivered = False\<rparr>
     (sample_db\<lparr>db_jobs := []\<rparr>) = (Broker_UNSETTLED err, None, sample_db\<lparr>db_jobs := []\<rparr>)"
proof -
  let ?raw = "\<lparr>raw_body = [1], raw_content_type = ''application/json'', raw_received_at = aware 0, raw_redelivered = False\<rparr>"
  have "require_size_and_content_type ?raw = Inr ?raw" by (simp add: require_size_and_content_type_def)
  then have parse: "bindE (require_size_and_content_type ?raw) (parse_and_require_canonical sample_parsers) = Inr (sample_envelope ''k1'')"
    using sample_parse by simp
  show ?thesis
    using unknown_job_unsettled [OF parse trusting_verify, of "sample_db\<lparr>db_jobs := []\<rparr>" sample_ids]
    by (auto simp: find_job_def find_inbox_def sql_scalar_def sample_tables)
qed

end
