(* ===== verification/JobOutbox.thy ===== *)
theory JobOutbox
  imports JobSafety
begin

text \<open>
  The publisher's side: every envelope a batch hands out verifies under the worker's ring and
  matches its stored digest, a row keeps its envelope for ever once it has one, a claim is settled at
  most once, and a batch accounts for every row it claimed.
\<close>

subsection \<open>Stored envelopes\<close>

text \<open>
  The seeds of the signer and the public keys of the verifier belong together; used of Ed25519:
  signatures have 64 bytes and the public key of a seed loads and verifies what the seed signs.
\<close>

definition matching_keys :: "crypto \<Rightarrow> EnvelopeSigner \<Rightarrow> key_ring \<Rightarrow> bool" where
  "matching_keys cr signer ring \<longleftrightarrow>
     EnvelopeSigner_init (seed_ring signer) (active_kid signer) = Inr signer
     \<and> matches_class kid_char 1 64 (active_kid signer) \<and> CHR ''.'' \<notin> set (active_kid signer)
     \<and> (\<forall>seed m. length (ed25519_sign cr seed m) = 64
          \<and> ed25519_verify cr (ed25519_public cr seed) (ed25519_sign cr seed m) m
          \<and> ed25519_loadable cr (ed25519_public cr seed))
     \<and> (\<forall>seed. map_of (seed_ring signer) (active_kid signer) = Some seed
          \<longrightarrow> map_of ring (active_kid signer) = Some (ed25519_public cr seed))"

definition sealed :: "crypto \<Rightarrow> key_ring \<Rightarrow> outbox_row \<Rightarrow> AIJobEnvelope \<Rightarrow> bool" where
  "sealed cr ring b e \<longleftrightarrow> row_envelope b = Some e \<and> EnvelopeVerifier_verify cr ring e = Inr e
     \<and> AIJobEnvelope_validate e = Inr () \<and> ob_envelope_digest b \<noteq> None
     \<and> (\<forall>digest. ob_envelope_digest b = Some digest \<longrightarrow> envelope_digest cr e = Inr digest)"

definition outbox_sealed :: "crypto \<Rightarrow> key_ring \<Rightarrow> job_db \<Rightarrow> bool" where
  "outbox_sealed cr ring db \<longleftrightarrow> (\<forall>b\<in>set (db_outbox db). ob_message_id b = None \<or> (\<exists>e. sealed cr ring b e))"

lemma factory_envelope:
  assumes "signing_envelope_factory cr signer ids nonces clock i c = Inr e" "matching_keys cr signer ring"
  shows "EnvelopeVerifier_verify cr ring e = Inr e \<and> AIJobEnvelope_validate e = Inr ()
    \<and> env_job_id e = cand_job_id c \<and> env_tenant_id e = cand_tenant_id c \<and> env_correlation_id e = cand_correlation_id c
    \<and> env_schema_version e = cand_schema_version c \<and> env_message_id e = ids i"
proof -
  let ?e = "\<lparr>env_schema_version = 1, env_message_id = ids i, env_job_id = cand_job_id c,
           env_tenant_id = cand_tenant_id c, env_correlation_id = cand_correlation_id c,
           env_issued_at = clock i, env_nonce = new_nonce (nonces i),
           env_signature = ''ed25519.dev.'' @ replicate 86 (CHR ''p'')\<rparr>"
  have f: "cand_schema_version c = 1" "AIJobEnvelope_validate ?e = Inr ()" "EnvelopeSigner_sign cr signer ?e = Inr e"
    using assms(1) by (auto simp: signing_envelope_factory_def validate_simps Let_def simp del: append.simps)
  have "EnvelopeVerifier_verify cr ring e = Inr e \<and> AIJobEnvelope_validate e = Inr ()
      \<and> env_kid e = active_kid signer \<and> e = ?e\<lparr>env_signature := env_signature e\<rparr>"
    using assms(2) unfolding matching_keys_def
    by (intro signed_verifies [OF _ f(3) _ _ f(2)]) auto
  then show ?thesis using f(1) by (metis (no_types, lifting) AIJobEnvelope.select_convs AIJobEnvelope.update_convs(8))
qed

lemma row_envelope_claim [simp]: "row_envelope (claim_outbox_values worker token x b) = row_envelope b"
  by (simp add: row_envelope_def claim_outbox_values_def split: option.split)

lemma assigned_sealed:
  assumes "assign_envelope cr (signing_envelope_factory cr signer ids nonces clock) i b = Inr b1"
    and "matching_keys cr signer ring" "ob_message_id b = None"
  shows "\<exists>e. sealed cr ring b1 e"
proof -
  let ?f = "signing_envelope_factory cr signer ids nonces clock"
  obtain correlation where c: "ob_correlation_id b = Some correlation"
    using assms(1,3) by (auto simp: assign_envelope_def split: option.splits)
  obtain e digest where e: "?f i \<lparr>cand_tenant_id = ob_tenant_id b, cand_job_id = ob_job_id b,
              cand_correlation_id = correlation, cand_schema_version = ob_schema_version b\<rparr> = Inr e"
    and utc: "is_utc (env_issued_at e)" and d: "envelope_digest cr e = Inr digest"
    and b1: "b1 = b\<lparr>ob_message_id := Some (env_message_id e), ob_nonce := Some (env_nonce e),
              ob_issued_at := Some (dt_wall (env_issued_at e)), ob_signature := Some (env_signature e),
              ob_envelope_digest := Some digest\<rparr>"
    using assms(1,3) c by (auto simp: assign_envelope_def validate_simps time_simps)
  note f = factory_envelope [OF e assms(2)]
  have "row_envelope b1 = Some e"
    using f utc c by (simp add: row_envelope_def b1 aware_dt_wall)
  then show ?thesis using f d by (auto simp: sealed_def b1)
qed

lemma claimed_as_sealed:
  assumes "claimed_as cr (signing_envelope_factory cr signer ids nonces clock) tokens worker x b b'"
    and "matching_keys cr signer ring" "ob_message_id b = None \<or> (\<exists>e. sealed cr ring b e)"
  shows "\<exists>e. sealed cr ring b' e"
proof -
  obtain k b1 where k: "assign_envelope cr (signing_envelope_factory cr signer ids nonces clock) k b = Inr b1"
    "b' = claim_outbox_values worker (tokens k) x b1" using assms(1) by (auto simp: claimed_as_def)
  have "\<exists>e. sealed cr ring b1 e"
  proof (cases "ob_message_id b = None")
    case True
    then show ?thesis using assigned_sealed [OF k(1) assms(2)] by blast
  next
    case False
    then have "b1 = b" using k(1) by (simp add: assign_envelope_def)
    then show ?thesis using assms(3) False by (elim disjE) simp_all
  qed
  then obtain e where e: "sealed cr ring b1 e" by blast
  have "ob_envelope_digest b' = ob_envelope_digest b1" by (simp add: k(2) claim_outbox_values_def)
  then have "sealed cr ring b' e" using e unfolding sealed_def by (simp add: k(2))
  then show ?thesis by blast
qed

lemma claimed_as_message:
  "claimed_as cr factory tokens worker x b b' \<Longrightarrow> ob_message_id b \<noteq> None \<Longrightarrow>
     row_envelope b' = row_envelope b \<and> ob_message_id b' = ob_message_id b \<and> ob_envelope_digest b' = ob_envelope_digest b"
  by (auto simp: claimed_as_def assign_envelope_def) (simp_all add: claim_outbox_values_def)

lemma settled_message [simp]:
  "row_envelope (published_values q b) = row_envelope b" "row_envelope (released_values q b) = row_envelope b"
  "ob_message_id (published_values q b) = ob_message_id b" "ob_message_id (released_values q b) = ob_message_id b"
  "ob_envelope_digest (published_values q b) = ob_envelope_digest b"
  "ob_envelope_digest (released_values q b) = ob_envelope_digest b"
  by (simp_all add: row_envelope_def published_values_def released_values_def Let_def split: option.split)

definition keeps_message :: "outbox_row \<Rightarrow> outbox_row \<Rightarrow> bool" where
  "keeps_message b b' \<longleftrightarrow> ob_id b' = ob_id b \<and> row_envelope b' = row_envelope b \<and> ob_message_id b' = ob_message_id b
     \<and> ob_envelope_digest b' = ob_envelope_digest b \<and> ob_version b \<le> ob_version b'
     \<and> (ob_status b' = Outbox_PUBLISHING \<longrightarrow> b' = b)"

definition outbox_evolves :: "crypto \<Rightarrow> EnvelopeSigner \<Rightarrow> outbox_row \<Rightarrow> outbox_row \<Rightarrow> bool" where
  "outbox_evolves cr signer b b' \<longleftrightarrow> keeps_message b b'
     \<or> (\<exists>ids nonces clock tokens worker x.
          claimed_as cr (signing_envelope_factory cr signer ids nonces clock) tokens worker x b b')"

lemma keeps_message_refl: "keeps_message b b"
  by (simp add: keeps_message_def)

lemma settled_keeps_message: "keeps_message b (published_values q b)" "keeps_message b (released_values q b)"
  by (simp_all add: keeps_message_def settle_values_keys) (simp_all add: published_values_def released_values_def Let_def)

lemma evolves_refl: "list_all2 (outbox_evolves cr signer) rows rows"
  by (rule list.rel_refl_strong) (simp add: outbox_evolves_def keeps_message_refl)

lemma evolves_update:
  assumes "sql_update outbox_check p f rows = Inr (rows', n)" "\<And>b. keeps_message b (f b)"
  shows "list_all2 (outbox_evolves cr signer) rows rows'"
  by (rule sql_update_rows_related [OF assms(1)]) (simp_all add: outbox_evolves_def keeps_message_refl assms(2))

lemma evolves_version: "outbox_evolves cr signer b b' \<Longrightarrow> ob_id b' = ob_id b \<and> ob_version b \<le> ob_version b'"
  by (auto simp: outbox_evolves_def keeps_message_def claimed_as_def claim_outbox_values_def dest!: assign_envelope_keeps)

text \<open>What a step does to the rows of the outbox, whichever process makes it.\<close>

lemma outbox_step:
  assumes "runtime_step cr signer db db'" "runtime_ok db"
  shows "\<exists>rows new. db_outbox db' = rows @ new \<and> list_all2 (outbox_evolves cr signer) (db_outbox db) rows
    \<and> (\<forall>b\<in>set new. ob_message_id b = None \<and> ob_status b = Outbox_PENDING)"
proof -
  have same: ?thesis if "db_outbox db' = db_outbox db"
    using that by (intro exI [of _ "db_outbox db"] exI [of _ "[]"]) (simp add: evolves_refl)
  have upd: ?thesis if "db_outbox db' = rows" "list_all2 (outbox_evolves cr signer) (db_outbox db) rows" for rows
    using that by (intro exI [of _ rows] exI [of _ "[]"]) simp
  show ?thesis
    using assms(1)
  proof (cases rule: runtime_step.cases)
    case (submit g)
    obtain outbox where "outbox_model (graph_outbox g) (job_correlation_id (graph_job g)) = Inr outbox"
      "db_outbox db' = db_outbox db @ [outbox]" using submit(4) by (rule add_job_graph_Inr) simp
    then show ?thesis
      by (intro exI [of _ "db_outbox db"] exI [of _ "[outbox]"]) (auto simp: evolves_refl outbox_model_def validate_simps)
  next
    case (deliver w ids t m j e now d)
    then have "db_outbox db' = db_outbox db" by (cases rule: accept_deliveryE) simp_all
    then show ?thesis by (rule same)
  next
    case (heartbeat hq ok)
    then show ?thesis by (intro same) (auto dest!: repo_heartbeat_Inr)
  next
    case (finish fq ok)
    then show ?thesis by (intro same) (auto dest!: finalize_success_Inr split: if_splits)
  next
    case (cancel cq ok)
    then show ?thesis by (intro same) (auto dest!: cancel_claimable_job_Inr)
  next
    case (claim_batch ids nonces clock tokens locked now expires publisher limit claimed)
    let ?f = "signing_envelope_factory cr signer ids nonces clock"
    obtain rows x where rows: "db' = db\<lparr>db_outbox := rows\<rparr>" and
      rel: "list_all2 (\<lambda>b b'. b' = b \<or> due_outbox (dt_wall now) b \<and> claimed_as cr ?f tokens publisher x b b' \<and> outbox_check b')
         (db_outbox db) rows"
      by (rule claim_outbox_batch_Inr [OF claim_batch runtime_ok_parts(5) [OF assms(2)]]) blast
    from rel have "list_all2 (outbox_evolves cr signer) (db_outbox db) rows"
      by (rule list.rel_mono_strong) (auto simp: outbox_evolves_def keeps_message_refl)
    then show ?thesis using rows by (intro upd [of rows]) simp_all
  next
    case (published c now ok)
    from mark_published_Inr [OF published] obtain rows n where
      u: "sql_update outbox_check (settle_where \<lparr>set_claim = c, set_error = None, set_now = now\<rparr>)
         (published_values \<lparr>set_claim = c, set_error = None, set_now = now\<rparr>) (db_outbox db) = Inr (rows, n)"
      "db' = db\<lparr>db_outbox := rows\<rparr>" by blast
    show ?thesis
      by (rule upd [of rows]) (simp_all add: u(2) evolves_update [OF u(1) settled_keeps_message(1)])
  next
    case (released c error now ok)
    from release_or_block_Inr [OF released] obtain rows n where
      u: "sql_update outbox_check (settle_where \<lparr>set_claim = c, set_error = Some error, set_now = now\<rparr>)
         (released_values \<lparr>set_claim = c, set_error = Some error, set_now = now\<rparr>) (db_outbox db) = Inr (rows, n)"
      "db' = db\<lparr>db_outbox := rows\<rparr>" by blast
    show ?thesis
      by (rule upd [of rows]) (simp_all add: u(2) evolves_update [OF u(1) settled_keeps_message(2)])
  next
    case elsewhere
    then show ?thesis by (intro same)
  qed
qed

lemma outbox_row_before:
  assumes "runtime_step cr signer db db'" "runtime_ok db" "b' \<in> set (db_outbox db')"
    and "ob_message_id b' \<noteq> None \<or> ob_status b' \<noteq> Outbox_PENDING"
  shows "\<exists>b\<in>set (db_outbox db). outbox_evolves cr signer b b'"
proof -
  obtain rows new where s: "db_outbox db' = rows @ new" "list_all2 (outbox_evolves cr signer) (db_outbox db) rows"
    "\<forall>b\<in>set new. ob_message_id b = None \<and> ob_status b = Outbox_PENDING" using outbox_step [OF assms(1,2)] by blast
  then have "b' \<in> set rows" using assms(3,4) by auto
  then obtain i where "i < length rows" "b' = rows ! i" by (auto simp: in_set_conv_nth)
  then show ?thesis using s(2) by (intro bexI [of _ "db_outbox db ! i"]) (auto simp: list_all2_conv_all_nth)
qed

lemma outbox_row_after:
  assumes "runtime_step cr signer db db'" "runtime_ok db" "b \<in> set (db_outbox db)"
  shows "\<exists>b'\<in>set (db_outbox db'). outbox_evolves cr signer b b'"
proof -
  obtain rows new where s: "db_outbox db' = rows @ new" "list_all2 (outbox_evolves cr signer) (db_outbox db) rows"
    using outbox_step [OF assms(1,2)] by blast
  obtain i where "i < length (db_outbox db)" "b = db_outbox db ! i" using assms(3) by (auto simp: in_set_conv_nth)
  then show ?thesis using s by (intro bexI [of _ "rows ! i"]) (auto simp: list_all2_conv_all_nth)
qed

lemma outbox_sealed_step:
  assumes "runtime_step cr signer db db'" "runtime_ok db" "matching_keys cr signer ring" "outbox_sealed cr ring db"
  shows "outbox_sealed cr ring db'"
  unfolding outbox_sealed_def
proof
  fix b' assume b': "b' \<in> set (db_outbox db')"
  show "ob_message_id b' = None \<or> (\<exists>e. sealed cr ring b' e)"
  proof (cases "ob_message_id b' = None")
    case False
    then obtain b where b: "b \<in> set (db_outbox db)" "outbox_evolves cr signer b b'"
      using outbox_row_before [OF assms(1,2) b'] by blast
    then have old: "ob_message_id b = None \<or> (\<exists>e. sealed cr ring b e)" using assms(4) by (simp add: outbox_sealed_def)
    show ?thesis
      using b(2) unfolding outbox_evolves_def
    proof (elim disjE exE)
      assume "keeps_message b b'"
      then show ?thesis using old by (simp add: keeps_message_def sealed_def)
    next
      fix ids nonces clock tokens worker x
      assume "claimed_as cr (signing_envelope_factory cr signer ids nonces clock) tokens worker x b b'"
      from claimed_as_sealed [OF this assms(3) old] show ?thesis by blast
    qed
  qed simp
qed

text \<open>Once a row has a message, it keeps it.\<close>

definition carries :: "uuid \<Rightarrow> AIJobEnvelope \<Rightarrow> job_db \<Rightarrow> bool" where
  "carries k e db \<longleftrightarrow> (\<exists>b\<in>set (db_outbox db). ob_id b = k \<and> ob_message_id b \<noteq> None \<and> row_envelope b = Some e)"

lemma evolves_message:
  "outbox_evolves cr signer b b' \<Longrightarrow> ob_message_id b \<noteq> None \<Longrightarrow>
     row_envelope b' = row_envelope b \<and> ob_message_id b' = ob_message_id b"
  using claimed_as_message by (auto simp: outbox_evolves_def keeps_message_def)

lemma carries_step:
  assumes "runtime_step cr signer db db'" "runtime_ok db" "carries k e db"
  shows "carries k e db'"
proof -
  obtain b where b: "b \<in> set (db_outbox db)" "ob_id b = k" "ob_message_id b \<noteq> None" "row_envelope b = Some e"
    using assms(3) by (auto simp: carries_def)
  obtain b' where b': "b' \<in> set (db_outbox db')" "outbox_evolves cr signer b b'"
    using outbox_row_after [OF assms(1,2) b(1)] by blast
  then show ?thesis
    unfolding carries_def using b evolves_message [OF b'(2) b(3)] evolves_version [OF b'(2)]
    by (intro bexI [OF _ b'(1)]) simp
qed

lemma carries_unique:
  "runtime_ok db \<Longrightarrow> carries k e db \<Longrightarrow> b \<in> set (db_outbox db) \<Longrightarrow> ob_id b = k \<Longrightarrow> row_envelope b = Some e"
  using runtime_ok_parts(5) by (auto simp: carries_def distinct_map dest: inj_onD)

lemma claimed_outbox_Inr:
  "claimed_outbox b = Inr c \<Longrightarrow> row_envelope b = Some (co_envelope c) \<and> ob_envelope_digest b = Some (co_envelope_digest c)
     \<and> ob_id b = co_id c \<and> ob_tenant_id b = co_tenant_id c \<and> ob_job_id b = co_job_id c \<and> ob_version b = co_version c
     \<and> ob_claim_token b = Some (co_claim_token c) \<and> ob_claim_fence b = Some (co_claim_fence c)"
  by (auto simp: claimed_outbox_def validate_simps split: option.splits)

lemma row_envelope_message: "row_envelope b = Some e \<Longrightarrow> ob_message_id b = Some (env_message_id e)
    \<and> env_tenant_id e = ob_tenant_id b \<and> env_job_id e = ob_job_id b"
  by (auto simp: row_envelope_def split: option.splits)

text \<open>A claim always carries its expiry, so an interrupted publication becomes due again.\<close>

definition claims_expire :: "job_db \<Rightarrow> bool" where
  "claims_expire db \<longleftrightarrow> (\<forall>b\<in>set (db_outbox db). ob_status b = Outbox_PUBLISHING \<longrightarrow> ob_claim_expires_at b \<noteq> None)"

lemma claims_expire_step:
  assumes "runtime_step cr signer db db'" "runtime_ok db" "claims_expire db"
  shows "claims_expire db'"
  unfolding claims_expire_def
proof (intro ballI impI)
  fix b' assume b': "b' \<in> set (db_outbox db')" "ob_status b' = Outbox_PUBLISHING"
  then obtain b where "b \<in> set (db_outbox db)" "outbox_evolves cr signer b b'"
    using outbox_row_before [OF assms(1,2) b'(1)] by auto
  then show "ob_claim_expires_at b' \<noteq> None"
    using b'(2) assms(3)
    by (auto simp: outbox_evolves_def keeps_message_def claims_expire_def claimed_as_def claim_outbox_values_def)
qed

subsection \<open>Properties of the publisher\<close>

text \<open>
  C26. Every envelope a publisher batch hands out, at any time of any run, verifies under a ring
  that holds the public key of the signer, is a valid envelope for the tenant and the job of its row,
  names a stored job, and hashes to the digest the claim carries.
\<close>
theorem published_envelopes_verify:
  assumes "runtime_ok db0" "outbox_sealed cr ring db0" "matching_keys cr signer ring" "runtime_run cr signer db0 db"
    and "claim_outbox_batch cr (signing_envelope_factory cr signer ids nonces clock) tokens locked now expires worker limit db
      = Inr (claimed, db')" "c \<in> set claimed"
  shows "EnvelopeVerifier_verify cr ring (co_envelope c) = Inr (co_envelope c)
    \<and> AIJobEnvelope_validate (co_envelope c) = Inr () \<and> envelope_digest cr (co_envelope c) = Inr (co_envelope_digest c)
    \<and> env_tenant_id (co_envelope c) = co_tenant_id c \<and> env_job_id (co_envelope c) = co_job_id c
    \<and> (co_tenant_id c, co_job_id c) \<in> job_keys (db_jobs db)"
proof -
  have inv: "runtime_ok db \<and> outbox_sealed cr ring db"
    by (rule runtime_run_keeps [OF assms(4)]) (use assms(1-3) runtime_step_ok outbox_sealed_step in blast)+
  obtain b b' x where b: "b \<in> set (db_outbox db)" and b': "claimed_outbox b' = Inr c"
    and as: "claimed_as cr (signing_envelope_factory cr signer ids nonces clock) tokens worker x b b'"
    by (rule claim_outbox_batch_Inr [OF assms(5) runtime_ok_parts(5) [OF conjunct1 [OF inv]]]) (use assms(6) in blast)
  have old: "ob_message_id b = None \<or> (\<exists>e. sealed cr ring b e)" using inv b by (simp add: outbox_sealed_def)
  obtain e where e: "sealed cr ring b' e" using claimed_as_sealed [OF as assms(3) old] by blast
  note f = claimed_outbox_Inr [OF b'] and k = claimed_as_keeps [OF as]
  have "e = co_envelope c" using e f by (simp add: sealed_def)
  moreover have "(ob_tenant_id b, ob_job_id b) \<in> job_keys (db_jobs db)"
    using b runtime_ok_parts(2) [OF conjunct1 [OF inv]] by (simp add: outbox_ok_def)
  ultimately show ?thesis using e f k row_envelope_message [of b' e] by (simp add: sealed_def)
qed

text \<open>
  A row is republished as the same message: two claims of one outbox row, however far apart,
  hand out the same envelope with the same identifier, nonce and signature, so that the worker
  recognises the second as a duplicate.
\<close>
theorem republished_envelope_identical:
  assumes "runtime_ok db" "runtime_run cr signer db1 db2" "c1 \<in> set claimed1" "c2 \<in> set claimed2" "co_id c1 = co_id c2"
    and "claim_outbox_batch cr (signing_envelope_factory cr signer ids1 nonces1 clock1) tokens1 locked1 now1 expires1 worker1
      limit1 db = Inr (claimed1, db1)"
    and "claim_outbox_batch cr (signing_envelope_factory cr signer ids2 nonces2 clock2) tokens2 locked2 now2 expires2 worker2
      limit2 db2 = Inr (claimed2, db3)"
  shows "co_envelope c1 = co_envelope c2"
proof -
  have ok1: "runtime_ok db1" using runtime_step_ok [OF runtime_step.claim_batch [OF assms(6)] assms(1)] .
  obtain rows b' where db1: "db1 = db\<lparr>db_outbox := rows\<rparr>" "b' \<in> set rows" "claimed_outbox b' = Inr c1"
    by (rule claim_outbox_batch_Inr [OF assms(6) runtime_ok_parts(5) [OF assms(1)]]) (use assms(3) in blast)
  note f1 = claimed_outbox_Inr [OF db1(3)]
  have "carries (co_id c1) (co_envelope c1) db1"
    unfolding carries_def using db1 f1 row_envelope_message [of b' "co_envelope c1"] by (intro bexI [of _ b']) simp_all
  then have inv: "runtime_ok db2 \<and> carries (co_id c1) (co_envelope c1) db2"
    using ok1 by (intro runtime_run_keeps [OF assms(2), where P = "\<lambda>d. runtime_ok d \<and> carries (co_id c1) (co_envelope c1) d"])
      (use runtime_step_ok carries_step in blast)+
  obtain b b'' x where b: "b \<in> set (db_outbox db2)" and b'': "claimed_outbox b'' = Inr c2"
    and as: "claimed_as cr (signing_envelope_factory cr signer ids2 nonces2 clock2) tokens2 worker2 x b b''"
    by (rule claim_outbox_batch_Inr [OF assms(7) runtime_ok_parts(5) [OF conjunct1 [OF inv]]]) (use assms(4) in blast)
  note f2 = claimed_outbox_Inr [OF b''] and k = claimed_as_keeps [OF as]
  have e: "row_envelope b = Some (co_envelope c1)"
    using carries_unique [of db2 "co_id c1"] inv b k f2 assms(5) by auto
  then have "ob_message_id b \<noteq> None" using row_envelope_message by blast
  then show ?thesis using claimed_as_message [OF as] f2 e by simp
qed

definition outdated :: "ClaimedOutbox \<Rightarrow> job_db \<Rightarrow> bool" where
  "outdated c db \<longleftrightarrow> (\<exists>b\<in>set (db_outbox db). ob_id b = co_id c \<and> co_version c < ob_version b)"

lemma mark_outdates:
  assumes "mark_published c now db = Inr (True, db')" "runtime_ok db"
  shows "outdated c db'"
proof -
  obtain rows where u: "sql_update outbox_check (settle_where \<lparr>set_claim = c, set_error = None, set_now = now\<rparr>)
         (published_values \<lparr>set_claim = c, set_error = None, set_now = now\<rparr>) (db_outbox db) = Inr (rows, 1)"
    "db' = db\<lparr>db_outbox := rows\<rparr>" using mark_published_Inr [OF assms(1)] by auto
  obtain r where r: "settle_where \<lparr>set_claim = c, set_error = None, set_now = now\<rparr> r"
    "row_of ob_id (co_id c) rows = Some (published_values \<lparr>set_claim = c, set_error = None, set_now = now\<rparr> r)"
    using publish.winner_row [OF runtime_ok_parts(5) [OF assms(2)] u(1)] by auto
  have "ob_id (published_values \<lparr>set_claim = c, set_error = None, set_now = now\<rparr> r) = co_id c"
    "co_version c < ob_version (published_values \<lparr>set_claim = c, set_error = None, set_now = now\<rparr> r)"
    using r(1) by (simp_all add: settle_where_def published_values_def)
  then show ?thesis
    using u(2) row_of_SomeD [OF r(2)] unfolding outdated_def by (auto intro: bexI [rotated])
qed

lemma release_outdates:
  assumes "release_or_block c error now db = Inr (True, db')" "runtime_ok db"
  shows "outdated c db'"
proof -
  obtain rows where u: "sql_update outbox_check (settle_where \<lparr>set_claim = c, set_error = Some error, set_now = now\<rparr>)
         (released_values \<lparr>set_claim = c, set_error = Some error, set_now = now\<rparr>) (db_outbox db) = Inr (rows, 1)"
    "db' = db\<lparr>db_outbox := rows\<rparr>" using release_or_block_Inr [OF assms(1)] by auto
  obtain r where r: "settle_where \<lparr>set_claim = c, set_error = Some error, set_now = now\<rparr> r"
    "row_of ob_id (co_id c) rows = Some (released_values \<lparr>set_claim = c, set_error = Some error, set_now = now\<rparr> r)"
    using release.winner_row [OF runtime_ok_parts(5) [OF assms(2)] u(1)] by auto
  have "ob_id (released_values \<lparr>set_claim = c, set_error = Some error, set_now = now\<rparr> r) = co_id c"
    "co_version c < ob_version (released_values \<lparr>set_claim = c, set_error = Some error, set_now = now\<rparr> r)"
    using r(1) by (simp_all add: settle_where_def released_values_def Let_def)
  then show ?thesis
    using u(2) row_of_SomeD [OF r(2)] unfolding outdated_def by (auto intro: bexI [rotated])
qed

lemma outdated_step: "runtime_step cr signer db db' \<Longrightarrow> runtime_ok db \<Longrightarrow> outdated c db \<Longrightarrow> outdated c db'"
proof -
  assume step: "runtime_step cr signer db db'" "runtime_ok db" and "outdated c db"
  then obtain b where b: "b \<in> set (db_outbox db)" "ob_id b = co_id c" "co_version c < ob_version b"
    by (auto simp: outdated_def)
  obtain b' where "b' \<in> set (db_outbox db')" "outbox_evolves cr signer b b'"
    using outbox_row_after [OF step b(1)] by blast
  with b evolves_version [of cr signer b b'] show "outdated c db'"
    unfolding outdated_def by (intro bexI [of _ b']) auto
qed

lemma outdated_no_row:
  assumes "outdated c db" "runtime_ok db" "set_claim q = c" "r \<in> set (db_outbox db)"
  shows "\<not> settle_where q r"
proof
  assume w: "settle_where q r"
  obtain b where "b \<in> set (db_outbox db)" "ob_id b = co_id c" "co_version c < ob_version b"
    using assms(1) by (auto simp: outdated_def)
  moreover from this have "ob_id b = ob_id r" using w assms(3) by (simp add: settle_where_def)
  moreover from this have "b = r"
    using assms(4) calculation(1) runtime_ok_parts(5) [OF assms(2)] by (simp add: distinct_map inj_on_def)
  ultimately show False using w assms(3) by (simp add: settle_where_def)
qed

lemma outdated_loses:
  assumes "outdated c db" "runtime_ok db"
  shows "mark_published c now db = Inr (ok, db') \<Longrightarrow> \<not> ok \<and> db' = db"
    and "release_or_block c error now db = Inr (ok, db') \<Longrightarrow> \<not> ok \<and> db' = db"
  using sql_update_none [of "db_outbox db", OF outdated_no_row [OF assms]]
  by (auto dest!: mark_published_Inr release_or_block_Inr)

text \<open>
  A claim is settled at most once: after it was marked published or released, no later
  attempt to settle the same claim succeeds or changes the database, whatever happened in between.
\<close>
theorem claim_settled_once:
  assumes "runtime_ok db" "mark_published c now db = Inr (True, db1) \<or> release_or_block c error now db = Inr (True, db1)"
    and "runtime_run cr signer db1 db2"
    and "mark_published c now' db2 = Inr (ok, db3) \<or> release_or_block c error' now' db2 = Inr (ok, db3)"
  shows "\<not> ok \<and> db3 = db2"
proof -
  have "outdated c db1" using assms(1,2) mark_outdates release_outdates by blast
  moreover have "runtime_ok db1"
    using assms(2) runtime_step_ok [OF runtime_step.published assms(1)] runtime_step_ok [OF runtime_step.released assms(1)]
    by blast
  ultimately have "runtime_ok db2 \<and> outdated c db2"
    by (intro runtime_run_keeps [OF assms(3), where P = "\<lambda>d. runtime_ok d \<and> outdated c d"])
      (use runtime_step_ok outdated_step in blast)+
  then show ?thesis using assms(4) outdated_loses by blast
qed

text \<open>
  C27. No message is lost: along any run a row of the outbox is settled (published, blocked or
  superseded), or from some time on it is due for ever until a batch claims it, also when the
  publisher that claimed it stopped before it settled the claim.
\<close>
theorem unsettled_row_becomes_due:
  assumes "runtime_ok db0" "claims_expire db0" "runtime_run cr signer db0 db" "b \<in> set (db_outbox db)"
    and "ob_status b \<notin> {Outbox_PUBLISHED, Outbox_BLOCKED, Outbox_SUPERSEDED}"
  shows "\<exists>t. \<forall>now \<ge> t. due_outbox now b"
proof -
  have "runtime_ok db \<and> claims_expire db"
    by (rule runtime_run_keeps [OF assms(3)]) (use assms(1,2) runtime_step_ok claims_expire_step in blast)+
  then have expires: "ob_status b = Outbox_PUBLISHING \<longrightarrow> ob_claim_expires_at b \<noteq> None"
    using assms(4) by (simp add: claims_expire_def)
  consider "ob_status b = Outbox_PENDING" | "ob_status b = Outbox_PUBLISHING" using assms(5) by (cases "ob_status b") auto
  then show ?thesis
  proof cases
    case 1
    then show ?thesis by (intro exI [of _ "ob_available_at b"]) (simp add: due_outbox_def)
  next
    case 2
    then obtain t where "ob_claim_expires_at b = Some t" using expires by auto
    with 2 show ?thesis by (intro exI [of _ "t + 1"]) (simp add: due_outbox_def)
  qed
qed

lemma unsettled_row_becomes_due_witness:
  "claims_expire sample_db \<and> (\<exists>t. due_outbox t sample_outbox_row)"
proof -
  have c: "claims_expire sample_db" by (simp add: claims_expire_def sample_tables sample_outbox_row_def)
  obtain t where "\<forall>now \<ge> t. due_outbox now sample_outbox_row"
    using unsettled_row_becomes_due [OF sample_ok c runtime_run.idle, of sample_outbox_row]
    by (auto simp: sample_tables sample_outbox_row_def)
  then show ?thesis using c by blast
qed

subsection \<open>Batches\<close>

lemma publish_loop_counts:
  "publish_loop publish between now i cs published failed db = (Inr (p, f), db') \<Longrightarrow> p + f = published + failed + length cs"
  by (induction publish between now i cs published failed db arbitrary: p f db' rule: publish_loop.induct)
    (auto simp: Let_def split: sum.splits prod.splits bool.splits if_splits)

lemma claim_rows_length: "claim_rows cr factory tokens worker x i bs = Inr res \<Longrightarrow> length res = length bs"
  by (drule claim_rows_related) (simp add: list_all2_lengthD)

text \<open>
  A batch that returns accounts for every row it claimed, as published or as failed, and
  claims at most as many rows as it was asked to, whatever the broker answers and whatever other
  processes do to the database between its transactions.
\<close>
theorem publish_batch_accounts:
  assumes "publish_batch cr factory tokens locked publish between now limit db = (Inr res, db')"
  shows "res_claimed res = res_published res + res_failed res \<and> res_claimed res \<le> limit"
proof -
  obtain claimed db1 p f where c: "unit_of_work (claim_outbox_batch cr factory tokens locked now
        (dt_plus now (seconds 30)) ''publisher'' limit) db = (Inr claimed, db1)"
    and l: "publish_loop publish between now 0 claimed 0 0 db1 = (Inr (p, f), db')"
    and res: "res = \<lparr>res_claimed = length claimed, res_published = p, res_failed = f\<rparr>"
    using assms by (auto simp: publish_batch_def split: sum.splits prod.splits)
  have "length claimed \<le> limit"
    using c by (auto simp: unit_of_work_def claim_outbox_batch_def validate_simps select_outbox_def
        dest!: claim_rows_length split: sum.splits)
  then show ?thesis using publish_loop_counts [OF l] by (simp add: res)
qed

subsection \<open>A concrete batch\<close>

lemma factory_succeeds:
  assumes "matching_keys cr signer ring" "cand_schema_version c = 1" "length (nonces i) = 16"
    and "canonical_datetime (clock i) = Inr text"
  shows "\<exists>e. signing_envelope_factory cr signer ids nonces clock i c = Inr e \<and> env_issued_at e = clock i"
proof -
  let ?e = "\<lparr>env_schema_version = 1, env_message_id = ids i, env_job_id = cand_job_id c,
           env_tenant_id = cand_tenant_id c, env_correlation_id = cand_correlation_id c,
           env_issued_at = clock i, env_nonce = new_nonce (nonces i),
           env_signature = ''ed25519.dev.'' @ replicate 86 (CHR ''p'')\<rparr>"
  have p: "list_all url_b64_char (replicate 86 (CHR ''p''))"
    by (simp add: list_all_iff url_b64_char_def is_alnum_def is_lower_def is_upper_def is_digit_def code_def)
  have "list_all (\<lambda>b. b < 256) (map unat (nonces i))"
    using unsigned_less [where 'a = nat and 'b = 8] by (auto simp: list_all_iff)
  then have nonce: "matches_class url_b64_char 22 22 (new_nonce (nonces i))"
    using b64_groups_shape(1) b64_groups_shape(2) [of "map unat (nonces i)"] assms(3)
    by (simp add: matches_class_def new_nonce_def urlsafe_b64encode_unpadded_def)
  have pat: "SIGNATURE_PATTERN (''ed25519.dev.'' @ replicate 86 (CHR ''p'')) = Some (''dev'', replicate 86 (CHR ''p''))"
    using SIGNATURE_PATTERN_build [of "''dev''" "replicate 86 (CHR ''p'')"] p
    by (simp add: matches_class_def kid_char_def is_alnum_def is_lower_def is_upper_def is_digit_def code_def)
  obtain raw where "a2b_base64 0 0 0 (replicate 86 (CHR ''p'') @ ''=='') = Some raw" "length raw = 64"
    using a2b_length [OF p, of 0 0 0] by auto
  then have "\<exists>raw. urlsafe_b64decode (replicate 86 (CHR ''p'') @ ''=='') = Some raw \<and> length raw = 64"
    by (simp add: urlsafe_b64decode_def)
  then have valid: "AIJobEnvelope_validate ?e = Inr ()"
    using nonce encode_decode [of "nonces i"] assms(3) pat
    by (auto simp: AIJobEnvelope_validate_def validate_nonce_def NONCE_PATTERN_def new_nonce_def validate_signature_def
        simp del: append.simps replicate.simps)
  have seed: "\<exists>seed. map_of (seed_ring signer) (active_kid signer) = Some seed"
    using assms(1) by (auto simp: matching_keys_def EnvelopeSigner_init_def validate_simps)
  show ?thesis
    using seed valid assms(2,4)
    by (auto simp: signing_envelope_factory_def EnvelopeSigner_sign_def canonical_bytes_def Let_def simp del: append.simps)
qed

definition sample_signer :: EnvelopeSigner where
  "sample_signer = \<lparr>seed_ring = [(''k1'', replicate 32 9)], active_kid = ''k1''\<rparr>"

lemma sample_keys: "matching_keys sample_crypto sample_signer [(''k1'', replicate 32 9)]"
  using sample_kids(1)
  by (simp add: matching_keys_def sample_signer_def EnvelopeSigner_init_def require_eval sample_crypto_def)

definition sample_batch :: "job_db \<Rightarrow> datetime \<Rightarrow> (ClaimedOutbox list \<times> job_db) result" where
  "sample_batch db now = claim_outbox_batch sample_crypto (signing_envelope_factory sample_crypto sample_signer
     (\<lambda>i. u7 11) (\<lambda>i. replicate 16 0) (\<lambda>i. aware 1709164800123456)) (\<lambda>i. u7 12) (\<lambda>u. False) now
     (dt_plus now (seconds 30)) ''publisher'' 10 db"

lemma row_claimable:
  assumes "assign_envelope sample_crypto (signing_envelope_factory sample_crypto sample_signer
      (\<lambda>i. u7 11) (\<lambda>i. replicate 16 0) (\<lambda>i. aware 1709164800123456)) 0 b = Inr b1"
    and "sealed sample_crypto [(''k1'', replicate 32 9)] b1 e" "due_outbox n b" "outbox_check b1"
    and "ob_publish_attempt_count b1 < 2147483647"
  shows "\<exists>c b'. sample_batch (db\<lparr>db_outbox := [b]\<rparr>) (aware n) = Inr ([c], db\<lparr>db_outbox := [b']\<rparr>)
    \<and> b' = claim_outbox_values ''publisher'' (u7 12) (n + 30000000) b1 \<and> claimed_outbox b' = Inr c"
proof -
  let ?b = "claim_outbox_values ''publisher'' (u7 12) (n + 30000000) b1"
  have sel: "select_outbox n 10 (\<lambda>u. False) [b] = [b]"
    using assms(3) by (simp add: select_outbox_def)
  have id: "ob_id b1 = ob_id b" using assign_envelope_keeps [OF assms(1)] by simp
  have chk: "outbox_check ?b"
    using assms(4,5) by (simp add: outbox_check_def claim_outbox_values_def claim_columns_def)
  have b: "ob_claim_token ?b = Some (u7 12)" "\<exists>f. ob_claim_fence ?b = Some f" "ob_id ?b = ob_id b"
    "ob_envelope_digest ?b = ob_envelope_digest b1"
    by (simp_all add: claim_outbox_values_def id)
  obtain c where c: "claimed_outbox ?b = Inr c"
    using assms(2) b by (auto simp: claimed_outbox_def sealed_def)
  have "dt_plus (aware n) (seconds 30) = aware (n + 30000000)" by (simp add: dt_plus_def aware_def seconds_def)
  then have "sample_batch (db\<lparr>db_outbox := [b]\<rparr>) (aware n) = Inr ([c], db\<lparr>db_outbox := [?b]\<rparr>)"
    using sel assms(1) chk c b(3)
    by (simp add: sample_batch_def claim_outbox_batch_def Let_def flush_outbox_def write_back_def row_of_def)
  then show ?thesis using c by blast
qed

lemma sample_claimed:
  "\<exists>c b e. sample_batch sample_db (aware 20) = Inr ([c], sample_db\<lparr>db_outbox := [b]\<rparr>) \<and> claimed_outbox b = Inr c
     \<and> sealed sample_crypto [(''k1'', replicate 32 9)] b e \<and> outbox_check b \<and> ob_publish_attempt_count b = 1
     \<and> ob_status b = Outbox_PUBLISHING \<and> ob_claim_expires_at b = Some 30000020"
proof -
  let ?f = "signing_envelope_factory sample_crypto sample_signer (\<lambda>i. u7 11) (\<lambda>i. replicate 16 0)
      (\<lambda>i. aware 1709164800123456)"
  obtain e where e: "?f 0 \<lparr>cand_tenant_id = u7 1, cand_job_id = u7 5, cand_correlation_id = u7 7,
      cand_schema_version = 1\<rparr> = Inr e" "env_issued_at e = aware 1709164800123456"
    using factory_succeeds [OF sample_keys, of "\<lparr>cand_tenant_id = u7 1, cand_job_id = u7 5, cand_correlation_id = u7 7,
      cand_schema_version = 1\<rparr>" "\<lambda>i. replicate 16 0" 0 "\<lambda>i. aware 1709164800123456"] canonical_datetime_sample by auto
  have "\<exists>b. canonical_bytes e = Inr b" using e(2) canonical_datetime_sample by (simp add: canonical_bytes_def)
  then obtain digest where d: "envelope_digest sample_crypto e = Inr digest" by (auto simp: envelope_digest_def)
  obtain b1 where b1: "assign_envelope sample_crypto ?f 0 sample_outbox_row = Inr b1"
    using e d by (simp add: assign_envelope_def sample_outbox_row_def)
  obtain s where s: "sealed sample_crypto [(''k1'', replicate 32 9)] b1 s"
    using assigned_sealed [OF b1 sample_keys] by (auto simp: sample_outbox_row_def)
  have chk: "outbox_check b1" "ob_publish_attempt_count b1 = 0"
    using b1 e d by (auto simp: assign_envelope_def sample_outbox_row_def outbox_check_def claim_columns_def)
  have due: "due_outbox 20 sample_outbox_row" by (simp add: due_outbox_def sample_outbox_row_def)
  have db: "sample_db\<lparr>db_outbox := [sample_outbox_row]\<rparr> = sample_db" by (simp add: sample_db_def)
  obtain c b where c: "sample_batch sample_db (aware 20) = Inr ([c], sample_db\<lparr>db_outbox := [b]\<rparr>)"
    "b = claim_outbox_values ''publisher'' (u7 12) (20 + 30000000) b1" "claimed_outbox b = Inr c"
    using row_claimable [OF b1 s due chk(1), of sample_db] chk(2) unfolding db by auto
  have "sealed sample_crypto [(''k1'', replicate 32 9)] b s"
    using s unfolding c(2) sealed_def row_envelope_claim by (simp add: claim_outbox_values_def)
  moreover have "outbox_check b" "ob_publish_attempt_count b = 1" "ob_status b = Outbox_PUBLISHING"
    "ob_claim_expires_at b = Some 30000020"
    using chk by (simp_all add: c(2) outbox_check_def claim_outbox_values_def claim_columns_def)
  ultimately show ?thesis using c by blast
qed

lemma sample_sealed: "outbox_sealed sample_crypto ring sample_db"
  by (simp add: outbox_sealed_def sample_tables sample_outbox_row_def)

lemma published_envelopes_verify_witness:
  "\<exists>c db'. sample_batch sample_db (aware 20) = Inr ([c], db')
     \<and> EnvelopeVerifier_verify sample_crypto [(''k1'', replicate 32 9)] (co_envelope c) = Inr (co_envelope c)"
proof -
  obtain c db' where c: "sample_batch sample_db (aware 20) = Inr ([c], db')" using sample_claimed by blast
  show ?thesis
    using c published_envelopes_verify [OF sample_ok sample_sealed sample_keys runtime_run.idle c [unfolded sample_batch_def], of c]
    by auto
qed

lemma republished_envelope_identical_witness:
  "\<exists>c1 c2 db1 db2. sample_batch sample_db (aware 20) = Inr ([c1], db1) \<and> sample_batch db1 (aware 40000000) = Inr ([c2], db2)
     \<and> co_envelope c1 = co_envelope c2"
proof -
  obtain c1 b e where b: "sample_batch sample_db (aware 20) = Inr ([c1], sample_db\<lparr>db_outbox := [b]\<rparr>)"
    "claimed_outbox b = Inr c1" "sealed sample_crypto [(''k1'', replicate 32 9)] b e" "outbox_check b"
    "ob_publish_attempt_count b = 1" "ob_status b = Outbox_PUBLISHING" "ob_claim_expires_at b = Some 30000020"
    using sample_claimed by blast
  have "ob_message_id b \<noteq> None" using b(3) row_envelope_message by (auto simp: sealed_def)
  then have again: "assign_envelope cr f i b = Inr b" for cr f i by (simp add: assign_envelope_def)
  have due: "due_outbox 40000000 b" using b(6,7) by (simp add: due_outbox_def)
  obtain c2 b' where c2: "sample_batch (sample_db\<lparr>db_outbox := [b]\<rparr>) (aware 40000000) = Inr ([c2], sample_db\<lparr>db_outbox := [b']\<rparr>)"
    "b' = claim_outbox_values ''publisher'' (u7 12) (40000000 + 30000000) b" "claimed_outbox b' = Inr c2"
    using row_claimable [OF again b(3) due b(4), of sample_db] b(5) by auto
  have "co_id c1 = co_id c2"
    using claimed_outbox_Inr [OF b(2)] claimed_outbox_Inr [OF c2(3)] by (simp add: c2(2) claim_outbox_values_def)
  then have "co_envelope c1 = co_envelope c2"
    using republished_envelope_identical [OF sample_ok runtime_run.idle, of c1 "[c1]" c2 "[c2]"] b(1) c2(1)
    unfolding sample_batch_def by auto
  then show ?thesis using b(1) c2(1) by blast
qed

lemma settling_never_fails:
  assumes "runtime_ok db" "is_utc now"
  shows "\<exists>ok db'. mark_published c now db = Inr (ok, db')" "\<exists>ok db'. release_or_block c error now db = Inr (ok, db')"
proof -
  have chk: "list_all outbox_check (db_outbox db)" using assms(1) by (simp add: runtime_ok_def outbox_ok_def)
  have n: "naive now = Inr (dt_wall now)" "naive (dt_plus now d) = Inr (dt_wall now + d)" for d
    using assms(2) by (simp_all add: time_simps)
  show "\<exists>ok db'. mark_published c now db = Inr (ok, db')"
    using publish.never_rejected [OF chk, of "\<lparr>set_claim = c, set_error = None, set_now = now\<rparr>"] n
    by (auto simp: mark_published_def Let_def)
  show "\<exists>ok db'. release_or_block c error now db = Inr (ok, db')"
    using release.never_rejected [OF chk, of "\<lparr>set_claim = c, set_error = Some error, set_now = now\<rparr>"] n
    by (auto simp: release_or_block_def Let_def)
qed

lemma sample_marked:
  "\<exists>c db1 db2. sample_batch sample_db (aware 20) = Inr ([c], db1) \<and> runtime_ok db1
     \<and> mark_published c (aware 30) db1 = Inr (True, db2)"
proof -
  obtain c b e where b: "sample_batch sample_db (aware 20) = Inr ([c], sample_db\<lparr>db_outbox := [b]\<rparr>)"
    "claimed_outbox b = Inr c" "outbox_check b" "ob_status b = Outbox_PUBLISHING"
    using sample_claimed by blast
  have "runtime_ok (sample_db\<lparr>db_outbox := [b]\<rparr>)"
    using runtime_step_ok [OF runtime_step.claim_batch [OF b(1) [unfolded sample_batch_def]] sample_ok] .
  moreover have "settle_where \<lparr>set_claim = c, set_error = None, set_now = aware 30\<rparr> b"
    using claimed_outbox_Inr [OF b(2)] b(4) by (simp add: settle_where_def)
  then have "\<exists>db2. mark_published c (aware 30) (sample_db\<lparr>db_outbox := [b]\<rparr>) = Inr (True, db2)"
    using b(3) publish.change_chk by (simp add: mark_published_def Let_def sql_update_def)
  ultimately show ?thesis using b(1) by blast
qed

lemma claim_settled_once_witness:
  "\<exists>c db1 db2 ok db3. sample_batch sample_db (aware 20) = Inr ([c], db1) \<and> mark_published c (aware 30) db1 = Inr (True, db2)
     \<and> mark_published c (aware 31) db2 = Inr (ok, db3) \<and> \<not> ok \<and> db3 = db2"
proof -
  obtain c db1 db2 where c: "sample_batch sample_db (aware 20) = Inr ([c], db1)" "runtime_ok db1"
    "mark_published c (aware 30) db1 = Inr (True, db2)" using sample_marked by blast
  have "runtime_ok db2" using runtime_step_ok [OF runtime_step.published [OF c(3)] c(2)] .
  from settling_never_fails(1) [OF this is_utc_aware] obtain ok db3 where m: "mark_published c (aware 31) db2 = Inr (ok, db3)"
    by blast
  then have "\<not> ok \<and> db3 = db2"
    using claim_settled_once [OF c(2) disjI1 [OF c(3)] runtime_run.idle, of "aware 31"] by blast
  then show ?thesis using c m by blast
qed

lemma publish_batch_accounts_witness:
  "\<exists>res db'. publish_batch sample_crypto (signing_envelope_factory sample_crypto sample_signer (\<lambda>i. u7 11)
       (\<lambda>i. replicate 16 0) (\<lambda>i. aware 1709164800123456)) (\<lambda>i. u7 12) (\<lambda>u. False)
       (\<lambda>i e k. Inr \<lparr>rec_confirmed = False, rec_error_code = Some RABBIT_NACK\<rparr>) (\<lambda>i d. d) (aware 20) 10 sample_db = (Inr res, db')
     \<and> res_claimed res = 1 \<and> res_failed res = 1"
proof -
  let ?f = "signing_envelope_factory sample_crypto sample_signer (\<lambda>i. u7 11) (\<lambda>i. replicate 16 0)
      (\<lambda>i. aware 1709164800123456)"
  let ?publish = "\<lambda>(i :: nat) (e :: AIJobEnvelope) (k :: string). Inr \<lparr>rec_confirmed = False, rec_error_code = Some RABBIT_NACK\<rparr> :: PublishReceipt result"
  obtain c db1 where c: "sample_batch sample_db (aware 20) = Inr ([c], db1)" using sample_claimed by blast
  have "runtime_ok db1" using runtime_step_ok [OF runtime_step.claim_batch [OF c [unfolded sample_batch_def]] sample_ok] .
  from settling_never_fails(2) [OF this is_utc_aware] obtain ok db2 where
    r: "release_or_block c RABBIT_NACK (aware 20) db1 = Inr (ok, db2)" by blast
  have p: "publish_batch sample_crypto ?f (\<lambda>i. u7 12) (\<lambda>u. False) ?publish (\<lambda>i d. d) (aware 20) 10 sample_db
      = (Inr \<lparr>res_claimed = 1, res_published = 0, res_failed = 1\<rparr>, db2)"
    using c r by (simp add: publish_batch_def unit_of_work_def sample_batch_def)
  show ?thesis using publish_batch_accounts [OF p] p by simp
qed

end
