(* ===== verification/JobService.thy ===== *)
theory JobService
  imports JobSafety
begin

text \<open>
  \<open>application/ai_job_service.py\<close>: the service behind the HTTP routes of AI jobs.  \<open>create_job\<close> checks the
  permission, reserves the idempotency key, stores the job with its grant and its outbox row, and
  completes the key, all in one unit of work; \<open>get_job\<close> and \<open>cancel_job\<close> read and cancel.  The fresh
  identifiers and the clock are arguments.
\<close>

definition JOB_OPERATION :: string where "JOB_OPERATION = ''ai_job.create''"
definition JOB_RESULT_TYPE :: string where "JOB_RESULT_TYPE = ''ai_job.job''"
definition CREATE_ROUTE :: string where "CREATE_ROUTE = ''/api/v1/tenants/{tenant_id}/ai-jobs''"

subsection \<open>Commands\<close>

record CreateAIJobCommand =
  cmd_tenant_id :: uuid
  cmd_membership_id :: uuid
  cmd_user_id :: uuid
  cmd_session_id :: uuid
  cmd_auth_version :: int
  cmd_authz_version :: int
  cmd_idempotency_key :: string
  cmd_kind :: string
  cmd_scenario :: string
  cmd_work_units :: int

definition CreateAIJobCommand_post_init :: "CreateAIJobCommand \<Rightarrow> unit result" where
  "CreateAIJobCommand_post_init c = require
     [uuid_check (cmd_tenant_id c) ''command tenant_id'',
      uuid_check (cmd_membership_id c) ''command membership_id'',
      uuid_check (cmd_user_id c) ''command user_id'',
      uuid_check (cmd_session_id c) ''command session_id'',
      (cmd_idempotency_key c \<noteq> [], ValueError ''idempotency key must be non-empty text''),
      (cmd_kind c = SYNTHETIC_HANDLER_KIND, ValueError ''only the synthetic handler is currently available''),
      (cmd_scenario c \<in> set [''success'', ''retry_once'', ''permanent_failure'', ''wait_for_cancel''],
        ValueError ''unknown synthetic scenario''),
      (1 \<le> cmd_work_units c \<and> cmd_work_units c \<le> 10, ValueError ''work units must be between 1 and 10'')]"

record AcceptedAIJob =
  accepted_job_id :: uuid
  accepted_tenant_id :: uuid
  accepted_etag :: string
  accepted_replayed :: bool

definition job_context :: "CreateAIJobCommand \<Rightarrow> datetime \<Rightarrow> TenantContext" where
  "job_context c now =
     \<lparr>ctx_tenant_id = cmd_tenant_id c, ctx_membership_id = Some (cmd_membership_id c),
      ctx_membership_user_id = Some (cmd_user_id c), ctx_department_id = None,
      ctx_tenant_status = TenantStatus_ACTIVE, ctx_membership_status = Some MembershipStatus_ACTIVE,
      ctx_valid_from = Some (dt_plus now (- seconds 60)), ctx_valid_until = None,
      ctx_authz_version = Some (cmd_authz_version c), ctx_session_authz_version = Some (cmd_authz_version c),
      ctx_scope = \<lparr>department_ids = {}, allow_tenant_wide = True, allow_owned = False, allow_shared = False,
        allow_matter_team = False, allow_class = False, allow_client_delegation = False,
        maximum_confidentiality = RESTRICTED, unrecognized_scope_codes = {}\<rparr>\<rparr>"

subsection \<open>Creating a job\<close>

record job_ids =
  new_record_id :: uuid
  new_job_id :: uuid
  new_correlation_id :: uuid
  new_grant_id :: uuid
  new_outbox_id :: uuid

definition create_scope :: "CreateAIJobCommand \<Rightarrow> IdempotencyScope" where
  "create_scope c = \<lparr>scope_type = ScopeType_MEMBERSHIP, scope_id = cmd_membership_id c,
     scope_tenant_id = Some (cmd_tenant_id c)\<rparr>"

definition create_body :: "CreateAIJobCommand \<Rightarrow> IdempotencyFingerprintPayload" where
  "create_body c =
     \<lparr>payload_values = [(''kind'', JStr (cmd_kind c)), (''scenario'', JStr (cmd_scenario c)),
        (''work_units'', JInt (cmd_work_units c))],
      payload_business_paths = [[''kind''], [''scenario''], [''work_units'']], payload_secret_paths = []\<rparr>"

definition create_request :: "CreateAIJobCommand \<Rightarrow> IdempotencyRequest" where
  "create_request c = \<lparr>req_key = cmd_idempotency_key c, req_method = ''POST'',
     req_canonical_route = CREATE_ROUTE, req_body = create_body c\<rparr>"

definition submitted_job :: "job_ids \<Rightarrow> CreateAIJobCommand \<Rightarrow> uuid \<Rightarrow> datetime \<Rightarrow> datetime AIJob" where
  "submitted_job ids c record_id now =
     \<lparr>job_id = new_job_id ids, job_tenant_id = cmd_tenant_id c, job_handler_code = cmd_kind c,
      job_handler_version = ''v1'', job_input_schema_version = SYNTHETIC_INPUT_SCHEMA_VERSION,
      job_input_json = [(''scenario'', JStr (cmd_scenario c)), (''work_units'', JInt (cmd_work_units c))],
      job_input_fingerprint = replicate 32 (byte 0x69), job_created_by_user_id = cmd_user_id c,
      job_created_by_membership_id = cmd_membership_id c, job_created_by_session_id = cmd_session_id c,
      job_actor_snapshot_json = [(''user_id'', JStr (uuid_str (cmd_user_id c))),
        (''membership_id'', JStr (uuid_str (cmd_membership_id c))),
        (''session_id'', JStr (uuid_str (cmd_session_id c))),
        (''auth_version'', JInt (cmd_auth_version c)), (''authz_version'', JInt (cmd_authz_version c))],
      job_policy_version_at_submit = JOB_POLICY_VERSION, job_visibility = OWNER_ONLY, job_status = QUEUED,
      job_current_attempt_no = 0, job_max_attempts = 4, job_risk_class = SYNTHETIC,
      job_release_state = NON_PUBLISHABLE, job_idempotency_record_id = record_id,
      job_correlation_id = new_correlation_id ids, job_submitted_at = now,
      job_expires_at = dt_plus now (seconds 3600), job_version = 1, job_next_attempt_at = None,
      job_lease_owner = None, job_lease_token = None, job_lease_fence = None, job_lease_expires_at = None,
      job_cancel_requested_at = None, job_cancel_requested_by_user_id = None, job_cancel_reason_code = None,
      job_result_json = None, job_failure_class = None, job_failure_code = None, job_started_at = None,
      job_completed_at = None\<rparr>"

definition submitted_grant :: "job_ids \<Rightarrow> CreateAIJobCommand \<Rightarrow> datetime \<Rightarrow> datetime JobExecutionGrant" where
  "submitted_grant ids c now =
     \<lparr>grant_id = new_grant_id ids, grant_tenant_id = cmd_tenant_id c, grant_job_id = new_job_id ids,
      grant_user_id = cmd_user_id c, grant_membership_id = cmd_membership_id c,
      grant_permission_code = Permission_CREATE, grant_auth_version_at_submit = cmd_auth_version c,
      grant_authz_version_at_submit = cmd_authz_version c, grant_policy_version = JOB_POLICY_VERSION,
      grant_job_scope_manifest_version = JOB_SCOPE_MANIFEST_VERSION, grant_job_scope_code = OWNER_SHARED,
      grant_issued_at = now, grant_revoked_at = None, grant_revocation_reason_code = None, grant_version = 1\<rparr>"

definition submitted_outbox :: "job_ids \<Rightarrow> CreateAIJobCommand \<Rightarrow> datetime \<Rightarrow> NewAIJobOutbox" where
  "submitted_outbox ids c now =
     \<lparr>new_ob_id = new_outbox_id ids, new_ob_tenant_id = cmd_tenant_id c, new_ob_job_id = new_job_id ids,
      new_ob_dispatch_generation = 1, new_ob_envelope_generation = 1, new_ob_max_envelope_generations = 4,
      new_ob_event_type = ''ai_job.execute_requested'', new_ob_routing_key = ''ai.job.execute'',
      new_ob_schema_version = 1, new_ob_available_at = now\<rparr>"

definition submitted_graph :: "job_ids \<Rightarrow> CreateAIJobCommand \<Rightarrow> uuid \<Rightarrow> datetime \<Rightarrow> NewAIJobGraph result" where
  "submitted_graph ids c record_id now =
     (let job = submitted_job ids c record_id now; grant = submitted_grant ids c now; outbox = submitted_outbox ids c now;
          graph = \<lparr>graph_job = job, graph_grant = grant, graph_outbox = outbox\<rparr> in
      bindE (AIJob_post_init job) (\<lambda>_.
      bindE (JobExecutionGrant_post_init grant) (\<lambda>_.
      bindE (NewAIJobOutbox_post_init outbox) (\<lambda>_.
      bindE (NewAIJobGraph_post_init graph) (\<lambda>_. Inr graph)))))"

definition etag_of :: "int \<Rightarrow> string" where
  "etag_of version = ''\"'' @ int_str version @ ''\"''"

text \<open>The two halves of \<open>create\<close> after the reservation.\<close>

definition replay_job :: "CreateAIJobCommand \<Rightarrow> IdempotencyResultReference \<Rightarrow> datetime \<Rightarrow> job_db
    \<Rightarrow> (AcceptedAIJob \<times> job_db) result" where
  "replay_job c result now db =
     bindE (repo_get (job_context c now) (ref_result_id result) db) (\<lambda>found.
     case found of
       None \<Rightarrow> Inl AIJobNotFound
     | Some j \<Rightarrow> Inr (\<lparr>accepted_job_id = job_id j, accepted_tenant_id = cmd_tenant_id c,
         accepted_etag = etag_of (job_version j), accepted_replayed = True\<rparr>, db))"

definition submit_job :: "job_ids \<Rightarrow> CreateAIJobCommand \<Rightarrow> IdempotencyReservation \<Rightarrow> datetime \<Rightarrow> job_db
    \<Rightarrow> (AcceptedAIJob \<times> job_db) result" where
  "submit_job ids c reservation now db =
     bindE (submitted_graph ids c (rsv_record_id reservation) now) (\<lambda>graph.
     bindE (add_job_graph graph db) (\<lambda>db1.
     bindE (result_reference JOB_RESULT_TYPE (new_job_id ids) None None) (\<lambda>result.
     bindE (IdempotencyService_complete reservation result now (db_idempotency db1)) (\<lambda>rows.
       Inr (\<lparr>accepted_job_id = new_job_id ids, accepted_tenant_id = cmd_tenant_id c,
          accepted_etag = ''\"{1}\"'', accepted_replayed = False\<rparr>, db1\<lparr>db_idempotency := rows\<rparr>)))))"

definition create_job :: "externals \<Rightarrow> bytes \<Rightarrow> int \<Rightarrow> job_ids \<Rightarrow> CreateAIJobCommand \<Rightarrow> datetime \<Rightarrow> job_db
    \<Rightarrow> (AcceptedAIJob \<times> job_db) result" where
  "create_job ext secret ttl ids c now db =
     bindE (lookup_membership_permissions (cmd_tenant_id c) (cmd_membership_id c) db) (\<lambda>reloaded.
     if AIJobPermission_value Permission_CREATE \<notin> reloaded then Inl AIJobAccessDenied else
     bindE (IdempotencyScope_post_init (create_scope c)) (\<lambda>_.
     bindE (FingerprintPayload_post_init (create_body c)) (\<lambda>_.
     bindE (IdempotencyService_reserve ext secret ttl (create_scope c) JOB_OPERATION (create_request c) now
         (new_record_id ids) (db_idempotency db)) (\<lambda>(reservation, rows).
     case rsv_replay reservation of
       Some result \<Rightarrow> replay_job c result now (db\<lparr>db_idempotency := rows\<rparr>)
     | None \<Rightarrow> submit_job ids c reservation now (db\<lparr>db_idempotency := rows\<rparr>)))))"

definition AIJobService_create :: "externals \<Rightarrow> bytes \<Rightarrow> int \<Rightarrow> job_ids \<Rightarrow> CreateAIJobCommand \<Rightarrow> datetime \<Rightarrow> job_db
    \<Rightarrow> AcceptedAIJob result \<times> job_db" where
  "AIJobService_create ext secret ttl ids c now = unit_of_work (create_job ext secret ttl ids c now)"

subsection \<open>Reading and cancelling\<close>

definition get_job :: "TenantContext \<Rightarrow> uuid \<Rightarrow> job_db \<Rightarrow> datetime AIJob result" where
  "get_job context job db =
     bindE (repo_get context job db) (\<lambda>found. case found of None \<Rightarrow> Inl AIJobNotFound | Some j \<Rightarrow> Inr j)"

definition cancel_job :: "TenantContext \<Rightarrow> uuid \<Rightarrow> datetime \<Rightarrow> job_db \<Rightarrow> unit result \<times> job_db" where
  "cancel_job context job now = unit_of_work (\<lambda>db.
     bindE (cancel_claimable_job \<lparr>cancel_tenant_id = ctx_tenant_id context, cancel_job_id = job, cancel_now = now\<rparr> db)
       (\<lambda>(ok, db'). if ok then Inr ((), db') else Inl AIJobNotFound))"

subsection \<open>What a call of \<open>create\<close> does\<close>

lemma unit_of_work_Inr: "unit_of_work body db = (Inr a, db') \<longleftrightarrow> body db = Inr (a, db')"
  by (auto simp: unit_of_work_def split: sum.splits prod.splits)

lemma unit_of_work_Inl: "unit_of_work body db = (Inl e, db') \<Longrightarrow> db' = db"
  by (auto simp: unit_of_work_def split: sum.splits prod.splits)

lemma etag_of_first: "''\"{1}\"'' \<noteq> etag_of v"
proof -
  have "CHR ''{'' \<notin> set (nat_digits (nat v))" by (auto dest: nat_digits_chars simp: code_def)
  then have "nat_digits (nat v) \<noteq> ''{1}''" by auto
  then show ?thesis by (auto simp: etag_of_def int_str_def)
qed

lemma submitted_graph_Inr:
  "submitted_graph ids c record_id now = Inr graph \<Longrightarrow>
     graph = \<lparr>graph_job = submitted_job ids c record_id now, graph_grant = submitted_grant ids c now,
       graph_outbox = submitted_outbox ids c now\<rparr> \<and> NewAIJobGraph_post_init graph = Inr ()
     \<and> AIJob_post_init (graph_job graph) = Inr () \<and> JobExecutionGrant_post_init (graph_grant graph) = Inr ()"
  by (auto simp: submitted_graph_def Let_def validate_simps simp del: require_append)

lemma submit_jobE:
  assumes "submit_job ids c rsv now db = Inr (a, db')"
  obtains graph db1 result rows where
    "submitted_graph ids c (rsv_record_id rsv) now = Inr graph" "add_job_graph graph db = Inr db1"
    "result_reference JOB_RESULT_TYPE (new_job_id ids) None None = Inr result"
    "IdempotencyService_complete rsv result now (db_idempotency db1) = Inr rows"
    "a = \<lparr>accepted_job_id = new_job_id ids, accepted_tenant_id = cmd_tenant_id c,
        accepted_etag = ''\"{1}\"'', accepted_replayed = False\<rparr>"
    "db' = db1\<lparr>db_idempotency := rows\<rparr>"
  using assms by (auto simp: submit_job_def validate_simps)

lemma replay_job_Inr:
  "replay_job c result now db = Inr (a, db') \<Longrightarrow>
     db' = db \<and> (\<exists>j. repo_get (job_context c now) (ref_result_id result) db = Inr (Some j)
       \<and> a = \<lparr>accepted_job_id = job_id j, accepted_tenant_id = cmd_tenant_id c,
           accepted_etag = etag_of (job_version j), accepted_replayed = True\<rparr>)"
  by (auto simp: replay_job_def validate_simps split: option.splits)

lemma create_jobE:
  assumes "create_job ext secret ttl ids c now db = Inr (a, db')"
  obtains rsv rows where
    "''ai_job.create'' \<in> permission_codes_of (role_rows (cmd_tenant_id c) (cmd_membership_id c) db)"
    "IdempotencyService_reserve ext secret ttl (create_scope c) JOB_OPERATION (create_request c) now
       (new_record_id ids) (db_idempotency db) = Inr (rsv, rows)"
    "(\<exists>result. rsv_replay rsv = Some result \<and> replay_job c result now (db\<lparr>db_idempotency := rows\<rparr>) = Inr (a, db'))
     \<or> rsv_replay rsv = None \<and> submit_job ids c rsv now (db\<lparr>db_idempotency := rows\<rparr>) = Inr (a, db')"
  using assms
  by (fastforce simp: create_job_def lookup_membership_permissions_def validate_simps split: option.splits if_splits)

lemma row_keys:
  "job_model j = Inr r \<Longrightarrow> job_id r = job_id j \<and> job_tenant_id r = job_tenant_id j \<and> job_status r = job_status j
     \<and> job_version r = job_version j \<and> job_idempotency_record_id r = job_idempotency_record_id j
     \<and> job_current_attempt_no r = job_current_attempt_no j"
  by (auto simp: job_model_def validate_simps)

lemma fresh_outbox_due:
  "outbox_model (submitted_outbox ids c now) corr = Inr b \<Longrightarrow>
     ob_tenant_id b = cmd_tenant_id c \<and> ob_job_id b = new_job_id ids \<and> due_outbox (dt_wall now) b"
  by (auto simp: outbox_model_def submitted_outbox_def validate_simps time_simps due_outbox_def)

lemma reserve_prepares:
  "IdempotencyService_reserve ext secret ttl scope operation request now fresh rows = Inr (rsv, rows') \<Longrightarrow>
     \<exists>p. prepare ext secret request = Inr p"
  by (auto simp: IdempotencyService_reserve_def bindE_eq_Inr simp del: require_append)

lemma plain_result_reads_back:
  "result_reference t i None None = Inr result \<Longrightarrow> take 1 t \<noteq> ''{'' \<Longrightarrow> serialize_result_type result = Inr u \<Longrightarrow>
     deserialize_result_type ext u (ref_result_id result) = Inr result"
  by (auto simp: result_reference_def serialize_result_type_def deserialize_result_type_def validate_simps Let_def)

text \<open>A job that \<open>create\<close> accepts anew.\<close>

definition created :: "job_ids \<Rightarrow> CreateAIJobCommand \<Rightarrow> datetime \<Rightarrow> job_db \<Rightarrow> job_db \<Rightarrow> job_row \<Rightarrow> grant_row \<Rightarrow> outbox_row \<Rightarrow> bool" where
  "created ids c now db db' r g b \<longleftrightarrow>
     aware_job r = submitted_job ids c (job_idempotency_record_id r) now \<and> AIJob_post_init (aware_job r) = Inr ()
     \<and> job_id r = new_job_id ids \<and> job_tenant_id r = cmd_tenant_id c \<and> job_status r = QUEUED
     \<and> grant_tenant_id g = cmd_tenant_id c \<and> grant_job_id g = new_job_id ids \<and> grant_job_scope_code g = OWNER_SHARED
     \<and> grant_user_id g = cmd_user_id c \<and> grant_membership_id g = cmd_membership_id c
     \<and> ob_tenant_id b = cmd_tenant_id c \<and> ob_job_id b = new_job_id ids \<and> due_outbox (dt_wall now) b
     \<and> (\<forall>h\<in>set (db_grants db). \<not> grant_conflict g h) \<and> (\<forall>h\<in>set (db_jobs db). job_id h \<noteq> job_id r)
     \<and> (\<exists>rows. db' = db\<lparr>db_jobs := db_jobs db @ [r], db_grants := db_grants db @ [g],
          db_outbox := db_outbox db @ [b], db_idempotency := rows\<rparr>)"

lemma create_job_created:
  assumes "create_job ext secret ttl ids c now db = Inr (a, db')" "\<not> accepted_replayed a"
    and "idem_table_ok (db_idempotency db)" "new_record_id ids \<notin> idem_id ` set (db_idempotency db)"
  obtains r g b p result where "created ids c now db db' r g b" "accepted_job_id a = new_job_id ids"
    "accepted_etag a = ''\"{1}\"''"
    "''ai_job.create'' \<in> permission_codes_of (role_rows (cmd_tenant_id c) (cmd_membership_id c) db)"
    "prepare ext secret (create_request c) = Inr p"
    "answered ext (create_scope c) JOB_OPERATION p (job_idempotency_record_id r) result (db_idempotency db')"
    "ref_result_id result = new_job_id ids" "runtime_ok db \<Longrightarrow> runtime_ok db' \<and> execution db' (new_job_id ids) = Some Waiting"
proof (rule create_jobE [OF assms(1)])
  fix rsv rows
  let ?db = "db\<lparr>db_idempotency := rows\<rparr>"
  assume perm: "''ai_job.create'' \<in> permission_codes_of (role_rows (cmd_tenant_id c) (cmd_membership_id c) db)"
    and res: "IdempotencyService_reserve ext secret ttl (create_scope c) JOB_OPERATION (create_request c) now
       (new_record_id ids) (db_idempotency db) = Inr (rsv, rows)"
    and alt: "(\<exists>result. rsv_replay rsv = Some result \<and> replay_job c result now ?db = Inr (a, db'))
     \<or> rsv_replay rsv = None \<and> submit_job ids c rsv now ?db = Inr (a, db')"
  have none: "rsv_replay rsv = None" and sub: "submit_job ids c rsv now ?db = Inr (a, db')"
    using alt assms(2) by (auto dest!: replay_job_Inr)
  obtain graph db1 result rows2 where graph: "submitted_graph ids c (rsv_record_id rsv) now = Inr graph"
    and add: "add_job_graph graph ?db = Inr db1"
    and result: "result_reference JOB_RESULT_TYPE (new_job_id ids) None None = Inr result"
    and comp: "IdempotencyService_complete rsv result now (db_idempotency db1) = Inr rows2"
    and a: "a = \<lparr>accepted_job_id = new_job_id ids, accepted_tenant_id = cmd_tenant_id c,
        accepted_etag = ''\"{1}\"'', accepted_replayed = False\<rparr>"
    and db': "db' = db1\<lparr>db_idempotency := rows2\<rparr>"
    by (rule submit_jobE [OF sub])
  have gr: "graph = \<lparr>graph_job = submitted_job ids c (rsv_record_id rsv) now, graph_grant = submitted_grant ids c now,
       graph_outbox = submitted_outbox ids c now\<rparr>" "AIJob_post_init (graph_job graph) = Inr ()"
    using submitted_graph_Inr [OF graph] by auto
  obtain r g b where r: "job_model (graph_job graph) = Inr r" and g: "grant_model (graph_grant graph) = Inr g"
    and b: "outbox_model (graph_outbox graph) (job_correlation_id (graph_job graph)) = Inr b"
    and fresh: "sql_insert job_check (\<lambda>a b. job_id a = job_id b) r (db_jobs ?db) = Inr (db_jobs ?db @ [r])"
      "sql_insert grant_check grant_conflict g (db_grants ?db) = Inr (db_grants ?db @ [g])"
    and db1: "db1 = ?db\<lparr>db_jobs := db_jobs ?db @ [r], db_grants := db_grants ?db @ [g], db_outbox := db_outbox ?db @ [b]\<rparr>"
    by (rule add_job_graph_Inr [OF add])
  have rf: "aware_job r = submitted_job ids c (rsv_record_id rsv) now" "job_id r = new_job_id ids"
    "job_tenant_id r = cmd_tenant_id c" "job_status r = QUEUED" "job_idempotency_record_id r = rsv_record_id rsv"
    using job_model_aware [OF r] row_keys [OF r] by (simp_all add: gr(1) submitted_job_def)
  have gf: "grant_tenant_id g = cmd_tenant_id c" "grant_job_id g = new_job_id ids" "grant_job_scope_code g = OWNER_SHARED"
    "grant_user_id g = cmd_user_id c" "grant_membership_id g = cmd_membership_id c"
    using g by (auto simp: gr(1) grant_model_def submitted_grant_def validate_simps)
  obtain p where p: "prepare ext secret (create_request c) = Inr p" using reserve_prepares [OF res] by blast
  have "db_idempotency db1 = rows" by (simp add: db1)
  then have ans: "answered ext (create_scope c) JOB_OPERATION p (rsv_record_id rsv) result rows2"
    using complete_answers [OF res none assms(3,4) _ plain_result_reads_back [OF result] p] comp
    by (simp add: JOB_RESULT_TYPE_def)
  have run: "runtime_ok db' \<and> execution db' (new_job_id ids) = Some Waiting" if ok: "runtime_ok db"
  proof -
    have ok': "runtime_ok ?db" using ok by (simp add: runtime_ok_def)
    have "runtime_ok db1"
      using submit_ok [OF add _ _ ok'] by (simp add: gr(1) submitted_job_def)
    then have ok1: "runtime_ok db'" by (simp add: db' runtime_ok_def)
    have "row_of job_id (new_job_id ids) (db_jobs db') = Some r"
      using runtime_ok_parts(4) [OF ok1] rf(2) by (simp add: row_of_iff db' db1)
    moreover from this have "attempts_match r (filter (of_job r) (db_attempts db'))"
      using execution_row [OF ok1] by blast
    ultimately show ?thesis using ok1 rf(4) by (simp add: execution_def attempts_match_def lease_holding_statuses_def)
  qed
  have sep: "\<forall>h\<in>set (db_grants db). \<not> grant_conflict g h" "\<forall>h\<in>set (db_jobs db). job_id h \<noteq> job_id r"
    using fresh by (auto simp: sql_insert_Inr)
  have ob: "ob_tenant_id b = cmd_tenant_id c" "ob_job_id b = new_job_id ids" "due_outbox (dt_wall now) b"
    using fresh_outbox_due b by (auto simp: gr(1))
  have "AIJob_post_init (aware_job r) = Inr ()" using gr(2) job_model_aware [OF r] by simp
  then have cr: "created ids c now db db' r g b"
    using rf gf sep ob unfolding created_def by (simp add: db' db1) (rule exI, rule refl)
  have res_id: "ref_result_id result = new_job_id ids"
    using result by (auto simp: result_reference_def Let_def validate_simps)
  have ans': "answered ext (create_scope c) JOB_OPERATION p (job_idempotency_record_id r) result (db_idempotency db')"
    using ans by (simp add: rf(5) db')
  show thesis
    by (rule that [OF cr _ _ perm p ans' res_id run]) (simp_all add: a)
qed

end
