(* ===== verification/JobSubmission.thy ===== *)
theory JobSubmission
  imports JobService JobDelivery
begin

text \<open>
  The service and the runtime together: what a call of \<open>create\<close> leaves behind for the workers, what a
  repeated call answers after any run of the runtime, and the fate of a cancelled job.
\<close>

subsection \<open>A stored job stays readable\<close>

definition readable :: "job_db \<Rightarrow> uuid \<Rightarrow> uuid \<Rightarrow> bool" where
  "readable db tenant k \<longleftrightarrow> (\<exists>r\<in>set (db_jobs db). job_id r = k \<and> job_tenant_id r = tenant
     \<and> AIJob_post_init (aware_job r) = Inr ())"

lemma find_job_in:
  "distinct (map job_id jobs) \<Longrightarrow> r \<in> set jobs \<Longrightarrow> find_job (job_tenant_id r) (job_id r) jobs = Some r"
proof (induction jobs)
  case (Cons x jobs)
  then show ?case by (cases "x = r") (auto simp: find_job_def sql_scalar_def rev_image_eqI)
qed simp

lemma readable_repo_get:
  assumes "readable db (ctx_tenant_id context) k" "distinct (map job_id (db_jobs db))"
    and "require_context context = Inr ()" "is_uuid7 k"
  shows "\<exists>r. repo_get context k db = Inr (Some (aware_job r)) \<and> job_id r = k"
proof -
  obtain r where r: "r \<in> set (db_jobs db)" "job_id r = k" "job_tenant_id r = ctx_tenant_id context"
    "AIJob_post_init (aware_job r) = Inr ()"
    using assms(1) by (auto simp: readable_def)
  have "find_job (ctx_tenant_id context) k (db_jobs db) = Some r"
    using find_job_in [OF assms(2) r(1)] r(2,3) by simp
  then show ?thesis using r assms by (intro exI [of _ r]) (simp add: repo_get_def require_uuid7_def job_of_row_def)
qed

lemma readable_values:
  assumes "AIJob_post_init (aware_job r) = Inr ()"
  shows "AIJob_post_init (aware_job (heartbeat_values hq r)) = Inr ()"
    and "AIJob_post_init (aware_job (finalize_values fq r)) = Inr ()"
    and "AIJob_post_init (aware_job (fail_values xq r)) = Inr ()"
    and "AIJob_post_init (aware_job (cancel_values nq r)) = Inr ()"
  using assms
  by (simp_all add: AIJob_post_init_def require_eq_Inr aware_job_def heartbeat_values_def finalize_values_def
      fail_values_def cancel_values_def check_defs optional_check_def aware_optional_def split: option.splits)

lemma readable_update:
  assumes "sql_update job_check p f (db_jobs db) = Inr (jobs, n)" "db_jobs db' = jobs" "readable db tenant k"
    and "\<And>r. job_id (f r) = job_id r \<and> job_tenant_id (f r) = job_tenant_id r"
    and "\<And>r. p r \<Longrightarrow> job_check (f r) \<Longrightarrow> AIJob_post_init (aware_job r) = Inr () \<Longrightarrow> AIJob_post_init (aware_job (f r)) = Inr ()"
  shows "readable db' tenant k"
proof -
  obtain r where r: "r \<in> set (db_jobs db)" "job_id r = k" "job_tenant_id r = tenant" "AIJob_post_init (aware_job r) = Inr ()"
    using assms(3) by (auto simp: readable_def)
  have "(if p r then f r else r) \<in> set (db_jobs db')" "p r \<Longrightarrow> job_check (f r)"
    using assms(1,2) r(1) by (auto simp: sql_update_Inr)
  then show ?thesis
    unfolding readable_def using r assms(4) [of r] assms(5) [of r] by (intro bexI [of _ "if p r then f r else r"]) auto
qed

lemma claimed_lease_valid:
  assumes "accept_delivery cr w ids t m j e now db = Inr (ACK_CLAIMED, db')"
  shows "is_uuid7 (fresh_lease ids)"
proof -
  obtain job db1 where "claim_delivery w ids t m j job now db1 = Inr (ACK_CLAIMED, db')"
    using assms by (auto simp: accept_delivery_def deny_delivery_def validate_simps split: option.splits if_splits)
  then show ?thesis
    by (auto simp: claim_delivery_def Let_def bindE_eq_Inr worker_claim_def ClaimJobRequest_post_init_def
        require_eq_Inr check_defs)
qed

lemma readable_claim:
  assumes "AIJob_post_init (aware_job r) = Inr ()" "job_check (claim_values q r)" "is_uuid7 (claim_lease_token q)"
  shows "AIJob_post_init (aware_job (claim_values q r)) = Inr ()"
  using assms
  by (simp add: AIJob_post_init_def require_eq_Inr aware_job_def claim_values_def check_defs optional_check_def
      aware_optional_def job_check_def split: option.splits)

lemma readable_append: "readable db tenant k \<Longrightarrow> db_jobs db' = db_jobs db @ rs \<Longrightarrow> readable db' tenant k"
  by (auto simp: readable_def)

lemma readable_cong: "readable db tenant k \<Longrightarrow> db_jobs db' = db_jobs db \<Longrightarrow> readable db' tenant k"
  by (simp add: readable_def)

lemma readable_step:
  assumes "runtime_step cr signer db db'" "runtime_ok db" "readable db tenant k"
  shows "readable db' tenant k"
  using assms(1)
proof (cases rule: runtime_step.cases)
  case (submit g)
  then show ?thesis using assms(3) by (elim add_job_graph_Inr) (auto intro: readable_append)
next
  case (deliver w ids t m j e now d)
  from deliver show ?thesis
  proof (cases rule: accept_deliveryE)
    case (denied i r authority decision jobs n)
    show ?thesis
    proof (cases "job_status r \<in> set claimable_statuses")
      case True
      let ?q = "authority_failure t j (job_reason_code decision) now"
      have "sql_update job_check (fail_where ?q) (fail_values ?q) (db_jobs db) = Inr (jobs, n)"
        using denied(4) True by simp
      then show ?thesis
        by (rule readable_update [OF _ _ assms(3)]) (simp_all add: denied(5) job_values_keys readable_values)
    next
      case False
      with denied show ?thesis by (intro readable_cong [OF assms(3)]) simp
    qed
  next
    case (lost i r authority decision q jobs n)
    have "jobs = db_jobs db" using claim.loser_kept [OF runtime_ok_parts(4) [OF assms(2)] lost(5,6)] .
    then show ?thesis by (intro readable_cong [OF assms(3)]) (simp add: lost(7))
  next
    case (claimed i r authority decision q jobs)
    have "is_uuid7 (claim_lease_token q)"
      using claimed_lease_valid [OF deliver [unfolded claimed(4)]] by (simp add: claimed(3) worker_claim_def)
    with claimed show ?thesis
      by (intro readable_update [OF claimed(5) _ assms(3)]) (auto simp: job_values_keys intro: readable_claim)
  qed (use assms(3) in simp)
next
  case (heartbeat hq ok)
  obtain rows n where up: "sql_update job_check (heartbeat_where hq) (heartbeat_values hq) (db_jobs db) = Inr (rows, n)"
    and d: "db' = db\<lparr>db_jobs := rows\<rparr>" using repo_heartbeat_Inr [OF heartbeat] by blast
  show ?thesis by (rule readable_update [OF up _ assms(3)]) (simp_all add: d job_values_keys readable_values)
next
  case (finish fq ok)
  obtain rows n where up: "sql_update job_check (finalize_where fq) (finalize_values fq) (db_jobs db) = Inr (rows, n)"
    and d: "db_jobs db' = rows" using finalize_success_Inr [OF finish] by (auto split: if_splits)
  show ?thesis by (rule readable_update [OF up _ assms(3)]) (simp_all add: d job_values_keys readable_values)
next
  case (cancel cq ok)
  obtain rows n where up: "sql_update job_check (cancel_where cq) (cancel_values cq) (db_jobs db) = Inr (rows, n)"
    and d: "db' = db\<lparr>db_jobs := rows\<rparr>" using cancel_claimable_job_Inr [OF cancel] by blast
  show ?thesis by (rule readable_update [OF up _ assms(3)]) (simp_all add: d job_values_keys readable_values)
next
  case (claim_batch uuids nonces clock tokens locked now expires publisher limit claimed)
  obtain rows where "db' = db\<lparr>db_outbox := rows\<rparr>"
    using claim_outbox_batch_Inr [OF claim_batch runtime_ok_parts(5) [OF assms(2)]] by metis
  then show ?thesis by (intro readable_cong [OF assms(3)]) simp
next
  case (published c now ok)
  then show ?thesis using assms(3) by (auto dest!: mark_published_Inr intro: readable_cong)
next
  case (released c error now ok)
  then show ?thesis using assms(3) by (auto dest!: release_or_block_Inr intro: readable_cong)
next
  case elsewhere
  then show ?thesis by (intro readable_cong [OF assms(3)]) simp
qed

lemma find_append_None: "find p xs = None \<Longrightarrow> find p (xs @ [y]) = (if p y then Some y else None)"
  by (induction xs) (auto split: if_splits)

lemma load_authority_scopes:
  assumes "load_authority t k db = Inr s"
    and "sql_scalar (\<lambda>g. grant_tenant_id g = t \<and> grant_job_id g = k) (db_grants db) = Some g"
  shows "loaded_scopes s" "snap_role_codes s = fst ` set (role_rows t (grant_membership_id g) db)"
    "snap_grant s = aware_grant g" "grant_job_scope_code (aware_grant g) = grant_job_scope_code g"
  using assms
  by (auto simp: load_authority_def loaded_scopes_def Let_def validate_simps aware_grant_def
      split: option.splits prod.splits dest!: grant_of_row_Inr) force

subsection \<open>What a submission leaves behind\<close>

text \<open>
  C20. A job accepted anew belongs to a member who may create jobs.  The transaction stores one queued
  job, one grant and one outbox row that is due at once, all for the returned identifier, keeps the
  tables of the other components, and leaves a state of the runtime in which the job waits for a worker.
  The returned entity tag is that of no version of a job.
\<close>

theorem created_job_awaits_worker:
  assumes "create_job ext secret ttl ids c now db = Inr (a, db')" "\<not> accepted_replayed a"
    and "idem_table_ok (db_idempotency db)" "new_record_id ids \<notin> idem_id ` set (db_idempotency db)" "runtime_ok db"
  shows "\<exists>r g b rows. db' = db\<lparr>db_jobs := db_jobs db @ [r], db_grants := db_grants db @ [g],
        db_outbox := db_outbox db @ [b], db_idempotency := rows\<rparr>
    \<and> job_id r = accepted_job_id a \<and> job_tenant_id r = cmd_tenant_id c \<and> job_status r = QUEUED
    \<and> aware_job r = submitted_job ids c (job_idempotency_record_id r) now
    \<and> grant_job_id g = job_id r \<and> grant_tenant_id g = cmd_tenant_id c \<and> grant_membership_id g = cmd_membership_id c
    \<and> ob_job_id b = job_id r \<and> ob_tenant_id b = cmd_tenant_id c \<and> due_outbox (dt_wall now) b
    \<and> ''ai_job.create'' \<in> permission_codes_of (role_rows (cmd_tenant_id c) (cmd_membership_id c) db)
    \<and> runtime_ok db' \<and> execution db' (accepted_job_id a) = Some Waiting
    \<and> (\<forall>v. accepted_etag a \<noteq> etag_of v)"
proof (rule create_job_created [OF assms(1-4)])
  fix r g b
  assume cr: "created ids c now db db' r g b" and a: "accepted_job_id a = new_job_id ids" "accepted_etag a = ''\"{1}\"''"
    and p: "''ai_job.create'' \<in> permission_codes_of (role_rows (cmd_tenant_id c) (cmd_membership_id c) db)"
    and run: "runtime_ok db \<Longrightarrow> runtime_ok db' \<and> execution db' (new_job_id ids) = Some Waiting"
  obtain rows where "db' = db\<lparr>db_jobs := db_jobs db @ [r], db_grants := db_grants db @ [g],
        db_outbox := db_outbox db @ [b], db_idempotency := rows\<rparr>"
    using cr by (auto simp: created_def)
  then show ?thesis
    using cr a p run assms(5) etag_of_first
    by (intro exI [of _ r] exI [of _ g] exI [of _ b] exI [of _ rows]) (simp add: created_def)
qed

text \<open>
  C21. After a job was created, and after any run of the runtime that left the idempotency table alone, a
  call under the same key either repeats the request and is answered with the identifier of that job, or
  asks for something else and is a conflict.  Neither writes anything, so no second job comes to be.
\<close>

theorem repeated_create_replays:
  assumes "create_job ext secret ttl ids c now db = Inr (a, db1)" "\<not> accepted_replayed a"
    and "idem_table_ok (db_idempotency db)" "new_record_id ids \<notin> idem_id ` set (db_idempotency db)" "runtime_ok db"
    and run: "runtime_run cr signer db1 db2" and kept: "db_idempotency db2 = db_idempotency db1"
    and p: "prepare ext secret (create_request c) = Inr p" and p': "prepare ext secret (create_request c') = Inr p'"
    and same: "cmd_tenant_id c' = cmd_tenant_id c" "cmd_membership_id c' = cmd_membership_id c"
      "cmd_idempotency_key c' = cmd_idempotency_key c"
    and c': "CreateAIJobCommand_post_init c' = Inr ()"
    and "''ai_job.create'' \<in> permission_codes_of (role_rows (cmd_tenant_id c') (cmd_membership_id c') db2)"
    and "is_utc now'" "new_record_id ids' \<notin> idem_id ` set (db_idempotency db2)"
  shows "if prep_request_fingerprint p' = prep_request_fingerprint p
    then \<exists>v. create_job ext secret ttl ids' c' now' db2 = Inr (\<lparr>accepted_job_id = accepted_job_id a,
        accepted_tenant_id = cmd_tenant_id c, accepted_etag = etag_of v, accepted_replayed = True\<rparr>, db2)
    else create_job ext secret ttl ids' c' now' db2 = Inl IdempotencyConflictError"
proof (rule create_job_created [OF assms(1-4)])
  fix r g b q result
  assume cr: "created ids c now db db1 r g b" and a: "accepted_job_id a = new_job_id ids"
    and q: "prepare ext secret (create_request c) = Inr q"
    and ans: "answered ext (create_scope c) JOB_OPERATION q (job_idempotency_record_id r) result (db_idempotency db1)"
    and res: "ref_result_id result = new_job_id ids"
    and ok: "runtime_ok db \<Longrightarrow> runtime_ok db1 \<and> execution db1 (new_job_id ids) = Some Waiting"
  let ?k = "new_job_id ids"
  have ok1: "runtime_ok db1" using ok assms(5) by blast
  have "readable db1 (cmd_tenant_id c) ?k" using cr by (auto simp: created_def readable_def)
  then have inv: "runtime_ok db2 \<and> readable db2 (cmd_tenant_id c) ?k"
    using runtime_run_keeps [OF run, of "\<lambda>d. runtime_ok d \<and> readable d (cmd_tenant_id c) ?k"] ok1
      runtime_step_ok readable_step by blast
  have u: "is_uuid7 ?k"
    using cr by (auto simp: created_def AIJob_post_init_def require_eq_Inr check_defs submitted_job_def)
  have ids: "is_uuid7 (cmd_tenant_id c)" "is_uuid7 (cmd_membership_id c)" "is_uuid7 (cmd_user_id c')"
    using c' same by (auto simp: CreateAIJobCommand_post_init_def require_eq_Inr check_defs)
  have "require_context (job_context c' now') = Inr ()"
    using ids same by (simp add: require_context_def job_context_def require_uuid7_def)
  then obtain r2 where get: "repo_get (job_context c' now') ?k db2 = Inr (Some (aware_job r2))" "job_id r2 = ?k"
    using readable_repo_get [of db2 "job_context c' now'" ?k] inv runtime_ok_parts(4) u same
    by (auto simp: job_context_def)
  have pq: "q = p" using p q by simp
  have key: "prep_key_hash p' = prep_key_hash q"
    using prepare_key_hash [OF q] prepare_key_hash [OF p'] same(3) by (simp add: create_request_def)
  have scope: "create_scope c' = create_scope c" using same by (simp add: create_scope_def)
  note res' = answered_replays [OF ans [folded kept] p' key assms(15,16), of ttl, folded scope]
  have post: "IdempotencyScope_post_init (create_scope c') = Inr ()"
      "FingerprintPayload_post_init (create_body c') = Inr ()"
    using ids same by (simp_all add: IdempotencyScope_post_init_def FingerprintPayload_post_init_def create_scope_def
        create_body_def require_eval paths_ok_def strict_prefix_path_def Let_def)
  have "db2\<lparr>db_idempotency := db_idempotency db2\<rparr> = db2" by simp
  moreover have "job_id (aware_job r2) = ?k" using get(2) by simp
  ultimately show ?thesis
    using res' post get(1) ids same(1,2) assms(14)
    by (cases "prep_request_fingerprint p' = prep_request_fingerprint p")
      (simp_all add: create_job_def lookup_membership_permissions_def require_uuid7_def pq replay_job_def res a,
        rule exI, rule refl)
qed

subsection \<open>A grant is kept\<close>

lemma find_append_Some: "find p xs = Some x \<Longrightarrow> find p (xs @ ys) = Some x"
  by (induction xs) (auto split: if_splits)

text \<open>
  Grants are issued by submissions only.  Every transaction of the runtime satisfies this; for the
  transactions of other services it says that they leave the grants alone, as all of them do.
\<close>

definition grants_issued :: "job_db \<Rightarrow> job_db \<Rightarrow> bool" where
  "grants_issued db db' \<longleftrightarrow> db_grants db' = db_grants db \<or> (\<exists>g. add_job_graph g db = Inr db')"

lemma delivery_grants: "accept_delivery cr w ids t m j e now db = Inr (d, db') \<Longrightarrow> db_grants db' = db_grants db"
  by (erule accept_deliveryE) simp_all

lemma runtime_step_grants:
  assumes "runtime_step cr signer db db'" "runtime_ok db"
  shows "grants_issued db db' \<or> db_jobs db' = db_jobs db \<and> db_attempts db' = db_attempts db
    \<and> db_inbox db' = db_inbox db \<and> db_outbox db' = db_outbox db"
  using assms(1)
proof (cases rule: runtime_step.cases)
  case (deliver w ids t m j e now d)
  then show ?thesis by (simp add: grants_issued_def delivery_grants)
next
  case (heartbeat hq ok)
  then show ?thesis by (auto simp: grants_issued_def dest!: repo_heartbeat_Inr)
next
  case (finish fq ok)
  then show ?thesis by (auto simp: grants_issued_def dest!: finalize_success_Inr split: if_splits)
next
  case (cancel cq ok)
  then show ?thesis by (auto simp: grants_issued_def dest!: cancel_claimable_job_Inr)
next
  case (claim_batch uuids nonces clock tokens locked now expires publisher limit claimed)
  obtain rows where "db' = db\<lparr>db_outbox := rows\<rparr>"
    using claim_outbox_batch_Inr [OF claim_batch runtime_ok_parts(5) [OF assms(2)]] by metis
  then show ?thesis by (simp add: grants_issued_def)
next
  case (published c now ok)
  then show ?thesis by (auto simp: grants_issued_def dest!: mark_published_Inr)
next
  case (released c error now ok)
  then show ?thesis by (auto simp: grants_issued_def dest!: release_or_block_Inr)
qed (auto simp: grants_issued_def)

inductive issuing_run :: "crypto \<Rightarrow> EnvelopeSigner \<Rightarrow> job_db \<Rightarrow> job_db \<Rightarrow> bool" for cr signer where
  unissued: "issuing_run cr signer db db"
| issuing: "issuing_run cr signer db db1 \<Longrightarrow> runtime_step cr signer db1 db2 \<Longrightarrow> grants_issued db1 db2
    \<Longrightarrow> issuing_run cr signer db db2"

lemma issuing_run_ok: "issuing_run cr signer db db' \<Longrightarrow> runtime_ok db \<Longrightarrow> runtime_ok db'"
  by (induction rule: issuing_run.induct) (auto intro: runtime_step_ok)

lemma issuing_run_grants: "issuing_run cr signer db db' \<Longrightarrow> \<exists>gs. db_grants db' = db_grants db @ gs"
proof (induction rule: issuing_run.induct)
  case (issuing db db1 db2)
  then obtain gs where gs: "db_grants db1 = db_grants db @ gs" by blast
  from issuing(3) show ?case
    unfolding grants_issued_def
  proof
    assume "\<exists>g. add_job_graph g db1 = Inr db2"
    then obtain g where "add_job_graph g db1 = Inr db2" by blast
    then show ?thesis by (rule add_job_graph_Inr) (simp add: gs)
  qed (simp add: gs)
qed simp

lemma created_grant_found:
  assumes "created ids c now db db1 r g b" "issuing_run cr signer db1 db2"
  shows "sql_scalar (\<lambda>g. grant_tenant_id g = cmd_tenant_id c \<and> grant_job_id g = new_job_id ids) (db_grants db2) = Some g"
proof -
  let ?p = "\<lambda>g. grant_tenant_id g = cmd_tenant_id c \<and> grant_job_id g = new_job_id ids"
  obtain gs where "db_grants db2 = (db_grants db @ [g]) @ gs"
    using issuing_run_grants [OF assms(2)] assms(1) by (auto simp: created_def)
  moreover have "find ?p (db_grants db) = None"
    using assms(1) by (auto simp: created_def find_None_iff grant_conflict_def)
  ultimately show ?thesis
    using assms(1) find_append_Some [of ?p "db_grants db @ [g]" g gs]
    by (simp add: sql_scalar_def find_append_None created_def)
qed

lemma owner_scope_denied:
  assumes "created ids c now db db1 r g b" "issuing_run cr signer db1 db2"
    and "fst ` set (role_rows (cmd_tenant_id c) (cmd_membership_id c) db2) \<inter> tenant_wide_roles \<noteq> {}"
    and load: "load_authority (cmd_tenant_id c) (new_job_id ids) db2 = Inr authority"
    and dec: "DurableGrantPolicy_authorize authority now2 = Inr decision"
  shows "\<not> job_allowed decision"
proof
  assume allowed: "job_allowed decision"
  note au = load_authority_scopes [OF load created_grant_found [OF assms(1,2)]]
  have "grant_job_scope_code (snap_grant authority) = snap_resolved_scope_code authority"
    "\<not> snap_unknown_or_mixed_role_codes authority"
    using allowed authorize_allowed [OF dec] by (simp_all add: grant_checks_def Let_def)
  moreover have "snap_resolved_scope_code authority = role_scope_code (snap_role_codes authority)"
    using loaded_scopes_agree [OF au(1)] calculation(2) by blast
  ultimately show False using assms(3) au assms(1) by (auto simp: role_scope_code_def created_def split: if_splits)
qed

text \<open>
  C23. A grant always records the scope of a plain member.  While the creator of a job holds one of the
  roles with tenant-wide access, owner or administrator, no delivery claims the job, whatever the runtime
  did since, other submissions included: a message not seen before is denied, and ends a job that had not
  started as failed.  The roles that count are those the worker finds when it handles the delivery.
\<close>

theorem owner_jobs_never_claimed:
  assumes "create_job ext secret ttl ids c now db = Inr (a, db1)" "\<not> accepted_replayed a"
    and "idem_table_ok (db_idempotency db)" "new_record_id ids \<notin> idem_id ` set (db_idempotency db)" "runtime_ok db"
    and "issuing_run cr signer db1 db2"
    and "fst ` set (role_rows (cmd_tenant_id c) (cmd_membership_id c) db2) \<inter> tenant_wide_roles \<noteq> {}"
    and d: "accept_delivery cr' w wids (cmd_tenant_id c) m (accepted_job_id a) e now2 db2 = Inr (d, db3)"
  shows "d \<noteq> ACK_CLAIMED \<and> db_attempts db3 = db_attempts db2
    \<and> (find_inbox (cmd_tenant_id c) m (db_inbox db2) = None \<longrightarrow> d = ACK_TERMINAL
       \<and> (\<exists>r r'. find_job (cmd_tenant_id c) (accepted_job_id a) (db_jobs db2) = Some r
            \<and> find_job (cmd_tenant_id c) (accepted_job_id a) (db_jobs db3) = Some r'
            \<and> (if job_status r \<in> set claimable_statuses
               then job_status r' = FAILED \<and> job_failure_class r' = Some ''authorization'' else r' = r)))"
proof (rule create_job_created [OF assms(1-4)])
  fix r g b
  assume cr: "created ids c now db db1 r g b" and a: "accepted_job_id a = new_job_id ids"
    and ok: "runtime_ok db \<Longrightarrow> runtime_ok db1 \<and> execution db1 (new_job_id ids) = Some Waiting"
  let ?t = "cmd_tenant_id c" and ?k = "new_job_id ids"
  have ok2: "runtime_ok db2" using issuing_run_ok [OF assms(6)] ok assms(5) by blast
  note denied = owner_scope_denied [OF cr assms(6,7)]
  from d [unfolded a] show ?thesis
    unfolding a
  proof (cases rule: accept_deliveryE)
    case (denied i r authority decision jobs n)
    then have "find_inbox ?t m (db_inbox db2) = None" "load_authority ?t ?k db2 = Inr authority"
      "DurableGrantPolicy_authorize authority now2 = Inr decision"
      by (simp_all add: first_delivery_def)
    from denied_delivery_core [OF ok2 d [unfolded a] this denied(2)] denied(3)
    show "d \<noteq> ACK_CLAIMED \<and> db_attempts db3 = db_attempts db2
      \<and> (find_inbox ?t m (db_inbox db2) = None \<longrightarrow> d = ACK_TERMINAL
         \<and> (\<exists>r r'. find_job ?t ?k (db_jobs db2) = Some r \<and> find_job ?t ?k (db_jobs db3) = Some r'
            \<and> (if job_status r \<in> set claimable_statuses
               then job_status r' = FAILED \<and> job_failure_class r' = Some ''authorization'' else r' = r)))"
      by (auto split: if_split_asm)
  qed (use denied in \<open>auto simp: first_delivery_def split: if_splits\<close>)
qed

text \<open>
  C22. Cancelling succeeds only for a job of the caller's tenant that no worker holds, and no delivery
  claims the job afterwards, whatever the runtime does in between.  Of the caller nothing but the tenant
  matters: any other caller of the tenant cancels the job with the same effect, whoever created it.
\<close>

theorem cancelled_job_never_claimed:
  assumes "runtime_ok db" "cancel_job context k now db = (Inr (), db1)" "runtime_run cr signer db1 db2"
    and "accept_delivery cr' w ids t m k e now' db2 = Inr (d, db3)"
  shows "d \<noteq> ACK_CLAIMED \<and> (\<exists>r\<in>set (db_jobs db). job_id r = k \<and> job_tenant_id r = ctx_tenant_id context
    \<and> job_lease_owner r = None \<and> r\<lparr>job_status := CANCELLED, job_completed_at := Some (dt_wall now),
        job_next_attempt_at := None, job_version := job_version r + 1\<rparr> \<in> set (db_jobs db1))
    \<and> (\<forall>other. ctx_tenant_id other = ctx_tenant_id context \<longrightarrow> cancel_job other k now db = (Inr (), db1))"
proof -
  let ?q = "\<lparr>cancel_tenant_id = ctx_tenant_id context, cancel_job_id = k, cancel_now = now\<rparr>"
  have c: "cancel_claimable_job ?q db = Inr (True, db1)"
    using assms(2) by (auto simp: cancel_job_def unit_of_work_Inr bindE_eq_Inr split: if_splits prod.splits)
  obtain jobs where up: "sql_update job_check (cancel_where ?q) (cancel_values ?q) (db_jobs db) = Inr (jobs, 1)"
    and db1: "db1 = db\<lparr>db_jobs := jobs\<rparr>"
    using cancel_claimable_job_Inr [OF c] by auto
  have dist: "distinct (map job_id (db_jobs db))" using runtime_ok_parts(4) [OF assms(1)] .
  obtain r where r: "row_of job_id k (db_jobs db) = Some r" "cancel_where ?q r"
    and row: "row_of job_id k (db_jobs db1) = Some (cancel_values ?q r)"
    using cancel_job.winner_row [OF dist up] by (auto simp: db1)
  have rf: "job_id r = k" "job_tenant_id r = ctx_tenant_id context" "job_lease_owner r = None" "job_status r \<in> set claimable_statuses"
    using r(2) by (simp_all add: cancel_where_def unstarted_where_def)
  have ok1: "runtime_ok db1"
    using runtime_step_ok [OF runtime_step.cancel [OF c]] assms(1) by blast
  let ?r = "cancel_values ?q r"
  have status: "job_status ?r = CANCELLED" by (simp add: cancel_values_def)
  note at = execution_row [OF ok1 row]
  have "filter (of_job ?r) (db_attempts db1) = []"
    using conjunct1 [OF at] status by (simp add: attempts_match_def lease_holding_statuses_def)
  then have "execution db1 k = Some Abandoned" using conjunct2 [OF at] status by simp
  then have "runtime_ok db2 \<and> (\<exists>p. execution db2 k = Some p \<and> p \<noteq> Waiting)"
    using runtime_run_keeps [OF assms(3), of "\<lambda>d. runtime_ok d \<and> (\<exists>p. execution d k = Some p \<and> p \<noteq> Waiting)"] ok1
      runtime_step_ok started_stays by blast
  then have "d \<noteq> ACK_CLAIMED" using claimed_phases [of cr' w ids t m k e now' db2 db3] assms(4) by auto
  moreover have "r\<lparr>job_status := CANCELLED, job_completed_at := Some (dt_wall now),
        job_next_attempt_at := None, job_version := job_version r + 1\<rparr> \<in> set (db_jobs db1)"
    using row_of_SomeD [OF row] by (simp add: cancel_values_def)
  moreover have "cancel_job other k now db = (Inr (), db1)" if "ctx_tenant_id other = ctx_tenant_id context" for other
    using assms(2) that by (simp add: cancel_job_def)
  ultimately show ?thesis using row_of_SomeD [OF r(1)] rf by blast
qed

subsection \<open>A concrete submission\<close>

definition sample_command :: CreateAIJobCommand where
  "sample_command = \<lparr>cmd_tenant_id = u7 1, cmd_membership_id = u7 2, cmd_user_id = u7 3, cmd_session_id = u7 4,
     cmd_auth_version = 1, cmd_authz_version = 1, cmd_idempotency_key = ''0123456789abcdef'',
     cmd_kind = SYNTHETIC_HANDLER_KIND, cmd_scenario = ''success'', cmd_work_units = 3\<rparr>"

definition sample_job_ids :: job_ids where
  "sample_job_ids = \<lparr>new_record_id = u7 20, new_job_id = u7 21, new_correlation_id = u7 22, new_grant_id = u7 23,
     new_outbox_id = u7 24\<rparr>"

definition sample_result :: IdempotencyResultReference where
  "sample_result = \<lparr>ref_result_type = JOB_RESULT_TYPE, ref_result_id = u7 21, ref_mutation_effect = None,
     ref_cache_authz_version = None\<rparr>"

lemma sample_key:
  "case IdempotencyService_reserve sample_externals sample_secret (seconds 3600) (create_scope sample_command) JOB_OPERATION
      (create_request sample_command) (aware 20) (u7 20) [] of
     Inl _ \<Rightarrow> False
   | Inr (rsv, rows) \<Rightarrow> rsv_replay rsv = None \<and> rsv_record_id rsv = u7 20
       \<and> list_ex (\<lambda>i. idem_tenant_id i = Some (u7 1) \<and> idem_id i = u7 20) rows \<and> u7 30 \<notin> set (map idem_id rows)
       \<and> (case IdempotencyService_complete rsv sample_result (aware 20) rows of Inl _ \<Rightarrow> False
          | Inr rows2 \<Rightarrow> u7 30 \<notin> set (map idem_id rows2))"
  by code_simp

lemma more_u7 [simp]:
  "is_uuid7 (u7 20)" "is_uuid7 (u7 21)" "is_uuid7 (u7 22)" "is_uuid7 (u7 23)" "is_uuid7 (u7 24)"
  by (simp_all add: is_uuid7_def uuid_is_rfc4122_def uuid_version_def u7_def)

lemma sample_graph:
  "\<exists>graph. submitted_graph sample_job_ids sample_command (u7 20) (aware 20) = Inr graph"
  by (simp add: submitted_graph_def submitted_job_def submitted_grant_def submitted_outbox_def sample_job_ids_def sample_command_def
     AIJob_post_init_def JobExecutionGrant_post_init_def NewAIJobOutbox_post_init_def NewAIJobGraph_post_init_def Let_def
     require_eval check_defs optional_check_def MAX_ATTEMPTS_def require_uuid7_def JOB_POLICY_VERSION_def JOB_SCOPE_MANIFEST_VERSION_def)

lemma aware_plus: "dt_plus (aware w) n = aware (w + n)"
  by (simp add: dt_plus_def aware_def)

text \<open>The sample database with another role for its member, and what the sample command adds to it.\<close>

definition sample_member_db :: "string \<Rightarrow> job_db" where
  "sample_member_db role = sample_db\<lparr>db_roles := [\<lparr>rol_id = u7 13, rol_tenant_id = u7 1, rol_code = role, rol_status = ''active''\<rparr>]\<rparr>"

definition owner_job :: "datetime AIJob" where
  "owner_job = submitted_job sample_job_ids sample_command (u7 20) (aware 20)"

definition owner_grant :: "datetime JobExecutionGrant" where
  "owner_grant = submitted_grant sample_job_ids sample_command (aware 20)"

lemma sample_member_teacher: "sample_member_db ''teacher'' = sample_db"
  by (simp add: sample_member_db_def sample_db_def)

lemma sample_member_ok: "runtime_ok (sample_member_db role)" "idem_table_ok (db_idempotency (sample_member_db role))"
  "new_record_id sample_job_ids \<notin> idem_id ` set (db_idempotency (sample_member_db role))"
  using sample_ok by (simp_all add: sample_member_db_def runtime_ok_def) (simp_all add: sample_db_def idem_table_ok_def)

lemma sample_member_roles: "role_rows (u7 1) (u7 2) (sample_member_db role) = [(role, Some ''ai_job.create'')]"
  by (simp add: role_rows_def sample_member_db_def sample_db_def role_permission_codes_def sql_scalar_def)

lemma sample_member_codes: "permission_codes_of [(role, Some ''ai_job.create'')] = {''ai_job.create''}"
  by (simp add: permission_codes_of_def List.map_filter_simps)

lemma sample_idem_ok: "idem_table_ok (db_idempotency sample_db)"
  by (simp add: sample_db_def idem_table_ok_def)

lemma sample_added:
  assumes "submitted_graph sample_job_ids sample_command (u7 20) (aware 20) = Inr graph"
    and "list_ex (\<lambda>i. idem_tenant_id i = Some (u7 1) \<and> idem_id i = u7 20) rows"
  shows "\<exists>db1. add_job_graph graph ((sample_member_db role)\<lparr>db_idempotency := rows\<rparr>) = Inr db1 \<and> db_idempotency db1 = rows"
  using assms(2) conjunct1 [OF submitted_graph_Inr [OF assms(1)]]
  by (simp add: add_job_graph_def job_model_def submitted_job_def sample_command_def sample_job_ids_def naive_optional_def
     foreign_key_def has_member_def has_session_def has_record_def sample_member_db_def sample_db_def sql_insert_def sample_row_fields job_check_defs
     grant_model_def submitted_grant_def grant_check_def sample_grant_row_def grant_conflict_def outbox_model_def submitted_outbox_def
     has_job_def outbox_check_def claim_columns_def outbox_conflict_def sample_outbox_row_def seconds_def
     sample_grant_def aware_plus u7_def)

lemma sample_member_created:
  obtains a db1 where "create_job sample_externals sample_secret (seconds 3600) sample_job_ids sample_command (aware 20) (sample_member_db role)
      = Inr (a, db1)" "\<not> accepted_replayed a" "u7 30 \<notin> idem_id ` set (db_idempotency db1)" "accepted_job_id a = u7 21"
    "\<exists>p. prepare sample_externals sample_secret (create_request sample_command) = Inr p"
    "\<exists>r g b rows. db1 = (sample_member_db role)\<lparr>db_jobs := [sample_row, r], db_grants := [sample_grant_row, g],
        db_outbox := [sample_outbox_row, b], db_idempotency := rows\<rparr>
      \<and> job_model owner_job = Inr r \<and> grant_model owner_grant = Inr g"
proof -
  let ?reserve = "IdempotencyService_reserve sample_externals sample_secret (seconds 3600) (create_scope sample_command)
      JOB_OPERATION (create_request sample_command) (aware 20) (u7 20) []"
  obtain rsv rows rows2 where r: "?reserve = Inr (rsv, rows)" "rsv_replay rsv = None" "rsv_record_id rsv = u7 20"
    "list_ex (\<lambda>i. idem_tenant_id i = Some (u7 1) \<and> idem_id i = u7 20) rows"
    and c: "IdempotencyService_complete rsv sample_result (aware 20) rows = Inr rows2" "u7 30 \<notin> set (map idem_id rows2)"
    using sample_key by (cases ?reserve; cases "IdempotencyService_complete (fst (projr ?reserve)) sample_result (aware 20)
      (snd (projr ?reserve))") auto
  obtain graph where g: "submitted_graph sample_job_ids sample_command (u7 20) (aware 20) = Inr graph"
    using sample_graph by blast
  obtain db1 where d: "add_job_graph graph ((sample_member_db role)\<lparr>db_idempotency := rows\<rparr>) = Inr db1" "db_idempotency db1 = rows"
    using sample_added [OF g r(4)] by blast
  have ids: "new_record_id sample_job_ids = u7 20" "new_job_id sample_job_ids = u7 21"
    and cmd: "cmd_tenant_id sample_command = u7 1" "cmd_membership_id sample_command = u7 2"
    and idem: "db_idempotency (sample_member_db role) = []"
    by (simp_all add: sample_job_ids_def sample_command_def sample_member_db_def sample_db_def)
  have res: "result_reference JOB_RESULT_TYPE (u7 21) None None = Inr sample_result"
    by (simp add: result_reference_def sample_result_def ResultReference_post_init_def JOB_RESULT_TYPE_def require_eval
        token_matches_def token_char_def is_lower_def is_digit_def code_def)
  have post: "IdempotencyScope_post_init (create_scope sample_command) = Inr ()"
      "FingerprintPayload_post_init (create_body sample_command) = Inr ()"
    by (simp_all add: IdempotencyScope_post_init_def FingerprintPayload_post_init_def create_scope_def create_body_def
        require_eval cmd paths_ok_def strict_prefix_path_def Let_def)
  have "create_job sample_externals sample_secret (seconds 3600) sample_job_ids sample_command (aware 20) (sample_member_db role)
      = submit_job sample_job_ids sample_command rsv (aware 20) ((sample_member_db role)\<lparr>db_idempotency := rows\<rparr>)"
    using r(1,2) by (simp add: create_job_def lookup_membership_permissions_def require_uuid7_def cmd sample_member_roles
        sample_member_codes post ids idem)
  also have "\<dots> = Inr (\<lparr>accepted_job_id = u7 21, accepted_tenant_id = u7 1, accepted_etag = ''\"{1}\"'',
      accepted_replayed = False\<rparr>, db1\<lparr>db_idempotency := rows2\<rparr>)"
    using g d c(1) by (simp add: submit_job_def r(3) ids cmd res)
  finally have create: "create_job sample_externals sample_secret (seconds 3600) sample_job_ids sample_command (aware 20)
      (sample_member_db role) = Inr (\<lparr>accepted_job_id = u7 21, accepted_tenant_id = u7 1, accepted_etag = ''\"{1}\"'',
        accepted_replayed = False\<rparr>, db1\<lparr>db_idempotency := rows2\<rparr>)" .
  have graph: "graph_job graph = owner_job" "graph_grant graph = owner_grant"
    using submitted_graph_Inr [OF g] by (simp_all add: owner_job_def owner_grant_def)
  have tables: "db_jobs (sample_member_db role) = [sample_row]" "db_grants (sample_member_db role) = [sample_grant_row]"
      "db_outbox (sample_member_db role) = [sample_outbox_row]"
    by (simp_all add: sample_member_db_def sample_tables sample_grants)
  have "\<exists>r g b. db1\<lparr>db_idempotency := rows2\<rparr> = (sample_member_db role)\<lparr>db_jobs := [sample_row, r],
        db_grants := [sample_grant_row, g], db_outbox := [sample_outbox_row, b], db_idempotency := rows2\<rparr>
      \<and> job_model owner_job = Inr r \<and> grant_model owner_grant = Inr g"
    using d(1) by (rule add_job_graph_Inr) (auto simp: graph tables)
  then show thesis using that [OF create] c(2) reserve_prepares [OF r(1)] by auto
qed

lemmas sample_created = sample_member_created [where role = "''teacher''", unfolded sample_member_teacher]

lemma sample_new_record: "new_record_id sample_job_ids \<notin> idem_id ` set (db_idempotency sample_db)"
  by (simp add: sample_db_def)

lemma created_job_awaits_worker_witness:
  "\<exists>a db1. create_job sample_externals sample_secret (seconds 3600) sample_job_ids sample_command (aware 20) sample_db
      = Inr (a, db1) \<and> runtime_ok db1 \<and> execution db1 (u7 21) = Some Waiting"
proof (rule sample_created)
  fix a db1
  assume a: "create_job sample_externals sample_secret (seconds 3600) sample_job_ids sample_command (aware 20) sample_db
      = Inr (a, db1)" "\<not> accepted_replayed a" "accepted_job_id a = u7 21"
  show ?thesis
    using created_job_awaits_worker [OF a(1,2) sample_idem_ok sample_new_record sample_ok] a(1,3) by auto
qed

lemma created_tables:
  "created ids c now db db' r g b \<Longrightarrow> db_assignments db' = db_assignments db
     \<and> db_role_permissions db' = db_role_permissions db \<and> db_permissions db' = db_permissions db \<and> db_roles db' = db_roles db"
  by (auto simp: created_def)

lemma created_role_rows:
  "created ids c now db db' r g b \<Longrightarrow> role_rows t m db' = role_rows t m db"
proof -
  assume "created ids c now db db' r g b"
  note tables = created_tables [OF this]
  then have "role_permission_codes db' = role_permission_codes db"
    by (simp add: fun_eq_iff role_permission_codes_def)
  then show "role_rows t m db' = role_rows t m db" using tables by (simp add: role_rows_def cong: if_cong)
qed

lemma sample_command_valid: "CreateAIJobCommand_post_init sample_command = Inr ()"
  by (simp add: CreateAIJobCommand_post_init_def sample_command_def require_eval check_defs require_uuid7_def)

lemma repeated_create_replays_witness:
  "\<exists>a db1 v. create_job sample_externals sample_secret (seconds 3600) sample_job_ids sample_command (aware 20) sample_db
      = Inr (a, db1)
     \<and> create_job sample_externals sample_secret (seconds 3600) (sample_job_ids\<lparr>new_record_id := u7 30\<rparr>) sample_command
         (aware 99000000000) db1
       = Inr (\<lparr>accepted_job_id = accepted_job_id a, accepted_tenant_id = u7 1, accepted_etag = etag_of v,
            accepted_replayed = True\<rparr>, db1)"
proof (rule sample_created)
  fix a db1
  assume a: "create_job sample_externals sample_secret (seconds 3600) sample_job_ids sample_command (aware 20) sample_db
      = Inr (a, db1)" "\<not> accepted_replayed a" "u7 30 \<notin> idem_id ` set (db_idempotency db1)"
    and "\<exists>p. prepare sample_externals sample_secret (create_request sample_command) = Inr p"
  then obtain p where p: "prepare sample_externals sample_secret (create_request sample_command) = Inr p" by blast
  have roles: "role_rows (u7 1) (u7 2) db1 = role_rows (u7 1) (u7 2) sample_db"
    using create_job_created [OF a(1,2) sample_idem_ok sample_new_record] created_role_rows by metis
  have cmd: "cmd_tenant_id sample_command = u7 1" "cmd_membership_id sample_command = u7 2"
    by (simp_all add: sample_command_def)
  show ?thesis
    using repeated_create_replays [OF a(1,2) sample_idem_ok sample_new_record sample_ok runtime_run.idle refl p p
        refl refl refl sample_command_valid, of "aware 99000000000" "sample_job_ids\<lparr>new_record_id := u7 30\<rparr>"] a(1,3)
    by (auto simp: cmd roles sample_roles sample_codes)
qed

subsection \<open>A job cancelled by another member\<close>

text \<open>A member of the tenant who did not create the sample job.\<close>

definition sample_other :: TenantContext where
  "sample_other = (job_context sample_command (aware 15))\<lparr>ctx_membership_id := Some (u7 32), ctx_membership_user_id := Some (u7 33)\<rparr>"

definition sample_cancel :: cancel_query where
  "sample_cancel = \<lparr>cancel_tenant_id = u7 1, cancel_job_id = u7 5, cancel_now = aware 15\<rparr>"

definition cancelled_row :: job_row where
  "cancelled_row = cancel_values sample_cancel sample_row"

definition cancelled_job :: "datetime AIJob" where
  "cancelled_job = sample_job\<lparr>job_status := CANCELLED, job_completed_at := Some (aware 15), job_version := 2\<rparr>"

lemma sample_cancel_where: "cancel_where sample_cancel sample_row"
  by (simp add: cancel_where_def unstarted_where_def sample_row_fields claimable_statuses_def sample_cancel_def)

lemma cancelled_row_check: "job_check cancelled_row"
  using cancel_job.change_chk [OF sample_row_check sample_cancel_where] by (simp add: cancelled_row_def)

lemma cancelled_row_fields: "job_id cancelled_row = u7 5" "job_tenant_id cancelled_row = u7 1" "job_status cancelled_row = CANCELLED"
  by (simp_all add: cancelled_row_def cancel_values_def sample_row_fields)

lemma sample_cancelled: "cancel_job sample_other (u7 5) (aware 15) sample_db = (Inr (), sample_db\<lparr>db_jobs := [cancelled_row]\<rparr>)"
  using sample_cancel_where cancelled_row_check
  by (simp add: cancel_job_def unit_of_work_def sample_other_def job_context_def sample_command_def cancel_claimable_job_def
      sample_cancel_def [symmetric] cancelled_row_def [symmetric] sql_update_def sample_tables)
    (simp add: sample_cancel_def require_uuid7_def)

lemma cancelled_row_job: "job_of_row cancelled_row = Inr cancelled_job"
proof -
  have "aware_job cancelled_row = cancelled_job"
    by (simp add: cancelled_row_def cancel_values_def cancelled_job_def sample_cancel_def aware_job_def sample_row_def job_model_def
        sample_job_def naive_optional_def aware_optional_def)
  moreover have "AIJob_post_init cancelled_job = Inr ()"
    by (simp add: AIJob_post_init_def cancelled_job_def sample_job_def require_eval check_defs optional_check_def
        MAX_ATTEMPTS_def require_uuid7_def)
  ultimately show ?thesis by (simp add: job_of_row_def)
qed

lemma load_authority_job:
  assumes "load_authority t k db = Inr s" "find_job t k jobs = Some r" "job_of_row r = Inr j"
  shows "load_authority t k (db\<lparr>db_jobs := jobs\<rparr>) = Inr (s\<lparr>snap_job := j\<rparr>)"
proof -
  have "role_permission_codes (db\<lparr>db_jobs := jobs\<rparr>) = role_permission_codes db"
    by (simp add: fun_eq_iff role_permission_codes_def)
  then have "role_rows t m (db\<lparr>db_jobs := jobs\<rparr>) = role_rows t m db" for m by (simp add: role_rows_def cong: if_cong)
  then show ?thesis
    using assms by (auto simp: load_authority_def validate_simps Let_def split: option.splits prod.splits)
qed

lemma cancelled_allowed:
  "DurableGrantPolicy_authorize ((sample_snapshot ''teacher'')\<lparr>snap_job := cancelled_job\<rparr>) (aware 20)
     = Inr \<lparr>job_allowed = True, job_reason_code = ''allowed''\<rparr>"
proof -
  have "grant_checks ((sample_snapshot ''teacher'')\<lparr>snap_job := cancelled_job\<rparr>) (aware 20)
      = grant_checks (sample_snapshot ''teacher'') (aware 20)"
    by (simp add: grant_checks_def Let_def membership_active_at_def) (simp add: sample_snapshot_def cancelled_job_def)
  then have "DurableGrantPolicy_authorize ((sample_snapshot ''teacher'')\<lparr>snap_job := cancelled_job\<rparr>) (aware 20)
      = DurableGrantPolicy_authorize (sample_snapshot ''teacher'') (aware 20)"
    unfolding DurableGrantPolicy_authorize_def by (rule arg_cong)
  then show ?thesis using teacher_allowed [of 20] by simp
qed

lemma cancelled_claim: "worker_claim sample_worker sample_ids (u7 1) (u7 11) (u7 5) cancelled_job (aware 20) = sample_claim"
  by (simp add: sample_claim_def worker_claim_def cancelled_job_def)

text \<open>The message of the cancelled job arrives for the first time: allowed by the policy, but nothing left to claim.\<close>

lemma cancelled_delivery:
  "\<exists>db'. accept_delivery sample_crypto sample_worker sample_ids (u7 1) (u7 11) (u7 5) (sample_envelope ''k1'') (aware 20)
     (sample_db\<lparr>db_jobs := [cancelled_row]\<rparr>) = Inr (ACK_TERMINAL, db')"
proof -
  let ?db = "sample_db\<lparr>db_jobs := [cancelled_row]\<rparr>"
  have "find_job (u7 1) (u7 5) [cancelled_row] = Some cancelled_row"
    by (simp add: find_job_def sql_scalar_def cancelled_row_fields)
  note load = load_authority_job [OF sample_authority this cancelled_row_job]
  have "db_inbox ?db = []" "has_job ?db (u7 1) (u7 5)" "is_uuid7 (u7 5)"
    by (simp_all add: has_job_def sample_tables cancelled_row_fields)
  then show ?thesis
  proof (rule sample_first_insert [where n = 20])
    fix digest i
    assume dig: "envelope_digest sample_crypto (sample_envelope ''k1'') = Inr digest"
      and ins: "insert_inbox_accepted (fresh_inbox sample_ids) (u7 1) (u7 11) (u7 5) digest
           (sha256 sample_crypto (ascii (env_nonce (sample_envelope ''k1'')))) (aware 20) ?db = Inr (?db\<lparr>db_inbox := [i]\<rparr>)"
      and unseen: "repo_inbox_row (u7 1) (u7 11) ?db = Inr None" and i: "inbox_check i"
    have "sql_update job_check (claim_where sample_claim) (claim_values sample_claim) [cancelled_row] = Inr ([cancelled_row], 0)"
      by (simp add: sql_update_def claim_where_def cancelled_row_fields claimable_statuses_def)
    then have "claim_due_job sample_claim (?db\<lparr>db_inbox := [i]\<rparr>) = Inr (ClaimRejected ''job_not_claimable'', ?db\<lparr>db_inbox := [i]\<rparr>)"
      by (simp add: claim_due_job_def sample_claim_fields)
    moreover obtain rows n where "sql_update inbox_check (terminal_where (denial sample_ids ''job_not_claimable'' (aware 20)))
        (terminal_values (denial sample_ids ''job_not_claimable'' (aware 20))) [i] = Inr (rows, n)"
      using sample_settles [OF i] by blast
    ultimately have "\<exists>db'. claim_delivery sample_worker sample_ids (u7 1) (u7 11) (u7 5) cancelled_job (aware 20)
        (?db\<lparr>db_inbox := [i]\<rparr>) = Inr (ACK_TERMINAL, db')"
      using sample_claim_valid
      by (simp add: claim_delivery_def cancelled_claim complete_inbox_terminal_def denial_def)
        (simp add: sample_ids_def require_uuid7_def)
    then show ?thesis
      using load cancelled_allowed by (simp add: accept_delivery_def unseen dig ins)
  qed
qed

lemma cancelled_job_never_claimed_witness:
  "\<exists>db1 d db3. cancel_job sample_other (u7 5) (aware 15) sample_db = (Inr (), db1) \<and> db_inbox db1 = []
     \<and> ctx_membership_user_id sample_other \<noteq> Some (job_created_by_user_id sample_row)
     \<and> accept_delivery sample_crypto sample_worker sample_ids (u7 1) (u7 11) (u7 5) (sample_envelope ''k1'') (aware 20) db1
       = Inr (d, db3) \<and> d \<noteq> ACK_CLAIMED"
proof -
  obtain db3 where d: "accept_delivery sample_crypto sample_worker sample_ids (u7 1) (u7 11) (u7 5) (sample_envelope ''k1'') (aware 20)
      (sample_db\<lparr>db_jobs := [cancelled_row]\<rparr>) = Inr (ACK_TERMINAL, db3)"
    using cancelled_delivery by blast
  have "job_created_by_user_id sample_row = u7 3"
    by (simp add: sample_row_def job_model_def sample_job_def naive_optional_def)
  then have "ctx_membership_user_id sample_other \<noteq> Some (job_created_by_user_id sample_row)"
    by (simp add: sample_other_def u7_def)
  moreover have "ACK_TERMINAL \<noteq> ACK_CLAIMED"
    using cancelled_job_never_claimed [OF sample_ok sample_cancelled runtime_run.idle d] by blast
  moreover have "db_inbox (sample_db\<lparr>db_jobs := [cancelled_row]\<rparr>) = []" by (simp add: sample_tables)
  ultimately show ?thesis using sample_cancelled d by blast
qed

subsection \<open>A job of an owner\<close>

definition owner_grant_row :: grant_row where
  "owner_grant_row = sample_grant_row\<lparr>grant_id := u7 23, grant_job_id := u7 21, grant_issued_at := 20\<rparr>"

definition owner_snapshot :: JobAuthoritySnapshot where
  "owner_snapshot = (sample_snapshot ''tenant_owner'')\<lparr>snap_job := owner_job, snap_grant := owner_grant\<rparr>"

lemma owner_grant_stored: "grant_model owner_grant = Inr owner_grant_row" "grant_of_row owner_grant_row = Inr owner_grant"
  by (simp_all add: owner_grant_def owner_grant_row_def sample_grant_row_def submitted_grant_def sample_job_ids_def
      sample_command_def grant_model_def aware_grant_def grant_of_row_def JobExecutionGrant_post_init_def require_eval check_defs
      optional_check_def aware_optional_def require_uuid7_def JOB_POLICY_VERSION_def JOB_SCOPE_MANIFEST_VERSION_def)

lemma owner_job_stored:
  assumes "job_model owner_job = Inr r"
  shows "job_of_row r = Inr owner_job" "job_id r = u7 21" "job_tenant_id r = u7 1"
proof -
  obtain graph where g: "submitted_graph sample_job_ids sample_command (u7 20) (aware 20) = Inr graph" using sample_graph by blast
  have "AIJob_post_init owner_job = Inr ()" using submitted_graph_Inr [OF g] by (auto simp: owner_job_def)
  then show "job_of_row r = Inr owner_job" using job_model_aware [OF assms] by (simp add: job_of_row_def)
  show "job_id r = u7 21" "job_tenant_id r = u7 1"
    using row_keys [OF assms] by (simp_all add: owner_job_def submitted_job_def sample_job_ids_def sample_command_def)
qed

lemma owner_mapped: "\<exists>role\<in>{''tenant_owner''}. JOB_SCOPE_BY_ROLE role \<noteq> None" "role_scope_code {''tenant_owner''} = TENANT_WIDE"
  by (simp_all add: JOB_SCOPE_BY_ROLE_def tenant_wide_roles_def role_scope_code_def)

lemma owner_scope: "resolve_scope {''tenant_owner''} = Inr (union_scope {''tenant_owner''}, role_scope_code {''tenant_owner''}, False)"
  using union_scope_code [OF owner_mapped(1)] owner_mapped(1) by (auto simp: resolve_scope_def)

lemma owner_denied:
  "DurableGrantPolicy_authorize owner_snapshot (aware 30)
     = Inr \<lparr>job_allowed = False, job_reason_code = ''grant_scope_code_mismatch''\<rparr>"
  by (simp add: DurableGrantPolicy_authorize_def grant_checks_def Let_def owner_snapshot_def sample_snapshot_def owner_job_def
      owner_grant_def submitted_job_def submitted_grant_def sample_job_ids_def sample_command_def sample_membership_def
      membership_active_at_def owner_mapped(2) require_eval aware_def instant_def dt_plus_def seconds_def)

lemma owner_authority:
  assumes "job_model owner_job = Inr r"
    and db1: "db1 = (sample_member_db ''tenant_owner'')\<lparr>db_jobs := [sample_row, r], db_grants := [sample_grant_row, owner_grant_row],
       db_outbox := ob, db_idempotency := rows\<rparr>"
  shows "load_authority (u7 1) (u7 21) db1 = Inr owner_snapshot"
    and "role_rows (u7 1) (u7 2) db1 = [(''tenant_owner'', Some ''ai_job.create'')]"
proof -
  note r = owner_job_stored [OF assms(1)]
  have u: "u7 5 \<noteq> u7 21" by (simp add: u7_def)
  have j: "find_job (u7 1) (u7 21) (db_jobs db1) = Some r"
    using u by (simp add: db1 find_job_def sql_scalar_def r sample_row_fields)
  have g: "sql_scalar (\<lambda>g. grant_tenant_id g = u7 1 \<and> grant_job_id g = u7 21) (db_grants db1) = Some owner_grant_row"
    using u by (simp add: db1 sql_scalar_def sample_grant_row_def owner_grant_row_def)
  have f: "grant_user_id owner_grant_row = u7 3" "grant_membership_id owner_grant_row = u7 2"
    "grant_job_scope_code owner_grant_row = OWNER_SHARED"
    by (simp_all add: owner_grant_row_def sample_grant_row_def)
  have us: "sql_scalar (\<lambda>u. usr_id u = u7 3) (db_users db1)
      = Some \<lparr>usr_id = u7 3, usr_status = ''active'', usr_auth_version = 1\<rparr>"
    and t: "sql_scalar (\<lambda>t. ten_id t = u7 1) (db_tenants db1) = Some \<lparr>ten_id = u7 1, ten_status = TenantStatus_ACTIVE\<rparr>"
    by (simp_all add: db1 sample_member_db_def sample_db_def sql_scalar_def)
  obtain row where m: "sql_scalar (\<lambda>m. mbr_tenant_id m = u7 1 \<and> mbr_id m = u7 2) (db_memberships db1) = Some row"
    "membership_of_row row = Inr sample_membership" "mbr_authz_version row = 1"
    by (simp add: db1 sample_member_db_def sample_db_def sql_scalar_def membership_of_row_def sample_membership_def Let_def
        aware_optional_def Membership_post_init_def require_eval check_defs require_uuid7_def version_error_def version_ok_def)
  show roles: "role_rows (u7 1) (u7 2) db1 = [(''tenant_owner'', Some ''ai_job.create'')]"
    by (simp add: db1 role_rows_def sample_member_db_def sample_db_def role_permission_codes_def sql_scalar_def)
  show "load_authority (u7 1) (u7 21) db1 = Inr owner_snapshot"
    unfolding load_authority_def j option.case g f us t m(1) prod.case roles
    using m(2,3) owner_scope r(1)
    by (simp add: require_uuid7_def f owner_grant_stored(2) owner_snapshot_def sample_snapshot_def sample_member_codes Let_def)
qed

text \<open>
  An owner creates a job, and the first delivery of its message is denied because of the scope: everything
  else the policy checks holds.
\<close>

lemma owner_jobs_never_claimed_witness:
  "\<exists>a db1 d db3 r. create_job sample_externals sample_secret (seconds 3600) sample_job_ids sample_command (aware 20)
        (sample_member_db ''tenant_owner'') = Inr (a, db1)
     \<and> load_authority (u7 1) (u7 21) db1 = Inr owner_snapshot
     \<and> DurableGrantPolicy_authorize owner_snapshot (aware 30)
        = Inr \<lparr>job_allowed = False, job_reason_code = ''grant_scope_code_mismatch''\<rparr>
     \<and> accept_delivery sample_crypto sample_worker sample_ids (u7 1) (u7 11) (u7 21) (sample_envelope ''k1'') (aware 30) db1
        = Inr (d, db3)
     \<and> d = ACK_TERMINAL \<and> find_job (u7 1) (u7 21) (db_jobs db3) = Some r \<and> job_status r = FAILED"
proof (rule sample_member_created)
  fix a db1
  assume a: "create_job sample_externals sample_secret (seconds 3600) sample_job_ids sample_command (aware 20)
      (sample_member_db ''tenant_owner'') = Inr (a, db1)" "\<not> accepted_replayed a" "accepted_job_id a = u7 21"
    and "\<exists>r g b rows. db1 = (sample_member_db ''tenant_owner'')\<lparr>db_jobs := [sample_row, r], db_grants := [sample_grant_row, g],
        db_outbox := [sample_outbox_row, b], db_idempotency := rows\<rparr>
      \<and> job_model owner_job = Inr r \<and> grant_model owner_grant = Inr g"
  then obtain r b rows where r: "job_model owner_job = Inr r"
    and db1: "db1 = (sample_member_db ''tenant_owner'')\<lparr>db_jobs := [sample_row, r],
        db_grants := [sample_grant_row, owner_grant_row], db_outbox := [sample_outbox_row, b], db_idempotency := rows\<rparr>"
    by (auto simp: owner_grant_stored(1))
  note au = owner_authority [OF r db1] and row = owner_job_stored [OF r]
  have cmd: "cmd_tenant_id sample_command = u7 1" "cmd_membership_id sample_command = u7 2"
    by (simp_all add: sample_command_def)
  have jobs: "db_jobs db1 = [sample_row, r]" "db_inbox db1 = []"
    by (simp_all add: db1 sample_member_db_def sample_db_def)
  have ok: "runtime_ok db1"
    using create_job_created [OF a(1,2) sample_member_ok(2,3)] sample_member_ok(1) by metis
  have "has_job db1 (u7 1) (u7 21)" "list_all job_check (db_jobs db1)"
    using ok by (simp_all add: has_job_def jobs row runtime_ok_def jobs_ok_def)
  then obtain db3 where d: "accept_delivery sample_crypto sample_worker sample_ids (u7 1) (u7 11) (u7 21) (sample_envelope ''k1'')
      (aware 30) db1 = Inr (ACK_TERMINAL, db3)"
    using sample_first_denied [OF jobs(2) _ _ _ au(1) owner_denied] by auto
  have find: "find_job (u7 1) (u7 21) (db_jobs db1) = Some r"
    using row sample_row_fields by (simp add: jobs find_job_def sql_scalar_def u7_def)
  have status: "job_status r \<in> set claimable_statuses"
    using job_model_aware [OF r] by (auto simp: claimable_statuses_def owner_job_def submitted_job_def dest: arg_cong [where f = job_status])
  have wide: "fst ` set (role_rows (cmd_tenant_id sample_command) (cmd_membership_id sample_command) db1) \<inter> tenant_wide_roles \<noteq> {}"
    by (simp add: cmd au(2) tenant_wide_roles_def)
  have "find_inbox (u7 1) (u7 11) (db_inbox db1) = None" by (simp add: jobs find_inbox_def sql_scalar_def)
  then obtain r' where "find_job (u7 1) (u7 21) (db_jobs db3) = Some r'" "job_status r' = FAILED"
    using owner_jobs_never_claimed [OF a(1,2) sample_member_ok(2,3,1) issuing_run.unissued wide, of sample_crypto sample_worker
        sample_ids "u7 11" "sample_envelope ''k1''" "aware 30" ACK_TERMINAL db3] d find status
    by (auto simp: cmd a(3))
  then show ?thesis using a(1) au(1) owner_denied d by blast
qed

end
