(* ===== verification/Rejections.thy ===== *)
theory Rejections
  imports Calendar Idempotency Envelope
begin

text \<open>
  The bounded log of rejected messages (\<open>repositories/message_security.py\<close>) with the observer of the worker
  that writes it (\<open>workers/ai_job_worker.py\<close>): rows are keyed by a keyed hash of the message, sampled,
  deduplicated per day and capped.  The order of the table's list is the scan order of the storage engine,
  which decides what a \<open>DELETE ... LIMIT\<close> removes.  The hash is a parameter.
\<close>

definition MAX_SCHEMA_VERSION :: int where "MAX_SCHEMA_VERSION = 2147483647"

subsection \<open>Values\<close>

definition observability_ref :: "externals \<Rightarrow> bytes \<Rightarrow> bytes \<Rightarrow> bytes result" where
  "observability_ref ext key raw_message =
     (if length key \<noteq> 32 then Inl (ValueError ''observability reference key must contain exactly 32 bytes'')
      else Inr (ext_hmac_sha256 ext key (ascii ''ai-message-observability:v1'' @ [byte 0] @ raw_message)))"

record SecurityRejection =
  rej_observability_ref :: bytes
  rej_code :: string
  rej_source_channel :: string
  rej_received_at :: datetime
  rej_schema_version_hint :: json
  rej_kid_hint :: json

definition SecurityRejection_post_init :: "SecurityRejection \<Rightarrow> unit result" where
  "SecurityRejection_post_init r = require
     [(length (rej_observability_ref r) = 32, ValueError ''security rejection observability ref must be 32 bytes''),
      (rej_code r \<noteq> [], ValueError ''security rejection code must be non-empty text''),
      (rej_source_channel r \<noteq> [], ValueError ''security rejection source channel must be non-empty text''),
      (dt_offset (rej_received_at r) \<noteq> None, ValueError ''security rejection received_at must be UTC-aware'')]"

record RejectionCapacity =
  cap_max_rows :: int
  cap_max_rows_per_day :: int
  cap_sample_rate :: int

definition RejectionCapacity_post_init :: "RejectionCapacity \<Rightarrow> unit result" where
  "RejectionCapacity_post_init c = require
     [(1 \<le> cap_max_rows c, ValueError ''rejection capacity max_rows must be a positive integer''),
      (1 \<le> cap_max_rows_per_day c, ValueError ''rejection capacity max_rows_per_day must be a positive integer''),
      (1 \<le> cap_sample_rate c, ValueError ''rejection capacity sample_rate must be a positive integer''),
      (1 \<le> cap_sample_rate c \<and> cap_sample_rate c \<le> 100,
        ValueError ''rejection capacity sample_rate must be between 1 and 100'')]"

datatype RejectionWriteResult = PERSISTED | DEDUPLICATED | SAMPLED | DROPPED_CAPACITY

fun sanitize_schema_hint :: "json \<Rightarrow> int option" where
  "sanitize_schema_hint (JInt n) = (if 1 \<le> n \<and> n \<le> MAX_SCHEMA_VERSION then Some n else None)"
| "sanitize_schema_hint v = None"

fun sanitize_kid_hint :: "json \<Rightarrow> string option" where
  "sanitize_kid_hint (JStr s) = (if matches_class kid_char 1 64 s then Some s else None)"
| "sanitize_kid_hint v = None"

text \<open>\<open>value.astimezone(UTC)\<close>: the naive UTC time of an aware datetime, if it is representable.\<close>

definition to_utc :: "datetime \<Rightarrow> int result" where
  "to_utc d = (if representable (aware (instant d)) then Inr (instant d) else Inl (OverflowError ''date value out of range''))"

definition date_isoformat :: "int \<Rightarrow> string" where
  "date_isoformat w =
     (let (year, r) = year_and_day (nat (calendar_day (aware w)));
          (month, day) = month_and_day (month_lengths (leap_year year)) 1 r
      in pad 10 4 year @ ''-'' @ pad 10 2 month @ ''-'' @ pad 10 2 (day + 1))"

definition deterministic_sample :: "bytes \<Rightarrow> int \<Rightarrow> bool" where
  "deterministic_sample ref sample_rate \<longleftrightarrow> int (foldl (\<lambda>a b. a * 256 + unat b) 0 (take 4 ref) mod 100) < sample_rate"

subsection \<open>The table and its two statements\<close>

record rejection_row =
  rjr_id :: uuid
  rjr_observability_ref :: bytes
  rjr_rejection_code :: string
  rjr_schema_version_hint :: "int option"
  rjr_kid_hint :: "string option"
  rjr_source_channel :: string
  rjr_received_at :: int
  rjr_retention_bucket :: string

definition rejection_key :: "rejection_row \<Rightarrow> bytes \<times> string \<times> string" where
  "rejection_key r = (rjr_observability_ref r, rjr_rejection_code r, rjr_retention_bucket r)"

text \<open>The column lengths; \<open>ON DUPLICATE KEY UPDATE id = id\<close> turns a duplicate key into no change.\<close>

definition rejection_check :: "rejection_row \<Rightarrow> bool" where
  "rejection_check r \<longleftrightarrow> length (rjr_observability_ref r) = 32 \<and> length (rjr_rejection_code r) \<le> 64
     \<and> pred_option (\<lambda>k. length k \<le> 64) (rjr_kid_hint r) \<and> length (rjr_source_channel r) \<le> 32
     \<and> length (rjr_retention_bucket r) \<le> 16"

definition insert_or_keep :: "rejection_row \<Rightarrow> rejection_row list \<Rightarrow> rejection_row list result" where
  "insert_or_keep r rows =
     (if \<not> rejection_check r then Inl (DatabaseError ''data too long for column'')
      else if list_ex (\<lambda>s. rjr_id s = rjr_id r \<or> rejection_key s = rejection_key r) rows then Inr rows
      else Inr (rows @ [r]))"

definition rejection_model :: "uuid \<Rightarrow> SecurityRejection \<Rightarrow> int \<Rightarrow> string \<Rightarrow> rejection_row" where
  "rejection_model fresh r received bucket =
     \<lparr>rjr_id = fresh, rjr_observability_ref = rej_observability_ref r, rjr_rejection_code = rej_code r,
      rjr_schema_version_hint = sanitize_schema_hint (rej_schema_version_hint r),
      rjr_kid_hint = sanitize_kid_hint (rej_kid_hint r), rjr_source_channel = rej_source_channel r,
      rjr_received_at = received, rjr_retention_bucket = bucket\<rparr>"

definition record_rejection :: "RejectionCapacity \<Rightarrow> SecurityRejection \<Rightarrow> uuid \<Rightarrow> rejection_row list
    \<Rightarrow> (RejectionWriteResult \<times> rejection_row list) result" where
  "record_rejection cap r fresh rows =
     bindE (to_utc (rej_received_at r)) (\<lambda>received.
     let bucket = date_isoformat received in
     if cap_max_rows cap \<le> int (length rows) then Inr (DROPPED_CAPACITY, rows)
     else if \<not> deterministic_sample (rej_observability_ref r) (cap_sample_rate cap) then Inr (SAMPLED, rows)
     else if cap_max_rows_per_day cap \<le> int (length (filter (\<lambda>s. rjr_retention_bucket s = bucket) rows))
     then Inr (DROPPED_CAPACITY, rows)
     else if list_ex (\<lambda>s. rejection_key s = (rej_observability_ref r, rej_code r, bucket)) rows
     then Inr (DEDUPLICATED, rows)
     else bindE (insert_or_keep (rejection_model fresh r received bucket) rows) (\<lambda>rows'. Inr (PERSISTED, rows')))"

text \<open>The first \<open>n\<close> rows of the scan that satisfy the condition are removed.\<close>

fun delete_first :: "('r \<Rightarrow> bool) \<Rightarrow> nat \<Rightarrow> 'r list \<Rightarrow> 'r list" where
  "delete_first p n [] = []"
| "delete_first p n (r # rows) =
     (if n = 0 then r # rows else if p r then delete_first p (n - 1) rows else r # delete_first p n rows)"

definition delete_expired :: "datetime \<Rightarrow> int \<Rightarrow> rejection_row list \<Rightarrow> (nat \<times> rejection_row list) result" where
  "delete_expired before limit rows =
     (if dt_offset before = None \<or> \<not> (1 \<le> limit \<and> limit \<le> 1000)
      then Inl (ValueError ''delete_expired inputs are invalid'')
      else bindE (to_utc before) (\<lambda>t.
        let rows' = delete_first (\<lambda>r. rjr_received_at r < t) (nat limit) rows
        in Inr (length rows - length rows', rows')))"

subsection \<open>The observer of the worker\<close>

definition CAPACITY :: RejectionCapacity where
  "CAPACITY = \<lparr>cap_max_rows = 10000, cap_max_rows_per_day = 2000, cap_sample_rate = 100\<rparr>"

definition observability_key :: "string \<Rightarrow> bytes result" where
  "observability_key secret =
     (let raw = utf8 secret in
      if length raw < 32 then Inl (ValueError ''worker observability reference key must contain at least 32 bytes'')
      else Inr (take 32 raw))"

definition observe_reject :: "externals \<Rightarrow> bytes \<Rightarrow> RawDelivery \<Rightarrow> string \<Rightarrow> uuid \<Rightarrow> rejection_row list
    \<Rightarrow> (RejectionWriteResult \<times> rejection_row list) result" where
  "observe_reject ext key raw reason fresh rows =
     bindE (observability_ref ext key (raw_body raw)) (\<lambda>ref.
     let r = \<lparr>rej_observability_ref = ref, rej_code = reason, rej_source_channel = ''worker'',
              rej_received_at = raw_received_at raw, rej_schema_version_hint = JNull, rej_kid_hint = JNull\<rparr>
     in bindE (SecurityRejection_post_init r) (\<lambda>_. record_rejection CAPACITY r fresh rows))"

subsection \<open>Facts about single operations\<close>

lemma insert_or_keep_Inr:
  "insert_or_keep r rows = Inr rows' \<longleftrightarrow> rejection_check r
     \<and> rows' = (if \<exists>s\<in>set rows. rjr_id s = rjr_id r \<or> rejection_key s = rejection_key r then rows else rows @ [r])"
  by (auto simp: insert_or_keep_def list_ex_iff)

lemma model_key [simp]:
  "rejection_key (rejection_model fresh r t b) = (rej_observability_ref r, rej_code r, b)"
  "rjr_id (rejection_model fresh r t b) = fresh" "rjr_retention_bucket (rejection_model fresh r t b) = b"
  "rjr_received_at (rejection_model fresh r t b) = t"
  by (simp_all add: rejection_key_def rejection_model_def)

lemma record_rejectionE:
  assumes "record_rejection cap r fresh rows = Inr (res, rows')"
  obtains t where "to_utc (rej_received_at r) = Inr t" "res \<noteq> PERSISTED" "rows' = rows"
  | t where "to_utc (rej_received_at r) = Inr t" "res = PERSISTED" "int (length rows) < cap_max_rows cap"
      "int (length (filter (\<lambda>s. rjr_retention_bucket s = date_isoformat t) rows)) < cap_max_rows_per_day cap"
      "\<forall>s\<in>set rows. rejection_key s \<noteq> (rej_observability_ref r, rej_code r, date_isoformat t)"
      "rejection_check (rejection_model fresh r t (date_isoformat t))"
      "rows' = (if fresh \<in> rjr_id ` set rows then rows else rows @ [rejection_model fresh r t (date_isoformat t)])"
proof -
  obtain t where t: "to_utc (rej_received_at r) = Inr t" using assms by (auto simp: record_rejection_def validate_simps)
  let ?b = "date_isoformat t" and ?new = "rejection_model fresh r t (date_isoformat t)"
  have a: "(if cap_max_rows cap \<le> int (length rows) then Inr (DROPPED_CAPACITY, rows)
     else if \<not> deterministic_sample (rej_observability_ref r) (cap_sample_rate cap) then Inr (SAMPLED, rows)
     else if cap_max_rows_per_day cap \<le> int (length (filter (\<lambda>s. rjr_retention_bucket s = ?b) rows))
     then Inr (DROPPED_CAPACITY, rows)
     else if list_ex (\<lambda>s. rejection_key s = (rej_observability_ref r, rej_code r, ?b)) rows
     then Inr (DEDUPLICATED, rows)
     else bindE (insert_or_keep ?new rows) (\<lambda>rows'. Inr (PERSISTED, rows'))) = Inr (res, rows')"
    using assms unfolding record_rejection_def t bindE_Inr Let_def .
  show thesis
  proof (cases "res = PERSISTED")
    case True
    have new: "int (length rows) < cap_max_rows cap"
        "int (length (filter (\<lambda>s. rjr_retention_bucket s = ?b) rows)) < cap_max_rows_per_day cap"
        "\<not> list_ex (\<lambda>s. rejection_key s = (rej_observability_ref r, rej_code r, ?b)) rows"
        "insert_or_keep ?new rows = Inr rows'"
      using a True by (simp_all split: if_split_asm add: bindE_eq_Inr)
    have key: "\<forall>s\<in>set rows. rejection_key s \<noteq> (rej_observability_ref r, rej_code r, ?b)"
      using new(3) by (simp add: list_ex_iff)
    have "(\<exists>s\<in>set rows. rjr_id s = rjr_id ?new \<or> rejection_key s = rejection_key ?new) \<longleftrightarrow> fresh \<in> rjr_id ` set rows"
      using key by (auto simp: model_key)
    then have "rejection_check ?new" "rows' = (if fresh \<in> rjr_id ` set rows then rows else rows @ [?new])"
      using new(4) by (simp_all add: insert_or_keep_Inr)
    then show thesis by (rule that(2) [OF t True new(1,2) key])
  next
    case False
    then have "rows' = rows" using a by (simp split: if_split_asm add: bindE_eq_Inr)
    then show thesis by (rule that(1) [OF t False])
  qed
qed

lemma set_delete_first: "set (delete_first p n rows) \<subseteq> set rows"
  by (induction p n rows rule: delete_first.induct) auto

lemma delete_first_filter: "length (filter q (delete_first p n rows)) \<le> length (filter q rows)"
  by (induction p n rows rule: delete_first.induct) (auto intro: le_SucI)

lemma delete_first_distinct: "distinct (map f rows) \<Longrightarrow> distinct (map f (delete_first p n rows))"
  by (induction p n rows rule: delete_first.induct) (auto dest: set_delete_first [THEN subsetD])

lemma delete_first_rest: "filter (\<lambda>r. \<not> p r) (delete_first p n rows) = filter (\<lambda>r. \<not> p r) rows"
  by (induction p n rows rule: delete_first.induct) auto

lemma delete_first_count: "length (filter p (delete_first p n rows)) = length (filter p rows) - n"
  by (induction p n rows rule: delete_first.induct) auto

subsection \<open>The log under any sequence of operations\<close>

datatype rejection_op = Record SecurityRejection uuid | Delete datetime int

text \<open>An operation in its own transaction: an exception leaves the table as it was.\<close>

fun rejection_step :: "RejectionCapacity \<Rightarrow> rejection_op \<Rightarrow> rejection_row list \<Rightarrow> rejection_row list" where
  "rejection_step cap (Record r fresh) rows =
     (case record_rejection cap r fresh rows of Inl _ \<Rightarrow> rows | Inr (_, rows') \<Rightarrow> rows')"
| "rejection_step cap (Delete before limit) rows =
     (case delete_expired before limit rows of Inl _ \<Rightarrow> rows | Inr (_, rows') \<Rightarrow> rows')"

definition clean_row :: "rejection_row \<Rightarrow> bool" where
  "clean_row r \<longleftrightarrow> rejection_check r \<and> pred_option (matches_class kid_char 1 64) (rjr_kid_hint r)
     \<and> pred_option (\<lambda>v. 1 \<le> v \<and> v \<le> MAX_SCHEMA_VERSION) (rjr_schema_version_hint r)"

definition log_ok :: "RejectionCapacity \<Rightarrow> rejection_row list \<Rightarrow> bool" where
  "log_ok cap rows \<longleftrightarrow> int (length rows) \<le> cap_max_rows cap
     \<and> (\<forall>day. int (length (filter (\<lambda>r. rjr_retention_bucket r = day) rows)) \<le> cap_max_rows_per_day cap)
     \<and> distinct (map rjr_id rows) \<and> distinct (map rejection_key rows) \<and> list_all clean_row rows"

lemma sanitized_hints:
  "pred_option (matches_class kid_char 1 64) (sanitize_kid_hint v)"
  "pred_option (\<lambda>n. 1 \<le> n \<and> n \<le> MAX_SCHEMA_VERSION) (sanitize_schema_hint v)"
  by (cases v; simp)+

lemma record_log_ok:
  assumes "record_rejection cap r fresh rows = Inr (res, rows')" "log_ok cap rows"
  shows "log_ok cap rows'"
  using assms(1)
proof (cases rule: record_rejectionE)
  case (2 t)
  show ?thesis
  proof (cases "fresh \<in> rjr_id ` set rows")
    case True
    then show ?thesis using 2(7) assms(2) by simp
  next
    case False
    have "clean_row (rejection_model fresh r t (date_isoformat t))"
      using 2(6) sanitized_hints by (simp add: clean_row_def) (simp add: rejection_model_def)
    then show ?thesis
      using 2 False assms(2) by (auto simp: log_ok_def)
  qed
qed (use assms(2) in simp)

lemma delete_log_ok:
  assumes "delete_expired before limit rows = Inr (n, rows')" "log_ok cap rows"
  shows "log_ok cap rows'"
proof -
  obtain p k where rows': "rows' = delete_first p k rows"
    using assms(1) by (auto simp: delete_expired_def bindE_eq_Inr Let_def split: if_splits)
  have "int (length rows') \<le> int (length rows)"
    using delete_first_filter [of "\<lambda>_. True" p k rows] by (simp add: rows')
  moreover have "int (length (filter q rows')) \<le> int (length (filter q rows))" for q
    using delete_first_filter [of q p k rows] by (simp add: rows')
  ultimately have "int (length rows') \<le> cap_max_rows cap"
      "int (length (filter (\<lambda>r. rjr_retention_bucket r = day) rows')) \<le> cap_max_rows_per_day cap" for day
    using assms(2) unfolding log_ok_def by (meson order_trans)+
  then show ?thesis
    using assms(2) set_delete_first [of p k rows]
    by (auto simp: log_ok_def list_all_iff rows' intro: delete_first_distinct)
qed

lemma rejection_step_ok: "log_ok cap rows \<Longrightarrow> log_ok cap (rejection_step cap op rows)"
  by (cases op) (auto split: sum.split prod.split intro: record_log_ok delete_log_ok)

text \<open>
  C37. Starting from an empty log, after any sequence of recordings and deletions the log holds at most
  \<open>max_rows\<close> rows and at most \<open>max_rows_per_day\<close> rows of any day, at most one per message, reason and day,
  and of the untrusted message only a well-formed key identifier and a version in range.
\<close>

theorem rejection_log_bounded:
  assumes "RejectionCapacity_post_init cap = Inr ()" "rows = fold (rejection_step cap) ops []"
  shows "int (length rows) \<le> cap_max_rows cap
    \<and> int (length (filter (\<lambda>r. rjr_retention_bucket r = day) rows)) \<le> cap_max_rows_per_day cap
    \<and> distinct (map rejection_key rows) \<and> list_all clean_row rows"
proof -
  have "log_ok cap []"
    using assms(1) by (simp add: log_ok_def RejectionCapacity_post_init_def require_eq_Inr)
  then have "log_ok cap rows"
    unfolding assms(2) by (induction ops rule: rev_induct) (simp_all add: rejection_step_ok)
  then show ?thesis by (simp add: log_ok_def)
qed

subsection \<open>One row per message, reason and day\<close>

lemma record_keeps_rows:
  "record_rejection cap r fresh rows = Inr (res, rows') \<Longrightarrow> set rows \<subseteq> set rows'"
  by (auto elim!: record_rejectionE)

lemma recordings_keep_rows: "set rows \<subseteq> set (fold (\<lambda>(r, i). rejection_step cap (Record r i)) rs rows)"
proof (induction rs arbitrary: rows)
  case (Cons x rs)
  have "set rows \<subseteq> set (rejection_step cap (Record (fst x) (snd x)) rows)"
    by (auto split: sum.split dest: record_keeps_rows)
  with Cons [of "rejection_step cap (Record (fst x) (snd x)) rows"] show ?case
    by (simp add: case_prod_beta del: rejection_step.simps)
qed simp

text \<open>
  A message that was recorded for a reason is not recorded again for that reason on the same UTC
  day, however many other messages are recorded in between: the call writes nothing.
\<close>

theorem rejection_recorded_once:
  assumes "record_rejection cap r fresh rows = Inr (PERSISTED, rows1)" "fresh \<notin> rjr_id ` set rows"
    and "rows2 = fold (\<lambda>(r, i). rejection_step cap (Record r i)) rs rows1"
    and "rej_observability_ref r' = rej_observability_ref r" "rej_code r' = rej_code r"
    and "to_utc (rej_received_at r) = Inr t" "to_utc (rej_received_at r') = Inr t'" "date_isoformat t' = date_isoformat t"
    and "record_rejection cap' r' fresh' rows2 = Inr (res, rows3)"
  shows "res \<noteq> PERSISTED \<and> rows3 = rows2"
proof -
  let ?k = "(rej_observability_ref r, rej_code r, date_isoformat t)"
  have "\<exists>s\<in>set rows1. rejection_key s = ?k"
    using assms(1)
  proof (cases rule: record_rejectionE)
    case (2 u)
    then show ?thesis using assms(2,6) by (auto intro: bexI [of _ "rejection_model fresh r u (date_isoformat u)"])
  qed simp
  then have "\<exists>s\<in>set rows2. rejection_key s = ?k"
    using recordings_keep_rows [of rows1 cap rs] assms(3) by blast
  then have seen: "\<not> (\<forall>s\<in>set rows2. rejection_key s \<noteq> (rej_observability_ref r', rej_code r', date_isoformat t'))"
    using assms(4,5,8) by auto
  show ?thesis
    using assms(9)
  proof (cases rule: record_rejectionE)
    case (2 u)
    then show ?thesis using seen assms(7) by auto
  qed simp
qed

subsection \<open>Deleting in batches\<close>

text \<open>
  C38. Deleting in batches terminates with exactly the rows that have not expired: once the number of
  calls times the limit reaches the number of expired rows, all of these are gone, and every other row is
  kept, in its place.
\<close>

theorem delete_expired_drains:
  assumes "1 \<le> limit" "limit \<le> 1000" "dt_offset before \<noteq> None" "to_utc before = Inr t"
    and "length (filter (\<lambda>r. rjr_received_at r < t) rows) \<le> k * nat limit"
  shows "(rejection_step cap (Delete before limit) ^^ k) rows = filter (\<lambda>r. \<not> rjr_received_at r < t) rows"
proof -
  let ?p = "\<lambda>r. rjr_received_at r < t"
  let ?step = "rejection_step cap (Delete before limit)"
  have step: "?step rs = delete_first ?p (nat limit) rs" for rs
    using assms(1-4) by (auto simp: delete_expired_def Let_def)
  have "filter (\<lambda>r. \<not> ?p r) ((?step ^^ j) rows) = filter (\<lambda>r. \<not> ?p r) rows
      \<and> length (filter ?p ((?step ^^ j) rows)) = length (filter ?p rows) - j * nat limit" for j
    by (induction j) (simp_all add: step delete_first_rest delete_first_count del: rejection_step.simps)
  from this [of k] assms(5) have "filter (\<lambda>r. \<not> ?p r) ((?step ^^ k) rows) = filter (\<lambda>r. \<not> ?p r) rows"
    "filter ?p ((?step ^^ k) rows) = []" by simp_all
  then show ?thesis by (metis (no_types, lifting) filter_True filter_empty_conv)
qed

subsection \<open>Concrete operations\<close>

definition sample_rejection :: "nat \<Rightarrow> int \<Rightarrow> SecurityRejection" where
  "sample_rejection n t = \<lparr>rej_observability_ref = replicate 32 (of_nat n), rej_code = ''envelope_signature_error'',
     rej_source_channel = ''worker'', rej_received_at = aware t, rej_schema_version_hint = JInt 1,
     rej_kid_hint = JStr ''k1''\<rparr>"

lemma sample_days:
  "to_utc (aware 5) = Inr 5" "to_utc (aware 86399000000) = Inr 86399000000"
  "date_isoformat 86399000000 = date_isoformat 5"
  by (simp_all add: to_utc_def representable_def date_isoformat_def calendar_day_def)

lemma length_date: "length (date_isoformat w) = 10"
  by (simp add: date_isoformat_def Let_def case_prod_beta)

lemma sample_sampled: "deterministic_sample (rej_observability_ref (sample_rejection 7 t)) 100"
  by (simp add: deterministic_sample_def)

lemma sample_fields:
  "rej_received_at (sample_rejection n t) = aware t" "rej_observability_ref (sample_rejection n t) = replicate 32 (of_nat n)"
  "rej_code (sample_rejection n t) = ''envelope_signature_error''"
  by (simp_all add: sample_rejection_def)

lemma sample_check: "rejection_check (rejection_model (u7 1) (sample_rejection 7 5) 5 (date_isoformat 5))"
  by (simp add: rejection_check_def rejection_model_def sample_rejection_def length_date)

lemma sample_recorded:
  "record_rejection CAPACITY (sample_rejection 7 5) (u7 1) [] =
     Inr (PERSISTED, [rejection_model (u7 1) (sample_rejection 7 5) 5 (date_isoformat 5)])"
  "record_rejection CAPACITY (sample_rejection 7 86399000000) (u7 2)
     [rejection_model (u7 1) (sample_rejection 7 5) 5 (date_isoformat 5)] =
     Inr (DEDUPLICATED, [rejection_model (u7 1) (sample_rejection 7 5) 5 (date_isoformat 5)])"
  using sample_sampled [of 5] sample_sampled [of 86399000000] sample_check
  by (simp_all add: record_rejection_def sample_fields sample_days CAPACITY_def insert_or_keep_def)

lemma rejection_log_bounded_witness:
  "int (length (fold (rejection_step CAPACITY) [Record (sample_rejection 7 5) (u7 1), Delete (aware 9) 3] [])) \<le> 10000"
  using rejection_log_bounded [of CAPACITY _ "[Record (sample_rejection 7 5) (u7 1), Delete (aware 9) 3]", OF _ refl]
  by (simp del: rejection_step.simps fold_simps add: RejectionCapacity_post_init_def require_eval CAPACITY_def)

lemma rejection_recorded_once_witness:
  "\<exists>rows1 res. record_rejection CAPACITY (sample_rejection 7 5) (u7 1) [] = Inr (PERSISTED, rows1)
     \<and> record_rejection CAPACITY (sample_rejection 7 86399000000) (u7 2) rows1 = Inr (res, rows1) \<and> res \<noteq> PERSISTED"
proof -
  have "DEDUPLICATED \<noteq> PERSISTED \<and> [rejection_model (u7 1) (sample_rejection 7 5) 5 (date_isoformat 5)]
      = [rejection_model (u7 1) (sample_rejection 7 5) 5 (date_isoformat 5)]"
    by (rule rejection_recorded_once [OF sample_recorded(1) _ _ _ _ _ _ _ sample_recorded(2),
          where rs = "[]" and t = 5 and t' = 86399000000])
      (simp_all add: sample_rejection_def sample_days)
  with sample_recorded show ?thesis by blast
qed

lemma delete_expired_drains_witness:
  "(rejection_step CAPACITY (Delete (aware 86399000000) 1) ^^ 1)
     [rejection_model (u7 1) (sample_rejection 7 5) 5 (date_isoformat 5)] = []"
proof -
  have "(rejection_step CAPACITY (Delete (aware 86399000000) 1) ^^ 1)
     [rejection_model (u7 1) (sample_rejection 7 5) 5 (date_isoformat 5)]
     = filter (\<lambda>r. \<not> rjr_received_at r < 86399000000) [rejection_model (u7 1) (sample_rejection 7 5) 5 (date_isoformat 5)]"
    by (rule delete_expired_drains [OF _ _ _ sample_days(2)]) (simp_all add: aware_def)
  then show ?thesis by simp
qed

end
