(* ===== verification/Sessions.thy ===== *)
theory Sessions
  imports JobTables
begin

text \<open>
  \<open>domain/sessions.py\<close> and the values of \<open>application/sessions.py\<close>: audiences, revocation reasons, the claims
  of an access token, what the service reads of users, tenants and sessions, and the predicates that
  decide whether a refresh token or a session is still authoritative.
\<close>

subsection \<open>Claims\<close>

datatype Audience = Audience_ACCOUNT | Audience_TENANT | Audience_PLATFORM | Audience_STEP_UP

fun Audience_value :: "Audience \<Rightarrow> string" where
  "Audience_value Audience_ACCOUNT = ''lawyer-account''"
| "Audience_value Audience_TENANT = ''lawyer-tenant''"
| "Audience_value Audience_PLATFORM = ''lawyer-platform''"
| "Audience_value Audience_STEP_UP = ''lawyer-step-up''"

datatype RevocationReason = LOGOUT | USER_DISABLED | PASSWORD_CHANGED | MEMBERSHIP_REVOKED
  | AUTHORIZATION_CHANGED | ADMIN_REVOKED | REFRESH_INVALID | AUTHORITATIVE_STATE_CHANGED
  | REFRESH_REPLAY | TENANT_SWITCHED

fun RevocationReason_value :: "RevocationReason \<Rightarrow> string" where
  "RevocationReason_value LOGOUT = ''logout''"
| "RevocationReason_value USER_DISABLED = ''user_disabled''"
| "RevocationReason_value PASSWORD_CHANGED = ''password_changed''"
| "RevocationReason_value MEMBERSHIP_REVOKED = ''membership_revoked''"
| "RevocationReason_value AUTHORIZATION_CHANGED = ''authorization_changed''"
| "RevocationReason_value ADMIN_REVOKED = ''admin_revoked''"
| "RevocationReason_value REFRESH_INVALID = ''refresh_invalid''"
| "RevocationReason_value AUTHORITATIVE_STATE_CHANGED = ''authoritative_state_changed''"
| "RevocationReason_value REFRESH_REPLAY = ''refresh_replay''"
| "RevocationReason_value TENANT_SWITCHED = ''tenant_switched''"

definition STEP_UP_GRANT_PATTERN :: "string \<Rightarrow> bool" where
  "STEP_UP_GRANT_PATTERN s \<longleftrightarrow> matches_class url_b64_char 43 43 s"

definition StepUpGrant_post_init :: "string \<Rightarrow> unit result" where
  "StepUpGrant_post_init grant =
     require [(STEP_UP_GRANT_PATTERN grant, ValueError ''step-up grant has an invalid format'')]"

record AccessTokenClaims =
  clm_user_id :: uuid
  clm_session_id :: uuid
  clm_token_id :: uuid
  clm_audience :: Audience
  clm_issued_at :: datetime
  clm_not_before :: datetime
  clm_expires_at :: datetime
  clm_auth_version :: int
  clm_tenant_id :: "uuid option"
  clm_membership_id :: "uuid option"
  clm_authz_version :: "int option"

definition maximum_lifetime :: "Audience \<Rightarrow> int" where
  "maximum_lifetime a = (if a = Audience_PLATFORM then seconds 300 else seconds 600)"

definition AccessTokenClaims_post_init :: "AccessTokenClaims \<Rightarrow> unit result" where
  "AccessTokenClaims_post_init c =
     bindE (require
       [(is_uuid7 (clm_user_id c) \<and> is_uuid7 (clm_session_id c) \<and> is_uuid7 (clm_token_id c),
          ValueError ''token identifiers must be RFC 9562 UUIDv7 values''),
        (clm_audience c \<noteq> Audience_STEP_UP, ValueError ''step-up audience is reserved for a single-use grant''),
        (is_utc (clm_issued_at c) \<and> is_utc (clm_not_before c) \<and> is_utc (clm_expires_at c),
          ValueError ''token timestamps must be UTC-aware''),
        (instant (clm_issued_at c) \<le> instant (clm_not_before c) \<and> instant (clm_not_before c) < instant (clm_expires_at c),
          ValueError ''token time window is invalid''),
        (instant (clm_expires_at c) - instant (clm_issued_at c) \<le> maximum_lifetime (clm_audience c),
          ValueError ''token lifetime exceeds the audience policy''),
        (1 \<le> clm_auth_version c, ValueError ''auth_version must be a positive integer'')]) (\<lambda>_.
     if clm_audience c = Audience_TENANT then require
       [(clm_tenant_id c \<noteq> None \<and> clm_membership_id c \<noteq> None \<and> clm_authz_version c \<noteq> None,
          ValueError ''tenant token requires complete tenant context''),
        (pred_option is_uuid7 (clm_tenant_id c) \<and> pred_option is_uuid7 (clm_membership_id c),
          ValueError ''tenant context identifiers must be RFC 9562 UUIDv7 values''),
        (pred_option (\<lambda>v. 1 \<le> v) (clm_authz_version c),
          ValueError ''tenant authz_version must be a positive integer'')]
     else require
       [(clm_tenant_id c = None \<and> clm_membership_id c = None \<and> clm_authz_version c = None,
          ValueError ''non-tenant token cannot contain tenant context'')])"

subsection \<open>What the service reads\<close>

definition ACCESS_TTL :: int where "ACCESS_TTL = seconds 600"
definition REMEMBER_DEVICE_SECONDS :: int where "REMEMBER_DEVICE_SECONDS = 365 * 24 * 60 * 60"
definition REFRESH_ABSOLUTE_TTL :: int where "REFRESH_ABSOLUTE_TTL = seconds REMEMBER_DEVICE_SECONDS"
definition REFRESH_IDLE_TTL :: int where "REFRESH_IDLE_TTL = REFRESH_ABSOLUTE_TTL"

definition REFRESH_TOKEN_PATTERN :: "string \<Rightarrow> bool" where
  "REFRESH_TOKEN_PATTERN s \<longleftrightarrow> matches_class url_b64_char 43 43 s"

record UserSessionState =
  uss_user_id :: uuid
  uss_status :: string
  uss_auth_version :: int

record TenantSessionState =
  tss_tenant_id :: uuid
  tss_tenant_status :: TenantStatus
  tss_membership_id :: uuid
  tss_membership_user_id :: uuid
  tss_membership_status :: MembershipStatus
  tss_valid_from :: datetime
  tss_valid_until :: "datetime option"
  tss_authz_version :: int

record SessionValidationState =
  svs_session_id :: uuid
  svs_user_id :: uuid
  svs_session_tenant_id :: "uuid option"
  svs_session_membership_id :: "uuid option"
  svs_current_family_id :: uuid
  svs_auth_version_at_issue :: int
  svs_authz_version_at_issue :: "int option"
  svs_revoked_at :: "datetime option"
  svs_expires_at :: datetime
  svs_user_status :: string
  svs_user_auth_version :: int
  svs_tenant_status :: "TenantStatus option"
  svs_membership_user_id :: "uuid option"
  svs_membership_status :: "MembershipStatus option"
  svs_membership_valid_from :: "datetime option"
  svs_membership_valid_until :: "datetime option"
  svs_membership_authz_version :: "int option"

record LockedRefreshToken =
  lrt_id :: uuid
  lrt_token_hash :: bytes
  lrt_family_id :: uuid
  lrt_session_id :: uuid
  lrt_user_id :: uuid
  lrt_tenant_id :: "uuid option"
  lrt_membership_id :: "uuid option"
  lrt_expires_at :: datetime
  lrt_idle_expires_at :: datetime
  lrt_used_at :: "datetime option"
  lrt_revoked_at :: "datetime option"

record RefreshLockLocator =
  rll_token_id :: uuid
  rll_family_id :: uuid
  rll_session_id :: uuid
  rll_tenant_id :: "uuid option"

definition RefreshLockLocator_post_init :: "RefreshLockLocator \<Rightarrow> unit result" where
  "RefreshLockLocator_post_init l = require
     [uuid_check (rll_token_id l) ''refresh locator token_id'',
      uuid_check (rll_family_id l) ''refresh locator family_id'',
      uuid_check (rll_session_id l) ''refresh locator session_id'',
      optional_check uuid_check (rll_tenant_id l) ''refresh locator tenant_id'']"

record SessionLockLocator =
  sll_session_id :: uuid
  sll_family_id :: uuid
  sll_user_id :: uuid
  sll_tenant_id :: "uuid option"

definition SessionLockLocator_post_init :: "SessionLockLocator \<Rightarrow> unit result" where
  "SessionLockLocator_post_init l = require
     [uuid_check (sll_session_id l) ''session locator session_id'',
      uuid_check (sll_family_id l) ''session locator family_id'',
      uuid_check (sll_user_id l) ''session locator user_id'',
      optional_check uuid_check (sll_tenant_id l) ''session locator tenant_id'']"

record NewSession =
  nse_id :: uuid
  nse_user_id :: uuid
  nse_tenant_id :: "uuid option"
  nse_membership_id :: "uuid option"
  nse_family_id :: uuid
  nse_auth_version :: int
  nse_authz_version :: "int option"
  nse_now :: datetime
  nse_expires_at :: datetime

record NewRefreshToken =
  nrt_id :: uuid
  nrt_token_hash :: bytes
  nrt_family_id :: uuid
  nrt_session_id :: uuid
  nrt_user_id :: uuid
  nrt_tenant_id :: "uuid option"
  nrt_membership_id :: "uuid option"
  nrt_issued_at :: datetime
  nrt_expires_at :: datetime
  nrt_idle_expires_at :: datetime

record AuditContext =
  actx_trace_id :: string
  actx_client_ip_hash :: "bytes option"
  actx_user_agent_hash :: "bytes option"

definition trace_char :: "char \<Rightarrow> bool" where
  "trace_char c \<longleftrightarrow> is_alnum c \<or> c \<in> set ''._:-''"

definition AuditContext_post_init :: "AuditContext \<Rightarrow> unit result" where
  "AuditContext_post_init c = require
     [(matches_class trace_char 1 64 (actx_trace_id c),
        ValueError ''trace_id must contain 1 to 64 safe ASCII letters, digits, '.', '_', ':', or '-' ''),
      (pred_option (\<lambda>h. length h = 32) (actx_client_ip_hash c)
          \<and> pred_option (\<lambda>h. length h = 32) (actx_user_agent_hash c),
        ValueError ''client context hashes must be 32-byte values'')]"

record SessionAuditEvent =
  sae_id :: uuid
  sae_actor_user_id :: "uuid option"
  sae_tenant_id :: "uuid option"
  sae_actor_membership_id :: "uuid option"
  sae_action :: string
  sae_result :: string
  sae_reason_code :: string
  sae_target_type :: "string option"
  sae_target_id :: "uuid option"
  sae_trace_id :: string
  sae_client_ip_hash :: "bytes option"
  sae_user_agent_hash :: "bytes option"
  sae_occurred_at :: datetime

record SessionResult =
  sres_session_id :: uuid
  sres_family_id :: uuid
  sres_access_token :: string
  sres_refresh_token :: string

record ValidatedSession =
  vs_user_id :: uuid
  vs_session_id :: uuid
  vs_tenant_id :: "uuid option"
  vs_membership_id :: "uuid option"

record SwitchTenantCommand =
  stc_session_id :: uuid
  stc_tenant_id :: uuid
  stc_membership_id :: uuid

subsection \<open>Predicates\<close>

definition refresh_is_current :: "LockedRefreshToken \<Rightarrow> datetime \<Rightarrow> bool" where
  "refresh_is_current token now \<longleftrightarrow> lrt_revoked_at token = None \<and> lrt_used_at token = None
     \<and> instant now < instant (lrt_expires_at token) \<and> instant now < instant (lrt_idle_expires_at token)"

definition refresh_matches_state :: "LockedRefreshToken \<Rightarrow> SessionValidationState \<Rightarrow> bool" where
  "refresh_matches_state token state \<longleftrightarrow> lrt_session_id token = svs_session_id state
     \<and> lrt_user_id token = svs_user_id state \<and> lrt_family_id token = svs_current_family_id state
     \<and> lrt_tenant_id token = svs_session_tenant_id state \<and> lrt_membership_id token = svs_session_membership_id state"

definition refresh_matches_locator :: "LockedRefreshToken \<Rightarrow> RefreshLockLocator \<Rightarrow> bool" where
  "refresh_matches_locator token locator \<longleftrightarrow> lrt_id token = rll_token_id locator
     \<and> lrt_family_id token = rll_family_id locator \<and> lrt_session_id token = rll_session_id locator
     \<and> lrt_tenant_id token = rll_tenant_id locator"

definition session_matches_locator :: "SessionValidationState \<Rightarrow> SessionLockLocator \<Rightarrow> bool" where
  "session_matches_locator state locator \<longleftrightarrow> svs_session_id state = sll_session_id locator
     \<and> svs_current_family_id state = sll_family_id locator \<and> svs_user_id state = sll_user_id locator
     \<and> svs_session_tenant_id state = sll_tenant_id locator"

definition ordered_tenant_ids :: "uuid option list \<Rightarrow> uuid list" where
  "ordered_tenant_ids values = sort_key uuid_str (remdups (concat (map (\<lambda>v. case v of None \<Rightarrow> [] | Some u \<Rightarrow> [u]) values)))"

definition tenant_is_active :: "TenantSessionState \<Rightarrow> datetime \<Rightarrow> bool" where
  "tenant_is_active tenant now \<longleftrightarrow> tss_tenant_status tenant = TenantStatus_ACTIVE
     \<and> tss_membership_status tenant = MembershipStatus_ACTIVE
     \<and> instant (tss_valid_from tenant) \<le> instant now
     \<and> (case tss_valid_until tenant of None \<Rightarrow> True | Some u \<Rightarrow> instant now < instant u)
     \<and> 1 \<le> tss_authz_version tenant"

definition state_is_authoritative :: "SessionValidationState \<Rightarrow> AccessTokenClaims option \<Rightarrow> datetime \<Rightarrow> bool" where
  "state_is_authoritative state claims now \<longleftrightarrow>
     (if svs_revoked_at state \<noteq> None \<or> instant (svs_expires_at state) \<le> instant now
         \<or> svs_user_status state \<noteq> ''active''
         \<or> svs_auth_version_at_issue state \<noteq> svs_user_auth_version state
      then False
      else if (case claims of None \<Rightarrow> False
               | Some c \<Rightarrow> clm_user_id c \<noteq> svs_user_id state \<or> clm_session_id c \<noteq> svs_session_id state
                   \<or> clm_auth_version c \<noteq> svs_user_auth_version state)
      then False
      else if svs_session_tenant_id state = None
      then svs_session_membership_id state = None \<and> svs_authz_version_at_issue state = None
        \<and> (case claims of None \<Rightarrow> True | Some c \<Rightarrow> clm_audience c \<in> {Audience_ACCOUNT, Audience_PLATFORM})
      else if svs_session_membership_id state = None \<or> svs_authz_version_at_issue state = None
         \<or> svs_tenant_status state \<noteq> Some TenantStatus_ACTIVE
         \<or> svs_membership_user_id state \<noteq> Some (svs_user_id state)
         \<or> svs_membership_status state \<noteq> Some MembershipStatus_ACTIVE
         \<or> (case svs_membership_valid_from state of None \<Rightarrow> True | Some f \<Rightarrow> instant now < instant f)
         \<or> (case svs_membership_valid_until state of None \<Rightarrow> False | Some u \<Rightarrow> instant u \<le> instant now)
         \<or> svs_membership_authz_version state \<noteq> svs_authz_version_at_issue state
      then False
      else (case claims of None \<Rightarrow> True
            | Some c \<Rightarrow> clm_audience c = Audience_TENANT \<and> clm_tenant_id c = svs_session_tenant_id state
                \<and> clm_membership_id c = svs_session_membership_id state
                \<and> clm_authz_version c = svs_membership_authz_version state))"

definition audit_event :: "uuid \<Rightarrow> AuditContext \<Rightarrow> uuid option \<Rightarrow> uuid option \<Rightarrow> uuid option \<Rightarrow> string \<Rightarrow> string
    \<Rightarrow> string \<Rightarrow> uuid option \<Rightarrow> datetime \<Rightarrow> SessionAuditEvent" where
  "audit_event fresh context actor tenant membership action res reason target now =
     \<lparr>sae_id = fresh, sae_actor_user_id = actor, sae_tenant_id = tenant,
      sae_actor_membership_id = membership, sae_action = action, sae_result = res, sae_reason_code = reason,
      sae_target_type = (case target of None \<Rightarrow> None | Some _ \<Rightarrow> Some ''auth_session''),
      sae_target_id = target, sae_trace_id = actx_trace_id context,
      sae_client_ip_hash = actx_client_ip_hash context, sae_user_agent_hash = actx_user_agent_hash context,
      sae_occurred_at = now\<rparr>"

end
