(* ===== verification/SessionStore.thy ===== *)
theory SessionStore
  imports Sessions
begin

text \<open>
  The tables \<open>auth_sessions\<close>, \<open>refresh_token_records\<close> and, of \<open>audit_events\<close>, the columns a session event
  sets (\<open>models/sessions.py\<close>, \<open>models/audit.py\<close>), and the repository over them
  (\<open>repositories/sessions.py\<close>, \<open>repositories/security_locks.py\<close>, and the revocation for a membership of
  \<open>repositories/tenant_workflows.py\<close>).  A transaction is atomic, so that \<open>FOR UPDATE\<close> only reads; the
  columns \<open>created_at\<close> and \<open>updated_at\<close>, which nothing reads, are left out.  Rows added to the session of
  SQLAlchemy reach the tables at \<open>flush\<close>, in the order of their foreign keys.
\<close>

subsection \<open>Rows\<close>

record session_row =
  ses_id :: uuid
  ses_user_id :: uuid
  ses_tenant_id :: "uuid option"
  ses_membership_id :: "uuid option"
  ses_current_family_id :: uuid
  ses_auth_version_at_issue :: int
  ses_authz_version_at_issue :: "int option"
  ses_revoked_at :: "int option"
  ses_revocation_reason :: "string option"
  ses_last_seen_at :: int
  ses_expires_at :: int
  ses_version :: int

definition session_check :: "session_row \<Rightarrow> bool" where
  "session_check s \<longleftrightarrow> (ses_tenant_id s = None \<and> ses_membership_id s = None \<and> ses_authz_version_at_issue s = None)
     \<or> (ses_tenant_id s \<noteq> None \<and> ses_membership_id s \<noteq> None \<and> ses_authz_version_at_issue s \<noteq> None)"

record refresh_row =
  rfr_id :: uuid
  rfr_token_hash :: bytes
  rfr_family_id :: uuid
  rfr_session_id :: uuid
  rfr_user_id :: uuid
  rfr_tenant_id :: "uuid option"
  rfr_membership_id :: "uuid option"
  rfr_issued_at :: int
  rfr_expires_at :: int
  rfr_idle_expires_at :: int
  rfr_used_at :: "int option"
  rfr_revoked_at :: "int option"
  rfr_replaced_by_id :: "uuid option"
  rfr_revocation_reason :: "string option"
  rfr_version :: int

definition refresh_check :: "refresh_row \<Rightarrow> bool" where
  "refresh_check r \<longleftrightarrow> (rfr_tenant_id r = None) = (rfr_membership_id r = None) \<and> length (rfr_token_hash r) \<le> 32"

definition refresh_conflict :: "refresh_row \<Rightarrow> refresh_row \<Rightarrow> bool" where
  "refresh_conflict r q \<longleftrightarrow> rfr_id r = rfr_id q \<or> rfr_token_hash r = rfr_token_hash q"

record audit_row =
  aud_event :: SessionAuditEvent
  aud_actor_kind :: string

definition audit_check :: "audit_row \<Rightarrow> bool" where
  "audit_check a \<longleftrightarrow>
     (let e = aud_event a in
      sae_result e \<in> {''success'', ''failure'', ''denied''}
      \<and> (sae_actor_membership_id e = None \<or> (sae_tenant_id e \<noteq> None \<and> sae_actor_user_id e \<noteq> None))
      \<and> ((aud_actor_kind a = ''tenant_user'' \<and> sae_tenant_id e \<noteq> None \<and> sae_actor_user_id e \<noteq> None
            \<and> sae_actor_membership_id e \<noteq> None)
         \<or> (aud_actor_kind a = ''global_user'' \<and> sae_tenant_id e = None \<and> sae_actor_user_id e \<noteq> None
            \<and> sae_actor_membership_id e = None)
         \<or> (aud_actor_kind a = ''anonymous'' \<and> sae_tenant_id e = None \<and> sae_actor_user_id e = None
            \<and> sae_actor_membership_id e = None))
      \<and> length (sae_action e) \<le> 128 \<and> length (sae_reason_code e) \<le> 64
      \<and> pred_option (\<lambda>t. length t \<le> 64) (sae_target_type e) \<and> length (sae_trace_id e) \<le> 64
      \<and> pred_option (\<lambda>h. length h \<le> 32) (sae_client_ip_hash e)
      \<and> pred_option (\<lambda>h. length h \<le> 32) (sae_user_agent_hash e))"

record session_db =
  sd_sessions :: "session_row list"
  sd_refresh :: "refresh_row list"
  sd_users :: "user_row list"
  sd_tenants :: "tenant_row list"
  sd_memberships :: "membership_row list"
  sd_audit :: "audit_row list"

subsection \<open>Foreign keys; a key with a \<open>NULL\<close> component refers to nothing\<close>

definition member_reference :: "session_db \<Rightarrow> uuid option \<Rightarrow> uuid option \<Rightarrow> uuid option \<Rightarrow> bool" where
  "member_reference db tenant user membership \<longleftrightarrow>
     (tenant \<noteq> None \<and> membership \<noteq> None \<longrightarrow> list_ex (\<lambda>m. Some (mbr_tenant_id m) = tenant \<and> Some (mbr_id m) = membership
        \<and> (user = None \<or> Some (mbr_user_id m) = user)) (sd_memberships db))"

definition owner_references :: "session_db \<Rightarrow> uuid option \<Rightarrow> uuid option \<Rightarrow> uuid option \<Rightarrow> bool" where
  "owner_references db user tenant membership \<longleftrightarrow>
     pred_option (\<lambda>u. u \<in> usr_id ` set (sd_users db)) user
     \<and> pred_option (\<lambda>t. t \<in> ten_id ` set (sd_tenants db)) tenant
     \<and> member_reference db tenant user membership"

definition session_reference :: "session_db \<Rightarrow> refresh_row \<Rightarrow> bool" where
  "session_reference db r \<longleftrightarrow>
     list_ex (\<lambda>s. ses_id s = rfr_session_id r \<and> ses_user_id s = rfr_user_id r) (sd_sessions db)
     \<and> (rfr_tenant_id r \<noteq> None \<longrightarrow>
         list_ex (\<lambda>s. ses_id s = rfr_session_id r \<and> ses_tenant_id s = rfr_tenant_id r) (sd_sessions db))"

definition replacement_reference :: "session_db \<Rightarrow> refresh_row \<Rightarrow> bool" where
  "replacement_reference db r \<longleftrightarrow>
     (rfr_replaced_by_id r \<noteq> None \<longrightarrow>
        list_ex (\<lambda>q. Some (rfr_id q) = rfr_replaced_by_id r \<and> rfr_session_id q = rfr_session_id r) (sd_refresh db)
        \<and> (rfr_tenant_id r \<noteq> None \<longrightarrow>
             list_ex (\<lambda>q. Some (rfr_id q) = rfr_replaced_by_id r \<and> rfr_tenant_id q = rfr_tenant_id r) (sd_refresh db)))"

subsection \<open>Inserts\<close>

definition foreign :: "bool \<Rightarrow> 'a result \<Rightarrow> 'a result" where
  "foreign ok m = (if ok then m else Inl (DatabaseError ''foreign key violated''))"

definition insert_session :: "session_row \<Rightarrow> session_db \<Rightarrow> session_db result" where
  "insert_session s db =
     foreign (owner_references db (Some (ses_user_id s)) (ses_tenant_id s) (ses_membership_id s))
       (bindE (sql_insert session_check (\<lambda>a b. ses_id a = ses_id b) s (sd_sessions db)) (\<lambda>rows.
         Inr (db\<lparr>sd_sessions := rows\<rparr>)))"

definition insert_refresh :: "refresh_row \<Rightarrow> session_db \<Rightarrow> session_db result" where
  "insert_refresh r db =
     foreign (owner_references db (Some (rfr_user_id r)) (rfr_tenant_id r) (rfr_membership_id r)
          \<and> session_reference db r \<and> replacement_reference db r)
       (bindE (sql_insert refresh_check refresh_conflict r (sd_refresh db)) (\<lambda>rows.
         Inr (db\<lparr>sd_refresh := rows\<rparr>)))"

definition insert_audit :: "audit_row \<Rightarrow> session_db \<Rightarrow> session_db result" where
  "insert_audit a db =
     foreign (owner_references db (sae_actor_user_id (aud_event a)) (sae_tenant_id (aud_event a))
          (sae_actor_membership_id (aud_event a)))
       (bindE (sql_insert audit_check (\<lambda>x y. sae_id (aud_event x) = sae_id (aud_event y)) a (sd_audit db)) (\<lambda>rows.
         Inr (db\<lparr>sd_audit := rows\<rparr>)))"

subsection \<open>Reads\<close>

definition repo_get_user :: "uuid \<Rightarrow> session_db \<Rightarrow> UserSessionState option" where
  "repo_get_user user db =
     map_option (\<lambda>u. \<lparr>uss_user_id = usr_id u, uss_status = usr_status u, uss_auth_version = usr_auth_version u\<rparr>)
       (row_of usr_id user (sd_users db))"

definition locate_refresh :: "bytes \<Rightarrow> session_db \<Rightarrow> RefreshLockLocator option result" where
  "locate_refresh token_hash db =
     (case row_of rfr_token_hash token_hash (sd_refresh db) of
        None \<Rightarrow> Inr None
      | Some r \<Rightarrow>
          (let l = \<lparr>rll_token_id = rfr_id r, rll_family_id = rfr_family_id r, rll_session_id = rfr_session_id r,
                    rll_tenant_id = rfr_tenant_id r\<rparr>
           in bindE (RefreshLockLocator_post_init l) (\<lambda>_. Inr (Some l))))"

definition locate_session :: "uuid \<Rightarrow> session_db \<Rightarrow> SessionLockLocator option result" where
  "locate_session sid db =
     (case row_of ses_id sid (sd_sessions db) of
        None \<Rightarrow> Inr None
      | Some s \<Rightarrow>
          (let l = \<lparr>sll_session_id = ses_id s, sll_family_id = ses_current_family_id s, sll_user_id = ses_user_id s,
                    sll_tenant_id = ses_tenant_id s\<rparr>
           in bindE (SessionLockLocator_post_init l) (\<lambda>_. Inr (Some l))))"

definition tenant_session_state :: "tenant_row \<Rightarrow> membership_row \<Rightarrow> TenantSessionState" where
  "tenant_session_state t m =
     \<lparr>tss_tenant_id = ten_id t, tss_tenant_status = ten_status t, tss_membership_id = mbr_id m,
      tss_membership_user_id = mbr_user_id m, tss_membership_status = mbr_status m,
      tss_valid_from = aware (mbr_valid_from m), tss_valid_until = aware_optional (mbr_valid_until m),
      tss_authz_version = mbr_authz_version m\<rparr>"

definition find_member :: "uuid \<Rightarrow> uuid \<Rightarrow> uuid \<Rightarrow> session_db \<Rightarrow> membership_row option" where
  "find_member user tenant membership db =
     sql_scalar (\<lambda>m. mbr_tenant_id m = tenant \<and> mbr_id m = membership \<and> mbr_user_id m = user)
       (sd_memberships db)"

definition get_tenant_context :: "uuid \<Rightarrow> uuid \<Rightarrow> uuid \<Rightarrow> session_db \<Rightarrow> TenantSessionState option" where
  "get_tenant_context user tenant membership db =
     (case (row_of ten_id tenant (sd_tenants db), find_member user tenant membership db) of
        (Some t, Some m) \<Rightarrow> Some (tenant_session_state t m)
      | _ \<Rightarrow> None)"

definition lock_tenant_context :: "uuid \<Rightarrow> uuid \<Rightarrow> uuid \<Rightarrow> session_db \<Rightarrow> TenantSessionState option" where
  "lock_tenant_context user tenant membership db =
     (if row_of usr_id user (sd_users db) = None then None
      else case (row_of ten_id tenant (sd_tenants db), find_member user tenant membership db) of
        (Some t, Some m) \<Rightarrow> Some (tenant_session_state t m)
      | _ \<Rightarrow> None)"

definition validation_state ::
    "session_row \<Rightarrow> user_row \<Rightarrow> tenant_row option \<Rightarrow> membership_row option \<Rightarrow> SessionValidationState" where
  "validation_state s u t m =
     \<lparr>svs_session_id = ses_id s, svs_user_id = ses_user_id s, svs_session_tenant_id = ses_tenant_id s,
      svs_session_membership_id = ses_membership_id s, svs_current_family_id = ses_current_family_id s,
      svs_auth_version_at_issue = ses_auth_version_at_issue s,
      svs_authz_version_at_issue = ses_authz_version_at_issue s,
      svs_revoked_at = aware_optional (ses_revoked_at s), svs_expires_at = aware (ses_expires_at s),
      svs_user_status = usr_status u, svs_user_auth_version = usr_auth_version u,
      svs_tenant_status = map_option ten_status t, svs_membership_user_id = map_option mbr_user_id m,
      svs_membership_status = map_option mbr_status m,
      svs_membership_valid_from = map_option (\<lambda>r. aware (mbr_valid_from r)) m,
      svs_membership_valid_until = Option.bind m (\<lambda>r. aware_optional (mbr_valid_until r)),
      svs_membership_authz_version = map_option mbr_authz_version m\<rparr>"

definition session_tenant :: "session_row \<Rightarrow> session_db \<Rightarrow> tenant_row option" where
  "session_tenant s db = sql_scalar (\<lambda>t. Some (ten_id t) = ses_tenant_id s) (sd_tenants db)"

definition session_member :: "session_row \<Rightarrow> session_db \<Rightarrow> membership_row option" where
  "session_member s db =
     sql_scalar (\<lambda>m. Some (mbr_tenant_id m) = ses_tenant_id s \<and> Some (mbr_id m) = ses_membership_id s)
       (sd_memberships db)"

definition get_validation_state :: "uuid \<Rightarrow> session_db \<Rightarrow> SessionValidationState option" where
  "get_validation_state sid db =
     (case row_of ses_id sid (sd_sessions db) of
        None \<Rightarrow> None
      | Some s \<Rightarrow> map_option (\<lambda>u. validation_state s u (session_tenant s db) (session_member s db))
          (row_of usr_id (ses_user_id s) (sd_users db)))"

definition lock_session :: "uuid \<Rightarrow> session_db \<Rightarrow> SessionValidationState option" where
  "lock_session sid db =
     (case row_of ses_id sid (sd_sessions db) of
        None \<Rightarrow> None
      | Some s \<Rightarrow> get_validation_state (ses_id s) db)"

definition locked_refresh :: "refresh_row \<Rightarrow> LockedRefreshToken" where
  "locked_refresh r =
     \<lparr>lrt_id = rfr_id r, lrt_token_hash = rfr_token_hash r, lrt_family_id = rfr_family_id r,
      lrt_session_id = rfr_session_id r, lrt_user_id = rfr_user_id r, lrt_tenant_id = rfr_tenant_id r,
      lrt_membership_id = rfr_membership_id r, lrt_expires_at = aware (rfr_expires_at r),
      lrt_idle_expires_at = aware (rfr_idle_expires_at r), lrt_used_at = aware_optional (rfr_used_at r),
      lrt_revoked_at = aware_optional (rfr_revoked_at r)\<rparr>"

definition lock_refresh :: "bytes \<Rightarrow> session_db \<Rightarrow> LockedRefreshToken option" where
  "lock_refresh token_hash db = map_option locked_refresh (row_of rfr_token_hash token_hash (sd_refresh db))"

subsection \<open>Writes\<close>

definition session_model :: "NewSession \<Rightarrow> session_row result" where
  "session_model n =
     bindE (naive (nse_now n)) (\<lambda>seen.
     bindE (naive (nse_expires_at n)) (\<lambda>expires.
       Inr \<lparr>ses_id = nse_id n, ses_user_id = nse_user_id n, ses_tenant_id = nse_tenant_id n,
            ses_membership_id = nse_membership_id n, ses_current_family_id = nse_family_id n,
            ses_auth_version_at_issue = nse_auth_version n, ses_authz_version_at_issue = nse_authz_version n,
            ses_revoked_at = None, ses_revocation_reason = None, ses_last_seen_at = seen,
            ses_expires_at = expires, ses_version = 1\<rparr>))"

definition refresh_model :: "NewRefreshToken \<Rightarrow> refresh_row result" where
  "refresh_model n =
     bindE (naive (nrt_issued_at n)) (\<lambda>issued.
     bindE (naive (nrt_expires_at n)) (\<lambda>expires.
     bindE (naive (nrt_idle_expires_at n)) (\<lambda>idle.
       Inr \<lparr>rfr_id = nrt_id n, rfr_token_hash = nrt_token_hash n, rfr_family_id = nrt_family_id n,
            rfr_session_id = nrt_session_id n, rfr_user_id = nrt_user_id n, rfr_tenant_id = nrt_tenant_id n,
            rfr_membership_id = nrt_membership_id n, rfr_issued_at = issued, rfr_expires_at = expires,
            rfr_idle_expires_at = idle, rfr_used_at = None, rfr_revoked_at = None, rfr_replaced_by_id = None,
            rfr_revocation_reason = None, rfr_version = 1\<rparr>)))"

definition add_session :: "NewSession \<Rightarrow> session_db \<Rightarrow> session_db result" where
  "add_session n db = bindE (session_model n) (\<lambda>s. insert_session s db)"

definition add_refresh :: "NewRefreshToken \<Rightarrow> session_db \<Rightarrow> session_db result" where
  "add_refresh n db = bindE (refresh_model n) (\<lambda>r. insert_refresh r db)"

definition mark_refresh_used :: "uuid \<Rightarrow> datetime \<Rightarrow> session_db \<Rightarrow> session_db result" where
  "mark_refresh_used token_id now db =
     (if row_of rfr_id token_id (sd_refresh db) = None then Inl (RuntimeError ''locked refresh token disappeared'')
      else bindE (naive now) (\<lambda>t. Inr (db\<lparr>sd_refresh := map (\<lambda>r. if rfr_id r = token_id
             then r\<lparr>rfr_used_at := Some t, rfr_version := rfr_version r + 1\<rparr> else r) (sd_refresh db)\<rparr>)))"

definition link_refresh_replacement :: "uuid \<Rightarrow> uuid \<Rightarrow> datetime \<Rightarrow> session_db \<Rightarrow> session_db result" where
  "link_refresh_replacement token_id replacement_id now db =
     (case row_of rfr_id token_id (sd_refresh db) of
        None \<Rightarrow> Inl (RuntimeError ''used refresh token disappeared'')
      | Some r \<Rightarrow> bindE (naive now) (\<lambda>_.
          foreign (replacement_reference db (r\<lparr>rfr_replaced_by_id := Some replacement_id\<rparr>))
            (Inr (db\<lparr>sd_refresh := map (\<lambda>q. if rfr_id q = token_id then q\<lparr>rfr_replaced_by_id := Some replacement_id\<rparr>
                else q) (sd_refresh db)\<rparr>))))"

definition touch_session :: "uuid \<Rightarrow> datetime \<Rightarrow> datetime \<Rightarrow> session_db \<Rightarrow> session_db result" where
  "touch_session sid now expires_at db =
     (if row_of ses_id sid (sd_sessions db) = None
      then Inl (RuntimeError ''auth session disappeared during refresh'')
      else bindE (naive now) (\<lambda>seen. bindE (naive expires_at) (\<lambda>expires.
        Inr (db\<lparr>sd_sessions := map (\<lambda>s. if ses_id s = sid
               then s\<lparr>ses_last_seen_at := seen, ses_expires_at := expires, ses_version := ses_version s + 1\<rparr> else s)
             (sd_sessions db)\<rparr>))))"

definition revoke_token :: "string \<Rightarrow> int \<Rightarrow> refresh_row \<Rightarrow> refresh_row" where
  "revoke_token reason t r =
     r\<lparr>rfr_revoked_at := Some t, rfr_revocation_reason := Some reason, rfr_version := rfr_version r + 1\<rparr>"

definition revoke_login :: "string \<Rightarrow> int \<Rightarrow> session_row \<Rightarrow> session_row" where
  "revoke_login reason t s =
     s\<lparr>ses_revoked_at := Some t, ses_revocation_reason := Some reason, ses_version := ses_version s + 1\<rparr>"

definition revoke_tokens :: "(refresh_row \<Rightarrow> bool) \<Rightarrow> string \<Rightarrow> datetime \<Rightarrow> session_db \<Rightarrow> session_db result" where
  "revoke_tokens p reason now db =
     bindE (naive now) (\<lambda>t. Inr (db\<lparr>sd_refresh := map (\<lambda>r. if p r \<and> rfr_revoked_at r = None
         then revoke_token reason t r else r) (sd_refresh db)\<rparr>))"

definition revoke_logins :: "(session_row \<Rightarrow> bool) \<Rightarrow> string \<Rightarrow> datetime \<Rightarrow> session_db \<Rightarrow> session_db result" where
  "revoke_logins p reason now db =
     bindE (naive now) (\<lambda>t. Inr (db\<lparr>sd_sessions := map (\<lambda>s. if p s \<and> ses_revoked_at s = None
         then revoke_login reason t s else s) (sd_sessions db)\<rparr>))"

definition revoke_family :: "uuid \<Rightarrow> RevocationReason \<Rightarrow> datetime \<Rightarrow> session_db \<Rightarrow> session_db result" where
  "revoke_family family_id reason now db =
     revoke_tokens (\<lambda>r. rfr_family_id r = family_id) (RevocationReason_value reason) now db"

definition revoke_session :: "uuid \<Rightarrow> RevocationReason \<Rightarrow> datetime \<Rightarrow> session_db \<Rightarrow> session_db result" where
  "revoke_session sid reason now db =
     revoke_logins (\<lambda>s. ses_id s = sid) (RevocationReason_value reason) now db"

definition revoke_for_membership :: "uuid \<Rightarrow> uuid \<Rightarrow> string \<Rightarrow> datetime \<Rightarrow> session_db \<Rightarrow> session_db result" where
  "revoke_for_membership tenant membership reason now db =
     bindE (require
       [uuid_check tenant ''tenant_id'', uuid_check membership ''membership_id'',
        (reason \<in> {''authorization_changed'', ''membership_revoked''},
          ValueError ''unsupported tenant session revocation reason'')]) (\<lambda>_.
     bindE (revoke_tokens (\<lambda>r. rfr_tenant_id r = Some tenant \<and> rfr_membership_id r = Some membership)
              reason now db) (\<lambda>db1.
       revoke_logins (\<lambda>s. ses_tenant_id s = Some tenant \<and> ses_membership_id s = Some membership)
         reason now db1))"

definition actor_kind :: "SessionAuditEvent \<Rightarrow> string" where
  "actor_kind e =
     (if sae_tenant_id e \<noteq> None \<and> sae_actor_user_id e \<noteq> None \<and> sae_actor_membership_id e \<noteq> None
      then ''tenant_user''
      else if sae_actor_user_id e \<noteq> None then ''global_user'' else ''anonymous'')"

definition append_event :: "SessionAuditEvent \<Rightarrow> session_db \<Rightarrow> session_db result" where
  "append_event e db =
     bindE (naive (sae_occurred_at e)) (\<lambda>_. insert_audit \<lparr>aud_event = e, aud_actor_kind = actor_kind e\<rparr> db)"

subsection \<open>Locks\<close>

definition SessionFamilyWriteLockRequest_post_init :: "uuid \<Rightarrow> uuid \<Rightarrow> uuid list \<Rightarrow> unit result" where
  "SessionFamilyWriteLockRequest_post_init sid family_id tenant_ids =
     require ([uuid_check sid ''session security lock session_id'',
               uuid_check family_id ''session security lock family_id'']
       @ map (\<lambda>t. uuid_check t ''session security lock tenant_id'') tenant_ids
       @ [(tenant_ids = sort_key uuid_str (remdups tenant_ids),
            ValueError ''session security lock tenants must be unique and ordered'')])"

definition acquire_tenant_gate :: "uuid \<Rightarrow> session_db \<Rightarrow> bool result" where
  "acquire_tenant_gate tenant db =
     bindE (require [uuid_check tenant ''tenant security gate tenant_id''])
       (\<lambda>_. Inr (row_of ten_id tenant (sd_tenants db) \<noteq> None))"

fun acquire_gates :: "uuid list \<Rightarrow> session_db \<Rightarrow> bool result" where
  "acquire_gates [] db = Inr True"
| "acquire_gates (t # ts) db = bindE (acquire_tenant_gate t db) (\<lambda>ok. if ok then acquire_gates ts db else Inr False)"

definition acquire_session_family :: "uuid \<Rightarrow> uuid \<Rightarrow> uuid list \<Rightarrow> session_db \<Rightarrow> bool result" where
  "acquire_session_family sid family_id tenant_ids db =
     bindE (SessionFamilyWriteLockRequest_post_init sid family_id tenant_ids) (\<lambda>_.
     bindE (acquire_gates tenant_ids db) (\<lambda>ok.
       Inr (ok \<and> row_of ses_id sid (sd_sessions db) \<noteq> None)))"

end
