(* ===== verification/SessionService.thy ===== *)
theory SessionService
  imports SessionStore
begin

text \<open>
  \<open>SessionService\<close> of \<open>application/sessions.py\<close> over the session tables.  The token service, the keyed hash
  and the validation cache are parameters; the clock, the identifiers of \<open>new_uuid7\<close> and the random
  refresh token are arguments of each call.  An operation returns its result, the database and the cache.
\<close>

subsection \<open>Parameters\<close>

record token_service =
  ts_issue_account :: "AccessTokenClaims \<Rightarrow> string result"
  ts_issue_tenant :: "AccessTokenClaims \<Rightarrow> string result"
  ts_verify :: "string \<Rightarrow> Audience \<Rightarrow> datetime \<Rightarrow> AccessTokenClaims result"

record 'c cache =
  cch_get :: "uuid \<Rightarrow> 'c \<Rightarrow> SessionValidationState option result \<times> 'c"
  cch_set :: "uuid \<Rightarrow> SessionValidationState \<Rightarrow> int \<Rightarrow> 'c \<Rightarrow> unit result \<times> 'c"
  cch_invalidate :: "uuid \<Rightarrow> 'c \<Rightarrow> unit result \<times> 'c"

record 'c session_service =
  svc_tokens :: token_service
  svc_hmac :: "bytes \<Rightarrow> bytes \<Rightarrow> bytes"
  svc_refresh_hash_key :: bytes
  svc_cache :: "'c cache option"
  svc_cache_ttl :: int

record session_fresh =
  sf_session_id :: uuid
  sf_family_id :: uuid
  sf_refresh_id :: uuid
  sf_token_id :: uuid
  sf_audit_id :: uuid
  sf_raw_refresh :: string

definition SessionService_init :: "token_service \<Rightarrow> (bytes \<Rightarrow> bytes \<Rightarrow> bytes) \<Rightarrow> bytes \<Rightarrow> 'c cache option \<Rightarrow> int
    \<Rightarrow> 'c session_service result" where
  "SessionService_init tokens hmac key cch ttl =
     bindE (require
       [(length key = 32, ValueError ''refresh token hash key must contain exactly 32 bytes''),
        (0 \<le> ttl \<and> ttl \<le> 60, ValueError ''session validation cache TTL must be between 0 and 60 seconds'')])
       (\<lambda>_. Inr \<lparr>svc_tokens = tokens, svc_hmac = hmac, svc_refresh_hash_key = key, svc_cache = cch,
                 svc_cache_ttl = ttl\<rparr>)"

text \<open>\<open>async with\<close> a unit of work: commit on a normal exit, roll back on an exception.\<close>

definition transaction :: "('s \<Rightarrow> ('a \<times> 's) result) \<Rightarrow> 's \<Rightarrow> 'a result \<times> 's" where
  "transaction body db = (case body db of Inr (a, db') \<Rightarrow> (Inr a, db') | Inl e \<Rightarrow> (Inl e, db))"

definition service_now :: "datetime \<Rightarrow> datetime result" where
  "service_now clock =
     bindE (require [(is_utc clock, ValueError ''session clock must return a UTC-aware datetime'')]) (\<lambda>_. Inr clock)"

subsection \<open>Token material\<close>

definition refresh_hash :: "'c session_service \<Rightarrow> string \<Rightarrow> bytes" where
  "refresh_hash svc raw_token =
     (if \<not> list_all (\<lambda>c. (of_char c :: nat) < 128) raw_token \<or> \<not> REFRESH_TOKEN_PATTERN raw_token
      then svc_hmac svc (svc_refresh_hash_key svc) (ascii ''refresh-invalid:v1'')
      else svc_hmac svc (svc_refresh_hash_key svc) (ascii ''refresh:v1:'' @ ascii raw_token))"

definition refresh_record :: "'c session_service \<Rightarrow> session_fresh \<Rightarrow> uuid \<Rightarrow> uuid \<Rightarrow> uuid \<Rightarrow> uuid option \<Rightarrow> uuid option
    \<Rightarrow> datetime \<Rightarrow> NewRefreshToken" where
  "refresh_record svc fr family sid user tenant membership now =
     \<lparr>nrt_id = sf_refresh_id fr, nrt_token_hash = refresh_hash svc (sf_raw_refresh fr), nrt_family_id = family,
      nrt_session_id = sid, nrt_user_id = user, nrt_tenant_id = tenant, nrt_membership_id = membership,
      nrt_issued_at = now, nrt_expires_at = dt_plus now REFRESH_ABSOLUTE_TTL,
      nrt_idle_expires_at = dt_plus now REFRESH_IDLE_TTL\<rparr>"

definition new_session :: "session_fresh \<Rightarrow> UserSessionState \<Rightarrow> TenantSessionState option \<Rightarrow> datetime \<Rightarrow> NewSession" where
  "new_session fr user tenant now =
     \<lparr>nse_id = sf_session_id fr, nse_user_id = uss_user_id user, nse_tenant_id = map_option tss_tenant_id tenant,
      nse_membership_id = map_option tss_membership_id tenant, nse_family_id = sf_family_id fr,
      nse_auth_version = uss_auth_version user, nse_authz_version = map_option tss_authz_version tenant,
      nse_now = now, nse_expires_at = dt_plus now REFRESH_ABSOLUTE_TTL\<rparr>"

definition new_session_material :: "'c session_service \<Rightarrow> session_fresh \<Rightarrow> UserSessionState
    \<Rightarrow> TenantSessionState option \<Rightarrow> datetime \<Rightarrow> NewSession \<times> NewRefreshToken" where
  "new_session_material svc fr user tenant now =
     (let n = new_session fr user tenant now
      in (n, refresh_record svc fr (sf_family_id fr) (sf_session_id fr) (uss_user_id user) (nse_tenant_id n)
               (nse_membership_id n) now))"

definition access_claims :: "session_fresh \<Rightarrow> NewSession \<Rightarrow> datetime \<Rightarrow> AccessTokenClaims" where
  "access_claims fr n now =
     \<lparr>clm_user_id = nse_user_id n, clm_session_id = nse_id n, clm_token_id = sf_token_id fr,
      clm_audience = (if nse_tenant_id n = None then Audience_ACCOUNT else Audience_TENANT),
      clm_issued_at = now, clm_not_before = now, clm_expires_at = dt_plus now ACCESS_TTL,
      clm_auth_version = nse_auth_version n, clm_tenant_id = nse_tenant_id n,
      clm_membership_id = nse_membership_id n, clm_authz_version = nse_authz_version n\<rparr>"

definition issue_access :: "'c session_service \<Rightarrow> session_fresh \<Rightarrow> NewSession \<Rightarrow> datetime \<Rightarrow> string result" where
  "issue_access svc fr n now =
     (let claims = access_claims fr n now in
      bindE (AccessTokenClaims_post_init claims) (\<lambda>_.
        if clm_audience claims = Audience_ACCOUNT then ts_issue_account (svc_tokens svc) claims
        else ts_issue_tenant (svc_tokens svc) claims))"

definition session_of_state :: "SessionValidationState \<Rightarrow> datetime \<Rightarrow> NewSession" where
  "session_of_state state now =
     \<lparr>nse_id = svs_session_id state, nse_user_id = svs_user_id state, nse_tenant_id = svs_session_tenant_id state,
      nse_membership_id = svs_session_membership_id state, nse_family_id = svs_current_family_id state,
      nse_auth_version = svs_user_auth_version state, nse_authz_version = svs_membership_authz_version state,
      nse_now = now, nse_expires_at = svs_expires_at state\<rparr>"

definition issue_access_from_state :: "'c session_service \<Rightarrow> session_fresh \<Rightarrow> SessionValidationState \<Rightarrow> datetime
    \<Rightarrow> string result" where
  "issue_access_from_state svc fr state now = issue_access svc fr (session_of_state state now) now"

subsection \<open>The cache: every failure of it is ignored\<close>

definition invalidate_cache :: "'c session_service \<Rightarrow> uuid \<Rightarrow> 'c \<Rightarrow> 'c" where
  "invalidate_cache svc sid c = (case svc_cache svc of None \<Rightarrow> c | Some cch \<Rightarrow> snd (cch_invalidate cch sid c))"

definition read_cached_state :: "'c session_service \<Rightarrow> uuid \<Rightarrow> 'c \<Rightarrow> SessionValidationState option \<times> 'c" where
  "read_cached_state svc sid c =
     (case svc_cache svc of
        None \<Rightarrow> (None, c)
      | Some cch \<Rightarrow> if svc_cache_ttl svc = 0 then (None, c)
          else (case cch_get cch sid c of (Inl _, c') \<Rightarrow> (None, c') | (Inr v, c') \<Rightarrow> (v, c')))"

definition load_validation_state :: "'c session_service \<Rightarrow> uuid \<Rightarrow> session_db \<Rightarrow> 'c
    \<Rightarrow> SessionValidationState option \<times> 'c" where
  "load_validation_state svc sid db c =
     (let state = get_validation_state sid db in
      (state, case (state, svc_cache svc) of
         (Some v, Some cch) \<Rightarrow> if 0 < svc_cache_ttl svc then snd (cch_set cch sid v (svc_cache_ttl svc) c) else c
       | _ \<Rightarrow> c))"

subsection \<open>start\<close>

definition start_body :: "'c session_service \<Rightarrow> session_fresh \<Rightarrow> uuid \<Rightarrow> AuditContext \<Rightarrow> datetime \<Rightarrow> session_db
    \<Rightarrow> (SessionResult \<times> session_db) result" where
  "start_body svc fr user ctx now db =
     (case repo_get_user user db of
        None \<Rightarrow> Inl InvalidSession
      | Some u \<Rightarrow>
          if uss_status u \<noteq> ''active'' then Inl InvalidSession
          else let (n, t) = new_session_material svc fr u None now in
            bindE (issue_access svc fr n now) (\<lambda>access.
            bindE (add_session n db) (\<lambda>db1.
            bindE (add_refresh t db1) (\<lambda>db2.
            bindE (append_event (audit_event (sf_audit_id fr) ctx (Some user) None None ''session.start'' ''success''
                ''authenticated'' (Some (nse_id n)) now) db2) (\<lambda>db3.
              Inr (\<lparr>sres_session_id = nse_id n, sres_family_id = nse_family_id n, sres_access_token = access,
                    sres_refresh_token = sf_raw_refresh fr\<rparr>, db3))))))"

definition start :: "'c session_service \<Rightarrow> session_fresh \<Rightarrow> uuid \<Rightarrow> AuditContext \<Rightarrow> datetime \<Rightarrow> session_db
    \<Rightarrow> SessionResult result \<times> session_db" where
  "start svc fr user ctx clock db =
     (case service_now clock of Inl e \<Rightarrow> (Inl e, db) | Inr now \<Rightarrow> transaction (start_body svc fr user ctx now) db)"

subsection \<open>refresh\<close>

text \<open>How the unit of work ended: every one of these commits, and only the first answers with tokens.\<close>

datatype refresh_outcome = Rotated SessionResult | Replayed uuid | Refused "uuid option"

definition end_session :: "LockedRefreshToken \<Rightarrow> RevocationReason \<Rightarrow> session_fresh \<Rightarrow> AuditContext \<Rightarrow> string \<Rightarrow> string
    \<Rightarrow> string \<Rightarrow> datetime \<Rightarrow> session_db \<Rightarrow> session_db result" where
  "end_session t why fr ctx action res reason now db =
     bindE (revoke_family (lrt_family_id t) why now db) (\<lambda>db1.
     bindE (revoke_session (lrt_session_id t) why now db1) (\<lambda>db2.
       append_event (audit_event (sf_audit_id fr) ctx (Some (lrt_user_id t)) (lrt_tenant_id t) (lrt_membership_id t)
         action res reason (Some (lrt_session_id t)) now) db2))"

definition revoke_for_replay :: "LockedRefreshToken \<Rightarrow> session_fresh \<Rightarrow> AuditContext \<Rightarrow> datetime \<Rightarrow> session_db
    \<Rightarrow> session_db result" where
  "revoke_for_replay t fr ctx now db =
     end_session t REFRESH_REPLAY fr ctx ''session.refresh_replay'' ''denied'' ''refresh_replay'' now db"

definition lock_current :: "bytes \<Rightarrow> session_db \<Rightarrow> LockedRefreshToken option result" where
  "lock_current token_hash db =
     bindE (locate_refresh token_hash db) (\<lambda>located.
     case located of
       None \<Rightarrow> Inr None
     | Some l \<Rightarrow>
         bindE (acquire_session_family (rll_session_id l) (rll_family_id l) (ordered_tenant_ids [rll_tenant_id l]) db)
           (\<lambda>ok. Inr (if \<not> ok then None
              else (case lock_refresh token_hash db of
                  None \<Rightarrow> None
                | Some t \<Rightarrow> if refresh_matches_locator t l then Some t else None))))"

definition rotate :: "'c session_service \<Rightarrow> session_fresh \<Rightarrow> AuditContext \<Rightarrow> datetime \<Rightarrow> LockedRefreshToken
    \<Rightarrow> SessionValidationState \<Rightarrow> session_db \<Rightarrow> (SessionResult \<times> session_db) result" where
  "rotate svc fr ctx now t state db =
     (let n = refresh_record svc fr (lrt_family_id t) (lrt_session_id t) (lrt_user_id t) (lrt_tenant_id t)
                (lrt_membership_id t) now
      in bindE (mark_refresh_used (lrt_id t) now db) (\<lambda>db1.
         bindE (add_refresh n db1) (\<lambda>db2.
         bindE (link_refresh_replacement (lrt_id t) (nrt_id n) now db2) (\<lambda>db3.
         bindE (touch_session (lrt_session_id t) now (nrt_expires_at n) db3) (\<lambda>db4.
         bindE (append_event (audit_event (sf_audit_id fr) ctx (Some (lrt_user_id t)) (lrt_tenant_id t)
             (lrt_membership_id t) ''session.refresh'' ''success'' ''rotated'' (Some (lrt_session_id t)) now) db4)
           (\<lambda>db5.
         bindE (issue_access_from_state svc fr state now) (\<lambda>access.
           Inr (\<lparr>sres_session_id = lrt_session_id t, sres_family_id = lrt_family_id t, sres_access_token = access,
                 sres_refresh_token = sf_raw_refresh fr\<rparr>, db5))))))))"

definition refresh_current :: "'c session_service \<Rightarrow> session_fresh \<Rightarrow> AuditContext \<Rightarrow> datetime \<Rightarrow> LockedRefreshToken
    \<Rightarrow> session_db \<Rightarrow> (refresh_outcome \<times> session_db) result" where
  "refresh_current svc fr ctx now t db =
     (if lrt_used_at t \<noteq> None
      then bindE (revoke_for_replay t fr ctx now db) (\<lambda>db1. Inr (Replayed (lrt_session_id t), db1))
      else if \<not> refresh_is_current t now
      then bindE (end_session t REFRESH_INVALID fr ctx ''session.refresh'' ''failure'' ''authentication_failed'' now db)
             (\<lambda>db1. Inr (Refused (Some (lrt_session_id t)), db1))
      else
        let refuse = bindE (end_session t AUTHORITATIVE_STATE_CHANGED fr ctx ''session.refresh'' ''denied''
               ''authoritative_state_changed'' now db) (\<lambda>db1. Inr (Refused (Some (lrt_session_id t)), db1))
        in case get_validation_state (lrt_session_id t) db of
             None \<Rightarrow> refuse
           | Some state \<Rightarrow>
               if \<not> state_is_authoritative state None now \<or> \<not> refresh_matches_state t state then refuse
               else bindE (rotate svc fr ctx now t state db) (\<lambda>(r, db1). Inr (Rotated r, db1)))"

definition refresh_body :: "'c session_service \<Rightarrow> session_fresh \<Rightarrow> string \<Rightarrow> AuditContext \<Rightarrow> datetime \<Rightarrow> session_db
    \<Rightarrow> (refresh_outcome \<times> session_db) result" where
  "refresh_body svc fr raw_token ctx now db =
     bindE (lock_current (refresh_hash svc raw_token) db) (\<lambda>current.
     case current of
       None \<Rightarrow> bindE (append_event (audit_event (sf_audit_id fr) ctx None None None ''session.refresh'' ''failure''
           ''authentication_failed'' None now) db) (\<lambda>db1. Inr (Refused None, db1))
     | Some t \<Rightarrow> refresh_current svc fr ctx now t db)"

definition refresh :: "'c session_service \<Rightarrow> session_fresh \<Rightarrow> string \<Rightarrow> AuditContext \<Rightarrow> datetime \<Rightarrow> session_db \<times> 'c
    \<Rightarrow> SessionResult result \<times> session_db \<times> 'c" where
  "refresh svc fr raw_token ctx clock = (\<lambda>(db, c).
     case service_now clock of
       Inl e \<Rightarrow> (Inl e, db, c)
     | Inr now \<Rightarrow>
         (case transaction (refresh_body svc fr raw_token ctx now) db of
            (Inl e, db1) \<Rightarrow> (Inl e, db1, c)
          | (Inr (Rotated r), db1) \<Rightarrow> (Inr r, db1, invalidate_cache svc (sres_session_id r) c)
          | (Inr (Replayed sid), db1) \<Rightarrow> (Inl RefreshReplayDetected, db1, invalidate_cache svc sid c)
          | (Inr (Refused sid), db1) \<Rightarrow> (Inl InvalidRefreshToken, db1,
              case sid of None \<Rightarrow> c | Some i \<Rightarrow> invalidate_cache svc i c)))"

definition refresh_session_id :: "'c session_service \<Rightarrow> string \<Rightarrow> session_db \<Rightarrow> uuid result" where
  "refresh_session_id svc raw_token db =
     bindE (locate_refresh (refresh_hash svc raw_token) db) (\<lambda>located.
     case located of None \<Rightarrow> Inl InvalidRefreshToken | Some l \<Rightarrow> Inr (rll_session_id l))"

subsection \<open>validate_access\<close>

definition validated :: "SessionValidationState \<Rightarrow> ValidatedSession" where
  "validated state =
     \<lparr>vs_user_id = svs_user_id state, vs_session_id = svs_session_id state,
      vs_tenant_id = svs_session_tenant_id state, vs_membership_id = svs_session_membership_id state\<rparr>"

definition derived_tenant :: "AccessTokenClaims \<Rightarrow> SessionValidationState \<Rightarrow> datetime \<Rightarrow> session_db
    \<Rightarrow> ValidatedSession result" where
  "derived_tenant claims state now db =
     (if \<not> state_is_authoritative state None now \<or> clm_session_id claims \<noteq> svs_session_id state
         \<or> clm_user_id claims \<noteq> svs_user_id state \<or> clm_auth_version claims \<noteq> svs_user_auth_version state
      then Inl InvalidSession
      else case (clm_tenant_id claims, clm_membership_id claims) of
        (Some tenant, Some membership) \<Rightarrow>
          (case get_tenant_context (svs_user_id state) tenant membership db of
             None \<Rightarrow> Inl InvalidSession
           | Some t \<Rightarrow>
               if \<not> tenant_is_active t now \<or> tss_membership_user_id t \<noteq> svs_user_id state
                  \<or> tss_tenant_id t \<noteq> tenant \<or> tss_membership_id t \<noteq> membership
                  \<or> Some (tss_authz_version t) \<noteq> clm_authz_version claims
               then Inl InvalidSession
               else Inr \<lparr>vs_user_id = svs_user_id state, vs_session_id = svs_session_id state,
                         vs_tenant_id = Some (tss_tenant_id t), vs_membership_id = Some (tss_membership_id t)\<rparr>)
      | _ \<Rightarrow> Inl InvalidSession)"

definition validate_tenant :: "AccessTokenClaims \<Rightarrow> datetime \<Rightarrow> session_db \<Rightarrow> ValidatedSession result" where
  "validate_tenant claims now db =
     (case get_validation_state (clm_session_id claims) db of
        None \<Rightarrow> Inl InvalidSession
      | Some state \<Rightarrow>
          if svs_session_tenant_id state = None then derived_tenant claims state now db
          else if \<not> state_is_authoritative state (Some claims) now then Inl InvalidSession
          else Inr (validated state))"

definition validate_access :: "'c session_service \<Rightarrow> string \<Rightarrow> Audience \<Rightarrow> datetime \<Rightarrow> session_db \<times> 'c
    \<Rightarrow> ValidatedSession result \<times> 'c" where
  "validate_access svc encoded audience clock = (\<lambda>(db, c).
     case service_now clock of
       Inl e \<Rightarrow> (Inl e, c)
     | Inr now \<Rightarrow>
         (case ts_verify (svc_tokens svc) encoded audience now of
            Inl e \<Rightarrow> (Inl (if e = InvalidToken then InvalidSession else e), c)
          | Inr claims \<Rightarrow>
              if audience = Audience_TENANT then (validate_tenant claims now db, c)
              else let (cached, c1) = read_cached_state svc (clm_session_id claims) c in
                if (case cached of None \<Rightarrow> False | Some v \<Rightarrow> \<not> state_is_authoritative v (Some claims) now)
                then (Inl InvalidSession, c1)
                else let (state, c2) = load_validation_state svc (clm_session_id claims) db c1 in
                  (case state of
                     None \<Rightarrow> (Inl InvalidSession, c2)
                   | Some v \<Rightarrow>
                       if \<not> state_is_authoritative v (Some claims) now then (Inl InvalidSession, c2)
                       else (Inr (validated v), c2))))"

subsection \<open>revoke\<close>

text \<open>The early returns commit; only the last case goes on to invalidate the cache.\<close>

definition revoke_body :: "session_fresh \<Rightarrow> uuid \<Rightarrow> RevocationReason \<Rightarrow> AuditContext \<Rightarrow> datetime \<Rightarrow> session_db
    \<Rightarrow> (bool \<times> session_db) result" where
  "revoke_body fr sid why ctx now db =
     bindE (locate_session sid db) (\<lambda>located.
     case located of
       None \<Rightarrow> Inr (False, db)
     | Some l \<Rightarrow>
         bindE (acquire_session_family (sll_session_id l) (sll_family_id l) (ordered_tenant_ids [sll_tenant_id l]) db)
           (\<lambda>ok.
         if \<not> ok then Inr (False, db)
         else case get_validation_state sid db of
             None \<Rightarrow> Inr (False, db)
           | Some state \<Rightarrow>
               if \<not> session_matches_locator state l then Inr (False, db)
               else
                 bindE (revoke_family (svs_current_family_id state) why now db) (\<lambda>db1.
                 bindE (revoke_session sid why now db1) (\<lambda>db2.
                 bindE (append_event (audit_event (sf_audit_id fr) ctx (Some (svs_user_id state))
                     (svs_session_tenant_id state) (svs_session_membership_id state) ''session.revoke'' ''success''
                     (RevocationReason_value why) (Some sid) now) db2) (\<lambda>db3. Inr (True, db3))))))"

definition revoke :: "'c session_service \<Rightarrow> session_fresh \<Rightarrow> uuid \<Rightarrow> RevocationReason \<Rightarrow> AuditContext \<Rightarrow> datetime
    \<Rightarrow> session_db \<times> 'c \<Rightarrow> unit result \<times> session_db \<times> 'c" where
  "revoke svc fr sid why ctx clock = (\<lambda>(db, c).
     case service_now clock of
       Inl e \<Rightarrow> (Inl e, db, c)
     | Inr now \<Rightarrow>
         (case transaction (revoke_body fr sid why ctx now) db of
            (Inl e, db1) \<Rightarrow> (Inl e, db1, c)
          | (Inr ended, db1) \<Rightarrow> (Inr (), db1, if ended then invalidate_cache svc sid c else c)))"

subsection \<open>tenant_access and switch_tenant\<close>

text \<open>Both read the locator in a unit of work of its own; \<open>between\<close> is what other calls do before the second.\<close>

definition tenant_access_body :: "'c session_service \<Rightarrow> session_fresh \<Rightarrow> SwitchTenantCommand \<Rightarrow> SessionLockLocator
    \<Rightarrow> AuditContext \<Rightarrow> datetime \<Rightarrow> session_db \<Rightarrow> (string \<times> session_db) result" where
  "tenant_access_body svc fr cmd l ctx now db =
     bindE (acquire_session_family (sll_session_id l) (sll_family_id l) (ordered_tenant_ids [Some (stc_tenant_id cmd)]) db)
       (\<lambda>ok.
     if \<not> ok then Inl InvalidSession
     else case (lock_session (stc_session_id cmd) db,
                lock_tenant_context (sll_user_id l) (stc_tenant_id cmd) (stc_membership_id cmd) db) of
         (Some current, Some t) \<Rightarrow>
           if \<not> session_matches_locator current l \<or> svs_session_tenant_id current \<noteq> None
              \<or> \<not> state_is_authoritative current None now \<or> \<not> tenant_is_active t now
              \<or> tss_membership_user_id t \<noteq> svs_user_id current \<or> tss_tenant_id t \<noteq> stc_tenant_id cmd
              \<or> tss_membership_id t \<noteq> stc_membership_id cmd
           then Inl InvalidSession
           else
             bindE (issue_access svc fr \<lparr>nse_id = svs_session_id current, nse_user_id = svs_user_id current,
                 nse_tenant_id = Some (tss_tenant_id t), nse_membership_id = Some (tss_membership_id t),
                 nse_family_id = svs_current_family_id current, nse_auth_version = svs_user_auth_version current,
                 nse_authz_version = Some (tss_authz_version t), nse_now = now,
                 nse_expires_at = svs_expires_at current\<rparr> now) (\<lambda>access.
             bindE (append_event (audit_event (sf_audit_id fr) ctx (Some (svs_user_id current)) (Some (tss_tenant_id t))
                 (Some (tss_membership_id t)) ''session.tenant_access'' ''success'' ''derived''
                 (Some (svs_session_id current)) now) db) (\<lambda>db1. Inr (access, db1)))
       | _ \<Rightarrow> Inl InvalidSession)"

definition tenant_access :: "'c session_service \<Rightarrow> session_fresh \<Rightarrow> SwitchTenantCommand \<Rightarrow> AuditContext \<Rightarrow> datetime
    \<Rightarrow> (session_db \<Rightarrow> session_db) \<Rightarrow> session_db \<Rightarrow> string result \<times> session_db" where
  "tenant_access svc fr cmd ctx clock between db =
     (case bindE (service_now clock) (\<lambda>now. bindE (locate_session (stc_session_id cmd) db) (\<lambda>l. Inr (now, l))) of
        Inl e \<Rightarrow> (Inl e, db)
      | Inr (now, None) \<Rightarrow> (Inl InvalidSession, db)
      | Inr (now, Some l) \<Rightarrow>
          if sll_tenant_id l \<noteq> None then (Inl InvalidSession, db)
          else transaction (tenant_access_body svc fr cmd l ctx now) (between db))"

definition switch_tenant_body :: "'c session_service \<Rightarrow> session_fresh \<Rightarrow> SwitchTenantCommand \<Rightarrow> SessionLockLocator
    \<Rightarrow> AuditContext \<Rightarrow> datetime \<Rightarrow> session_db \<Rightarrow> (SessionResult \<times> session_db) result" where
  "switch_tenant_body svc fr cmd l ctx now db =
     bindE (acquire_session_family (sll_session_id l) (sll_family_id l)
         (ordered_tenant_ids [sll_tenant_id l, Some (stc_tenant_id cmd)]) db) (\<lambda>ok.
     if \<not> ok then Inl InvalidSession
     else case (lock_session (stc_session_id cmd) db,
                lock_tenant_context (sll_user_id l) (stc_tenant_id cmd) (stc_membership_id cmd) db) of
         (Some current, Some t) \<Rightarrow>
           if \<not> session_matches_locator current l \<or> \<not> state_is_authoritative current None now
              \<or> \<not> tenant_is_active t now
           then Inl InvalidSession
           else
             bindE (revoke_family (svs_current_family_id current) TENANT_SWITCHED now db) (\<lambda>db1.
             bindE (revoke_session (svs_session_id current) TENANT_SWITCHED now db1) (\<lambda>db2.
             let (n, r) = new_session_material svc fr \<lparr>uss_user_id = svs_user_id current,
                   uss_status = svs_user_status current, uss_auth_version = svs_user_auth_version current\<rparr> (Some t) now
             in bindE (issue_access svc fr n now) (\<lambda>access.
                bindE (add_session n db2) (\<lambda>db3.
                bindE (add_refresh r db3) (\<lambda>db4.
                bindE (append_event (audit_event (sf_audit_id fr) ctx (Some (svs_user_id current))
                    (Some (tss_tenant_id t)) (Some (tss_membership_id t)) ''session.switch_tenant'' ''success''
                    ''tenant_context_selected'' (Some (nse_id n)) now) db4) (\<lambda>db5.
                  Inr (\<lparr>sres_session_id = nse_id n, sres_family_id = nse_family_id n, sres_access_token = access,
                        sres_refresh_token = sf_raw_refresh fr\<rparr>, db5)))))))
       | _ \<Rightarrow> Inl InvalidSession)"

definition switch_tenant :: "'c session_service \<Rightarrow> session_fresh \<Rightarrow> SwitchTenantCommand \<Rightarrow> AuditContext \<Rightarrow> datetime
    \<Rightarrow> (session_db \<Rightarrow> session_db) \<Rightarrow> session_db \<times> 'c \<Rightarrow> SessionResult result \<times> session_db \<times> 'c" where
  "switch_tenant svc fr cmd ctx clock between = (\<lambda>(db, c).
     case bindE (service_now clock) (\<lambda>now. bindE (locate_session (stc_session_id cmd) db) (\<lambda>l. Inr (now, l))) of
       Inl e \<Rightarrow> (Inl e, db, c)
     | Inr (now, None) \<Rightarrow> (Inl InvalidSession, db, c)
     | Inr (now, Some l) \<Rightarrow>
         (case transaction (switch_tenant_body svc fr cmd l ctx now) (between db) of
            (Inl e, db1) \<Rightarrow> (Inl e, db1, c)
          | (Inr r, db1) \<Rightarrow> (Inr r, db1, invalidate_cache svc (stc_session_id cmd) c)))"

end
