(* ===== verification/SessionInvariant.thy ===== *)
theory SessionInvariant
  imports SessionService
begin

text \<open>
  The invariant of the session tables, and what every statement of the repository keeps of the rows it
  finds: identifiers, owners and families never change, and a token that was used or revoked, or a session
  that was revoked, stays so.
\<close>

named_theorems session_ops \<open>successful statements, as equations on the database\<close>

subsection \<open>Tables that only grow, by rows that only advance\<close>

definition table_keeps :: "('r \<Rightarrow> 'r \<Rightarrow> bool) \<Rightarrow> 'r list \<Rightarrow> 'r list \<Rightarrow> bool" where
  "table_keeps keeps rows rows' \<longleftrightarrow> (\<forall>r\<in>set rows. \<exists>r'\<in>set rows'. keeps r r')"

locale advancing_rows =
  fixes key :: "'r \<Rightarrow> 'k"
    and keeps :: "'r \<Rightarrow> 'r \<Rightarrow> bool"
  assumes keeps_key: "keeps r r' \<Longrightarrow> key r' = key r"
    and keeps_refl: "keeps r r"
    and keeps_trans: "keeps r r' \<Longrightarrow> keeps r' r'' \<Longrightarrow> keeps r r''"
begin

lemma table_refl: "table_keeps keeps rows rows"
  by (auto simp: table_keeps_def intro: keeps_refl)

lemma table_trans: "table_keeps keeps rows rows' \<Longrightarrow> table_keeps keeps rows' rows'' \<Longrightarrow> table_keeps keeps rows rows''"
  unfolding table_keeps_def by (meson keeps_trans)

lemma table_append: "table_keeps keeps rows (rows @ new)"
  by (auto simp: table_keeps_def intro: keeps_refl)

lemma table_map: "(\<And>r. keeps r (f r)) \<Longrightarrow> table_keeps keeps rows (map f rows)"
  by (auto simp: table_keeps_def)

lemma row_kept:
  assumes "table_keeps keeps rows rows'" "distinct (map key rows')" "row_of key k rows = Some r"
  shows "\<exists>r'. row_of key k rows' = Some r' \<and> keeps r r'"
proof -
  have r: "r \<in> set rows" "key r = k" using row_of_SomeD [OF assms(3)] by simp_all
  then obtain r' where r': "r' \<in> set rows'" "keeps r r'" using assms(1) by (auto simp: table_keeps_def)
  then have "key r' = k" using keeps_key [OF r'(2)] r(2) by simp
  then show ?thesis using row_of_iff [OF assms(2)] r' by auto
qed

end

definition keeps_session :: "session_row \<Rightarrow> session_row \<Rightarrow> bool" where
  "keeps_session s s' \<longleftrightarrow> ses_id s' = ses_id s \<and> ses_user_id s' = ses_user_id s \<and> ses_tenant_id s' = ses_tenant_id s
     \<and> ses_membership_id s' = ses_membership_id s \<and> ses_current_family_id s' = ses_current_family_id s
     \<and> ses_auth_version_at_issue s' = ses_auth_version_at_issue s
     \<and> ses_authz_version_at_issue s' = ses_authz_version_at_issue s
     \<and> (ses_revoked_at s \<noteq> None \<longrightarrow> ses_revoked_at s' \<noteq> None)"

definition keeps_refresh :: "refresh_row \<Rightarrow> refresh_row \<Rightarrow> bool" where
  "keeps_refresh r r' \<longleftrightarrow> rfr_id r' = rfr_id r \<and> rfr_token_hash r' = rfr_token_hash r \<and> rfr_family_id r' = rfr_family_id r
     \<and> rfr_session_id r' = rfr_session_id r \<and> rfr_user_id r' = rfr_user_id r \<and> rfr_tenant_id r' = rfr_tenant_id r
     \<and> rfr_membership_id r' = rfr_membership_id r
     \<and> (rfr_used_at r \<noteq> None \<longrightarrow> rfr_used_at r' \<noteq> None) \<and> (rfr_revoked_at r \<noteq> None \<longrightarrow> rfr_revoked_at r' \<noteq> None)"

interpretation sessions: advancing_rows ses_id keeps_session
  by unfold_locales (auto simp: keeps_session_def)

interpretation tokens: advancing_rows rfr_token_hash keeps_refresh
  by unfold_locales (auto simp: keeps_refresh_def)

text \<open>Rows that sessions refer to are never deleted; everything else of them may change.\<close>

definition references_kept :: "session_db \<Rightarrow> session_db \<Rightarrow> bool" where
  "references_kept db db' \<longleftrightarrow> usr_id ` set (sd_users db) \<subseteq> usr_id ` set (sd_users db')
     \<and> ten_id ` set (sd_tenants db) \<subseteq> ten_id ` set (sd_tenants db')
     \<and> (\<lambda>m. (mbr_tenant_id m, mbr_user_id m, mbr_id m)) ` set (sd_memberships db)
        \<subseteq> (\<lambda>m. (mbr_tenant_id m, mbr_user_id m, mbr_id m)) ` set (sd_memberships db')"

lemma references_kept_trans: "references_kept db db' \<Longrightarrow> references_kept db' db'' \<Longrightarrow> references_kept db db''"
  unfolding references_kept_def by (intro conjI) (meson subset_trans)+

lemma references_kept_same:
  "sd_users db' = sd_users db \<Longrightarrow> sd_tenants db' = sd_tenants db \<Longrightarrow> sd_memberships db' = sd_memberships db
     \<Longrightarrow> references_kept db db'"
  by (simp add: references_kept_def)

lemma owner_references_kept:
  assumes "references_kept db db'" "owner_references db (Some user) tenant membership"
  shows "owner_references db' (Some user) tenant membership"
proof -
  have "\<exists>m'\<in>set (sd_memberships db'). mbr_tenant_id m' = t \<and> mbr_id m' = i \<and> mbr_user_id m' = user"
    if "m \<in> set (sd_memberships db)" "mbr_tenant_id m = t" "mbr_id m = i" "mbr_user_id m = user" for m t i
  proof -
    have "(t, user, i) \<in> (\<lambda>m. (mbr_tenant_id m, mbr_user_id m, mbr_id m)) ` set (sd_memberships db')"
      using assms(1) that unfolding references_kept_def by (metis (mono_tags, lifting) image_eqI subsetD)
    then show ?thesis by auto
  qed
  then have "member_reference db' tenant (Some user) membership"
    using assms(2) by (auto simp: owner_references_def member_reference_def list_ex_iff)
  with assms show ?thesis by (cases tenant) (auto simp: owner_references_def references_kept_def)
qed

definition db_evolves :: "session_db \<Rightarrow> session_db \<Rightarrow> bool" where
  "db_evolves db db' \<longleftrightarrow> table_keeps keeps_session (sd_sessions db) (sd_sessions db')
     \<and> table_keeps keeps_refresh (sd_refresh db) (sd_refresh db')
     \<and> references_kept db db'"

lemma db_evolves_refl [simp]: "db_evolves db db"
  by (simp add: db_evolves_def sessions.table_refl tokens.table_refl references_kept_same)

lemma db_evolves_trans: "db_evolves db db' \<Longrightarrow> db_evolves db' db'' \<Longrightarrow> db_evolves db db''"
  unfolding db_evolves_def by (meson references_kept_trans sessions.table_trans tokens.table_trans)

subsection \<open>The invariant\<close>

definition live :: "refresh_row \<Rightarrow> bool" where
  "live r \<longleftrightarrow> rfr_used_at r = None \<and> rfr_revoked_at r = None"

definition token_of :: "refresh_row \<Rightarrow> session_row \<Rightarrow> bool" where
  "token_of r s \<longleftrightarrow> rfr_session_id r = ses_id s \<and> rfr_family_id r = ses_current_family_id s
     \<and> rfr_user_id r = ses_user_id s \<and> rfr_tenant_id r = ses_tenant_id s \<and> rfr_membership_id r = ses_membership_id s
     \<and> (ses_revoked_at s \<noteq> None \<longrightarrow> rfr_revoked_at r \<noteq> None)"

definition session_ok :: "session_db \<Rightarrow> bool" where
  "session_ok db \<longleftrightarrow> distinct (map ses_id (sd_sessions db)) \<and> distinct (map ses_current_family_id (sd_sessions db))
     \<and> distinct (map rfr_id (sd_refresh db)) \<and> distinct (map rfr_token_hash (sd_refresh db))
     \<and> list_all session_check (sd_sessions db) \<and> list_all refresh_check (sd_refresh db)
     \<and> (\<forall>r\<in>set (sd_refresh db). \<exists>s\<in>set (sd_sessions db). token_of r s)
     \<and> (\<forall>r\<in>set (sd_refresh db). \<forall>q\<in>set (sd_refresh db). rfr_family_id r = rfr_family_id q \<longrightarrow> live r \<longrightarrow> live q \<longrightarrow> r = q)
     \<and> (\<forall>s\<in>set (sd_sessions db). owner_references db (Some (ses_user_id s)) (ses_tenant_id s) (ses_membership_id s))"

lemma owner_references_same [simp]:
  "owner_references (db\<lparr>sd_sessions := ss\<rparr>) = owner_references db"
  "owner_references (db\<lparr>sd_refresh := rs\<rparr>) = owner_references db"
  "owner_references (db\<lparr>sd_audit := as\<rparr>) = owner_references db"
  by (simp_all add: fun_eq_iff owner_references_def member_reference_def)

subsection \<open>Statements as equations\<close>

lemma foreign_Inr [simp]: "foreign ok m = Inr v \<longleftrightarrow> ok \<and> m = Inr v"
  by (simp add: foreign_def)

lemma session_model_Inr: "session_model n = Inr s \<Longrightarrow>
    s = \<lparr>ses_id = nse_id n, ses_user_id = nse_user_id n, ses_tenant_id = nse_tenant_id n,
         ses_membership_id = nse_membership_id n, ses_current_family_id = nse_family_id n,
         ses_auth_version_at_issue = nse_auth_version n, ses_authz_version_at_issue = nse_authz_version n,
         ses_revoked_at = None, ses_revocation_reason = None, ses_last_seen_at = dt_wall (nse_now n),
         ses_expires_at = dt_wall (nse_expires_at n), ses_version = 1\<rparr>"
  by (auto simp: session_model_def validate_simps time_simps)

lemma refresh_model_Inr: "refresh_model n = Inr r \<Longrightarrow>
    r = \<lparr>rfr_id = nrt_id n, rfr_token_hash = nrt_token_hash n, rfr_family_id = nrt_family_id n,
         rfr_session_id = nrt_session_id n, rfr_user_id = nrt_user_id n, rfr_tenant_id = nrt_tenant_id n,
         rfr_membership_id = nrt_membership_id n, rfr_issued_at = dt_wall (nrt_issued_at n),
         rfr_expires_at = dt_wall (nrt_expires_at n), rfr_idle_expires_at = dt_wall (nrt_idle_expires_at n),
         rfr_used_at = None, rfr_revoked_at = None, rfr_replaced_by_id = None, rfr_revocation_reason = None,
         rfr_version = 1\<rparr>"
  by (auto simp: refresh_model_def validate_simps time_simps)

lemma add_session_Inr:
  assumes "add_session n db = Inr db'"
  obtains s where "session_model n = Inr s" "session_check s" "\<forall>q\<in>set (sd_sessions db). ses_id q \<noteq> ses_id s"
    "owner_references db (Some (ses_user_id s)) (ses_tenant_id s) (ses_membership_id s)"
    "db' = db\<lparr>sd_sessions := sd_sessions db @ [s]\<rparr>"
proof -
  obtain s where s: "session_model n = Inr s" "insert_session s db = Inr db'"
    using assms by (auto simp: add_session_def validate_simps)
  show thesis by (rule that [OF s(1)]) (use s(2) in \<open>auto simp: insert_session_def bindE_eq_Inr sql_insert_Inr\<close>)
qed

lemma add_refresh_Inr:
  assumes "add_refresh n db = Inr db'"
  obtains r where "refresh_model n = Inr r" "refresh_check r" "\<forall>q\<in>set (sd_refresh db). \<not> refresh_conflict r q"
    "session_reference db r" "db' = db\<lparr>sd_refresh := sd_refresh db @ [r]\<rparr>"
proof -
  obtain r where r: "refresh_model n = Inr r" "insert_refresh r db = Inr db'"
    using assms by (auto simp: add_refresh_def validate_simps)
  show thesis by (rule that [OF r(1)]) (use r(2) in \<open>auto simp: insert_refresh_def bindE_eq_Inr sql_insert_Inr\<close>)
qed

lemma append_event_Inr [session_ops]:
  "append_event e db = Inr db' \<Longrightarrow> \<exists>rows. db' = db\<lparr>sd_audit := rows\<rparr>"
  by (auto simp: append_event_def insert_audit_def bindE_eq_Inr)

lemma mark_refresh_used_Inr [session_ops]:
  "mark_refresh_used i now db = Inr db' \<Longrightarrow> is_utc now \<and> i \<in> rfr_id ` set (sd_refresh db)
     \<and> db' = db\<lparr>sd_refresh := map (\<lambda>r. if rfr_id r = i
          then r\<lparr>rfr_used_at := Some (dt_wall now), rfr_version := rfr_version r + 1\<rparr> else r) (sd_refresh db)\<rparr>"
  by (auto simp: mark_refresh_used_def bindE_eq_Inr time_simps row_of_None split: if_splits)

lemma link_refresh_replacement_Inr [session_ops]:
  "link_refresh_replacement i j now db = Inr db' \<Longrightarrow>
     db' = db\<lparr>sd_refresh := map (\<lambda>q. if rfr_id q = i then q\<lparr>rfr_replaced_by_id := Some j\<rparr> else q) (sd_refresh db)\<rparr>"
  by (auto simp: link_refresh_replacement_def bindE_eq_Inr split: option.splits)

lemma touch_session_Inr [session_ops]:
  "touch_session i now ex db = Inr db' \<Longrightarrow>
     db' = db\<lparr>sd_sessions := map (\<lambda>s. if ses_id s = i then s\<lparr>ses_last_seen_at := dt_wall now,
        ses_expires_at := dt_wall ex, ses_version := ses_version s + 1\<rparr> else s) (sd_sessions db)\<rparr>"
  by (auto simp: touch_session_def bindE_eq_Inr time_simps split: if_splits)

lemma revoke_tokens_Inr:
  "revoke_tokens p reason now db = Inr db' \<Longrightarrow>
     db' = db\<lparr>sd_refresh := map (\<lambda>r. if p r \<and> rfr_revoked_at r = None then revoke_token reason (dt_wall now) r else r)
        (sd_refresh db)\<rparr>"
  by (auto simp: revoke_tokens_def bindE_eq_Inr time_simps)

lemma revoke_logins_Inr:
  "revoke_logins p reason now db = Inr db' \<Longrightarrow>
     db' = db\<lparr>sd_sessions := map (\<lambda>s. if p s \<and> ses_revoked_at s = None then revoke_login reason (dt_wall now) s else s)
        (sd_sessions db)\<rparr>"
  by (auto simp: revoke_logins_def bindE_eq_Inr time_simps)

subsection \<open>Changes of rows\<close>

lemma keeps_simps:
  "keeps_session s s' \<Longrightarrow> ses_id s' = ses_id s \<and> ses_current_family_id s' = ses_current_family_id s"
  "keeps_refresh r r' \<Longrightarrow> rfr_id r' = rfr_id r \<and> rfr_token_hash r' = rfr_token_hash r \<and> rfr_family_id r' = rfr_family_id r"
  by (simp_all add: keeps_session_def keeps_refresh_def)

lemma map_key: "(\<And>x. g (f x) = g x) \<Longrightarrow> map g (map f xs) = map g xs"
  by simp

lemma sessions_map:
  assumes ok: "session_ok db" and keeps: "\<And>s. keeps_session s (f s)"
    and dead: "\<And>s r. r \<in> set (sd_refresh db) \<Longrightarrow> token_of r s \<Longrightarrow> ses_revoked_at (f s) \<noteq> None \<Longrightarrow> rfr_revoked_at r \<noteq> None"
  shows "session_ok (db\<lparr>sd_sessions := map f (sd_sessions db)\<rparr>) \<and> db_evolves db (db\<lparr>sd_sessions := map f (sd_sessions db)\<rparr>)"
proof -
  have keys: "map ses_id (map f rows) = map ses_id rows"
      "map ses_current_family_id (map f rows) = map ses_current_family_id rows" for rows
    using keeps_simps(1) [OF keeps] by (auto simp del: map_map intro!: map_key)
  have "session_check (f s) = session_check s" for s
    using keeps [of s] by (simp add: session_check_def keeps_session_def)
  moreover have "ses_user_id (f s) = ses_user_id s \<and> ses_tenant_id (f s) = ses_tenant_id s
      \<and> ses_membership_id (f s) = ses_membership_id s" for s
    using keeps [of s] by (simp add: keeps_session_def)
  moreover have "token_of r (f s)" if "r \<in> set (sd_refresh db)" "token_of r s" for r s
    using dead [OF that] that(2) keeps [of s] by (simp add: token_of_def keeps_session_def)
  ultimately have "session_ok (db\<lparr>sd_sessions := map f (sd_sessions db)\<rparr>)"
    using ok unfolding session_ok_def by (simp add: keys list_all_iff del: map_map) blast
  then show ?thesis by (simp add: db_evolves_def sessions.table_map keeps tokens.table_refl references_kept_same)
qed

lemma tokens_map:
  assumes ok: "session_ok db" and keeps: "\<And>r. keeps_refresh r (f r)"
  shows "session_ok (db\<lparr>sd_refresh := map f (sd_refresh db)\<rparr>) \<and> db_evolves db (db\<lparr>sd_refresh := map f (sd_refresh db)\<rparr>)"
proof -
  have keys: "map rfr_id (map f rows) = map rfr_id rows" "map rfr_token_hash (map f rows) = map rfr_token_hash rows" for rows
    using keeps_simps(2) [OF keeps] by (auto simp del: map_map intro!: map_key)
  have "refresh_check (f r) = refresh_check r" for r
    using keeps [of r] by (simp add: refresh_check_def keeps_refresh_def)
  moreover have "token_of (f r) s" if "token_of r s" for r s
    using that keeps [of r] by (simp add: token_of_def keeps_refresh_def)
  moreover have "live r" if "live (f r)" for r
    using that keeps [of r] by (auto simp: live_def keeps_refresh_def)
  ultimately have "session_ok (db\<lparr>sd_refresh := map f (sd_refresh db)\<rparr>)"
    using ok keeps_simps(2) [OF keeps] unfolding session_ok_def
    by (simp add: keys list_all_iff del: map_map) metis
  then show ?thesis by (simp add: db_evolves_def tokens.table_map keeps sessions.table_refl references_kept_same)
qed

lemma sessions_append:
  assumes "session_ok db" "session_check s" "ses_id s \<notin> ses_id ` set (sd_sessions db)"
    "ses_current_family_id s \<notin> ses_current_family_id ` set (sd_sessions db)"
    "owner_references db (Some (ses_user_id s)) (ses_tenant_id s) (ses_membership_id s)"
  shows "session_ok (db\<lparr>sd_sessions := sd_sessions db @ [s]\<rparr>) \<and> db_evolves db (db\<lparr>sd_sessions := sd_sessions db @ [s]\<rparr>)"
  using assms by (auto simp: session_ok_def db_evolves_def sessions.table_append tokens.table_refl references_kept_same)

lemma tokens_append:
  assumes "session_ok db" "refresh_check r" "\<forall>q\<in>set (sd_refresh db). \<not> refresh_conflict r q"
    and "s \<in> set (sd_sessions db)" "token_of r s"
    and "\<forall>q\<in>set (sd_refresh db). rfr_family_id q = rfr_family_id r \<longrightarrow> \<not> live q"
  shows "session_ok (db\<lparr>sd_refresh := sd_refresh db @ [r]\<rparr>) \<and> db_evolves db (db\<lparr>sd_refresh := sd_refresh db @ [r]\<rparr>)"
proof -
  have "rfr_id r \<notin> rfr_id ` set (sd_refresh db)" "rfr_token_hash r \<notin> rfr_token_hash ` set (sd_refresh db)"
    using assms(3) by (auto simp: refresh_conflict_def)
  then have "session_ok (db\<lparr>sd_refresh := sd_refresh db @ [r]\<rparr>)"
    using assms by (simp add: session_ok_def) (metis (no_types, lifting))
  then show ?thesis by (simp add: db_evolves_def sessions.table_refl tokens.table_append references_kept_same)
qed

lemma audit_ok: "session_ok (db\<lparr>sd_audit := rows\<rparr>) = session_ok db" "db_evolves db (db\<lparr>sd_audit := rows\<rparr>)"
  by (simp_all add: session_ok_def db_evolves_def sessions.table_refl tokens.table_refl references_kept_same)

text \<open>A family belongs to one session.\<close>

lemma family_session:
  assumes "session_ok db" "s \<in> set (sd_sessions db)" "r \<in> set (sd_refresh db)"
    and "rfr_family_id r = ses_current_family_id s \<or> rfr_session_id r = ses_id s"
  shows "token_of r s"
proof -
  obtain s' where s': "s' \<in> set (sd_sessions db)" "token_of r s'" using assms(1,3) by (auto simp: session_ok_def)
  have "s' = s"
    using assms s' by (auto simp: session_ok_def token_of_def distinct_map inj_on_def)
  with s' show ?thesis by simp
qed

subsection \<open>Ending a session\<close>

definition session_dead :: "uuid \<Rightarrow> session_db \<Rightarrow> bool" where
  "session_dead sid db \<longleftrightarrow> (\<exists>s\<in>set (sd_sessions db). ses_id s = sid \<and> ses_revoked_at s \<noteq> None)"

lemma session_dead_evolves: "db_evolves db db' \<Longrightarrow> session_dead sid db \<Longrightarrow> session_dead sid db'"
  by (fastforce simp: db_evolves_def table_keeps_def session_dead_def keeps_session_def)

lemma keeps_revoked: "keeps_refresh r (if p then revoke_token reason t r else r)"
    "keeps_session s (if p then revoke_login reason t s else s)"
  by (simp_all add: keeps_refresh_def keeps_session_def revoke_token_def revoke_login_def)

lemma revoke_tokens_ok:
  assumes "session_ok db" "revoke_tokens p reason now db = Inr db'" "\<And>r reason t. p (revoke_token reason t r) = p r"
  shows "session_ok db' \<and> db_evolves db db' \<and> sd_sessions db' = sd_sessions db
    \<and> (\<forall>r\<in>set (sd_refresh db'). p r \<longrightarrow> rfr_revoked_at r \<noteq> None)"
  using tokens_map [OF assms(1) keeps_revoked(1)] revoke_tokens_Inr [OF assms(2)] assms(3)
  by (auto simp: revoke_token_def)

lemma revoke_logins_ok:
  assumes "session_ok db" "revoke_logins p reason now db = Inr db'"
    and "\<And>s r. r \<in> set (sd_refresh db) \<Longrightarrow> token_of r s \<Longrightarrow> p s \<Longrightarrow> rfr_revoked_at r \<noteq> None"
  shows "session_ok db' \<and> db_evolves db db'"
proof -
  let ?f = "\<lambda>s. if p s \<and> ses_revoked_at s = None then revoke_login reason (dt_wall now) s else s"
  have "rfr_revoked_at r \<noteq> None"
    if "r \<in> set (sd_refresh db)" "token_of r s" "ses_revoked_at (?f s) \<noteq> None" for r s
  proof (cases "p s")
    case True
    then show ?thesis using assms(3) that(1,2) by blast
  next
    case False
    then have "ses_revoked_at s \<noteq> None" using that(3) by simp
    then show ?thesis using that(2) unfolding token_of_def by blast
  qed
  then have "session_ok (db\<lparr>sd_sessions := map ?f (sd_sessions db)\<rparr>)
      \<and> db_evolves db (db\<lparr>sd_sessions := map ?f (sd_sessions db)\<rparr>)"
    by (rule sessions_map [OF assms(1) keeps_revoked(2)])
  then show ?thesis unfolding revoke_logins_Inr [OF assms(2)] .
qed

lemma revoke_logins_dead:
  assumes "revoke_logins p reason now db = Inr db'" "s \<in> set (sd_sessions db)" "p s"
  shows "session_dead (ses_id s) db'"
proof -
  let ?s = "if p s \<and> ses_revoked_at s = None then revoke_login reason (dt_wall now) s else s"
  have "?s \<in> set (sd_sessions db')" using assms(2) unfolding revoke_logins_Inr [OF assms(1)] by auto
  moreover have "ses_id ?s = ses_id s" "ses_revoked_at ?s \<noteq> None" using assms(3) by (simp_all add: revoke_login_def)
  ultimately show ?thesis unfolding session_dead_def by blast
qed

lemma revoke_logins_families:
  "revoke_logins p reason now db = Inr db' \<Longrightarrow>
     map ses_current_family_id (sd_sessions db') = map ses_current_family_id (sd_sessions db)"
  by (drule revoke_logins_Inr) (simp add: revoke_login_def)

lemma revoke_pair_ok:
  assumes ok: "session_ok db" and s: "s \<in> set (sd_sessions db)"
    and family: "revoke_family (ses_current_family_id s) why now db = Inr db1"
    and login: "revoke_session (ses_id s) why now db1 = Inr db2"
  shows "session_ok db2 \<and> db_evolves db db2 \<and> session_dead (ses_id s) db2"
proof -
  have 1: "session_ok db1 \<and> db_evolves db db1 \<and> sd_sessions db1 = sd_sessions db
      \<and> (\<forall>r\<in>set (sd_refresh db1). rfr_family_id r = ses_current_family_id s \<longrightarrow> rfr_revoked_at r \<noteq> None)"
    by (rule revoke_tokens_ok [OF ok family [unfolded revoke_family_def]]) (simp add: revoke_token_def)
  have dead: "rfr_revoked_at r \<noteq> None" if "r \<in> set (sd_refresh db1)" "token_of r s'" "ses_id s' = ses_id s" for r s'
  proof -
    have "token_of r s"
      by (rule family_session) (use 1 s that in \<open>simp_all add: token_of_def\<close>)
    then show ?thesis using 1 that(1) by (simp add: token_of_def)
  qed
  have 2: "session_ok db2 \<and> db_evolves db1 db2"
    by (rule revoke_logins_ok [OF _ login [unfolded revoke_session_def]]) (use 1 dead in blast)+
  have "session_dead (ses_id s) db2"
    by (rule revoke_logins_dead [OF login [unfolded revoke_session_def]]) (use 1 s in simp_all)
  with 1 2 show ?thesis using db_evolves_trans by blast
qed

lemma append_event_ok:
  "append_event e db = Inr db' \<Longrightarrow> (session_ok db' \<longleftrightarrow> session_ok db) \<and> db_evolves db db'
     \<and> sd_sessions db' = sd_sessions db \<and> sd_refresh db' = sd_refresh db"
  by (drule append_event_Inr) (auto simp: audit_ok)

lemma end_session_ok:
  assumes ok: "session_ok db" and r: "r \<in> set (sd_refresh db)"
    and ended: "end_session (locked_refresh r) why fr ctx action res reason now db = Inr db'"
  shows "session_ok db' \<and> db_evolves db db' \<and> session_dead (rfr_session_id r) db'"
proof -
  obtain s where s: "s \<in> set (sd_sessions db)" "token_of r s" using ok r by (auto simp: session_ok_def)
  obtain db1 db2 where
    "revoke_family (ses_current_family_id s) why now db = Inr db1" "revoke_session (ses_id s) why now db1 = Inr db2"
    and app: "append_event (audit_event (sf_audit_id fr) ctx (Some (rfr_user_id r)) (rfr_tenant_id r)
      (rfr_membership_id r) action res reason (Some (rfr_session_id r)) now) db2 = Inr db'"
    using ended s(2) by (auto simp: end_session_def bindE_eq_Inr locked_refresh_def token_of_def)
  then have "session_ok db2 \<and> db_evolves db db2 \<and> session_dead (ses_id s) db2"
    using revoke_pair_ok [OF ok s(1)] by blast
  then show ?thesis
    using append_event_ok [OF app] s(2) db_evolves_trans session_dead_evolves by (metis token_of_def)
qed

subsection \<open>The operations keep the invariant\<close>

lemma get_validation_state_Some:
  assumes "get_validation_state sid db = Some state"
  obtains s u where "row_of ses_id sid (sd_sessions db) = Some s" "row_of usr_id (ses_user_id s) (sd_users db) = Some u"
    "state = validation_state s u (session_tenant s db) (session_member s db)"
  using assms by (auto simp: get_validation_state_def split: option.splits)

lemma validation_state_fields [simp]:
  "svs_session_id (validation_state s u t m) = ses_id s" "svs_user_id (validation_state s u t m) = ses_user_id s"
  "svs_session_tenant_id (validation_state s u t m) = ses_tenant_id s"
  "svs_session_membership_id (validation_state s u t m) = ses_membership_id s"
  "svs_current_family_id (validation_state s u t m) = ses_current_family_id s"
  "svs_auth_version_at_issue (validation_state s u t m) = ses_auth_version_at_issue s"
  "svs_authz_version_at_issue (validation_state s u t m) = ses_authz_version_at_issue s"
  "svs_revoked_at (validation_state s u t m) = aware_optional (ses_revoked_at s)"
  "svs_expires_at (validation_state s u t m) = aware (ses_expires_at s)"
  "svs_user_status (validation_state s u t m) = usr_status u"
  "svs_user_auth_version (validation_state s u t m) = usr_auth_version u"
  "svs_tenant_status (validation_state s u t m) = map_option ten_status t"
  "svs_membership_user_id (validation_state s u t m) = map_option mbr_user_id m"
  "svs_membership_status (validation_state s u t m) = map_option mbr_status m"
  "svs_membership_authz_version (validation_state s u t m) = map_option mbr_authz_version m"
  by (simp_all add: validation_state_def)

lemma lock_session_eq [simp]: "lock_session sid db = get_validation_state sid db"
proof (cases "row_of ses_id sid (sd_sessions db)")
  case (Some s)
  then have "ses_id s = sid" by (auto dest: row_of_SomeD)
  with Some show ?thesis by (simp add: lock_session_def)
qed (simp add: lock_session_def get_validation_state_def)

lemma authoritative_live:
  "state_is_authoritative state claims now \<Longrightarrow> svs_revoked_at state = None \<and> instant now < instant (svs_expires_at state)
     \<and> svs_user_status state = ''active'' \<and> svs_auth_version_at_issue state = svs_user_auth_version state"
  by (simp add: state_is_authoritative_def split: if_split_asm)

lemma locked_refresh_fields [simp]:
  "lrt_id (locked_refresh r) = rfr_id r" "lrt_family_id (locked_refresh r) = rfr_family_id r"
  "lrt_session_id (locked_refresh r) = rfr_session_id r" "lrt_user_id (locked_refresh r) = rfr_user_id r"
  "lrt_tenant_id (locked_refresh r) = rfr_tenant_id r" "lrt_membership_id (locked_refresh r) = rfr_membership_id r"
  "lrt_used_at (locked_refresh r) = None \<longleftrightarrow> rfr_used_at r = None"
  "lrt_revoked_at (locked_refresh r) = None \<longleftrightarrow> rfr_revoked_at r = None"
  "lrt_expires_at (locked_refresh r) = aware (rfr_expires_at r)"
  by (simp_all add: locked_refresh_def)

lemma rotate_ok:
  assumes ok: "session_ok db" and r: "r \<in> set (sd_refresh db)" and live: "live r"
    and s: "s \<in> set (sd_sessions db)" "token_of r s" "ses_revoked_at s = None"
    and rot: "rotate svc fr ctx now (locked_refresh r) state db = Inr (res, db')"
  shows "session_ok db' \<and> db_evolves db db'
    \<and> (\<exists>r'\<in>set (sd_refresh db'). rfr_token_hash r' = rfr_token_hash r \<and> rfr_used_at r' \<noteq> None)"
proof -
  let ?n = "refresh_record svc fr (rfr_family_id r) (rfr_session_id r) (rfr_user_id r) (rfr_tenant_id r)
    (rfr_membership_id r) now"
  obtain db1 db2 db3 db4 where
    1: "mark_refresh_used (rfr_id r) now db = Inr db1" and 2: "add_refresh ?n db1 = Inr db2"
    and 3: "link_refresh_replacement (rfr_id r) (nrt_id ?n) now db2 = Inr db3"
    and 4: "touch_session (rfr_session_id r) now (nrt_expires_at ?n) db3 = Inr db4"
    and 5: "append_event (audit_event (sf_audit_id fr) ctx (Some (rfr_user_id r)) (rfr_tenant_id r)
      (rfr_membership_id r) ''session.refresh'' ''success'' ''rotated'' (Some (rfr_session_id r)) now) db4 = Inr db'"
    using rot by (auto simp: rotate_def Let_def bindE_eq_Inr)
  let ?mark = "\<lambda>q. if rfr_id q = rfr_id r
      then q\<lparr>rfr_used_at := Some (dt_wall now), rfr_version := rfr_version q + 1\<rparr> else q"
  have db1: "db1 = db\<lparr>sd_refresh := map ?mark (sd_refresh db)\<rparr>" using mark_refresh_used_Inr [OF 1] by blast
  have ok1: "session_ok db1 \<and> db_evolves db db1"
    unfolding db1 by (rule tokens_map [OF ok]) (simp add: keeps_refresh_def)
  have used: "?mark r \<in> set (sd_refresh db1)" using r unfolding db1 by auto
  have none: "\<not> live q" if q: "q \<in> set (sd_refresh db1)" "rfr_family_id q = rfr_family_id r" for q
  proof
    assume "live q"
    obtain p where p: "p \<in> set (sd_refresh db)" "q = ?mark p" using q(1) db1 by auto
    then have "live p" "rfr_id p \<noteq> rfr_id r" "rfr_family_id p = rfr_family_id r"
      using \<open>live q\<close> q(2) by (auto simp: live_def split: if_splits)
    then show False using ok p(1) r live unfolding session_ok_def by blast
  qed
  obtain m where m: "refresh_model ?n = Inr m" "refresh_check m" "\<forall>q\<in>set (sd_refresh db1). \<not> refresh_conflict m q"
      "db2 = db1\<lparr>sd_refresh := sd_refresh db1 @ [m]\<rparr>"
    using add_refresh_Inr [OF 2] by metis
  have fields: "rfr_family_id m = rfr_family_id r" "token_of m s"
    using refresh_model_Inr [OF m(1)] s(2,3) by (simp_all add: refresh_record_def token_of_def)
  have ok2: "session_ok db2 \<and> db_evolves db1 db2"
    unfolding m(4) by (rule tokens_append [OF _ m(2,3) _ fields(2)]) (use ok1 s(1) db1 none fields(1) in simp_all)
  have ok3: "session_ok db3 \<and> db_evolves db2 db3"
    unfolding link_refresh_replacement_Inr [OF 3] using ok2 by (intro tokens_map) (simp_all add: keeps_refresh_def)
  have ok4: "session_ok db4 \<and> db_evolves db3 db4"
    unfolding touch_session_Inr [OF 4]
    by (rule sessions_map) (use ok3 in \<open>auto simp: keeps_session_def token_of_def split: if_split_asm\<close>)
  have "db_evolves db1 db'" using ok2 ok3 ok4 append_event_ok [OF 5] by (meson db_evolves_trans)
  then have "\<exists>r'\<in>set (sd_refresh db'). keeps_refresh (?mark r) r'"
    using used by (simp add: db_evolves_def table_keeps_def)
  then have "\<exists>r'\<in>set (sd_refresh db'). rfr_token_hash r' = rfr_token_hash r \<and> rfr_used_at r' \<noteq> None"
    by (auto simp: keeps_refresh_def)
  then show ?thesis using ok1 ok4 \<open>db_evolves db1 db'\<close> append_event_ok [OF 5] by (blast intro: db_evolves_trans)
qed

lemma lock_current_Some:
  assumes "lock_current h db = Inr (Some t)"
  obtains r where "row_of rfr_token_hash h (sd_refresh db) = Some r" "t = locked_refresh r"
  using assms by (auto simp: lock_current_def lock_refresh_def bindE_eq_Inr split: option.splits if_splits)

text \<open>What a finished unit of work of \<open>refresh\<close> left behind.\<close>

fun refresh_post :: "bytes \<Rightarrow> refresh_outcome \<Rightarrow> session_db \<Rightarrow> bool" where
  "refresh_post h (Rotated res) db = (\<exists>r\<in>set (sd_refresh db). rfr_token_hash r = h \<and> rfr_used_at r \<noteq> None)"
| "refresh_post h (Replayed sid) db = session_dead sid db"
| "refresh_post h (Refused None) db = True"
| "refresh_post h (Refused (Some sid)) db = session_dead sid db"

lemma refresh_current_ok:
  assumes ok: "session_ok db" and r: "r \<in> set (sd_refresh db)"
    and out: "refresh_current svc fr ctx now (locked_refresh r) db = Inr (res, db')"
  shows "session_ok db' \<and> db_evolves db db' \<and> refresh_post (rfr_token_hash r) res db'"
proof -
  obtain s where s: "s \<in> set (sd_sessions db)" "token_of r s" using ok r by (auto simp: session_ok_def)
  show ?thesis
  proof (cases "\<exists>rot. res = Rotated rot")
    case True
    then obtain rot where res: "res = Rotated rot" ..
    obtain state where "get_validation_state (rfr_session_id r) db = Some state"
        "state_is_authoritative state None now" "lrt_used_at (locked_refresh r) = None"
        "refresh_is_current (locked_refresh r) now"
        and rotated: "rotate svc fr ctx now (locked_refresh r) state db = Inr (rot, db')"
      using out unfolding refresh_current_def res Let_def
      by (auto simp: bindE_eq_Inr split: if_split_asm option.split_asm)
    moreover from this obtain s' u where "row_of ses_id (rfr_session_id r) (sd_sessions db) = Some s'"
        "state = validation_state s' u (session_tenant s' db) (session_member s' db)"
      by (auto elim: get_validation_state_Some)
    moreover from this have "s' = s"
      using ok s by (auto simp: session_ok_def row_of_iff token_of_def distinct_map inj_on_def)
    ultimately have "ses_revoked_at s = None" "live r"
      by (auto simp: live_def refresh_is_current_def dest!: authoritative_live)
    from rotate_ok [OF ok r this(2) s this(1) rotated] show ?thesis by (simp add: res)
  next
    case False
    then obtain why action res\<^sub>a reason where
      "end_session (locked_refresh r) why fr ctx action res\<^sub>a reason now db = Inr db'"
      "res = Replayed (rfr_session_id r) \<or> res = Refused (Some (rfr_session_id r))"
      using out unfolding refresh_current_def revoke_for_replay_def Let_def
      by (auto simp: bindE_eq_Inr split: if_split_asm option.split_asm)
    with end_session_ok [OF ok r] show ?thesis by fastforce
  qed
qed

lemma refresh_body_ok:
  assumes ok: "session_ok db" and out: "refresh_body svc fr raw ctx now db = Inr (res, db')"
  shows "session_ok db' \<and> db_evolves db db' \<and> refresh_post (refresh_hash svc raw) res db'"
proof -
  obtain current where cur: "lock_current (refresh_hash svc raw) db = Inr current"
    using out by (auto simp: refresh_body_def bindE_eq_Inr)
  show ?thesis
  proof (cases current)
    case None
    then have "append_event (audit_event (sf_audit_id fr) ctx None None None ''session.refresh'' ''failure''
        ''authentication_failed'' None now) db = Inr db'" "res = Refused None"
      using out cur by (auto simp: refresh_body_def bindE_eq_Inr)
    with append_event_ok ok show ?thesis by auto
  next
    case (Some t)
    then obtain r where r: "row_of rfr_token_hash (refresh_hash svc raw) (sd_refresh db) = Some r" "t = locked_refresh r"
      using lock_current_Some cur by metis
    then have "refresh_current svc fr ctx now (locked_refresh r) db = Inr (res, db')"
      using out cur Some by (simp add: refresh_body_def)
    from refresh_current_ok [OF ok _ this] r(1) show ?thesis by (auto dest: row_of_SomeD)
  qed
qed

lemma start_session_ok:
  assumes ok: "session_ok db" and n: "new_session_material svc fr u t now = (n, r)"
    and fresh: "sf_family_id fr \<notin> ses_current_family_id ` set (sd_sessions db)"
    and 1: "add_session n db = Inr db1" and 2: "add_refresh r db1 = Inr db2"
  shows "session_ok db2 \<and> db_evolves db db2"
proof -
  have n_def: "n = new_session fr u t now" and r_def: "r = refresh_record svc fr (sf_family_id fr) (sf_session_id fr)
      (uss_user_id u) (map_option tss_tenant_id t) (map_option tss_membership_id t) now"
    using n by (auto simp: new_session_material_def Let_def new_session_def)
  obtain s where s: "session_model n = Inr s" "session_check s" "\<forall>q\<in>set (sd_sessions db). ses_id q \<noteq> ses_id s"
      "owner_references db (Some (ses_user_id s)) (ses_tenant_id s) (ses_membership_id s)"
      "db1 = db\<lparr>sd_sessions := sd_sessions db @ [s]\<rparr>"
    using add_session_Inr [OF 1] by metis
  have s_family: "ses_current_family_id s = sf_family_id fr"
    using session_model_Inr [OF s(1)] by (simp add: n_def new_session_def)
  have ok1: "session_ok db1 \<and> db_evolves db db1"
    unfolding s(5) using s(3,4) fresh by (intro sessions_append [OF ok s(2)]) (auto simp: s_family)
  obtain m where m: "refresh_model r = Inr m" "refresh_check m" "\<forall>q\<in>set (sd_refresh db1). \<not> refresh_conflict m q"
      "db2 = db1\<lparr>sd_refresh := sd_refresh db1 @ [m]\<rparr>"
    using add_refresh_Inr [OF 2] by metis
  have m_token: "token_of m s" "rfr_family_id m = sf_family_id fr"
    using session_model_Inr [OF s(1)] refresh_model_Inr [OF m(1)]
    by (simp_all add: n_def r_def new_session_def refresh_record_def token_of_def)
  have "rfr_family_id q \<noteq> rfr_family_id m" if q: "q \<in> set (sd_refresh db1)" for q
  proof -
    obtain s' where "s' \<in> set (sd_sessions db)" "token_of q s'" using ok q s(5) by (auto simp: session_ok_def)
    then show ?thesis using fresh unfolding token_of_def m_token by (metis image_eqI)
  qed
  then have "session_ok db2 \<and> db_evolves db1 db2"
    unfolding m(4) using ok1 s(5) by (intro tokens_append [OF _ m(2,3) _ m_token(1)]) auto
  with ok1 show ?thesis by (blast intro: db_evolves_trans)
qed

lemma start_body_ok:
  assumes ok: "session_ok db" and fresh: "sf_family_id fr \<notin> ses_current_family_id ` set (sd_sessions db)"
    and out: "start_body svc fr user ctx now db = Inr (res, db')"
  shows "session_ok db' \<and> db_evolves db db'"
proof -
  obtain u n r db1 db2 e where "new_session_material svc fr u None now = (n, r)" "add_session n db = Inr db1"
      "add_refresh r db1 = Inr db2" and app: "append_event e db2 = Inr db'"
    using out by (auto simp: start_body_def bindE_eq_Inr Let_def split: option.split_asm if_split_asm prod.split_asm)
  then have "session_ok db2 \<and> db_evolves db db2" using start_session_ok [OF ok _ fresh] by blast
  with append_event_ok [OF app] show ?thesis by (blast intro: db_evolves_trans)
qed

lemma revoke_body_Inr:
  assumes "revoke_body fr sid why ctx now db = Inr (ended, db')"
  obtains "\<not> ended" "db' = db"
  | state db1 db2 e where "ended" "get_validation_state sid db = Some state"
      "revoke_family (svs_current_family_id state) why now db = Inr db1" "revoke_session sid why now db1 = Inr db2"
      "append_event e db2 = Inr db'"
proof -
  obtain located where located: "locate_session sid db = Inr located"
    using assms by (auto simp: revoke_body_def bindE_eq_Inr)
  show thesis
  proof (cases located)
    case None
    then show ?thesis using assms located that(1) by (simp add: revoke_body_def)
  next
    case (Some l)
    obtain ok where ok: "acquire_session_family (sll_session_id l) (sll_family_id l)
        (ordered_tenant_ids [sll_tenant_id l]) db = Inr ok"
      using assms Some located by (auto simp: revoke_body_def bindE_eq_Inr)
    show ?thesis
    proof (cases "\<exists>state. ok \<and> get_validation_state sid db = Some state \<and> session_matches_locator state l")
      case True
      then show ?thesis using assms Some located ok that(2) by (auto simp: revoke_body_def bindE_eq_Inr)
    next
      case False
      then have "Inr (False, db) = (Inr (ended, db') :: (bool \<times> session_db) result)"
        using assms Some located ok by (auto simp: revoke_body_def split: option.split_asm if_split_asm)
      then show ?thesis using that(1) by simp
    qed
  qed
qed

lemma revoke_body_ok:
  assumes ok: "session_ok db" and out: "revoke_body fr sid why ctx now db = Inr (ended, db')"
  shows "session_ok db' \<and> db_evolves db db' \<and> (ended \<longrightarrow> session_dead sid db')"
  using out
proof (cases rule: revoke_body_Inr)
  case (2 state db1 db2 e)
  obtain s u where "row_of ses_id sid (sd_sessions db) = Some s"
      "state = validation_state s u (session_tenant s db) (session_member s db)"
    using 2(2) by (rule get_validation_state_Some)
  then have "session_ok db2 \<and> db_evolves db db2 \<and> session_dead sid db2"
    using revoke_pair_ok [OF ok, of s why now db1 db2] 2 by (auto dest!: row_of_SomeD)
  with append_event_ok [OF 2(5)] show ?thesis by (blast intro: db_evolves_trans session_dead_evolves)
qed (use ok in simp)

lemma tenant_access_body_ok:
  assumes "session_ok db" "tenant_access_body svc fr cmd l ctx now db = Inr (tok, db')"
  shows "session_ok db' \<and> db_evolves db db'"
proof -
  obtain e where "append_event e db = Inr db'"
    using assms(2) by (auto simp: tenant_access_body_def bindE_eq_Inr split: option.split_asm if_split_asm)
  with append_event_ok assms(1) show ?thesis by blast
qed

lemma switch_tenant_body_Inr:
  assumes "switch_tenant_body svc fr cmd l ctx now db = Inr (res, db')"
  obtains current t db1 db2 db3 db4 e where
    "lock_session (stc_session_id cmd) db = Some current"
    "lock_tenant_context (sll_user_id l) (stc_tenant_id cmd) (stc_membership_id cmd) db = Some t"
    "session_matches_locator current l" "state_is_authoritative current None now" "tenant_is_active t now"
    "revoke_family (svs_current_family_id current) TENANT_SWITCHED now db = Inr db1"
    "revoke_session (svs_session_id current) TENANT_SWITCHED now db1 = Inr db2"
    "add_session (fst (new_session_material svc fr \<lparr>uss_user_id = svs_user_id current,
        uss_status = svs_user_status current, uss_auth_version = svs_user_auth_version current\<rparr> (Some t) now)) db2 = Inr db3"
    "add_refresh (snd (new_session_material svc fr \<lparr>uss_user_id = svs_user_id current,
        uss_status = svs_user_status current, uss_auth_version = svs_user_auth_version current\<rparr> (Some t) now)) db3 = Inr db4"
    "append_event e db4 = Inr db'" "sres_session_id res = sf_session_id fr" "sres_family_id res = sf_family_id fr"
  using assms by (auto simp: switch_tenant_body_def bindE_eq_Inr case_prod_beta Let_def new_session_material_def
      new_session_def split: option.split_asm if_split_asm)

lemma switch_tenant_body_ok:
  assumes ok: "session_ok db" and fresh: "sf_family_id fr \<notin> ses_current_family_id ` set (sd_sessions db)"
    and out: "switch_tenant_body svc fr cmd l ctx now db = Inr (res, db')"
  shows "session_ok db' \<and> db_evolves db db' \<and> session_dead (stc_session_id cmd) db'"
  using out
proof (cases rule: switch_tenant_body_Inr)
  case (1 current t db1 db2 db3 db4 e)
  obtain s where s: "row_of ses_id (stc_session_id cmd) (sd_sessions db) = Some s"
      "svs_current_family_id current = ses_current_family_id s" "svs_session_id current = ses_id s"
    using 1(1) by (auto elim: get_validation_state_Some)
  have ended: "session_ok db2 \<and> db_evolves db db2 \<and> session_dead (stc_session_id cmd) db2"
    using revoke_pair_ok [OF ok, of s TENANT_SWITCHED now db1 db2] 1(6,7) s row_of_SomeD [OF s(1)] by simp
  have "ses_current_family_id ` set (sd_sessions db2) = ses_current_family_id ` set (sd_sessions db)"
    using revoke_logins_families [OF 1(7) [unfolded revoke_session_def], THEN arg_cong, of set]
    unfolding revoke_tokens_Inr [OF 1(6) [unfolded revoke_family_def]] by simp
  then have "session_ok db4 \<and> db_evolves db2 db4"
    using start_session_ok [OF _ prod.collapse [symmetric] _ 1(8,9)] ended fresh by simp
  with ended append_event_ok [OF 1(10)] show ?thesis by (meson db_evolves_trans session_dead_evolves)
qed

lemma revoke_for_membership_ok:
  assumes ok: "session_ok db" and out: "revoke_for_membership tenant membership reason now db = Inr db'"
  shows "session_ok db' \<and> db_evolves db db'"
proof -
  obtain db1 where 1: "revoke_tokens (\<lambda>r. rfr_tenant_id r = Some tenant \<and> rfr_membership_id r = Some membership) reason now db = Inr db1"
      and 2: "revoke_logins (\<lambda>s. ses_tenant_id s = Some tenant \<and> ses_membership_id s = Some membership) reason now db1 = Inr db'"
    using out by (auto simp: revoke_for_membership_def bindE_eq_Inr)
  have first: "session_ok db1 \<and> db_evolves db db1 \<and> sd_sessions db1 = sd_sessions db
      \<and> (\<forall>r\<in>set (sd_refresh db1). rfr_tenant_id r = Some tenant \<and> rfr_membership_id r = Some membership
           \<longrightarrow> rfr_revoked_at r \<noteq> None)"
    by (rule revoke_tokens_ok [OF ok 1]) (simp add: revoke_token_def)
  have "session_ok db' \<and> db_evolves db1 db'"
    by (rule revoke_logins_ok [OF _ 2]) (use first in \<open>auto simp: token_of_def\<close>)
  with first show ?thesis by (blast intro: db_evolves_trans)
qed

end
