(* ===== verification/SessionSafety.thy ===== *)
theory SessionSafety
  imports SessionInvariant
begin

text \<open>
  Sessions as a state machine: the operations of the service in any order, each in its own transaction and
  with any outcome, the revocation for a membership, and the changes other components make to users,
  tenants, memberships and the audit trail.  Calls that read a locator first are steps for any locator, so
  that whatever happens between their two transactions is covered.
\<close>

subsection \<open>Steps\<close>

definition families :: "session_db \<Rightarrow> uuid set" where
  "families db = ses_current_family_id ` set (sd_sessions db)"

inductive session_step :: "'c session_service \<Rightarrow> session_db \<Rightarrow> session_db \<Rightarrow> bool" for svc where
  step_start: "sf_family_id fr \<notin> families db \<Longrightarrow> session_step svc db (snd (start svc fr user ctx clock db))"
| step_refresh: "session_step svc db (fst (snd (refresh svc fr raw ctx clock (db, c))))"
| step_revoke: "session_step svc db (fst (snd (revoke svc fr sid why ctx clock (db, c))))"
| step_tenant_access: "session_step svc db (snd (transaction (tenant_access_body svc fr cmd l ctx now) db))"
| step_switch: "sf_family_id fr \<notin> families db \<Longrightarrow>
    session_step svc db (snd (transaction (switch_tenant_body svc fr cmd l ctx now) db))"
| step_membership: "revoke_for_membership tenant membership reason now db = Inr db' \<Longrightarrow> session_step svc db db'"
| step_other: "sd_sessions db' = sd_sessions db \<Longrightarrow> sd_refresh db' = sd_refresh db \<Longrightarrow> references_kept db db' \<Longrightarrow>
    session_step svc db db'"

definition session_run :: "'c session_service \<Rightarrow> session_db \<Rightarrow> session_db \<Rightarrow> bool" where
  "session_run svc = (session_step svc)\<^sup>*\<^sup>*"

subsection \<open>Every step keeps the invariant\<close>

lemma transaction_ok:
  assumes "session_ok db" "\<And>a db'. body db = Inr (a, db') \<Longrightarrow> session_ok db' \<and> db_evolves db db'"
  shows "session_ok (snd (transaction body db)) \<and> db_evolves db (snd (transaction body db))"
  using assms by (auto simp: transaction_def split: sum.split prod.split)

lemma refresh_db:
  "fst (snd (refresh svc fr raw ctx clock (db, c))) =
     (if is_utc clock then snd (transaction (refresh_body svc fr raw ctx clock) db) else db)"
  by (auto simp: refresh_def service_now_def require_eval transaction_def
      split: sum.split prod.split refresh_outcome.split option.split)

lemma revoke_db:
  "fst (snd (revoke svc fr sid why ctx clock (db, c))) =
     (if is_utc clock then snd (transaction (revoke_body fr sid why ctx clock) db) else db)"
  by (auto simp: revoke_def service_now_def require_eval transaction_def split: sum.split prod.split)

lemma start_db:
  "snd (start svc fr user ctx clock db) =
     (if is_utc clock then snd (transaction (start_body svc fr user ctx clock) db) else db)"
  by (auto simp: start_def service_now_def require_eval)

lemma session_step_ok:
  "session_step svc db db' \<Longrightarrow> session_ok db \<Longrightarrow> session_ok db' \<and> db_evolves db db'"
proof (induction rule: session_step.induct)
  case (step_start fr db user ctx clock)
  have "session_ok (snd (transaction (start_body svc fr user ctx clock) db))
      \<and> db_evolves db (snd (transaction (start_body svc fr user ctx clock) db))"
    by (rule transaction_ok [OF step_start(2)])
      (rule start_body_ok [OF step_start(2) step_start(1) [unfolded families_def]])
  with step_start(2) show ?case by (simp add: start_db)
next
  case (step_refresh db fr raw ctx clock c)
  have "session_ok (snd (transaction (refresh_body svc fr raw ctx clock) db))
      \<and> db_evolves db (snd (transaction (refresh_body svc fr raw ctx clock) db))"
    by (rule transaction_ok [OF step_refresh]) (use refresh_body_ok [OF step_refresh] in blast)
  with step_refresh show ?case by (simp add: refresh_db)
next
  case (step_revoke db fr sid why ctx clock c)
  have "session_ok (snd (transaction (revoke_body fr sid why ctx clock) db))
      \<and> db_evolves db (snd (transaction (revoke_body fr sid why ctx clock) db))"
    by (rule transaction_ok [OF step_revoke]) (use revoke_body_ok [OF step_revoke] in blast)
  with step_revoke show ?case by (simp add: revoke_db)
next
  case (step_tenant_access db fr cmd l ctx now)
  show ?case by (rule transaction_ok [OF step_tenant_access]) (rule tenant_access_body_ok [OF step_tenant_access])
next
  case (step_switch fr db cmd l ctx now)
  show ?case
    by (rule transaction_ok [OF step_switch(2)])
      (use switch_tenant_body_ok [OF step_switch(2) step_switch(1) [unfolded families_def]] in blast)
next
  case (step_membership tenant membership reason now db db')
  then show ?case by (blast dest: revoke_for_membership_ok)
next
  case (step_other db' db)
  then have "session_ok db'"
    by (auto simp: session_ok_def intro: owner_references_kept)
  with step_other show ?case by (simp add: db_evolves_def sessions.table_refl tokens.table_refl)
qed

lemma session_run_ok:
  "session_run svc db db' \<Longrightarrow> session_ok db \<Longrightarrow> session_ok db' \<and> db_evolves db db'"
  unfolding session_run_def
  by (induction rule: rtranclp_induct) (auto dest: session_step_ok intro: db_evolves_trans)

subsection \<open>One live token per session\<close>

lemma length_le_one: "(\<And>x y. x \<in> set xs \<Longrightarrow> y \<in> set xs \<Longrightarrow> x = y) \<Longrightarrow> distinct xs \<Longrightarrow> length xs \<le> 1"
  by (metis One_nat_def card_le_Suc0_iff_eq distinct_card finite_set)

text \<open>
  C8. From a database without sessions, in every state that any sequence of operations reaches, a
  session has at most one refresh token that is neither used nor revoked, none once the session is revoked,
  and every token of it has the session's user, tenant, membership and family.
\<close>

theorem one_live_token:
  assumes "session_run svc db0 db" "sd_sessions db0 = []" "sd_refresh db0 = []" "s \<in> set (sd_sessions db)"
    and "ts = filter (\<lambda>r. rfr_session_id r = ses_id s) (sd_refresh db)"
  shows "length (filter live ts) \<le> (if ses_revoked_at s = None then 1 else 0)
    \<and> list_all (\<lambda>r. rfr_user_id r = ses_user_id s \<and> rfr_tenant_id r = ses_tenant_id s
         \<and> rfr_membership_id r = ses_membership_id s \<and> rfr_family_id r = ses_current_family_id s) ts"
proof -
  have ok: "session_ok db" using session_run_ok [OF assms(1)] assms(2,3) by (simp add: session_ok_def)
  have tok: "token_of r s" if "r \<in> set ts" for r
    using family_session [OF ok assms(4)] that assms(5) by auto
  have "length (filter live ts) \<le> 1"
  proof -
    have "r = q" if "r \<in> set (filter live ts)" "q \<in> set (filter live ts)" for r q
      using ok that tok [of r] tok [of q] assms(5) unfolding session_ok_def token_of_def by auto
    moreover have "distinct (filter live ts)"
      using ok assms(5) by (simp add: session_ok_def distinct_map)
    ultimately show ?thesis by (rule length_le_one)
  qed
  moreover have "filter live ts = []" if "ses_revoked_at s \<noteq> None"
    using tok that by (auto simp: filter_empty_conv live_def token_of_def)
  moreover have "list_all (\<lambda>r. rfr_user_id r = ses_user_id s \<and> rfr_tenant_id r = ses_tenant_id s
         \<and> rfr_membership_id r = ses_membership_id s \<and> rfr_family_id r = ses_current_family_id s) ts"
    using tok by (auto simp: list_all_iff token_of_def)
  ultimately show ?thesis by auto
qed

subsection \<open>A session that has ended\<close>

definition refresh_denied :: "'c session_service \<Rightarrow> uuid \<Rightarrow> session_db \<Rightarrow> bool" where
  "refresh_denied svc sid db \<longleftrightarrow> (\<forall>fr raw ctx clock c res. fst (refresh svc fr raw ctx clock (db, c)) = Inr res
     \<longrightarrow> sres_session_id res \<noteq> sid)"

definition access_denied :: "'c session_service \<Rightarrow> uuid \<Rightarrow> session_db \<Rightarrow> bool" where
  "access_denied svc sid db \<longleftrightarrow> (\<forall>encoded audience clock c v. fst (validate_access svc encoded audience clock (db, c)) = Inr v
     \<longrightarrow> vs_session_id v \<noteq> sid)"

definition tenant_denied :: "'c session_service \<Rightarrow> uuid \<Rightarrow> session_db \<Rightarrow> bool" where
  "tenant_denied svc sid db \<longleftrightarrow> (\<forall>fr cmd ctx clock. stc_session_id cmd = sid
     \<longrightarrow> (\<forall>tok. fst (tenant_access svc fr cmd ctx clock (\<lambda>d. d) db) \<noteq> Inr tok)
       \<and> (\<forall>res c. fst (switch_tenant svc fr cmd ctx clock (\<lambda>d. d) (db, c)) \<noteq> Inr res))"

text \<open>The session is rejected by every operation that would act for it.\<close>

definition unusable :: "'c session_service \<Rightarrow> uuid \<Rightarrow> session_db \<Rightarrow> bool" where
  "unusable svc sid db \<longleftrightarrow> refresh_denied svc sid db \<and> access_denied svc sid db \<and> tenant_denied svc sid db"

lemma dead_not_authoritative:
  assumes "session_ok db" "session_dead sid db" "get_validation_state sid db = Some state"
  shows "\<not> state_is_authoritative state claims now"
proof -
  obtain s u where s: "row_of ses_id sid (sd_sessions db) = Some s"
      "state = validation_state s u (session_tenant s db) (session_member s db)"
    using assms(3) by (rule get_validation_state_Some)
  obtain s' where "s' \<in> set (sd_sessions db)" "ses_id s' = sid" "ses_revoked_at s' \<noteq> None"
    using assms(2) by (auto simp: session_dead_def)
  then have "row_of ses_id sid (sd_sessions db) = Some s'" using assms(1) by (simp add: session_ok_def row_of_iff)
  then have "svs_revoked_at state \<noteq> None" using s \<open>ses_revoked_at s' \<noteq> None\<close> by simp
  then show ?thesis using authoritative_live [of state claims now] by (cases "state_is_authoritative state claims now") simp_all
qed

lemma state_session:
  assumes "get_validation_state sid db = Some state"
  shows "svs_session_id state = sid"
proof -
  obtain s u where "row_of ses_id sid (sd_sessions db) = Some s"
      "state = validation_state s u (session_tenant s db) (session_member s db)"
    using assms by (rule get_validation_state_Some)
  then show ?thesis using row_of_SomeD [of ses_id sid "sd_sessions db" s] by simp
qed

lemma refresh_utc:
  "is_utc clock \<Longrightarrow> refresh svc fr raw ctx clock (db, c) =
     (case transaction (refresh_body svc fr raw ctx clock) db of
            (Inl e, db1) \<Rightarrow> (Inl e, db1, c)
          | (Inr (Rotated r), db1) \<Rightarrow> (Inr r, db1, invalidate_cache svc (sres_session_id r) c)
          | (Inr (Replayed sid), db1) \<Rightarrow> (Inl RefreshReplayDetected, db1, invalidate_cache svc sid c)
          | (Inr (Refused sid), db1) \<Rightarrow> (Inl InvalidRefreshToken, db1,
              case sid of None \<Rightarrow> c | Some i \<Rightarrow> invalidate_cache svc i c))"
  by (simp add: refresh_def service_now_def require_eval)

lemma refresh_not_utc: "\<not> is_utc clock \<Longrightarrow> fst (refresh svc fr raw ctx clock (db, c)) =
    Inl (ValueError ''session clock must return a UTC-aware datetime'')"
  by (simp add: refresh_def service_now_def require_eval)

lemma refresh_Inr:
  assumes "fst (refresh svc fr raw ctx clock (db, c)) = Inr res"
  obtains db' where "refresh_body svc fr raw ctx clock db = Inr (Rotated res, db')" "is_utc clock"
    "fst (snd (refresh svc fr raw ctx clock (db, c))) = db'"
proof -
  have utc: "is_utc clock" using assms by (cases "is_utc clock") (simp_all add: refresh_not_utc)
  have eq: "fst (case transaction (refresh_body svc fr raw ctx clock) db of
            (Inl e, db1) \<Rightarrow> (Inl e, db1, c)
          | (Inr (Rotated r), db1) \<Rightarrow> (Inr r, db1, invalidate_cache svc (sres_session_id r) c)
          | (Inr (Replayed sid), db1) \<Rightarrow> (Inl RefreshReplayDetected, db1, invalidate_cache svc sid c)
          | (Inr (Refused sid), db1) \<Rightarrow> (Inl InvalidRefreshToken, db1,
              case sid of None \<Rightarrow> c | Some i \<Rightarrow> invalidate_cache svc i c)) = Inr res"
    using assms unfolding refresh_utc [OF utc] .
  then obtain db' where "refresh_body svc fr raw ctx clock db = Inr (Rotated res, db')"
    by (simp add: transaction_def split: sum.split_asm prod.split_asm refresh_outcome.split_asm)
  with utc that show thesis by (simp add: refresh_utc transaction_def)
qed

lemma refresh_current_Rotated:
  assumes "refresh_current svc fr ctx now t db = Inr (Rotated res, db')"
  shows "\<exists>state. get_validation_state (lrt_session_id t) db = Some state \<and> state_is_authoritative state None now
    \<and> refresh_matches_state t state \<and> refresh_is_current t now \<and> rotate svc fr ctx now t state db = Inr (res, db')"
  using assms unfolding refresh_current_def Let_def
  by (auto simp: bindE_eq_Inr split: if_split_asm option.split_asm)

lemma refresh_body_Rotated:
  assumes "refresh_body svc fr raw ctx now db = Inr (Rotated res, db')"
  obtains r state where "row_of rfr_token_hash (refresh_hash svc raw) (sd_refresh db) = Some r"
    "lock_current (refresh_hash svc raw) db = Inr (Some (locked_refresh r))"
    "get_validation_state (rfr_session_id r) db = Some state" "state_is_authoritative state None now"
    "refresh_is_current (locked_refresh r) now" "rotate svc fr ctx now (locked_refresh r) state db = Inr (res, db')"
proof -
  obtain current where cur: "lock_current (refresh_hash svc raw) db = Inr current"
    using assms by (auto simp: refresh_body_def bindE_eq_Inr)
  then obtain t where t: "current = Some t"
    using assms by (cases current) (auto simp: refresh_body_def bindE_eq_Inr)
  then obtain r where r: "row_of rfr_token_hash (refresh_hash svc raw) (sd_refresh db) = Some r" "t = locked_refresh r"
    using lock_current_Some cur by metis
  have "refresh_current svc fr ctx now (locked_refresh r) db = Inr (Rotated res, db')"
    using assms cur t r by (simp add: refresh_body_def)
  from refresh_current_Rotated [OF this] show thesis using that r cur t by auto
qed

lemma rotate_session: "rotate svc fr ctx now t state db = Inr (res, db') \<Longrightarrow> sres_session_id res = lrt_session_id t"
  by (auto simp: rotate_def Let_def bindE_eq_Inr)

lemma dead_refresh_denied:
  assumes "session_ok db" "session_dead sid db"
  shows "refresh_denied svc sid db"
  unfolding refresh_denied_def
proof (intro allI impI notI)
  fix fr raw ctx clock c res
  assume answered: "fst (refresh svc fr raw ctx clock (db, c)) = Inr res" and sid: "sres_session_id res = sid"
  obtain db' where "refresh_body svc fr raw ctx clock db = Inr (Rotated res, db')"
    using answered by (rule refresh_Inr)
  then show False
  proof (cases rule: refresh_body_Rotated)
    case (1 r state)
    then show False using dead_not_authoritative [OF assms] rotate_session [OF 1(6)] sid by auto
  qed
qed

lemma validate_tenant_Inr:
  assumes "validate_tenant claims now db = Inr v"
  obtains state where "get_validation_state (clm_session_id claims) db = Some state"
    "svs_session_tenant_id state = None" "derived_tenant claims state now db = Inr v"
  | state where "get_validation_state (clm_session_id claims) db = Some state"
    "svs_session_tenant_id state \<noteq> None" "state_is_authoritative state (Some claims) now" "v = validated state"
  using assms by (auto simp: validate_tenant_def split: option.split_asm if_split_asm)

lemma derived_tenant_Inr:
  assumes "derived_tenant claims state now db = Inr v"
  obtains tenant membership t where "state_is_authoritative state None now" "clm_session_id claims = svs_session_id state"
    "clm_user_id claims = svs_user_id state" "clm_auth_version claims = svs_user_auth_version state"
    "clm_tenant_id claims = Some tenant" "clm_membership_id claims = Some membership"
    "get_tenant_context (svs_user_id state) tenant membership db = Some t" "tenant_is_active t now"
    "tss_membership_user_id t = svs_user_id state" "tss_tenant_id t = tenant" "tss_membership_id t = membership"
    "Some (tss_authz_version t) = clm_authz_version claims"
    "v = \<lparr>vs_user_id = svs_user_id state, vs_session_id = svs_session_id state, vs_tenant_id = Some tenant,
          vs_membership_id = Some membership\<rparr>"
  using assms by (auto simp: derived_tenant_def split: option.split_asm if_split_asm)

lemma validate_access_Inr:
  assumes "fst (validate_access svc encoded audience clock (db, c)) = Inr v"
  obtains claims where "is_utc clock" "ts_verify (svc_tokens svc) encoded audience clock = Inr claims"
    "audience = Audience_TENANT" "validate_tenant claims clock db = Inr v"
  | claims state where "is_utc clock" "ts_verify (svc_tokens svc) encoded audience clock = Inr claims"
    "audience \<noteq> Audience_TENANT" "get_validation_state (clm_session_id claims) db = Some state"
    "state_is_authoritative state (Some claims) clock" "v = validated state"
proof -
  obtain claims where utc: "is_utc clock" and ver: "ts_verify (svc_tokens svc) encoded audience clock = Inr claims"
    using assms by (auto simp: validate_access_def service_now_def require_eval split: sum.split_asm if_split_asm)
  show thesis
  proof (cases "audience = Audience_TENANT")
    case True
    then have "validate_tenant claims clock db = Inr v"
      using assms utc ver by (simp add: validate_access_def service_now_def require_eval)
    then show ?thesis by (rule that(1) [OF utc ver True])
  next
    case False
    obtain state where "get_validation_state (clm_session_id claims) db = Some state"
        "state_is_authoritative state (Some claims) clock" "v = validated state"
      using assms utc ver False
      by (auto simp: validate_access_def service_now_def require_eval load_validation_state_def Let_def
          split: option.split_asm if_split_asm prod.split_asm)
    then show ?thesis by (rule that(2) [OF utc ver False])
  qed
qed

lemma dead_access_denied:
  assumes "session_ok db" "session_dead sid db"
  shows "access_denied svc sid db"
  unfolding access_denied_def
proof (intro allI impI notI)
  fix encoded audience clock c v
  assume answered: "fst (validate_access svc encoded audience clock (db, c)) = Inr v" and sid: "vs_session_id v = sid"
  from answered show False
  proof (cases rule: validate_access_Inr)
    case (1 claims)
    from 1(4) show False
    proof (cases rule: validate_tenant_Inr)
      case (1 state)
      from 1(3) show False
      proof (cases rule: derived_tenant_Inr)
        case (1 tenant membership t)
        then show False
          using dead_not_authoritative [OF assms, of state None clock] \<open>get_validation_state _ db = Some state\<close> sid by auto
      qed
    next
      case (2 state)
      then show False
        using dead_not_authoritative [OF assms, of state "Some claims" clock] state_session [OF 2(1)] sid
        by (simp add: validated_def)
    qed
  next
    case (2 claims state)
    then show False
      using dead_not_authoritative [OF assms, of state "Some claims" clock] state_session [OF 2(4)] sid
      by (simp add: validated_def)
  qed
qed

lemma tenant_access_body_Inr:
  assumes "tenant_access_body svc fr cmd l ctx now db = Inr (tok, db')"
  obtains current t where "get_validation_state (stc_session_id cmd) db = Some current"
    "lock_tenant_context (sll_user_id l) (stc_tenant_id cmd) (stc_membership_id cmd) db = Some t"
    "session_matches_locator current l" "svs_session_tenant_id current = None" "state_is_authoritative current None now"
    "tenant_is_active t now" "tss_membership_user_id t = svs_user_id current"
  using assms by (auto simp: tenant_access_body_def bindE_eq_Inr split: option.split_asm if_split_asm)

lemma dead_tenant_denied:
  assumes "session_ok db" "session_dead sid db"
  shows "tenant_denied svc sid db"
  unfolding tenant_denied_def
proof (intro allI impI conjI)
  fix fr and cmd :: SwitchTenantCommand and ctx clock assume sid: "stc_session_id cmd = sid"
  show "fst (tenant_access svc fr cmd ctx clock (\<lambda>d. d) db) \<noteq> Inr tok" for tok
  proof
    assume "fst (tenant_access svc fr cmd ctx clock (\<lambda>d. d) db) = Inr tok"
    then obtain l now db' where "tenant_access_body svc fr cmd l ctx now db = Inr (tok, db')"
      by (auto simp: tenant_access_def transaction_def split: sum.split_asm prod.split_asm option.split_asm if_split_asm)
    then show False
      using dead_not_authoritative [OF assms] sid by (auto elim!: tenant_access_body_Inr)
  qed
  show "fst (switch_tenant svc fr cmd ctx clock (\<lambda>d. d) (db, c)) \<noteq> Inr res" for res c
  proof
    assume "fst (switch_tenant svc fr cmd ctx clock (\<lambda>d. d) (db, c)) = Inr res"
    then obtain l now db' where "switch_tenant_body svc fr cmd l ctx now db = Inr (res, db')"
      by (auto simp: switch_tenant_def transaction_def split: sum.split_asm prod.split_asm option.split_asm if_split_asm)
    then show False
      using dead_not_authoritative [OF assms] sid by (auto elim!: switch_tenant_body_Inr)
  qed
qed

lemma dead_unusable: "session_ok db \<Longrightarrow> session_dead sid db \<Longrightarrow> unusable svc sid db"
  by (simp add: unusable_def dead_refresh_denied dead_access_denied dead_tenant_denied)

lemma dead_stays_unusable:
  "session_ok db \<Longrightarrow> session_dead sid db \<Longrightarrow> session_run svc db db' \<Longrightarrow> unusable svc sid db'"
  using session_run_ok dead_unusable session_dead_evolves by metis

subsection \<open>A refresh token works once\<close>

definition reachable :: "'c session_service \<Rightarrow> session_db \<Rightarrow> bool" where
  "reachable svc db \<longleftrightarrow> (\<exists>db0. sd_sessions db0 = [] \<and> sd_refresh db0 = [] \<and> session_run svc db0 db)"

lemma reachable_ok: "reachable svc db \<Longrightarrow> session_ok db"
proof -
  assume "reachable svc db"
  then obtain db0 where "sd_sessions db0 = []" "sd_refresh db0 = []" "session_run svc db0 db"
    by (auto simp: reachable_def)
  then show ?thesis using session_run_ok [of svc db0 db] by (simp add: session_ok_def)
qed

lemma references_kept_keys:
  assumes "references_kept db db'"
  shows "row_of ten_id t (sd_tenants db) \<noteq> None \<Longrightarrow> row_of ten_id t (sd_tenants db') \<noteq> None"
    and "row_of usr_id u (sd_users db) \<noteq> None \<Longrightarrow> row_of usr_id u (sd_users db') \<noteq> None"
  using assms unfolding references_kept_def row_of_None by blast+

lemma acquire_gates_kept:
  "references_kept db db' \<Longrightarrow> acquire_gates ts db = Inr True \<Longrightarrow> acquire_gates ts db' = Inr True"
proof (induction ts)
  case (Cons t ts)
  then have "require [uuid_check t ''tenant security gate tenant_id''] = Inr ()"
      "row_of ten_id t (sd_tenants db) \<noteq> None" "acquire_gates ts db = Inr True"
    by (auto simp: acquire_tenant_gate_def bindE_eq_Inr split: if_split_asm)
  with Cons references_kept_keys(1) show ?case by (simp add: acquire_tenant_gate_def)
qed simp

lemma session_kept:
  "db_evolves db db' \<Longrightarrow> session_ok db' \<Longrightarrow> row_of ses_id sid (sd_sessions db) = Some s \<Longrightarrow>
     \<exists>s'. row_of ses_id sid (sd_sessions db') = Some s' \<and> keeps_session s s'"
  by (rule sessions.row_kept) (simp_all add: db_evolves_def session_ok_def)

lemma token_kept:
  "db_evolves db db' \<Longrightarrow> session_ok db' \<Longrightarrow> row_of rfr_token_hash h (sd_refresh db) = Some r \<Longrightarrow>
     \<exists>r'. row_of rfr_token_hash h (sd_refresh db') = Some r' \<and> keeps_refresh r r'"
  by (rule tokens.row_kept) (simp_all add: db_evolves_def session_ok_def)

lemma acquire_session_family_kept:
  assumes "db_evolves db db'" "session_ok db'" "acquire_session_family sid family ts db = Inr True"
  shows "acquire_session_family sid family ts db' = Inr True"
proof -
  obtain s where "row_of ses_id sid (sd_sessions db) = Some s" "acquire_gates ts db = Inr True"
      "SessionFamilyWriteLockRequest_post_init sid family ts = Inr ()"
    using assms(3) by (auto simp: acquire_session_family_def bindE_eq_Inr)
  moreover from this obtain s' where "row_of ses_id sid (sd_sessions db') = Some s'"
    using session_kept [OF assms(1,2)] by blast
  moreover have "references_kept db db'" using assms(1) by (simp add: db_evolves_def)
  ultimately show ?thesis by (simp add: acquire_session_family_def acquire_gates_kept [of db db'])
qed

lemma lock_current_Inr_Some:
  "lock_current h db = Inr (Some (locked_refresh r)) \<longleftrightarrow> row_of rfr_token_hash h (sd_refresh db) = Some r
     \<and> RefreshLockLocator_post_init \<lparr>rll_token_id = rfr_id r, rll_family_id = rfr_family_id r,
          rll_session_id = rfr_session_id r, rll_tenant_id = rfr_tenant_id r\<rparr> = Inr ()
     \<and> acquire_session_family (rfr_session_id r) (rfr_family_id r) (ordered_tenant_ids [rfr_tenant_id r]) db = Inr True"
  if "row_of rfr_token_hash h (sd_refresh db) = Some r"
  using that
  by (auto simp: lock_current_def locate_refresh_def lock_refresh_def bindE_eq_Inr Let_def refresh_matches_locator_def
      split: if_split_asm)

lemma lock_current_kept:
  assumes "row_of rfr_token_hash h (sd_refresh db) = Some r" "lock_current h db = Inr (Some (locked_refresh r))"
    and "db_evolves db db'" "session_ok db'" "row_of rfr_token_hash h (sd_refresh db') = Some r'" "keeps_refresh r r'"
  shows "lock_current h db' = Inr (Some (locked_refresh r'))"
proof -
  have "rfr_id r' = rfr_id r" "rfr_family_id r' = rfr_family_id r" "rfr_session_id r' = rfr_session_id r"
      "rfr_tenant_id r' = rfr_tenant_id r"
    using assms(6) by (simp_all add: keeps_refresh_def)
  then show ?thesis
    using assms(2) acquire_session_family_kept [OF assms(3,4)]
    unfolding lock_current_Inr_Some [OF assms(1)] lock_current_Inr_Some [OF assms(5)] by (simp add: assms(5))
qed

lemma append_event_succeeds:
  assumes "is_utc now" "AuditContext_post_init ctx = Inr ()"
    and "owner_references db (Some user) tenant membership" "(tenant = None) = (membership = None)"
    and "i \<notin> (\<lambda>a. sae_id (aud_event a)) ` set (sd_audit db)"
    and "length action \<le> 128" "res \<in> {''success'', ''failure'', ''denied''}" "length reason \<le> 64"
  shows "\<exists>db'. append_event (audit_event i ctx (Some user) tenant membership action res reason target now) db = Inr db'"
proof -
  let ?e = "audit_event i ctx (Some user) tenant membership action res reason target now"
  have "length (actx_trace_id ctx) \<le> 64" "pred_option (\<lambda>h. length h = 32) (actx_client_ip_hash ctx)"
      "pred_option (\<lambda>h. length h = 32) (actx_user_agent_hash ctx)"
    using assms(2) by (auto simp: AuditContext_post_init_def require_eq_Inr matches_class_def)
  then have "audit_check \<lparr>aud_event = ?e, aud_actor_kind = actor_kind ?e\<rparr>"
    using assms(4,6-8) by (auto simp: audit_check_def Let_def audit_event_def actor_kind_def option.pred_True
        elim!: option.pred_mono_strong split: option.split)
  moreover have "sql_insert audit_check (\<lambda>x y. sae_id (aud_event x) = sae_id (aud_event y))
      \<lparr>aud_event = ?e, aud_actor_kind = actor_kind ?e\<rparr> (sd_audit db)
      = Inr (sd_audit db @ [\<lparr>aud_event = ?e, aud_actor_kind = actor_kind ?e\<rparr>])"
    using calculation assms(5) by (auto simp: sql_insert_Inr audit_event_def)
  ultimately show ?thesis
    using assms(1,3) by (auto simp: append_event_def insert_audit_def naive_def audit_event_def)
qed

lemma end_session_succeeds:
  assumes ok: "session_ok db" and r: "r \<in> set (sd_refresh db)"
    and ctx: "is_utc now" "AuditContext_post_init ctx = Inr ()"
    and fresh: "sf_audit_id fr \<notin> (\<lambda>a. sae_id (aud_event a)) ` set (sd_audit db)"
    and lengths: "length action \<le> 128" "res \<in> {''success'', ''failure'', ''denied''}" "length reason \<le> 64"
  shows "\<exists>db'. end_session (locked_refresh r) why fr ctx action res reason now db = Inr db'"
proof -
  obtain s where s: "s \<in> set (sd_sessions db)" "token_of r s" using ok r by (auto simp: session_ok_def)
  then have owner: "owner_references db (Some (rfr_user_id r)) (rfr_tenant_id r) (rfr_membership_id r)"
    using ok by (auto simp: session_ok_def token_of_def)
  have both: "(rfr_tenant_id r = None) = (rfr_membership_id r = None)"
    using ok r by (auto simp: session_ok_def list_all_iff refresh_check_def)
  let ?db = "db\<lparr>sd_refresh := map (\<lambda>q. if rfr_family_id q = rfr_family_id r \<and> rfr_revoked_at q = None
        then revoke_token (RevocationReason_value why) (dt_wall now) q else q) (sd_refresh db),
      sd_sessions := map (\<lambda>s. if ses_id s = rfr_session_id r \<and> ses_revoked_at s = None
        then revoke_login (RevocationReason_value why) (dt_wall now) s else s) (sd_sessions db)\<rparr>"
  have "\<exists>db'. append_event (audit_event (sf_audit_id fr) ctx (Some (rfr_user_id r)) (rfr_tenant_id r)
      (rfr_membership_id r) action res reason (Some (rfr_session_id r)) now) ?db = Inr db'"
    using owner fresh by (intro append_event_succeeds ctx both lengths) simp_all
  then show ?thesis
    using ctx(1) by (simp add: end_session_def revoke_family_def revoke_session_def revoke_tokens_def revoke_logins_def
        naive_def)
qed

text \<open>
  C7. After a refresh token was exchanged, presenting it again, whatever happened in between, is always
  answered as a detected replay; from then on the session behind it is unusable in every state that can
  be reached: no refresh, no access token and no tenant switch succeeds for it.
\<close>

theorem refresh_token_single_use:
  assumes "reachable svc db" "refresh svc fr raw ctx clock (db, c) = (Inr res, db1, c1)"
    and "session_run svc db1 db2" "refresh svc fr' raw ctx' clock' (db2, c2) = (out, db3, c3)"
    and "is_utc clock'" "AuditContext_post_init ctx' = Inr ()"
    and "sf_audit_id fr' \<notin> (\<lambda>a. sae_id (aud_event a)) ` set (sd_audit db2)"
    and "session_run svc db3 db4"
  shows "out = Inl RefreshReplayDetected \<and> unusable svc (sres_session_id res) db4"
proof -
  let ?h = "refresh_hash svc raw"
  have ok: "session_ok db" by (rule reachable_ok) (rule assms(1))
  have body: "refresh_body svc fr raw ctx clock db = Inr (Rotated res, db1)"
    using refresh_Inr [of svc fr raw ctx clock db c res] assms(2) by auto
  obtain r state where r: "row_of rfr_token_hash ?h (sd_refresh db) = Some r"
      "lock_current ?h db = Inr (Some (locked_refresh r))"
      "rotate svc fr ctx clock (locked_refresh r) state db = Inr (res, db1)"
    using body by (rule refresh_body_Rotated)
  have 1: "session_ok db1" "db_evolves db db1" "refresh_post ?h (Rotated res) db1"
    using refresh_body_ok [OF ok body] by simp_all
  have 2: "session_ok db2" "db_evolves db1 db2" using session_run_ok [OF assms(3) 1(1)] by simp_all
  obtain r1 where r1: "row_of rfr_token_hash ?h (sd_refresh db1) = Some r1" "rfr_used_at r1 \<noteq> None"
    using 1(1,3) by (auto simp: session_ok_def row_of_iff)
  obtain r2 where r2: "row_of rfr_token_hash ?h (sd_refresh db2) = Some r2" "keeps_refresh r1 r2"
    using token_kept [OF 2(2,1) r1(1)] by blast
  have kept: "db_evolves db db2" using 1(2) 2(2) db_evolves_trans by blast
  have "keeps_refresh r r2" using token_kept [OF kept 2(1) r(1)] r2(1) by auto
  then have locked: "lock_current ?h db2 = Inr (Some (locked_refresh r2))" "rfr_session_id r2 = sres_session_id res"
    using lock_current_kept [OF r(1,2) kept 2(1) r2(1)] rotate_session [OF r(3)] by (simp_all add: keeps_refresh_def)
  have in2: "r2 \<in> set (sd_refresh db2)" and used: "rfr_used_at r2 \<noteq> None"
    using row_of_SomeD [OF r2(1)] r1(2) r2(2) by (auto simp: keeps_refresh_def)
  obtain db' where ended: "revoke_for_replay (locked_refresh r2) fr' ctx' clock' db2 = Inr db'"
    unfolding revoke_for_replay_def
    using end_session_succeeds [OF 2(1) in2 assms(5,6,7), of "''session.refresh_replay''" "''denied''"
        "''refresh_replay''" REFRESH_REPLAY] by auto
  then have "refresh_body svc fr' raw ctx' clock' db2 = Inr (Replayed (sres_session_id res), db')"
    using locked used by (simp add: refresh_body_def refresh_current_def)
  then have "out = Inl RefreshReplayDetected" "db3 = db'"
    using assms(4) by (simp_all add: refresh_utc [OF assms(5)] transaction_def)
  moreover have "session_ok db' \<and> session_dead (sres_session_id res) db'"
    using end_session_ok [OF 2(1) in2 ended [unfolded revoke_for_replay_def]] locked(2) by simp
  ultimately show ?thesis using dead_stays_unusable assms(8) by blast
qed

subsection \<open>Revocation\<close>

lemma state_of_session:
  assumes "session_ok db" "row_of ses_id sid (sd_sessions db) = Some s"
  shows "\<exists>u. get_validation_state sid db = Some (validation_state s u (session_tenant s db) (session_member s db))"
proof -
  have "owner_references db (Some (ses_user_id s)) (ses_tenant_id s) (ses_membership_id s)"
    using assms row_of_SomeD [OF assms(2)] by (simp add: session_ok_def)
  then have "row_of usr_id (ses_user_id s) (sd_users db) \<noteq> None"
    by (simp add: owner_references_def row_of_None del: not_None_eq)
  then show ?thesis using assms(2) by (auto simp: get_validation_state_def)
qed

lemma acquire_gates_present:
  "set ts \<subseteq> ten_id ` set (sd_tenants db) \<Longrightarrow> acquire_gates ts db = Inr ok \<Longrightarrow> ok"
proof (induction ts)
  case (Cons t ts)
  then have "row_of ten_id t (sd_tenants db) \<noteq> None" by (simp add: row_of_None del: not_None_eq)
  with Cons show ?case by (auto simp: acquire_tenant_gate_def bindE_eq_Inr)
qed simp

lemma set_ordered_tenant_ids: "set (ordered_tenant_ids ts) = {t. Some t \<in> set ts}"
  by (force simp: ordered_tenant_ids_def split: option.splits)

text \<open>
  C9. When a revocation of an existing session returns, the session is unusable in every state that can
  be reached from then on.
\<close>

theorem revocation_is_final:
  assumes "reachable svc db" "sid \<in> ses_id ` set (sd_sessions db)"
    and "revoke svc fr sid why ctx clock (db, c) = (Inr (), db1, c1)" "session_run svc db1 db2"
  shows "unusable svc sid db2"
proof -
  have ok: "session_ok db" by (rule reachable_ok) (rule assms(1))
  obtain s where s: "row_of ses_id sid (sd_sessions db) = Some s"
    using assms(2) by (metis not_None_eq row_of_None)
  have owner: "owner_references db (Some (ses_user_id s)) (ses_tenant_id s) (ses_membership_id s)"
    using ok row_of_SomeD [OF s] by (simp add: session_ok_def)
  obtain u where state: "get_validation_state sid db = Some (validation_state s u (session_tenant s db) (session_member s db))"
    using state_of_session [OF ok s] by blast
  have utc: "is_utc clock" and body: "\<exists>ended. revoke_body fr sid why ctx clock db = Inr (ended, db1)"
    using assms(3) by (auto simp: revoke_def service_now_def require_eval transaction_def
        split: if_split_asm sum.split_asm prod.split_asm)
  obtain ended where body: "revoke_body fr sid why ctx clock db = Inr (ended, db1)" using body by blast
  define l where "l = \<lparr>sll_session_id = ses_id s, sll_family_id = ses_current_family_id s,
      sll_user_id = ses_user_id s, sll_tenant_id = ses_tenant_id s\<rparr>"
  have l: "locate_session sid db = Inr (Some l)" "sll_session_id l = ses_id s"
      "sll_family_id l = ses_current_family_id s" "sll_user_id l = ses_user_id s" "sll_tenant_id l = ses_tenant_id s"
    using body s by (auto simp: revoke_body_def locate_session_def Let_def bindE_eq_Inr l_def)
  obtain okk where acq: "acquire_session_family (sll_session_id l) (sll_family_id l)
      (ordered_tenant_ids [sll_tenant_id l]) db = Inr okk"
    using body l(1) by (auto simp: revoke_body_def bindE_eq_Inr)
  have "okk"
  proof -
    obtain b where b: "acquire_gates (ordered_tenant_ids [sll_tenant_id l]) db = Inr b"
        "okk = (b \<and> row_of ses_id (sll_session_id l) (sd_sessions db) \<noteq> None)"
      using acq by (auto simp: acquire_session_family_def bindE_eq_Inr)
    have "set (ordered_tenant_ids [sll_tenant_id l]) \<subseteq> ten_id ` set (sd_tenants db)"
      using owner l(5) by (cases "ses_tenant_id s") (auto simp: set_ordered_tenant_ids owner_references_def)
    then have "b" using acquire_gates_present b(1) by blast
    then show ?thesis using b(2) s row_of_SomeD [OF s] l(2) by simp
  qed
  moreover have "session_matches_locator (validation_state s u (session_tenant s db) (session_member s db)) l"
    using l by (simp add: session_matches_locator_def)
  ultimately have "ended"
    using body l(1) acq state by (auto simp: revoke_body_def bindE_eq_Inr)
  with revoke_body_ok [OF ok body] have "session_ok db1 \<and> session_dead sid db1" by simp
  then show ?thesis using dead_stays_unusable assms(4) by blast
qed

subsection \<open>Switching the tenant\<close>

lemma lock_tenant_context_Some:
  assumes "lock_tenant_context user tenant membership db = Some t"
  obtains tr m where "tr \<in> set (sd_tenants db)" "ten_id tr = tenant" "m \<in> set (sd_memberships db)"
    "mbr_tenant_id m = tenant" "mbr_id m = membership" "mbr_user_id m = user" "t = tenant_session_state tr m"
proof -
  obtain tr m where "row_of ten_id tenant (sd_tenants db) = Some tr" "find_member user tenant membership db = Some m"
      "t = tenant_session_state tr m"
    using assms by (auto simp: lock_tenant_context_def split: option.split_asm if_split_asm)
  with that show thesis unfolding find_member_def using row_of_SomeD sql_scalar_SomeD by (metis (mono_tags, lifting))
qed

lemma get_tenant_context_Some:
  assumes "get_tenant_context user tenant membership db = Some t"
  obtains tr m where "tr \<in> set (sd_tenants db)" "ten_id tr = tenant" "m \<in> set (sd_memberships db)"
    "mbr_tenant_id m = tenant" "mbr_id m = membership" "mbr_user_id m = user" "t = tenant_session_state tr m"
proof -
  obtain tr m where "row_of ten_id tenant (sd_tenants db) = Some tr" "find_member user tenant membership db = Some m"
      "t = tenant_session_state tr m"
    using assms by (auto simp: get_tenant_context_def split: option.split_asm)
  with that show thesis unfolding find_member_def using row_of_SomeD sql_scalar_SomeD by (metis (mono_tags, lifting))
qed

text \<open>An open tenant and a membership of the user that is active now, with the given version.\<close>

definition member_now :: "uuid \<Rightarrow> uuid \<Rightarrow> uuid \<Rightarrow> int option \<Rightarrow> int \<Rightarrow> session_db \<Rightarrow> bool" where
  "member_now user tenant membership version t db \<longleftrightarrow>
     list_ex (\<lambda>r. ten_id r = tenant \<and> ten_status r = TenantStatus_ACTIVE) (sd_tenants db)
     \<and> list_ex (\<lambda>m. mbr_id m = membership \<and> mbr_tenant_id m = tenant \<and> mbr_user_id m = user
          \<and> mbr_status m = MembershipStatus_ACTIVE \<and> mbr_valid_from m \<le> t
          \<and> pred_option (\<lambda>u. t < u) (mbr_valid_until m) \<and> Some (mbr_authz_version m) = version) (sd_memberships db)"

lemma active_member_now:
  assumes "tenant_is_active (tenant_session_state tr m) now" "tr \<in> set (sd_tenants db)" "m \<in> set (sd_memberships db)"
    "mbr_tenant_id m = ten_id tr"
  shows "member_now (mbr_user_id m) (ten_id tr) (mbr_id m) (Some (mbr_authz_version m)) (instant now) db"
  using assms by (auto simp: member_now_def list_ex_iff tenant_is_active_def tenant_session_state_def aware_optional_def
      split: option.split_asm intro!: bexI [of _ m] bexI [of _ tr])

lemma added_session:
  assumes "add_session (new_session fr u (Some t) now) db = Inr db'"
  obtains s where "sd_sessions db' = sd_sessions db @ [s]" "ses_id s = sf_session_id fr" "ses_user_id s = uss_user_id u"
    "ses_tenant_id s = Some (tss_tenant_id t)" "ses_membership_id s = Some (tss_membership_id t)"
    "ses_authz_version_at_issue s = Some (tss_authz_version t)" "ses_revoked_at s = None"
    "sf_session_id fr \<notin> ses_id ` set (sd_sessions db)"
proof -
  obtain s where "session_model (new_session fr u (Some t) now) = Inr s" "\<forall>q\<in>set (sd_sessions db). ses_id q \<noteq> ses_id s"
      "db' = db\<lparr>sd_sessions := sd_sessions db @ [s]\<rparr>"
    using add_session_Inr [OF assms] by metis
  moreover from this(1) have "ses_id s = sf_session_id fr \<and> ses_user_id s = uss_user_id u
      \<and> ses_tenant_id s = Some (tss_tenant_id t) \<and> ses_membership_id s = Some (tss_membership_id t)
      \<and> ses_authz_version_at_issue s = Some (tss_authz_version t) \<and> ses_revoked_at s = None"
    using session_model_Inr by (fastforce simp: new_session_def)
  ultimately show thesis using that [of s] by force
qed

text \<open>
  C10. A tenant switch that succeeds ends the session it started from for good, and opens a new session of
  the same user in exactly the requested tenant and membership, which were active at that moment.
\<close>

theorem switch_replaces_session:
  assumes "reachable svc db" "session_run svc db (between db)" "sf_family_id fr \<notin> families (between db)"
    and "switch_tenant svc fr cmd ctx clock between (db, c) = (Inr res, db1, c1)" "session_run svc db1 db2"
  shows "unusable svc (stc_session_id cmd) db2
    \<and> (\<exists>old new. old \<in> set (sd_sessions (between db)) \<and> ses_id old = stc_session_id cmd \<and> ses_revoked_at old = None
        \<and> new \<in> set (sd_sessions db1) \<and> ses_id new = sres_session_id res \<and> ses_id new \<noteq> ses_id old
        \<and> ses_user_id new = ses_user_id old \<and> ses_tenant_id new = Some (stc_tenant_id cmd)
        \<and> ses_membership_id new = Some (stc_membership_id cmd)
        \<and> member_now (ses_user_id new) (stc_tenant_id cmd) (stc_membership_id cmd) (ses_authz_version_at_issue new)
             (instant clock) (between db))"
proof -
  let ?db = "between db"
  have ok: "session_ok ?db" using session_run_ok [OF assms(2) reachable_ok [OF assms(1)]] by simp
  obtain l where body: "switch_tenant_body svc fr cmd l ctx clock ?db = Inr (res, db1)"
    using assms(4) by (auto simp: switch_tenant_def transaction_def service_now_def require_eval bindE_eq_Inr
        split: sum.split_asm prod.split_asm option.split_asm if_split_asm)
  have ended: "session_ok db1 \<and> session_dead (stc_session_id cmd) db1"
    using switch_tenant_body_ok [OF ok assms(3) [unfolded families_def] body] by simp
  from body obtain current t dba dbb dbc dbd e where
    cur: "lock_session (stc_session_id cmd) ?db = Some current"
    and t: "lock_tenant_context (sll_user_id l) (stc_tenant_id cmd) (stc_membership_id cmd) ?db = Some t"
    and match: "session_matches_locator current l" "state_is_authoritative current None clock" "tenant_is_active t clock"
    and ends: "revoke_family (svs_current_family_id current) TENANT_SWITCHED clock ?db = Inr dba"
      "revoke_session (svs_session_id current) TENANT_SWITCHED clock dba = Inr dbb"
    and add: "add_session (new_session fr \<lparr>uss_user_id = svs_user_id current, uss_status = svs_user_status current,
        uss_auth_version = svs_user_auth_version current\<rparr> (Some t) clock) dbb = Inr dbc"
    and rest: "add_refresh (snd (new_session_material svc fr \<lparr>uss_user_id = svs_user_id current,
        uss_status = svs_user_status current, uss_auth_version = svs_user_auth_version current\<rparr> (Some t) clock)) dbc = Inr dbd"
      "append_event e dbd = Inr db1" "sres_session_id res = sf_session_id fr"
    by (rule switch_tenant_body_Inr) (simp add: new_session_material_def Let_def)
  obtain s u where s: "row_of ses_id (stc_session_id cmd) (sd_sessions ?db) = Some s"
      "current = validation_state s u (session_tenant s ?db) (session_member s ?db)"
    using cur by (auto elim: get_validation_state_Some)
  have live: "ses_revoked_at s = None" using authoritative_live [OF match(2)] s(2) by simp
  obtain tr m where m: "tr \<in> set (sd_tenants ?db)" "ten_id tr = stc_tenant_id cmd" "m \<in> set (sd_memberships ?db)"
      "mbr_tenant_id m = stc_tenant_id cmd" "mbr_id m = stc_membership_id cmd" "mbr_user_id m = sll_user_id l"
      "t = tenant_session_state tr m"
    using t by (rule lock_tenant_context_Some)
  obtain n where n: "sd_sessions dbc = sd_sessions dbb @ [n]" "ses_id n = sf_session_id fr"
      "ses_user_id n = ses_user_id s" "ses_tenant_id n = Some (stc_tenant_id cmd)"
      "ses_membership_id n = Some (stc_membership_id cmd)" "ses_authz_version_at_issue n = Some (mbr_authz_version m)"
      "sf_session_id fr \<notin> ses_id ` set (sd_sessions dbb)"
    using added_session [OF add] s(2) m by (auto simp: tenant_session_state_def)
  have "sd_sessions db1 = sd_sessions dbc"
    using append_event_Inr [OF rest(2)] add_refresh_Inr [OF rest(1)] by (metis session_db.ext_inject session_db.surjective
        session_db.update_convs(2,6))
  then have new: "n \<in> set (sd_sessions db1)" using n(1) by simp
  have "session_dead (stc_session_id cmd) dbb"
    using revoke_pair_ok [OF ok, of s TENANT_SWITCHED clock dba dbb] s ends row_of_SomeD [OF s(1)] by simp
  then have "stc_session_id cmd \<in> ses_id ` set (sd_sessions dbb)" unfolding session_dead_def by (metis image_eqI)
  then have "ses_id n \<noteq> ses_id s" using n(2,7) row_of_SomeD [OF s(1)] by metis
  moreover have "sll_user_id l = ses_user_id s" using match(1) s(2) by (simp add: session_matches_locator_def)
  then have "member_now (ses_user_id n) (stc_tenant_id cmd) (stc_membership_id cmd) (ses_authz_version_at_issue n)
      (instant clock) ?db"
    using active_member_now [OF match(3) [unfolded m(7)] m(1,3)] m n by simp
  ultimately have "\<exists>old new. old \<in> set (sd_sessions ?db) \<and> ses_id old = stc_session_id cmd \<and> ses_revoked_at old = None
        \<and> new \<in> set (sd_sessions db1) \<and> ses_id new = sres_session_id res \<and> ses_id new \<noteq> ses_id old
        \<and> ses_user_id new = ses_user_id old \<and> ses_tenant_id new = Some (stc_tenant_id cmd)
        \<and> ses_membership_id new = Some (stc_membership_id cmd)
        \<and> member_now (ses_user_id new) (stc_tenant_id cmd) (stc_membership_id cmd) (ses_authz_version_at_issue new)
             (instant clock) ?db"
    using row_of_SomeD [OF s(1)] live new n(2-5) rest(3) by (intro exI [of _ s] exI [of _ n]) simp
  moreover have "unusable svc (stc_session_id cmd) db2" using ended dead_stays_unusable assms(5) by blast
  ultimately show ?thesis by blast
qed

subsection \<open>What an accepted access token means\<close>

definition active_session :: "AccessTokenClaims \<Rightarrow> int \<Rightarrow> session_db \<Rightarrow> session_row \<Rightarrow> bool" where
  "active_session claims t db s \<longleftrightarrow> s \<in> set (sd_sessions db) \<and> ses_id s = clm_session_id claims
     \<and> ses_user_id s = clm_user_id claims \<and> ses_revoked_at s = None \<and> t < ses_expires_at s
     \<and> ses_auth_version_at_issue s = clm_auth_version claims
     \<and> list_ex (\<lambda>u. usr_id u = clm_user_id claims \<and> usr_status u = ''active''
          \<and> usr_auth_version u = clm_auth_version claims) (sd_users db)"

lemma authoritative_claims:
  assumes "state_is_authoritative state (Some claims) now"
  shows "clm_user_id claims = svs_user_id state \<and> clm_session_id claims = svs_session_id state
    \<and> clm_auth_version claims = svs_user_auth_version state
    \<and> (if svs_session_tenant_id state = None
       then svs_session_membership_id state = None \<and> clm_audience claims \<in> {Audience_ACCOUNT, Audience_PLATFORM}
       else clm_tenant_id claims = svs_session_tenant_id state \<and> clm_membership_id claims = svs_session_membership_id state
         \<and> clm_authz_version claims = svs_membership_authz_version state)"
  using assms by (simp add: state_is_authoritative_def split: if_split_asm)

lemma authoritative_member:
  assumes "state_is_authoritative (validation_state s u (session_tenant s db) (session_member s db)) claims now"
    and "ses_tenant_id s = Some tenant"
  shows "\<exists>membership. ses_membership_id s = Some membership
    \<and> member_now (ses_user_id s) tenant membership (ses_authz_version_at_issue s) (instant now) db
    \<and> map_option mbr_authz_version (session_member s db) = ses_authz_version_at_issue s"
proof -
  let ?tr = "session_tenant s db" and ?m = "session_member s db"
  have facts: "ses_membership_id s \<noteq> None" "map_option ten_status ?tr = Some TenantStatus_ACTIVE"
      "map_option mbr_user_id ?m = Some (ses_user_id s)" "map_option mbr_status ?m = Some MembershipStatus_ACTIVE"
      "\<not> (case map_option (\<lambda>r. aware (mbr_valid_from r)) ?m of None \<Rightarrow> True | Some f \<Rightarrow> instant now < instant f)"
      "\<not> (case Option.bind ?m (\<lambda>r. aware_optional (mbr_valid_until r)) of None \<Rightarrow> False | Some u \<Rightarrow> instant u \<le> instant now)"
      "map_option mbr_authz_version ?m = ses_authz_version_at_issue s"
    using assms by (simp_all add: state_is_authoritative_def split: if_split_asm) (simp_all add: validation_state_def)
  obtain membership where mid: "ses_membership_id s = Some membership" using facts(1) by blast
  obtain tr m where tr: "?tr = Some tr" and m: "?m = Some m" using facts(2,3) by auto
  have "tr \<in> set (sd_tenants db)" "ten_id tr = tenant"
    using tr assms(2) by (auto simp: session_tenant_def dest!: sql_scalar_SomeD)
  moreover have "m \<in> set (sd_memberships db)" "mbr_tenant_id m = tenant" "mbr_id m = membership"
    using m assms(2) mid by (auto simp: session_member_def dest!: sql_scalar_SomeD)
  moreover have "ten_status tr = TenantStatus_ACTIVE" "mbr_user_id m = ses_user_id s"
      "mbr_status m = MembershipStatus_ACTIVE" "mbr_valid_from m \<le> instant now"
      "pred_option (\<lambda>u. instant now < u) (mbr_valid_until m)" "Some (mbr_authz_version m) = ses_authz_version_at_issue s"
    using facts tr m by (auto simp: aware_optional_def split: option.splits)
  ultimately show ?thesis
    using mid facts(7) unfolding member_now_def list_ex_iff by blast
qed

lemma state_active_session:
  assumes "get_validation_state (clm_session_id claims) db = Some state" "state_is_authoritative state cl now"
    and "clm_user_id claims = svs_user_id state" "clm_auth_version claims = svs_user_auth_version state"
  obtains s u where "state = validation_state s u (session_tenant s db) (session_member s db)"
    "active_session claims (instant now) db s"
proof -
  obtain s u where s: "row_of ses_id (clm_session_id claims) (sd_sessions db) = Some s"
      "row_of usr_id (ses_user_id s) (sd_users db) = Some u"
      "state = validation_state s u (session_tenant s db) (session_member s db)"
    using assms(1) by (rule get_validation_state_Some)
  have "active_session claims (instant now) db s"
    using authoritative_live [OF assms(2)] assms(3,4) row_of_SomeD [OF s(1)] row_of_SomeD [OF s(2)] s(3)
    unfolding active_session_def list_ex_iff by auto
  with s(3) that show thesis by blast
qed

text \<open>
  The promise of a token service that the validation rests on: claims verified for an audience are claims
  for that audience.
\<close>

locale audience_tokens =
  fixes verify :: "string \<Rightarrow> Audience \<Rightarrow> datetime \<Rightarrow> AccessTokenClaims result"
  assumes verified_audience: "verify encoded audience now = Inr claims \<Longrightarrow> clm_audience claims = audience"
begin

lemma validated_session:
  assumes "fst (validate_access svc encoded audience clock (db, c)) = Inr v"
    and tokens: "ts_verify (svc_tokens svc) = verify"
  shows "\<exists>claims s. ts_verify (svc_tokens svc) encoded audience clock = Inr claims
    \<and> active_session claims (instant clock) db s \<and> vs_user_id v = ses_user_id s \<and> vs_session_id v = ses_id s
    \<and> (audience = Audience_TENANT) = (vs_tenant_id v \<noteq> None)
    \<and> (case vs_tenant_id v of
         None \<Rightarrow> vs_membership_id v = None \<and> ses_tenant_id s = None
       | Some tenant \<Rightarrow> clm_tenant_id claims = Some tenant \<and> vs_membership_id v = clm_membership_id claims
           \<and> (\<exists>membership. vs_membership_id v = Some membership
                \<and> member_now (ses_user_id s) tenant membership (clm_authz_version claims) (instant clock) db))"
  using assms(1)
proof (cases rule: validate_access_Inr)
  case (1 claims)
  from 1(4) show ?thesis
  proof (cases rule: validate_tenant_Inr)
    case (1 state)
    note found = 1(1)
    from 1(3) show ?thesis
    proof (cases rule: derived_tenant_Inr)
      case (1 tenant membership t)
      obtain s u where s: "state = validation_state s u (session_tenant s db) (session_member s db)"
          "active_session claims (instant clock) db s"
        using state_active_session [OF found 1(1,3,4)] .
      obtain tr m where m: "tr \<in> set (sd_tenants db)" "ten_id tr = tenant" "m \<in> set (sd_memberships db)"
          "mbr_tenant_id m = tenant" "mbr_id m = membership" "mbr_user_id m = svs_user_id state"
          "t = tenant_session_state tr m"
        using 1(7) by (rule get_tenant_context_Some)
      have "member_now (ses_user_id s) tenant membership (clm_authz_version claims) (instant clock) db"
        using active_member_now [OF 1(8) [unfolded m(7)] m(1,3)] m 1(12) s(1) by (simp add: tenant_session_state_def)
      with 1 s \<open>ts_verify _ _ _ _ = Inr claims\<close> \<open>audience = _\<close> show ?thesis
        by (intro exI [of _ claims] exI [of _ s]) (simp add: active_session_def)
    qed
  next
    case (2 state)
    have cl: "clm_user_id claims = svs_user_id state" "clm_auth_version claims = svs_user_auth_version state"
        "clm_tenant_id claims = svs_session_tenant_id state" "clm_membership_id claims = svs_session_membership_id state"
        "clm_authz_version claims = svs_membership_authz_version state"
      using authoritative_claims [OF 2(3)] 2(2) by simp_all
    obtain s u where s: "state = validation_state s u (session_tenant s db) (session_member s db)"
        "active_session claims (instant clock) db s"
      using state_active_session [OF 2(1,3) cl(1,2)] .
    obtain tenant where tenant: "ses_tenant_id s = Some tenant" using 2(2) s(1) by auto
    obtain membership where "ses_membership_id s = Some membership"
        "member_now (ses_user_id s) tenant membership (clm_authz_version claims) (instant clock) db"
      using authoritative_member [OF 2(3) [unfolded s(1)] tenant] cl(5) s(1) by auto
    with 2(4) s cl tenant \<open>ts_verify _ _ _ _ = Inr claims\<close> \<open>audience = _\<close> show ?thesis
      by (intro exI [of _ claims] exI [of _ s]) (simp add: validated_def active_session_def)
  qed
next
  case (2 claims state)
  have cl: "clm_user_id claims = svs_user_id state" "clm_auth_version claims = svs_user_auth_version state"
      "svs_session_tenant_id state = None" "svs_session_membership_id state = None"
    using authoritative_claims [OF 2(5)] verified_audience [OF 2(2) [unfolded tokens]] 2(3) state_is_authoritative_def [of state "Some claims" clock] 2(5)
    by (auto split: if_split_asm)
  obtain s u where s: "state = validation_state s u (session_tenant s db) (session_member s db)"
      "active_session claims (instant clock) db s"
    using state_active_session [OF 2(4,5) cl(1,2)] .
  with 2 cl show ?thesis
    by (intro exI [of _ claims] exI [of _ s]) (simp add: validated_def)
qed

end

text \<open>
  C34. The validation cache can only deny: whatever it holds and however it fails, the answer is the one a
  service without a cache gives, or a denial.
\<close>

theorem cache_only_denies:
  "fst (validate_access svc encoded audience clock (db, c))
     \<in> {fst (validate_access (svc\<lparr>svc_cache := None\<rparr>) encoded audience clock (db, c)), Inl InvalidSession}"
proof (cases "is_utc clock")
  case True
  then show ?thesis
    by (cases "ts_verify (svc_tokens svc) encoded audience clock")
      (auto simp: validate_access_def service_now_def require_eval load_validation_state_def Let_def read_cached_state_def
        case_prod_beta split: option.split)
qed (simp add: validate_access_def service_now_def require_eval)

end
