(* ===== verification/AccessTokens.thy ===== *)
theory AccessTokens
  imports SessionSafety
begin

text \<open>
  \<open>infrastructure/security/jwt_tokens.py\<close>: access tokens as signed JWTs.  The JWT library is a parameter:
  reading the header of a token, checking its signature, issuer and audience, and signing.  A numeric date
  is a whole number of seconds, so that issuing rounds the claims down; \<open>int(value.timestamp())\<close> is that
  rounding for the years in which a double holds microseconds.
\<close>

subsection \<open>Parameters\<close>

type_synonym dict = "(string \<times> json) list"

record jwt =
  jwt_get_unverified_header :: "string \<Rightarrow> dict option"
  jwt_decode :: "string \<Rightarrow> bytes \<Rightarrow> string \<Rightarrow> string \<Rightarrow> dict option"
  jwt_encode :: "dict \<Rightarrow> bytes \<Rightarrow> dict \<Rightarrow> string"

definition COMMON_CLAIMS :: "string list" where
  "COMMON_CLAIMS = [''sub'', ''sid'', ''jti'', ''iat'', ''nbf'', ''exp'', ''iss'', ''aud'', ''auth_version'']"

definition TENANT_CLAIMS :: "string list" where
  "TENANT_CLAIMS = [''tenant_id'', ''membership_id'', ''authz_version'']"

definition JWT_KID_PATTERN :: "string \<Rightarrow> bool" where
  "JWT_KID_PATTERN s \<longleftrightarrow> matches_class kid_char 1 128 s"

record TokenService =
  tsv_issuer :: string
  tsv_active_kid :: string
  tsv_signing_keys :: "(string \<times> bytes) list"
  tsv_verification_keys :: "(string \<times> bytes) list"
  tsv_leeway :: int

definition TokenService_init :: "string \<Rightarrow> string \<Rightarrow> (string \<times> bytes) list \<Rightarrow> (string \<times> bytes) list \<Rightarrow> int
    \<Rightarrow> TokenService result" where
  "TokenService_init issuer kid signing verification leeway_seconds =
     bindE (require
       [(issuer \<noteq> [] \<and> length issuer \<le> 512, ValueError ''JWT issuer is invalid''),
        (JWT_KID_PATTERN kid, ValueError ''active JWT kid is invalid''),
        (kid \<in> set (map fst signing) \<and> kid \<in> set (map fst verification),
          ValueError ''active JWT kid must have signing and verification keys''),
        (set (map fst signing) \<subseteq> set (map fst verification),
          ValueError ''every JWT signing key must have a verification key''),
        (0 \<le> leeway_seconds \<and> leeway_seconds \<le> 60, ValueError ''JWT leeway must be between 0 and 60 seconds''),
        (list_all JWT_KID_PATTERN (map fst verification), ValueError ''JWT key ring contains an invalid kid'')])
     (\<lambda>_. Inr \<lparr>tsv_issuer = issuer, tsv_active_kid = kid, tsv_signing_keys = signing,
               tsv_verification_keys = verification, tsv_leeway = seconds leeway_seconds\<rparr>)"

subsection \<open>Strict values\<close>

definition timestamp :: "datetime \<Rightarrow> int" where
  "timestamp d = (let w = instant d in if 0 \<le> w then w div 1000000 else - ((- w) div 1000000))"

fun strict_timestamp :: "json \<Rightarrow> datetime result" where
  "strict_timestamp (JInt n) =
     (if representable (aware (seconds n)) then Inr (aware (seconds n)) else Inl (ValueError ''year is out of range''))"
| "strict_timestamp v = Inl InvalidToken"

fun strict_positive_int :: "json \<Rightarrow> int result" where
  "strict_positive_int (JInt n) = (if n < 1 then Inl InvalidToken else Inr n)"
| "strict_positive_int v = Inl InvalidToken"

definition hex_value :: "char \<Rightarrow> nat" where
  "hex_value c = (if code c < 58 then code c - 48 else code c - 87)"

text \<open>Only the canonical text of an identifier survives \<open>str(UUID(value)) == value\<close>.\<close>

fun strict_uuid :: "json \<Rightarrow> uuid result" where
  "strict_uuid (JStr s) =
     (let u = of_nat (foldl (\<lambda>a c. 16 * a + hex_value c) 0 (filter (\<lambda>c. c \<noteq> CHR ''-'') s))
      in if uuid_str u = s then Inr u else Inl InvalidToken)"
| "strict_uuid v = Inl InvalidToken"

definition optional_claim :: "bool \<Rightarrow> 'a result \<Rightarrow> 'a option result" where
  "optional_claim present m = (if present then bindE m (\<lambda>v. Inr (Some v)) else Inr None)"

definition claim :: "dict \<Rightarrow> string \<Rightarrow> (json \<Rightarrow> 'a result) \<Rightarrow> 'a result" where
  "claim payload name read = (case map_of payload name of None \<Rightarrow> Inl (KeyError name) | Some v \<Rightarrow> read v)"

subsection \<open>Issuing\<close>

definition token_payload :: "TokenService \<Rightarrow> AccessTokenClaims \<Rightarrow> dict" where
  "token_payload ts c =
     [(''sub'', JStr (uuid_str (clm_user_id c))), (''sid'', JStr (uuid_str (clm_session_id c))),
      (''jti'', JStr (uuid_str (clm_token_id c))), (''iat'', JInt (timestamp (clm_issued_at c))),
      (''nbf'', JInt (timestamp (clm_not_before c))), (''exp'', JInt (timestamp (clm_expires_at c))),
      (''iss'', JStr (tsv_issuer ts)), (''aud'', JStr (Audience_value (clm_audience c))),
      (''auth_version'', JInt (clm_auth_version c))]
     @ (case (clm_audience c, clm_tenant_id c, clm_membership_id c, clm_authz_version c) of
          (Audience_TENANT, Some t, Some m, Some v) \<Rightarrow>
            [(''tenant_id'', JStr (uuid_str t)), (''membership_id'', JStr (uuid_str m)), (''authz_version'', JInt v)]
        | _ \<Rightarrow> [])"

definition token_header :: "TokenService \<Rightarrow> dict" where
  "token_header ts = [(''kid'', JStr (tsv_active_kid ts)), (''typ'', JStr ''at+jwt''), (''alg'', JStr ''EdDSA'')]"

definition issue_token :: "jwt \<Rightarrow> TokenService \<Rightarrow> AccessTokenClaims \<Rightarrow> string result" where
  "issue_token jw ts c =
     (case map_of (tsv_signing_keys ts) (tsv_active_kid ts) of
        None \<Rightarrow> Inl (KeyError (tsv_active_kid ts))
      | Some key \<Rightarrow> Inr (jwt_encode jw (token_payload ts c) key (token_header ts)))"

definition issue_for :: "jwt \<Rightarrow> TokenService \<Rightarrow> Audience \<Rightarrow> string \<Rightarrow> AccessTokenClaims \<Rightarrow> string result" where
  "issue_for jw ts audience message c = (if clm_audience c \<noteq> audience then Inl (ValueError message) else issue_token jw ts c)"

definition issue_account :: "jwt \<Rightarrow> TokenService \<Rightarrow> AccessTokenClaims \<Rightarrow> string result" where
  "issue_account jw ts = issue_for jw ts Audience_ACCOUNT ''account token requires account claims''"

definition issue_tenant :: "jwt \<Rightarrow> TokenService \<Rightarrow> AccessTokenClaims \<Rightarrow> string result" where
  "issue_tenant jw ts = issue_for jw ts Audience_TENANT ''tenant token requires tenant claims''"

definition issue_platform :: "jwt \<Rightarrow> TokenService \<Rightarrow> AccessTokenClaims \<Rightarrow> string result" where
  "issue_platform jw ts = issue_for jw ts Audience_PLATFORM ''platform token requires platform claims''"

subsection \<open>Verifying\<close>

definition expected_claims :: "Audience \<Rightarrow> string list" where
  "expected_claims audience = COMMON_CLAIMS @ (if audience = Audience_TENANT then TENANT_CLAIMS else [])"

definition claims_from_payload :: "TokenService \<Rightarrow> dict \<Rightarrow> Audience \<Rightarrow> AccessTokenClaims result" where
  "claims_from_payload ts p audience =
     (if set (map fst p) \<noteq> set (expected_claims audience) then Inl InvalidToken
      else if map_of p ''aud'' \<noteq> Some (JStr (Audience_value audience)) \<or> map_of p ''iss'' \<noteq> Some (JStr (tsv_issuer ts))
      then Inl InvalidToken
      else
        bindE (claim p ''sub'' strict_uuid) (\<lambda>user.
        bindE (claim p ''sid'' strict_uuid) (\<lambda>sid.
        bindE (claim p ''jti'' strict_uuid) (\<lambda>jti.
        bindE (claim p ''iat'' strict_timestamp) (\<lambda>iat.
        bindE (claim p ''nbf'' strict_timestamp) (\<lambda>nbf.
        bindE (claim p ''exp'' strict_timestamp) (\<lambda>ex.
        bindE (claim p ''auth_version'' strict_positive_int) (\<lambda>auth.
        bindE (optional_claim (audience = Audience_TENANT) (claim p ''tenant_id'' strict_uuid)) (\<lambda>tenant.
        bindE (optional_claim (audience = Audience_TENANT) (claim p ''membership_id'' strict_uuid)) (\<lambda>membership.
        bindE (optional_claim (audience = Audience_TENANT) (claim p ''authz_version'' strict_positive_int)) (\<lambda>authz.
        let c = \<lparr>clm_user_id = user, clm_session_id = sid, clm_token_id = jti, clm_audience = audience,
                 clm_issued_at = iat, clm_not_before = nbf, clm_expires_at = ex, clm_auth_version = auth,
                 clm_tenant_id = tenant, clm_membership_id = membership, clm_authz_version = authz\<rparr>
        in bindE (AccessTokenClaims_post_init c) (\<lambda>_. Inr c))))))))))))"

definition verification_key :: "TokenService \<Rightarrow> dict \<Rightarrow> bytes option" where
  "verification_key ts header =
     (case (map_of header ''alg'', map_of header ''typ'', map_of header ''kid'') of
        (Some (JStr alg), Some (JStr typ), Some (JStr kid)) \<Rightarrow>
          if alg = ''EdDSA'' \<and> typ = ''at+jwt'' \<and> JWT_KID_PATTERN kid then map_of (tsv_verification_keys ts) kid else None
      | _ \<Rightarrow> None)"

definition verify_token :: "jwt \<Rightarrow> TokenService \<Rightarrow> string \<Rightarrow> Audience \<Rightarrow> datetime \<Rightarrow> AccessTokenClaims result" where
  "verify_token jw ts encoded audience now =
     (if audience = Audience_STEP_UP \<or> encoded = [] \<or> 8192 < length encoded then Inl InvalidToken
      else if \<not> is_utc now then Inl (ValueError ''verification time must be UTC-aware'')
      else case Option.bind (jwt_get_unverified_header jw encoded) (verification_key ts) of
        None \<Rightarrow> Inl InvalidToken
      | Some key \<Rightarrow>
          (case jwt_decode jw encoded key (Audience_value audience) (tsv_issuer ts) of
             None \<Rightarrow> Inl InvalidToken
           | Some payload \<Rightarrow>
               (case claims_from_payload ts payload audience of
                  Inl _ \<Rightarrow> Inl InvalidToken
                | Inr c \<Rightarrow>
                    if instant now + tsv_leeway ts < instant (clm_issued_at c)
                       \<or> instant now + tsv_leeway ts < instant (clm_not_before c)
                       \<or> instant (clm_expires_at c) \<le> instant now - tsv_leeway ts
                    then Inl InvalidToken else Inr c)))"

text \<open>The token service of \<open>SessionService\<close>.\<close>

definition jwt_tokens :: "jwt \<Rightarrow> TokenService \<Rightarrow> token_service" where
  "jwt_tokens jw ts =
     \<lparr>ts_issue_account = issue_account jw ts, ts_issue_tenant = issue_tenant jw ts, ts_verify = verify_token jw ts\<rparr>"

subsection \<open>Reading back what was written\<close>

lemma hex_value_digit: "i < 16 \<Longrightarrow> hex_value (hex_digit i) = i"
  by (simp add: hex_value_def code_hex_digit)

lemma pad_value: "foldl (\<lambda>a c. 16 * a + hex_value c) x (pad 16 k n) = x * 16 ^ k + n mod 16 ^ k"
proof (induction k arbitrary: n)
  case (Suc k)
  have "n mod 16 ^ Suc k = 16 * (n div 16 mod 16 ^ k) + n mod 16" by (simp add: mod_mult2_eq)
  then show ?case by (simp add: Suc hex_value_digit)
qed simp

lemma pad_no_dash: "c \<in> set (pad 16 k n) \<Longrightarrow> c \<noteq> CHR ''-''"
proof (induction k arbitrary: n)
  case (Suc k)
  have "hex_digit (n mod 16) \<noteq> CHR ''-''"
    using code_hex_digit [of "n mod 16"] by (auto simp: code_def split: if_splits)
  with Suc show ?case by auto
qed simp

lemma uuid_str_digits: "filter (\<lambda>c. c \<noteq> CHR ''-'') (uuid_str u) = pad 16 32 (unat u)"
proof -
  let ?h = "pad 16 32 (unat u)"
  have keep: "filter (\<lambda>c. c \<noteq> CHR ''-'') xs = xs" if "set xs \<subseteq> set ?h" for xs
    using that pad_no_dash by (auto simp: filter_id_conv simp del: pad.simps)
  have split: "take m (drop n ?h) @ drop (n + m) ?h = drop n ?h" for n m
    by (metis append_take_drop_id drop_drop add.commute)
  have parts: "set (take 8 ?h) \<subseteq> set ?h" "set (take 4 (drop 8 ?h)) \<subseteq> set ?h" "set (take 4 (drop 12 ?h)) \<subseteq> set ?h"
      "set (take 4 (drop 16 ?h)) \<subseteq> set ?h" "set (drop 20 ?h) \<subseteq> set ?h"
    by (meson set_take_subset set_drop_subset subset_trans)+
  have "filter (\<lambda>c. c \<noteq> CHR ''-'') (uuid_str u)
      = take 8 ?h @ take 4 (drop 8 ?h) @ take 4 (drop 12 ?h) @ take 4 (drop 16 ?h) @ drop 20 ?h"
    by (simp add: uuid_str_def Let_def keep parts del: pad.simps)
  also have "\<dots> = ?h"
    using split [of 4 16] split [of 4 12] split [of 4 8] append_take_drop_id [of 8 ?h] by (simp del: pad.simps)
  finally show ?thesis .
qed

lemma strict_uuid_str [simp]: "strict_uuid (JStr (uuid_str u)) = Inr u"
proof -
  have "unat u < 16 ^ 32" using unsigned_less [of u, where 'a = nat] by simp
  then have "(of_nat (foldl (\<lambda>a c. 16 * a + hex_value c) 0 (filter (\<lambda>c. c \<noteq> CHR ''-'') (uuid_str u))) :: uuid) = u"
    by (simp add: uuid_str_digits pad_value del: pad.simps)
  then show ?thesis by simp
qed

lemma claims_valid_iff:
  "AccessTokenClaims_post_init c = Inr () \<longleftrightarrow>
     is_uuid7 (clm_user_id c) \<and> is_uuid7 (clm_session_id c) \<and> is_uuid7 (clm_token_id c)
     \<and> clm_audience c \<noteq> Audience_STEP_UP
     \<and> is_utc (clm_issued_at c) \<and> is_utc (clm_not_before c) \<and> is_utc (clm_expires_at c)
     \<and> instant (clm_issued_at c) \<le> instant (clm_not_before c) \<and> instant (clm_not_before c) < instant (clm_expires_at c)
     \<and> instant (clm_expires_at c) - instant (clm_issued_at c) \<le> maximum_lifetime (clm_audience c)
     \<and> 1 \<le> clm_auth_version c
     \<and> (if clm_audience c = Audience_TENANT
        then clm_tenant_id c \<noteq> None \<and> clm_membership_id c \<noteq> None \<and> clm_authz_version c \<noteq> None
          \<and> pred_option is_uuid7 (clm_tenant_id c) \<and> pred_option is_uuid7 (clm_membership_id c)
          \<and> pred_option (\<lambda>v. 1 \<le> v) (clm_authz_version c)
        else clm_tenant_id c = None \<and> clm_membership_id c = None \<and> clm_authz_version c = None)"
  unfolding AccessTokenClaims_post_init_def bindE_eq_Inr require_eq_Inr
  by (cases "clm_audience c = Audience_TENANT") (simp_all add: require_eq_Inr conj_assoc)

definition whole_seconds :: "AccessTokenClaims \<Rightarrow> AccessTokenClaims" where
  "whole_seconds c = c\<lparr>clm_issued_at := aware (seconds (timestamp (clm_issued_at c))),
     clm_not_before := aware (seconds (timestamp (clm_not_before c))),
     clm_expires_at := aware (seconds (timestamp (clm_expires_at c)))\<rparr>"

lemma timestamp_after_epoch: "0 \<le> instant d \<Longrightarrow> timestamp d = instant d div 1000000"
  by (simp add: timestamp_def)

lemma representable_seconds:
  assumes "0 \<le> instant d" "representable (aware (instant d))"
  shows "representable (aware (seconds (timestamp d)))"
proof -
  have "instant d div 1000000 * 1000000 \<le> instant d" by presburger
  then have "calendar_day (aware (instant d div 1000000 * 1000000)) \<le> calendar_day (aware (instant d))"
    unfolding calendar_day_def by (simp add: zdiv_mono1)
  moreover have "0 \<le> calendar_day (aware (instant d div 1000000 * 1000000))"
    using assms(1) unfolding calendar_day_def by simp
  ultimately show ?thesis
    using assms unfolding representable_def timestamp_after_epoch [OF assms(1)] seconds_def by simp
qed

lemma div_diff_le:
  fixes e i k :: int
  assumes "e - i \<le> k * 1000000"
  shows "e div 1000000 - i div 1000000 \<le> k"
proof -
  have "e div 1000000 \<le> (i + k * 1000000) div 1000000" using assms by (intro zdiv_mono1) simp_all
  then show ?thesis by simp
qed

lemma whole_seconds_valid:
  assumes "AccessTokenClaims_post_init c = Inr ()" "0 \<le> instant (clm_issued_at c)"
    and "timestamp (clm_not_before c) < timestamp (clm_expires_at c)"
  shows "AccessTokenClaims_post_init (whole_seconds c) = Inr ()"
proof -
  have window: "instant (clm_issued_at c) \<le> instant (clm_not_before c)" "instant (clm_not_before c) < instant (clm_expires_at c)"
      "instant (clm_expires_at c) - instant (clm_issued_at c) \<le> maximum_lifetime (clm_audience c)"
    using assms(1) by (simp_all add: claims_valid_iff)
  define i n e where "i = instant (clm_issued_at c)" and "n = instant (clm_not_before c)" and "e = instant (clm_expires_at c)"
  have ts: "timestamp (clm_issued_at c) = i div 1000000" "timestamp (clm_not_before c) = n div 1000000"
      "timestamp (clm_expires_at c) = e div 1000000"
    using window assms(2) by (simp_all add: timestamp_after_epoch i_def n_def e_def)
  have "i div 1000000 \<le> n div 1000000" using window(1) by (simp add: zdiv_mono1 i_def n_def)
  moreover have "e div 1000000 - i div 1000000 \<le> 600" if "e - i \<le> 600000000"
    using div_diff_le [of e i 600] that by simp
  moreover have "e div 1000000 - i div 1000000 \<le> 300" if "e - i \<le> 300000000"
    using div_diff_le [of e i 300] that by simp
  ultimately have "seconds (i div 1000000) \<le> seconds (n div 1000000)" "seconds (n div 1000000) < seconds (e div 1000000)"
      "seconds (e div 1000000) - seconds (i div 1000000) \<le> maximum_lifetime (clm_audience c)"
    using window(3) assms(3) ts by (auto simp: seconds_def maximum_lifetime_def i_def n_def e_def split: if_split_asm)
  then show ?thesis
    using assms(1) unfolding claims_valid_iff by (simp add: whole_seconds_def ts)
qed

lemma claims_of_token_payload:
  assumes "AccessTokenClaims_post_init c = Inr ()" "AccessTokenClaims_post_init (whole_seconds c) = Inr ()"
    and "representable (aware (seconds (timestamp (clm_issued_at c))))"
    and "representable (aware (seconds (timestamp (clm_not_before c))))"
    and "representable (aware (seconds (timestamp (clm_expires_at c))))"
  shows "claims_from_payload ts (token_payload ts c) (clm_audience c) = Inr (whole_seconds c)"
proof (cases "clm_audience c = Audience_TENANT")
  case True
  obtain t m v where some: "clm_tenant_id c = Some t" "clm_membership_id c = Some m" "clm_authz_version c = Some v" "1 \<le> v"
      and auth: "1 \<le> clm_auth_version c"
    using assms(1) True by (auto simp: claims_valid_iff)
  have eq: "\<lparr>clm_user_id = clm_user_id c, clm_session_id = clm_session_id c, clm_token_id = clm_token_id c,
      clm_audience = Audience_TENANT, clm_issued_at = aware (seconds (timestamp (clm_issued_at c))),
      clm_not_before = aware (seconds (timestamp (clm_not_before c))),
      clm_expires_at = aware (seconds (timestamp (clm_expires_at c))), clm_auth_version = clm_auth_version c,
      clm_tenant_id = Some t, clm_membership_id = Some m, clm_authz_version = Some v\<rparr> = whole_seconds c"
    using True some by (simp add: whole_seconds_def)
  have keys: "set (map fst (token_payload ts c)) = set (expected_claims Audience_TENANT)"
    using True some by (simp add: token_payload_def expected_claims_def COMMON_CLAIMS_def TENANT_CLAIMS_def insert_commute)
  show ?thesis
    unfolding claims_from_payload_def True keys
    using some auth assms(2-5) True
    by (simp add: token_payload_def claim_def optional_claim_def Let_def eq del: strict_uuid.simps)
next
  case False
  have none: "clm_tenant_id c = None" "clm_membership_id c = None" "clm_authz_version c = None"
      and auth: "1 \<le> clm_auth_version c"
    using assms(1) False by (simp_all add: claims_valid_iff)
  have eq: "\<lparr>clm_user_id = clm_user_id c, clm_session_id = clm_session_id c, clm_token_id = clm_token_id c,
      clm_audience = clm_audience c, clm_issued_at = aware (seconds (timestamp (clm_issued_at c))),
      clm_not_before = aware (seconds (timestamp (clm_not_before c))),
      clm_expires_at = aware (seconds (timestamp (clm_expires_at c))), clm_auth_version = clm_auth_version c,
      clm_tenant_id = None, clm_membership_id = None, clm_authz_version = None\<rparr> = whole_seconds c"
    using none by (simp add: whole_seconds_def)
  have payload: "token_payload ts c =
     [(''sub'', JStr (uuid_str (clm_user_id c))), (''sid'', JStr (uuid_str (clm_session_id c))),
      (''jti'', JStr (uuid_str (clm_token_id c))), (''iat'', JInt (timestamp (clm_issued_at c))),
      (''nbf'', JInt (timestamp (clm_not_before c))), (''exp'', JInt (timestamp (clm_expires_at c))),
      (''iss'', JStr (tsv_issuer ts)), (''aud'', JStr (Audience_value (clm_audience c))),
      (''auth_version'', JInt (clm_auth_version c))]"
    by (cases "clm_audience c") (simp_all add: token_payload_def none)
  have keys: "set (map fst (token_payload ts c)) = set (expected_claims (clm_audience c))"
    using False by (simp add: payload expected_claims_def COMMON_CLAIMS_def)
  show ?thesis
    unfolding claims_from_payload_def keys
    using False auth assms(2-5)
    by (simp add: payload claim_def optional_claim_def Let_def eq del: strict_uuid.simps)
qed

subsection \<open>Verification\<close>

lemma claims_from_payload_Inr:
  "claims_from_payload ts p audience = Inr c \<Longrightarrow> clm_audience c = audience \<and> AccessTokenClaims_post_init c = Inr ()"
  by (auto simp: claims_from_payload_def bindE_eq_Inr Let_def split: if_split_asm)

lemma verify_token_Inr:
  assumes "verify_token jw ts encoded audience now = Inr c"
  obtains header key payload where "jwt_get_unverified_header jw encoded = Some header"
    "verification_key ts header = Some key"
    "jwt_decode jw encoded key (Audience_value audience) (tsv_issuer ts) = Some payload"
    "claims_from_payload ts payload audience = Inr c" "audience \<noteq> Audience_STEP_UP" "is_utc now"
    "instant (clm_issued_at c) \<le> instant now + tsv_leeway ts"
    "instant now - tsv_leeway ts < instant (clm_expires_at c)"
  using assms by (auto simp: verify_token_def split: if_split_asm option.split_asm sum.split_asm elim!: bind_eq_Some_conv [THEN iffD1, elim_format])

interpretation jwt: audience_tokens "verify_token jw ts" for jw ts
  by unfold_locales (auto elim!: verify_token_Inr dest!: claims_from_payload_Inr)

text \<open>
  C35. A token issued for valid claims is verified for their audience as long as the clock is within the
  leeway of its window, and gives the claims back, with their times rounded down to whole seconds.
\<close>

theorem issue_then_verify:
  assumes "TokenService_init issuer kid signing verification leeway = Inr ts"
    and "AccessTokenClaims_post_init c = Inr ()" "0 \<le> instant (clm_issued_at c)"
    and "representable (aware (instant (clm_expires_at c)))"
    and "timestamp (clm_not_before c) < timestamp (clm_expires_at c)"
    and "issue_token jw ts c = Inr tok" "tok \<noteq> []" "length tok \<le> 8192" "map_of verification kid = Some key"
    and "jwt_get_unverified_header jw tok = Some (token_header ts)"
    and "jwt_decode jw tok key (Audience_value (clm_audience c)) issuer = Some (token_payload ts c)"
    and "is_utc now" "instant (clm_not_before c) \<le> instant now + seconds leeway"
    and "instant now < instant (clm_expires_at c) - seconds 1 + seconds leeway"
  shows "verify_token jw ts tok (clm_audience c) now = Inr (whole_seconds c)"
proof -
  have ts: "ts = \<lparr>tsv_issuer = issuer, tsv_active_kid = kid, tsv_signing_keys = signing,
      tsv_verification_keys = verification, tsv_leeway = seconds leeway\<rparr>" and kid: "JWT_KID_PATTERN kid"
    using assms(1) by (auto simp: TokenService_init_def bindE_eq_Inr require_eq_Inr)
  have window: "instant (clm_issued_at c) \<le> instant (clm_not_before c)" "instant (clm_not_before c) < instant (clm_expires_at c)"
      and aud: "clm_audience c \<noteq> Audience_STEP_UP"
    using assms(2) by (simp_all add: claims_valid_iff)
  have rep: "representable (aware w)" if "0 \<le> w" "w \<le> instant (clm_expires_at c)" for w
  proof -
    have "calendar_day (aware w) \<le> calendar_day (aware (instant (clm_expires_at c)))"
      using that by (simp add: calendar_day_def zdiv_mono1)
    moreover have "0 \<le> calendar_day (aware w)" using that(1) by (simp add: calendar_day_def)
    ultimately show ?thesis using assms(4) unfolding representable_def by simp
  qed
  have claims: "claims_from_payload ts (token_payload ts c) (clm_audience c) = Inr (whole_seconds c)"
    by (rule claims_of_token_payload [OF assms(2) whole_seconds_valid [OF assms(2,3,5)]];
        intro representable_seconds rep) (use window assms(3) in simp_all)
  have vkey: "verification_key ts (token_header ts) = Some key"
    using kid assms(9) by (simp add: verification_key_def token_header_def ts)
  have floor: "seconds (timestamp d) \<le> instant d \<and> instant d - seconds 1 < seconds (timestamp d)" if "0 \<le> instant d" for d
    using that by (simp add: timestamp_after_epoch seconds_def) presburger
  have times: "instant (clm_issued_at (whole_seconds c)) \<le> instant (clm_issued_at c)"
      "instant (clm_not_before (whole_seconds c)) \<le> instant (clm_not_before c)"
      "instant (clm_expires_at c) - seconds 1 < instant (clm_expires_at (whole_seconds c))"
    using floor [of "clm_issued_at c"] floor [of "clm_not_before c"] floor [of "clm_expires_at c"] window assms(3)
    by (simp_all add: whole_seconds_def)
  have "\<not> (instant now + tsv_leeway ts < instant (clm_issued_at (whole_seconds c))
      \<or> instant now + tsv_leeway ts < instant (clm_not_before (whole_seconds c))
      \<or> instant (clm_expires_at (whole_seconds c)) \<le> instant now - tsv_leeway ts)"
    using times window assms(13,14) by (simp add: ts)
  then show ?thesis
    using assms(7,8,10,11,12) aud vkey claims by (simp add: verify_token_def ts [symmetric] del: de_Morgan_disj)
      (simp add: ts)
qed

text \<open>
  C36. However long a signed token is kept, the instants at which it is accepted for an audience lie less
  than the lifetime of that audience and twice the leeway apart: under twelve minutes, under seven for the
  platform.
\<close>

theorem accepted_less_than_twelve_minutes:
  assumes "TokenService_init issuer kid signing verification leeway = Inr ts"
    and "verify_token jw ts encoded audience now = Inr c" "verify_token jw ts encoded audience later = Inr c'"
  shows "c' = c \<and> instant later - instant now < (if audience = Audience_PLATFORM then seconds 420 else seconds 720)"
proof -
  obtain header key payload where 1: "jwt_get_unverified_header jw encoded = Some header"
      "verification_key ts header = Some key"
      "jwt_decode jw encoded key (Audience_value audience) (tsv_issuer ts) = Some payload"
      "claims_from_payload ts payload audience = Inr c" "instant (clm_issued_at c) \<le> instant now + tsv_leeway ts"
    using assms(2) by (rule verify_token_Inr)
  obtain header' key' payload' where 2: "jwt_get_unverified_header jw encoded = Some header'"
      "verification_key ts header' = Some key'"
      "jwt_decode jw encoded key' (Audience_value audience) (tsv_issuer ts) = Some payload'"
      "claims_from_payload ts payload' audience = Inr c'" "instant later - tsv_leeway ts < instant (clm_expires_at c')"
    using assms(3) by (rule verify_token_Inr)
  have same: "c' = c" using 1 2 by simp
  have leeway: "tsv_leeway ts \<le> seconds 60"
    using assms(1) by (auto simp: TokenService_init_def bindE_eq_Inr require_eq_Inr seconds_def)
  have "instant (clm_expires_at c) - instant (clm_issued_at c) \<le> maximum_lifetime audience"
    using claims_from_payload_Inr [OF 1(4)] by (auto simp: claims_valid_iff)
  then show ?thesis
    using 1(5) 2(5) leeway same by (simp add: maximum_lifetime_def seconds_def split: if_split_asm)
qed

end
