(* ===== verification/SessionLife.thy ===== *)
theory SessionLife
  imports AccessTokens
begin

text \<open>
  What a session is good for: the token of a new session can be exchanged, and an accepted access token
  means a live session.  Here the service uses the JWT token service.
\<close>

subsection \<open>A new session\<close>

lemma start_Inr:
  assumes "start svc fr user ctx clock db = (Inr res, db1)"
  obtains u s r rows where "is_utc clock" "row_of usr_id user (sd_users db) = Some u" "usr_status u = ''active''"
    "s = \<lparr>ses_id = sf_session_id fr, ses_user_id = user, ses_tenant_id = None, ses_membership_id = None,
         ses_current_family_id = sf_family_id fr, ses_auth_version_at_issue = usr_auth_version u,
         ses_authz_version_at_issue = None, ses_revoked_at = None, ses_revocation_reason = None,
         ses_last_seen_at = dt_wall clock, ses_expires_at = dt_wall clock + REFRESH_ABSOLUTE_TTL, ses_version = 1\<rparr>"
    "r = \<lparr>rfr_id = sf_refresh_id fr, rfr_token_hash = refresh_hash svc (sf_raw_refresh fr),
         rfr_family_id = sf_family_id fr, rfr_session_id = sf_session_id fr, rfr_user_id = user,
         rfr_tenant_id = None, rfr_membership_id = None, rfr_issued_at = dt_wall clock,
         rfr_expires_at = dt_wall clock + REFRESH_ABSOLUTE_TTL, rfr_idle_expires_at = dt_wall clock + REFRESH_IDLE_TTL,
         rfr_used_at = None, rfr_revoked_at = None, rfr_replaced_by_id = None, rfr_revocation_reason = None,
         rfr_version = 1\<rparr>"
    "db1 = db\<lparr>sd_sessions := sd_sessions db @ [s], sd_refresh := sd_refresh db @ [r], sd_audit := rows\<rparr>"
    "sres_session_id res = sf_session_id fr" "sres_family_id res = sf_family_id fr"
    "sres_refresh_token res = sf_raw_refresh fr"
    "is_uuid7 user" "is_uuid7 (sf_session_id fr)" "1 \<le> usr_auth_version u"
proof -
  have utc: "is_utc clock" and body: "start_body svc fr user ctx clock db = Inr (res, db1)"
    using assms by (auto simp: start_def service_now_def require_eval transaction_def
        split: if_split_asm sum.split_asm prod.split_asm)
  obtain u where u: "row_of usr_id user (sd_users db) = Some u" "usr_status u = ''active''"
    using body by (auto simp: start_body_def repo_get_user_def split: option.split_asm if_split_asm)
  let ?u = "\<lparr>uss_user_id = usr_id u, uss_status = usr_status u, uss_auth_version = usr_auth_version u\<rparr>"
  have id: "usr_id u = user" using u(1) by (auto dest: row_of_SomeD)
  obtain tok dba dbb e where
    tok: "issue_access svc fr (new_session fr ?u None clock) clock = Inr tok"
    and 1: "add_session (new_session fr ?u None clock) db = Inr dba"
    and 2: "add_refresh (refresh_record svc fr (sf_family_id fr) (sf_session_id fr) user None None clock) dba = Inr dbb"
    and 3: "append_event e dbb = Inr db1"
    and res: "sres_session_id res = sf_session_id fr" "sres_family_id res = sf_family_id fr"
      "sres_refresh_token res = sf_raw_refresh fr"
    using body u id
    by (auto simp: start_body_def repo_get_user_def bindE_eq_Inr Let_def new_session_material_def new_session_def)
  have valid: "is_uuid7 user" "is_uuid7 (sf_session_id fr)" "1 \<le> usr_auth_version u"
    using tok id by (auto simp: issue_access_def Let_def bindE_eq_Inr claims_valid_iff access_claims_def new_session_def)
  obtain s where s: "session_model (new_session fr ?u None clock) = Inr s" "dba = db\<lparr>sd_sessions := sd_sessions db @ [s]\<rparr>"
    using 1 by (rule add_session_Inr)
  obtain r where r: "refresh_model (refresh_record svc fr (sf_family_id fr) (sf_session_id fr) user None None clock) = Inr r"
      "dbb = dba\<lparr>sd_refresh := sd_refresh dba @ [r]\<rparr>"
    using 2 by (rule add_refresh_Inr)
  obtain rows where rows: "db1 = dbb\<lparr>sd_audit := rows\<rparr>" using append_event_Inr [OF 3] by blast
  show thesis
    by (rule that [OF utc u _ _ _ res valid, of s r rows])
      (use session_model_Inr [OF s(1)] refresh_model_Inr [OF r(1)] s(2) r(2) rows id in
        \<open>simp_all add: new_session_def refresh_record_def\<close>)
qed

text \<open>What rotating a token needs: fresh identifiers and hash, and a token service that signs.\<close>

lemma rotate_succeeds:
  assumes ok: "session_ok db" and r: "r \<in> set (sd_refresh db)" and s: "s \<in> set (sd_sessions db)" "token_of r s"
    and account: "rfr_tenant_id r = None"
    and fresh: "sf_refresh_id fr \<notin> rfr_id ` set (sd_refresh db)"
      "refresh_hash svc (sf_raw_refresh fr) \<notin> rfr_token_hash ` set (sd_refresh db)"
      "sf_audit_id fr \<notin> (\<lambda>a. sae_id (aud_event a)) ` set (sd_audit db)"
    and hash: "length (refresh_hash svc (sf_raw_refresh fr)) \<le> 32"
    and ctx: "is_utc now" "AuditContext_post_init ctx = Inr ()"
    and access: "issue_access_from_state svc fr state now = Inr access"
  shows "\<exists>res db'. rotate svc fr ctx now (locked_refresh r) state db = Inr (res, db')
    \<and> sres_session_id res = rfr_session_id r \<and> sres_family_id res = rfr_family_id r
    \<and> sres_refresh_token res = sf_raw_refresh fr"
proof -
  have member: "rfr_membership_id r = None"
    using ok r account by (auto simp: session_ok_def list_all_iff refresh_check_def)
  let ?n = "refresh_record svc fr (rfr_family_id r) (rfr_session_id r) (rfr_user_id r) None None now"
  let ?mark = "\<lambda>q. if rfr_id q = rfr_id r
      then q\<lparr>rfr_used_at := Some (dt_wall now), rfr_version := rfr_version q + 1\<rparr> else q"
  define db1 where "db1 = db\<lparr>sd_refresh := map ?mark (sd_refresh db)\<rparr>"
  have 1: "mark_refresh_used (rfr_id r) now db = Inr db1"
  proof -
    have "row_of rfr_id (rfr_id r) (sd_refresh db) \<noteq> None" using r by (auto simp: row_of_None simp del: not_None_eq)
    then show ?thesis using ctx(1) by (simp add: mark_refresh_used_def naive_def db1_def)
  qed
  obtain m where m: "refresh_model ?n = Inr m"
    using ctx(1) by (simp add: refresh_model_def refresh_record_def naive_def)
  note mv = refresh_model_Inr [OF m, unfolded refresh_record_def, simplified]
  have owner: "owner_references db (Some (rfr_user_id r)) None None"
    using ok s account member by (auto simp: session_ok_def token_of_def)
  have keys: "map rfr_id (sd_refresh db1) = map rfr_id (sd_refresh db)"
      "map rfr_token_hash (sd_refresh db1) = map rfr_token_hash (sd_refresh db)"
    by (simp_all add: db1_def)
  have ids: "rfr_id ` set (sd_refresh db1) = rfr_id ` set (sd_refresh db)"
      "rfr_token_hash ` set (sd_refresh db1) = rfr_token_hash ` set (sd_refresh db)"
    by (simp_all only: set_map [symmetric] keys)
  define db2 where "db2 = db1\<lparr>sd_refresh := sd_refresh db1 @ [m]\<rparr>"
  have 2: "add_refresh ?n db1 = Inr db2"
  proof -
    have "sql_insert refresh_check refresh_conflict m (sd_refresh db1) = Inr (sd_refresh db1 @ [m])"
      unfolding sql_insert_Inr
    proof (intro conjI ballI refl)
      show "refresh_check m" using hash by (simp add: refresh_check_def mv)
      fix q assume "q \<in> set (sd_refresh db1)"
      then have "rfr_id q \<in> rfr_id ` set (sd_refresh db)" "rfr_token_hash q \<in> rfr_token_hash ` set (sd_refresh db)"
        using ids by blast+
      then show "\<not> refresh_conflict m q" using fresh(1,2) by (auto simp: refresh_conflict_def mv)
    qed
    moreover have "owner_references db1 (Some (rfr_user_id m)) (rfr_tenant_id m) (rfr_membership_id m)"
      using owner by (simp add: mv db1_def)
    moreover have "session_reference db1 m" "replacement_reference db1 m"
      using s by (auto simp: session_reference_def replacement_reference_def list_ex_iff token_of_def mv db1_def)
    ultimately show ?thesis using m by (simp add: add_refresh_def insert_refresh_def db2_def)
  qed
  have r1: "\<exists>q. row_of rfr_id (rfr_id r) (sd_refresh db2) = Some q \<and> rfr_session_id q = rfr_session_id r \<and> rfr_tenant_id q = None"
  proof -
    have d: "distinct (map rfr_id (sd_refresh db2))"
    proof -
      show ?thesis using ok fresh(1) by (simp add: db2_def session_ok_def mv ids(1) keys(1))
    qed
    have "?mark r \<in> set (sd_refresh db2)" using r by (auto simp: db2_def db1_def)
    then have "row_of rfr_id (rfr_id r) (sd_refresh db2) = Some (?mark r)" using row_of_iff [OF d] by simp
    then show ?thesis using account by simp
  qed
  obtain db3 where 3: "link_refresh_replacement (rfr_id r) (nrt_id ?n) now db2 = Inr db3"
      and db3: "sd_sessions db3 = sd_sessions db" "sd_audit db3 = sd_audit db" "owner_references db3 = owner_references db"
  proof -
    obtain q where q: "row_of rfr_id (rfr_id r) (sd_refresh db2) = Some q" "rfr_session_id q = rfr_session_id r" "rfr_tenant_id q = None"
      using r1 by blast
    have "replacement_reference db2 (q\<lparr>rfr_replaced_by_id := Some (nrt_id ?n)\<rparr>)"
      using q by (simp add: replacement_reference_def list_ex_iff db2_def refresh_record_def mv)
    then show thesis
      using q ctx(1) that by (simp add: link_refresh_replacement_def naive_def db2_def db1_def)
  qed
  obtain db4 where 4: "touch_session (rfr_session_id r) now (nrt_expires_at ?n) db3 = Inr db4"
      and db4: "sd_audit db4 = sd_audit db" "owner_references db4 = owner_references db"
  proof -
    have "row_of ses_id (rfr_session_id r) (sd_sessions db3) \<noteq> None"
      using s db3(1) by (auto simp: row_of_None token_of_def simp del: not_None_eq)
    then show thesis using ctx(1) that db3 by (simp add: touch_session_def naive_def refresh_record_def)
  qed
  obtain db5 where 5: "append_event (audit_event (sf_audit_id fr) ctx (Some (rfr_user_id r)) None None
      ''session.refresh'' ''success'' ''rotated'' (Some (rfr_session_id r)) now) db4 = Inr db5"
    using append_event_succeeds [OF ctx, of db4 "rfr_user_id r" None None "sf_audit_id fr" "''session.refresh''"
        "''success''" "''rotated''" "Some (rfr_session_id r)"] db4 owner fresh(3) by auto
  show ?thesis
    using 1 2 3 4 5 access account member by (simp add: rotate_def Let_def)
qed

text \<open>The token service of the program signs every claims record with the audience asked for.\<close>

lemma issue_account_succeeds:
  assumes "TokenService_init issuer kid signing verification leeway = Inr ts" "clm_audience c = Audience_ACCOUNT"
  shows "\<exists>tok. ts_issue_account (jwt_tokens jw ts) c = Inr tok"
proof -
  have "tsv_active_kid ts = kid" "tsv_signing_keys ts = signing" "kid \<in> set (map fst signing)"
    using assms(1) unfolding TokenService_init_def bindE_eq_Inr require_eq_Inr by auto
  then have "map_of (tsv_signing_keys ts) (tsv_active_kid ts) \<noteq> None" by (simp add: map_of_eq_None_iff)
  then show ?thesis using assms(2) by (auto simp: jwt_tokens_def issue_account_def issue_for_def issue_token_def)
qed

text \<open>
  C33. The refresh token of a session just started can be exchanged at any time of the following year:
  the answer has new tokens of the same session and family.  The service signs with the JWT token service,
  whose key ring passed its checks; the identifiers and the hash drawn for the exchange are fresh.
\<close>

theorem started_session_refreshes:
  assumes "reachable svc db" "sf_family_id fr \<notin> families db" "start svc fr user ctx clock db = (Inr res, db1)"
    and "refresh svc fr' (sres_refresh_token res) ctx' clock' (db1, c) = (out, db2, c2)"
    and "is_utc clock'" "instant clock \<le> instant clock'" "instant clock' < instant clock + seconds (365 * 24 * 60 * 60)"
    and "AuditContext_post_init ctx' = Inr ()" "\<And>k m. length (svc_hmac svc k m) = 32"
    and "svc_tokens svc = jwt_tokens jw ts" "TokenService_init issuer kid signing verification leeway = Inr ts"
    and "is_uuid7 (sf_family_id fr)" "is_uuid7 (sf_refresh_id fr)" "is_uuid7 (sf_token_id fr')"
    and "sf_refresh_id fr' \<notin> rfr_id ` set (sd_refresh db1)" "sf_audit_id fr' \<notin> (\<lambda>a. sae_id (aud_event a)) ` set (sd_audit db1)"
    and "refresh_hash svc (sf_raw_refresh fr') \<notin> rfr_token_hash ` set (sd_refresh db1)"
  shows "\<exists>res'. out = Inr res' \<and> sres_session_id res' = sres_session_id res \<and> sres_family_id res' = sres_family_id res
    \<and> sres_refresh_token res' = sf_raw_refresh fr'"
proof -
  have "session_step svc db (snd (start svc fr user ctx clock db))" by (rule step_start) (rule assms(2))
  then have ok1: "session_ok db1"
    using session_step_ok reachable_ok [OF assms(1)] assms(3) by force
  obtain u s r rows where st: "is_utc clock" "row_of usr_id user (sd_users db) = Some u" "usr_status u = ''active''"
    "s = \<lparr>ses_id = sf_session_id fr, ses_user_id = user, ses_tenant_id = None, ses_membership_id = None,
         ses_current_family_id = sf_family_id fr, ses_auth_version_at_issue = usr_auth_version u,
         ses_authz_version_at_issue = None, ses_revoked_at = None, ses_revocation_reason = None,
         ses_last_seen_at = dt_wall clock, ses_expires_at = dt_wall clock + REFRESH_ABSOLUTE_TTL, ses_version = 1\<rparr>"
    "r = \<lparr>rfr_id = sf_refresh_id fr, rfr_token_hash = refresh_hash svc (sf_raw_refresh fr),
         rfr_family_id = sf_family_id fr, rfr_session_id = sf_session_id fr, rfr_user_id = user,
         rfr_tenant_id = None, rfr_membership_id = None, rfr_issued_at = dt_wall clock,
         rfr_expires_at = dt_wall clock + REFRESH_ABSOLUTE_TTL, rfr_idle_expires_at = dt_wall clock + REFRESH_IDLE_TTL,
         rfr_used_at = None, rfr_revoked_at = None, rfr_replaced_by_id = None, rfr_revocation_reason = None,
         rfr_version = 1\<rparr>"
    "db1 = db\<lparr>sd_sessions := sd_sessions db @ [s], sd_refresh := sd_refresh db @ [r], sd_audit := rows\<rparr>"
    "sres_session_id res = sf_session_id fr" "sres_family_id res = sf_family_id fr"
    "sres_refresh_token res = sf_raw_refresh fr" "is_uuid7 user" "is_uuid7 (sf_session_id fr)" "1 \<le> usr_auth_version u"
    using assms(3) by (rule start_Inr)
  have in1: "r \<in> set (sd_refresh db1)" "s \<in> set (sd_sessions db1)" "token_of r s"
    by (simp_all add: st(6) token_of_def) (simp add: st(4,5))
  let ?h = "refresh_hash svc (sf_raw_refresh fr)"
  have row: "row_of rfr_token_hash ?h (sd_refresh db1) = Some r" "row_of ses_id (sf_session_id fr) (sd_sessions db1) = Some s"
    using ok1 in1 by (simp_all add: session_ok_def row_of_iff) (simp_all add: st(4,5))
  have locked: "lock_current ?h db1 = Inr (Some (locked_refresh r))"
    unfolding lock_current_Inr_Some [OF row(1)]
    using row assms(12,13) st(11)
    by (simp add: st(5) RefreshLockLocator_post_init_def optional_check_def uuid_check_def require_eq_Inr
        acquire_session_family_def SessionFamilyWriteLockRequest_post_init_def ordered_tenant_ids_def require_eval)
  have usr: "usr_id u = user" using st(2) by (auto dest: row_of_SomeD)
  have state: "get_validation_state (sf_session_id fr) db1
      = Some (validation_state s u (session_tenant s db1) (session_member s db1))"
    using row(2) st(2) by (simp add: get_validation_state_def st(4,6))
  let ?state = "validation_state s u (session_tenant s db1) (session_member s db1)"
  have times: "instant clock' < dt_wall clock + REFRESH_ABSOLUTE_TTL" "REFRESH_IDLE_TTL = REFRESH_ABSOLUTE_TTL"
    using assms(7) st(1) by (simp_all add: instant_utc REFRESH_ABSOLUTE_TTL_def REMEMBER_DEVICE_SECONDS_def REFRESH_IDLE_TTL_def)
  have auth: "state_is_authoritative ?state None clock'"
    using times(1) st(3) by (simp add: state_is_authoritative_def st(4) aware_optional_def)
  have current: "refresh_is_current (locked_refresh r) clock'" "lrt_used_at (locked_refresh r) = None"
    using times by (simp_all add: refresh_is_current_def locked_refresh_def st(5) aware_optional_def)
  have match: "refresh_matches_state (locked_refresh r) ?state"
    by (simp add: refresh_matches_state_def st(4,5))
  have no_member: "svs_membership_authz_version ?state = None"
    by (simp add: session_member_def st(4) sql_scalar_def find_None_iff)
  have "AccessTokenClaims_post_init (access_claims fr' (session_of_state ?state clock') clock') = Inr ()"
    using st(10-12) assms(5,14) no_member
    by (simp add: claims_valid_iff access_claims_def session_of_state_def st(4) ACCESS_TTL_def maximum_lifetime_def seconds_def)
  moreover have "\<exists>tok. ts_issue_account (svc_tokens svc) (access_claims fr' (session_of_state ?state clock') clock') = Inr tok"
    using issue_account_succeeds [OF assms(11), of "access_claims fr' (session_of_state ?state clock') clock'" jw] assms(10)
    by (simp add: access_claims_def session_of_state_def st(4))
  ultimately obtain access where access: "issue_access_from_state svc fr' ?state clock' = Inr access"
    by (auto simp: issue_access_from_state_def issue_access_def access_claims_def session_of_state_def st(4))
  have "length (refresh_hash svc (sf_raw_refresh fr')) \<le> 32" using assms(9) by (simp add: refresh_hash_def)
  then obtain res' db' where rot: "rotate svc fr' ctx' clock' (locked_refresh r) ?state db1 = Inr (res', db')"
      and res': "sres_session_id res' = rfr_session_id r" "sres_family_id res' = rfr_family_id r"
        "sres_refresh_token res' = sf_raw_refresh fr'"
    using rotate_succeeds [OF ok1 in1(1,2,3) _ assms(15,17,16) _ assms(5,8) access] by (auto simp: st(5))
  have "refresh_body svc fr' (sres_refresh_token res) ctx' clock' db1 = Inr (Rotated res', db')"
    using locked current auth match state rot
    by (simp add: refresh_body_def refresh_current_def st(5,9))
  then have "out = Inr res'"
    using assms(4) by (simp add: refresh_utc [OF assms(5)] transaction_def)
  then show ?thesis using res' by (simp add: st(5,7,8))
qed

subsection \<open>An accepted access token\<close>

text \<open>
  C11. An access token that is accepted was verified for the audience asked for, and its session is
  stored, neither revoked nor expired, of the token's user, who is active with the token's version.  A
  tenant in the answer is the tenant of the token, and the user is an active member of it right now under
  the membership in the answer, with the version in the token; the answer has a tenant exactly for the
  tenant audience.  No cached value takes part in this.
\<close>

theorem validate_access_sound:
  assumes "fst (validate_access svc encoded audience clock (db, c)) = Inr v" "svc_tokens svc = jwt_tokens jw ts"
  shows "\<exists>claims s. verify_token jw ts encoded audience clock = Inr claims
    \<and> active_session claims (instant clock) db s \<and> vs_user_id v = ses_user_id s \<and> vs_session_id v = ses_id s
    \<and> (audience = Audience_TENANT) = (vs_tenant_id v \<noteq> None)
    \<and> (case vs_tenant_id v of
         None \<Rightarrow> vs_membership_id v = None \<and> ses_tenant_id s = None
       | Some tenant \<Rightarrow> clm_tenant_id claims = Some tenant \<and> vs_membership_id v = clm_membership_id claims
           \<and> (\<exists>membership. vs_membership_id v = Some membership
                \<and> member_now (ses_user_id s) tenant membership (clm_authz_version claims) (instant clock) db))"
proof -
  have tokens: "ts_verify (svc_tokens svc) = verify_token jw ts" using assms(2) by (simp add: jwt_tokens_def)
  from jwt.validated_session [OF assms(1) this] show ?thesis unfolding tokens .
qed

end
