(* ===== verification/SessionSamples.thy ===== *)
theory SessionSamples
  imports SessionLife
begin

text \<open>A small database and service, and concrete runs that the properties of sessions apply to.\<close>

definition sample_tokens :: token_service where
  "sample_tokens = \<lparr>ts_issue_account = (\<lambda>c. Inr ''a''), ts_issue_tenant = (\<lambda>c. Inr ''t''),
     ts_verify = (\<lambda>encoded audience now. Inl InvalidToken)\<rparr>"

definition sample_hmac :: "bytes \<Rightarrow> bytes \<Rightarrow> bytes" where
  "sample_hmac k m = take 32 (drop 11 m @ replicate 32 0)"

definition sample_svc :: "unit session_service" where
  "sample_svc = \<lparr>svc_tokens = sample_tokens, svc_hmac = sample_hmac, svc_refresh_hash_key = replicate 32 0,
     svc_cache = None, svc_cache_ttl = 60\<rparr>"

definition sample_ctx :: AuditContext where
  "sample_ctx = \<lparr>actx_trace_id = ''t-1'', actx_client_ip_hash = None, actx_user_agent_hash = None\<rparr>"

definition sample_raw :: "char \<Rightarrow> string" where
  "sample_raw c = replicate 43 c"

definition sample_hash :: "8 word \<Rightarrow> bytes" where
  "sample_hash b = replicate 32 b"

definition sample_fresh :: "uuid \<Rightarrow> char \<Rightarrow> session_fresh" where
  "sample_fresh n c = \<lparr>sf_session_id = u7 (10 * n), sf_family_id = u7 (10 * n + 1), sf_refresh_id = u7 (10 * n + 2),
     sf_token_id = u7 (10 * n + 3), sf_audit_id = u7 (10 * n + 4), sf_raw_refresh = sample_raw c\<rparr>"

definition sample_users :: session_db where
  "sample_users = \<lparr>sd_sessions = [], sd_refresh = [],
     sd_users = [\<lparr>usr_id = u7 1, usr_status = ''active'', usr_auth_version = 1\<rparr>],
     sd_tenants = [\<lparr>ten_id = u7 2, ten_status = TenantStatus_ACTIVE\<rparr>],
     sd_memberships = [\<lparr>mbr_id = u7 3, mbr_tenant_id = u7 2, mbr_user_id = u7 1, mbr_department_id = None,
        mbr_member_type = MemberType_INTERNAL, mbr_status = MembershipStatus_ACTIVE, mbr_valid_from = 0, mbr_valid_until = None,
        mbr_authz_version = 1, mbr_version = 1\<rparr>],
     sd_audit = []\<rparr>"

lemmas sample_defs = sample_fresh_def sample_ctx_def sample_users_def

lemma sample_refresh_hash [simp]:
  "refresh_hash sample_svc (sample_raw CHR ''A'') = sample_hash 65"
  "refresh_hash sample_svc (sample_raw CHR ''B'') = sample_hash 66"
  "refresh_hash sample_svc (sample_raw CHR ''C'') = sample_hash 67"
  by code_simp+

lemma sample_hash_simps [simp]: "length (sample_hash b) = 32" "sample_hash b = sample_hash c \<longleftrightarrow> b = c"
  by (simp_all add: sample_hash_def)

lemma sample_hmac_length [simp]: "length (svc_hmac sample_svc k m) = 32"
  by (simp add: sample_svc_def sample_hmac_def min_def)

lemma sample_no_cache [simp]: "invalidate_cache sample_svc i c = c"
  by (simp add: invalidate_cache_def sample_svc_def)

lemma sample_issue [simp]:
  "ts_issue_account (svc_tokens sample_svc) c = Inr ''a''" "ts_issue_tenant (svc_tokens sample_svc) c = Inr ''t''"
  by (simp_all add: sample_svc_def sample_tokens_def)

lemma session_u7 [simp]:
  "is_uuid7 (u7 20)" "is_uuid7 (u7 21)" "is_uuid7 (u7 22)" "is_uuid7 (u7 23)" "is_uuid7 (u7 24)"
  "is_uuid7 (u7 30)" "is_uuid7 (u7 31)" "is_uuid7 (u7 32)" "is_uuid7 (u7 33)" "is_uuid7 (u7 34)"
  by (simp_all add: is_uuid7_def uuid_is_rfc4122_def uuid_version_def u7_def)

lemmas run_defs = transaction_def service_now_def require_eval repo_get_user_def row_of_def new_session_material_def
  new_session_def refresh_record_def Let_def issue_access_def access_claims_def AccessTokenClaims_post_init_def ACCESS_TTL_def seconds_def
  maximum_lifetime_def add_session_def session_model_def insert_session_def owner_references_def member_reference_def
  foreign_def sql_insert_def session_check_def add_refresh_def refresh_model_def insert_refresh_def session_reference_def
  replacement_reference_def refresh_check_def refresh_conflict_def append_event_def insert_audit_def audit_check_def
  audit_event_def actor_kind_def REFRESH_ABSOLUTE_TTL_def REFRESH_IDLE_TTL_def REMEMBER_DEVICE_SECONDS_def naive_def

definition sample_started :: session_db where
  "sample_started = sample_users\<lparr>
     sd_sessions := [\<lparr>ses_id = u7 10, ses_user_id = u7 1, ses_tenant_id = None, ses_membership_id = None,
       ses_current_family_id = u7 11, ses_auth_version_at_issue = 1, ses_authz_version_at_issue = None,
       ses_revoked_at = None, ses_revocation_reason = None, ses_last_seen_at = 0, ses_expires_at = 31536000000000,
       ses_version = 1\<rparr>],
     sd_refresh := [\<lparr>rfr_id = u7 12, rfr_token_hash = sample_hash 65, rfr_family_id = u7 11, rfr_session_id = u7 10,
       rfr_user_id = u7 1, rfr_tenant_id = None, rfr_membership_id = None, rfr_issued_at = 0,
       rfr_expires_at = 31536000000000, rfr_idle_expires_at = 31536000000000, rfr_used_at = None,
       rfr_revoked_at = None, rfr_replaced_by_id = None, rfr_revocation_reason = None, rfr_version = 1\<rparr>],
     sd_audit := [\<lparr>aud_event = audit_event (u7 14) sample_ctx (Some (u7 1)) None None ''session.start'' ''success''
       ''authenticated'' (Some (u7 10)) (aware 0), aud_actor_kind = ''global_user''\<rparr>]\<rparr>"

lemma sample_start:
  "start sample_svc (sample_fresh 1 CHR ''A'') (u7 1) sample_ctx (aware 0) sample_users =
     (Inr \<lparr>sres_session_id = u7 10, sres_family_id = u7 11, sres_access_token = ''a'',
           sres_refresh_token = sample_raw CHR ''A''\<rparr>, sample_started)"
  by (simp add: start_def start_body_def run_defs sample_defs sample_started_def)

lemmas refresh_defs = refresh_body_def lock_current_def locate_refresh_def RefreshLockLocator_post_init_def
  optional_check_def uuid_check_def acquire_session_family_def SessionFamilyWriteLockRequest_post_init_def
  ordered_tenant_ids_def lock_refresh_def refresh_matches_locator_def locked_refresh_def refresh_current_def
  aware_optional_def refresh_is_current_def get_validation_state_def validation_state_def session_tenant_def
  session_member_def sql_scalar_def state_is_authoritative_def refresh_matches_state_def rotate_def
  mark_refresh_used_def link_refresh_replacement_def touch_session_def issue_access_from_state_def session_of_state_def

lemma sample_u7_distinct [simp]:
  "u7 10 \<noteq> u7 20" "u7 12 \<noteq> u7 22" "u7 22 \<noteq> u7 12" "u7 24 \<noteq> u7 14" "u7 14 \<noteq> u7 24" "u7 34 \<noteq> u7 14" "u7 34 \<noteq> u7 24"
  "u7 11 \<noteq> u7 21" "u7 21 \<noteq> u7 11" "u7 20 \<noteq> u7 10"
  by (simp_all add: u7_def)

definition sample_rotation :: "SessionResult result \<times> session_db \<times> unit" where
  "sample_rotation = refresh sample_svc (sample_fresh 2 CHR ''B'') (sample_raw CHR ''A'') sample_ctx (aware 5) (sample_started, ())"

lemma sample_refresh:
  "\<exists>db. sample_rotation = (Inr \<lparr>sres_session_id = u7 10, sres_family_id = u7 11, sres_access_token = ''a'',
           sres_refresh_token = sample_raw CHR ''B''\<rparr>, db, ())
     \<and> (\<lambda>a. sae_id (aud_event a)) ` set (sd_audit db) = {u7 14, u7 24}"
  unfolding sample_rotation_def
  by (simp add: refresh_utc refresh_defs run_defs sample_defs sample_started_def)
    
lemma sample_ctx_ok [simp]: "AuditContext_post_init sample_ctx = Inr ()"
  by (simp add: AuditContext_post_init_def sample_ctx_def require_eval matches_class_def trace_char_def) code_simp

lemma sample_reachable: "session_run sample_svc sample_users sample_started" "reachable sample_svc sample_started"
proof -
  have "session_step sample_svc sample_users (snd (start sample_svc (sample_fresh 1 CHR ''A'') (u7 1) sample_ctx (aware 0) sample_users))"
    by (rule step_start) (simp add: families_def sample_users_def)
  then show "session_run sample_svc sample_users sample_started"
    by (auto simp: session_run_def sample_start)
  then show "reachable sample_svc sample_started"
    unfolding reachable_def by (intro exI [of _ sample_users]) (simp add: sample_users_def)
qed

lemma run_refl: "session_run svc db db"
  by (simp add: session_run_def)

subsection \<open>The properties applied\<close>

lemma one_live_token_witness:
  "length (filter live (filter (\<lambda>r. rfr_session_id r = u7 10) (sd_refresh sample_started))) \<le> 1"
  using one_live_token [OF sample_reachable(1), of "hd (sd_sessions sample_started)", OF _ _ _ refl]
  by (simp add: sample_users_def sample_started_def)

lemma refresh_token_single_use_witness:
  "\<exists>db out. sample_rotation = (Inr \<lparr>sres_session_id = u7 10, sres_family_id = u7 11, sres_access_token = ''a'',
        sres_refresh_token = sample_raw CHR ''B''\<rparr>, db, ())
     \<and> refresh sample_svc (sample_fresh 3 CHR ''C'') (sample_raw CHR ''A'') sample_ctx (aware 9) (db, ()) = out
     \<and> fst out = Inl RefreshReplayDetected \<and> unusable sample_svc (u7 10) (fst (snd out))"
proof -
  obtain db where db: "sample_rotation = (Inr \<lparr>sres_session_id = u7 10, sres_family_id = u7 11, sres_access_token = ''a'',
        sres_refresh_token = sample_raw CHR ''B''\<rparr>, db, ())" "(\<lambda>a. sae_id (aud_event a)) ` set (sd_audit db) = {u7 14, u7 24}"
    using sample_refresh by blast
  obtain out db3 where out: "refresh sample_svc (sample_fresh 3 CHR ''C'') (sample_raw CHR ''A'') sample_ctx (aware 9) (db, ())
      = (out, db3, ())"
    by (metis prod.exhaust unit.exhaust)
  have "out = Inl RefreshReplayDetected \<and> unusable sample_svc (sres_session_id
      \<lparr>sres_session_id = u7 10, sres_family_id = u7 11, sres_access_token = ''a'',
        sres_refresh_token = sample_raw CHR ''B''\<rparr>) db3"
    by (rule refresh_token_single_use [OF sample_reachable(2) db(1) [unfolded sample_rotation_def] run_refl out _ _ _ run_refl])
      (simp_all add: db(2) sample_fresh_def)
  with db(1) out show ?thesis by auto
qed

lemma revocation_is_final_witness:
  "unusable sample_svc (u7 10)
     (fst (snd (revoke sample_svc (sample_fresh 2 CHR ''B'') (u7 10) LOGOUT sample_ctx (aware 5) (sample_started, ()))))"
proof -
  have "\<exists>db. revoke sample_svc (sample_fresh 2 CHR ''B'') (u7 10) LOGOUT sample_ctx (aware 5) (sample_started, ()) = (Inr (), db, ())"
    by (simp add: revoke_def revoke_body_def locate_session_def SessionLockLocator_post_init_def session_matches_locator_def
        refresh_defs run_defs sample_defs sample_started_def revoke_family_def
        revoke_tokens_def revoke_session_def revoke_logins_def)
  then obtain db where db: "revoke sample_svc (sample_fresh 2 CHR ''B'') (u7 10) LOGOUT sample_ctx (aware 5) (sample_started, ())
      = (Inr (), db, ())" ..
  have "unusable sample_svc (u7 10) db"
    by (rule revocation_is_final [OF sample_reachable(2) _ db run_refl]) (simp add: sample_started_def)
  with db show ?thesis by simp
qed

definition sample_command :: SwitchTenantCommand where
  "sample_command = \<lparr>stc_session_id = u7 10, stc_tenant_id = u7 2, stc_membership_id = u7 3\<rparr>"

lemma switch_replaces_session_witness:
  "unusable sample_svc (u7 10) (fst (snd (switch_tenant sample_svc (sample_fresh 2 CHR ''B'') sample_command sample_ctx (aware 5)
     (\<lambda>db. db) (sample_started, ()))))"
proof -
  have "\<exists>res db. switch_tenant sample_svc (sample_fresh 2 CHR ''B'') sample_command sample_ctx (aware 5)
     (\<lambda>db. db) (sample_started, ()) = (Inr res, db, ())"
    by (simp add: switch_tenant_def switch_tenant_body_def locate_session_def SessionLockLocator_post_init_def
        session_matches_locator_def lock_tenant_context_def find_member_def tenant_session_state_def tenant_is_active_def
        acquire_tenant_gate_def sample_command_def
        refresh_defs run_defs sample_defs sample_started_def revoke_family_def
        revoke_tokens_def revoke_session_def revoke_logins_def revoke_token_def revoke_login_def)
  then obtain res db where db: "switch_tenant sample_svc (sample_fresh 2 CHR ''B'') sample_command sample_ctx (aware 5)
     (\<lambda>db. db) (sample_started, ()) = (Inr res, db, ())" by blast
  have "unusable sample_svc (stc_session_id sample_command) db"
    by (rule switch_replaces_session [OF sample_reachable(2) run_refl _ db run_refl, THEN conjunct1])
      (simp add: families_def sample_started_def sample_fresh_def)
  with db show ?thesis by (simp add: sample_command_def)
qed

subsection \<open>Access tokens\<close>

definition sample_token_service :: TokenService where
  "sample_token_service = \<lparr>tsv_issuer = ''lawyer'', tsv_active_kid = ''k'', tsv_signing_keys = [(''k'', [1])],
     tsv_verification_keys = [(''k'', [2])], tsv_leeway = seconds 30\<rparr>"

definition sample_claims :: AccessTokenClaims where
  "sample_claims = \<lparr>clm_user_id = u7 1, clm_session_id = u7 10, clm_token_id = u7 13, clm_audience = Audience_ACCOUNT,
     clm_issued_at = aware 0, clm_not_before = aware 0, clm_expires_at = aware 600000000, clm_auth_version = 1,
     clm_tenant_id = None, clm_membership_id = None, clm_authz_version = None\<rparr>"

definition sample_jwt :: jwt where
  "sample_jwt = \<lparr>jwt_get_unverified_header = (\<lambda>_. Some (token_header sample_token_service)),
     jwt_decode = (\<lambda>_ key aud iss. if key = [2] then Some (token_payload sample_token_service sample_claims) else None),
     jwt_encode = (\<lambda>payload key header. ''jwt'')\<rparr>"

lemma sample_token_service_init:
  "TokenService_init ''lawyer'' ''k'' [(''k'', [1])] [(''k'', [2])] 30 = Inr sample_token_service"
  by (simp add: TokenService_init_def require_eval sample_token_service_def JWT_KID_PATTERN_def matches_class_def
      kid_char_def is_alnum_def is_lower_def) code_simp

lemma sample_claims_valid: "AccessTokenClaims_post_init sample_claims = Inr ()"
  by (simp add: claims_valid_iff sample_claims_def maximum_lifetime_def seconds_def)

lemma sample_times:
  "representable (aware 0)" "representable (aware 600000000)" "timestamp (aware 0) = 0" "timestamp (aware 600000000) = 600"
  by (simp_all add: representable_def calendar_day_def timestamp_def)

lemma issue_then_verify_witness:
  "verify_token sample_jwt sample_token_service ''jwt'' Audience_ACCOUNT (aware 60000000) = Inr sample_claims"
proof -
  have "verify_token sample_jwt sample_token_service ''jwt'' (clm_audience sample_claims) (aware 60000000) = Inr (whole_seconds sample_claims)"
    by (rule issue_then_verify [OF sample_token_service_init sample_claims_valid, where key = "[2]"])
      (simp_all add: sample_claims_def sample_times issue_token_def sample_token_service_def sample_jwt_def seconds_def)
  then show ?thesis by (simp add: sample_claims_def whole_seconds_def sample_times seconds_def)
qed

lemma sample_verified:
  "verify_token sample_jwt sample_token_service ''jwt'' Audience_ACCOUNT (aware 60000000) = Inr sample_claims"
proof -
  have whole: "whole_seconds sample_claims = sample_claims"
    by (simp add: sample_claims_def whole_seconds_def sample_times seconds_def)
  have "claims_from_payload sample_token_service (token_payload sample_token_service sample_claims) (clm_audience sample_claims)
      = Inr (whole_seconds sample_claims)"
    by (rule claims_of_token_payload) (simp_all add: whole sample_claims_valid, simp_all add: sample_claims_def sample_times seconds_def)
  moreover have "JWT_KID_PATTERN ''k''" by code_simp
  ultimately show ?thesis
    by (simp add: verify_token_def sample_jwt_def verification_key_def token_header_def whole)
      (simp add: sample_token_service_def sample_claims_def seconds_def)
qed

text \<open>The same service with the JWT token service in place.\<close>

definition sample_jwt_svc :: "unit session_service" where
  "sample_jwt_svc = sample_svc\<lparr>svc_tokens := jwt_tokens sample_jwt sample_token_service\<rparr>"

lemma sample_jwt_issue:
  "clm_audience c = Audience_ACCOUNT \<Longrightarrow> ts_issue_account (svc_tokens sample_jwt_svc) c = Inr ''jwt''"
  by (simp add: sample_jwt_svc_def jwt_tokens_def issue_account_def issue_for_def issue_token_def sample_token_service_def
      sample_jwt_def)

lemma sample_jwt_hash: "refresh_hash sample_jwt_svc m = refresh_hash sample_svc m"
  by (simp add: refresh_hash_def sample_jwt_svc_def)

lemma sample_jwt_start:
  "start sample_jwt_svc (sample_fresh 1 CHR ''A'') (u7 1) sample_ctx (aware 0) sample_users =
     (Inr \<lparr>sres_session_id = u7 10, sres_family_id = u7 11, sres_access_token = ''jwt'',
           sres_refresh_token = sample_raw CHR ''A''\<rparr>, sample_started)"
  by (simp add: start_def start_body_def run_defs sample_defs sample_started_def sample_jwt_issue sample_jwt_hash)

lemma started_session_refreshes_witness:
  "\<exists>access db. refresh sample_jwt_svc (sample_fresh 2 CHR ''B'') (sample_raw CHR ''A'') sample_ctx (aware 5) (sample_started, ())
     = (Inr \<lparr>sres_session_id = u7 10, sres_family_id = u7 11, sres_access_token = access,
          sres_refresh_token = sample_raw CHR ''B''\<rparr>, db, ())"
proof -
  obtain out db2 where out: "refresh sample_jwt_svc (sample_fresh 2 CHR ''B'') (sample_raw CHR ''A'') sample_ctx (aware 5)
      (sample_started, ()) = (out, db2, ())"
    by (metis prod.exhaust unit.exhaust)
  have reach: "reachable sample_jwt_svc sample_users"
    unfolding reachable_def by (intro exI [of _ sample_users]) (simp add: sample_users_def run_refl)
  have tokens: "svc_tokens sample_jwt_svc = jwt_tokens sample_jwt sample_token_service" by (simp add: sample_jwt_svc_def)
  have hmac: "length (svc_hmac sample_jwt_svc k m) = 32" for k m by (simp add: sample_jwt_svc_def)
  obtain res where res: "out = Inr res" "sres_session_id res = u7 10" "sres_family_id res = u7 11"
      "sres_refresh_token res = sample_raw CHR ''B''"
    using started_session_refreshes [OF reach _ sample_jwt_start _ _ _ _ _ hmac tokens sample_token_service_init,
        of "sample_fresh 2 CHR ''B''" sample_ctx "aware 5" "()" out db2 "()"] out
    by (auto simp: families_def sample_users_def sample_fresh_def seconds_def sample_started_def audit_event_def sample_jwt_hash)
  have "res = \<lparr>sres_session_id = u7 10, sres_family_id = u7 11, sres_access_token = sres_access_token res,
      sres_refresh_token = sample_raw CHR ''B''\<rparr>"
    using res(2-4) by (cases res) simp
  then show ?thesis using out res(1) by metis
qed

lemma accepted_less_than_twelve_minutes_witness: "instant (aware 60000000) - instant (aware 60000000) < seconds 720"
  using accepted_less_than_twelve_minutes [OF sample_token_service_init sample_verified sample_verified] by simp

lemma validate_access_sound_witness:
  "\<exists>s. active_session sample_claims 60000000 sample_started s \<and> ses_id s = u7 10"
proof -
  let ?svc = "sample_svc\<lparr>svc_tokens := jwt_tokens sample_jwt sample_token_service\<rparr>"
  have "\<exists>v. fst (validate_access ?svc ''jwt'' Audience_ACCOUNT (aware 60000000) (sample_started, ())) = Inr v"
    using sample_verified
    by (simp add: validate_access_def service_now_def require_eval jwt_tokens_def read_cached_state_def load_validation_state_def
        refresh_defs sample_claims_def sample_started_def sample_users_def row_of_def sample_svc_def)
  then obtain v where "fst (validate_access ?svc ''jwt'' Audience_ACCOUNT (aware 60000000) (sample_started, ())) = Inr v" ..
  from validate_access_sound [OF this, of sample_jwt sample_token_service] sample_verified
  show ?thesis by (auto simp: active_session_def sample_claims_def)
qed

end
