(* ===== verification/AuditTrail.thy ===== *)
theory AuditTrail
  imports Sessions
begin

text \<open>
  \<open>application/audit.py\<close>: the structured audit event with the checks of its constructor, and the
  \<open>CHECK\<close> constraints of the table \<open>audit_events\<close> (\<open>models/audit.py\<close>) that it is stored under.  The
  constructor and the constraint state the same matrix of actor kinds twice;
  \<open>audit_matrix_is_check\<close> proves them equivalent.
\<close>

datatype AuditActorKind = TENANT_USER | GLOBAL_USER | ANONYMOUS | SYSTEM_IDENTITY_BOOTSTRAP
  | SYSTEM_GLOBAL_MAINTENANCE | SYSTEM_WORKER | SYSTEM_PUBLISHER | SYSTEM_JOB_MAINTENANCE
  | SYSTEM_FEATURE_ROLLOUT | SYSTEM_GLOBAL_FEATURE_ROLLOUT | PLATFORM_OPERATOR

fun AuditActorKind_value :: "AuditActorKind \<Rightarrow> string" where
  "AuditActorKind_value TENANT_USER = ''tenant_user''"
| "AuditActorKind_value GLOBAL_USER = ''global_user''"
| "AuditActorKind_value ANONYMOUS = ''anonymous''"
| "AuditActorKind_value SYSTEM_IDENTITY_BOOTSTRAP = ''system_identity_bootstrap''"
| "AuditActorKind_value SYSTEM_GLOBAL_MAINTENANCE = ''system_global_maintenance''"
| "AuditActorKind_value SYSTEM_WORKER = ''system_worker''"
| "AuditActorKind_value SYSTEM_PUBLISHER = ''system_publisher''"
| "AuditActorKind_value SYSTEM_JOB_MAINTENANCE = ''system_job_maintenance''"
| "AuditActorKind_value SYSTEM_FEATURE_ROLLOUT = ''system_feature_rollout''"
| "AuditActorKind_value SYSTEM_GLOBAL_FEATURE_ROLLOUT = ''system_global_feature_rollout''"
| "AuditActorKind_value PLATFORM_OPERATOR = ''platform_operator''"

record StructuredAuditEvent =
  sev_id :: uuid
  sev_actor_kind :: AuditActorKind
  sev_action :: string
  sev_result :: string
  sev_reason_code :: string
  sev_trace_id :: string
  sev_occurred_at :: datetime
  sev_tenant_id :: "uuid option"
  sev_actor_user_id :: "uuid option"
  sev_actor_membership_id :: "uuid option"
  sev_on_behalf_of_user_id :: "uuid option"
  sev_on_behalf_of_membership_id :: "uuid option"
  sev_target_job_id :: "uuid option"
  sev_attempt_id :: "uuid option"
  sev_message_id :: "uuid option"
  sev_rollout_feature_code :: "string option"
  sev_rollout_generation :: "int option"
  sev_target_type :: "string option"
  sev_target_id :: "uuid option"
  sev_client_ip_hash :: "bytes option"
  sev_user_agent_hash :: "bytes option"

subsection \<open>The constructor\<close>

definition starts_with :: "string \<Rightarrow> string \<Rightarrow> bool" where
  "starts_with prefix s \<longleftrightarrow> take (length prefix) s = prefix"

definition TENANT_USER_PREFIXES :: "string list" where
  "TENANT_USER_PREFIXES = [''tenant.'', ''membership.'', ''department.'', ''role.'', ''invitation.'', ''ai_job.'',
     ''risk_issue.'', ''document.'', ''rule_pack.'', ''matter.'']"

definition GLOBAL_USER_PREFIXES :: "string list" where
  "GLOBAL_USER_PREFIXES = [''identity.'', ''credential.'', ''account.'']"

definition ANONYMOUS_ACTIONS :: "string list" where
  "ANONYMOUS_ACTIONS = [''identity.authenticate'', ''identity.register'']"

definition PLATFORM_PREFIXES :: "string list" where
  "PLATFORM_PREFIXES = [''platform.'', ''tenant_application.'']"

definition FEATURE_ROLLOUT_ACTIONS :: "string list" where
  "FEATURE_ROLLOUT_ACTIONS = [''permission_feature.phase_migrated'', ''permission_feature.tenant_activated'']"

definition BOOTSTRAP_ACTIONS :: "string list" where
  "BOOTSTRAP_ACTIONS = [''platform_admin.bootstrap'']"

definition GLOBAL_MAINTENANCE_ACTIONS :: "string list" where
  "GLOBAL_MAINTENANCE_ACTIONS = [''invitation.blind_index_legacy_reconcile'']"

definition audit_utc_check :: "datetime \<Rightarrow> string \<Rightarrow> bool \<times> exn" where
  "audit_utc_check d name = (is_utc d, StructuredAuditError (name @ '' must be UTC-aware''))"

definition validate_common_grouping :: "StructuredAuditEvent \<Rightarrow> unit result" where
  "validate_common_grouping e = require
     [(sev_actor_membership_id e \<noteq> None \<longrightarrow> sev_tenant_id e \<noteq> None \<and> sev_actor_user_id e \<noteq> None,
        StructuredAuditError ''actor membership requires tenant and actor user''),
      ((sev_on_behalf_of_user_id e = None) = (sev_on_behalf_of_membership_id e = None),
        StructuredAuditError ''on-behalf-of fields must be set together''),
      (sev_on_behalf_of_user_id e \<noteq> None \<longrightarrow> sev_tenant_id e \<noteq> None,
        StructuredAuditError ''on-behalf-of requires tenant''),
      (sev_attempt_id e \<noteq> None \<or> sev_message_id e \<noteq> None \<longrightarrow> sev_target_job_id e \<noteq> None,
        StructuredAuditError ''attempt or message target requires a target job''),
      (sev_target_job_id e \<noteq> None \<or> sev_attempt_id e \<noteq> None \<or> sev_message_id e \<noteq> None \<longrightarrow> sev_tenant_id e \<noteq> None,
        StructuredAuditError ''job targets require tenant''),
      ((sev_rollout_feature_code e = None) = (sev_rollout_generation e = None),
        StructuredAuditError ''rollout feature and generation must be set together'')]"

definition actor_absent :: "StructuredAuditEvent \<Rightarrow> bool" where
  "actor_absent e \<longleftrightarrow> sev_actor_user_id e = None \<and> sev_actor_membership_id e = None"

definition on_behalf_absent :: "StructuredAuditEvent \<Rightarrow> bool" where
  "on_behalf_absent e \<longleftrightarrow> sev_on_behalf_of_user_id e = None \<and> sev_on_behalf_of_membership_id e = None"

definition rollout_absent :: "StructuredAuditEvent \<Rightarrow> bool" where
  "rollout_absent e \<longleftrightarrow> sev_rollout_feature_code e = None \<and> sev_rollout_generation e = None"

definition target_absent :: "StructuredAuditEvent \<Rightarrow> bool" where
  "target_absent e \<longleftrightarrow> sev_target_job_id e = None \<and> sev_attempt_id e = None \<and> sev_message_id e = None"

fun matrix_invalid :: "AuditActorKind \<Rightarrow> StructuredAuditEvent \<Rightarrow> bool" where
  "matrix_invalid TENANT_USER e \<longleftrightarrow> sev_tenant_id e = None \<or> sev_actor_user_id e = None
     \<or> sev_actor_membership_id e = None \<or> \<not> on_behalf_absent e \<or> \<not> rollout_absent e"
| "matrix_invalid SYSTEM_WORKER e \<longleftrightarrow> sev_tenant_id e = None \<or> on_behalf_absent e \<or> sev_target_job_id e = None
     \<or> \<not> actor_absent e \<or> \<not> rollout_absent e"
| "matrix_invalid SYSTEM_PUBLISHER e \<longleftrightarrow> sev_tenant_id e = None \<or> sev_target_job_id e = None
     \<or> sev_message_id e = None \<or> \<not> actor_absent e \<or> \<not> rollout_absent e"
| "matrix_invalid SYSTEM_JOB_MAINTENANCE e \<longleftrightarrow> sev_tenant_id e = None \<or> sev_target_job_id e = None
     \<or> \<not> actor_absent e \<or> \<not> rollout_absent e"
| "matrix_invalid SYSTEM_FEATURE_ROLLOUT e \<longleftrightarrow> sev_tenant_id e = None \<or> rollout_absent e
     \<or> \<not> actor_absent e \<or> \<not> on_behalf_absent e \<or> \<not> target_absent e"
| "matrix_invalid SYSTEM_GLOBAL_FEATURE_ROLLOUT e \<longleftrightarrow> sev_tenant_id e \<noteq> None \<or> \<not> actor_absent e
     \<or> \<not> on_behalf_absent e \<or> \<not> target_absent e \<or> rollout_absent e"
| "matrix_invalid GLOBAL_USER e \<longleftrightarrow> sev_tenant_id e \<noteq> None \<or> sev_actor_user_id e = None
     \<or> sev_actor_membership_id e \<noteq> None \<or> \<not> on_behalf_absent e \<or> \<not> target_absent e \<or> \<not> rollout_absent e"
| "matrix_invalid ANONYMOUS e \<longleftrightarrow> sev_tenant_id e \<noteq> None \<or> \<not> actor_absent e
     \<or> \<not> on_behalf_absent e \<or> \<not> target_absent e \<or> \<not> rollout_absent e"
| "matrix_invalid SYSTEM_IDENTITY_BOOTSTRAP e \<longleftrightarrow> sev_tenant_id e \<noteq> None \<or> \<not> actor_absent e
     \<or> \<not> on_behalf_absent e \<or> \<not> target_absent e \<or> \<not> rollout_absent e"
| "matrix_invalid SYSTEM_GLOBAL_MAINTENANCE e \<longleftrightarrow> sev_tenant_id e \<noteq> None \<or> \<not> actor_absent e
     \<or> \<not> on_behalf_absent e \<or> \<not> target_absent e \<or> \<not> rollout_absent e"
| "matrix_invalid PLATFORM_OPERATOR e \<longleftrightarrow> sev_actor_user_id e = None \<or> sev_actor_membership_id e \<noteq> None
     \<or> \<not> on_behalf_absent e \<or> \<not> rollout_absent e"

definition validate_actor_kind_matrix :: "StructuredAuditEvent \<Rightarrow> unit result" where
  "validate_actor_kind_matrix e = require
     [(\<not> matrix_invalid (sev_actor_kind e) e,
        StructuredAuditError (AuditActorKind_value (sev_actor_kind e) @ '' audit matrix is invalid''))]"

fun action_allowed :: "AuditActorKind \<Rightarrow> string \<Rightarrow> bool" where
  "action_allowed SYSTEM_IDENTITY_BOOTSTRAP action \<longleftrightarrow> action \<in> set BOOTSTRAP_ACTIONS"
| "action_allowed SYSTEM_GLOBAL_MAINTENANCE action \<longleftrightarrow> action \<in> set GLOBAL_MAINTENANCE_ACTIONS"
| "action_allowed TENANT_USER action \<longleftrightarrow> list_ex (\<lambda>p. starts_with p action) TENANT_USER_PREFIXES"
| "action_allowed GLOBAL_USER action \<longleftrightarrow> list_ex (\<lambda>p. starts_with p action) GLOBAL_USER_PREFIXES"
| "action_allowed ANONYMOUS action \<longleftrightarrow> action \<in> set ANONYMOUS_ACTIONS"
| "action_allowed SYSTEM_WORKER action \<longleftrightarrow> starts_with ''ai_job.'' action"
| "action_allowed SYSTEM_PUBLISHER action \<longleftrightarrow> starts_with ''ai_job.'' action"
| "action_allowed SYSTEM_JOB_MAINTENANCE action \<longleftrightarrow> starts_with ''ai_job.'' action"
| "action_allowed SYSTEM_FEATURE_ROLLOUT action \<longleftrightarrow> action \<in> set FEATURE_ROLLOUT_ACTIONS"
| "action_allowed SYSTEM_GLOBAL_FEATURE_ROLLOUT action \<longleftrightarrow> action \<in> set FEATURE_ROLLOUT_ACTIONS"
| "action_allowed PLATFORM_OPERATOR action \<longleftrightarrow> list_ex (\<lambda>p. starts_with p action) PLATFORM_PREFIXES"

definition validate_action_allowlist :: "StructuredAuditEvent \<Rightarrow> unit result" where
  "validate_action_allowlist e = require
     [(action_allowed (sev_actor_kind e) (sev_action e), StructuredAuditError ''actor kind/action mismatch'')]"

definition optional_uuid_check :: "uuid option \<Rightarrow> string \<Rightarrow> bool \<times> exn" where
  "optional_uuid_check u name =
     (pred_option is_uuid7 u, ValueError (name @ '' must be an RFC 9562 UUIDv7''))"

definition audit_hash_check :: "bytes option \<Rightarrow> string \<Rightarrow> bool \<times> exn" where
  "audit_hash_check h name =
     (pred_option (\<lambda>b. length b = 32) h, StructuredAuditError (name @ '' must be 32 bytes''))"

definition StructuredAuditEvent_post_init :: "StructuredAuditEvent \<Rightarrow> unit result" where
  "StructuredAuditEvent_post_init e =
     bindE (require
       [uuid_check (sev_id e) ''audit id'',
        (sev_action e \<noteq> [], StructuredAuditError ''audit action must be non-empty text''),
        (sev_result e \<in> {''success'', ''failure'', ''denied''}, StructuredAuditError ''audit result is invalid''),
        (sev_reason_code e \<noteq> [], StructuredAuditError ''audit reason code must be non-empty text''),
        (sev_trace_id e \<noteq> [], StructuredAuditError ''audit trace id must be non-empty text''),
        audit_utc_check (sev_occurred_at e) ''audit occurred_at'',
        optional_uuid_check (sev_tenant_id e) ''audit tenant_id'',
        optional_uuid_check (sev_actor_user_id e) ''audit actor_user_id'',
        optional_uuid_check (sev_actor_membership_id e) ''audit actor_membership_id'',
        optional_uuid_check (sev_on_behalf_of_user_id e) ''audit on_behalf_of_user_id'',
        optional_uuid_check (sev_on_behalf_of_membership_id e) ''audit on_behalf_of_membership_id'',
        optional_uuid_check (sev_target_job_id e) ''audit target_job_id'',
        optional_uuid_check (sev_attempt_id e) ''audit attempt_id'',
        optional_uuid_check (sev_message_id e) ''audit message_id'',
        optional_uuid_check (sev_target_id e) ''audit target_id'',
        audit_hash_check (sev_client_ip_hash e) ''client ip hash'',
        audit_hash_check (sev_user_agent_hash e) ''user agent hash'',
        (pred_option (\<lambda>g. 0 \<le> g) (sev_rollout_generation e),
          StructuredAuditError ''rollout generation must be a non-negative integer'')]) (\<lambda>_.
     bindE (validate_common_grouping e) (\<lambda>_.
     bindE (validate_actor_kind_matrix e) (\<lambda>_. validate_action_allowlist e)))"

definition new_tenant_user_audit_event :: "uuid \<Rightarrow> uuid \<Rightarrow> uuid \<Rightarrow> uuid \<Rightarrow> string \<Rightarrow> string \<Rightarrow> string \<Rightarrow> string option
    \<Rightarrow> uuid option \<Rightarrow> string \<Rightarrow> datetime \<Rightarrow> StructuredAuditEvent result" where
  "new_tenant_user_audit_event fresh tenant user membership action reason trace target_type target outcome now =
     bindE (require [(outcome \<in> {''success'', ''failure'', ''denied''}, StructuredAuditError ''audit result is invalid'')])
      (\<lambda>_. let e = \<lparr>sev_id = fresh, sev_actor_kind = TENANT_USER, sev_action = action, sev_result = outcome,
              sev_reason_code = reason, sev_trace_id = trace, sev_occurred_at = now, sev_tenant_id = Some tenant,
              sev_actor_user_id = Some user, sev_actor_membership_id = Some membership,
              sev_on_behalf_of_user_id = None, sev_on_behalf_of_membership_id = None, sev_target_job_id = None,
              sev_attempt_id = None, sev_message_id = None, sev_rollout_feature_code = None,
              sev_rollout_generation = None, sev_target_type = target_type, sev_target_id = target,
              sev_client_ip_hash = None, sev_user_agent_hash = None\<rparr>
         in bindE (StructuredAuditEvent_post_init e) (\<lambda>_. Inr e))"

subsection \<open>The table\<close>

text \<open>
  \<open>audit_structured_actor\<close> for a row whose \<open>actor_kind\<close> is set, column by column as the constraint has it;
  the string comparison with the kind is resolved by the enumeration.
\<close>

fun kind_columns :: "AuditActorKind \<Rightarrow> StructuredAuditEvent \<Rightarrow> bool" where
  "kind_columns TENANT_USER e \<longleftrightarrow> sev_tenant_id e \<noteq> None \<and> sev_actor_user_id e \<noteq> None
     \<and> sev_actor_membership_id e \<noteq> None \<and> sev_on_behalf_of_user_id e = None
     \<and> sev_on_behalf_of_membership_id e = None \<and> sev_rollout_feature_code e = None
     \<and> sev_rollout_generation e = None"
| "kind_columns SYSTEM_WORKER e \<longleftrightarrow> sev_tenant_id e \<noteq> None \<and> sev_on_behalf_of_user_id e \<noteq> None
     \<and> sev_on_behalf_of_membership_id e \<noteq> None \<and> sev_target_job_id e \<noteq> None \<and> sev_actor_user_id e = None
     \<and> sev_actor_membership_id e = None \<and> sev_rollout_feature_code e = None \<and> sev_rollout_generation e = None"
| "kind_columns SYSTEM_PUBLISHER e \<longleftrightarrow> sev_tenant_id e \<noteq> None \<and> sev_target_job_id e \<noteq> None
     \<and> sev_message_id e \<noteq> None \<and> sev_actor_user_id e = None \<and> sev_actor_membership_id e = None
     \<and> sev_rollout_feature_code e = None \<and> sev_rollout_generation e = None"
| "kind_columns SYSTEM_JOB_MAINTENANCE e \<longleftrightarrow> sev_tenant_id e \<noteq> None \<and> sev_target_job_id e \<noteq> None
     \<and> sev_actor_user_id e = None \<and> sev_actor_membership_id e = None \<and> sev_rollout_feature_code e = None
     \<and> sev_rollout_generation e = None"
| "kind_columns SYSTEM_FEATURE_ROLLOUT e \<longleftrightarrow> sev_tenant_id e \<noteq> None \<and> sev_rollout_feature_code e \<noteq> None
     \<and> sev_rollout_generation e \<noteq> None \<and> sev_actor_user_id e = None \<and> sev_actor_membership_id e = None
     \<and> sev_on_behalf_of_user_id e = None \<and> sev_on_behalf_of_membership_id e = None
     \<and> sev_target_job_id e = None \<and> sev_attempt_id e = None \<and> sev_message_id e = None"
| "kind_columns SYSTEM_GLOBAL_FEATURE_ROLLOUT e \<longleftrightarrow> sev_tenant_id e = None \<and> sev_actor_user_id e = None
     \<and> sev_actor_membership_id e = None \<and> sev_on_behalf_of_user_id e = None
     \<and> sev_on_behalf_of_membership_id e = None \<and> sev_target_job_id e = None \<and> sev_attempt_id e = None
     \<and> sev_message_id e = None \<and> sev_rollout_feature_code e \<noteq> None \<and> sev_rollout_generation e \<noteq> None"
| "kind_columns GLOBAL_USER e \<longleftrightarrow> sev_tenant_id e = None \<and> sev_actor_user_id e \<noteq> None
     \<and> sev_actor_membership_id e = None \<and> sev_on_behalf_of_user_id e = None
     \<and> sev_on_behalf_of_membership_id e = None \<and> sev_target_job_id e = None \<and> sev_attempt_id e = None
     \<and> sev_message_id e = None \<and> sev_rollout_feature_code e = None \<and> sev_rollout_generation e = None"
| "kind_columns ANONYMOUS e \<longleftrightarrow> sev_tenant_id e = None \<and> sev_actor_user_id e = None
     \<and> sev_actor_membership_id e = None \<and> sev_on_behalf_of_user_id e = None
     \<and> sev_on_behalf_of_membership_id e = None \<and> sev_target_job_id e = None \<and> sev_attempt_id e = None
     \<and> sev_message_id e = None \<and> sev_rollout_feature_code e = None \<and> sev_rollout_generation e = None"
| "kind_columns SYSTEM_IDENTITY_BOOTSTRAP e \<longleftrightarrow> sev_tenant_id e = None \<and> sev_actor_user_id e = None
     \<and> sev_actor_membership_id e = None \<and> sev_on_behalf_of_user_id e = None
     \<and> sev_on_behalf_of_membership_id e = None \<and> sev_target_job_id e = None \<and> sev_attempt_id e = None
     \<and> sev_message_id e = None \<and> sev_rollout_feature_code e = None \<and> sev_rollout_generation e = None"
| "kind_columns SYSTEM_GLOBAL_MAINTENANCE e \<longleftrightarrow> sev_tenant_id e = None \<and> sev_actor_user_id e = None
     \<and> sev_actor_membership_id e = None \<and> sev_on_behalf_of_user_id e = None
     \<and> sev_on_behalf_of_membership_id e = None \<and> sev_target_job_id e = None \<and> sev_attempt_id e = None
     \<and> sev_message_id e = None \<and> sev_rollout_feature_code e = None \<and> sev_rollout_generation e = None"
| "kind_columns PLATFORM_OPERATOR e \<longleftrightarrow> sev_actor_user_id e \<noteq> None \<and> sev_actor_membership_id e = None
     \<and> sev_on_behalf_of_user_id e = None \<and> sev_on_behalf_of_membership_id e = None
     \<and> sev_rollout_feature_code e = None \<and> sev_rollout_generation e = None"

definition structured_columns :: "StructuredAuditEvent \<Rightarrow> bool" where
  "structured_columns e \<longleftrightarrow>
     (sev_actor_membership_id e = None \<or> (sev_tenant_id e \<noteq> None \<and> sev_actor_user_id e \<noteq> None))
     \<and> ((sev_on_behalf_of_user_id e = None \<and> sev_on_behalf_of_membership_id e = None)
        \<or> (sev_on_behalf_of_user_id e \<noteq> None \<and> sev_on_behalf_of_membership_id e \<noteq> None))
     \<and> (sev_on_behalf_of_user_id e = None \<or> sev_tenant_id e \<noteq> None)
     \<and> (sev_attempt_id e = None \<or> (sev_target_job_id e \<noteq> None \<and> sev_tenant_id e \<noteq> None))
     \<and> (sev_message_id e = None \<or> (sev_target_job_id e \<noteq> None \<and> sev_tenant_id e \<noteq> None))
     \<and> (sev_target_job_id e = None \<or> sev_tenant_id e \<noteq> None)
     \<and> ((sev_rollout_feature_code e = None \<and> sev_rollout_generation e = None)
        \<or> (sev_rollout_feature_code e \<noteq> None \<and> sev_rollout_generation e \<noteq> None))
     \<and> kind_columns (sev_actor_kind e) e"

text \<open>The result check, the structured check and the widths of the character columns.\<close>

definition structured_check :: "StructuredAuditEvent \<Rightarrow> bool" where
  "structured_check e \<longleftrightarrow> sev_result e \<in> {''success'', ''failure'', ''denied''} \<and> structured_columns e
     \<and> length (sev_action e) \<le> 128 \<and> length (sev_reason_code e) \<le> 64
     \<and> pred_option (\<lambda>t. length t \<le> 64) (sev_target_type e) \<and> length (sev_trace_id e) \<le> 64
     \<and> pred_option (\<lambda>c. length c \<le> 64) (sev_rollout_feature_code e)
     \<and> pred_option (\<lambda>h. length h \<le> 32) (sev_client_ip_hash e)
     \<and> pred_option (\<lambda>h. length h \<le> 32) (sev_user_agent_hash e)"

subsection \<open>The constructor and the constraint\<close>

lemmas absent_defs = actor_absent_def on_behalf_absent_def rollout_absent_def target_absent_def

lemma grouping_columns:
  "validate_common_grouping e = Inr () \<longleftrightarrow>
     (sev_actor_membership_id e = None \<or> (sev_tenant_id e \<noteq> None \<and> sev_actor_user_id e \<noteq> None))
     \<and> ((sev_on_behalf_of_user_id e = None) = (sev_on_behalf_of_membership_id e = None))
     \<and> (sev_on_behalf_of_user_id e = None \<or> sev_tenant_id e \<noteq> None)
     \<and> (sev_attempt_id e = None \<or> (sev_target_job_id e \<noteq> None \<and> sev_tenant_id e \<noteq> None))
     \<and> (sev_message_id e = None \<or> (sev_target_job_id e \<noteq> None \<and> sev_tenant_id e \<noteq> None))
     \<and> (sev_target_job_id e = None \<or> sev_tenant_id e \<noteq> None)
     \<and> ((sev_rollout_feature_code e = None) = (sev_rollout_generation e = None))"
  unfolding validate_common_grouping_def require_eq_Inr list.set ball_simps prod.case by argo

lemma matrix_columns:
  assumes "(sev_on_behalf_of_user_id e = None) = (sev_on_behalf_of_membership_id e = None)"
    and "(sev_rollout_feature_code e = None) = (sev_rollout_generation e = None)"
  shows "\<not> matrix_invalid k e \<longleftrightarrow> kind_columns k e"
  using assms by (cases k; simp only: matrix_invalid.simps kind_columns.simps absent_defs; argo)

text \<open>
  C40. The constructor's grouping and actor matrix accept an event exactly when the row it is stored as
  satisfies the constraint \<open>audit_structured_actor\<close> of the table: neither layer is weaker than the other.
\<close>

theorem audit_matrix_is_check:
  "(validate_common_grouping e = Inr () \<and> validate_actor_kind_matrix e = Inr ()) = structured_columns e"
  unfolding validate_actor_kind_matrix_def structured_columns_def grouping_columns
  using matrix_columns [of e "sev_actor_kind e"]
  unfolding require_eq_Inr list.set ball_simps prod.case by argo

end
