(* ===== verification/TenantValues.thy ===== *)
theory TenantValues
  imports AuditTrail Idempotency Calendar
begin

text \<open>
  The values of \<open>application/tenancy.py\<close> with their constructor checks: commands, actors, the
  authorization snapshot, the cache invalidation tasks, strong entity tags, and the rules on who may
  change which membership (\<open>_ROLE_HIERARCHY\<close>, \<open>_validate_membership_mutation\<close>).  The checks that only
  reject a value of another Python type hold by typing.
\<close>

subsection \<open>Versions and entity tags\<close>

definition MAX_SIGNED_INTEGER :: int where
  "MAX_SIGNED_INTEGER = 2 ^ 31 - 1"

definition positive_version :: "int \<Rightarrow> bool \<times> exn" where
  "positive_version v = (1 \<le> v \<and> v \<le> MAX_SIGNED_INTEGER, ValueError ''version must be a positive integer'')"

definition StrongETag_post_init :: "int \<Rightarrow> unit result" where
  "StrongETag_post_init v =
     (case require [positive_version v] of Inr u \<Rightarrow> Inr u
      | Inl e \<Rightarrow> Inl (InvalidStrongETag ''ETag version must be a positive integer''))"

text \<open>\<open>"([1-9][0-9]{0,18})"\<close> against the whole value, giving the digits.\<close>

definition etag_digits :: "string \<Rightarrow> string option" where
  "etag_digits s =
     (if 3 \<le> length s \<and> length s \<le> 21 \<and> hd s = CHR 0x22 \<and> last s = CHR 0x22
      then let ds = butlast (tl s) in
        if list_all is_digit ds \<and> hd ds \<noteq> CHR ''0'' then Some ds else None
      else None)"

definition decimal_value :: "string \<Rightarrow> int" where
  "decimal_value ds = int (foldl (\<lambda>a c. 10 * a + digit_value c) 0 ds)"

definition StrongETag_parse :: "string option \<Rightarrow> int result" where
  "StrongETag_parse value =
     (case value of
        None \<Rightarrow> Inl PreconditionRequired
      | Some s \<Rightarrow>
          (case etag_digits s of
             None \<Rightarrow> Inl (InvalidStrongETag ''If-Match must be a strong version ETag'')
           | Some ds \<Rightarrow>
               (let version = decimal_value ds in
                if MAX_SIGNED_INTEGER < version
                then Inl (InvalidStrongETag ''If-Match version exceeds the supported range'')
                else bindE (StrongETag_post_init version) (\<lambda>_. Inr version))))"

definition StrongETag_format :: "int \<Rightarrow> string result" where
  "StrongETag_format version =
     bindE (StrongETag_post_init version) (\<lambda>_. Inr ([CHR 0x22] @ int_str version @ [CHR 0x22]))"

subsection \<open>Commands\<close>

datatype TenantType = LAW_FIRM | ENTERPRISE | UNIVERSITY

fun TenantType_value :: "TenantType \<Rightarrow> string" where
  "TenantType_value LAW_FIRM = ''law_firm''"
| "TenantType_value ENTERPRISE = ''enterprise''"
| "TenantType_value UNIVERSITY = ''university''"

record CreateTenantApplicationCommand =
  cta_actor_user_id :: uuid
  cta_name :: ustring
  cta_tenant_type :: TenantType
  cta_idempotency_key :: string
  cta_audit_context :: AuditContext

definition CreateTenantApplicationCommand_post_init :: "CreateTenantApplicationCommand \<Rightarrow> unit result" where
  "CreateTenantApplicationCommand_post_init c = require [uuid_check (cta_actor_user_id c) ''actor_user_id'']"

record TenantActor =
  act_principal :: Principal
  act_context :: TenantContext

record UpdateTenantCommand =
  utc_name :: ustring
  utc_expected_version :: int
  utc_idempotency_key :: string
  utc_audit_context :: AuditContext

definition UpdateTenantCommand_post_init :: "UpdateTenantCommand \<Rightarrow> unit result" where
  "UpdateTenantCommand_post_init c = require [positive_version (utc_expected_version c)]"

record UpdateMemberCommand =
  umc_membership_id :: uuid
  umc_expected_version :: int
  umc_idempotency_key :: string
  umc_audit_context :: AuditContext
  umc_status :: "MembershipStatus option"
  umc_role_ids :: "uuid list option"
  umc_change_department :: bool
  umc_department_id :: "uuid option"

definition UpdateMemberCommand_post_init :: "UpdateMemberCommand \<Rightarrow> unit result" where
  "UpdateMemberCommand_post_init c = require
     ([uuid_check (umc_membership_id c) ''membership_id'',
       positive_version (umc_expected_version c),
       (umc_status c \<in> {None, Some MembershipStatus_ACTIVE, Some MembershipStatus_SUSPENDED},
         InvalidMemberUpdate ''PATCH membership status must be active or suspended''),
       (pred_option distinct (umc_role_ids c), InvalidMemberUpdate ''role_ids must not contain duplicates'')]
      @ map (\<lambda>r. uuid_check r ''role_id'') (case umc_role_ids c of None \<Rightarrow> [] | Some rs \<Rightarrow> rs)
      @ [optional_uuid_check (umc_department_id c) ''department_id'',
         (umc_change_department c \<or> umc_department_id c = None,
           InvalidMemberUpdate ''department_id requires change_department=true''),
         (umc_status c \<noteq> None \<or> umc_role_ids c \<noteq> None \<or> umc_change_department c,
           InvalidMemberUpdate ''membership PATCH must change at least one field'')])"

record RevokeMemberCommand =
  rmc_membership_id :: uuid
  rmc_expected_version :: int
  rmc_idempotency_key :: string
  rmc_audit_context :: AuditContext

definition RevokeMemberCommand_post_init :: "RevokeMemberCommand \<Rightarrow> unit result" where
  "RevokeMemberCommand_post_init c = require
     [uuid_check (rmc_membership_id c) ''membership_id'', positive_version (rmc_expected_version c)]"

record MemberMutationResult =
  mmr_membership :: Membership
  mmr_role_ids :: "uuid list"
  mmr_replayed :: bool

record TenantMutationResult =
  tmr_tenant :: Tenant
  tmr_replayed :: bool
  tmr_changed :: bool

record TenantApplicationResult =
  tar_tenant :: Tenant
  tar_owner_membership :: Membership
  tar_replayed :: bool

subsection \<open>Snapshots\<close>

record ActorSessionState =
  ass_id :: uuid
  ass_user_id :: uuid
  ass_tenant_id :: "uuid option"
  ass_membership_id :: "uuid option"
  ass_auth_version_at_issue :: int
  ass_authz_version_at_issue :: "int option"
  ass_revoked_at :: "datetime option"
  ass_expires_at :: datetime

record TenantAuthorizationSnapshot =
  tas_tenant :: Tenant
  tas_actor_membership :: Membership
  tas_context :: TenantContext
  tas_user_status :: string
  tas_user_auth_version :: int
  tas_permissions :: "string set"
  tas_role_codes :: "string set"
  tas_target_memberships :: "uuid \<rightharpoonup> Membership"
  tas_actor_session :: "ActorSessionState option"

subsection \<open>Cache invalidation tasks\<close>

datatype InvalidationStatus = Invalidation_PENDING | Invalidation_PROCESSING | Invalidation_COMPLETED

record CacheInvalidationTask =
  cit_id :: uuid
  cit_tenant_id :: uuid
  cit_membership_id :: uuid
  cit_authz_version :: int
  cit_idempotency_record_id :: uuid
  cit_status :: InvalidationStatus
  cit_attempt_count :: int
  cit_available_at :: datetime
  cit_processing_started_at :: "datetime option"
  cit_claim_token :: "uuid option"

definition CacheInvalidationTask_post_init :: "CacheInvalidationTask \<Rightarrow> unit result" where
  "CacheInvalidationTask_post_init t = require
     ([uuid_check (cit_id t) ''outbox id'', uuid_check (cit_tenant_id t) ''outbox tenant_id'',
       uuid_check (cit_membership_id t) ''outbox membership_id'',
       uuid_check (cit_idempotency_record_id t) ''outbox idempotency_record_id'',
       positive_version (cit_authz_version t),
       (0 \<le> cit_attempt_count t \<and> cit_attempt_count t \<le> MAX_SIGNED_INTEGER,
         ValueError ''outbox attempt_count is invalid''),
       utc_check (cit_available_at t) ''outbox available_at'',
       (pred_option is_utc (cit_processing_started_at t),
         ValueError ''outbox processing_started_at must be UTC-aware'')]
      @ (if cit_status t = Invalidation_PROCESSING
         then [(cit_claim_token t \<noteq> None, ValueError ''processing outbox task requires a claim token''),
               optional_uuid_check (cit_claim_token t) ''outbox claim_token'']
         else [(cit_claim_token t = None, ValueError ''non-processing outbox task cannot have a claim token'')]))"

record NewCacheInvalidation =
  nci_id :: uuid
  nci_tenant_id :: uuid
  nci_membership_id :: uuid
  nci_authz_version :: int
  nci_idempotency_record_id :: uuid
  nci_available_at :: datetime

definition NewCacheInvalidation_post_init :: "NewCacheInvalidation \<Rightarrow> unit result" where
  "NewCacheInvalidation_post_init n = CacheInvalidationTask_post_init
     \<lparr>cit_id = nci_id n, cit_tenant_id = nci_tenant_id n, cit_membership_id = nci_membership_id n,
      cit_authz_version = nci_authz_version n, cit_idempotency_record_id = nci_idempotency_record_id n,
      cit_status = Invalidation_PENDING, cit_attempt_count = 0, cit_available_at = nci_available_at n,
      cit_processing_started_at = None, cit_claim_token = None\<rparr>"

subsection \<open>Who may change which membership\<close>

definition ROLE_HIERARCHY :: "string \<Rightarrow> nat option" where
  "ROLE_HIERARCHY = map_of [(''tenant_owner'', 100), (''tenant_admin'', 80), (''department_admin'', 60),
     (''lawyer_or_legal'', 40), (''teacher'', 40), (''assistant'', 30), (''student'', 10), (''external_client'', 10)]"

definition ranked :: "string set \<Rightarrow> bool" where
  "ranked roles \<longleftrightarrow> (\<forall>r\<in>roles. ROLE_HIERARCHY r \<noteq> None)"

definition rank_of :: "string set \<Rightarrow> nat" where
  "rank_of roles = Max (insert 0 ((\<lambda>r. the (ROLE_HIERARCHY r)) ` roles))"

abbreviation denied :: "bool \<Rightarrow> string \<Rightarrow> bool \<times> exn" where
  "denied bad reason \<equiv> (\<not> bad, MembershipMutationDenied reason)"

definition transition_checks :: "MembershipStatus \<Rightarrow> MembershipStatus \<Rightarrow> Action \<Rightarrow> (bool \<times> exn) list" where
  "transition_checks status desired action =
     [denied (status \<in> {MembershipStatus_INVITED, MembershipStatus_REVOKED})
        ''membership state cannot be changed by Task 7''] @
     (if action = MEMBERSHIP_UPDATE then
        [denied (status \<notin> {MembershipStatus_ACTIVE, MembershipStatus_SUSPENDED}
            \<or> desired \<notin> {MembershipStatus_ACTIVE, MembershipStatus_SUSPENDED})
          ''membership state transition is not allowed'']
      else if action = MEMBERSHIP_REVOKE then
        [denied (desired \<noteq> MembershipStatus_REVOKED) ''membership revoke transition is invalid'']
      else [denied True ''membership mutation action is unsupported''])"

definition hierarchy_checks :: "Membership \<Rightarrow> string set \<Rightarrow> Membership \<Rightarrow> string set \<Rightarrow> string set \<Rightarrow> (bool \<times> exn) list" where
  "hierarchy_checks actor actor_roles target current desired =
     (let is_owner = ''tenant_owner'' \<in> actor_roles; is_admin = ''tenant_admin'' \<in> actor_roles \<and> \<not> is_owner in
      [denied (is_admin \<and> (''tenant_owner'' \<in> current \<or> ''tenant_owner'' \<in> desired))
         ''tenant admin cannot grant or remove owner role'',
       denied (\<not> is_owner \<and> rank_of actor_roles \<le> rank_of current \<and> mem_id target \<noteq> mem_id actor)
         ''actor cannot manage an equal or higher role'',
       denied (rank_of actor_roles < rank_of desired) ''actor cannot grant a role above its hierarchy'',
       denied ((''tenant_owner'' \<in> current) \<noteq> (''tenant_owner'' \<in> desired) \<and> \<not> is_owner)
         ''only an active owner may grant or remove owner role'',
       denied (''tenant_owner'' \<in> desired \<and> mem_member_type target \<noteq> MemberType_OWNER)
         ''owner role is incompatible with target member type''])"

definition department_checks ::
    "Membership \<Rightarrow> string set \<Rightarrow> TenantContext \<Rightarrow> Membership \<Rightarrow> uuid option \<Rightarrow> string set \<Rightarrow> (bool \<times> exn) list" where
  "department_checks actor actor_roles context target desired_department desired =
     (if ''department_admin'' \<in> actor_roles \<and> ''tenant_owner'' \<notin> actor_roles \<and> ''tenant_admin'' \<notin> actor_roles
      then [denied (mem_department_id actor = None \<or> mem_department_id target \<noteq> mem_department_id actor
               \<or> desired_department \<noteq> mem_department_id actor \<or> ctx_department_id context \<noteq> mem_department_id actor)
              ''department admin can manage only the same department'',
            denied (60 < rank_of desired) ''department admin cannot grant a higher role'']
      else [])"

definition member_type_checks :: "Membership \<Rightarrow> string set \<Rightarrow> (bool \<times> exn) list" where
  "member_type_checks target desired =
     [denied (mem_member_type target = MemberType_STUDENT \<and> desired \<noteq> {''student''})
        ''roles are incompatible with student member type'',
      denied (mem_member_type target = MemberType_EXTERNAL_CLIENT \<and> desired \<noteq> {''external_client''})
        ''roles are incompatible with external member type'',
      denied (mem_member_type target = MemberType_INTERNAL \<and> ''tenant_owner'' \<in> desired)
        ''roles are incompatible with internal member type'']"

definition validate_membership_mutation :: "Membership \<Rightarrow> string set \<Rightarrow> TenantContext \<Rightarrow> Membership \<Rightarrow> string set
    \<Rightarrow> MembershipStatus \<Rightarrow> uuid option \<Rightarrow> string set \<Rightarrow> Action \<Rightarrow> bool result" where
  "validate_membership_mutation actor actor_roles context target current desired_status desired_department desired action =
     bindE (require (transition_checks (mem_status target) desired_status action @
       [denied (actor_roles = {} \<or> \<not> ranked actor_roles) ''actor role hierarchy is invalid'',
        denied (\<not> ranked (current \<union> desired)) ''target role hierarchy is invalid''] @
       hierarchy_checks actor actor_roles target current desired @
       department_checks actor actor_roles context target desired_department desired @
       member_type_checks target desired)) (\<lambda>_.
     Inr (mem_status target = MembershipStatus_ACTIVE \<and> ''tenant_owner'' \<in> current
       \<and> \<not> (desired_status = MembershipStatus_ACTIVE \<and> ''tenant_owner'' \<in> desired)))"


subsection \<open>Entity tags\<close>

lemma is_digit_char: "is_digit c \<Longrightarrow> char_of (48 + digit_value c) = c \<and> digit_value c < 10"
  by (auto simp: is_digit_def digit_value_def code_def)

lemma code_zero: "code CHR ''0'' = 48"
  by (simp add: code_def)

lemma digit_zero: "is_digit c \<Longrightarrow> digit_value c = 0 \<longleftrightarrow> c = CHR ''0''"
  using code_zero by (auto simp: is_digit_def digit_value_def) (metis code_def of_char_eq_iff le_antisym)

lemma digits_of_value:
  assumes "ds \<noteq> []" "list_all is_digit ds" "hd ds \<noteq> CHR ''0''"
  shows "nat_digits (foldl (\<lambda>a c. 10 * a + digit_value c) 0 ds) = ds
    \<and> 0 < foldl (\<lambda>a c. 10 * a + digit_value c) 0 ds"
  using assms
proof (induction ds rule: rev_induct)
  case (snoc c ds)
  have c: "char_of (48 + digit_value c) = c" "digit_value c < 10" "is_digit c" using snoc.prems is_digit_char by auto
  show ?case
  proof (cases "ds = []")
    case True
    then have "digit_value c \<noteq> 0" using snoc.prems digit_zero [OF c(3)] by simp
    then show ?thesis using True c by (simp add: nat_digits.simps)
  next
    case False
    then have "nat_digits (foldl (\<lambda>a c. 10 * a + digit_value c) 0 ds) = ds
        \<and> 0 < foldl (\<lambda>a c. 10 * a + digit_value c) 0 ds" using snoc by simp
    then show ?thesis using c by (simp add: nat_digits.simps [of "10 * _ + _"])
  qed
qed simp

lemma nat_digits_nonempty: "nat_digits n \<noteq> []"
  by (subst nat_digits.simps) simp

lemma nat_digits_first: "0 < n \<Longrightarrow> hd (nat_digits n) \<noteq> CHR ''0''"
proof (induction n rule: nat_digits.induct)
  case (1 n)
  show ?case
  proof (cases "n < 10")
    case True
    then have "code (char_of (48 + n)) = 48 + n" by (intro code_char_of) simp
    then show ?thesis using True 1(2) code_zero by (subst nat_digits.simps) auto
  next
    case False
    then have "hd (nat_digits (n div 10)) \<noteq> CHR ''0''" using 1 by simp
    then show ?thesis using False nat_digits_nonempty by (subst nat_digits.simps) simp
  qed
qed

lemma etag_digits_Some:
  "etag_digits s = Some ds \<longleftrightarrow> s = [CHR 0x22] @ ds @ [CHR 0x22] \<and> ds \<noteq> [] \<and> length ds \<le> 19
     \<and> list_all is_digit ds \<and> hd ds \<noteq> CHR ''0''"
proof
  assume a: "etag_digits s = Some ds"
  then have s: "3 \<le> length s" "length s \<le> 21" "hd s = CHR 0x22" "last s = CHR 0x22"
      "ds = butlast (tl s)" "list_all is_digit ds" "hd ds \<noteq> CHR ''0''"
    by (auto simp: etag_digits_def Let_def split: if_split_asm)
  obtain c t where t: "s = c # t" "t \<noteq> []" using s(1) by (cases s; cases "tl s") auto
  then have "t = butlast t @ [last t]" by simp
  moreover have "c = CHR 0x22" "last t = CHR 0x22" "ds = butlast t" using s(3-5) t by simp_all
  ultimately have "s = [CHR 0x22] @ ds @ [CHR 0x22]" using t(1) by (metis append_Cons append_Nil)
  moreover from this have "ds \<noteq> []" "length ds \<le> 19" using s(1,2) by (cases ds; simp)+
  ultimately show "s = [CHR 0x22] @ ds @ [CHR 0x22] \<and> ds \<noteq> [] \<and> length ds \<le> 19
     \<and> list_all is_digit ds \<and> hd ds \<noteq> CHR ''0''" using s(6,7) by blast
qed (auto simp: etag_digits_def butlast_append Suc_le_eq)

text \<open>
  A value is the entity tag of a version exactly when parsing it gives the version: formatting and
  parsing are inverse to each other, and a version has no second spelling.
\<close>

theorem etag_round_trip:
  "StrongETag_parse (Some s) = Inr v \<longleftrightarrow> StrongETag_format v = Inr s"
proof
  assume "StrongETag_parse (Some s) = Inr v"
  then obtain ds where ds: "etag_digits s = Some ds" "v = decimal_value ds" "StrongETag_post_init v = Inr ()"
    by (auto simp: StrongETag_parse_def Let_def validate_simps split: option.splits if_split_asm)
  then have "nat_digits (nat v) = ds" "0 < v"
    using digits_of_value [of ds] by (auto simp: etag_digits_Some decimal_value_def)
  with ds show "StrongETag_format v = Inr s"
    by (simp add: StrongETag_format_def etag_digits_Some int_str_def)
next
  assume "StrongETag_format v = Inr s"
  then have v: "StrongETag_post_init v = Inr ()" "s = [CHR 0x22] @ int_str v @ [CHR 0x22]"
    by (auto simp: StrongETag_format_def validate_simps)
  then have b: "1 \<le> v" "v \<le> MAX_SIGNED_INTEGER"
    by (auto simp: StrongETag_post_init_def positive_version_def require_eval split: sum.splits if_split_asm)
  have "nat v < 10 ^ Suc 9" using b by (simp add: MAX_SIGNED_INTEGER_def)
  then have "length (nat_digits (nat v)) \<le> Suc 9" by (rule length_nat_digits)
  then have "etag_digits s = Some (nat_digits (nat v))"
    using v(2) b nat_digits_chars nat_digits_first [of "nat v"] nat_digits_nonempty
    by (auto simp: etag_digits_Some int_str_def list_all_iff is_digit_def)
  then show "StrongETag_parse (Some s) = Inr v"
    using v(1) b nat_digits_value [of "nat v"]
    by (simp add: StrongETag_parse_def decimal_value_def Let_def)
qed

subsection \<open>What a permitted change means\<close>

lemma rank_of_owner:
  assumes "''tenant_owner'' \<in> roles" "finite roles" "ranked roles"
  shows "100 \<le> rank_of roles"
proof -
  have "(\<lambda>r. the (ROLE_HIERARCHY r)) ''tenant_owner'' \<in> (\<lambda>r. the (ROLE_HIERARCHY r)) ` roles" using assms by blast
  moreover have "the (ROLE_HIERARCHY ''tenant_owner'') = 100" by (simp add: ROLE_HIERARCHY_def)
  ultimately show ?thesis unfolding rank_of_def using assms(2) by (intro Max_ge) auto
qed

lemma validate_mutation_Inr:
  assumes "validate_membership_mutation actor aroles context target current status dept desired action = Inr removes"
  shows "mem_status target \<in> {MembershipStatus_ACTIVE, MembershipStatus_SUSPENDED}"
    "aroles \<noteq> {}" "ranked aroles" "ranked (current \<union> desired)"
    "rank_of desired \<le> rank_of aroles"
    "''tenant_owner'' \<notin> aroles \<Longrightarrow> mem_id target \<noteq> mem_id actor \<Longrightarrow> rank_of current < rank_of aroles"
    "''tenant_owner'' \<notin> aroles \<Longrightarrow> (''tenant_owner'' \<in> current) = (''tenant_owner'' \<in> desired)"
    "''tenant_owner'' \<in> desired \<Longrightarrow> mem_member_type target = MemberType_OWNER"
    "removes = (mem_status target = MembershipStatus_ACTIVE \<and> ''tenant_owner'' \<in> current
       \<and> \<not> (status = MembershipStatus_ACTIVE \<and> ''tenant_owner'' \<in> desired))"
    "action = MEMBERSHIP_UPDATE \<Longrightarrow> status \<in> {MembershipStatus_ACTIVE, MembershipStatus_SUSPENDED}"
    "action = MEMBERSHIP_REVOKE \<Longrightarrow> status = MembershipStatus_REVOKED"
    "action = MEMBERSHIP_UPDATE \<or> action = MEMBERSHIP_REVOKE"
proof -
  have r: "\<forall>(ok, e) \<in> set (transition_checks (mem_status target) status action). ok"
      "\<forall>(ok, e) \<in> set (hierarchy_checks actor aroles target current desired). ok"
      "\<forall>(ok, e) \<in> set (member_type_checks target desired). ok"
      "aroles \<noteq> {}" "ranked aroles" "ranked (current \<union> desired)"
      "removes = (mem_status target = MembershipStatus_ACTIVE \<and> ''tenant_owner'' \<in> current
         \<and> \<not> (status = MembershipStatus_ACTIVE \<and> ''tenant_owner'' \<in> desired))"
    using assms by (simp_all add: validate_membership_mutation_def bindE_eq_Inr require_eq_Inr)
  show "mem_status target \<in> {MembershipStatus_ACTIVE, MembershipStatus_SUSPENDED}"
    using r(1) by (cases "mem_status target") (simp_all add: transition_checks_def)
  show "action = MEMBERSHIP_UPDATE \<Longrightarrow> status \<in> {MembershipStatus_ACTIVE, MembershipStatus_SUSPENDED}"
    "action = MEMBERSHIP_REVOKE \<Longrightarrow> status = MembershipStatus_REVOKED"
    "action = MEMBERSHIP_UPDATE \<or> action = MEMBERSHIP_REVOKE"
    using r(1) by (auto simp: transition_checks_def split: if_split_asm)
  show "rank_of desired \<le> rank_of aroles"
    "''tenant_owner'' \<notin> aroles \<Longrightarrow> mem_id target \<noteq> mem_id actor \<Longrightarrow> rank_of current < rank_of aroles"
    "''tenant_owner'' \<notin> aroles \<Longrightarrow> (''tenant_owner'' \<in> current) = (''tenant_owner'' \<in> desired)"
    "''tenant_owner'' \<in> desired \<Longrightarrow> mem_member_type target = MemberType_OWNER"
    using r(2) by (auto simp: hierarchy_checks_def Let_def)
  show "aroles \<noteq> {}" "ranked aroles" "ranked (current \<union> desired)"
    "removes = (mem_status target = MembershipStatus_ACTIVE \<and> ''tenant_owner'' \<in> current
       \<and> \<not> (status = MembershipStatus_ACTIVE \<and> ''tenant_owner'' \<in> desired))"
    using r(4-7) by simp_all
qed

end
