(* ===== verification/TenantTables.thy ===== *)
theory TenantTables
  imports TenantValues SessionStore
begin

text \<open>
  The tables of the tenant workflows (\<open>models/tenancy.py\<close>, \<open>models/authorization.py\<close>, \<open>models/outbox.py\<close>,
  of \<open>models/identity.py\<close> what invitations read) with their checks, unique and foreign keys, and the
  built-in roles (\<open>seed_authz.py\<close>).  Columns that no modelled code reads are left out; \<open>created_at\<close> of a
  membership, which orders the member pages, is kept.  The rows of \<open>audit_events\<close> are held in two lists,
  the events of sessions and the structured events.

  \<open>session_view\<close> is the database as the session service sees it; \<open>put_session\<close> writes its changes back.
\<close>

subsection \<open>Rows\<close>

record tenant_model = tenant_row +
  tnm_name :: ustring
  tnm_normalized_name :: ustring
  tnm_tenant_type :: string
  tnm_created_by_user_id :: uuid
  tnm_review_status :: string
  tnm_version :: int

definition tenant_check :: "tenant_model \<Rightarrow> bool" where
  "tenant_check t \<longleftrightarrow> tnm_tenant_type t \<in> {''law_firm'', ''enterprise'', ''university''}
     \<and> tnm_review_status t \<in> {''pending'', ''approved'', ''rejected''}
     \<and> length (tnm_name t) \<le> 255 \<and> length (tnm_normalized_name t) \<le> 255"

record member_row = membership_row +
  mbr_created_at :: int

text \<open>Primary key and the unique pair of tenant and user; the other unique keys contain the primary key.\<close>

definition member_conflict :: "member_row \<Rightarrow> member_row \<Rightarrow> bool" where
  "member_conflict a b \<longleftrightarrow> mbr_id a = mbr_id b
     \<or> (mbr_tenant_id a, mbr_user_id a) = (mbr_tenant_id b, mbr_user_id b)"

record department_row =
  dpt_id :: uuid
  dpt_tenant_id :: uuid
  dpt_status :: string

definition role_conflict :: "role_row \<Rightarrow> role_row \<Rightarrow> bool" where
  "role_conflict a b \<longleftrightarrow> rol_id a = rol_id b \<or> (rol_tenant_id a, rol_code a) = (rol_tenant_id b, rol_code b)"

record template_row =
  tpl_id :: uuid
  tpl_code :: string
  tpl_name :: ustring
  tpl_description :: ustring
  tpl_status :: string

record template_permission_row =
  tpp_template_id :: uuid
  tpp_permission_id :: uuid

record cache_task_row =
  co_id :: uuid
  co_tenant_id :: uuid
  co_membership_id :: uuid
  co_authz_version :: int
  co_record_id :: uuid
  co_status :: InvalidationStatus
  co_attempt_count :: int
  co_available_at :: int
  co_processing_started_at :: "int option"
  co_claim_token :: "uuid option"
  co_completed_at :: "int option"
  co_last_error_code :: "string option"
  co_version :: int

definition cache_task_check :: "cache_task_row \<Rightarrow> bool" where
  "cache_task_check t \<longleftrightarrow> 1 \<le> co_authz_version t \<and> co_authz_version t \<le> 2147483647
     \<and> 0 \<le> co_attempt_count t \<and> co_attempt_count t \<le> 2147483647"

definition cache_task_conflict :: "cache_task_row \<Rightarrow> cache_task_row \<Rightarrow> bool" where
  "cache_task_conflict a b \<longleftrightarrow> co_id a = co_id b
     \<or> (co_tenant_id a, co_membership_id a, co_authz_version a) = (co_tenant_id b, co_membership_id b, co_authz_version b)
     \<or> (co_tenant_id a, co_record_id a) = (co_tenant_id b, co_record_id b)"

datatype InvitationStatus = Invitation_PENDING | Invitation_ACCEPTED | Invitation_REVOKED | Invitation_EXPIRED

datatype InvitationTargetKind = Target_PHONE | Target_EMAIL

record invitation_row =
  inv_id :: uuid
  inv_tenant_id :: uuid
  inv_target_kind :: InvitationTargetKind
  inv_target_blind_index :: bytes
  inv_key_version :: "int option"
  inv_token_hash :: bytes
  inv_invited_by_membership_id :: uuid
  inv_expires_at :: int
  inv_accepted_at :: "int option"
  inv_revoked_at :: "int option"
  inv_status :: InvitationStatus
  inv_version :: int

definition invitation_check :: "invitation_row \<Rightarrow> bool" where
  "invitation_check i \<longleftrightarrow> pred_option (\<lambda>v. 1 \<le> v \<and> v \<le> 32767) (inv_key_version i)
     \<and> length (inv_target_blind_index i) \<le> 32 \<and> length (inv_token_hash i) \<le> 32"

definition invitation_conflict :: "invitation_row \<Rightarrow> invitation_row \<Rightarrow> bool" where
  "invitation_conflict a b \<longleftrightarrow> inv_id a = inv_id b \<or> inv_token_hash a = inv_token_hash b"

record invitation_role_row =
  irl_tenant_id :: uuid
  irl_invitation_id :: uuid
  irl_role_id :: uuid

record identity_row =
  idn_id :: uuid
  idn_user_id :: uuid
  idn_kind :: string
  idn_subject_ciphertext :: bytes
  idn_verified_at :: int
  idn_status :: string

record tenant_db =
  td_users :: "user_row list"
  td_tenants :: "tenant_model list"
  td_departments :: "department_row list"
  td_memberships :: "member_row list"
  td_roles :: "role_row list"
  td_assignments :: "assignment_row list"
  td_role_permissions :: "role_permission_row list"
  td_permissions :: "permission_row list"
  td_templates :: "template_row list"
  td_template_permissions :: "template_permission_row list"
  td_feature_phase :: "string option"
  td_invitations :: "invitation_row list"
  td_invitation_roles :: "invitation_role_row list"
  td_identities :: "identity_row list"
  td_sessions :: "session_row list"
  td_refresh :: "refresh_row list"
  td_session_audit :: "audit_row list"
  td_audit :: "StructuredAuditEvent list"
  td_idempotency :: "idem_row list"
  td_cache_outbox :: "cache_task_row list"

subsection \<open>The database of the session service\<close>

definition session_view :: "tenant_db \<Rightarrow> session_db" where
  "session_view db =
     \<lparr>sd_sessions = td_sessions db, sd_refresh = td_refresh db, sd_users = td_users db,
      sd_tenants = map tenant_row.truncate (td_tenants db),
      sd_memberships = map membership_row.truncate (td_memberships db), sd_audit = td_session_audit db\<rparr>"

definition put_session :: "session_db \<Rightarrow> tenant_db \<Rightarrow> tenant_db" where
  "put_session s db = db\<lparr>td_sessions := sd_sessions s, td_refresh := sd_refresh s, td_session_audit := sd_audit s\<rparr>"

subsection \<open>Inserts\<close>

definition insert_tenant :: "tenant_model \<Rightarrow> tenant_db \<Rightarrow> tenant_db result" where
  "insert_tenant t db =
     foreign (tnm_created_by_user_id t \<in> usr_id ` set (td_users db))
       (bindE (sql_insert tenant_check (\<lambda>a b. ten_id a = ten_id b) t (td_tenants db)) (\<lambda>rows.
         Inr (db\<lparr>td_tenants := rows\<rparr>)))"

definition insert_member :: "member_row \<Rightarrow> tenant_db \<Rightarrow> tenant_db result" where
  "insert_member m db =
     foreign (mbr_tenant_id m \<in> ten_id ` set (td_tenants db) \<and> mbr_user_id m \<in> usr_id ` set (td_users db)
         \<and> pred_option (\<lambda>d. (mbr_tenant_id m, d) \<in> (\<lambda>r. (dpt_tenant_id r, dpt_id r)) ` set (td_departments db))
             (mbr_department_id m))
       (bindE (sql_insert (\<lambda>_. True) member_conflict m (td_memberships db)) (\<lambda>rows.
         Inr (db\<lparr>td_memberships := rows\<rparr>)))"

definition insert_role :: "role_row \<Rightarrow> tenant_db \<Rightarrow> tenant_db result" where
  "insert_role r db =
     foreign (rol_tenant_id r \<in> ten_id ` set (td_tenants db))
       (bindE (sql_insert (\<lambda>r. rol_status r \<in> {''active'', ''disabled''}) role_conflict r (td_roles db)) (\<lambda>rows.
         Inr (db\<lparr>td_roles := rows\<rparr>)))"

definition role_exists :: "uuid \<Rightarrow> uuid \<Rightarrow> tenant_db \<Rightarrow> bool" where
  "role_exists tenant role db \<longleftrightarrow> (tenant, role) \<in> (\<lambda>r. (rol_tenant_id r, rol_id r)) ` set (td_roles db)"

definition member_exists :: "uuid \<Rightarrow> uuid \<Rightarrow> tenant_db \<Rightarrow> bool" where
  "member_exists tenant membership db \<longleftrightarrow>
     (tenant, membership) \<in> (\<lambda>m. (mbr_tenant_id m, mbr_id m)) ` set (td_memberships db)"

definition insert_role_permission :: "role_permission_row \<Rightarrow> tenant_db \<Rightarrow> tenant_db result" where
  "insert_role_permission r db =
     foreign (role_exists (rpm_tenant_id r) (rpm_role_id r) db \<and> rpm_permission_id r \<in> prm_id ` set (td_permissions db))
       (bindE (sql_insert (\<lambda>_. True) (=) r (td_role_permissions db)) (\<lambda>rows.
         Inr (db\<lparr>td_role_permissions := rows\<rparr>)))"

definition insert_assignment :: "uuid \<Rightarrow> assignment_row \<Rightarrow> tenant_db \<Rightarrow> tenant_db result" where
  "insert_assignment assigned_by a db =
     foreign (member_exists (asg_tenant_id a) (asg_membership_id a) db
         \<and> role_exists (asg_tenant_id a) (asg_role_id a) db \<and> member_exists (asg_tenant_id a) assigned_by db)
       (bindE (sql_insert (\<lambda>_. True) (=) a (td_assignments db)) (\<lambda>rows.
         Inr (db\<lparr>td_assignments := rows\<rparr>)))"

definition insert_invitation :: "invitation_row \<Rightarrow> tenant_db \<Rightarrow> tenant_db result" where
  "insert_invitation i db =
     foreign (inv_tenant_id i \<in> ten_id ` set (td_tenants db)
         \<and> member_exists (inv_tenant_id i) (inv_invited_by_membership_id i) db)
       (bindE (sql_insert invitation_check invitation_conflict i (td_invitations db)) (\<lambda>rows.
         Inr (db\<lparr>td_invitations := rows\<rparr>)))"

definition insert_invitation_role :: "invitation_role_row \<Rightarrow> tenant_db \<Rightarrow> tenant_db result" where
  "insert_invitation_role r db =
     foreign ((irl_tenant_id r, irl_invitation_id r) \<in> (\<lambda>i. (inv_tenant_id i, inv_id i)) ` set (td_invitations db)
         \<and> role_exists (irl_tenant_id r) (irl_role_id r) db)
       (bindE (sql_insert (\<lambda>_. True) (=) r (td_invitation_roles db)) (\<lambda>rows.
         Inr (db\<lparr>td_invitation_roles := rows\<rparr>)))"

definition insert_cache_task :: "cache_task_row \<Rightarrow> tenant_db \<Rightarrow> tenant_db result" where
  "insert_cache_task t db =
     foreign (member_exists (co_tenant_id t) (co_membership_id t) db
         \<and> (Some (co_tenant_id t), co_record_id t) \<in> (\<lambda>r. (idem_tenant_id r, idem_id r)) ` set (td_idempotency db))
       (bindE (sql_insert cache_task_check cache_task_conflict t (td_cache_outbox db)) (\<lambda>rows.
         Inr (db\<lparr>td_cache_outbox := rows\<rparr>)))"

text \<open>\<open>append_structured\<close>: the event is stored as it is, its time at the database boundary.\<close>

definition append_structured :: "StructuredAuditEvent \<Rightarrow> tenant_db \<Rightarrow> tenant_db result" where
  "append_structured e db =
     bindE (naive (sev_occurred_at e)) (\<lambda>_.
     foreign (owner_references (session_view db) (sev_actor_user_id e) (sev_tenant_id e) (sev_actor_membership_id e))
       (bindE (sql_insert structured_check (\<lambda>a b. sev_id a = sev_id b) e (td_audit db)) (\<lambda>rows.
         Inr (db\<lparr>td_audit := rows\<rparr>))))"

text \<open>A batch of inserts, one after the other.\<close>

fun insert_all :: "('r \<Rightarrow> 'd \<Rightarrow> 'd result) \<Rightarrow> 'r list \<Rightarrow> 'd \<Rightarrow> 'd result" where
  "insert_all ins [] db = Inr db"
| "insert_all ins (r # rs) db = bindE (ins r db) (insert_all ins rs)"

text \<open>A conversion applied to every row of a result.\<close>

fun convert_all :: "('a \<Rightarrow> 'b result) \<Rightarrow> 'a list \<Rightarrow> 'b list result" where
  "convert_all f [] = Inr []"
| "convert_all f (x # xs) = bindE (f x) (\<lambda>y. bindE (convert_all f xs) (\<lambda>ys. Inr (y # ys)))"

subsection \<open>Built-in roles\<close>

record RoleSeed =
  seed_code :: string
  seed_name :: ustring
  seed_description :: ustring
  seed_permission_codes :: "string list"

definition TENANT_ROLE_TEMPLATES :: "RoleSeed list" where
  "TENANT_ROLE_TEMPLATES = [
     \<lparr>seed_code = ''tenant_owner'', seed_name = [31199, 25143, 25152, 26377, 32773],
      seed_description = [31649, 29702, 31199, 25143, 12289, 32452, 32455, 12289, 25104, 21592, 21644,
        35282, 33394, 12290],
      seed_permission_codes = [''tenant.read'', ''tenant.update'', ''department.read'',
        ''department.manage'', ''membership.read'', ''membership.invite'', ''membership.update'',
        ''membership.revoke'', ''role.read'', ''role.assign'', ''external_service.enable'']\<rparr>,
     \<lparr>seed_code = ''tenant_admin'', seed_name = [31199, 25143, 31649, 29702, 21592],
      seed_description = [31649, 29702, 32452, 32455, 12289, 25104, 21592, 21644, 35282, 33394, 65292,
        19981, 25317, 26377, 31199, 25143, 25152, 26377, 26435, 12290],
      seed_permission_codes = [''tenant.read'', ''department.read'', ''department.manage'',
        ''membership.read'', ''membership.invite'', ''membership.update'', ''membership.revoke'',
        ''role.read'', ''role.assign'']\<rparr>,
     \<lparr>seed_code = ''department_admin'', seed_name = [37096, 38376, 31649, 29702, 21592],
      seed_description = [22312, 32, 65, 66, 65, 67, 32, 38480, 23450, 30340, 37096, 38376, 33539, 22260,
        20869, 31649, 29702, 25104, 21592, 12290],
      seed_permission_codes = [''tenant.read'', ''department.read'', ''department.manage'',
        ''membership.read'', ''membership.invite'', ''membership.update'', ''role.read'']\<rparr>,
     \<lparr>seed_code = ''lawyer_or_legal'', seed_name = [24459, 24072, 25110, 27861, 21153],
      seed_description = [22788, 29702, 33719, 25480, 26435, 30340, 27861, 24459, 19994, 21153, 36164,
        28304, 12290],
      seed_permission_codes = [''tenant.read'', ''department.read'', ''membership.read'']\<rparr>,
     \<lparr>seed_code = ''assistant'', seed_name = [21161, 29702],
      seed_description = [21327, 21161, 22788, 29702, 33719, 25480, 26435, 30340, 19994, 21153, 36164,
        28304, 12290],
      seed_permission_codes = [''tenant.read'', ''department.read'', ''membership.read'']\<rparr>,
     \<lparr>seed_code = ''teacher'', seed_name = [25945, 24072],
      seed_description = [35775, 38382, 33719, 25480, 26435, 30340, 25945, 23398, 32452, 32455, 20449,
        24687, 12290],
      seed_permission_codes = [''tenant.read'', ''department.read'', ''membership.read'']\<rparr>,
     \<lparr>seed_code = ''student'', seed_name = [23398, 29983],
      seed_description = [35775, 38382, 26126, 30830, 25480, 26435, 30340, 25945, 23398, 20837, 21475, 12290],
      seed_permission_codes = [''tenant.read'']\<rparr>,
     \<lparr>seed_code = ''external_client'', seed_name = [22806, 37096, 23458, 25143],
      seed_description = [19981, 25480, 20104, 31199, 25143, 30446, 24405, 26435, 38480, 65292, 20165,
        20381, 36182, 21518, 32493, 36164, 28304, 32423, 26174, 24335, 20849, 20139, 12290],
      seed_permission_codes = []\<rparr>]"

definition FEATURE_PERMISSION_CODES :: "string list" where
  "FEATURE_PERMISSION_CODES = [''ai_job.create'', ''ai_job.read'', ''ai_job.cancel'']"

definition FEATURE_TARGET_ROLES :: "string list" where
  "FEATURE_TARGET_ROLES = [''tenant_owner'', ''tenant_admin'', ''department_admin'', ''lawyer_or_legal'',
     ''assistant'', ''teacher'']"

subsection \<open>Domain values\<close>

definition tenant_of_row :: "tenant_model \<Rightarrow> Tenant result" where
  "tenant_of_row r =
     (let t = \<lparr>tenant_id = ten_id r, tenant_name = tnm_name r, tenant_normalized_name = tnm_normalized_name r,
               tenant_tenant_type = tnm_tenant_type r, tenant_status = ten_status r,
               tenant_version = tnm_version r, tenant_created_by_user_id = tnm_created_by_user_id r,
               tenant_review_status = tnm_review_status r\<rparr>
      in bindE (Tenant_post_init t) (\<lambda>_. Inr t))"

definition member_of_row :: "member_row \<Rightarrow> Membership result" where
  "member_of_row r = membership_of_row (membership_row.truncate r)"

end
