(* ===== verification/TenantStore.thy ===== *)
theory TenantStore
  imports TenantTables "HOL-Library.Product_Lexorder"
begin

text \<open>
  The repositories of the tenant workflows (\<open>repositories/tenant_workflows.py\<close>, the structured audit of
  \<open>repositories/audit.py\<close>, the tenant lock of \<open>repositories/security_locks.py\<close>) and of the cache invalidation
  outbox (\<open>repositories/authorization_cache_outbox.py\<close>).  A transaction is atomic, so \<open>FOR UPDATE\<close> only
  reads; an identifier that \<open>new_uuid7\<close> returns is an argument.
\<close>

definition require_tenant_context :: "TenantContext \<Rightarrow> unit result" where
  "require_tenant_context c = require
     [uuid_check (ctx_tenant_id c) ''tenant context tenant_id'',
      (is_uuid7_opt (ctx_membership_id c), ValueError ''tenant context membership_id must be an RFC 9562 UUIDv7''),
      (is_uuid7_opt (ctx_membership_user_id c),
        ValueError ''tenant context membership_user_id must be an RFC 9562 UUIDv7'')]"

definition find_in_tenant :: "uuid \<Rightarrow> uuid \<Rightarrow> tenant_db \<Rightarrow> member_row option" where
  "find_in_tenant tenant membership db =
     sql_scalar (\<lambda>m. mbr_tenant_id m = tenant \<and> mbr_id m = membership) (td_memberships db)"

definition optional_row :: "('r \<Rightarrow> 'v result) \<Rightarrow> 'r option \<Rightarrow> 'v option result" where
  "optional_row conv r = (case r of None \<Rightarrow> Inr None | Some x \<Rightarrow> bindE (conv x) (\<lambda>v. Inr (Some v)))"

subsection \<open>Tenants\<close>

definition lock_active_user :: "uuid \<Rightarrow> tenant_db \<Rightarrow> bool result" where
  "lock_active_user user db =
     bindE (require [uuid_check user ''actor_user_id'']) (\<lambda>_.
       Inr (sql_scalar (\<lambda>u. usr_id u = user \<and> usr_status u = ''active'') (td_users db) \<noteq> None))"

definition tenant_row_of :: "Tenant \<Rightarrow> tenant_model" where
  "tenant_row_of t =
     \<lparr>ten_id = tenant_id t, ten_status = tenant_status t, tnm_name = tenant_name t,
      tnm_normalized_name = tenant_normalized_name t, tnm_tenant_type = tenant_tenant_type t,
      tnm_created_by_user_id = tenant_created_by_user_id t, tnm_review_status = tenant_review_status t,
      tnm_version = tenant_version t\<rparr>"

definition add_application :: "Tenant \<Rightarrow> tenant_db \<Rightarrow> tenant_db result" where
  "add_application t = insert_tenant (tenant_row_of t)"

definition get_application_for_creator :: "uuid \<Rightarrow> uuid \<Rightarrow> tenant_db \<Rightarrow> Tenant option result" where
  "get_application_for_creator user tenant db =
     bindE (require [uuid_check user ''actor_user_id'', uuid_check tenant ''tenant_id'']) (\<lambda>_.
       optional_row tenant_of_row
         (sql_scalar (\<lambda>t. ten_id t = tenant \<and> tnm_created_by_user_id t = user) (td_tenants db)))"

record rename_query =
  ren_tenant_id :: uuid
  ren_name :: ustring
  ren_normalized_name :: ustring
  ren_expected_version :: int

definition rename_where :: "rename_query \<Rightarrow> tenant_model \<Rightarrow> bool" where
  "rename_where q t \<longleftrightarrow> ten_id t = ren_tenant_id q \<and> tnm_version t = ren_expected_version q"

definition rename_values :: "rename_query \<Rightarrow> tenant_model \<Rightarrow> tenant_model" where
  "rename_values q t = t\<lparr>tnm_name := ren_name q, tnm_normalized_name := ren_normalized_name q,
     tnm_version := tnm_version t + 1\<rparr>"

definition update_name :: "TenantContext \<Rightarrow> ustring \<Rightarrow> ustring \<Rightarrow> int \<Rightarrow> datetime \<Rightarrow> tenant_db
    \<Rightarrow> (Tenant option \<times> tenant_db) result" where
  "update_name c name normalized expected now db =
     (let q = \<lparr>ren_tenant_id = ctx_tenant_id c, ren_name = name, ren_normalized_name = normalized,
               ren_expected_version = expected\<rparr> in
      bindE (require_tenant_context c) (\<lambda>_.
      bindE (naive now) (\<lambda>_.
      bindE (sql_update tenant_check (rename_where q) (rename_values q) (td_tenants db)) (\<lambda>(rows, n).
        let db' = db\<lparr>td_tenants := rows\<rparr> in
        if n \<noteq> 1 then Inr (None, db')
        else bindE (optional_row tenant_of_row (row_of ten_id (ctx_tenant_id c) rows)) (\<lambda>t. Inr (t, db'))))))"

subsection \<open>Memberships\<close>

definition member_row_of :: "int \<Rightarrow> Membership \<Rightarrow> member_row result" where
  "member_row_of created m =
     bindE (naive (mem_valid_from m)) (\<lambda>from.
     bindE (naive_optional (mem_valid_until m)) (\<lambda>until.
       Inr \<lparr>mbr_id = mem_id m, mbr_tenant_id = mem_tenant_id m, mbr_user_id = mem_user_id m,
            mbr_department_id = mem_department_id m, mbr_member_type = mem_member_type m,
            mbr_status = mem_status m, mbr_valid_from = from, mbr_valid_until = until,
            mbr_authz_version = mem_authz_version m, mbr_version = mem_version m, mbr_created_at = created\<rparr>))"

definition add_owner_for_application :: "int \<Rightarrow> Membership \<Rightarrow> tenant_db \<Rightarrow> tenant_db result" where
  "add_owner_for_application created m db =
     bindE (require [(mem_member_type m = MemberType_OWNER \<and> mem_status m = MembershipStatus_ACTIVE,
         ValueError ''tenant application owner membership is invalid'')]) (\<lambda>_.
     bindE (member_row_of created (m\<lparr>mem_valid_until := None\<rparr>)) (\<lambda>r. insert_member r db))"

definition get_owner_for_application :: "uuid \<Rightarrow> uuid \<Rightarrow> tenant_db \<Rightarrow> Membership option result" where
  "get_owner_for_application tenant user db =
     bindE (require [uuid_check tenant ''tenant_id'', uuid_check user ''actor_user_id'']) (\<lambda>_.
       optional_row member_of_row
         (sql_scalar (\<lambda>m. mbr_tenant_id m = tenant \<and> mbr_user_id m = user \<and> mbr_member_type m = MemberType_OWNER
            \<and> list_ex (\<lambda>t. ten_id t = mbr_tenant_id m \<and> tnm_created_by_user_id t = user) (td_tenants db))
           (td_memberships db)))"

definition get_member :: "TenantContext \<Rightarrow> uuid \<Rightarrow> tenant_db \<Rightarrow> Membership option result" where
  "get_member c membership db =
     bindE (require_tenant_context c) (\<lambda>_. bindE (require [uuid_check membership ''membership_id'']) (\<lambda>_.
       optional_row member_of_row (find_in_tenant (ctx_tenant_id c) membership db)))"

record member_query =
  muq_tenant_id :: uuid
  muq_membership_id :: uuid
  muq_status :: MembershipStatus
  muq_department_id :: "uuid option"
  muq_expected_version :: int

definition member_where :: "member_query \<Rightarrow> member_row \<Rightarrow> bool" where
  "member_where q m \<longleftrightarrow> mbr_tenant_id m = muq_tenant_id q \<and> mbr_id m = muq_membership_id q
     \<and> mbr_version m = muq_expected_version q"

definition member_values :: "member_query \<Rightarrow> member_row \<Rightarrow> member_row" where
  "member_values q m = m\<lparr>mbr_status := muq_status q, mbr_department_id := muq_department_id q,
     mbr_authz_version := mbr_authz_version m + 1, mbr_version := mbr_version m + 1\<rparr>"

definition department_known :: "uuid \<Rightarrow> uuid option \<Rightarrow> tenant_db \<Rightarrow> bool" where
  "department_known tenant department db \<longleftrightarrow>
     pred_option (\<lambda>d. (tenant, d) \<in> (\<lambda>r. (dpt_tenant_id r, dpt_id r)) ` set (td_departments db)) department"

definition update_locked :: "TenantContext \<Rightarrow> Membership \<Rightarrow> MembershipStatus \<Rightarrow> uuid option \<Rightarrow> int \<Rightarrow> datetime
    \<Rightarrow> tenant_db \<Rightarrow> (Membership option \<times> tenant_db) result" where
  "update_locked c current status department expected now db =
     (let q = \<lparr>muq_tenant_id = ctx_tenant_id c, muq_membership_id = mem_id current, muq_status = status,
               muq_department_id = department, muq_expected_version = expected\<rparr> in
      bindE (require_tenant_context c) (\<lambda>_.
      bindE (require [(mem_tenant_id current = ctx_tenant_id c,
          ValueError ''membership update does not match tenant context'')]) (\<lambda>_.
      bindE (naive now) (\<lambda>_.
      foreign (list_ex (member_where q) (td_memberships db) \<longrightarrow> department_known (ctx_tenant_id c) department db)
       (bindE (sql_update (\<lambda>_. True) (member_where q) (member_values q) (td_memberships db)) (\<lambda>(rows, n).
        let db' = db\<lparr>td_memberships := rows\<rparr> in
        if n \<noteq> 1 then Inr (None, db')
        else bindE (optional_row member_of_row (find_in_tenant (ctx_tenant_id c) (mem_id current) db')) (\<lambda>m.
          Inr (m, db'))))))))"

definition department_exists :: "TenantContext \<Rightarrow> uuid \<Rightarrow> tenant_db \<Rightarrow> bool result" where
  "department_exists c department db =
     bindE (require_tenant_context c) (\<lambda>_. bindE (require [uuid_check department ''department_id'']) (\<lambda>_.
       Inr (sql_scalar (\<lambda>d. dpt_tenant_id d = ctx_tenant_id c \<and> dpt_id d = department \<and> dpt_status d = ''active'')
          (td_departments db) \<noteq> None)))"

subsection \<open>Roles\<close>

definition feature_phase :: "tenant_db \<Rightarrow> string" where
  "feature_phase db = (case td_feature_phase db of None \<Rightarrow> ''catalog_only'' | Some p \<Rightarrow> p)"

definition template_permissions :: "tenant_db \<Rightarrow> template_row \<Rightarrow> permission_row list" where
  "template_permissions db t =
     concat (map (\<lambda>link. filter (\<lambda>p. prm_id p = tpp_permission_id link \<and> prm_status p = ''active'') (td_permissions db))
       (filter (\<lambda>link. tpp_template_id link = tpl_id t) (td_template_permissions db)))"

definition template_matches_seed :: "bool \<Rightarrow> tenant_db \<Rightarrow> template_row \<Rightarrow> bool" where
  "template_matches_seed has_feature db t \<longleftrightarrow>
     list_ex (\<lambda>s. seed_code s = tpl_code t \<and> tpl_name t = seed_name s \<and> tpl_description t = seed_description s
        \<and> prm_code ` set (template_permissions db t)
          = set (seed_permission_codes s)
            \<union> (if has_feature \<and> tpl_code t \<in> set FEATURE_TARGET_ROLES then set FEATURE_PERMISSION_CODES else {}))
      TENANT_ROLE_TEMPLATES"

definition cloned_role :: "uuid \<Rightarrow> (string \<Rightarrow> uuid) \<Rightarrow> template_row \<Rightarrow> role_row" where
  "cloned_role tenant fresh t =
     \<lparr>rol_id = fresh (tpl_code t), rol_tenant_id = tenant, rol_code = tpl_code t, rol_status = ''active''\<rparr>"

definition cloned_permissions :: "uuid \<Rightarrow> (string \<Rightarrow> uuid) \<Rightarrow> bool \<Rightarrow> tenant_db \<Rightarrow> template_row \<Rightarrow> role_permission_row list" where
  "cloned_permissions tenant fresh filter_feature db t =
     map (\<lambda>p. \<lparr>rpm_tenant_id = tenant, rpm_role_id = fresh (tpl_code t), rpm_permission_id = prm_id p\<rparr>)
       (filter (\<lambda>p. \<not> (filter_feature \<and> prm_code p \<in> set FEATURE_PERMISSION_CODES)) (template_permissions db t))"

definition active_templates :: "tenant_db \<Rightarrow> template_row list" where
  "active_templates db = sort_key tpl_code (filter (\<lambda>t. tpl_status t = ''active'') (td_templates db))"

definition clone_templates_for_tenant :: "uuid \<Rightarrow> (string \<Rightarrow> uuid) \<Rightarrow> tenant_db
    \<Rightarrow> ((string \<rightharpoonup> uuid) \<times> tenant_db) result" where
  "clone_templates_for_tenant tenant fresh db =
     bindE (require [uuid_check tenant ''tenant_id'']) (\<lambda>_.
     let phase = feature_phase db;
         has_feature = phase \<in> {''activating'', ''activated'', ''deactivating''};
         filter_feature = phase \<in> {''catalog_only'', ''deactivating''};
         templates = active_templates db in
     bindE (require
       [(tpl_code ` set templates = seed_code ` set TENANT_ROLE_TEMPLATES, RoleTemplateUnavailable),
        (list_all (template_matches_seed has_feature db) templates, RoleTemplateUnavailable)]) (\<lambda>_.
     bindE (insert_all insert_role (map (cloned_role tenant fresh) templates) db) (\<lambda>db1.
     bindE (insert_all insert_role_permission
         (concat (map (cloned_permissions tenant fresh filter_feature db) templates)) db1) (\<lambda>db2.
       Inr (map_of (map (\<lambda>t. (tpl_code t, fresh (tpl_code t))) templates), db2)))))"

definition assign_owner :: "uuid \<Rightarrow> uuid \<Rightarrow> uuid \<Rightarrow> datetime \<Rightarrow> tenant_db \<Rightarrow> tenant_db result" where
  "assign_owner tenant membership owner_role now db =
     bindE (require [uuid_check tenant ''tenant_id'', uuid_check membership ''membership_id'',
       uuid_check owner_role ''owner_role_id'']) (\<lambda>_.
     bindE (naive now) (\<lambda>_.
       insert_assignment membership
         \<lparr>asg_tenant_id = tenant, asg_membership_id = membership, asg_role_id = owner_role\<rparr> db))"

definition member_assignments :: "uuid \<Rightarrow> uuid \<Rightarrow> tenant_db \<Rightarrow> assignment_row list" where
  "member_assignments tenant membership db =
     filter (\<lambda>a. asg_tenant_id a = tenant \<and> asg_membership_id a = membership) (td_assignments db)"

definition role_ids :: "TenantContext \<Rightarrow> uuid \<Rightarrow> tenant_db \<Rightarrow> uuid list result" where
  "role_ids c membership db =
     bindE (require_tenant_context c) (\<lambda>_. bindE (require [uuid_check membership ''membership_id'']) (\<lambda>_.
       Inr (sort_key uuid_str (map asg_role_id (member_assignments (ctx_tenant_id c) membership db)))))"

definition active_roles :: "uuid \<Rightarrow> uuid list \<Rightarrow> tenant_db \<Rightarrow> role_row list" where
  "active_roles tenant ids db =
     filter (\<lambda>r. rol_tenant_id r = tenant \<and> rol_id r \<in> set ids \<and> rol_status r = ''active'') (td_roles db)"

definition roles_exist :: "TenantContext \<Rightarrow> uuid list \<Rightarrow> tenant_db \<Rightarrow> bool result" where
  "roles_exist c ids db =
     bindE (require_tenant_context c) (\<lambda>_.
     if ids = [] then Inr True
     else bindE (require (map (\<lambda>r. uuid_check r ''role_id'') ids)) (\<lambda>_.
       Inr (length (active_roles (ctx_tenant_id c) ids db) = length ids)))"

definition role_codes_for_ids :: "TenantContext \<Rightarrow> uuid list \<Rightarrow> tenant_db \<Rightarrow> (uuid \<times> string) list option result" where
  "role_codes_for_ids c ids db =
     bindE (require_tenant_context c) (\<lambda>_.
     bindE (require (map (\<lambda>r. uuid_check r ''role_id'') ids)) (\<lambda>_.
     let rows = active_roles (ctx_tenant_id c) ids db in
     if ids = [] then Inr (Some [])
     else if length rows \<noteq> length ids then Inr None
     else Inr (Some (map (\<lambda>r. (rol_id r, rol_code r)) rows))))"

text \<open>The rows of the join of memberships, assignments and roles that makes an active owner.\<close>

definition active_owner_rows :: "uuid \<Rightarrow> tenant_db \<Rightarrow> (member_row \<times> assignment_row \<times> role_row) list" where
  "active_owner_rows tenant db =
     filter (\<lambda>(m, a, r). asg_tenant_id a = mbr_tenant_id m \<and> asg_membership_id a = mbr_id m
         \<and> rol_tenant_id r = asg_tenant_id a \<and> rol_id r = asg_role_id a \<and> mbr_tenant_id m = tenant
         \<and> mbr_status m = MembershipStatus_ACTIVE \<and> rol_status r = ''active'' \<and> rol_code r = ''tenant_owner'')
       (List.product (td_memberships db) (List.product (td_assignments db) (td_roles db)))"

definition count_active_owners_locked :: "TenantContext \<Rightarrow> tenant_db \<Rightarrow> nat result" where
  "count_active_owners_locked c db =
     bindE (require_tenant_context c) (\<lambda>_. Inr (length (active_owner_rows (ctx_tenant_id c) db)))"

definition replace_roles :: "TenantContext \<Rightarrow> uuid \<Rightarrow> uuid list \<Rightarrow> uuid \<Rightarrow> datetime \<Rightarrow> tenant_db \<Rightarrow> tenant_db result" where
  "replace_roles c membership ids assigned_by now db =
     bindE (require_tenant_context c) (\<lambda>_.
     bindE (require [uuid_check membership ''membership_id'', uuid_check assigned_by ''assigned_by_membership_id'']) (\<lambda>_.
     bindE (if ids = [] then Inr () else bindE (naive now) (\<lambda>_. Inr ())) (\<lambda>_.
       insert_all (insert_assignment assigned_by)
         (map (\<lambda>r. \<lparr>asg_tenant_id = ctx_tenant_id c, asg_membership_id = membership, asg_role_id = r\<rparr>) ids)
         (db\<lparr>td_assignments := filter (\<lambda>a. \<not> (asg_tenant_id a = ctx_tenant_id c \<and> asg_membership_id a = membership))
            (td_assignments db)\<rparr>))))"

subsection \<open>The authorization snapshot\<close>

definition member_role_permissions :: "tenant_db \<Rightarrow> role_row \<Rightarrow> string option list" where
  "member_role_permissions db role =
     (let links = filter (\<lambda>l. rpm_tenant_id l = rol_tenant_id role \<and> rpm_role_id l = rol_id role)
          (td_role_permissions db);
          code = (\<lambda>l. map_option prm_code (sql_scalar (\<lambda>p. prm_id p = rpm_permission_id l \<and> prm_status p = ''active'')
            (td_permissions db)))
      in if links = [] then [None] else map code links)"

definition member_role_rows :: "uuid \<Rightarrow> uuid \<Rightarrow> tenant_db \<Rightarrow> (string \<times> string option) list" where
  "member_role_rows tenant membership db =
     concat (map (\<lambda>role.
       concat (map (\<lambda>asg. if asg_tenant_id asg = rol_tenant_id role \<and> asg_role_id asg = rol_id role
           \<and> asg_membership_id asg = membership
         then map (Pair (rol_code role)) (member_role_permissions db role) else []) (td_assignments db)))
       (filter (\<lambda>role. rol_tenant_id role = tenant \<and> rol_status role = ''active'') (td_roles db)))"

definition session_state_of :: "session_row \<Rightarrow> ActorSessionState" where
  "session_state_of s =
     \<lparr>ass_id = ses_id s, ass_user_id = ses_user_id s, ass_tenant_id = ses_tenant_id s,
      ass_membership_id = ses_membership_id s, ass_auth_version_at_issue = ses_auth_version_at_issue s,
      ass_authz_version_at_issue = ses_authz_version_at_issue s,
      ass_revoked_at = aware_optional (ses_revoked_at s), ass_expires_at = aware (ses_expires_at s)\<rparr>"

definition authoritative_context :: "TenantContext \<Rightarrow> tenant_model \<Rightarrow> Membership \<Rightarrow> TenantContext" where
  "authoritative_context c t m =
     \<lparr>ctx_tenant_id = ten_id t, ctx_membership_id = Some (mem_id m), ctx_membership_user_id = Some (mem_user_id m),
      ctx_department_id = mem_department_id m, ctx_tenant_status = ten_status t,
      ctx_membership_status = Some (mem_status m), ctx_valid_from = Some (mem_valid_from m),
      ctx_valid_until = mem_valid_until m, ctx_authz_version = Some (mem_authz_version m),
      ctx_session_authz_version = ctx_session_authz_version c, ctx_scope = ctx_scope c\<rparr>"

definition load_snapshot :: "Principal \<Rightarrow> TenantContext \<Rightarrow> uuid list \<Rightarrow> tenant_db
    \<Rightarrow> TenantAuthorizationSnapshot option result" where
  "load_snapshot p c targets db =
     bindE (require_tenant_context c) (\<lambda>_.
     bindE (require (map (\<lambda>m. uuid_check m ''target membership_id'') targets)) (\<lambda>_.
     case (row_of usr_id (pr_user_id p) (td_users db), row_of ten_id (ctx_tenant_id c) (td_tenants db)) of
       (Some user, Some tenant) \<Rightarrow>
         (let actor_id = the (ctx_membership_id c);
              rows = filter (\<lambda>m. mbr_tenant_id m = ctx_tenant_id c \<and> mbr_id m \<in> set (actor_id # targets))
                (td_memberships db) in
          bindE (convert_all member_of_row rows) (\<lambda>members.
          case row_of mem_id actor_id members of
            None \<Rightarrow> Inr None
          | Some actor \<Rightarrow>
              if Some (mem_user_id actor) \<noteq> ctx_membership_user_id c then Inr None
              else (let grants = member_role_rows (ctx_tenant_id c) actor_id db in
                bindE (tenant_of_row tenant) (\<lambda>t.
                Inr (Some \<lparr>tas_tenant = t, tas_actor_membership = actor,
                  tas_context = authoritative_context c tenant actor,
                  tas_user_status = usr_status user, tas_user_auth_version = usr_auth_version user,
                  tas_permissions = set (List.map_filter snd grants), tas_role_codes = fst ` set grants,
                  tas_target_memberships = (\<lambda>i. if i \<in> set targets then row_of mem_id i members else None),
                  tas_actor_session = map_option session_state_of
                    (row_of ses_id (pr_session_id p) (td_sessions db))\<rparr>)))))
     | _ \<Rightarrow> Inr None))"

subsection \<open>The write lock\<close>

record TenantWriteLock =
  twl_tenant_id :: uuid
  twl_actor_user_id :: uuid
  twl_actor_session_id :: uuid
  twl_actor_membership_id :: uuid
  twl_target_membership_ids :: "uuid list"

definition TenantWriteLock_post_init :: "TenantWriteLock \<Rightarrow> unit result" where
  "TenantWriteLock_post_init l = require
     ([uuid_check (twl_tenant_id l) ''tenant security lock tenant_id'',
       uuid_check (twl_actor_user_id l) ''tenant security lock actor_user_id'',
       uuid_check (twl_actor_session_id l) ''tenant security lock actor_session_id'',
       uuid_check (twl_actor_membership_id l) ''tenant security lock actor_membership_id'']
      @ map (\<lambda>m. uuid_check m ''tenant security lock target_membership_id'') (twl_target_membership_ids l)
      @ [(twl_target_membership_ids l = sort_key uuid_str (remdups (twl_target_membership_ids l)),
           ValueError ''tenant security lock targets must be unique and ordered'')])"

text \<open>Every statement after the gate only locks rows.\<close>

definition acquire_tenant_write :: "TenantWriteLock \<Rightarrow> tenant_db \<Rightarrow> bool result" where
  "acquire_tenant_write l db = acquire_tenant_gate (twl_tenant_id l) (session_view db)"

subsection \<open>Sessions of a membership\<close>

definition revoke_membership_sessions :: "uuid \<Rightarrow> uuid \<Rightarrow> string \<Rightarrow> datetime \<Rightarrow> tenant_db \<Rightarrow> tenant_db result" where
  "revoke_membership_sessions tenant membership reason now db =
     bindE (revoke_for_membership tenant membership reason now (session_view db)) (\<lambda>s. Inr (put_session s db))"

subsection \<open>The cache invalidation outbox\<close>

definition cache_task_of_row :: "cache_task_row \<Rightarrow> CacheInvalidationTask result" where
  "cache_task_of_row r =
     (let t = \<lparr>cit_id = co_id r, cit_tenant_id = co_tenant_id r, cit_membership_id = co_membership_id r,
               cit_authz_version = co_authz_version r, cit_idempotency_record_id = co_record_id r,
               cit_status = co_status r, cit_attempt_count = co_attempt_count r,
               cit_available_at = aware (co_available_at r),
               cit_processing_started_at = aware_optional (co_processing_started_at r),
               cit_claim_token = co_claim_token r\<rparr>
      in bindE (CacheInvalidationTask_post_init t) (\<lambda>_. Inr t))"

definition add_cache_task :: "NewCacheInvalidation \<Rightarrow> tenant_db \<Rightarrow> tenant_db result" where
  "add_cache_task n db =
     bindE (naive (nci_available_at n)) (\<lambda>available.
       insert_cache_task \<lparr>co_id = nci_id n, co_tenant_id = nci_tenant_id n, co_membership_id = nci_membership_id n,
         co_authz_version = nci_authz_version n, co_record_id = nci_idempotency_record_id n,
         co_status = Invalidation_PENDING, co_attempt_count = 0, co_available_at = available,
         co_processing_started_at = None, co_claim_token = None, co_completed_at = None,
         co_last_error_code = None, co_version = 1\<rparr> db)"

definition due_cache_task :: "int \<Rightarrow> int \<Rightarrow> cache_task_row \<Rightarrow> bool" where
  "due_cache_task now expired_before t \<longleftrightarrow>
     (co_status t = Invalidation_PENDING \<and> co_available_at t \<le> now)
     \<or> (co_status t = Invalidation_PROCESSING \<and> pred_option (\<lambda>s. s \<le> expired_before) (co_processing_started_at t)
          \<and> co_processing_started_at t \<noteq> None)"

definition claim_cache_task :: "(uuid \<Rightarrow> uuid) \<Rightarrow> int \<Rightarrow> cache_task_row \<Rightarrow> cache_task_row" where
  "claim_cache_task token now t = t\<lparr>co_status := Invalidation_PROCESSING, co_attempt_count := co_attempt_count t + 1,
     co_processing_started_at := Some now, co_claim_token := Some (token (co_id t)), co_last_error_code := None,
     co_version := co_version t + 1\<rparr>"

definition claim_cache_batch :: "(uuid \<Rightarrow> uuid) \<Rightarrow> datetime \<Rightarrow> datetime \<Rightarrow> int \<Rightarrow> cache_task_row list
    \<Rightarrow> (CacheInvalidationTask list \<times> cache_task_row list) result" where
  "claim_cache_batch token now expired_before limit rows =
     bindE (require [(1 \<le> limit \<and> limit \<le> 100, ValueError ''cache invalidation claim limit is invalid'')]) (\<lambda>_.
     bindE (naive now) (\<lambda>t.
     bindE (naive expired_before) (\<lambda>before.
     let due = take (nat limit)
           (sort_key (\<lambda>r. (co_available_at r, co_id r)) (filter (due_cache_task t before) rows));
         rows' = map (\<lambda>r. if r \<in> set due then claim_cache_task token t r else r) rows in
     if \<not> list_all cache_task_check rows' then Inl (DatabaseError ''check constraint violated'')
     else bindE (convert_all cache_task_of_row (map (claim_cache_task token t) due)) (\<lambda>tasks. Inr (tasks, rows')))))"

record settle_task =
  stk_task_id :: uuid
  stk_claim_token :: uuid
  stk_now :: int

definition claimed_where :: "settle_task \<Rightarrow> cache_task_row \<Rightarrow> bool" where
  "claimed_where q t \<longleftrightarrow> co_id t = stk_task_id q \<and> co_status t = Invalidation_PROCESSING
     \<and> co_claim_token t = Some (stk_claim_token q)"

definition completed_values :: "settle_task \<Rightarrow> cache_task_row \<Rightarrow> cache_task_row" where
  "completed_values q t = t\<lparr>co_status := Invalidation_COMPLETED, co_completed_at := Some (stk_now q),
     co_processing_started_at := None, co_claim_token := None, co_last_error_code := None,
     co_version := co_version t + 1\<rparr>"

definition pending_where :: "settle_task \<Rightarrow> cache_task_row \<Rightarrow> bool" where
  "pending_where q t \<longleftrightarrow> co_id t = stk_task_id q \<and> co_status t = Invalidation_PENDING"

definition mark_immediate_completed :: "uuid \<Rightarrow> datetime \<Rightarrow> cache_task_row list \<Rightarrow> (bool \<times> cache_task_row list) result" where
  "mark_immediate_completed task now rows =
     bindE (require [uuid_check task ''outbox task_id'']) (\<lambda>_.
     bindE (naive now) (\<lambda>t.
     let q = \<lparr>stk_task_id = task, stk_claim_token = 0, stk_now = t\<rparr> in
     bindE (sql_update cache_task_check (pending_where q) (completed_values q) rows) (\<lambda>(rows', n).
       Inr (n = 1, rows'))))"

definition mark_completed :: "uuid \<Rightarrow> uuid \<Rightarrow> datetime \<Rightarrow> cache_task_row list \<Rightarrow> (bool \<times> cache_task_row list) result" where
  "mark_completed task token now rows =
     bindE (require [uuid_check task ''outbox task_id'', uuid_check token ''outbox claim_token'']) (\<lambda>_.
     bindE (naive now) (\<lambda>t.
     let q = \<lparr>stk_task_id = task, stk_claim_token = token, stk_now = t\<rparr> in
     bindE (sql_update cache_task_check (claimed_where q) (completed_values q) rows) (\<lambda>(rows', n).
       Inr (n = 1, rows'))))"

definition released_task :: "int \<Rightarrow> string \<Rightarrow> cache_task_row \<Rightarrow> cache_task_row" where
  "released_task available error t = t\<lparr>co_status := Invalidation_PENDING, co_available_at := available,
     co_processing_started_at := None, co_claim_token := None, co_last_error_code := Some error,
     co_version := co_version t + 1\<rparr>"

definition release_failed :: "uuid \<Rightarrow> uuid \<Rightarrow> datetime \<Rightarrow> string \<Rightarrow> datetime \<Rightarrow> cache_task_row list
    \<Rightarrow> (bool \<times> cache_task_row list) result" where
  "release_failed task token available_at error now rows =
     bindE (require [uuid_check task ''outbox task_id'', uuid_check token ''outbox claim_token'',
       (error = ''cache_unavailable'', ValueError ''cache invalidation outbox error code is invalid'')]) (\<lambda>_.
     bindE (naive available_at) (\<lambda>available.
     bindE (naive now) (\<lambda>t.
     let q = \<lparr>stk_task_id = task, stk_claim_token = token, stk_now = t\<rparr> in
     bindE (sql_update cache_task_check (claimed_where q) (\<lambda>r. released_task available error r) rows) (\<lambda>(rows', n).
       Inr (n = 1, rows')))))"

subsection \<open>Contracts\<close>

interpretation member_update: guarded_update mbr_id "\<lambda>_. True" member_where member_values muq_membership_id "\<lambda>_ _. True"
  by unfold_locales (auto simp: member_where_def member_values_def)

interpretation rename: guarded_update ten_id tenant_check rename_where rename_values ren_tenant_id
  "\<lambda>q _. length (ren_name q) \<le> 255 \<and> length (ren_normalized_name q) \<le> 255"
  by unfold_locales (auto simp: rename_where_def rename_values_def tenant_check_def)

interpretation complete_task: cas_update co_id cache_task_check claimed_where completed_values stk_task_id "\<lambda>_ _. True"
  "\<lambda>q q'. stk_task_id q' = stk_task_id q"
  by unfold_locales (auto simp: claimed_where_def completed_values_def cache_task_check_def)

end
