(* ===== verification/TenantService.thy ===== *)
theory TenantService
  imports TenantStore SessionService
begin

text \<open>
  \<open>TenantService\<close> of \<open>application/tenancy.py\<close>: applying for a tenant, reading and renaming it, and
  changing or revoking a membership.  Every operation is a transaction over \<open>tenant_db\<close>; identifiers,
  readings of the clock (one per call site, numbered in the order of the source) and the outcome of the
  cache are arguments.  Tenant names are lists of code points; \<open>ts_payload_text\<close> writes one as the payload
  text of a request fingerprint.
\<close>

record tenant_service =
  ts_ext :: externals
  ts_secret :: bytes
  ts_ttl :: int
  ts_nfkc :: "ustring \<Rightarrow> ustring"
  ts_casefold :: "ustring \<Rightarrow> ustring"
  ts_payload_text :: "ustring \<Rightarrow> string"

definition tenant_now :: "datetime \<Rightarrow> datetime result" where
  "tenant_now clock =
     bindE (require [(is_utc clock, ValueError ''tenant service clock must return a UTC-aware datetime'')])
       (\<lambda>_. Inr clock)"

subsection \<open>Authorization\<close>

definition validate_authoritative_actor :: "TenantActor \<Rightarrow> TenantAuthorizationSnapshot \<Rightarrow> datetime \<Rightarrow> unit result" where
  "validate_authoritative_actor actor snap clock =
     bindE (tenant_now clock) (\<lambda>now.
     let p = act_principal actor; c = act_context actor; a = tas_context snap;
         version = mem_authz_version (tas_actor_membership snap) in
     require [(case tas_actor_session snap of
        None \<Rightarrow> False
      | Some s \<Rightarrow>
          ass_id s = pr_session_id p \<and> ass_user_id s = pr_user_id p
          \<and> (ass_tenant_id s, ass_membership_id s, ass_authz_version_at_issue s)
              \<in> {(None, None, None), (pr_tenant_id p, pr_membership_id p, Some version)}
          \<and> ctx_membership_user_id c = Some (pr_user_id p) \<and> pr_tenant_id p = Some (ctx_tenant_id c)
          \<and> pr_membership_id p = ctx_membership_id c
          \<and> ctx_membership_user_id a = Some (pr_user_id p) \<and> ctx_membership_id a = pr_membership_id p
          \<and> ass_revoked_at s = None \<and> instant now < instant (ass_expires_at s) \<and> pr_session_valid p
          \<and> pr_auth_version p = tas_user_auth_version snap \<and> pr_session_auth_version p = tas_user_auth_version snap
          \<and> ass_auth_version_at_issue s = tas_user_auth_version snap
          \<and> ctx_authz_version c = Some version \<and> ctx_session_authz_version c = Some version,
        TenantAuthorizationDenied ''session_invalid'')])"

definition require_snapshot :: "TenantActor \<Rightarrow> uuid list \<Rightarrow> datetime \<Rightarrow> tenant_db \<Rightarrow> TenantAuthorizationSnapshot result" where
  "require_snapshot actor targets clock db =
     bindE (load_snapshot (act_principal actor) (act_context actor) targets db) (\<lambda>found.
     case found of
       None \<Rightarrow> Inl TenantResourceNotFound
     | Some snap \<Rightarrow> bindE (validate_authoritative_actor actor snap clock) (\<lambda>_. Inr snap))"

definition snapshot_principal :: "TenantActor \<Rightarrow> TenantAuthorizationSnapshot \<Rightarrow> Principal" where
  "snapshot_principal actor snap = (act_principal actor)
     \<lparr>pr_user_status := tas_user_status snap, pr_auth_version := tas_user_auth_version snap,
      pr_permissions := tas_permissions snap, pr_role_codes := tas_role_codes snap\<rparr>"

definition tenant_resource :: "uuid \<Rightarrow> ResourceAccessPath set \<Rightarrow> uuid option \<Rightarrow> ResourceAttributes" where
  "tenant_resource tenant paths department =
     \<lparr>res_tenant_id = tenant, res_state = ResourceState_ACTIVE, res_access_paths = paths,
      res_department_id = department, res_owner_user_id = None, res_shared_with_membership_ids = {},
      res_matter_team_membership_ids = {}, res_class_membership_ids = {},
      res_delegated_client_membership_ids = {}, res_confidentiality = INTERNAL, res_approval_status = None,
      res_unrecognized_fields = {}\<rparr>"

definition authorize_resource ::
    "TenantActor \<Rightarrow> TenantAuthorizationSnapshot \<Rightarrow> Action \<Rightarrow> ResourceAttributes \<Rightarrow> datetime \<Rightarrow> unit result" where
  "authorize_resource actor snap action resource clock =
     bindE (tenant_now clock) (\<lambda>now.
     let decision = PolicyEngine_decide (snapshot_principal actor snap) (tas_context snap) action resource now in
     if allowed decision then Inr () else Inl (TenantAuthorizationDenied (reason_code decision)))"

definition authorize_tenant :: "TenantActor \<Rightarrow> TenantAuthorizationSnapshot \<Rightarrow> Action \<Rightarrow> datetime \<Rightarrow> unit result" where
  "authorize_tenant actor snap action clock =
     authorize_resource actor snap action (tenant_resource (tenant_id (tas_tenant snap)) {} None) clock"

definition authorize_member :: "TenantActor \<Rightarrow> TenantAuthorizationSnapshot \<Rightarrow> Action \<Rightarrow> Membership \<Rightarrow> datetime \<Rightarrow> unit result" where
  "authorize_member actor snap action target clock =
     authorize_resource actor snap action
       (tenant_resource (tenant_id (tas_tenant snap))
         (if mem_department_id target \<noteq> None then {Path_DEPARTMENT} else {}) (mem_department_id target)) clock"

definition membership_scope :: "TenantActor \<Rightarrow> IdempotencyScope result" where
  "membership_scope actor =
     (case ctx_membership_id (act_context actor) of
        None \<Rightarrow> Inl (TenantAuthorizationDenied ''membership_inactive'')
      | Some m \<Rightarrow>
          (let s = \<lparr>scope_type = ScopeType_MEMBERSHIP, scope_id = m,
                    scope_tenant_id = Some (ctx_tenant_id (act_context actor))\<rparr>
           in bindE (IdempotencyScope_post_init s) (\<lambda>_. Inr s)))"

definition tenant_write_lock :: "TenantActor \<Rightarrow> uuid list \<Rightarrow> TenantWriteLock result" where
  "tenant_write_lock actor targets =
     (case ctx_membership_id (act_context actor) of
        None \<Rightarrow> Inl (TenantAuthorizationDenied ''membership_inactive'')
      | Some m \<Rightarrow>
          (let l = \<lparr>twl_tenant_id = ctx_tenant_id (act_context actor), twl_actor_user_id = pr_user_id (act_principal actor),
                    twl_actor_session_id = pr_session_id (act_principal actor), twl_actor_membership_id = m,
                    twl_target_membership_ids = sort_key uuid_str (remdups targets)\<rparr>
           in bindE (TenantWriteLock_post_init l) (\<lambda>_. Inr l)))"

definition acquire_write :: "TenantActor \<Rightarrow> uuid list \<Rightarrow> tenant_db \<Rightarrow> unit result" where
  "acquire_write actor targets db =
     bindE (tenant_write_lock actor targets) (\<lambda>l.
     bindE (acquire_tenant_write l db) (\<lambda>ok. if ok then Inr () else Inl TenantResourceNotFound))"

definition tenant_audit_event :: "uuid \<Rightarrow> AuditContext \<Rightarrow> uuid option \<Rightarrow> uuid option \<Rightarrow> uuid option \<Rightarrow> string \<Rightarrow> string
    \<Rightarrow> string option \<Rightarrow> uuid option \<Rightarrow> datetime \<Rightarrow> StructuredAuditEvent result" where
  "tenant_audit_event fresh ctx user tenant membership action reason target_type target now =
     (let e = \<lparr>sev_id = fresh, sev_actor_kind = TENANT_USER, sev_action = action, sev_result = ''success'',
               sev_reason_code = reason, sev_trace_id = actx_trace_id ctx, sev_occurred_at = now,
               sev_tenant_id = tenant, sev_actor_user_id = user, sev_actor_membership_id = membership,
               sev_on_behalf_of_user_id = None, sev_on_behalf_of_membership_id = None, sev_target_job_id = None,
               sev_attempt_id = None, sev_message_id = None, sev_rollout_feature_code = None,
               sev_rollout_generation = None, sev_target_type = target_type, sev_target_id = target,
               sev_client_ip_hash = actx_client_ip_hash ctx, sev_user_agent_hash = actx_user_agent_hash ctx\<rparr>
      in bindE (StructuredAuditEvent_post_init e) (\<lambda>_. Inr e))"

definition reserve_in :: "tenant_service \<Rightarrow> IdempotencyScope \<Rightarrow> string \<Rightarrow> IdempotencyRequest \<Rightarrow> datetime \<Rightarrow> uuid \<Rightarrow> tenant_db
    \<Rightarrow> (IdempotencyReservation \<times> tenant_db) result" where
  "reserve_in svc scope operation request now fresh db =
     bindE (FingerprintPayload_post_init (req_body request)) (\<lambda>_.
     bindE (IdempotencyService_reserve (ts_ext svc) (ts_secret svc) (ts_ttl svc) scope operation request now fresh
         (td_idempotency db)) (\<lambda>(rsv, rows). Inr (rsv, db\<lparr>td_idempotency := rows\<rparr>)))"

definition complete_in :: "IdempotencyReservation \<Rightarrow> string \<Rightarrow> uuid \<Rightarrow> IdempotencyMutationEffect option \<Rightarrow> int option
    \<Rightarrow> datetime \<Rightarrow> tenant_db \<Rightarrow> tenant_db result" where
  "complete_in rsv kind i effect version now db =
     bindE (result_reference kind i effect version) (\<lambda>ref.
     bindE (IdempotencyService_complete rsv ref now (td_idempotency db)) (\<lambda>rows.
       Inr (db\<lparr>td_idempotency := rows\<rparr>)))"

subsection \<open>Applying for a tenant\<close>

record tenant_fresh =
  tf_record_id :: uuid
  tf_tenant_id :: uuid
  tf_membership_id :: uuid
  tf_role_id :: "string \<Rightarrow> uuid"
  tf_audit_id :: uuid
  tf_task_id :: uuid

definition application_request :: "tenant_service \<Rightarrow> CreateTenantApplicationCommand \<Rightarrow> NormalizedTenantName \<Rightarrow> IdempotencyRequest" where
  "application_request svc c name =
     \<lparr>req_key = cta_idempotency_key c, req_method = ''POST'', req_canonical_route = ''/api/v1/tenants'',
      req_body = \<lparr>payload_values = [(''name'', JStr (ts_payload_text svc (display_value name))),
          (''tenant_type'', JStr (TenantType_value (cta_tenant_type c)))],
        payload_business_paths = [[''name''], [''tenant_type'']], payload_secret_paths = []\<rparr>\<rparr>"

definition applied_tenant :: "tenant_fresh \<Rightarrow> CreateTenantApplicationCommand \<Rightarrow> NormalizedTenantName \<Rightarrow> Tenant" where
  "applied_tenant fr c name =
     \<lparr>tenant_id = tf_tenant_id fr, tenant_name = display_value name, tenant_normalized_name = normalized_value name,
      tenant_tenant_type = TenantType_value (cta_tenant_type c), tenant_status = TenantStatus_PENDING_VERIFICATION,
      tenant_version = 1, tenant_created_by_user_id = cta_actor_user_id c, tenant_review_status = ''pending''\<rparr>"

definition founding_membership :: "tenant_fresh \<Rightarrow> CreateTenantApplicationCommand \<Rightarrow> datetime \<Rightarrow> Membership" where
  "founding_membership fr c now =
     \<lparr>mem_id = tf_membership_id fr, mem_tenant_id = tf_tenant_id fr, mem_user_id = cta_actor_user_id c,
      mem_department_id = None, mem_member_type = MemberType_OWNER, mem_status = MembershipStatus_ACTIVE,
      mem_valid_from = now, mem_valid_until = None, mem_authz_version = 1, mem_version = 1\<rparr>"

definition reload_application_result :: "uuid \<Rightarrow> IdempotencyResultReference \<Rightarrow> tenant_db \<Rightarrow> TenantApplicationResult result" where
  "reload_application_result user ref db =
     (if ref_result_type ref \<noteq> ''tenant'' then Inl (IdempotentResultUnavailable ''idempotent result type does not match'')
      else bindE (get_application_for_creator user (ref_result_id ref) db) (\<lambda>found.
      case found of
        None \<Rightarrow> Inl (IdempotentResultUnavailable ''idempotent tenant result is unavailable'')
      | Some t \<Rightarrow> bindE (get_owner_for_application (tenant_id t) user db) (\<lambda>owner.
          case owner of
            None \<Rightarrow> Inl (IdempotentResultUnavailable ''idempotent membership result is unavailable'')
          | Some m \<Rightarrow> Inr \<lparr>tar_tenant = t, tar_owner_membership = m, tar_replayed = True\<rparr>)))"

definition found_tenant :: "tenant_fresh \<Rightarrow> CreateTenantApplicationCommand \<Rightarrow> NormalizedTenantName \<Rightarrow> IdempotencyReservation
    \<Rightarrow> int \<Rightarrow> datetime \<Rightarrow> tenant_db \<Rightarrow> (TenantApplicationResult \<times> tenant_db) result" where
  "found_tenant fr c name rsv created now db =
     (let t = applied_tenant fr c name; owner = founding_membership fr c now in
      bindE (Tenant_post_init t) (\<lambda>_.
      bindE (add_application t db) (\<lambda>db1.
      bindE (clone_templates_for_tenant (tenant_id t) (tf_role_id fr) db1) (\<lambda>(roles, db2).
      case roles ''tenant_owner'' of
        None \<Rightarrow> Inl RoleTemplateUnavailable
      | Some owner_role \<Rightarrow>
      bindE (Membership_post_init owner) (\<lambda>_.
      bindE (add_owner_for_application created owner db2) (\<lambda>db3.
      bindE (assign_owner (tenant_id t) (mem_id owner) owner_role now db3) (\<lambda>db4.
      bindE (tenant_audit_event (tf_audit_id fr) (cta_audit_context c) (Some (cta_actor_user_id c))
          (Some (tenant_id t)) (Some (mem_id owner)) ''tenant.application.create'' ''pending_verification''
          (Some ''tenant'') (Some (tenant_id t)) now) (\<lambda>e.
      bindE (append_structured e db4) (\<lambda>db5.
      bindE (complete_in rsv ''tenant'' (tenant_id t) None None now db5) (\<lambda>db6.
        Inr (\<lparr>tar_tenant = t, tar_owner_membership = owner, tar_replayed = False\<rparr>, db6)))))))))))"

definition create_application_body :: "tenant_service \<Rightarrow> tenant_fresh \<Rightarrow> CreateTenantApplicationCommand
    \<Rightarrow> NormalizedTenantName \<Rightarrow> int \<Rightarrow> datetime \<Rightarrow> tenant_db \<Rightarrow> (TenantApplicationResult \<times> tenant_db) result" where
  "create_application_body svc fr c name created now db =
     bindE (lock_active_user (cta_actor_user_id c) db) (\<lambda>active.
     if \<not> active then Inl TenantApplicantUnavailable else
     (let scope = \<lparr>scope_type = ScopeType_USER, scope_id = cta_actor_user_id c, scope_tenant_id = None\<rparr> in
      bindE (IdempotencyScope_post_init scope) (\<lambda>_.
      bindE (reserve_in svc scope ''tenant.create'' (application_request svc c name) now (tf_record_id fr) db) (\<lambda>(rsv, db1).
      case rsv_replay rsv of
        Some ref \<Rightarrow> bindE (reload_application_result (cta_actor_user_id c) ref db1) (\<lambda>r. Inr (r, db1))
      | None \<Rightarrow> found_tenant fr c name rsv created now db1))))"

definition create_application :: "tenant_service \<Rightarrow> tenant_fresh \<Rightarrow> CreateTenantApplicationCommand \<Rightarrow> int \<Rightarrow> datetime
    \<Rightarrow> tenant_db \<Rightarrow> TenantApplicationResult result \<times> tenant_db" where
  "create_application svc fr c created clock db =
     (case bindE (CreateTenantApplicationCommand_post_init c) (\<lambda>_.
           bindE (normalize_tenant_name (ts_nfkc svc) (ts_casefold svc) (cta_name c)) (\<lambda>name.
           bindE (tenant_now clock) (\<lambda>now. Inr (name, now)))) of
        Inl e \<Rightarrow> (Inl e, db)
      | Inr (name, now) \<Rightarrow> transaction (create_application_body svc fr c name created now) db)"

subsection \<open>Reading and renaming\<close>

definition get_tenant :: "TenantActor \<Rightarrow> (nat \<Rightarrow> datetime) \<Rightarrow> tenant_db \<Rightarrow> Tenant result" where
  "get_tenant actor clock db =
     bindE (require_snapshot actor [] (clock 0) db) (\<lambda>snap.
     bindE (authorize_tenant actor snap TENANT_READ (clock 1)) (\<lambda>_. Inr (tas_tenant snap)))"

definition tenant_route :: "TenantActor \<Rightarrow> string" where
  "tenant_route actor = ''/api/v1/tenants/'' @ uuid_str (ctx_tenant_id (act_context actor))"

definition rename_request :: "tenant_service \<Rightarrow> TenantActor \<Rightarrow> UpdateTenantCommand \<Rightarrow> NormalizedTenantName \<Rightarrow> IdempotencyRequest" where
  "rename_request svc actor c name =
     \<lparr>req_key = utc_idempotency_key c, req_method = ''PATCH'', req_canonical_route = tenant_route actor,
      req_body = \<lparr>payload_values = [(''name'', JStr (ts_payload_text svc (display_value name))),
          (''if_match'', JInt (utc_expected_version c))],
        payload_business_paths = [[''name''], [''if_match'']], payload_secret_paths = []\<rparr>\<rparr>"

definition store_name :: "tenant_fresh \<Rightarrow> TenantActor \<Rightarrow> UpdateTenantCommand \<Rightarrow> NormalizedTenantName
    \<Rightarrow> TenantAuthorizationSnapshot \<Rightarrow> datetime \<Rightarrow> tenant_db \<Rightarrow> (Tenant \<times> tenant_db) result" where
  "store_name fr actor c name locked now db =
     bindE (update_name (tas_context locked) (display_value name) (normalized_value name)
         (utc_expected_version c) now db) (\<lambda>(stored, db1).
     case stored of
       None \<Rightarrow> Inl VersionConflict
     | Some t \<Rightarrow>
         bindE (tenant_audit_event (tf_audit_id fr) (utc_audit_context c) (Some (pr_user_id (act_principal actor)))
             (Some (tenant_id t)) (Some (mem_id (tas_actor_membership locked))) ''tenant.update''
             ''tenant_updated'' (Some ''tenant'') (Some (tenant_id t)) now) (\<lambda>e.
         bindE (append_structured e db1) (\<lambda>db2. Inr (t, db2))))"

definition name_changes :: "Tenant \<Rightarrow> NormalizedTenantName \<Rightarrow> bool" where
  "name_changes current name \<longleftrightarrow>
     tenant_name current \<noteq> display_value name \<or> tenant_normalized_name current \<noteq> normalized_value name"

definition rename_tenant :: "tenant_fresh \<Rightarrow> TenantActor \<Rightarrow> UpdateTenantCommand \<Rightarrow> NormalizedTenantName
    \<Rightarrow> IdempotencyReservation \<Rightarrow> TenantAuthorizationSnapshot \<Rightarrow> datetime \<Rightarrow> tenant_db
    \<Rightarrow> (TenantMutationResult \<times> tenant_db) result" where
  "rename_tenant fr actor c name rsv locked now db =
     (let current = tas_tenant locked; changed = name_changes current name in
      if tenant_version current \<noteq> utc_expected_version c then Inl VersionConflict else
      bindE (if \<not> changed then Inr (current, db) else store_name fr actor c name locked now db) (\<lambda>(updated, db3).
      bindE (complete_in rsv ''tenant'' (tenant_id updated) (Some (if changed then CHANGED else NO_CHANGE)) None now db3) (\<lambda>db4.
        Inr (\<lparr>tmr_tenant = updated, tmr_replayed = False, tmr_changed = changed\<rparr>, db4))))"

definition update_tenant_body :: "tenant_service \<Rightarrow> tenant_fresh \<Rightarrow> TenantActor \<Rightarrow> UpdateTenantCommand \<Rightarrow> NormalizedTenantName
    \<Rightarrow> (nat \<Rightarrow> datetime) \<Rightarrow> datetime \<Rightarrow> tenant_db \<Rightarrow> (TenantMutationResult \<times> tenant_db) result" where
  "update_tenant_body svc fr actor c name clock now db =
     bindE (require_snapshot actor [] (clock 1) db) (\<lambda>initial.
     bindE (authorize_tenant actor initial TENANT_UPDATE (clock 2)) (\<lambda>_.
     bindE (acquire_write actor [] db) (\<lambda>_.
     bindE (require_snapshot actor [] (clock 3) db) (\<lambda>locked.
     bindE (authorize_tenant actor locked TENANT_UPDATE (clock 4)) (\<lambda>_.
     bindE (membership_scope actor) (\<lambda>scope.
     bindE (reserve_in svc scope ''tenant.update'' (rename_request svc actor c name) now (tf_record_id fr) db) (\<lambda>(rsv, db1).
     case rsv_replay rsv of
       Some ref \<Rightarrow>
         (if ref_result_type ref \<noteq> ''tenant'' \<or> ref_result_id ref \<noteq> ctx_tenant_id (act_context actor)
          then Inl (IdempotentResultUnavailable ''tenant update replay is invalid'')
          else Inr (\<lparr>tmr_tenant = tas_tenant locked, tmr_replayed = True,
                     tmr_changed = (ref_mutation_effect ref \<noteq> Some NO_CHANGE)\<rparr>, db1))
     | None \<Rightarrow> rename_tenant fr actor c name rsv locked now db1)))))))"

definition update_tenant :: "tenant_service \<Rightarrow> tenant_fresh \<Rightarrow> TenantActor \<Rightarrow> UpdateTenantCommand \<Rightarrow> (nat \<Rightarrow> datetime)
    \<Rightarrow> tenant_db \<Rightarrow> TenantMutationResult result \<times> tenant_db" where
  "update_tenant svc fr actor c clock db =
     (case bindE (UpdateTenantCommand_post_init c) (\<lambda>_.
           bindE (normalize_tenant_name (ts_nfkc svc) (ts_casefold svc) (utc_name c)) (\<lambda>name.
           bindE (tenant_now (clock 0)) (\<lambda>now. Inr (name, now)))) of
        Inl e \<Rightarrow> (Inl e, db)
      | Inr (name, now) \<Rightarrow> transaction (update_tenant_body svc fr actor c name clock now) db)"

end
