(* ===== verification/TenantMembers.thy ===== *)
theory TenantMembers
  imports TenantService
begin

text \<open>
  \<open>update_member\<close> and \<open>revoke_member\<close> of \<open>application/tenancy.py\<close>: both run \<open>_mutate_member\<close>, which loads
  and authorizes a snapshot, takes the write lock, loads and authorizes again, reserves the idempotency
  key, checks the change against the role hierarchy, writes it, ends the sessions of the membership and
  leaves a cache invalidation task.  After the commit it invalidates the cache and completes the task in a
  transaction of its own; other transactions may lie between (\<open>meanwhile\<close>).
\<close>

subsection \<open>The change asked for\<close>

record member_change =
  mch_membership_id :: uuid
  mch_expected_version :: int
  mch_idempotency_key :: string
  mch_audit_context :: AuditContext
  mch_status :: "MembershipStatus option"
  mch_role_ids :: "uuid list option"
  mch_change_department :: bool
  mch_department_id :: "uuid option"
  mch_operation :: string
  mch_method :: string
  mch_action :: Action
  mch_revocation_reason :: string

definition update_change :: "UpdateMemberCommand \<Rightarrow> member_change" where
  "update_change c =
     \<lparr>mch_membership_id = umc_membership_id c, mch_expected_version = umc_expected_version c,
      mch_idempotency_key = umc_idempotency_key c, mch_audit_context = umc_audit_context c,
      mch_status = umc_status c, mch_role_ids = umc_role_ids c,
      mch_change_department = umc_change_department c, mch_department_id = umc_department_id c,
      mch_operation = ''membership.update'', mch_method = ''PATCH'', mch_action = MEMBERSHIP_UPDATE,
      mch_revocation_reason = ''authorization_changed''\<rparr>"

definition revoke_change :: "RevokeMemberCommand \<Rightarrow> member_change" where
  "revoke_change c =
     \<lparr>mch_membership_id = rmc_membership_id c, mch_expected_version = rmc_expected_version c,
      mch_idempotency_key = rmc_idempotency_key c, mch_audit_context = rmc_audit_context c,
      mch_status = Some MembershipStatus_REVOKED, mch_role_ids = None,
      mch_change_department = False, mch_department_id = None,
      mch_operation = ''membership.revoke'', mch_method = ''DELETE'', mch_action = MEMBERSHIP_REVOKE,
      mch_revocation_reason = ''membership_revoked''\<rparr>"

fun MembershipStatus_value :: "MembershipStatus \<Rightarrow> string" where
  "MembershipStatus_value MembershipStatus_INVITED = ''invited''"
| "MembershipStatus_value MembershipStatus_ACTIVE = ''active''"
| "MembershipStatus_value MembershipStatus_SUSPENDED = ''suspended''"
| "MembershipStatus_value MembershipStatus_REVOKED = ''revoked''"

definition desired_role_ids :: "member_change \<Rightarrow> uuid list option" where
  "desired_role_ids ch = map_option (sort_key uuid_str) (mch_role_ids ch)"

definition member_request :: "TenantActor \<Rightarrow> member_change \<Rightarrow> IdempotencyRequest" where
  "member_request actor ch =
     \<lparr>req_key = mch_idempotency_key ch, req_method = mch_method ch,
      req_canonical_route = tenant_route actor @ ''/members/'' @ uuid_str (mch_membership_id ch),
      req_body = \<lparr>payload_values =
         [(''status'', case mch_status ch of None \<Rightarrow> JNull | Some s \<Rightarrow> JStr (MembershipStatus_value s)),
          (''role_ids'', case desired_role_ids ch of None \<Rightarrow> JNull | Some rs \<Rightarrow> JList (map (JStr \<circ> uuid_str) rs)),
          (''change_department'', JBool (mch_change_department ch)),
          (''department_id'', case mch_department_id ch of None \<Rightarrow> JNull | Some d \<Rightarrow> JStr (uuid_str d)),
          (''if_match'', JInt (mch_expected_version ch))],
        payload_business_paths = [[''status''], [''role_ids''], [''change_department''], [''department_id''], [''if_match'']],
        payload_secret_paths = []\<rparr>\<rparr>"

subsection \<open>Authorization and plan\<close>

definition authorize_change :: "TenantActor \<Rightarrow> TenantAuthorizationSnapshot \<Rightarrow> member_change \<Rightarrow> Membership
    \<Rightarrow> datetime \<Rightarrow> datetime \<Rightarrow> unit result" where
  "authorize_change actor snap ch target clock clock' =
     bindE (authorize_member actor snap (mch_action ch) target clock) (\<lambda>_.
     if mch_role_ids ch = None then Inr () else authorize_member actor snap ROLE_ASSIGN target clock')"

definition targeted_snapshot :: "TenantActor \<Rightarrow> member_change \<Rightarrow> (nat \<Rightarrow> datetime) \<Rightarrow> tenant_db
    \<Rightarrow> (TenantAuthorizationSnapshot \<times> Membership) result" where
  "targeted_snapshot actor ch clock db =
     bindE (require_snapshot actor [mch_membership_id ch] (clock 0) db) (\<lambda>snap.
     case tas_target_memberships snap (mch_membership_id ch) of
       None \<Rightarrow> Inl TenantResourceNotFound
     | Some target \<Rightarrow>
         bindE (authorize_change actor snap ch target (clock 1) (clock 2)) (\<lambda>_. Inr (snap, target)))"

record member_plan =
  mpl_status :: MembershipStatus
  mpl_department_id :: "uuid option"
  mpl_roles :: "uuid list"
  mpl_current_roles :: "uuid list"

definition plan_changes :: "Membership \<Rightarrow> member_plan \<Rightarrow> bool" where
  "plan_changes current pl \<longleftrightarrow> mpl_status pl \<noteq> mem_status current \<or> mpl_department_id pl \<noteq> mem_department_id current
     \<or> mpl_roles pl \<noteq> mpl_current_roles pl"

definition keeps_an_owner :: "bool \<Rightarrow> TenantContext \<Rightarrow> tenant_db \<Rightarrow> unit result" where
  "keeps_an_owner removes c db =
     (if \<not> removes then Inr ()
      else bindE (count_active_owners_locked c db) (\<lambda>n.
        if n \<le> 1 then Inl (MembershipMutationDenied ''cannot remove the last active owner'') else Inr ()))"

definition known_department :: "TenantContext \<Rightarrow> member_change \<Rightarrow> tenant_db \<Rightarrow> unit result" where
  "known_department c ch db =
     (case (mch_change_department ch, mch_department_id ch) of
        (True, Some d) \<Rightarrow> bindE (department_exists c d db) (\<lambda>ok. if ok then Inr () else Inl TenantResourceNotFound)
      | _ \<Rightarrow> Inr ())"

definition plan_member_change :: "member_change \<Rightarrow> TenantAuthorizationSnapshot \<Rightarrow> Membership \<Rightarrow> tenant_db
    \<Rightarrow> member_plan result" where
  "plan_member_change ch locked current db =
     (let c = tas_context locked in
      if mem_version current \<noteq> mch_expected_version ch then Inl VersionConflict else
      bindE (role_ids c (mch_membership_id ch) db) (\<lambda>current_roles.
      let roles = (case desired_role_ids ch of None \<Rightarrow> current_roles | Some rs \<Rightarrow> rs);
          status = (case mch_status ch of None \<Rightarrow> mem_status current | Some s \<Rightarrow> s);
          department = (if mch_change_department ch then mch_department_id ch else mem_department_id current) in
      bindE (role_codes_for_ids c current_roles db) (\<lambda>current_map.
      bindE (role_codes_for_ids c roles db) (\<lambda>requested_map.
      case (current_map, requested_map) of
        (Some current_codes, Some codes) \<Rightarrow>
          bindE (known_department c ch db) (\<lambda>_.
          bindE (validate_membership_mutation (tas_actor_membership locked) (tas_role_codes locked) c current
                   (snd ` set current_codes) status department (snd ` set codes) (mch_action ch)) (\<lambda>removes.
          bindE (keeps_an_owner removes c db) (\<lambda>_.
            Inr \<lparr>mpl_status = status, mpl_department_id = department, mpl_roles = roles,
                 mpl_current_roles = current_roles\<rparr>)))
      | _ \<Rightarrow> Inl TenantResourceNotFound))))"

subsection \<open>The transaction\<close>

definition write_member_change :: "TenantActor \<Rightarrow> member_change \<Rightarrow> TenantAuthorizationSnapshot \<Rightarrow> Membership
    \<Rightarrow> member_plan \<Rightarrow> datetime \<Rightarrow> tenant_db \<Rightarrow> (Membership \<times> tenant_db) result" where
  "write_member_change actor ch locked current pl now db =
     bindE (update_locked (tas_context locked) current (mpl_status pl) (mpl_department_id pl)
         (mch_expected_version ch) now db) (\<lambda>(stored, db1).
     case stored of
       None \<Rightarrow> Inl VersionConflict
     | Some m \<Rightarrow>
         bindE (if mpl_roles pl \<noteq> mpl_current_roles pl
                then replace_roles (tas_context locked) (mch_membership_id ch) (mpl_roles pl)
                       (mem_id (tas_actor_membership locked)) now db1
                else Inr db1) (\<lambda>db2.
         bindE (revoke_membership_sessions (ctx_tenant_id (act_context actor)) (mch_membership_id ch)
             (mch_revocation_reason ch) now db2) (\<lambda>db3. Inr (m, db3))))"

definition leave_cache_task :: "tenant_fresh \<Rightarrow> TenantActor \<Rightarrow> member_change \<Rightarrow> Membership \<Rightarrow> IdempotencyReservation
    \<Rightarrow> datetime \<Rightarrow> tenant_db \<Rightarrow> tenant_db result" where
  "leave_cache_task fr actor ch current rsv now db =
     (let n = \<lparr>nci_id = tf_task_id fr, nci_tenant_id = ctx_tenant_id (act_context actor),
               nci_membership_id = mch_membership_id ch, nci_authz_version = mem_authz_version current,
               nci_idempotency_record_id = rsv_record_id rsv, nci_available_at = now\<rparr> in
      bindE (NewCacheInvalidation_post_init n) (\<lambda>_. add_cache_task n db))"

text \<open>The result, and the cache task when something changed.\<close>

type_synonym mutation_answer = "MemberMutationResult \<times> uuid option"

definition commit_member_change :: "tenant_fresh \<Rightarrow> TenantActor \<Rightarrow> member_change \<Rightarrow> TenantAuthorizationSnapshot
    \<Rightarrow> Membership \<Rightarrow> member_plan \<Rightarrow> IdempotencyReservation \<Rightarrow> datetime \<Rightarrow> tenant_db
    \<Rightarrow> (mutation_answer \<times> tenant_db) result" where
  "commit_member_change fr actor ch locked current pl rsv now db =
     (let changed = plan_changes current pl in
      bindE (if changed then write_member_change actor ch locked current pl now db else Inr (current, db)) (\<lambda>(updated, db1).
      bindE (tenant_audit_event (tf_audit_id fr) (mch_audit_context ch) (Some (pr_user_id (act_principal actor)))
          (Some (ctx_tenant_id (act_context actor))) (Some (mem_id (tas_actor_membership locked))) (mch_operation ch)
          (if changed then ''changed'' else ''no_change'') (Some ''membership'') (Some (mch_membership_id ch)) now) (\<lambda>e.
      bindE (append_structured e db1) (\<lambda>db2.
      bindE (complete_in rsv ''membership'' (mch_membership_id ch) (Some (if changed then CHANGED else NO_CHANGE))
          (if changed then Some (mem_authz_version current) else None) now db2) (\<lambda>db3.
      bindE (if changed then leave_cache_task fr actor ch current rsv now db3 else Inr db3) (\<lambda>db4.
        Inr ((\<lparr>mmr_membership = updated, mmr_role_ids = mpl_roles pl, mmr_replayed = False\<rparr>,
              if changed then Some (tf_task_id fr) else None), db4)))))))"

definition replay_member_change :: "member_change \<Rightarrow> IdempotencyResultReference \<Rightarrow> TenantAuthorizationSnapshot
    \<Rightarrow> Membership \<Rightarrow> tenant_db \<Rightarrow> MemberMutationResult result" where
  "replay_member_change ch ref locked current db =
     (if ref_result_type ref \<noteq> ''membership'' \<or> ref_result_id ref \<noteq> mch_membership_id ch
      then Inl (IdempotentResultUnavailable ''membership replay is invalid'')
      else bindE (role_ids (tas_context locked) (mch_membership_id ch) db) (\<lambda>roles.
        Inr \<lparr>mmr_membership = current, mmr_role_ids = roles, mmr_replayed = True\<rparr>))"

definition mutate_member_body :: "tenant_service \<Rightarrow> tenant_fresh \<Rightarrow> TenantActor \<Rightarrow> member_change \<Rightarrow> (nat \<Rightarrow> datetime)
    \<Rightarrow> datetime \<Rightarrow> tenant_db \<Rightarrow> (mutation_answer \<times> tenant_db) result" where
  "mutate_member_body svc fr actor ch clock now db =
     bindE (targeted_snapshot actor ch (\<lambda>i. clock (1 + i)) db) (\<lambda>_.
     bindE (acquire_write actor [mch_membership_id ch] db) (\<lambda>_.
     bindE (targeted_snapshot actor ch (\<lambda>i. clock (4 + i)) db) (\<lambda>(locked, current).
     bindE (membership_scope actor) (\<lambda>scope.
     bindE (reserve_in svc scope (mch_operation ch) (member_request actor ch) now (tf_record_id fr) db) (\<lambda>(rsv, db1).
     case rsv_replay rsv of
       Some ref \<Rightarrow> bindE (replay_member_change ch ref locked current db1) (\<lambda>r. Inr ((r, None), db1))
     | None \<Rightarrow>
         bindE (plan_member_change ch locked current db1) (\<lambda>pl.
           commit_member_change fr actor ch locked current pl rsv now db1))))))"

subsection \<open>The operations\<close>

text \<open>\<open>PostCommitCacheInvalidationError\<close> carries the committed result.\<close>

datatype member_outcome = Answered "MemberMutationResult result" | PostCommitCacheInvalidation MemberMutationResult

definition complete_immediately :: "uuid \<Rightarrow> datetime \<Rightarrow> tenant_db \<Rightarrow> (bool \<times> tenant_db) result" where
  "complete_immediately task clock db =
     bindE (tenant_now clock) (\<lambda>now.
     bindE (mark_immediate_completed task now (td_cache_outbox db)) (\<lambda>(done_now, rows).
       Inr (done_now, db\<lparr>td_cache_outbox := rows\<rparr>)))"

definition after_commit :: "bool \<Rightarrow> datetime \<Rightarrow> mutation_answer \<Rightarrow> (tenant_db \<Rightarrow> tenant_db) \<Rightarrow> tenant_db
    \<Rightarrow> member_outcome \<times> tenant_db" where
  "after_commit invalidated clock answer meanwhile db =
     (case answer of
        (r, None) \<Rightarrow> (Answered (Inr r), db)
      | (r, Some task) \<Rightarrow>
          if \<not> invalidated then (PostCommitCacheInvalidation r, db)
          else (case transaction (complete_immediately task clock) (meanwhile db) of
                  (Inl e, db') \<Rightarrow> (PostCommitCacheInvalidation r, db')
                | (Inr _, db') \<Rightarrow> (Answered (Inr r), db')))"

definition mutate_member :: "tenant_service \<Rightarrow> tenant_fresh \<Rightarrow> TenantActor \<Rightarrow> member_change \<Rightarrow> (nat \<Rightarrow> datetime)
    \<Rightarrow> bool \<Rightarrow> (tenant_db \<Rightarrow> tenant_db) \<Rightarrow> tenant_db \<Rightarrow> member_outcome \<times> tenant_db" where
  "mutate_member svc fr actor ch clock invalidated meanwhile db =
     (case tenant_now (clock 0) of
        Inl e \<Rightarrow> (Answered (Inl e), db)
      | Inr now \<Rightarrow>
         (case transaction (mutate_member_body svc fr actor ch clock now) db of
            (Inl e, db') \<Rightarrow> (Answered (Inl e), db')
          | (Inr answer, db') \<Rightarrow> after_commit invalidated (clock 7) answer meanwhile db'))"

definition update_member :: "tenant_service \<Rightarrow> tenant_fresh \<Rightarrow> TenantActor \<Rightarrow> UpdateMemberCommand \<Rightarrow> (nat \<Rightarrow> datetime)
    \<Rightarrow> bool \<Rightarrow> (tenant_db \<Rightarrow> tenant_db) \<Rightarrow> tenant_db \<Rightarrow> member_outcome \<times> tenant_db" where
  "update_member svc fr actor c clock invalidated meanwhile db =
     (case UpdateMemberCommand_post_init c of
        Inl e \<Rightarrow> (Answered (Inl e), db)
      | Inr _ \<Rightarrow> mutate_member svc fr actor (update_change c) clock invalidated meanwhile db)"

definition revoke_member :: "tenant_service \<Rightarrow> tenant_fresh \<Rightarrow> TenantActor \<Rightarrow> RevokeMemberCommand \<Rightarrow> (nat \<Rightarrow> datetime)
    \<Rightarrow> bool \<Rightarrow> (tenant_db \<Rightarrow> tenant_db) \<Rightarrow> tenant_db \<Rightarrow> member_outcome \<times> tenant_db" where
  "revoke_member svc fr actor c clock invalidated meanwhile db =
     (case RevokeMemberCommand_post_init c of
        Inl e \<Rightarrow> (Answered (Inl e), db)
      | Inr _ \<Rightarrow> mutate_member svc fr actor (revoke_change c) clock invalidated meanwhile db)"

end
