(* ===== verification/TenantInvariant.thy ===== *)
theory TenantInvariant
  imports TenantMembers SessionSafety
begin

text \<open>
  What each statement and each operation of the tenant workflows does to the shared tables, and the
  invariant of the tenant tables: unique keys, and an active owner for every tenant.
\<close>

named_theorems tenant_ops \<open>successful statements of the tenant workflows, as equations on the database\<close>

subsection \<open>Batches of inserts\<close>

text \<open>An insert that only appends its row, under a unique key.\<close>

locale keyed_insert =
  fixes ins :: "'r \<Rightarrow> 'd \<Rightarrow> 'd result" and get :: "'d \<Rightarrow> 'r list" and put :: "'r list \<Rightarrow> 'd \<Rightarrow> 'd" and key :: "'r \<Rightarrow> 'k"
  assumes ins_Inr: "ins r d = Inr d' \<Longrightarrow> d' = put (get d @ [r]) d \<and> key r \<notin> key ` set (get d)"
    and get_put: "get (put rows d) = rows"
    and put_put: "put rows (put rows' d) = put rows d"
    and put_get: "put (get d) d = d"
begin

lemma insert_all_Inr: "insert_all ins rs d = Inr d' \<Longrightarrow> d' = put (get d @ rs) d"
proof (induction rs arbitrary: d)
  case Nil
  then show ?case by (simp add: put_get)
next
  case (Cons r rs)
  then obtain d1 where 1: "ins r d = Inr d1" "insert_all ins rs d1 = Inr d'" by (auto simp: bindE_eq_Inr)
  show ?case using Cons.IH [OF 1(2)] ins_Inr [OF 1(1)] by (simp add: get_put put_put)
qed

lemma insert_all_distinct:
  "insert_all ins rs d = Inr d' \<Longrightarrow> distinct (map key (get d)) \<Longrightarrow> distinct (map key (get d'))"
proof (induction rs arbitrary: d)
  case (Cons r rs)
  then obtain d1 where 1: "ins r d = Inr d1" "insert_all ins rs d1 = Inr d'" by (auto simp: bindE_eq_Inr)
  have "distinct (map key (get d1))" using ins_Inr [OF 1(1)] Cons.prems(2) by (simp add: get_put)
  then show ?case by (rule Cons.IH [OF 1(2)])
qed simp

end

lemma insert_assignment_Inr:
  "insert_assignment assigned_by a db = Inr db' \<Longrightarrow>
     db' = db\<lparr>td_assignments := td_assignments db @ [a]\<rparr> \<and> a \<notin> set (td_assignments db)
     \<and> role_exists (asg_tenant_id a) (asg_role_id a) db"
  by (auto simp: insert_assignment_def bindE_eq_Inr sql_insert_Inr)

lemma insert_role_Inr:
  "insert_role r db = Inr db' \<Longrightarrow> db' = db\<lparr>td_roles := td_roles db @ [r]\<rparr> \<and> rol_id r \<notin> rol_id ` set (td_roles db)
     \<and> (rol_tenant_id r, rol_code r) \<notin> (\<lambda>r. (rol_tenant_id r, rol_code r)) ` set (td_roles db)"
  by (auto simp: insert_role_def bindE_eq_Inr sql_insert_Inr role_conflict_def)

lemma insert_role_permission_Inr:
  "insert_role_permission r db = Inr db' \<Longrightarrow> db' = db\<lparr>td_role_permissions := td_role_permissions db @ [r]\<rparr>
     \<and> r \<notin> set (td_role_permissions db)"
  by (auto simp: insert_role_permission_def bindE_eq_Inr sql_insert_Inr)

interpretation assignments: keyed_insert "insert_assignment assigned_by" td_assignments "\<lambda>rows. td_assignments_update (\<lambda>_. rows)" id
  for assigned_by
  by unfold_locales (auto dest: insert_assignment_Inr)

interpretation roles: keyed_insert insert_role td_roles "\<lambda>rows. td_roles_update (\<lambda>_. rows)" rol_id
  by unfold_locales (auto dest: insert_role_Inr)

interpretation role_codes: keyed_insert insert_role td_roles "\<lambda>rows. td_roles_update (\<lambda>_. rows)"
  "\<lambda>r. (rol_tenant_id r, rol_code r)"
  by unfold_locales (auto dest: insert_role_Inr)

interpretation role_permissions: keyed_insert insert_role_permission td_role_permissions
  "\<lambda>rows. td_role_permissions_update (\<lambda>_. rows)" id
  by unfold_locales (auto dest: insert_role_permission_Inr)

subsection \<open>Statements\<close>

lemma insert_tenant_Inr [tenant_ops]:
  "insert_tenant t db = Inr db' \<longleftrightarrow> tnm_created_by_user_id t \<in> usr_id ` set (td_users db) \<and> tenant_check t
     \<and> ten_id t \<notin> ten_id ` set (td_tenants db) \<and> db' = db\<lparr>td_tenants := td_tenants db @ [t]\<rparr>"
  by (auto simp: insert_tenant_def bindE_eq_Inr sql_insert_Inr)

lemma insert_member_Inr:
  "insert_member m db = Inr db' \<Longrightarrow> db' = db\<lparr>td_memberships := td_memberships db @ [m]\<rparr>
     \<and> mbr_id m \<notin> mbr_id ` set (td_memberships db)
     \<and> (mbr_tenant_id m, mbr_user_id m) \<notin> (\<lambda>m. (mbr_tenant_id m, mbr_user_id m)) ` set (td_memberships db)"
  by (auto simp: insert_member_def bindE_eq_Inr sql_insert_Inr member_conflict_def)

lemma append_structured_Inr: "append_structured e db = Inr db' \<Longrightarrow> \<exists>rows. db' = db\<lparr>td_audit := rows\<rparr>"
  by (auto simp: append_structured_def bindE_eq_Inr)

lemma reserve_in_Inr: "reserve_in svc scope operation request now fresh db = Inr (rsv, db') \<Longrightarrow>
    \<exists>rows. db' = db\<lparr>td_idempotency := rows\<rparr>"
  by (auto simp: reserve_in_def bindE_eq_Inr)

lemma complete_in_Inr: "complete_in rsv kind i effect version now db = Inr db' \<Longrightarrow> \<exists>rows. db' = db\<lparr>td_idempotency := rows\<rparr>"
  by (auto simp: complete_in_def bindE_eq_Inr)

lemma leave_cache_task_Inr:
  "leave_cache_task fr actor ch current rsv now db = Inr db' \<Longrightarrow> \<exists>rows. db' = db\<lparr>td_cache_outbox := rows\<rparr>"
  by (auto simp: leave_cache_task_def add_cache_task_def insert_cache_task_def Let_def bindE_eq_Inr)

lemma complete_immediately_Inr: "complete_immediately task clock db = Inr (b, db') \<Longrightarrow> \<exists>rows. db' = db\<lparr>td_cache_outbox := rows\<rparr>"
  by (auto simp: complete_immediately_def bindE_eq_Inr)

definition renamed :: "uuid \<Rightarrow> ustring \<Rightarrow> ustring \<Rightarrow> int \<Rightarrow> rename_query" where
  "renamed tenant name normalized expected =
     \<lparr>ren_tenant_id = tenant, ren_name = name, ren_normalized_name = normalized, ren_expected_version = expected\<rparr>"

lemma update_name_Inr:
  assumes "update_name c name normalized expected now db = Inr (t, db')"
  shows "\<exists>f. (\<forall>r. ten_id (f r) = ten_id r \<and> ten_status (f r) = ten_status r)
    \<and> db' = db\<lparr>td_tenants := map f (td_tenants db)\<rparr>"
proof -
  let ?q = "renamed (ctx_tenant_id c) name normalized expected"
  let ?f = "\<lambda>r. if rename_where ?q r then rename_values ?q r else r"
  have "db' = db\<lparr>td_tenants := map ?f (td_tenants db)\<rparr>"
    using assms by (auto simp: update_name_def renamed_def Let_def bindE_eq_Inr sql_update_Inr split: if_split_asm)
  then show ?thesis by (intro exI [of _ ?f]) (simp add: rename_values_def)
qed

definition moved :: "uuid \<Rightarrow> uuid \<Rightarrow> MembershipStatus \<Rightarrow> uuid option \<Rightarrow> int \<Rightarrow> member_row \<Rightarrow> member_row" where
  "moved tenant membership status department expected r =
     (let q = \<lparr>muq_tenant_id = tenant, muq_membership_id = membership, muq_status = status,
               muq_department_id = department, muq_expected_version = expected\<rparr>
      in if member_where q r then member_values q r else r)"

lemma update_locked_Inr:
  assumes "update_locked c current status department expected now db = Inr (stored, db')"
  shows "db' = db\<lparr>td_memberships := map (moved (ctx_tenant_id c) (mem_id current) status department expected) (td_memberships db)\<rparr>"
    "stored = Some m \<Longrightarrow> \<exists>r. find_in_tenant (ctx_tenant_id c) (mem_id current) db' = Some r \<and> member_of_row r = Inr m"
    "mem_tenant_id current = ctx_tenant_id c"
    "is_utc now" "require_tenant_context c = Inr ()"
  using assms
  by (auto simp: update_locked_def Let_def bindE_eq_Inr sql_update_Inr moved_def optional_row_def naive_eq_Inr
      require_eq_Inr split: if_split_asm option.split_asm)

lemma replace_roles_Inr:
  assumes "replace_roles c membership ids assigned_by now db = Inr db'"
  shows "db' = db\<lparr>td_assignments :=
      filter (\<lambda>a. \<not> (asg_tenant_id a = ctx_tenant_id c \<and> asg_membership_id a = membership)) (td_assignments db)
      @ map (\<lambda>r. \<lparr>asg_tenant_id = ctx_tenant_id c, asg_membership_id = membership, asg_role_id = r\<rparr>) ids\<rparr>"
    and "distinct (td_assignments db) \<Longrightarrow> distinct (td_assignments db')"
proof -
  let ?db = "db\<lparr>td_assignments := filter (\<lambda>a. \<not> (asg_tenant_id a = ctx_tenant_id c \<and> asg_membership_id a = membership))
      (td_assignments db)\<rparr>"
  have ins: "insert_all (insert_assignment assigned_by)
      (map (\<lambda>r. \<lparr>asg_tenant_id = ctx_tenant_id c, asg_membership_id = membership, asg_role_id = r\<rparr>) ids) ?db = Inr db'"
    using assms by (auto simp: replace_roles_def bindE_eq_Inr)
  show "db' = db\<lparr>td_assignments :=
      filter (\<lambda>a. \<not> (asg_tenant_id a = ctx_tenant_id c \<and> asg_membership_id a = membership)) (td_assignments db)
      @ map (\<lambda>r. \<lparr>asg_tenant_id = ctx_tenant_id c, asg_membership_id = membership, asg_role_id = r\<rparr>) ids\<rparr>"
    using assignments.insert_all_Inr [OF ins] by simp
  show "distinct (td_assignments db) \<Longrightarrow> distinct (td_assignments db')"
    using assignments.insert_all_distinct [OF ins] by simp
qed

lemma revoke_membership_sessions_Inr:
  "revoke_membership_sessions tenant membership reason now db = Inr db' \<Longrightarrow>
     \<exists>s. revoke_for_membership tenant membership reason now (session_view db) = Inr s \<and> db' = put_session s db"
  by (auto simp: revoke_membership_sessions_def bindE_eq_Inr)

subsection \<open>Snapshots and plans\<close>

lemma bindE_InrE: "bindE m f = Inr b \<Longrightarrow> (\<And>a. m = Inr a \<Longrightarrow> f a = Inr b \<Longrightarrow> P) \<Longrightarrow> P"
  by (auto simp: bindE_eq_Inr)


lemma convert_all_Inr: "convert_all f xs = Inr ys \<longleftrightarrow> list_all2 (\<lambda>x y. f x = Inr y) xs ys"
  by (induction xs arbitrary: ys) (auto simp: bindE_eq_Inr list_all2_Cons1)

lemma member_of_row_Inr:
  "member_of_row r = Inr m \<Longrightarrow> mem_id m = mbr_id r \<and> mem_tenant_id m = mbr_tenant_id r \<and> mem_user_id m = mbr_user_id r
     \<and> mem_department_id m = mbr_department_id r \<and> mem_member_type m = mbr_member_type r \<and> mem_status m = mbr_status r
     \<and> mem_authz_version m = mbr_authz_version r \<and> mem_version m = mbr_version r
     \<and> mem_valid_from m = aware (mbr_valid_from r) \<and> mem_valid_until m = aware_optional (mbr_valid_until r)"
  by (auto simp: member_of_row_def membership_of_row_def Let_def bindE_eq_Inr membership_row.truncate_def)

lemma convert_all_member:
  assumes "convert_all member_of_row rows = Inr ms" "row_of mem_id i ms = Some m"
  shows "\<exists>r\<in>set rows. member_of_row r = Inr m \<and> mbr_id r = i"
proof -
  have m: "m \<in> set ms" "mem_id m = i" using row_of_SomeD [OF assms(2)] by simp_all
  obtain n where n: "n < length ms" "ms ! n = m" using m(1) by (auto simp: in_set_conv_nth)
  have "rows ! n \<in> set rows" "member_of_row (rows ! n) = Inr m"
    using assms(1) n by (auto simp: convert_all_Inr list_all2_conv_all_nth)
  then show ?thesis using m(2) by (metis member_of_row_Inr)
qed

lemma load_snapshot_Inr:
  assumes "load_snapshot p c targets db = Inr (Some snap)"
  shows "\<exists>tenant r. tenant \<in> set (td_tenants db) \<and> ten_id tenant = ctx_tenant_id c \<and> tenant_of_row tenant = Inr (tas_tenant snap)
       \<and> r \<in> set (td_memberships db) \<and> mbr_tenant_id r = ctx_tenant_id c \<and> Some (mbr_id r) = ctx_membership_id c
       \<and> member_of_row r = Inr (tas_actor_membership snap) \<and> Some (mbr_user_id r) = ctx_membership_user_id c
       \<and> tas_context snap = authoritative_context c tenant (tas_actor_membership snap)"
    and "tas_target_memberships snap i = Some target \<Longrightarrow>
       \<exists>r\<in>set (td_memberships db). mbr_tenant_id r = ctx_tenant_id c \<and> mbr_id r = i \<and> member_of_row r = Inr target"
    and "tas_permissions snap = set (List.map_filter snd (member_role_rows (ctx_tenant_id c) (the (ctx_membership_id c)) db))"
    and "tas_role_codes snap = fst ` set (member_role_rows (ctx_tenant_id c) (the (ctx_membership_id c)) db)"
    and "\<exists>u\<in>set (td_users db). usr_id u = pr_user_id p \<and> tas_user_status snap = usr_status u
       \<and> tas_user_auth_version snap = usr_auth_version u"
    and "tas_actor_session snap = map_option session_state_of (row_of ses_id (pr_session_id p) (td_sessions db))"
proof -
  have req: "require_tenant_context c = Inr ()"
    using assms by (auto simp: load_snapshot_def bindE_eq_Inr)
  then obtain i0 where i0: "ctx_membership_id c = Some i0"
    by (auto simp: require_tenant_context_def require_eq_Inr is_uuid7_opt_def split: option.splits)
  let ?rows = "filter (\<lambda>m. mbr_tenant_id m = ctx_tenant_id c \<and> mbr_id m \<in> set (i0 # targets)) (td_memberships db)"
  have req2: "require (map (\<lambda>m. uuid_check m ''target membership_id'') targets) = Inr ()"
    using assms req by (simp add: load_snapshot_def bindE_eq_Inr)
  obtain user tenant where t: "row_of ten_id (ctx_tenant_id c) (td_tenants db) = Some tenant"
      "row_of usr_id (pr_user_id p) (td_users db) = Some user"
    using assms req req2
    by (cases "row_of ten_id (ctx_tenant_id c) (td_tenants db)"; cases "row_of usr_id (pr_user_id p) (td_users db)")
      (simp_all add: load_snapshot_def)
  obtain members where mm: "convert_all member_of_row ?rows = Inr members"
    using assms req req2 t i0 unfolding load_snapshot_def Let_def
    by (cases "convert_all member_of_row ?rows") simp_all
  obtain actor where ma: "row_of mem_id i0 members = Some actor"
    using assms req req2 t i0 mm unfolding load_snapshot_def Let_def
    by (cases "row_of mem_id i0 members") simp_all
  have mu: "Some (mem_user_id actor) = ctx_membership_user_id c"
    using assms req req2 t i0 mm ma unfolding load_snapshot_def Let_def by (simp split: if_split_asm)
  obtain t' where mt: "tenant_of_row tenant = Inr t'"
    using assms req req2 t i0 mm ma mu unfolding load_snapshot_def Let_def
    by (cases "tenant_of_row tenant") simp_all
  have s: "snap = \<lparr>tas_tenant = t', tas_actor_membership = actor,
          tas_context = authoritative_context c tenant actor,
          tas_user_status = usr_status user, tas_user_auth_version = usr_auth_version user,
          tas_permissions = set (List.map_filter snd (member_role_rows (ctx_tenant_id c) i0 db)),
          tas_role_codes = fst ` set (member_role_rows (ctx_tenant_id c) i0 db),
          tas_target_memberships = (\<lambda>i. if i \<in> set targets then row_of mem_id i members else None),
          tas_actor_session = map_option session_state_of (row_of ses_id (pr_session_id p) (td_sessions db))\<rparr>"
    using assms req req2 t i0 mm ma mu mt unfolding load_snapshot_def Let_def by simp
  note m = mm ma mu mt
  obtain r where r: "r \<in> set ?rows" "member_of_row r = Inr actor" "mbr_id r = i0"
    using convert_all_member [OF m(1,2)] by blast
  show "\<exists>tenant r. tenant \<in> set (td_tenants db) \<and> ten_id tenant = ctx_tenant_id c \<and> tenant_of_row tenant = Inr (tas_tenant snap)
       \<and> r \<in> set (td_memberships db) \<and> mbr_tenant_id r = ctx_tenant_id c \<and> Some (mbr_id r) = ctx_membership_id c
       \<and> member_of_row r = Inr (tas_actor_membership snap) \<and> Some (mbr_user_id r) = ctx_membership_user_id c
       \<and> tas_context snap = authoritative_context c tenant (tas_actor_membership snap)"
    by (intro exI [of _ tenant] exI [of _ r])
      (use r m(3,4) s i0 row_of_SomeD [OF t(1)] member_of_row_Inr [OF r(2)] in simp)
  show "tas_target_memberships snap i = Some target \<Longrightarrow>
       \<exists>r\<in>set (td_memberships db). mbr_tenant_id r = ctx_tenant_id c \<and> mbr_id r = i \<and> member_of_row r = Inr target"
    using s convert_all_member [OF m(1), of i target] by (auto split: if_split_asm)
  show "tas_permissions snap = set (List.map_filter snd (member_role_rows (ctx_tenant_id c) (the (ctx_membership_id c)) db))"
    "tas_role_codes snap = fst ` set (member_role_rows (ctx_tenant_id c) (the (ctx_membership_id c)) db)"
    using s i0 by simp_all
  show "\<exists>u\<in>set (td_users db). usr_id u = pr_user_id p \<and> tas_user_status snap = usr_status u
       \<and> tas_user_auth_version snap = usr_auth_version u"
    by (rule bexI [of _ user]) (use s row_of_SomeD [OF t(2)] in simp_all)
  show "tas_actor_session snap = map_option session_state_of (row_of ses_id (pr_session_id p) (td_sessions db))"
    using s by simp
qed

lemma require_snapshot_Inr:
  "require_snapshot actor targets clock db = Inr snap \<Longrightarrow>
     load_snapshot (act_principal actor) (act_context actor) targets db = Inr (Some snap)
     \<and> validate_authoritative_actor actor snap clock = Inr ()"
  by (auto simp: require_snapshot_def bindE_eq_Inr split: option.split_asm)

lemma targeted_snapshot_Inr:
  assumes "targeted_snapshot actor ch clock db = Inr (snap, target)"
  shows "require_snapshot actor [mch_membership_id ch] (clock 0) db = Inr snap"
    "authorize_change actor snap ch target (clock 1) (clock 2) = Inr ()"
    "\<exists>r\<in>set (td_memberships db). mbr_tenant_id r = ctx_tenant_id (act_context actor) \<and> mbr_id r = mch_membership_id ch
       \<and> member_of_row r = Inr target"
    "ctx_tenant_id (tas_context snap) = ctx_tenant_id (act_context actor)"
proof -
  have s: "require_snapshot actor [mch_membership_id ch] (clock 0) db = Inr snap"
      "tas_target_memberships snap (mch_membership_id ch) = Some target"
      "authorize_change actor snap ch target (clock 1) (clock 2) = Inr ()"
    using assms by (auto simp: targeted_snapshot_def bindE_eq_Inr split: option.split_asm)
  note l = conjunct1 [OF require_snapshot_Inr [OF s(1)]]
  show "\<exists>r\<in>set (td_memberships db). mbr_tenant_id r = ctx_tenant_id (act_context actor) \<and> mbr_id r = mch_membership_id ch
       \<and> member_of_row r = Inr target"
    by (rule load_snapshot_Inr(2) [OF l s(2)])
  show "ctx_tenant_id (tas_context snap) = ctx_tenant_id (act_context actor)"
    using load_snapshot_Inr(1) [OF l] by (auto simp: authoritative_context_def)
qed (use assms in \<open>auto simp: targeted_snapshot_def bindE_eq_Inr split: option.split_asm\<close>)

definition role_codes_of :: "uuid \<Rightarrow> uuid list \<Rightarrow> tenant_db \<Rightarrow> string set" where
  "role_codes_of tenant ids db = rol_code ` set (active_roles tenant ids db)"

lemma role_codes_for_ids_Some:
  "role_codes_for_ids c ids db = Inr (Some codes) \<Longrightarrow> snd ` set codes = role_codes_of (ctx_tenant_id c) ids db"
  by (auto simp: role_codes_for_ids_def role_codes_of_def active_roles_def bindE_eq_Inr Let_def image_image split: if_split_asm)

lemma role_ids_set: "role_ids c membership db = Inr ids \<Longrightarrow>
    set ids = asg_role_id ` set (member_assignments (ctx_tenant_id c) membership db)"
  by (auto simp: role_ids_def bindE_eq_Inr)

lemma plan_member_change_Inr:
  assumes "plan_member_change ch locked current db = Inr pl"
  shows "mem_version current = mch_expected_version ch"
    "role_ids (tas_context locked) (mch_membership_id ch) db = Inr (mpl_current_roles pl)"
    "mpl_status pl = (case mch_status ch of None \<Rightarrow> mem_status current | Some s \<Rightarrow> s)"
    "mpl_department_id pl = (if mch_change_department ch then mch_department_id ch else mem_department_id current)"
    "mpl_roles pl = (case desired_role_ids ch of None \<Rightarrow> mpl_current_roles pl | Some rs \<Rightarrow> rs)"
    "\<exists>removes. validate_membership_mutation (tas_actor_membership locked) (tas_role_codes locked) (tas_context locked)
        current (role_codes_of (ctx_tenant_id (tas_context locked)) (mpl_current_roles pl) db)
        (mpl_status pl) (mpl_department_id pl)
        (role_codes_of (ctx_tenant_id (tas_context locked)) (mpl_roles pl) db) (mch_action ch) = Inr removes
      \<and> keeps_an_owner removes (tas_context locked) db = Inr ()"
proof -
  let ?c = "tas_context locked"
  obtain current_roles where v: "mem_version current = mch_expected_version ch"
      "role_ids ?c (mch_membership_id ch) db = Inr current_roles"
    using assms unfolding plan_member_change_def Let_def
    by (cases "role_ids ?c (mch_membership_id ch) db") (simp_all split: if_split_asm)
  define roles where "roles = (case desired_role_ids ch of None \<Rightarrow> current_roles | Some rs \<Rightarrow> rs)"
  define status where "status = (case mch_status ch of None \<Rightarrow> mem_status current | Some s \<Rightarrow> s)"
  define department where "department = (if mch_change_department ch then mch_department_id ch else mem_department_id current)"
  have rest: "bindE (role_codes_for_ids ?c current_roles db) (\<lambda>current_map.
      bindE (role_codes_for_ids ?c roles db) (\<lambda>requested_map.
      case (current_map, requested_map) of
        (Some current_codes, Some codes) \<Rightarrow>
          bindE (known_department ?c ch db) (\<lambda>_.
          bindE (validate_membership_mutation (tas_actor_membership locked) (tas_role_codes locked) ?c current
                   (snd ` set current_codes) status department (snd ` set codes) (mch_action ch)) (\<lambda>removes.
          bindE (keeps_an_owner removes ?c db) (\<lambda>_.
            Inr \<lparr>mpl_status = status, mpl_department_id = department, mpl_roles = roles,
                 mpl_current_roles = current_roles\<rparr>)))
      | _ \<Rightarrow> Inl TenantResourceNotFound)) = Inr pl"
    using assms v unfolding plan_member_change_def Let_def roles_def status_def department_def by simp
  obtain cm rm where m: "role_codes_for_ids ?c current_roles db = Inr cm" "role_codes_for_ids ?c roles db = Inr rm"
    by (rule bindE_InrE [OF rest], erule bindE_InrE) blast
  obtain cur req where cr: "cm = Some cur" "rm = Some req"
    using rest m by (cases cm; cases rm) simp_all
  let ?v = "validate_membership_mutation (tas_actor_membership locked) (tas_role_codes locked) ?c current
         (snd ` set cur) status department (snd ` set req) (mch_action ch)"
  obtain removes where c: "?v = Inr removes"
    using rest m cr by (cases "known_department ?c ch db"; cases ?v) simp_all
  have k: "keeps_an_owner removes ?c db = Inr ()"
    using rest m cr c by (cases "known_department ?c ch db"; cases "keeps_an_owner removes ?c db") simp_all
  have p: "pl = \<lparr>mpl_status = status, mpl_department_id = department, mpl_roles = roles, mpl_current_roles = current_roles\<rparr>"
    using rest m cr c k by (cases "known_department ?c ch db") simp_all
  show "mem_version current = mch_expected_version ch" by (rule v(1))
  show "role_ids ?c (mch_membership_id ch) db = Inr (mpl_current_roles pl)"
    "mpl_status pl = (case mch_status ch of None \<Rightarrow> mem_status current | Some s \<Rightarrow> s)"
    "mpl_department_id pl = (if mch_change_department ch then mch_department_id ch else mem_department_id current)"
    "mpl_roles pl = (case desired_role_ids ch of None \<Rightarrow> mpl_current_roles pl | Some rs \<Rightarrow> rs)"
    using v(2) by (simp_all add: p roles_def status_def department_def split: option.split)
  show "\<exists>removes. validate_membership_mutation (tas_actor_membership locked) (tas_role_codes locked) ?c
        current (role_codes_of (ctx_tenant_id ?c) (mpl_current_roles pl) db)
        (mpl_status pl) (mpl_department_id pl)
        (role_codes_of (ctx_tenant_id ?c) (mpl_roles pl) db) (mch_action ch) = Inr removes
      \<and> keeps_an_owner removes ?c db = Inr ()"
    using c k p role_codes_for_ids_Some m cr by auto
qed


subsection \<open>What a change of a membership writes\<close>

definition assignments_after :: "uuid \<Rightarrow> uuid \<Rightarrow> uuid list \<Rightarrow> assignment_row list \<Rightarrow> assignment_row list" where
  "assignments_after tenant membership ids rows =
     filter (\<lambda>a. \<not> (asg_tenant_id a = tenant \<and> asg_membership_id a = membership)) rows
     @ map (\<lambda>r. \<lparr>asg_tenant_id = tenant, asg_membership_id = membership, asg_role_id = r\<rparr>) ids"

definition member_written :: "uuid \<Rightarrow> member_change \<Rightarrow> member_plan \<Rightarrow> tenant_db \<Rightarrow> tenant_db" where
  "member_written tenant ch pl db = db
     \<lparr>td_memberships := map (moved tenant (mch_membership_id ch) (mpl_status pl) (mpl_department_id pl) (mch_expected_version ch))
        (td_memberships db),
      td_assignments := (if mpl_roles pl \<noteq> mpl_current_roles pl
        then assignments_after tenant (mch_membership_id ch) (mpl_roles pl) (td_assignments db) else td_assignments db)\<rparr>"

lemma member_written_simps [simp]:
  "td_users (member_written t ch pl db) = td_users db" "td_tenants (member_written t ch pl db) = td_tenants db"
  "td_roles (member_written t ch pl db) = td_roles db" "td_sessions (member_written t ch pl db) = td_sessions db"
  "td_refresh (member_written t ch pl db) = td_refresh db"
  by (simp_all add: member_written_def)

lemma write_member_change_Inr:
  assumes "write_member_change actor ch locked current pl now db = Inr (m, db')"
    and "mem_id current = mch_membership_id ch" "ctx_tenant_id (tas_context locked) = t" "ctx_tenant_id (act_context actor) = t"
  shows "\<exists>s r. db' = put_session s (member_written t ch pl db)
      \<and> revoke_for_membership t (mch_membership_id ch) (mch_revocation_reason ch) now (session_view (member_written t ch pl db)) = Inr s
      \<and> find_in_tenant t (mch_membership_id ch) db' = Some r \<and> member_of_row r = Inr m"
    and "distinct (td_assignments db) \<Longrightarrow> distinct (td_assignments db')"
proof -
  obtain stored db1 db2 where 1: "update_locked (tas_context locked) current (mpl_status pl) (mpl_department_id pl)
        (mch_expected_version ch) now db = Inr (Some m, db1)"
    and 2: "(if mpl_roles pl \<noteq> mpl_current_roles pl
        then replace_roles (tas_context locked) (mch_membership_id ch) (mpl_roles pl)
          (mem_id (tas_actor_membership locked)) now db1 else Inr db1) = Inr db2"
    and 3: "revoke_membership_sessions t (mch_membership_id ch) (mch_revocation_reason ch) now db2 = Inr db'"
    using assms(1,4) by (auto simp: write_member_change_def bindE_eq_Inr split: option.split_asm)
  have db1: "db1 = db\<lparr>td_memberships := map (moved t (mch_membership_id ch) (mpl_status pl) (mpl_department_id pl)
      (mch_expected_version ch)) (td_memberships db)\<rparr>"
    using update_locked_Inr(1) [OF 1] assms(2,3) by simp
  have db2: "db2 = member_written t ch pl db"
    using 2 db1 assms(3) replace_roles_Inr(1)
    by (force simp: member_written_def assignments_after_def split: if_split_asm)
  obtain s where s: "revoke_for_membership t (mch_membership_id ch) (mch_revocation_reason ch) now (session_view db2) = Inr s"
      "db' = put_session s db2"
    using revoke_membership_sessions_Inr [OF 3] by blast
  obtain r where r: "find_in_tenant t (mch_membership_id ch) db1 = Some r" "member_of_row r = Inr m"
    using update_locked_Inr(2) [OF 1 refl] assms(2,3) by auto
  have "td_memberships db' = td_memberships db1" using s(2) by (simp add: db2 db1 put_session_def member_written_def)
  then have "find_in_tenant t (mch_membership_id ch) db' = Some r" using r(1) by (simp add: find_in_tenant_def)
  then show "\<exists>s r. db' = put_session s (member_written t ch pl db)
      \<and> revoke_for_membership t (mch_membership_id ch) (mch_revocation_reason ch) now (session_view (member_written t ch pl db)) = Inr s
      \<and> find_in_tenant t (mch_membership_id ch) db' = Some r \<and> member_of_row r = Inr m"
    using s r(2) unfolding db2 by blast
  have "distinct (td_assignments db2)" if "distinct (td_assignments db)"
    using 2 that db1 replace_roles_Inr(2) by (auto split: if_split_asm)
  then show "distinct (td_assignments db) \<Longrightarrow> distinct (td_assignments db')"
    using s(2) by (simp add: put_session_def)
qed

text \<open>Only the audit, the idempotency table and the cache outbox change.\<close>

definition bare :: "tenant_db \<Rightarrow> tenant_db" where
  "bare db = db\<lparr>td_audit := [], td_idempotency := [], td_cache_outbox := []\<rparr>"

definition bookkeeping :: "tenant_db \<Rightarrow> tenant_db \<Rightarrow> bool" where
  "bookkeeping db db' \<longleftrightarrow> bare db' = bare db"

lemma bookkeeping_refl [simp]: "bookkeeping db db"
  by (simp add: bookkeeping_def)

lemma bookkeeping_trans: "bookkeeping db db' \<Longrightarrow> bookkeeping db' db'' \<Longrightarrow> bookkeeping db db''"
  by (simp add: bookkeeping_def)

lemma bookkeeping_statements [simp]:
  "bookkeeping db (db\<lparr>td_audit := audit\<rparr>)" "bookkeeping db (db\<lparr>td_idempotency := idem\<rparr>)"
  "bookkeeping db (db\<lparr>td_cache_outbox := outbox\<rparr>)"
  by (simp_all add: bookkeeping_def bare_def)

lemma bare_fields:
  "td_users (bare db) = td_users db" "td_tenants (bare db) = td_tenants db" "td_memberships (bare db) = td_memberships db"
  "td_roles (bare db) = td_roles db" "td_assignments (bare db) = td_assignments db"
  "td_sessions (bare db) = td_sessions db" "td_refresh (bare db) = td_refresh db"
  "td_session_audit (bare db) = td_session_audit db" "td_invitations (bare db) = td_invitations db"
  "td_invitation_roles (bare db) = td_invitation_roles db"
  by (simp_all add: bare_def)

lemma bookkeeping_same:
  assumes "bookkeeping db db'"
  shows "td_users db' = td_users db" "td_tenants db' = td_tenants db" "td_memberships db' = td_memberships db"
    "td_roles db' = td_roles db" "td_assignments db' = td_assignments db" "td_sessions db' = td_sessions db"
    "td_refresh db' = td_refresh db" "td_session_audit db' = td_session_audit db"
    "td_invitations db' = td_invitations db" "td_invitation_roles db' = td_invitation_roles db"
  using assms unfolding bookkeeping_def by (metis bare_fields)+

lemma commit_member_change_Inr:
  assumes "commit_member_change fr actor ch locked current pl rsv now db = Inr ((r, task), db')"
  shows "\<not> mmr_replayed r" "mmr_role_ids r = mpl_roles pl"
    "task = (if plan_changes current pl then Some (tf_task_id fr) else None)"
    "\<exists>db1. bookkeeping db1 db' \<and>
      (if plan_changes current pl then write_member_change actor ch locked current pl now db = Inr (mmr_membership r, db1)
       else db1 = db \<and> mmr_membership r = current)"
proof -
  let ?changed = "plan_changes current pl"
  obtain updated db1 e db2 db3 db4 where
    1: "(if ?changed then write_member_change actor ch locked current pl now db else Inr (current, db)) = Inr (updated, db1)"
    and 2: "append_structured e db1 = Inr db2"
    and 3: "complete_in rsv ''membership'' (mch_membership_id ch) (Some (if ?changed then CHANGED else NO_CHANGE))
          (if ?changed then Some (mem_authz_version current) else None) now db2 = Inr db3"
    and 4: "(if ?changed then leave_cache_task fr actor ch current rsv now db3 else Inr db3) = Inr db4"
    and r: "r = \<lparr>mmr_membership = updated, mmr_role_ids = mpl_roles pl, mmr_replayed = False\<rparr>"
      "task = (if ?changed then Some (tf_task_id fr) else None)" "db' = db4"
    using assms unfolding commit_member_change_def Let_def
    by (elim bindE_InrE) (simp add: case_prod_beta, elim bindE_InrE, auto simp: split: prod.split_asm)
  have "bookkeeping db1 db2" using append_structured_Inr [OF 2] bookkeeping_statements by auto
  moreover have "bookkeeping db2 db3" using complete_in_Inr [OF 3] bookkeeping_statements by auto
  moreover have "bookkeeping db3 db4"
    using 4 leave_cache_task_Inr bookkeeping_statements bookkeeping_refl by (metis sum.inject(2))
  ultimately have "bookkeeping db1 db'" using bookkeeping_trans r(3) by blast
  then show "\<exists>db1. bookkeeping db1 db' \<and>
      (if ?changed then write_member_change actor ch locked current pl now db = Inr (mmr_membership r, db1)
       else db1 = db \<and> mmr_membership r = current)"
    using 1 r(1) by (intro exI [of _ db1]) auto
qed (use assms in \<open>auto simp: commit_member_change_def Let_def bindE_eq_Inr\<close>)


end
