(* ===== verification/TenantOwners.thy ===== *)
theory TenantOwners
  imports TenantInvariant
begin

text \<open>
  The invariant of the tenant tables along every operation of the tenant workflows: unique keys, and at
  least one active owner for every tenant, from its application on.
\<close>

subsection \<open>Active owners\<close>

lemma active_owner_rows_iff:
  "(m, a, r) \<in> set (active_owner_rows t db) \<longleftrightarrow>
     m \<in> set (td_memberships db) \<and> a \<in> set (td_assignments db) \<and> r \<in> set (td_roles db)
     \<and> asg_tenant_id a = t \<and> asg_membership_id a = mbr_id m \<and> rol_tenant_id r = t \<and> rol_id r = asg_role_id a
     \<and> mbr_tenant_id m = t \<and> mbr_status m = MembershipStatus_ACTIVE \<and> rol_status r = ''active''
     \<and> rol_code r = ''tenant_owner''"
  unfolding active_owner_rows_def by auto

definition tenant_keys :: "tenant_db \<Rightarrow> bool" where
  "tenant_keys db \<longleftrightarrow> distinct (map ten_id (td_tenants db)) \<and> distinct (map mbr_id (td_memberships db))
     \<and> distinct (td_assignments db) \<and> distinct (map rol_id (td_roles db))
     \<and> distinct (map (\<lambda>r. (rol_tenant_id r, rol_code r)) (td_roles db))"

lemma distinct_map_eq: "distinct (map f xs) \<Longrightarrow> x \<in> set xs \<Longrightarrow> y \<in> set xs \<Longrightarrow> f x = f y \<Longrightarrow> x = y"
  by (auto simp: distinct_map inj_on_def)

text \<open>With unique keys the join counts every owner once.\<close>

lemma owner_rows_by_member:
  assumes k: "tenant_keys db" and x: "(m, a, r) \<in> set (active_owner_rows t db)" "(m', a', r') \<in> set (active_owner_rows t db)"
    and "mbr_id m = mbr_id m'"
  shows "(m, a, r) = (m', a', r')"
proof -
  note u = x [unfolded active_owner_rows_iff]
  have "m = m'" using k u assms(4) by (auto simp: tenant_keys_def intro: distinct_map_eq [of mbr_id])
  moreover have "r = r'" using k u by (auto simp: tenant_keys_def intro: distinct_map_eq [of "\<lambda>r. (rol_tenant_id r, rol_code r)"])
  moreover have "a = a'" using u assms(4) \<open>r = r'\<close> by (cases a; cases a') auto
  ultimately show ?thesis by simp
qed

lemma distinct_active_owner_rows: "tenant_keys db \<Longrightarrow> distinct (active_owner_rows t db)"
  unfolding active_owner_rows_def tenant_keys_def
  by (intro distinct_filter distinct_product) (simp_all add: distinct_map)

lemma another_owner:
  assumes "tenant_keys db" "1 < length (active_owner_rows t db)"
  shows "\<exists>m a r. (m, a, r) \<in> set (active_owner_rows t db) \<and> mbr_id m \<noteq> i"
proof -
  obtain x y rest where xs: "active_owner_rows t db = x # y # rest"
    using assms(2) by (cases "active_owner_rows t db"; cases "tl (active_owner_rows t db)") auto
  obtain m a r where x: "x = (m, a, r)" by (cases x)
  obtain m' a' r' where y: "y = (m', a', r')" by (cases y)
  have "mbr_id m \<noteq> mbr_id m'"
    using owner_rows_by_member [OF assms(1), of m a r t m' a' r'] distinct_active_owner_rows [OF assms(1), of t] xs x y
    by auto
  then show ?thesis using xs x y by (metis list.set_intros)
qed

definition owned :: "uuid \<Rightarrow> tenant_db \<Rightarrow> bool" where
  "owned t db \<longleftrightarrow> active_owner_rows t db \<noteq> []"

lemma owned_iff: "owned t db \<longleftrightarrow> (\<exists>m a r. (m, a, r) \<in> set (active_owner_rows t db))"
proof
  assume "owned t db"
  then obtain x where "x \<in> set (active_owner_rows t db)" unfolding owned_def by (cases "active_owner_rows t db") auto
  then show "\<exists>m a r. (m, a, r) \<in> set (active_owner_rows t db)" by (metis prod_cases3)
qed (auto simp: owned_def)

lemma owned_cong:
  "td_memberships db' = td_memberships db \<Longrightarrow> td_assignments db' = td_assignments db \<Longrightarrow> td_roles db' = td_roles db
     \<Longrightarrow> owned t db' = owned t db"
  by (simp add: owned_def active_owner_rows_def)

lemma owned_grows:
  assumes "owned t db" "set (td_memberships db) \<subseteq> set (td_memberships db')"
    "set (td_assignments db) \<subseteq> set (td_assignments db')" "set (td_roles db) \<subseteq> set (td_roles db')"
  shows "owned t db'"
  using assms unfolding owned_iff active_owner_rows_iff by blast

definition tenants_owned :: "tenant_db \<Rightarrow> bool" where
  "tenants_owned db \<longleftrightarrow> (\<forall>t\<in>ten_id ` set (td_tenants db). owned t db)"

subsection \<open>A change of a membership\<close>

lemma moved_simps [simp]:
  "mbr_id (moved t i st d v r) = mbr_id r" "mbr_tenant_id (moved t i st d v r) = mbr_tenant_id r"
  "mbr_user_id (moved t i st d v r) = mbr_user_id r" "mbr_member_type (moved t i st d v r) = mbr_member_type r"
  by (simp_all add: moved_def Let_def member_values_def)

lemma moved_other: "mbr_id r \<noteq> i \<or> mbr_tenant_id r \<noteq> t \<Longrightarrow> moved t i st d v r = r"
  by (auto simp: moved_def Let_def member_where_def)

lemma moved_hit: "mbr_id r = i \<Longrightarrow> mbr_tenant_id r = t \<Longrightarrow> mbr_version r = v \<Longrightarrow>
    mbr_status (moved t i st d v r) = st \<and> mbr_department_id (moved t i st d v r) = d
    \<and> mbr_authz_version (moved t i st d v r) = mbr_authz_version r + 1 \<and> mbr_version (moved t i st d v r) = v + 1"
  by (simp add: moved_def Let_def member_where_def member_values_def)

lemma owner_kept_by_write:
  assumes "(m, a, r) \<in> set (active_owner_rows t' db)" "mbr_id m \<noteq> mch_membership_id ch \<or> t' \<noteq> t"
  shows "(m, a, r) \<in> set (active_owner_rows t' (member_written t ch pl db))"
proof -
  have u: "m \<in> set (td_memberships db)" "a \<in> set (td_assignments db)" "asg_tenant_id a = t'" "asg_membership_id a = mbr_id m"
      "mbr_tenant_id m = t'"
    using assms(1) by (simp_all add: active_owner_rows_iff)
  have "m \<in> set (td_memberships (member_written t ch pl db))"
    using u assms(2) by (auto simp: member_written_def image_iff intro!: bexI [of _ m] moved_other [symmetric])
  moreover have "a \<in> set (td_assignments (member_written t ch pl db))"
    using u assms(2) by (auto simp: member_written_def assignments_after_def)
  ultimately show ?thesis using assms(1) by (simp add: active_owner_rows_iff)
qed

lemma write_keeps_owner:
  assumes keys: "tenant_keys db" and owner: "owned t' db"
    and row: "row \<in> set (td_memberships db)" "mbr_tenant_id row = t" "mbr_id row = mch_membership_id ch"
      "member_of_row row = Inr current"
    and t: "ctx_tenant_id (tas_context locked) = t"
    and plan: "plan_member_change ch locked current db = Inr pl"
  shows "owned t' (member_written t ch pl db)"
proof -
  let ?i = "mch_membership_id ch"
  let ?db = "member_written t ch pl db"
  note p = plan_member_change_Inr [OF plan]
  note cur = member_of_row_Inr [OF row(4)]
  obtain removes where v: "validate_membership_mutation (tas_actor_membership locked) (tas_role_codes locked) (tas_context locked)
        current (role_codes_of t (mpl_current_roles pl) db) (mpl_status pl) (mpl_department_id pl)
        (role_codes_of t (mpl_roles pl) db) (mch_action ch) = Inr removes"
      and keep: "keeps_an_owner removes (tas_context locked) db = Inr ()"
    using p(6) t by auto
  obtain m a r where x: "(m, a, r) \<in> set (active_owner_rows t' db)" using owner by (auto simp: owned_iff)
  show ?thesis
  proof (cases "mbr_id m \<noteq> ?i \<or> t' \<noteq> t")
    case True
    then show ?thesis using owner_kept_by_write [OF x True] unfolding owned_iff by blast
  next
    case same: False
    show ?thesis
    proof (cases removes)
      case True
      then have "1 < length (active_owner_rows t db)"
        using keep t by (auto simp: keeps_an_owner_def count_active_owners_locked_def bindE_eq_Inr split: if_split_asm)
      then obtain m' a' r' where "(m', a', r') \<in> set (active_owner_rows t db)" "mbr_id m' \<noteq> ?i"
        using another_owner [OF keys] by blast
      then show ?thesis using owner_kept_by_write same unfolding owned_iff by blast
    next
      case False
      note x' = x [unfolded active_owner_rows_iff]
      have "m = row" using keys x' row same by (auto simp: tenant_keys_def intro: distinct_map_eq [of mbr_id])
      have roles: "set (mpl_current_roles pl) = asg_role_id ` set (member_assignments t ?i db)"
        using role_ids_set [OF p(2)] t by simp
      have "r \<in> set (active_roles t (mpl_current_roles pl) db)"
        using x' same roles by (auto simp: active_roles_def member_assignments_def)
      then have "''tenant_owner'' \<in> role_codes_of t (mpl_current_roles pl) db"
        using x' by (force simp: role_codes_of_def)
      moreover have "mem_status current = MembershipStatus_ACTIVE" using cur x' \<open>m = row\<close> by simp
      ultimately have stays: "mpl_status pl = MembershipStatus_ACTIVE" "''tenant_owner'' \<in> role_codes_of t (mpl_roles pl) db"
        using validate_mutation_Inr(9) [OF v] False by simp_all
      then obtain r' where r': "r' \<in> set (td_roles db)" "rol_tenant_id r' = t" "rol_id r' \<in> set (mpl_roles pl)"
          "rol_status r' = ''active''" "rol_code r' = ''tenant_owner''"
        by (auto simp: role_codes_of_def active_roles_def)
      let ?a = "\<lparr>asg_tenant_id = t, asg_membership_id = ?i, asg_role_id = rol_id r'\<rparr>"
      have "?a \<in> set (td_assignments ?db)"
      proof (cases "mpl_roles pl \<noteq> mpl_current_roles pl")
        case True
        then show ?thesis using r'(3) by (auto simp: member_written_def assignments_after_def)
      next
        case False
        then have "rol_id r' \<in> asg_role_id ` set (member_assignments t ?i db)" using r'(3) roles by simp
        then obtain b where "b \<in> set (td_assignments db)" "asg_tenant_id b = t" "asg_membership_id b = ?i"
            "asg_role_id b = rol_id r'" by (auto simp: member_assignments_def)
        moreover have "b = ?a" using calculation by (intro assignment_row.equality) simp_all
        ultimately have "?a \<in> set (td_assignments db)" by simp
        then show ?thesis using False by (simp add: member_written_def)
      qed
      moreover have "moved t ?i (mpl_status pl) (mpl_department_id pl) (mch_expected_version ch) row \<in> set (td_memberships ?db)"
        using row(1) by (simp add: member_written_def)
      moreover have "mbr_status (moved t ?i (mpl_status pl) (mpl_department_id pl) (mch_expected_version ch) row) = MembershipStatus_ACTIVE"
        using moved_hit [OF row(3,2)] p(1) cur stays(1) by simp
      ultimately have "(moved t ?i (mpl_status pl) (mpl_department_id pl) (mch_expected_version ch) row, ?a, r') \<in> set (active_owner_rows t ?db)"
        using r' row by (simp add: active_owner_rows_iff)
      then show ?thesis using same by (auto simp: owned_iff)
    qed
  qed
qed


lemma mutate_member_body_cases:
  assumes "mutate_member_body svc fr actor ch clock now db = Inr ((r, task), db')"
  obtains (replayed) "mmr_replayed r" "task = None" "bookkeeping db db'"
  | (planned) locked current row pl rsv db1 where "\<not> mmr_replayed r"
      "targeted_snapshot actor ch (\<lambda>i. clock (4 + i)) db = Inr (locked, current)"
      "row \<in> set (td_memberships db)" "mbr_tenant_id row = ctx_tenant_id (act_context actor)"
      "mbr_id row = mch_membership_id ch" "member_of_row row = Inr current"
      "ctx_tenant_id (tas_context locked) = ctx_tenant_id (act_context actor)"
      "bookkeeping db db1" "plan_member_change ch locked current db1 = Inr pl"
      "commit_member_change fr actor ch locked current pl rsv now db1 = Inr ((r, task), db')"
proof -
  obtain locked current where 1: "targeted_snapshot actor ch (\<lambda>i. clock (4 + i)) db = Inr (locked, current)"
    using assms unfolding mutate_member_body_def by (elim bindE_InrE) (metis prod.exhaust)
  obtain scope rsv db1 where
    2: "reserve_in svc scope (mch_operation ch) (member_request actor ch) now (tf_record_id fr) db = Inr (rsv, db1)"
    and 3: "(case rsv_replay rsv of
       Some ref \<Rightarrow> bindE (replay_member_change ch ref locked current db1) (\<lambda>r. Inr ((r, None), db1))
     | None \<Rightarrow> bindE (plan_member_change ch locked current db1) (\<lambda>pl.
           commit_member_change fr actor ch locked current pl rsv now db1)) = Inr ((r, task), db')"
    using assms unfolding mutate_member_body_def 1 bindE_Inr prod.case
    by (elim bindE_InrE) (clarsimp split: prod.split_asm)
  have b: "bookkeeping db db1" using reserve_in_Inr [OF 2] by auto
  show ?thesis
  proof (cases "rsv_replay rsv")
    case None
    then obtain pl where pl: "plan_member_change ch locked current db1 = Inr pl"
        "commit_member_change fr actor ch locked current pl rsv now db1 = Inr ((r, task), db')"
      using 3 by (auto elim!: bindE_InrE)
    obtain row where "row \<in> set (td_memberships db)" "mbr_tenant_id row = ctx_tenant_id (act_context actor)"
      "mbr_id row = mch_membership_id ch" "member_of_row row = Inr current"
      using targeted_snapshot_Inr(3) [OF 1] by blast
    then show ?thesis
      using planned commit_member_change_Inr(1) [OF pl(2)] 1 b pl targeted_snapshot_Inr(4) [OF 1] by blast
  next
    case (Some ref)
    then show ?thesis
      using 3 b replayed by (auto simp: replay_member_change_def bindE_eq_Inr split: if_split_asm)
  qed
qed

text \<open>The rows a successful change leaves, and what it did to the sessions of the membership.\<close>

lemma mutate_member_body_changed:
  assumes "mutate_member_body svc fr actor ch clock now db = Inr ((r, Some task), db')"
  obtains locked current row pl db1 s row' where
    "targeted_snapshot actor ch (\<lambda>i. clock (4 + i)) db = Inr (locked, current)"
    "row \<in> set (td_memberships db)" "mbr_tenant_id row = ctx_tenant_id (act_context actor)"
    "mbr_id row = mch_membership_id ch" "member_of_row row = Inr current"
    "ctx_tenant_id (tas_context locked) = ctx_tenant_id (act_context actor)"
    "bookkeeping db db1" "plan_member_change ch locked current db1 = Inr pl" "plan_changes current pl"
    "bookkeeping (put_session s (member_written (ctx_tenant_id (act_context actor)) ch pl db1)) db'"
    "revoke_for_membership (ctx_tenant_id (act_context actor)) (mch_membership_id ch) (mch_revocation_reason ch) now
       (session_view (member_written (ctx_tenant_id (act_context actor)) ch pl db1)) = Inr s"
    "find_in_tenant (ctx_tenant_id (act_context actor)) (mch_membership_id ch) db' = Some row'"
    "member_of_row row' = Inr (mmr_membership r)" "mmr_role_ids r = mpl_roles pl" "task = tf_task_id fr"
    "distinct (td_assignments db) \<Longrightarrow> distinct (td_assignments db')"
  using assms
proof (cases rule: mutate_member_body_cases)
  case (planned locked current row pl rsv db1)
  note c = commit_member_change_Inr [OF planned(10)]
  have ch: "plan_changes current pl" "task = tf_task_id fr" using c(3) by (auto split: if_split_asm)
  obtain db2 where w: "bookkeeping db2 db'"
      "write_member_change actor ch locked current pl now db1 = Inr (mmr_membership r, db2)"
    using c(4) ch by auto
  have i: "mem_id current = mch_membership_id ch" using member_of_row_Inr [OF planned(6)] planned(5) by simp
  obtain s row' where s: "db2 = put_session s (member_written (ctx_tenant_id (act_context actor)) ch pl db1)"
      "revoke_for_membership (ctx_tenant_id (act_context actor)) (mch_membership_id ch) (mch_revocation_reason ch) now
       (session_view (member_written (ctx_tenant_id (act_context actor)) ch pl db1)) = Inr s"
      "find_in_tenant (ctx_tenant_id (act_context actor)) (mch_membership_id ch) db2 = Some row'"
      "member_of_row row' = Inr (mmr_membership r)"
    using write_member_change_Inr(1) [OF w(2) i planned(7) refl] by blast
  have f: "find_in_tenant (ctx_tenant_id (act_context actor)) (mch_membership_id ch) db' = Some row'"
    using s(3) bookkeeping_same(3) [OF w(1)] by (simp add: find_in_tenant_def)
  have d: "distinct (td_assignments db) \<Longrightarrow> distinct (td_assignments db')"
    using write_member_change_Inr(2) [OF w(2) i planned(7) refl] bookkeeping_same(5) [OF w(1)]
      bookkeeping_same(5) [OF planned(8)] by simp
  show ?thesis
    by (rule that [OF planned(2-9) ch(1) w(1) [unfolded s(1)] s(2) f s(4) c(2) ch(2) d])
qed simp

lemma tenant_keys_same:
  assumes "tenant_keys db" "map ten_id (td_tenants db') = map ten_id (td_tenants db)"
    "map mbr_id (td_memberships db') = map mbr_id (td_memberships db)"
    "distinct (td_assignments db')" "td_roles db' = td_roles db"
  shows "tenant_keys db'"
  using assms by (simp add: tenant_keys_def)

lemma put_session_fields [simp]:
  "td_users (put_session s db) = td_users db" "td_tenants (put_session s db) = td_tenants db"
  "td_memberships (put_session s db) = td_memberships db" "td_roles (put_session s db) = td_roles db"
  "td_assignments (put_session s db) = td_assignments db"
  by (simp_all add: put_session_def)

lemma bookkeeping_kept:
  "bookkeeping db db' \<Longrightarrow> tenant_keys db \<Longrightarrow> tenant_keys db'" "bookkeeping db db' \<Longrightarrow> owned t db' = owned t db"
  using bookkeeping_same [of db db'] owned_cong [of db' db t] by (auto simp: tenant_keys_def)

lemma mutate_member_body_kept:
  assumes "mutate_member_body svc fr actor ch clock now db = Inr ((r, task), db')" "tenant_keys db"
  shows "tenant_keys db' \<and> td_tenants db' = td_tenants db \<and> (\<forall>t. owned t db \<longrightarrow> owned t db')"
proof (cases task)
  case None
  have "bookkeeping db db'"
    using assms(1)
  proof (cases rule: mutate_member_body_cases)
    case (planned locked current row pl rsv db1)
    have "\<not> plan_changes current pl" using commit_member_change_Inr(3) [OF planned(10)] None by (auto split: if_split_asm)
    then show ?thesis
      using commit_member_change_Inr(4) [OF planned(10)] planned(8) bookkeeping_trans by auto
  qed
  then show ?thesis using assms(2) bookkeeping_kept bookkeeping_same(2) by blast
next
  case (Some i)
  show ?thesis
    using assms(1) [unfolded Some]
  proof (cases rule: mutate_member_body_changed)
    case (1 locked current row pl db1 s row')
    let ?t = "ctx_tenant_id (act_context actor)"
    let ?w = "member_written ?t ch pl db1"
    note b = bookkeeping_same [OF 1(7)] bookkeeping_same [OF 1(10)]
    have k1: "tenant_keys db1" by (rule bookkeeping_kept(1) [OF 1(7) assms(2)])
    have "tenant_keys db'"
      by (rule tenant_keys_same [OF assms(2)]) (use b 1(16) assms(2) in \<open>simp_all add: member_written_def comp_def tenant_keys_def\<close>)
    moreover have "td_tenants db' = td_tenants db" using b by simp
    moreover have "owned t db'" if "owned t db" for t
    proof -
      have "owned t ?w"
        by (rule write_keeps_owner [OF k1 _ _ 1(3,4,5,6,8)]) (use that b bookkeeping_kept(2) [OF 1(7)] 1(2) in auto)
      then have "owned t (put_session s ?w)" using owned_cong [of "put_session s ?w" ?w] by simp
      then show ?thesis using bookkeeping_kept(2) [OF 1(10)] by simp
    qed
    ultimately show ?thesis by blast
  qed
qed

end
