(* ===== verification/BlindIndex.thy ===== *)
theory BlindIndex
  imports TenantTables
begin

text \<open>
  Keyed blind indexes of identifiers (\<open>infrastructure/security/blind_index.py\<close>): the key ring with its
  checks, the message of a digest, the digests under every key.  HMAC-SHA-256 is a parameter.
\<close>

subsection \<open>UTF-8\<close>

definition utf8_point :: "nat \<Rightarrow> bytes" where
  "utf8_point n =
     (if n < 128 then [byte n]
      else if n < 2048 then [byte (192 + n div 64), byte (128 + n mod 64)]
      else if n < 65536 then [byte (224 + n div 4096), byte (128 + n div 64 mod 64), byte (128 + n mod 64)]
      else [byte (240 + n div 262144), byte (128 + n div 4096 mod 64), byte (128 + n div 64 mod 64), byte (128 + n mod 64)])"

definition encode_utf8 :: "ustring \<Rightarrow> bytes result" where
  "encode_utf8 s =
     (if list_ex (\<lambda>n. 55296 \<le> n \<and> n < 57344) s then Inl (ValueError ''surrogates not allowed'')
      else Inr (concat (map utf8_point s)))"

subsection \<open>The key ring\<close>

record blind_index =
  bix_keys :: "(int \<times> bytes) list"
  bix_active_key_version :: int

definition key_version_ok :: "int \<Rightarrow> bool" where
  "key_version_ok v \<longleftrightarrow> 1 \<le> v \<and> v \<le> 32767"

definition BlindIndexService_init :: "(int \<times> bytes) list \<Rightarrow> int \<Rightarrow> blind_index result" where
  "BlindIndexService_init keys active =
     bindE (require
       [(list_all (\<lambda>(v, k). key_version_ok v) keys, ValueError ''blind-index key versions must be integers from 1 to 32767''),
        (key_version_ok active, ValueError ''blind-index key versions must be integers from 1 to 32767''),
        (active \<in> fst ` set keys, ValueError ''active key version is missing''),
        (list_all (\<lambda>(v, k). length k = 32) keys, ValueError ''blind-index keys must contain exactly 32 bytes'')])
       (\<lambda>_. Inr \<lparr>bix_keys = keys, bix_active_key_version = active\<rparr>)"

definition key_versions :: "blind_index \<Rightarrow> int list" where
  "key_versions b = sort (map fst (bix_keys b))"

definition BLIND_INDEX_DOMAIN :: bytes where
  "BLIND_INDEX_DOMAIN = ascii ''lawyer-agent:blind-index:v1'' @ [0]"

definition blind_digest :: "(bytes \<Rightarrow> bytes \<Rightarrow> bytes) \<Rightarrow> blind_index \<Rightarrow> string \<Rightarrow> ustring \<Rightarrow> int option \<Rightarrow> bytes result" where
  "blind_digest hmac b purpose value key_version =
     (let version = (case key_version of None \<Rightarrow> bix_active_key_version b | Some v \<Rightarrow> v) in
      case map_of (bix_keys b) version of
        None \<Rightarrow> Inl (ValueError ''blind index uses an unknown key version'')
      | Some key \<Rightarrow>
          if purpose = [] \<or> CHR 0x00 \<in> set purpose
          then Inl (ValueError ''blind-index purpose must be non-empty and contain no NUL'')
          else bindE (encode_utf8 value) (\<lambda>v.
            Inr (hmac key (BLIND_INDEX_DOMAIN @ [byte (nat version div 256), byte (nat version)] @ utf8 purpose @ [0] @ v))))"

record VersionedBlindIndex =
  vbi_key_version :: int
  vbi_digest :: bytes

definition blind_digests :: "(bytes \<Rightarrow> bytes \<Rightarrow> bytes) \<Rightarrow> blind_index \<Rightarrow> string \<Rightarrow> ustring \<Rightarrow> VersionedBlindIndex list result" where
  "blind_digests hmac b purpose value =
     convert_all (\<lambda>v. bindE (blind_digest hmac b purpose value (Some v)) (\<lambda>d.
       Inr \<lparr>vbi_key_version = v, vbi_digest = d\<rparr>)) (key_versions b)"

definition blind_matches :: "(bytes \<Rightarrow> bytes \<Rightarrow> bytes) \<Rightarrow> blind_index \<Rightarrow> bytes \<Rightarrow> string \<Rightarrow> ustring \<Rightarrow> int \<Rightarrow> bool result" where
  "blind_matches hmac b expected purpose value key_version =
     bindE (blind_digest hmac b purpose value (Some key_version)) (\<lambda>actual. Inr (expected = actual))"

lemma blind_digests_Inr:
  assumes "blind_digests hmac b purpose value = Inr ds" "d \<in> set ds"
  shows "blind_digest hmac b purpose value (Some (vbi_key_version d)) = Inr (vbi_digest d)"
    "vbi_key_version d \<in> fst ` set (bix_keys b)"
proof -
  have "convert_all f vs = Inr ds \<Longrightarrow> d \<in> set ds \<Longrightarrow> \<exists>v\<in>set vs. f v = Inr d"
    for f :: "int \<Rightarrow> VersionedBlindIndex result" and vs
    by (induction vs arbitrary: ds) (auto simp: bindE_eq_Inr)
  from this [OF assms(1) [unfolded blind_digests_def] assms(2)]
  show "blind_digest hmac b purpose value (Some (vbi_key_version d)) = Inr (vbi_digest d)"
    "vbi_key_version d \<in> fst ` set (bix_keys b)"
    by (auto simp: bindE_eq_Inr key_versions_def intro: rev_image_eqI)
qed

end
