(* ===== verification/InvitationStore.thy ===== *)
theory InvitationStore
  imports TenantService BlindIndex
begin

text \<open>
  The invitation repository (\<open>repositories/invitations.py\<close>).  \<open>FOR UPDATE\<close> only reads, the order of rows is
  kept where the code observes it.
\<close>

subsection \<open>Records\<close>

record InvitationRecord =
  ivr_id :: uuid
  ivr_tenant_id :: uuid
  ivr_target_kind :: InvitationTargetKind
  ivr_target_blind_index :: bytes
  ivr_key_version :: "int option"
  ivr_token_hash :: bytes
  ivr_invited_by_membership_id :: uuid
  ivr_expires_at :: datetime
  ivr_accepted_at :: "datetime option"
  ivr_revoked_at :: "datetime option"
  ivr_status :: InvitationStatus
  ivr_version :: int

record InvitationLocator =
  loc_invitation_id :: uuid
  loc_tenant_id :: uuid

record VerifiedIdentityRecord =
  vid_identity_id :: uuid
  vid_kind :: InvitationTargetKind
  vid_subject_ciphertext :: bytes
  vid_verified_at :: datetime

fun InvitationTargetKind_value :: "InvitationTargetKind \<Rightarrow> string" where
  "InvitationTargetKind_value Target_PHONE = ''phone''"
| "InvitationTargetKind_value Target_EMAIL = ''email''"

definition invitation_of_row :: "invitation_row \<Rightarrow> InvitationRecord" where
  "invitation_of_row r =
     \<lparr>ivr_id = inv_id r, ivr_tenant_id = inv_tenant_id r, ivr_target_kind = inv_target_kind r,
      ivr_target_blind_index = inv_target_blind_index r, ivr_key_version = inv_key_version r,
      ivr_token_hash = inv_token_hash r, ivr_invited_by_membership_id = inv_invited_by_membership_id r,
      ivr_expires_at = aware (inv_expires_at r), ivr_accepted_at = aware_optional (inv_accepted_at r),
      ivr_revoked_at = aware_optional (inv_revoked_at r), ivr_status = inv_status r, ivr_version = inv_version r\<rparr>"

subsection \<open>Checks of the arguments\<close>

definition require_digest :: "bytes \<Rightarrow> unit result" where
  "require_digest h = require [(length h = 32, ValueError ''invitation token hash must contain exactly 32 bytes'')]"

definition require_scoped_ids :: "uuid \<Rightarrow> uuid list \<Rightarrow> unit result" where
  "require_scoped_ids tenant ids =
     require (uuid_check tenant ''invitation tenant_id'' # map (\<lambda>i. uuid_check i ''invitation resource_id'') ids)"

definition require_invitation_record :: "InvitationRecord \<Rightarrow> unit result" where
  "require_invitation_record i =
     bindE (require_scoped_ids (ivr_tenant_id i) [ivr_id i, ivr_invited_by_membership_id i]) (\<lambda>_.
     bindE (require_digest (ivr_token_hash i)) (\<lambda>_.
     require [(ivr_key_version i \<noteq> None \<and> pred_option key_version_ok (ivr_key_version i),
       ValueError ''invitation blind-index key version is invalid'')]))"

subsection \<open>Reading\<close>

definition locate_by_token_hash :: "bytes \<Rightarrow> tenant_db \<Rightarrow> InvitationLocator option result" where
  "locate_by_token_hash h db =
     bindE (require_digest h) (\<lambda>_.
       Inr (map_option (\<lambda>r. \<lparr>loc_invitation_id = inv_id r, loc_tenant_id = inv_tenant_id r\<rparr>)
         (row_of inv_token_hash h (td_invitations db))))"

definition lock_by_token_hash :: "uuid \<Rightarrow> bytes \<Rightarrow> tenant_db \<Rightarrow> InvitationRecord option result" where
  "lock_by_token_hash tenant h db =
     bindE (require [uuid_check tenant ''invitation tenant_id'']) (\<lambda>_.
     bindE (require_digest h) (\<lambda>_.
       Inr (map_option invitation_of_row
         (sql_scalar (\<lambda>r. inv_tenant_id r = tenant \<and> inv_token_hash r = h) (td_invitations db)))))"

definition tenant_status_locked :: "uuid \<Rightarrow> tenant_db \<Rightarrow> TenantStatus option result" where
  "tenant_status_locked tenant db =
     bindE (require [uuid_check tenant ''invitation tenant_id'']) (\<lambda>_.
       Inr (map_option ten_status (row_of ten_id tenant (td_tenants db))))"

definition count_pending_by_versions :: "int list \<Rightarrow> datetime \<Rightarrow> tenant_db \<Rightarrow> nat result" where
  "count_pending_by_versions versions now db =
     bindE (require [(versions \<noteq> [] \<and> list_all key_version_ok versions,
       ValueError ''blind-index key versions are invalid'')]) (\<lambda>_.
     bindE (naive now) (\<lambda>n.
       Inr (length (filter (\<lambda>r. inv_status r = Invitation_PENDING \<and> n < inv_expires_at r
           \<and> pred_option (\<lambda>v. v \<in> set versions) (inv_key_version r)) (td_invitations db)))))"

definition get_invitation_for_actor :: "uuid \<Rightarrow> uuid \<Rightarrow> tenant_db \<Rightarrow> InvitationRecord option result" where
  "get_invitation_for_actor tenant invitation db =
     bindE (require_scoped_ids tenant [invitation]) (\<lambda>_.
       Inr (map_option invitation_of_row
         (sql_scalar (\<lambda>r. inv_tenant_id r = tenant \<and> inv_id r = invitation) (td_invitations db))))"

definition role_codes_for_ids_locked :: "uuid \<Rightarrow> uuid list \<Rightarrow> tenant_db \<Rightarrow> (uuid \<times> string) list option result" where
  "role_codes_for_ids_locked tenant ids db =
     bindE (require_scoped_ids tenant ids) (\<lambda>_.
       let rows = active_roles tenant ids db in
       if ids = [] \<or> length rows \<noteq> length ids then Inr None
       else Inr (Some (map (\<lambda>r. (rol_id r, rol_code r)) rows)))"

definition invitation_role_ids :: "uuid \<Rightarrow> uuid \<Rightarrow> tenant_db \<Rightarrow> uuid list" where
  "invitation_role_ids tenant invitation db =
     sort (map irl_role_id (filter (\<lambda>l. irl_tenant_id l = tenant \<and> irl_invitation_id l = invitation) (td_invitation_roles db)))"

definition role_codes_locked :: "uuid \<Rightarrow> uuid \<Rightarrow> tenant_db \<Rightarrow> (uuid \<times> string) list option result" where
  "role_codes_locked tenant invitation db =
     bindE (require_scoped_ids tenant [invitation]) (\<lambda>_.
       let ids = invitation_role_ids tenant invitation db in
       if ids = [] then Inr None else role_codes_for_ids_locked tenant ids db)"

definition user_identities :: "uuid \<Rightarrow> InvitationTargetKind \<Rightarrow> tenant_db \<Rightarrow> identity_row list" where
  "user_identities user kind db =
     sort_key idn_id (filter (\<lambda>i. idn_user_id i = user \<and> idn_kind i = InvitationTargetKind_value kind \<and> idn_status i = ''active'')
       (td_identities db))"

definition lock_active_user_identities :: "uuid \<Rightarrow> InvitationTargetKind \<Rightarrow> tenant_db \<Rightarrow> VerifiedIdentityRecord list option result" where
  "lock_active_user_identities user kind db =
     bindE (require [uuid_check user ''invitation user_id'']) (\<lambda>_.
     case row_of usr_id user (td_users db) of
       None \<Rightarrow> Inr None
     | Some u \<Rightarrow>
         if usr_status u \<noteq> ''active'' then Inr None
         else Inr (Some (map (\<lambda>i. \<lparr>vid_identity_id = idn_id i, vid_kind = kind,
             vid_subject_ciphertext = idn_subject_ciphertext i, vid_verified_at = aware (idn_verified_at i)\<rparr>)
           (user_identities user kind db))))"

definition lock_membership_by_user :: "uuid \<Rightarrow> uuid \<Rightarrow> tenant_db \<Rightarrow> Membership option result" where
  "lock_membership_by_user tenant user db =
     bindE (require_scoped_ids tenant [user]) (\<lambda>_.
       optional_row member_of_row
         (sql_scalar (\<lambda>m. mbr_tenant_id m = tenant \<and> mbr_user_id m = user) (td_memberships db)))"

definition get_membership_in_tenant :: "uuid \<Rightarrow> uuid \<Rightarrow> tenant_db \<Rightarrow> Membership option result" where
  "get_membership_in_tenant tenant membership db =
     bindE (require_scoped_ids tenant [membership]) (\<lambda>_. optional_row member_of_row (find_in_tenant tenant membership db))"

subsection \<open>Writing\<close>

definition legacy_pending :: "invitation_row \<Rightarrow> bool" where
  "legacy_pending r \<longleftrightarrow> inv_status r = Invitation_PENDING \<and> inv_key_version r = None"

definition revoked_invitation :: "int \<Rightarrow> invitation_row \<Rightarrow> invitation_row" where
  "revoked_invitation now r = r\<lparr>inv_status := Invitation_REVOKED, inv_revoked_at := Some now, inv_version := inv_version r + 1\<rparr>"

definition revoke_unversioned_pending :: "datetime \<Rightarrow> tenant_db \<Rightarrow> (nat \<times> tenant_db) result" where
  "revoke_unversioned_pending now db =
     bindE (naive now) (\<lambda>n.
     bindE (sql_update invitation_check legacy_pending (revoked_invitation n) (td_invitations db)) (\<lambda>(rows, count).
       Inr (count, db\<lparr>td_invitations := rows\<rparr>)))"

definition add_invitation :: "InvitationRecord \<Rightarrow> tenant_db \<Rightarrow> tenant_db result" where
  "add_invitation i db =
     bindE (require_invitation_record i) (\<lambda>_.
     bindE (naive (ivr_expires_at i)) (\<lambda>expires.
       insert_invitation
         \<lparr>inv_id = ivr_id i, inv_tenant_id = ivr_tenant_id i, inv_target_kind = ivr_target_kind i,
          inv_target_blind_index = ivr_target_blind_index i, inv_key_version = ivr_key_version i,
          inv_token_hash = ivr_token_hash i, inv_invited_by_membership_id = ivr_invited_by_membership_id i,
          inv_expires_at = expires, inv_accepted_at = None, inv_revoked_at = None, inv_status = ivr_status i,
          inv_version = ivr_version i\<rparr> db))"

definition add_invitation_roles :: "uuid \<Rightarrow> uuid \<Rightarrow> uuid list \<Rightarrow> tenant_db \<Rightarrow> tenant_db result" where
  "add_invitation_roles tenant invitation ids db =
     bindE (require_scoped_ids tenant (invitation # ids)) (\<lambda>_.
       insert_all insert_invitation_role
         (map (\<lambda>r. \<lparr>irl_tenant_id = tenant, irl_invitation_id = invitation, irl_role_id = r\<rparr>) ids) db)"

definition add_joining_membership :: "int \<Rightarrow> Membership \<Rightarrow> tenant_db \<Rightarrow> tenant_db result" where
  "add_joining_membership created m db = bindE (member_row_of created m) (\<lambda>r. insert_member r db)"

definition invited_where :: "Membership \<Rightarrow> member_row \<Rightarrow> bool" where
  "invited_where m r \<longleftrightarrow> mbr_tenant_id r = mem_tenant_id m \<and> mbr_id r = mem_id m \<and> mbr_status r = MembershipStatus_INVITED"

definition activated_member :: "int \<Rightarrow> member_row \<Rightarrow> member_row" where
  "activated_member now r = r\<lparr>mbr_status := MembershipStatus_ACTIVE, mbr_valid_from := now,
     mbr_authz_version := mbr_authz_version r + 1, mbr_version := mbr_version r + 1\<rparr>"

definition activate_membership :: "Membership \<Rightarrow> datetime \<Rightarrow> tenant_db \<Rightarrow> (Membership \<times> tenant_db) result" where
  "activate_membership m now db =
     (case sql_scalar (invited_where m) (td_memberships db) of
        None \<Rightarrow> Inl (RuntimeError ''invited membership disappeared'')
      | Some r \<Rightarrow>
          bindE (naive now) (\<lambda>n.
          bindE (member_of_row (activated_member n r)) (\<lambda>m'.
          bindE (sql_update (\<lambda>_. True) (invited_where m) (activated_member n) (td_memberships db)) (\<lambda>(rows, count).
            Inr (m', db\<lparr>td_memberships := rows\<rparr>)))))"

definition assign_invited_roles :: "uuid \<Rightarrow> uuid \<Rightarrow> uuid list \<Rightarrow> uuid \<Rightarrow> datetime \<Rightarrow> tenant_db \<Rightarrow> tenant_db result" where
  "assign_invited_roles tenant membership ids assigned_by now db =
     bindE (require_scoped_ids tenant (membership # assigned_by # ids)) (\<lambda>_.
     bindE (naive now) (\<lambda>_.
       insert_all (insert_assignment assigned_by)
         (map (\<lambda>r. \<lparr>asg_tenant_id = tenant, asg_membership_id = membership, asg_role_id = r\<rparr>) ids)
         (db\<lparr>td_assignments := filter (\<lambda>a. \<not> (asg_tenant_id a = tenant \<and> asg_membership_id a = membership))
            (td_assignments db)\<rparr>)))"

definition consume_where :: "InvitationRecord \<Rightarrow> invitation_row \<Rightarrow> bool" where
  "consume_where i r \<longleftrightarrow> inv_tenant_id r = ivr_tenant_id i \<and> inv_id r = ivr_id i \<and> inv_version r = ivr_version i
     \<and> inv_status r = Invitation_PENDING"

definition consumed_invitation :: "int \<Rightarrow> invitation_row \<Rightarrow> invitation_row" where
  "consumed_invitation now r = r\<lparr>inv_status := Invitation_ACCEPTED, inv_accepted_at := Some now, inv_version := inv_version r + 1\<rparr>"

definition consume :: "InvitationRecord \<Rightarrow> datetime \<Rightarrow> tenant_db \<Rightarrow> tenant_db result" where
  "consume i now db =
     bindE (require_invitation_record i) (\<lambda>_.
     bindE (naive now) (\<lambda>n.
       if \<not> list_ex (consume_where i) (td_invitations db) then Inl (RuntimeError ''invitation disappeared during acceptance'')
       else bindE (sql_update invitation_check (consume_where i) (consumed_invitation n) (td_invitations db)) (\<lambda>(rows, count).
         Inr (db\<lparr>td_invitations := rows\<rparr>))))"

end
