(* ===== verification/InvitationService.thy ===== *)
theory InvitationService
  imports InvitationStore TenantMembers
begin

text \<open>
  \<open>InvitationService\<close> of \<open>application/invitations.py\<close>: inviting, accepting, and the maintenance of
  invitations whose blind index has no key version.  The delivery of the token, the random token, new
  identifiers and readings of the clock are arguments; decryption of identities and the normalisation of
  telephone numbers and mail addresses are third-party functions.
\<close>

record invitation_service =
  ivs_tenants :: tenant_service
  ivs_token_key :: bytes
  ivs_fingerprint_key :: bytes
  ivs_blind_index :: blind_index
  ivs_normalize :: "InvitationTargetKind \<Rightarrow> ustring \<Rightarrow> ustring result"
  ivs_decrypt :: "bytes \<Rightarrow> bytes \<Rightarrow> ustring result"

abbreviation ivs_hmac :: "invitation_service \<Rightarrow> bytes \<Rightarrow> bytes \<Rightarrow> bytes" where
  "ivs_hmac svc \<equiv> ext_hmac_sha256 (ts_ext (ivs_tenants svc))"

subsection \<open>Tokens and fingerprints\<close>

definition TOKEN_DOMAIN :: bytes where
  "TOKEN_DOMAIN = ascii ''lawyer-agent:tenant-invitation-token:v1'' @ [0]"

definition TARGET_FINGERPRINT_DOMAIN :: bytes where
  "TARGET_FINGERPRINT_DOMAIN = ascii ''lawyer-agent:invitation-target-fingerprint:v1'' @ [0]"

definition TOKEN_PATTERN :: "string \<Rightarrow> bool" where
  "TOKEN_PATTERN = matches_class url_b64_char 43 43"

definition token_digest :: "invitation_service \<Rightarrow> string \<Rightarrow> bytes result" where
  "token_digest svc token =
     (if \<not> TOKEN_PATTERN token then Inl InvitationUnavailable
      else Inr (ivs_hmac svc (ivs_token_key svc) (TOKEN_DOMAIN @ ascii token)))"

definition target_fingerprint :: "invitation_service \<Rightarrow> InvitationTargetKind \<Rightarrow> ustring \<Rightarrow> bytes result" where
  "target_fingerprint svc kind subject =
     bindE (require [(subject \<noteq> [], ValueError ''normalized invitation target must be non-empty text'')]) (\<lambda>_.
     bindE (encode_utf8 subject) (\<lambda>s.
       Inr (ivs_hmac svc (ivs_fingerprint_key svc)
         (TARGET_FINGERPRINT_DOMAIN @ ascii (InvitationTargetKind_value kind) @ [0] @ s))))"

definition invite_purpose :: "InvitationTargetKind \<Rightarrow> string" where
  "invite_purpose kind = ''invite:'' @ InvitationTargetKind_value kind"

definition active_invite_index :: "invitation_service \<Rightarrow> InvitationTargetKind \<Rightarrow> ustring \<Rightarrow> VersionedBlindIndex result" where
  "active_invite_index svc kind subject =
     bindE (blind_digests (ivs_hmac svc) (ivs_blind_index svc) (invite_purpose kind) subject) (\<lambda>indexes.
     case find (\<lambda>d. vbi_key_version d = bix_active_key_version (ivs_blind_index svc)) indexes of
       None \<Rightarrow> Inl (RuntimeError ''active invitation blind-index version is unavailable'')
     | Some d \<Rightarrow> Inr d)"

definition hex_bytes :: "bytes \<Rightarrow> string" where
  "hex_bytes bs = concat (map (\<lambda>b. [hex_digit (unat b div 16), hex_digit (unat b mod 16)]) bs)"

text \<open>\<open>datetime.isoformat()\<close> of a value in UTC.\<close>

definition isoformat :: "datetime \<Rightarrow> string" where
  "isoformat d =
     (let (year, r) = year_and_day (nat (calendar_day d));
          (month, day) = month_and_day (month_lengths (leap_year year)) 1 r;
          tod = nat (dt_wall d mod 86400000000);
          s = tod div 1000000; us = tod mod 1000000
      in pad 10 4 year @ ''-'' @ pad 10 2 month @ ''-'' @ pad 10 2 (day + 1) @ ''T''
         @ pad 10 2 (s div 3600) @ '':'' @ pad 10 2 (s div 60 mod 60) @ '':'' @ pad 10 2 (s mod 60)
         @ (if us = 0 then [] else ''.'' @ pad 10 6 us) @ ''+00:00'')"

subsection \<open>Commands\<close>

record CreateInvitationCommand =
  cin_target_kind :: InvitationTargetKind
  cin_target :: ustring
  cin_role_ids :: "uuid list"
  cin_expires_at :: datetime
  cin_idempotency_key :: string
  cin_audit_context :: AuditContext

definition CreateInvitationCommand_post_init :: "CreateInvitationCommand \<Rightarrow> unit result" where
  "CreateInvitationCommand_post_init c = require
     ((cin_role_ids c \<noteq> [] \<and> cin_role_ids c = sort_key uuid_str (remdups (cin_role_ids c)),
         ValueError ''invitation role_ids must be unique and ordered'')
      # map (\<lambda>r. uuid_check r ''invitation role_id'') (cin_role_ids c)
      @ [utc_check (cin_expires_at c) ''invitation expires_at''])"

record AcceptInvitationCommand =
  ain_actor_user_id :: uuid
  ain_token :: string
  ain_idempotency_key :: string
  ain_audit_context :: AuditContext

definition AcceptInvitationCommand_post_init :: "AcceptInvitationCommand \<Rightarrow> unit result" where
  "AcceptInvitationCommand_post_init c = require
     [uuid_check (ain_actor_user_id c) ''invitation actor_user_id'', (TOKEN_PATTERN (ain_token c), InvitationUnavailable)]"

record InvitationResult =
  ivt_invitation_id :: uuid
  ivt_tenant_id :: uuid
  ivt_expires_at :: datetime
  ivt_status :: InvitationStatus
  ivt_replayed :: bool

record InvitationAcceptanceResult =
  iar_invitation_id :: uuid
  iar_membership :: Membership
  iar_role_ids :: "uuid list"
  iar_replayed :: bool

definition invitation_result :: "InvitationRecord \<Rightarrow> bool \<Rightarrow> InvitationResult" where
  "invitation_result i replayed =
     \<lparr>ivt_invitation_id = ivr_id i, ivt_tenant_id = ivr_tenant_id i, ivt_expires_at = ivr_expires_at i,
      ivt_status = ivr_status i, ivt_replayed = replayed\<rparr>"

subsection \<open>Roles that may be given\<close>

definition member_type_for_roles :: "string set \<Rightarrow> MemberType result" where
  "member_type_for_roles roles =
     (if ''tenant_owner'' \<in> roles \<or> roles = {} then Inl InvitationRoleDenied
      else if ''student'' \<in> roles
      then if roles \<noteq> {''student''} then Inl InvitationRoleDenied else Inr MemberType_STUDENT
      else if ''external_client'' \<in> roles
      then if roles \<noteq> {''external_client''} then Inl InvitationRoleDenied else Inr MemberType_EXTERNAL_CLIENT
      else Inr MemberType_INTERNAL)"

definition validate_invitation_roles :: "string set \<Rightarrow> string set \<Rightarrow> unit result" where
  "validate_invitation_roles actor invited =
     bindE (require
       [(\<not> (actor = {} \<or> invited = {} \<or> \<not> ranked (actor \<union> invited) \<or> ''tenant_owner'' \<in> invited
           \<or> (''department_admin'' \<in> actor \<and> actor \<inter> {''tenant_owner'', ''tenant_admin''} = {})), InvitationRoleDenied),
        (\<not> (rank_of actor < rank_of invited
           \<or> (''tenant_owner'' \<notin> actor \<and> rank_of actor \<le> rank_of invited)), InvitationRoleDenied),
        (\<not> (''tenant_admin'' \<in> actor \<and> ''tenant_owner'' \<in> invited), InvitationRoleDenied)]) (\<lambda>_.
     bindE (member_type_for_roles invited) (\<lambda>_. Inr ()))"

subsection \<open>Authorization\<close>

definition invitation_now :: "datetime \<Rightarrow> datetime result" where
  "invitation_now clock = bindE (require [utc_check clock ''clock'']) (\<lambda>_. Inr clock)"

definition require_tenant_snapshot :: "TenantActor \<Rightarrow> datetime \<Rightarrow> tenant_db \<Rightarrow> TenantAuthorizationSnapshot result" where
  "require_tenant_snapshot actor clock db =
     bindE (load_snapshot (act_principal actor) (act_context actor) [] db) (\<lambda>found.
     case found of
       None \<Rightarrow> Inl TenantResourceNotFound
     | Some snap \<Rightarrow>
         bindE (invitation_now clock) (\<lambda>now.
         let p = act_principal actor; c = act_context actor; version = mem_authz_version (tas_actor_membership snap) in
         bindE (require [(case tas_actor_session snap of
            None \<Rightarrow> False
          | Some s \<Rightarrow>
              ass_id s = pr_session_id p \<and> ass_user_id s = pr_user_id p
              \<and> (ass_tenant_id s, ass_membership_id s, ass_authz_version_at_issue s)
                  \<in> {(None, None, None), (pr_tenant_id p, pr_membership_id p, Some version)}
              \<and> ass_revoked_at s = None \<and> instant now < instant (ass_expires_at s)
              \<and> ass_auth_version_at_issue s = tas_user_auth_version snap
              \<and> pr_auth_version p = tas_user_auth_version snap \<and> pr_session_auth_version p = tas_user_auth_version snap
              \<and> ctx_authz_version c = Some version \<and> ctx_session_authz_version c = Some version,
            InvitationAuthorizationDenied ''session_invalid'')]) (\<lambda>_. Inr snap)))"

definition authorize_invitation :: "TenantActor \<Rightarrow> TenantAuthorizationSnapshot \<Rightarrow> Action \<Rightarrow> datetime \<Rightarrow> unit result" where
  "authorize_invitation actor snap action clock =
     bindE (invitation_now clock) (\<lambda>now.
     let decision = PolicyEngine_decide (snapshot_principal actor snap) (tas_context snap) action
           (tenant_resource (tenant_id (tas_tenant snap)) {} None) now in
     if allowed decision then Inr () else Inl (InvitationAuthorizationDenied (reason_code decision)))"

definition inviting_snapshot :: "TenantActor \<Rightarrow> (nat \<Rightarrow> datetime) \<Rightarrow> tenant_db \<Rightarrow> TenantAuthorizationSnapshot result" where
  "inviting_snapshot actor clock db =
     bindE (require_tenant_snapshot actor (clock 0) db) (\<lambda>snap.
     bindE (authorize_invitation actor snap MEMBERSHIP_INVITE (clock 1)) (\<lambda>_.
     bindE (authorize_invitation actor snap ROLE_ASSIGN (clock 2)) (\<lambda>_. Inr snap)))"

definition invitation_audit_event :: "uuid \<Rightarrow> AuditContext \<Rightarrow> uuid option \<Rightarrow> uuid option \<Rightarrow> uuid option \<Rightarrow> string \<Rightarrow> string
    \<Rightarrow> string option \<Rightarrow> uuid option \<Rightarrow> datetime \<Rightarrow> StructuredAuditEvent result" where
  "invitation_audit_event fresh ctx user tenant membership action reason target_type target now =
     (let e = \<lparr>sev_id = fresh,
               sev_actor_kind = (if action = ''invitation.blind_index_legacy_reconcile'' then SYSTEM_GLOBAL_MAINTENANCE else TENANT_USER),
               sev_action = action, sev_result = ''success'',
               sev_reason_code = reason, sev_trace_id = actx_trace_id ctx, sev_occurred_at = now,
               sev_tenant_id = tenant, sev_actor_user_id = user, sev_actor_membership_id = membership,
               sev_on_behalf_of_user_id = None, sev_on_behalf_of_membership_id = None, sev_target_job_id = None,
               sev_attempt_id = None, sev_message_id = None, sev_rollout_feature_code = None,
               sev_rollout_generation = None, sev_target_type = target_type, sev_target_id = target,
               sev_client_ip_hash = actx_client_ip_hash ctx, sev_user_agent_hash = actx_user_agent_hash ctx\<rparr>
      in bindE (StructuredAuditEvent_post_init e) (\<lambda>_. Inr e))"

subsection \<open>Inviting\<close>

record invitation_fresh =
  ivf_record_id :: uuid
  ivf_id :: uuid
  ivf_audit_id :: uuid
  ivf_token :: string

definition invitation_request :: "TenantActor \<Rightarrow> CreateInvitationCommand \<Rightarrow> bytes \<Rightarrow> IdempotencyRequest" where
  "invitation_request actor c fingerprint =
     \<lparr>req_key = cin_idempotency_key c, req_method = ''POST'', req_canonical_route = tenant_route actor @ ''/invitations'',
      req_body = \<lparr>payload_values =
         [(''target_kind'', JStr (InvitationTargetKind_value (cin_target_kind c))),
          (''target_fingerprint'', JStr (hex_bytes fingerprint)),
          (''role_ids'', JList (map (JStr \<circ> uuid_str) (cin_role_ids c))),
          (''expires_at'', JStr (isoformat (cin_expires_at c)))],
        payload_business_paths = [[''target_kind''], [''target_fingerprint''], [''role_ids''], [''expires_at'']],
        payload_secret_paths = []\<rparr>\<rparr>"

definition replay_invitation :: "TenantActor \<Rightarrow> IdempotencyResultReference \<Rightarrow> tenant_db \<Rightarrow> InvitationResult result" where
  "replay_invitation actor ref db =
     (if ref_result_type ref \<noteq> ''invitation'' then Inl InvitationUnavailable
      else bindE (get_invitation_for_actor (ctx_tenant_id (act_context actor)) (ref_result_id ref) db) (\<lambda>found.
      case found of None \<Rightarrow> Inl InvitationUnavailable | Some i \<Rightarrow> Inr (invitation_result i True)))"

definition new_invitation :: "invitation_service \<Rightarrow> invitation_fresh \<Rightarrow> TenantActor \<Rightarrow> uuid \<Rightarrow> CreateInvitationCommand \<Rightarrow> ustring
    \<Rightarrow> InvitationRecord result" where
  "new_invitation svc fr actor inviter c subject =
     bindE (active_invite_index svc (cin_target_kind c) subject) (\<lambda>index.
     bindE (token_digest svc (ivf_token fr)) (\<lambda>h.
       Inr \<lparr>ivr_id = ivf_id fr, ivr_tenant_id = ctx_tenant_id (act_context actor), ivr_target_kind = cin_target_kind c,
            ivr_target_blind_index = vbi_digest index, ivr_key_version = Some (vbi_key_version index), ivr_token_hash = h,
            ivr_invited_by_membership_id = inviter, ivr_expires_at = cin_expires_at c, ivr_accepted_at = None,
            ivr_revoked_at = None, ivr_status = Invitation_PENDING, ivr_version = 1\<rparr>))"

definition store_invitation :: "invitation_service \<Rightarrow> invitation_fresh \<Rightarrow> TenantActor \<Rightarrow> uuid \<Rightarrow> CreateInvitationCommand \<Rightarrow> ustring
    \<Rightarrow> IdempotencyReservation \<Rightarrow> datetime \<Rightarrow> tenant_db \<Rightarrow> (InvitationResult \<times> tenant_db) result" where
  "store_invitation svc fr actor inviter c subject rsv now db =
     bindE (new_invitation svc fr actor inviter c subject) (\<lambda>i.
     bindE (add_invitation i db) (\<lambda>db1.
     bindE (add_invitation_roles (ivr_tenant_id i) (ivr_id i) (cin_role_ids c) db1) (\<lambda>db2.
     bindE (invitation_audit_event (ivf_audit_id fr) (cin_audit_context c) (Some (pr_user_id (act_principal actor)))
         (Some (ivr_tenant_id i)) (Some inviter) ''membership.invite'' ''invitation_created'' (Some ''invitation'') (Some (ivr_id i)) now) (\<lambda>e.
     bindE (append_structured e db2) (\<lambda>db3.
     bindE (complete_in rsv ''invitation'' (ivr_id i) None None now db3) (\<lambda>db4.
       Inr (invitation_result i False, db4)))))))"

text \<open>The second component tells whether the token is to be delivered.\<close>

definition invite_body :: "invitation_service \<Rightarrow> invitation_fresh \<Rightarrow> TenantActor \<Rightarrow> CreateInvitationCommand \<Rightarrow> ustring \<Rightarrow> bytes
    \<Rightarrow> (nat \<Rightarrow> datetime) \<Rightarrow> datetime \<Rightarrow> tenant_db \<Rightarrow> (InvitationResult \<times> tenant_db) result" where
  "invite_body svc fr actor c subject fingerprint clock now db =
     bindE (inviting_snapshot actor (\<lambda>i. clock (1 + i)) db) (\<lambda>_.
     case ctx_membership_id (act_context actor) of
       None \<Rightarrow> Inl (InvitationAuthorizationDenied ''membership_inactive'')
     | Some inviter \<Rightarrow>
     bindE (acquire_write actor [] db) (\<lambda>_.
     bindE (inviting_snapshot actor (\<lambda>i. clock (4 + i)) db) (\<lambda>locked.
     bindE (role_codes_for_ids_locked (ctx_tenant_id (act_context actor)) (cin_role_ids c) db) (\<lambda>found.
     case found of
       None \<Rightarrow> Inl TenantResourceNotFound
     | Some codes \<Rightarrow>
     bindE (validate_invitation_roles (tas_role_codes locked) (snd ` set codes)) (\<lambda>_.
     bindE (membership_scope actor) (\<lambda>scope.
     bindE (reserve_in (ivs_tenants svc) scope ''membership.invite'' (invitation_request actor c fingerprint) now
         (ivf_record_id fr) db) (\<lambda>(rsv, db1).
     case rsv_replay rsv of
       Some ref \<Rightarrow> bindE (replay_invitation actor ref db1) (\<lambda>r. Inr (r, db1))
     | None \<Rightarrow> store_invitation svc fr actor inviter c subject rsv now db1)))))))"

text \<open>\<open>InvitationDeliveryError\<close> carries the committed result.\<close>

datatype invitation_outcome = Invited "InvitationResult result" | InvitationDeliveryError InvitationResult

definition create_invitation :: "invitation_service \<Rightarrow> invitation_fresh \<Rightarrow> TenantActor \<Rightarrow> CreateInvitationCommand \<Rightarrow> (nat \<Rightarrow> datetime)
    \<Rightarrow> bool option \<Rightarrow> tenant_db \<Rightarrow> invitation_outcome \<times> tenant_db" where
  "create_invitation svc fr actor c clock delivery db =
     (case bindE (CreateInvitationCommand_post_init c) (\<lambda>_.
           bindE (require [(delivery \<noteq> None, InvitationDeliveryUnavailable)]) (\<lambda>_.
           bindE (invitation_now (clock 0)) (\<lambda>now.
           bindE (require [(instant now < instant (cin_expires_at c), ValueError ''invitation expiry must be in the future'')]) (\<lambda>_.
           bindE (ivs_normalize svc (cin_target_kind c) (cin_target c)) (\<lambda>subject.
           bindE (target_fingerprint svc (cin_target_kind c) subject) (\<lambda>fp. Inr (now, subject, fp))))))) of
        Inl e \<Rightarrow> (Invited (Inl e), db)
      | Inr (now, subject, fp) \<Rightarrow>
          (case transaction (invite_body svc fr actor c subject fp clock now) db of
             (Inl e, db') \<Rightarrow> (Invited (Inl e), db')
           | (Inr r, db') \<Rightarrow>
               (if ivt_replayed r \<or> delivery = Some True then Invited (Inr r) else InvitationDeliveryError r, db')))"

subsection \<open>Accepting\<close>

record acceptance_fresh =
  acf_record_id :: uuid
  acf_membership_id :: uuid
  acf_audit_id :: uuid

definition identity_aad :: "VerifiedIdentityRecord \<Rightarrow> bytes" where
  "identity_aad i = ascii (''auth_identity:'' @ uuid_str (vid_identity_id i) @ '':subject'')"

text \<open>\<open>UnicodeError\<close> is a \<open>ValueError\<close>; an identity that raises one is skipped.\<close>

definition identity_candidates :: "invitation_service \<Rightarrow> VerifiedIdentityRecord \<Rightarrow> VersionedBlindIndex list result" where
  "identity_candidates svc i =
     (case bindE (ivs_decrypt svc (vid_subject_ciphertext i) (identity_aad i)) (\<lambda>subject.
           bindE (ivs_normalize svc (vid_kind i) subject) (\<lambda>normalized.
             blind_digests (ivs_hmac svc) (ivs_blind_index svc) (invite_purpose (vid_kind i)) normalized)) of
        Inr ds \<Rightarrow> Inr ds
      | Inl (ValueError m) \<Rightarrow> Inr []
      | Inl e \<Rightarrow> Inl e)"

fun matches_target :: "invitation_service \<Rightarrow> InvitationRecord \<Rightarrow> VerifiedIdentityRecord list \<Rightarrow> bool result" where
  "matches_target svc i [] = Inr False"
| "matches_target svc i (v # vs) =
     bindE (identity_candidates svc v) (\<lambda>ds.
     bindE (matches_target svc i vs) (\<lambda>later.
       Inr (later \<or> (ivr_key_version i \<noteq> None
         \<and> list_ex (\<lambda>d. Some (vbi_key_version d) = ivr_key_version i \<and> vbi_digest d = ivr_target_blind_index i) ds))))"

definition acceptance_request :: "AcceptInvitationCommand \<Rightarrow> bytes \<Rightarrow> IdempotencyRequest" where
  "acceptance_request c h =
     \<lparr>req_key = ain_idempotency_key c, req_method = ''POST'', req_canonical_route = ''/api/v1/invitations/accept'',
      req_body = \<lparr>payload_values = [(''token_digest'', JStr (hex_bytes h))],
        payload_business_paths = [[''token_digest'']], payload_secret_paths = []\<rparr>\<rparr>"

definition replay_acceptance :: "AcceptInvitationCommand \<Rightarrow> InvitationRecord \<Rightarrow> (uuid \<times> string) list \<Rightarrow> IdempotencyResultReference
    \<Rightarrow> tenant_db \<Rightarrow> InvitationAcceptanceResult result" where
  "replay_acceptance c i roles ref db =
     (if ref_result_type ref \<noteq> ''membership'' then Inl InvitationUnavailable
      else bindE (get_membership_in_tenant (ivr_tenant_id i) (ref_result_id ref) db) (\<lambda>found.
      case found of
        None \<Rightarrow> Inl InvitationUnavailable
      | Some m \<Rightarrow>
          if mem_user_id m \<noteq> ain_actor_user_id c then Inl InvitationUnavailable
          else Inr \<lparr>iar_invitation_id = ivr_id i, iar_membership = m, iar_role_ids = sort_key uuid_str (map fst roles),
                    iar_replayed = True\<rparr>))"

definition joining_membership :: "acceptance_fresh \<Rightarrow> AcceptInvitationCommand \<Rightarrow> InvitationRecord \<Rightarrow> MemberType \<Rightarrow> datetime \<Rightarrow> Membership" where
  "joining_membership fr c i kind now =
     \<lparr>mem_id = acf_membership_id fr, mem_tenant_id = ivr_tenant_id i, mem_user_id = ain_actor_user_id c,
      mem_department_id = None, mem_member_type = kind, mem_status = MembershipStatus_ACTIVE,
      mem_valid_from = now, mem_valid_until = None, mem_authz_version = 1, mem_version = 1\<rparr>"

definition join_tenant :: "acceptance_fresh \<Rightarrow> AcceptInvitationCommand \<Rightarrow> InvitationRecord \<Rightarrow> Membership option \<Rightarrow> MemberType
    \<Rightarrow> int \<Rightarrow> datetime \<Rightarrow> tenant_db \<Rightarrow> (Membership \<times> tenant_db) result" where
  "join_tenant fr c i membership kind created now db =
     (case membership of
        None \<Rightarrow>
          (let m = joining_membership fr c i kind now in
           bindE (Membership_post_init m) (\<lambda>_. bindE (add_joining_membership created m db) (\<lambda>db1. Inr (m, db1))))
      | Some m \<Rightarrow>
          if mem_status m = MembershipStatus_INVITED \<and> mem_member_type m = kind then activate_membership m now db
          else Inl InvitationUnavailable)"

definition finish_acceptance :: "invitation_service \<Rightarrow> acceptance_fresh \<Rightarrow> AcceptInvitationCommand \<Rightarrow> InvitationRecord
    \<Rightarrow> VerifiedIdentityRecord list \<Rightarrow> Membership option \<Rightarrow> (uuid \<times> string) list \<Rightarrow> IdempotencyReservation \<Rightarrow> int \<Rightarrow> datetime
    \<Rightarrow> tenant_db \<Rightarrow> (InvitationAcceptanceResult \<times> tenant_db) result" where
  "finish_acceptance svc fr c i identities membership roles rsv created now db =
     (if ivr_status i \<noteq> Invitation_PENDING \<or> ivr_accepted_at i \<noteq> None \<or> ivr_revoked_at i \<noteq> None
         \<or> instant (ivr_expires_at i) \<le> instant now then Inl InvitationUnavailable
      else bindE (matches_target svc i identities) (\<lambda>matched.
      if \<not> matched then Inl InvitationUnavailable
      else let ids = sort_key uuid_str (map fst roles) in
      bindE (member_type_for_roles (snd ` set roles)) (\<lambda>kind.
      bindE (join_tenant fr c i membership kind created now db) (\<lambda>(m, db1).
      bindE (assign_invited_roles (ivr_tenant_id i) (mem_id m) ids (ivr_invited_by_membership_id i) now db1) (\<lambda>db2.
      bindE (consume i now db2) (\<lambda>db3.
      bindE (invitation_audit_event (acf_audit_id fr) (ain_audit_context c) (Some (ain_actor_user_id c)) (Some (ivr_tenant_id i))
          (Some (mem_id m)) ''invitation.accept'' ''invitation_accepted'' (Some ''membership'') (Some (mem_id m)) now) (\<lambda>e.
      bindE (append_structured e db3) (\<lambda>db4.
      bindE (complete_in rsv ''membership'' (mem_id m) None None now db4) (\<lambda>db5.
        Inr (\<lparr>iar_invitation_id = ivr_id i, iar_membership = m, iar_role_ids = ids, iar_replayed = False\<rparr>, db5))))))))))"

definition open_invitation :: "InvitationLocator \<Rightarrow> bytes \<Rightarrow> tenant_db \<Rightarrow> InvitationRecord result" where
  "open_invitation loc h db =
     bindE (acquire_tenant_gate (loc_tenant_id loc) (session_view db)) (\<lambda>ok.
     if \<not> ok then Inl InvitationUnavailable else
     bindE (tenant_status_locked (loc_tenant_id loc) db) (\<lambda>status.
     if status \<notin> {Some TenantStatus_PENDING_VERIFICATION, Some TenantStatus_ACTIVE} then Inl InvitationUnavailable else
     bindE (lock_by_token_hash (loc_tenant_id loc) h db) (\<lambda>found.
     case found of
       None \<Rightarrow> Inl InvitationUnavailable
     | Some i \<Rightarrow> if ivr_id i \<noteq> loc_invitation_id loc then Inl InvitationUnavailable else Inr i)))"

definition accept_body :: "invitation_service \<Rightarrow> acceptance_fresh \<Rightarrow> AcceptInvitationCommand \<Rightarrow> InvitationLocator \<Rightarrow> bytes \<Rightarrow> int
    \<Rightarrow> datetime \<Rightarrow> tenant_db \<Rightarrow> (InvitationAcceptanceResult \<times> tenant_db) result" where
  "accept_body svc fr c loc h created now db =
     bindE (open_invitation loc h db) (\<lambda>i.
     bindE (lock_active_user_identities (ain_actor_user_id c) (ivr_target_kind i) db) (\<lambda>identities.
     bindE (lock_membership_by_user (ivr_tenant_id i) (ain_actor_user_id c) db) (\<lambda>membership.
     bindE (role_codes_locked (ivr_tenant_id i) (ivr_id i) db) (\<lambda>roles.
     case (identities, roles) of
       (Some ids, Some (r # rs)) \<Rightarrow>
         (let scope = \<lparr>scope_type = ScopeType_USER, scope_id = ain_actor_user_id c, scope_tenant_id = None\<rparr> in
          bindE (IdempotencyScope_post_init scope) (\<lambda>_.
          bindE (reserve_in (ivs_tenants svc) scope ''invitation.accept'' (acceptance_request c h) now (acf_record_id fr) db)
            (\<lambda>(rsv, db1).
          case rsv_replay rsv of
            Some ref \<Rightarrow> bindE (replay_acceptance c i (r # rs) ref db1) (\<lambda>a. Inr (a, db1))
          | None \<Rightarrow> finish_acceptance svc fr c i ids membership (r # rs) rsv created now db1)))
     | _ \<Rightarrow> Inl InvitationUnavailable))))"

text \<open>The locator is read in a transaction of its own; others may lie between (\<open>meanwhile\<close>).\<close>

definition accept_invitation :: "invitation_service \<Rightarrow> acceptance_fresh \<Rightarrow> AcceptInvitationCommand \<Rightarrow> int \<Rightarrow> datetime
    \<Rightarrow> (tenant_db \<Rightarrow> tenant_db) \<Rightarrow> tenant_db \<Rightarrow> InvitationAcceptanceResult result \<times> tenant_db" where
  "accept_invitation svc fr c created clock meanwhile db =
     (case bindE (AcceptInvitationCommand_post_init c) (\<lambda>_.
           bindE (invitation_now clock) (\<lambda>now.
           bindE (token_digest svc (ain_token c)) (\<lambda>h.
           bindE (locate_by_token_hash h db) (\<lambda>loc. Inr (now, h, loc))))) of
        Inl e \<Rightarrow> (Inl e, db)
      | Inr (now, h, None) \<Rightarrow> (Inl InvitationUnavailable, db)
      | Inr (now, h, Some loc) \<Rightarrow> transaction (accept_body svc fr c loc h created now) (meanwhile db))"

subsection \<open>Invitations without a key version\<close>

definition assert_versions_retirable :: "int list \<Rightarrow> datetime \<Rightarrow> tenant_db \<Rightarrow> unit result" where
  "assert_versions_retirable versions clock db =
     bindE (require [(versions \<noteq> [] \<and> versions = sort (remdups versions) \<and> list_all key_version_ok versions,
       ValueError ''retiring blind-index versions must be unique and ordered'')]) (\<lambda>_.
     bindE (invitation_now clock) (\<lambda>now.
     bindE (count_pending_by_versions versions now db) (\<lambda>n.
       if n \<noteq> 0 then Inl InvitationBlindIndexRetirementBlocked else Inr ())))"

record WritersDrainedAck =
  wda_deployment_reference :: string
  wda_confirmed_at :: datetime

definition deployment_char :: "char \<Rightarrow> bool" where
  "deployment_char c \<longleftrightarrow> is_alnum c \<or> c \<in> {CHR ''.'', CHR ''_'', CHR '':'', CHR ''-''}"

definition DEPLOYMENT_REFERENCE_PATTERN :: "string \<Rightarrow> bool" where
  "DEPLOYMENT_REFERENCE_PATTERN s \<longleftrightarrow> s \<noteq> [] \<and> is_alnum (hd s) \<and> matches_class deployment_char 7 127 (tl s)"

definition WritersDrainedAck_post_init :: "WritersDrainedAck \<Rightarrow> unit result" where
  "WritersDrainedAck_post_init a = require
     [(DEPLOYMENT_REFERENCE_PATTERN (wda_deployment_reference a), ValueError ''deployment reference is invalid''),
      utc_check (wda_confirmed_at a) ''writers-drained confirmed_at'']"

record LegacyReconciliationResult =
  lrr_deployment_reference :: string
  lrr_revoked_count :: nat
  lrr_reconciled_at :: datetime

definition reconcile_body :: "uuid \<Rightarrow> AuditContext \<Rightarrow> datetime \<Rightarrow> tenant_db \<Rightarrow> (nat \<times> tenant_db) result" where
  "reconcile_body fresh ctx now db =
     bindE (revoke_unversioned_pending now db) (\<lambda>(n, db1).
     bindE (invitation_audit_event fresh ctx None None None ''invitation.blind_index_legacy_reconcile''
         ''legacy_unversioned_invitations_revoked'' (Some ''tenant_invitation'') None now) (\<lambda>e.
     bindE (append_structured e db1) (\<lambda>db2. Inr (n, db2))))"

definition reconcile_legacy :: "uuid \<Rightarrow> WritersDrainedAck \<Rightarrow> AuditContext \<Rightarrow> datetime \<Rightarrow> tenant_db
    \<Rightarrow> LegacyReconciliationResult result \<times> tenant_db" where
  "reconcile_legacy fresh ack ctx clock db =
     (case bindE (WritersDrainedAck_post_init ack) (\<lambda>_.
           bindE (invitation_now clock) (\<lambda>now.
           bindE (require [(instant (wda_confirmed_at ack) \<le> instant now,
             ValueError ''writers-drained acknowledgement cannot be in the future'')]) (\<lambda>_. Inr now))) of
        Inl e \<Rightarrow> (Inl e, db)
      | Inr now \<Rightarrow>
          (case transaction (reconcile_body fresh ctx now) db of
             (Inl e, db') \<Rightarrow> (Inl e, db')
           | (Inr n, db') \<Rightarrow> (Inr \<lparr>lrr_deployment_reference = wda_deployment_reference ack, lrr_revoked_count = n,
                lrr_reconciled_at = now\<rparr>, db')))"

end
