(* ===== verification/InvitationInvariant.thy ===== *)
theory InvitationInvariant
  imports TenantOwners InvitationService
begin

text \<open>
  What the transactions of the invitation service do to the tables, statement by statement, and the order on
  invitation rows that every operation respects.
\<close>

subsection \<open>Statements\<close>

lemma insert_invitation_role_Inr:
  "insert_invitation_role l db = Inr db' \<Longrightarrow> db' = db\<lparr>td_invitation_roles := td_invitation_roles db @ [l]\<rparr>
     \<and> l \<notin> set (td_invitation_roles db)"
  by (auto simp: insert_invitation_role_def bindE_eq_Inr sql_insert_Inr)

interpretation invitation_roles: keyed_insert insert_invitation_role td_invitation_roles
  "\<lambda>rows. td_invitation_roles_update (\<lambda>_. rows)" id
  by unfold_locales (auto dest: insert_invitation_role_Inr)

definition invitation_row_of :: "InvitationRecord \<Rightarrow> invitation_row" where
  "invitation_row_of i =
     \<lparr>inv_id = ivr_id i, inv_tenant_id = ivr_tenant_id i, inv_target_kind = ivr_target_kind i,
      inv_target_blind_index = ivr_target_blind_index i, inv_key_version = ivr_key_version i,
      inv_token_hash = ivr_token_hash i, inv_invited_by_membership_id = ivr_invited_by_membership_id i,
      inv_expires_at = dt_wall (ivr_expires_at i), inv_accepted_at = None, inv_revoked_at = None, inv_status = ivr_status i,
      inv_version = ivr_version i\<rparr>"

lemma add_invitation_Inr:
  assumes "add_invitation i db = Inr db'"
  shows "db' = db\<lparr>td_invitations := td_invitations db @ [invitation_row_of i]\<rparr>"
    "ivr_id i \<notin> inv_id ` set (td_invitations db)" "ivr_token_hash i \<notin> inv_token_hash ` set (td_invitations db)"
  using assms
  by (auto simp: add_invitation_def insert_invitation_def bindE_eq_Inr naive_eq_Inr sql_insert_Inr invitation_conflict_def invitation_row_of_def)

lemma add_invitation_roles_Inr:
  "add_invitation_roles tenant i ids db = Inr db' \<Longrightarrow> db' = db\<lparr>td_invitation_roles := td_invitation_roles db
     @ map (\<lambda>r. \<lparr>irl_tenant_id = tenant, irl_invitation_id = i, irl_role_id = r\<rparr>) ids\<rparr>"
  by (auto simp: add_invitation_roles_def bindE_eq_Inr dest: invitation_roles.insert_all_Inr)

lemma assign_invited_roles_Inr:
  assumes "assign_invited_roles tenant membership ids assigned_by now db = Inr db'"
  shows "db' = db\<lparr>td_assignments :=
      filter (\<lambda>a. \<not> (asg_tenant_id a = tenant \<and> asg_membership_id a = membership)) (td_assignments db)
      @ map (\<lambda>r. \<lparr>asg_tenant_id = tenant, asg_membership_id = membership, asg_role_id = r\<rparr>) ids\<rparr>"
    and "distinct (td_assignments db) \<Longrightarrow> distinct (td_assignments db')"
proof -
  let ?db = "db\<lparr>td_assignments := filter (\<lambda>a. \<not> (asg_tenant_id a = tenant \<and> asg_membership_id a = membership)) (td_assignments db)\<rparr>"
  have ins: "insert_all (insert_assignment assigned_by)
      (map (\<lambda>r. \<lparr>asg_tenant_id = tenant, asg_membership_id = membership, asg_role_id = r\<rparr>) ids) ?db = Inr db'"
    using assms by (auto simp: assign_invited_roles_def bindE_eq_Inr)
  show "db' = db\<lparr>td_assignments :=
      filter (\<lambda>a. \<not> (asg_tenant_id a = tenant \<and> asg_membership_id a = membership)) (td_assignments db)
      @ map (\<lambda>r. \<lparr>asg_tenant_id = tenant, asg_membership_id = membership, asg_role_id = r\<rparr>) ids\<rparr>"
    using assignments.insert_all_Inr [OF ins] by simp
  show "distinct (td_assignments db) \<Longrightarrow> distinct (td_assignments db')"
    using assignments.insert_all_distinct [OF ins] by simp
qed

definition consumed :: "InvitationRecord \<Rightarrow> int \<Rightarrow> invitation_row \<Rightarrow> invitation_row" where
  "consumed i n r = (if consume_where i r then consumed_invitation n r else r)"

lemma consume_Inr:
  assumes "consume i now db = Inr db'"
  shows "db' = db\<lparr>td_invitations := map (consumed i (dt_wall now)) (td_invitations db)\<rparr>"
    "list_ex (consume_where i) (td_invitations db)" "is_utc now" "ivr_key_version i \<noteq> None"
  using assms
  by (auto simp: consume_def bindE_eq_Inr naive_eq_Inr sql_update_Inr consumed_def require_invitation_record_def
      require_eq_Inr split: if_split_asm)

lemma revoke_unversioned_pending_Inr:
  "revoke_unversioned_pending now db = Inr (n, db') \<Longrightarrow> db' = db\<lparr>td_invitations :=
     map (\<lambda>r. if legacy_pending r then revoked_invitation (dt_wall now) r else r) (td_invitations db)\<rparr>"
  by (auto simp: revoke_unversioned_pending_def bindE_eq_Inr naive_eq_Inr sql_update_Inr)

subsection \<open>Joining\<close>

text \<open>A member joins a tenant: a new row, or a row that was only invited becomes active.\<close>

definition activated :: "uuid \<Rightarrow> uuid \<Rightarrow> int \<Rightarrow> member_row \<Rightarrow> member_row" where
  "activated t i n r = (if mbr_tenant_id r = t \<and> mbr_id r = i \<and> mbr_status r = MembershipStatus_INVITED
     then activated_member n r else r)"

lemma activated_simps [simp]:
  "mbr_id (activated t i n r) = mbr_id r" "mbr_tenant_id (activated t i n r) = mbr_tenant_id r"
  "mbr_user_id (activated t i n r) = mbr_user_id r" "mbr_member_type (activated t i n r) = mbr_member_type r"
  by (simp_all add: activated_def activated_member_def)

definition joined_rows :: "uuid \<Rightarrow> uuid \<Rightarrow> uuid \<Rightarrow> MemberType \<Rightarrow> member_row list \<Rightarrow> member_row list \<Rightarrow> bool" where
  "joined_rows t i user kind rows rows' \<longleftrightarrow>
     (\<exists>m. rows' = rows @ [m] \<and> mbr_id m = i \<and> mbr_tenant_id m = t \<and> mbr_user_id m = user \<and> mbr_member_type m = kind
        \<and> mbr_status m = MembershipStatus_ACTIVE \<and> i \<notin> mbr_id ` set rows)
     \<or> (\<exists>n. rows' = map (activated t i n) rows \<and> (\<exists>r\<in>set rows. mbr_id r = i \<and> mbr_tenant_id r = t \<and> mbr_user_id r = user
          \<and> mbr_member_type r = kind \<and> mbr_status r = MembershipStatus_INVITED))"

lemma join_tenant_Inr:
  assumes "join_tenant fr c i membership kind created now db = Inr (m, db')"
    and "lock_membership_by_user (ivr_tenant_id i) (ain_actor_user_id c) db0 = Inr membership"
    and "td_memberships db0 = td_memberships db"
  shows "joined_rows (ivr_tenant_id i) (mem_id m) (ain_actor_user_id c) kind (td_memberships db) (td_memberships db')"
    "db' = db\<lparr>td_memberships := td_memberships db'\<rparr>"
proof -
  have "joined_rows (ivr_tenant_id i) (mem_id m) (ain_actor_user_id c) kind (td_memberships db) (td_memberships db')
      \<and> db' = db\<lparr>td_memberships := td_memberships db'\<rparr>"
  proof (cases membership)
    case None
    then obtain r where "m = joining_membership fr c i kind now" "member_row_of created m = Inr r" "insert_member r db = Inr db'"
      using assms(1) by (auto simp: join_tenant_def Let_def add_joining_membership_def bindE_eq_Inr)
    with insert_member_Inr [of r db db'] show ?thesis
      by (auto simp: joined_rows_def member_row_of_def joining_membership_def bindE_eq_Inr)
  next
    case (Some old)
    then have old: "mem_status old = MembershipStatus_INVITED" "mem_member_type old = kind"
        and act: "activate_membership old now db = Inr (m, db')"
      using assms(1) by (auto simp: join_tenant_def split: if_split_asm)
    obtain r where r: "r \<in> set (td_memberships db)" "mbr_tenant_id r = ivr_tenant_id i" "mbr_user_id r = ain_actor_user_id c"
        "member_of_row r = Inr old"
      using assms(2,3) Some
      by (auto simp: lock_membership_by_user_def bindE_eq_Inr optional_row_def split: option.split_asm dest: sql_scalar_SomeD)
    note same = member_of_row_Inr [OF r(4)]
    obtain r' n where r': "sql_scalar (invited_where old) (td_memberships db) = Some r'" "naive now = Inr n"
        "member_of_row (activated_member n r') = Inr m"
        "db' = db\<lparr>td_memberships := map (\<lambda>r. if invited_where old r then activated_member n r else r) (td_memberships db)\<rparr>"
      using act by (auto simp: activate_membership_def bindE_eq_Inr sql_update_Inr split: option.split_asm)
    have "mbr_id r' = mem_id old" using sql_scalar_SomeD [OF r'(1)] by (simp add: invited_where_def)
    then have i: "mem_id m = mem_id old" using member_of_row_Inr [OF r'(3)] by (simp add: activated_member_def)
    have "(\<lambda>r. if invited_where old r then activated_member n r else r) = activated (ivr_tenant_id i) (mem_id m) n"
      using same r(2) i by (auto simp: fun_eq_iff invited_where_def activated_def)
    then show ?thesis
      using r'(4) same r old i by (auto simp: joined_rows_def intro!: exI [of _ n] bexI [of _ r])
  qed
  then show "joined_rows (ivr_tenant_id i) (mem_id m) (ain_actor_user_id c) kind (td_memberships db) (td_memberships db')"
    "db' = db\<lparr>td_memberships := td_memberships db'\<rparr>" by simp_all
qed

subsection \<open>The identity of the invited\<close>

definition owns_target :: "invitation_service \<Rightarrow> uuid \<Rightarrow> invitation_row \<Rightarrow> tenant_db \<Rightarrow> bool" where
  "owns_target svc user r db \<longleftrightarrow> (\<exists>i\<in>set (td_identities db). \<exists>subject normal v.
     idn_user_id i = user \<and> idn_kind i = InvitationTargetKind_value (inv_target_kind r) \<and> idn_status i = ''active''
     \<and> ivs_decrypt svc (idn_subject_ciphertext i) (ascii (''auth_identity:'' @ uuid_str (idn_id i) @ '':subject'')) = Inr subject
     \<and> ivs_normalize svc (inv_target_kind r) subject = Inr normal
     \<and> inv_key_version r = Some v
     \<and> blind_digest (ivs_hmac svc) (ivs_blind_index svc) (invite_purpose (inv_target_kind r)) normal (Some v)
         = Inr (inv_target_blind_index r))"

lemma matches_target_Inr:
  "matches_target svc i vs = Inr True \<Longrightarrow> \<exists>v\<in>set vs. \<exists>ds d. identity_candidates svc v = Inr ds \<and> d \<in> set ds
     \<and> Some (vbi_key_version d) = ivr_key_version i \<and> vbi_digest d = ivr_target_blind_index i"
  by (induction vs) (auto simp: bindE_eq_Inr list_ex_iff)

lemma identity_candidates_Inr:
  assumes "identity_candidates svc v = Inr ds" "d \<in> set ds"
  obtains subject normal where "ivs_decrypt svc (vid_subject_ciphertext v) (identity_aad v) = Inr subject"
    "ivs_normalize svc (vid_kind v) subject = Inr normal"
    "blind_digest (ivs_hmac svc) (ivs_blind_index svc) (invite_purpose (vid_kind v)) normal (Some (vbi_key_version d))
       = Inr (vbi_digest d)"
proof -
  let ?run = "bindE (ivs_decrypt svc (vid_subject_ciphertext v) (identity_aad v)) (\<lambda>subject.
      bindE (ivs_normalize svc (vid_kind v) subject) (\<lambda>normalized.
        blind_digests (ivs_hmac svc) (ivs_blind_index svc) (invite_purpose (vid_kind v)) normalized))"
  have "?run = Inr ds" using assms by (auto simp: identity_candidates_def split: sum.split_asm exn.split_asm)
  then show ?thesis using that blind_digests_Inr(1) [OF _ assms(2)] by (auto simp: bindE_eq_Inr)
qed

lemma target_owned:
  assumes "lock_active_user_identities user (inv_target_kind r) db = Inr (Some ids)"
    "matches_target svc (invitation_of_row r) ids = Inr True"
  shows "owns_target svc user r db" "\<exists>u\<in>set (td_users db). usr_id u = user \<and> usr_status u = ''active''"
proof -
  obtain u where u: "row_of usr_id user (td_users db) = Some u" "usr_status u = ''active''"
    and ids: "ids = map (\<lambda>i. \<lparr>vid_identity_id = idn_id i, vid_kind = inv_target_kind r,
             vid_subject_ciphertext = idn_subject_ciphertext i, vid_verified_at = aware (idn_verified_at i)\<rparr>)
           (user_identities user (inv_target_kind r) db)"
    using assms(1) by (auto simp: lock_active_user_identities_def bindE_eq_Inr split: option.split_asm if_split_asm)
  show "\<exists>u\<in>set (td_users db). usr_id u = user \<and> usr_status u = ''active''"
    using u row_of_SomeD [OF u(1)] by blast
  obtain v ds d where v: "v \<in> set ids" "identity_candidates svc v = Inr ds" "d \<in> set ds"
      "Some (vbi_key_version d) = inv_key_version r" "vbi_digest d = inv_target_blind_index r"
    using matches_target_Inr [OF assms(2)] by (auto simp: invitation_of_row_def)
  obtain i where i: "i \<in> set (user_identities user (inv_target_kind r) db)" "v = \<lparr>vid_identity_id = idn_id i,
      vid_kind = inv_target_kind r, vid_subject_ciphertext = idn_subject_ciphertext i, vid_verified_at = aware (idn_verified_at i)\<rparr>"
    using v(1) unfolding ids by auto
  obtain subject normal where "ivs_decrypt svc (vid_subject_ciphertext v) (identity_aad v) = Inr subject"
      "ivs_normalize svc (vid_kind v) subject = Inr normal"
      "blind_digest (ivs_hmac svc) (ivs_blind_index svc) (invite_purpose (vid_kind v)) normal (Some (vbi_key_version d)) = Inr (vbi_digest d)"
    by (rule identity_candidates_Inr [OF v(2,3)])
  then show "owns_target svc user r db"
    using i v(4,5) unfolding owns_target_def
    by (intro bexI [of _ i] exI [of _ subject] exI [of _ normal] exI [of _ "vbi_key_version d"])
      (auto simp: user_identities_def identity_aad_def)
qed

subsection \<open>Accepting\<close>

text \<open>
  What an acceptance rests on and what it writes: \<open>r\<close> is the row of the invitation, \<open>m\<close> the identifier of the
  membership, \<open>codes\<close> the roles of the invitation with their codes.
\<close>

definition invited_to :: "invitation_service \<Rightarrow> uuid \<Rightarrow> bytes \<Rightarrow> datetime \<Rightarrow> invitation_row \<Rightarrow> (uuid \<times> string) list \<Rightarrow> MemberType
    \<Rightarrow> tenant_db \<Rightarrow> bool" where
  "invited_to svc user h now r codes kind db \<longleftrightarrow>
     r \<in> set (td_invitations db) \<and> inv_token_hash r = h \<and> inv_status r = Invitation_PENDING \<and> inv_accepted_at r = None
     \<and> inv_revoked_at r = None \<and> instant now < inv_expires_at r \<and> owns_target svc user r db
     \<and> (\<exists>u\<in>set (td_users db). usr_id u = user \<and> usr_status u = ''active'')
     \<and> (\<exists>t\<in>set (td_tenants db). ten_id t = inv_tenant_id r
          \<and> ten_status t \<in> {TenantStatus_PENDING_VERIFICATION, TenantStatus_ACTIVE})
     \<and> role_codes_locked (inv_tenant_id r) (inv_id r) db = Inr (Some codes)
     \<and> member_type_for_roles (snd ` set codes) = Inr kind"

definition after_acceptance :: "invitation_row \<Rightarrow> uuid \<Rightarrow> uuid list \<Rightarrow> int \<Rightarrow> member_row list \<Rightarrow> tenant_db \<Rightarrow> tenant_db" where
  "after_acceptance r m ids n members db = db\<lparr>td_memberships := members,
     td_assignments := filter (\<lambda>a. \<not> (asg_tenant_id a = inv_tenant_id r \<and> asg_membership_id a = m)) (td_assignments db)
       @ map (\<lambda>i. \<lparr>asg_tenant_id = inv_tenant_id r, asg_membership_id = m, asg_role_id = i\<rparr>) ids,
     td_invitations := map (consumed (invitation_of_row r) n) (td_invitations db)\<rparr>"

lemma open_invitation_Inr:
  assumes "open_invitation loc h db = Inr i"
  obtains r t where "r \<in> set (td_invitations db)" "i = invitation_of_row r" "inv_token_hash r = h"
    "inv_tenant_id r = loc_tenant_id loc" "inv_id r = loc_invitation_id loc"
    "t \<in> set (td_tenants db)" "ten_id t = loc_tenant_id loc"
    "ten_status t \<in> {TenantStatus_PENDING_VERIFICATION, TenantStatus_ACTIVE}"
proof -
  obtain status where 1: "tenant_status_locked (loc_tenant_id loc) db = Inr status"
      "status \<in> {Some TenantStatus_PENDING_VERIFICATION, Some TenantStatus_ACTIVE}"
    and 2: "lock_by_token_hash (loc_tenant_id loc) h db = Inr (Some i)" "ivr_id i = loc_invitation_id loc"
    using assms unfolding open_invitation_def by (elim bindE_InrE) (auto split: if_split_asm option.split_asm elim!: bindE_InrE)
  obtain t where "row_of ten_id (loc_tenant_id loc) (td_tenants db) = Some t" "status = Some (ten_status t)"
    using 1 by (auto simp: tenant_status_locked_def bindE_eq_Inr)
  then obtain r where "row_of ten_id (loc_tenant_id loc) (td_tenants db) = Some t" "status = Some (ten_status t)" "sql_scalar (\<lambda>r. inv_tenant_id r = loc_tenant_id loc \<and> inv_token_hash r = h) (td_invitations db) = Some r"
      "i = invitation_of_row r"
    using 2(1) by (auto simp: lock_by_token_hash_def bindE_eq_Inr)
  note tr = this
  have "t \<in> set (td_tenants db)" "ten_id t = loc_tenant_id loc" using row_of_SomeD [OF tr(1)] by simp_all
  moreover have "ten_status t \<in> {TenantStatus_PENDING_VERIFICATION, TenantStatus_ACTIVE}" using tr(2) 1(2) by auto
  moreover have "r \<in> set (td_invitations db)" "inv_token_hash r = h" "inv_tenant_id r = loc_tenant_id loc"
    using sql_scalar_SomeD [OF tr(3)] by simp_all
  moreover have "inv_id r = loc_invitation_id loc" using tr(4) 2(2) by (simp add: invitation_of_row_def)
  ultimately show ?thesis using that tr(4) by blast
qed

lemma finish_acceptance_Inr:
  assumes "finish_acceptance svc fr c (invitation_of_row r) identities membership codes rsv created now db = Inr (a, db')"
    "lock_membership_by_user (inv_tenant_id r) (ain_actor_user_id c) db0 = Inr membership"
    "td_memberships db0 = td_memberships db"
  obtains kind members where "\<not> iar_replayed a" "iar_invitation_id a = inv_id r" "iar_role_ids a = sort_key uuid_str (map fst codes)"
    "inv_status r = Invitation_PENDING" "inv_accepted_at r = None" "inv_revoked_at r = None" "instant now < inv_expires_at r"
    "matches_target svc (invitation_of_row r) identities = Inr True" "member_type_for_roles (snd ` set codes) = Inr kind"
    "joined_rows (inv_tenant_id r) (mem_id (iar_membership a)) (ain_actor_user_id c) kind (td_memberships db) members"
    "bookkeeping (after_acceptance r (mem_id (iar_membership a)) (iar_role_ids a) (dt_wall now) members db) db'"
    "distinct (td_assignments db) \<Longrightarrow> distinct (td_assignments db')"
proof -
  let ?i = "invitation_of_row r" and ?ids = "sort_key uuid_str (map fst codes)"
  have open_row: "\<not> (ivr_status ?i \<noteq> Invitation_PENDING \<or> ivr_accepted_at ?i \<noteq> None \<or> ivr_revoked_at ?i \<noteq> None
      \<or> instant (ivr_expires_at ?i) \<le> instant now)"
  proof
    assume "ivr_status ?i \<noteq> Invitation_PENDING \<or> ivr_accepted_at ?i \<noteq> None \<or> ivr_revoked_at ?i \<noteq> None
      \<or> instant (ivr_expires_at ?i) \<le> instant now"
    from assms(1) [unfolded finish_acceptance_def if_P [OF this]] show False by simp
  qed
  obtain kind m db1 db2 db3 e db4 db5 where
    1: "matches_target svc ?i identities = Inr True" "member_type_for_roles (snd ` set codes) = Inr kind"
    and 2: "join_tenant fr c ?i membership kind created now db = Inr (m, db1)"
    and 3: "assign_invited_roles (ivr_tenant_id ?i) (mem_id m) ?ids (ivr_invited_by_membership_id ?i) now db1 = Inr db2"
    and 4: "consume ?i now db2 = Inr db3" and 5: "append_structured e db3 = Inr db4"
    and 6: "complete_in rsv ''membership'' (mem_id m) None None now db4 = Inr db5"
    and 7: "a = \<lparr>iar_invitation_id = ivr_id ?i, iar_membership = m, iar_role_ids = ?ids, iar_replayed = False\<rparr>" "db' = db5"
    using assms(1) unfolding finish_acceptance_def if_not_P [OF open_row] Let_def
    by (elim bindE_InrE) (auto split: if_split_asm elim!: bindE_InrE)
  have t: "ivr_tenant_id ?i = inv_tenant_id r" "ivr_id ?i = inv_id r" by (simp_all add: invitation_of_row_def)
  note j = join_tenant_Inr [OF 2 _ assms(3), unfolded t, OF assms(2)]
  obtain members where d1: "db1 = db\<lparr>td_memberships := members\<rparr>" using j(2) by blast
  have d3: "db3 = after_acceptance r (mem_id m) ?ids (dt_wall now) (td_memberships db1) db"
    unfolding consume_Inr(1) [OF 4] assign_invited_roles_Inr(1) [OF 3] d1 by (simp add: after_acceptance_def t)
  obtain audit idem where "db4 = db3\<lparr>td_audit := audit\<rparr>" "db5 = db4\<lparr>td_idempotency := idem\<rparr>"
    using append_structured_Inr [OF 5] complete_in_Inr [OF 6] by blast
  then have b: "bookkeeping db3 db'" using 7(2) by (simp add: bookkeeping_def bare_def)
  have "distinct (td_assignments db')" if "distinct (td_assignments db)"
  proof -
    have "td_assignments db1 = td_assignments db" using d1 by simp
    then have "distinct (td_assignments db2)" using assign_invited_roles_Inr(2) [OF 3] that by simp
    then show ?thesis using bookkeeping_same(5) [OF b] consume_Inr(1) [OF 4] by simp
  qed
  then show ?thesis
    using open_row by (intro that [of kind "td_memberships db1"])
      (use 1 j(1) b in \<open>simp_all add: 7(1) t d3 [symmetric], simp_all add: invitation_of_row_def\<close>)
qed

lemma accept_body_Inr:
  assumes "accept_body svc fr c loc h created now db = Inr (a, db')"
  obtains (replayed) "iar_replayed a" "bookkeeping db db'"
  | (accepted) r codes kind members where "\<not> iar_replayed a" "iar_invitation_id a = inv_id r"
      "iar_role_ids a = sort_key uuid_str (map fst codes)" "inv_tenant_id r = loc_tenant_id loc"
      "invited_to svc (ain_actor_user_id c) h now r codes kind db"
      "joined_rows (inv_tenant_id r) (mem_id (iar_membership a)) (ain_actor_user_id c) kind (td_memberships db) members"
      "bookkeeping (after_acceptance r (mem_id (iar_membership a)) (iar_role_ids a) (dt_wall now) members db) db'"
      "distinct (td_assignments db) \<Longrightarrow> distinct (td_assignments db')"
proof -
  let ?scope = "\<lparr>scope_type = ScopeType_USER, scope_id = ain_actor_user_id c, scope_tenant_id = None\<rparr>"
  obtain i ids membership x xs rsv db1 where
    1: "open_invitation loc h db = Inr i"
    and 2: "lock_active_user_identities (ain_actor_user_id c) (ivr_target_kind i) db = Inr (Some ids)"
    and 3: "lock_membership_by_user (ivr_tenant_id i) (ain_actor_user_id c) db = Inr membership"
    and 4: "role_codes_locked (ivr_tenant_id i) (ivr_id i) db = Inr (Some (x # xs))"
    and 5: "reserve_in (ivs_tenants svc) ?scope ''invitation.accept'' (acceptance_request c h) now (acf_record_id fr) db = Inr (rsv, db1)"
    and 6: "(case rsv_replay rsv of
            Some ref \<Rightarrow> bindE (replay_acceptance c i (x # xs) ref db1) (\<lambda>a. Inr (a, db1))
          | None \<Rightarrow> finish_acceptance svc fr c i ids membership (x # xs) rsv created now db1) = Inr (a, db')"
    using assms unfolding accept_body_def Let_def
    by (elim bindE_InrE) (auto split: option.split_asm list.split_asm elim!: bindE_InrE)
  obtain idem where d1: "db1 = db\<lparr>td_idempotency := idem\<rparr>" using reserve_in_Inr [OF 5] by blast
  obtain r t where r: "r \<in> set (td_invitations db)" "i = invitation_of_row r" "inv_token_hash r = h"
      "inv_tenant_id r = loc_tenant_id loc" "inv_id r = loc_invitation_id loc"
      "t \<in> set (td_tenants db)" "ten_id t = loc_tenant_id loc" "ten_status t \<in> {TenantStatus_PENDING_VERIFICATION, TenantStatus_ACTIVE}"
    by (rule open_invitation_Inr [OF 1])
  have f: "ivr_tenant_id i = inv_tenant_id r" "ivr_id i = inv_id r" "ivr_target_kind i = inv_target_kind r"
    by (simp_all add: r(2) invitation_of_row_def)
  show ?thesis
  proof (cases "rsv_replay rsv")
    case (Some ref)
    then have "db' = db1" "iar_replayed a"
      using 6 by (auto simp: replay_acceptance_def elim!: bindE_InrE split: if_split_asm option.split_asm)
    then show ?thesis using replayed d1 by simp
  next
    case None
    then have fin: "finish_acceptance svc fr c (invitation_of_row r) ids membership (x # xs) rsv created now db1 = Inr (a, db')"
      using 6 r(2) by simp
    obtain kind members where a: "\<not> iar_replayed a" "iar_invitation_id a = inv_id r"
      "iar_role_ids a = sort_key uuid_str (map fst (x # xs))"
      "inv_status r = Invitation_PENDING" "inv_accepted_at r = None" "inv_revoked_at r = None" "instant now < inv_expires_at r"
      "matches_target svc (invitation_of_row r) ids = Inr True" "member_type_for_roles (snd ` set (x # xs)) = Inr kind"
      "joined_rows (inv_tenant_id r) (mem_id (iar_membership a)) (ain_actor_user_id c) kind (td_memberships db1) members"
      "bookkeeping (after_acceptance r (mem_id (iar_membership a)) (iar_role_ids a) (dt_wall now) members db1) db'"
      "distinct (td_assignments db1) \<Longrightarrow> distinct (td_assignments db')"
      by (rule finish_acceptance_Inr [OF fin 3 [unfolded f]]) (simp_all add: d1)
    note own = target_owned [OF 2 [unfolded f] a(8)]
    have "\<exists>t\<in>set (td_tenants db). ten_id t = inv_tenant_id r \<and> ten_status t \<in> {TenantStatus_PENDING_VERIFICATION, TenantStatus_ACTIVE}"
      using r(4,6,7,8) by auto
    then have "invited_to svc (ain_actor_user_id c) h now r (x # xs) kind db"
      unfolding invited_to_def using r(1,3) a(4-7,9) own 4 [unfolded f] by (intro conjI)
    moreover have "bookkeeping (after_acceptance r (mem_id (iar_membership a)) (iar_role_ids a) (dt_wall now) members db) db'"
    proof -
      have "bookkeeping (after_acceptance r (mem_id (iar_membership a)) (iar_role_ids a) (dt_wall now) members db)
          (after_acceptance r (mem_id (iar_membership a)) (iar_role_ids a) (dt_wall now) members db1)"
        by (simp add: d1 after_acceptance_def bookkeeping_def bare_def)
      then show ?thesis using a(11) bookkeeping_trans by blast
    qed
    ultimately show ?thesis
      by (intro accepted [of r "x # xs" kind members]) (use a r d1 in simp_all)
  qed
qed

subsection \<open>Inviting\<close>

lemma member_type_not_owner: "member_type_for_roles roles = Inr kind \<Longrightarrow> kind \<noteq> MemberType_OWNER \<and> ''tenant_owner'' \<notin> roles \<and> roles \<noteq> {}"
  by (auto simp: member_type_for_roles_def split: if_split_asm)

lemma validate_invitation_roles_Inr:
  assumes "validate_invitation_roles actor invited = Inr ()"
  shows "rank_of invited \<le> rank_of actor" "''tenant_owner'' \<notin> actor \<Longrightarrow> rank_of invited < rank_of actor"
    "''tenant_owner'' \<notin> invited" "invited \<noteq> {}" "ranked (actor \<union> invited)"
    "''department_admin'' \<in> actor \<Longrightarrow> ''tenant_owner'' \<in> actor \<or> ''tenant_admin'' \<in> actor"
    "\<exists>kind. member_type_for_roles invited = Inr kind"
  using assms by (auto simp: validate_invitation_roles_def bindE_eq_Inr require_eq_Inr)

text \<open>A new invitation: its row is fresh and pending, its roles are active roles of the tenant.\<close>

definition inviting :: "TenantActor \<Rightarrow> CreateInvitationCommand \<Rightarrow> invitation_row \<Rightarrow> (uuid \<times> string) list \<Rightarrow> tenant_db \<Rightarrow> bool" where
  "inviting actor c r codes db \<longleftrightarrow> inv_tenant_id r = ctx_tenant_id (act_context actor)
     \<and> Some (inv_invited_by_membership_id r) = ctx_membership_id (act_context actor)
     \<and> inv_expires_at r = dt_wall (cin_expires_at c) \<and> inv_status r = Invitation_PENDING \<and> inv_accepted_at r = None
     \<and> inv_revoked_at r = None \<and> inv_id r \<notin> inv_id ` set (td_invitations db)
     \<and> inv_token_hash r \<notin> inv_token_hash ` set (td_invitations db)
     \<and> role_codes_for_ids_locked (inv_tenant_id r) (cin_role_ids c) db = Inr (Some codes)"

definition after_invitation :: "CreateInvitationCommand \<Rightarrow> invitation_row \<Rightarrow> tenant_db \<Rightarrow> tenant_db" where
  "after_invitation c r db = db\<lparr>td_invitations := td_invitations db @ [r],
     td_invitation_roles := td_invitation_roles db
       @ map (\<lambda>i. \<lparr>irl_tenant_id = inv_tenant_id r, irl_invitation_id = inv_id r, irl_role_id = i\<rparr>) (cin_role_ids c)\<rparr>"

lemma invite_body_Inr:
  assumes "invite_body svc fr actor c subject fp clock now db = Inr (res, db')"
  obtains (replayed) "ivt_replayed res" "bookkeeping db db'"
  | (stored) r codes locked where "\<not> ivt_replayed res" "ivt_invitation_id res = inv_id r" "inviting actor c r codes db"
      "inviting_snapshot actor (\<lambda>i. clock (4 + i)) db = Inr locked"
      "validate_invitation_roles (tas_role_codes locked) (snd ` set codes) = Inr ()"
      "bookkeeping (after_invitation c r db) db'"
proof -
  obtain inviter locked codes scope rsv db1 where
    1: "ctx_membership_id (act_context actor) = Some inviter"
    and 2: "inviting_snapshot actor (\<lambda>i. clock (4 + i)) db = Inr locked"
    and 3: "role_codes_for_ids_locked (ctx_tenant_id (act_context actor)) (cin_role_ids c) db = Inr (Some codes)"
    and 4: "validate_invitation_roles (tas_role_codes locked) (snd ` set codes) = Inr ()"
    and 5: "reserve_in (ivs_tenants svc) scope ''membership.invite'' (invitation_request actor c fp) now (ivf_record_id fr) db = Inr (rsv, db1)"
    and 6: "(case rsv_replay rsv of
       Some ref \<Rightarrow> bindE (replay_invitation actor ref db1) (\<lambda>r. Inr (r, db1))
     | None \<Rightarrow> store_invitation svc fr actor inviter c subject rsv now db1) = Inr (res, db')"
    using assms unfolding invite_body_def
    by (elim bindE_InrE) (auto split: option.split_asm elim!: bindE_InrE)
  obtain idem where d1: "db1 = db\<lparr>td_idempotency := idem\<rparr>" using reserve_in_Inr [OF 5] by blast
  show ?thesis
  proof (cases "rsv_replay rsv")
    case (Some ref)
    then have "db' = db1" "ivt_replayed res"
      using 6 by (auto simp: replay_invitation_def invitation_result_def elim!: bindE_InrE split: if_split_asm option.split_asm)
    then show ?thesis using replayed d1 by simp
  next
    case None
    then have "store_invitation svc fr actor inviter c subject rsv now db1 = Inr (res, db')" using 6 by simp
    then obtain i db2 db3 e db4 db5 where
      7: "new_invitation svc fr actor inviter c subject = Inr i" and 8: "add_invitation i db1 = Inr db2"
      and 9: "add_invitation_roles (ivr_tenant_id i) (ivr_id i) (cin_role_ids c) db2 = Inr db3"
      and 10: "append_structured e db3 = Inr db4" and 11: "complete_in rsv ''invitation'' (ivr_id i) None None now db4 = Inr db5"
      and 12: "res = invitation_result i False" "db' = db5"
      unfolding store_invitation_def by (elim bindE_InrE) auto
    let ?r = "invitation_row_of i"
    have i: "ivr_tenant_id i = ctx_tenant_id (act_context actor)" "ivr_invited_by_membership_id i = inviter"
        "ivr_expires_at i = cin_expires_at c" "ivr_status i = Invitation_PENDING"
      using 7 by (auto simp: new_invitation_def bindE_eq_Inr)
    have "inviting actor c ?r codes db"
      using add_invitation_Inr(2,3) [OF 8] 1 3 i by (simp add: inviting_def invitation_row_of_def d1)
    moreover have "db3 = after_invitation c ?r db1"
      unfolding add_invitation_roles_Inr [OF 9] add_invitation_Inr(1) [OF 8] by (simp add: after_invitation_def invitation_row_of_def)
    moreover obtain audit idem2 where "db4 = db3\<lparr>td_audit := audit\<rparr>" "db5 = db4\<lparr>td_idempotency := idem2\<rparr>"
      using append_structured_Inr [OF 10] complete_in_Inr [OF 11] by blast
    ultimately show ?thesis
      by (intro stored [of ?r codes locked])
        (use 2 4 12 in \<open>simp_all add: invitation_result_def invitation_row_of_def d1 after_invitation_def bookkeeping_def bare_def\<close>)
  qed
qed

subsection \<open>The order on invitations\<close>

text \<open>An invitation that is no longer pending stays as it is.\<close>

definition keeps_invitation :: "invitation_row \<Rightarrow> invitation_row \<Rightarrow> bool" where
  "keeps_invitation r r' \<longleftrightarrow> inv_id r' = inv_id r \<and> inv_tenant_id r' = inv_tenant_id r \<and> inv_token_hash r' = inv_token_hash r
     \<and> inv_expires_at r' = inv_expires_at r \<and> inv_invited_by_membership_id r' = inv_invited_by_membership_id r
     \<and> (inv_status r \<noteq> Invitation_PENDING \<longrightarrow> r' = r)"

interpretation invitations: advancing_rows inv_token_hash keeps_invitation
  by unfold_locales (auto simp: keeps_invitation_def)

definition invitation_keys :: "tenant_db \<Rightarrow> bool" where
  "invitation_keys db \<longleftrightarrow> distinct (map inv_id (td_invitations db)) \<and> distinct (map inv_token_hash (td_invitations db))"

definition invitations_kept :: "tenant_db \<Rightarrow> tenant_db \<Rightarrow> bool" where
  "invitations_kept db db' \<longleftrightarrow> (invitation_keys db \<longrightarrow> invitation_keys db')
     \<and> table_keeps keeps_invitation (td_invitations db) (td_invitations db')"

lemma invitations_kept_trans: "invitations_kept a b \<Longrightarrow> invitations_kept b c \<Longrightarrow> invitations_kept a c"
  unfolding invitations_kept_def by (meson invitations.table_trans)

lemma invitations_kept_same: "td_invitations db' = td_invitations db \<Longrightarrow> invitations_kept db db'"
  by (simp add: invitations_kept_def invitation_keys_def invitations.table_refl)

lemma consumed_keeps: "keeps_invitation r (consumed i n r)"
  by (auto simp: keeps_invitation_def consumed_def consumed_invitation_def consume_where_def)

lemma revoked_keeps: "keeps_invitation r (if legacy_pending r then revoked_invitation n r else r)"
  by (auto simp: keeps_invitation_def legacy_pending_def revoked_invitation_def)

lemma invitations_kept_map:
  assumes "\<And>r. keeps_invitation r (f r)" "td_invitations db' = map f (td_invitations db)"
  shows "invitations_kept db db'"
proof -
  have "inv_id \<circ> f = inv_id" "inv_token_hash \<circ> f = inv_token_hash"
    using assms(1) by (simp_all add: keeps_invitation_def fun_eq_iff)
  then show ?thesis
    using assms by (simp add: invitations_kept_def invitation_keys_def invitations.table_map)
qed

lemma invitations_kept_append:
  "td_invitations db' = td_invitations db @ [r] \<Longrightarrow> inv_id r \<notin> inv_id ` set (td_invitations db)
     \<Longrightarrow> inv_token_hash r \<notin> inv_token_hash ` set (td_invitations db) \<Longrightarrow> invitations_kept db db'"
  by (simp add: invitations_kept_def invitation_keys_def invitations.table_append)

subsection \<open>Joining keeps the owners\<close>

lemma joined_keeps_owner:
  assumes keys: "tenant_keys db" and joined: "joined_rows (inv_tenant_id r) i user kind (td_memberships db) members"
    and owned: "owned t db"
  shows "owned t (after_acceptance r i ids n members db)"
proof -
  obtain m a role where row: "(m, a, role) \<in> set (active_owner_rows t db)" using owned by (auto simp: owned_iff)
  note u = row [unfolded active_owner_rows_iff]
  have m: "m \<in> set members \<and> mbr_id m \<noteq> i"
    using joined unfolding joined_rows_def
  proof
    assume "\<exists>m'. members = td_memberships db @ [m'] \<and> mbr_id m' = i \<and> mbr_tenant_id m' = inv_tenant_id r \<and> mbr_user_id m' = user
        \<and> mbr_member_type m' = kind \<and> mbr_status m' = MembershipStatus_ACTIVE \<and> i \<notin> mbr_id ` set (td_memberships db)"
    then show ?thesis using u by (auto simp: image_iff)
  next
    assume "\<exists>n. members = map (activated (inv_tenant_id r) i n) (td_memberships db) \<and> (\<exists>x\<in>set (td_memberships db). mbr_id x = i
        \<and> mbr_tenant_id x = inv_tenant_id r \<and> mbr_user_id x = user \<and> mbr_member_type x = kind \<and> mbr_status x = MembershipStatus_INVITED)"
    then obtain n x where x: "members = map (activated (inv_tenant_id r) i n) (td_memberships db)" "x \<in> set (td_memberships db)"
        "mbr_id x = i" "mbr_status x = MembershipStatus_INVITED" by blast
    have "mbr_id m \<noteq> i"
      using keys u x(2-4) distinct_map_eq [of mbr_id "td_memberships db" m x] by (auto simp: tenant_keys_def)
    moreover from this have "activated (inv_tenant_id r) i n m = m" by (simp add: activated_def)
    ultimately show ?thesis using u x(1) by (metis image_eqI image_set)
  qed
  have "(m, a, role) \<in> set (active_owner_rows t (after_acceptance r i ids n members db))"
    using u m by (simp add: active_owner_rows_iff after_acceptance_def)
  then show ?thesis by (auto simp: owned_iff)
qed

lemma joined_ids:
  "joined_rows t i user kind rows rows' \<Longrightarrow> distinct (map mbr_id rows) \<Longrightarrow> distinct (map mbr_id rows')"
  "joined_rows t i user kind rows rows' \<Longrightarrow> (\<lambda>m. (mbr_tenant_id m, mbr_user_id m, mbr_id m)) ` set rows
     \<subseteq> (\<lambda>m. (mbr_tenant_id m, mbr_user_id m, mbr_id m)) ` set rows'"
  by (auto simp: joined_rows_def comp_def image_image image_iff)

subsection \<open>What the operations leave alone\<close>

text \<open>Inviting and the maintenance of invitations touch no membership, role, tenant, user or session.\<close>

definition invitation_frame :: "tenant_db \<Rightarrow> tenant_db \<Rightarrow> bool" where
  "invitation_frame db db' \<longleftrightarrow> td_users db' = td_users db \<and> td_tenants db' = td_tenants db \<and> td_memberships db' = td_memberships db
     \<and> td_roles db' = td_roles db \<and> td_assignments db' = td_assignments db \<and> td_sessions db' = td_sessions db
     \<and> td_refresh db' = td_refresh db \<and> invitations_kept db db'"

lemma invitation_frame_bookkeeping: "bookkeeping db db' \<Longrightarrow> invitation_frame db db'"
  using bookkeeping_same [of db db'] by (simp add: invitation_frame_def invitations_kept_same)

lemma invitation_frame_trans: "invitation_frame a b \<Longrightarrow> invitation_frame b c \<Longrightarrow> invitation_frame a c"
  unfolding invitation_frame_def using invitations_kept_trans by auto

lemma after_invitation_frame: "inviting actor c r codes db \<Longrightarrow> invitation_frame db (after_invitation c r db)"
  unfolding invitation_frame_def
  by (intro conjI invitations_kept_append [of _ _ r]) (simp_all add: after_invitation_def inviting_def)

lemma create_invitation_frame: "invitation_frame db (snd (create_invitation svc fr actor c clock delivery db))"
proof -
  have unchanged: "invitation_frame db db" by (rule invitation_frame_bookkeeping) simp
  have body: "invitation_frame db db'" if "invite_body svc fr actor c subject fp clock now db = Inr (res, db')"
    for subject fp now res db'
    using that
  proof (cases rule: invite_body_Inr)
    case replayed
    then show ?thesis by (simp add: invitation_frame_bookkeeping)
  next
    case (stored r codes locked)
    then show ?thesis using after_invitation_frame invitation_frame_bookkeeping invitation_frame_trans by blast
  qed
  show ?thesis
    using unchanged body unfolding create_invitation_def transaction_def
    by (auto split: sum.split prod.split)
qed

lemma reconcile_legacy_frame: "invitation_frame db (snd (reconcile_legacy fresh ack ctx clock db))"
proof -
  have unchanged: "invitation_frame db db" by (rule invitation_frame_bookkeeping) simp
  have body: "invitation_frame db db'" if run: "reconcile_body fresh ctx now db = Inr (n, db')" for now n db'
  proof -
    obtain db1 e where 1: "revoke_unversioned_pending now db = Inr (n, db1)" and 2: "append_structured e db1 = Inr db'"
      using run unfolding reconcile_body_def by (elim bindE_InrE) (auto elim!: bindE_InrE)
    note d1 = revoke_unversioned_pending_Inr [OF 1]
    have "invitations_kept db db1"
      by (rule invitations_kept_map [of "\<lambda>r. if legacy_pending r then revoked_invitation (dt_wall now) r else r"])
        (rule revoked_keeps, simp add: d1)
    then have "invitation_frame db db1" by (simp add: invitation_frame_def d1)
    moreover have "bookkeeping db1 db'" using append_structured_Inr [OF 2] by auto
    ultimately show ?thesis using invitation_frame_bookkeeping invitation_frame_trans by blast
  qed
  show ?thesis
    using unchanged body unfolding reconcile_legacy_def transaction_def
    by (auto split: sum.split prod.split)
qed

end
