(* ===== verification/TenantRun.thy ===== *)
theory TenantRun
  imports InvitationInvariant
begin

text \<open>
  The tenant workflows as a state machine: one step is a committed (or rolled back) transaction of
  \<open>TenantService\<close>, of \<open>InvitationService\<close>, of the session service on the shared session tables, of the cache
  dispatcher, or of a part of the program that leaves members, roles, sessions and invitations alone.
\<close>

subsection \<open>Founding a tenant\<close>

lemma bookkeeping_set:
  "tenant_keys (db\<lparr>td_role_permissions := rows\<rparr>) = tenant_keys db" "owned t (db\<lparr>td_role_permissions := rows\<rparr>) = owned t db"
  by (simp add: tenant_keys_def) (rule owned_cong; simp)

lemma clone_templates_Inr:
  assumes "clone_templates_for_tenant tenant fresh db = Inr (roles, db')"
  shows "\<exists>new perms. db' = db\<lparr>td_roles := td_roles db @ new, td_role_permissions := perms\<rparr>
      \<and> (\<forall>r\<in>set new. rol_tenant_id r = tenant \<and> rol_status r = ''active'')
      \<and> (\<forall>c i. roles c = Some i \<longrightarrow> (\<exists>r\<in>set new. rol_code r = c \<and> rol_id r = i))"
    and "tenant_keys db \<Longrightarrow> tenant_keys db'"
proof -
  let ?new = "map (cloned_role tenant fresh) (active_templates db)"
  obtain links db1 where 1: "insert_all insert_role ?new db = Inr db1"
    and 2: "insert_all insert_role_permission links db1 = Inr db'"
    and 3: "roles = map_of (map (\<lambda>t. (tpl_code t, fresh (tpl_code t))) (active_templates db))"
    using assms unfolding clone_templates_for_tenant_def Let_def
    by (elim bindE_InrE) simp
  have db1: "db1 = db\<lparr>td_roles := td_roles db @ ?new\<rparr>" using roles.insert_all_Inr [OF 1] by simp
  have db': "db' = db1\<lparr>td_role_permissions := td_role_permissions db1 @ links\<rparr>" using role_permissions.insert_all_Inr [OF 2] by simp
  have "\<exists>r\<in>set ?new. rol_code r = c \<and> rol_id r = i" if "roles c = Some i" for c i
    using map_of_SomeD [OF that [unfolded 3]] by (auto simp: cloned_role_def)
  then show "\<exists>new perms. db' = db\<lparr>td_roles := td_roles db @ new, td_role_permissions := perms\<rparr>
      \<and> (\<forall>r\<in>set new. rol_tenant_id r = tenant \<and> rol_status r = ''active'')
      \<and> (\<forall>c i. roles c = Some i \<longrightarrow> (\<exists>r\<in>set new. rol_code r = c \<and> rol_id r = i))"
    unfolding db' db1
    by (intro exI [of _ ?new] exI [of _ "td_role_permissions db @ links"]) (simp add: cloned_role_def)
  have "tenant_keys db1" if k: "tenant_keys db"
    using k roles.insert_all_distinct [OF 1] role_codes.insert_all_distinct [OF 1]
    by (simp add: tenant_keys_def db1)
  then show "tenant_keys db \<Longrightarrow> tenant_keys db'" unfolding db' by (simp add: bookkeeping_set)
qed

lemma found_tenant_Inr:
  assumes out: "found_tenant fr c name rsv created now db = Inr (res, db')" and keys: "tenant_keys db"
  shows "tenant_keys db'" "owned (tf_tenant_id fr) db'"
    "\<exists>t m new as perms. bookkeeping (db\<lparr>td_tenants := td_tenants db @ [t], td_roles := td_roles db @ new, td_role_permissions := perms,
        td_memberships := td_memberships db @ [m], td_assignments := td_assignments db @ as\<rparr>) db'
      \<and> ten_id t = tf_tenant_id fr"
    "\<not> tar_replayed res" "tar_tenant res = applied_tenant fr c name" "tar_owner_membership res = founding_membership fr c now"
proof -
  let ?t = "applied_tenant fr c name" and ?owner = "founding_membership fr c now"
  obtain db1 db2 db3 db4 db5 roles owner_role e where
    1: "add_application ?t db = Inr db1"
    and 2: "clone_templates_for_tenant (tenant_id ?t) (tf_role_id fr) db1 = Inr (roles, db2)"
    and 3: "roles ''tenant_owner'' = Some owner_role"
    and 4: "add_owner_for_application created ?owner db2 = Inr db3"
    and 5: "assign_owner (tenant_id ?t) (mem_id ?owner) owner_role now db3 = Inr db4"
    and 6: "append_structured e db4 = Inr db5"
    and 7: "complete_in rsv ''tenant'' (tenant_id ?t) None None now db5 = Inr db'"
    and 8: "res = \<lparr>tar_tenant = ?t, tar_owner_membership = ?owner, tar_replayed = False\<rparr>"
    using out unfolding found_tenant_def Let_def
    by (auto elim!: bindE_InrE split: option.split_asm)
  show "\<not> tar_replayed res" "tar_tenant res = ?t" "tar_owner_membership res = ?owner" using 8 by simp_all
  have ids: "tenant_id ?t = tf_tenant_id fr" "mem_id ?owner = tf_membership_id fr" "mem_tenant_id ?owner = tf_tenant_id fr"
      "mem_status ?owner = MembershipStatus_ACTIVE"
    by (simp_all add: applied_tenant_def founding_membership_def)
  define row where "row = tenant_row_of ?t"
  have row: "ten_id row = tf_tenant_id fr" by (simp add: row_def tenant_row_of_def ids)
  have d1: "db1 = db\<lparr>td_tenants := td_tenants db @ [row]\<rparr>" "ten_id row \<notin> ten_id ` set (td_tenants db)"
    using 1 by (simp_all add: add_application_def tenant_ops row_def)
  obtain new perms where d2: "db2 = db1\<lparr>td_roles := td_roles db1 @ new, td_role_permissions := perms\<rparr>"
      "\<forall>r\<in>set new. rol_tenant_id r = tf_tenant_id fr \<and> rol_status r = ''active''"
      "\<forall>c i. roles c = Some i \<longrightarrow> (\<exists>r\<in>set new. rol_code r = c \<and> rol_id r = i)"
    using clone_templates_Inr(1) [OF 2] ids(1) by auto
  obtain m where m: "member_row_of created (?owner\<lparr>mem_valid_until := None\<rparr>) = Inr m" "insert_member m db2 = Inr db3"
    using 4 by (auto simp: add_owner_for_application_def bindE_eq_Inr)
  have mm: "mbr_id m = tf_membership_id fr" "mbr_tenant_id m = tf_tenant_id fr" "mbr_status m = MembershipStatus_ACTIVE"
    using m(1) ids by (auto simp: member_row_of_def bindE_eq_Inr)
  have d3: "db3 = db2\<lparr>td_memberships := td_memberships db2 @ [m]\<rparr>" "mbr_id m \<notin> mbr_id ` set (td_memberships db2)"
    using insert_member_Inr [OF m(2)] by simp_all
  define a where "a = \<lparr>asg_tenant_id = tf_tenant_id fr, asg_membership_id = tf_membership_id fr, asg_role_id = owner_role\<rparr>"
  have "insert_assignment (tf_membership_id fr) a db3 = Inr db4"
    using 5 ids by (auto simp: assign_owner_def bindE_eq_Inr a_def)
  then have d4: "db4 = db3\<lparr>td_assignments := td_assignments db3 @ [a]\<rparr>" "a \<notin> set (td_assignments db3)"
    using insert_assignment_Inr by blast+
  have b: "bookkeeping db4 db'"
    using append_structured_Inr [OF 6] complete_in_Inr [OF 7] bookkeeping_statements bookkeeping_trans by metis
  have "db4 = db\<lparr>td_tenants := td_tenants db @ [row], td_roles := td_roles db @ new, td_role_permissions := perms,
        td_memberships := td_memberships db @ [m], td_assignments := td_assignments db @ [a]\<rparr>"
    unfolding d4(1) d3(1) d2(1) d1(1) by simp
  with b row show "\<exists>t m new as perms. bookkeeping (db\<lparr>td_tenants := td_tenants db @ [t], td_roles := td_roles db @ new, td_role_permissions := perms,
        td_memberships := td_memberships db @ [m], td_assignments := td_assignments db @ as\<rparr>) db'
      \<and> ten_id t = tf_tenant_id fr" by blast
  have "tenant_keys db1" using keys d1(2) by (simp add: tenant_keys_def d1(1))
  then have "tenant_keys db2" by (rule clone_templates_Inr(2) [OF 2])
  then have "tenant_keys db3" using d3(2) by (simp add: tenant_keys_def d3(1))
  then have "tenant_keys db4" using d4(2) by (simp add: tenant_keys_def d4(1))
  then show "tenant_keys db'" by (rule bookkeeping_kept(1) [OF b])
  obtain r where r: "r \<in> set new" "rol_code r = ''tenant_owner''" "rol_id r = owner_role" using d2(3) 3 by blast
  have "(m, a, r) \<in> set (active_owner_rows (tf_tenant_id fr) db4)"
    using r d2(2) mm unfolding active_owner_rows_iff d4(1) d3(1) d2(1) by (simp add: a_def)
  then have "owned (tf_tenant_id fr) db4" by (auto simp: owned_iff)
  then show "owned (tf_tenant_id fr) db'" using bookkeeping_kept(2) [OF b] by simp
qed


lemma update_tenant_body_Inr:
  assumes "update_tenant_body svc fr actor c name clock now db = Inr (res, db')"
  shows "\<exists>f. (\<forall>r. ten_id (f r) = ten_id r \<and> ten_status (f r) = ten_status r)
    \<and> bookkeeping (db\<lparr>td_tenants := map f (td_tenants db)\<rparr>) db'"
proof -
  obtain locked scope rsv db1 where
    2: "reserve_in svc scope ''tenant.update'' (rename_request svc actor c name) now (tf_record_id fr) db = Inr (rsv, db1)"
    and 3: "(case rsv_replay rsv of
       Some ref \<Rightarrow>
         (if ref_result_type ref \<noteq> ''tenant'' \<or> ref_result_id ref \<noteq> ctx_tenant_id (act_context actor)
          then Inl (IdempotentResultUnavailable ''tenant update replay is invalid'')
          else Inr (\<lparr>tmr_tenant = tas_tenant locked, tmr_replayed = True,
                     tmr_changed = (ref_mutation_effect ref \<noteq> Some NO_CHANGE)\<rparr>, db1))
     | None \<Rightarrow> rename_tenant fr actor c name rsv locked now db1) = Inr (res, db')"
    using assms unfolding update_tenant_body_def by (elim bindE_InrE) (clarsimp split: prod.split_asm)
  obtain idem where d1: "db1 = db\<lparr>td_idempotency := idem\<rparr>" using reserve_in_Inr [OF 2] by blast
  have same: "\<exists>f. (\<forall>r. ten_id (f r) = ten_id r \<and> ten_status (f r) = ten_status r)
    \<and> bookkeeping (db\<lparr>td_tenants := map f (td_tenants db)\<rparr>) db2" if "bookkeeping db db2" for db2
    using that by (intro exI [of _ id]) simp
  show ?thesis
  proof (cases "rsv_replay rsv")
    case (Some ref)
    then show ?thesis using 3 d1 same by (auto split: if_split_asm)
  next
    case None
    let ?changed = "name_changes (tas_tenant locked) name"
    obtain updated db2 where
      4: "(if \<not> ?changed then Inr (tas_tenant locked, db1) else store_name fr actor c name locked now db1) = Inr (updated, db2)"
      and 5: "complete_in rsv ''tenant'' (tenant_id updated) (Some (if ?changed then CHANGED else NO_CHANGE)) None now db2 = Inr db'"
      using 3 None unfolding rename_tenant_def Let_def
      by (auto elim!: bindE_InrE split: if_split_asm)
    have b: "bookkeeping db2 db'" using complete_in_Inr [OF 5] by auto
    show ?thesis
    proof (cases ?changed)
      case False
      then have "db2 = db\<lparr>td_idempotency := idem\<rparr>" using 4 d1 by simp
      then have "bookkeeping db db2" by simp
      then show ?thesis using b same bookkeeping_trans by blast
    next
      case True
      then obtain t db3 e where 6: "update_name (tas_context locked) (display_value name) (normalized_value name)
               (utc_expected_version c) now db1 = Inr (Some t, db3)" "append_structured e db3 = Inr db2"
        using 4 unfolding store_name_def by (auto elim!: bindE_InrE split: option.split_asm)
      obtain f where f: "\<forall>r. ten_id (f r) = ten_id r \<and> ten_status (f r) = ten_status r"
          "db3 = db1\<lparr>td_tenants := map f (td_tenants db1)\<rparr>"
        using update_name_Inr [OF 6(1)] by blast
      have "bookkeeping (db\<lparr>td_tenants := map f (td_tenants db)\<rparr>) db3"
        by (simp add: f(2) d1 bookkeeping_def bare_def)
      moreover have "bookkeeping db3 db2" using append_structured_Inr [OF 6(2)] by auto
      ultimately have "bookkeeping (db\<lparr>td_tenants := map f (td_tenants db)\<rparr>) db'"
        using b bookkeeping_trans by blast
      then show ?thesis using f(1) by blast
    qed
  qed
qed

subsection \<open>Steps\<close>

inductive tenant_step :: "'c session_service \<Rightarrow> tenant_db \<Rightarrow> tenant_db \<Rightarrow> bool" for sessions where
  step_create: "tenant_step sessions db (snd (create_application svc fr c created clock db))"
| step_rename: "tenant_step sessions db (snd (update_tenant svc fr actor c clock db))"
| step_member: "tenant_step sessions db (snd (transaction (mutate_member_body svc fr actor ch clock now) db))"
| step_bookkeeping: "bookkeeping db db' \<Longrightarrow> tenant_step sessions db db'"
| step_invite: "tenant_step sessions db (snd (create_invitation isvc ifr actor ic clock delivery db))"
| step_accept: "tenant_step sessions db (snd (transaction (accept_body isvc afr ac loc h created now) db))"
| step_reconcile: "tenant_step sessions db (snd (reconcile_legacy fresh ack ctx clock db))"
| step_session: "session_step sessions (session_view db) (session_view db') \<Longrightarrow> td_tenants db' = td_tenants db \<Longrightarrow>
    td_memberships db' = td_memberships db \<Longrightarrow> td_assignments db' = td_assignments db \<Longrightarrow> td_roles db' = td_roles db \<Longrightarrow>
    td_invitations db' = td_invitations db \<Longrightarrow> tenant_step sessions db db'"
| step_outside: "td_memberships db' = td_memberships db \<Longrightarrow> td_assignments db' = td_assignments db \<Longrightarrow>
    td_roles db' = td_roles db \<Longrightarrow> map ten_id (td_tenants db') = map ten_id (td_tenants db) \<Longrightarrow>
    td_sessions db' = td_sessions db \<Longrightarrow> td_refresh db' = td_refresh db \<Longrightarrow> td_invitations db' = td_invitations db \<Longrightarrow>
    usr_id ` set (td_users db) \<subseteq> usr_id ` set (td_users db') \<Longrightarrow> tenant_step sessions db db'"

inductive_cases tenant_stepE: "tenant_step sessions db db'"

definition tenant_run :: "'c session_service \<Rightarrow> tenant_db \<Rightarrow> tenant_db \<Rightarrow> bool" where
  "tenant_run sessions = (tenant_step sessions)\<^sup>*\<^sup>*"

lemma transaction_cases:
  obtains (fails) e where "body db = Inl e" "snd (transaction body db) = db"
  | (commits) a db' where "body db = Inr (a, db')" "snd (transaction body db) = db'"
  by (cases "body db") (auto simp: transaction_def)

lemma create_application_cases:
  obtains (idle) "bookkeeping db (snd (create_application svc fr c created clock db))"
  | (founded) name rsv now res idem where
      "found_tenant fr c name rsv created now (db\<lparr>td_idempotency := idem\<rparr>) = Inr (res, snd (create_application svc fr c created clock db))"
proof -
  show ?thesis
  proof (cases "bindE (CreateTenantApplicationCommand_post_init c) (\<lambda>_.
           bindE (normalize_tenant_name (ts_nfkc svc) (ts_casefold svc) (cta_name c)) (\<lambda>name.
           bindE (tenant_now clock) (\<lambda>now. Inr (name, now))))")
    case (Inl e)
    then have "snd (create_application svc fr c created clock db) = db" by (simp add: create_application_def)
    then show ?thesis using idle by simp
  next
    case (Inr x)
    then obtain name now where r: "bindE (CreateTenantApplicationCommand_post_init c) (\<lambda>_.
           bindE (normalize_tenant_name (ts_nfkc svc) (ts_casefold svc) (cta_name c)) (\<lambda>name.
           bindE (tenant_now clock) (\<lambda>now. Inr (name, now)))) = Inr (name, now)" by (cases x) auto
    have op: "create_application svc fr c created clock db = transaction (create_application_body svc fr c name created now) db"
      by (simp add: create_application_def r)
    show ?thesis
    proof (cases rule: transaction_cases [of "create_application_body svc fr c name created now" db])
      case (fails e)
      then show ?thesis using idle by (simp add: op)
    next
      case (commits res db')
      obtain scope rsv db1 where
        1: "reserve_in svc scope ''tenant.create'' (application_request svc c name) now (tf_record_id fr) db = Inr (rsv, db1)"
        and 2: "(case rsv_replay rsv of
            Some ref \<Rightarrow> bindE (reload_application_result (cta_actor_user_id c) ref db1) (\<lambda>r. Inr (r, db1))
          | None \<Rightarrow> found_tenant fr c name rsv created now db1) = Inr (res, db')"
        using commits(1) unfolding create_application_body_def Let_def
        by (auto elim!: bindE_InrE split: if_split_asm)
      obtain idem where d1: "db1 = db\<lparr>td_idempotency := idem\<rparr>" using reserve_in_Inr [OF 1] by blast
      show ?thesis
      proof (cases "rsv_replay rsv")
        case None
        then show ?thesis using 2 d1 founded commits(2) by (simp add: op)
      next
        case (Some ref)
        then have "db' = db1" using 2 by (auto elim!: bindE_InrE)
        then show ?thesis using d1 idle commits(2) by (simp add: op)
      qed
    qed
  qed
qed

lemma update_tenant_effect:
  "\<exists>f. (\<forall>r. ten_id (f r) = ten_id r \<and> ten_status (f r) = ten_status r)
    \<and> bookkeeping (db\<lparr>td_tenants := map f (td_tenants db)\<rparr>) (snd (update_tenant svc fr actor c clock db))"
proof -
  have same: "\<exists>f. (\<forall>r. ten_id (f r) = ten_id r \<and> ten_status (f r) = ten_status r)
    \<and> bookkeeping (db\<lparr>td_tenants := map f (td_tenants db)\<rparr>) db"
    by (intro exI [of _ id]) simp
  show ?thesis
  proof (cases "bindE (UpdateTenantCommand_post_init c) (\<lambda>_.
           bindE (normalize_tenant_name (ts_nfkc svc) (ts_casefold svc) (utc_name c)) (\<lambda>name.
           bindE (tenant_now (clock 0)) (\<lambda>now. Inr (name, now))))")
    case (Inl e)
    then have "snd (update_tenant svc fr actor c clock db) = db" by (simp add: update_tenant_def)
    then show ?thesis using same by simp
  next
    case (Inr x)
    obtain name now where x: "x = (name, now)" by (cases x)
    have op: "update_tenant svc fr actor c clock db = transaction (update_tenant_body svc fr actor c name clock now) db"
      by (simp add: update_tenant_def Inr x)
    show ?thesis
    proof (cases rule: transaction_cases [of "update_tenant_body svc fr actor c name clock now" db])
      case (fails e)
      then show ?thesis using same by (simp add: op)
    next
      case (commits res db')
      then show ?thesis using update_tenant_body_Inr by (simp add: op)
    qed
  qed
qed


subsection \<open>The invariant\<close>

text \<open>
  What a step keeps of a membership: who it is, its final revocation, and that its status and department
  only change together with its authorization version.
\<close>

definition keeps_member :: "member_row \<Rightarrow> member_row \<Rightarrow> bool" where
  "keeps_member m m' \<longleftrightarrow> mbr_id m' = mbr_id m \<and> mbr_tenant_id m' = mbr_tenant_id m \<and> mbr_user_id m' = mbr_user_id m
     \<and> mbr_member_type m' = mbr_member_type m
     \<and> mbr_authz_version m \<le> mbr_authz_version m' \<and> mbr_version m \<le> mbr_version m'
     \<and> (mbr_authz_version m' = mbr_authz_version m \<longrightarrow>
          mbr_status m' = mbr_status m \<and> mbr_department_id m' = mbr_department_id m)
     \<and> (mbr_status m = MembershipStatus_REVOKED \<longrightarrow> mbr_status m' = MembershipStatus_REVOKED)"

interpretation members: advancing_rows mbr_id keeps_member
  by unfold_locales (auto simp: keeps_member_def)

definition tenant_kept :: "tenant_db \<Rightarrow> tenant_db \<Rightarrow> bool" where
  "tenant_kept db db' \<longleftrightarrow> tenant_keys db' \<and> (\<forall>t. owned t db \<longrightarrow> owned t db')
     \<and> (\<forall>t\<in>ten_id ` set (td_tenants db'). t \<in> ten_id ` set (td_tenants db) \<or> owned t db')
     \<and> table_keeps keeps_member (td_memberships db) (td_memberships db')"

lemma tenant_kept_trans: "tenant_kept db db' \<Longrightarrow> tenant_kept db' db'' \<Longrightarrow> tenant_kept db db''"
  unfolding tenant_kept_def by (meson members.table_trans)

lemma bookkeeping_tenant_kept: "bookkeeping db db' \<Longrightarrow> tenant_keys db \<Longrightarrow> tenant_kept db db'"
  using bookkeeping_kept [of db db'] bookkeeping_same [of db db'] by (simp add: tenant_kept_def members.table_refl)

lemma write_keeps_members:
  assumes "tenant_keys db" "row \<in> set (td_memberships db)" "mbr_tenant_id row = t" "mbr_id row = mch_membership_id ch"
    "mbr_status row \<noteq> MembershipStatus_REVOKED"
  shows "table_keeps keeps_member (td_memberships db) (td_memberships (member_written t ch pl db))"
proof -
  let ?f = "moved t (mch_membership_id ch) (mpl_status pl) (mpl_department_id pl) (mch_expected_version ch)"
  have "keeps_member m (?f m)" if "m \<in> set (td_memberships db)" for m
  proof (cases "mbr_id m = mch_membership_id ch")
    case True
    then have "m = row" using assms that by (auto simp: tenant_keys_def intro: distinct_map_eq [of mbr_id])
    then show ?thesis using assms(5) by (simp add: keeps_member_def moved_def Let_def member_values_def)
  next
    case False
    then show ?thesis using moved_other by (simp add: members.keeps_refl)
  qed
  then show ?thesis by (auto simp: table_keeps_def member_written_def)
qed

lemma mutate_member_body_tenant_kept:
  assumes "mutate_member_body svc fr actor ch clock now db = Inr ((r, task), db')" "tenant_keys db"
  shows "tenant_kept db db'"
proof -
  have base: "tenant_keys db' \<and> td_tenants db' = td_tenants db \<and> (\<forall>t. owned t db \<longrightarrow> owned t db')"
    by (rule mutate_member_body_kept [OF assms])
  have "table_keeps keeps_member (td_memberships db) (td_memberships db')"
  proof (cases task)
    case None
    show ?thesis using assms(1)
    proof (cases rule: mutate_member_body_cases)
      case replayed
      then show ?thesis using bookkeeping_same(3) by (metis members.table_refl)
    next
      case (planned locked current row pl rsv db1)
      have "\<not> plan_changes current pl" using commit_member_change_Inr(3) [OF planned(10)] None by (auto split: if_split_asm)
      then have "bookkeeping db db'"
        using commit_member_change_Inr(4) [OF planned(10)] planned(8) bookkeeping_trans by auto
      then show ?thesis using bookkeeping_same(3) by (metis members.table_refl)
    qed
  next
    case (Some i)
    show ?thesis using assms(1) [unfolded Some]
    proof (cases rule: mutate_member_body_changed)
      case (1 locked current row pl db1 s row')
      obtain removes where v: "validate_membership_mutation (tas_actor_membership locked) (tas_role_codes locked) (tas_context locked)
        current (role_codes_of (ctx_tenant_id (tas_context locked)) (mpl_current_roles pl) db1) (mpl_status pl) (mpl_department_id pl)
        (role_codes_of (ctx_tenant_id (tas_context locked)) (mpl_roles pl) db1) (mch_action ch) = Inr removes"
        using plan_member_change_Inr(6) [OF 1(8)] by blast
      have live: "mbr_status row \<noteq> MembershipStatus_REVOKED"
        using validate_mutation_Inr(1) [OF v] member_of_row_Inr [OF 1(5)] by auto
      have k1: "tenant_keys db1" by (rule bookkeeping_kept(1) [OF 1(7) assms(2)])
      have "table_keeps keeps_member (td_memberships db1)
          (td_memberships (member_written (ctx_tenant_id (act_context actor)) ch pl db1))"
        by (rule write_keeps_members [OF k1 _ 1(3,4) live]) (use 1(2) bookkeeping_same(3) [OF 1(7)] in simp)
      then show ?thesis using bookkeeping_same(3) [OF 1(7)] bookkeeping_same(3) [OF 1(10)] by simp
    qed
  qed
  with base show ?thesis by (simp add: tenant_kept_def)
qed

lemma invitation_frame_tenant_kept: "invitation_frame db db' \<Longrightarrow> tenant_keys db \<Longrightarrow> tenant_kept db db'"
  using owned_cong [of db' db]
  by (auto simp: invitation_frame_def tenant_kept_def tenant_keys_def members.table_refl)

lemma joined_keeps_members:
  assumes "joined_rows t i user kind rows rows'"
  shows "table_keeps keeps_member rows rows'"
  using assms unfolding joined_rows_def
proof
  assume "\<exists>m. rows' = rows @ [m] \<and> mbr_id m = i \<and> mbr_tenant_id m = t \<and> mbr_user_id m = user \<and> mbr_member_type m = kind
        \<and> mbr_status m = MembershipStatus_ACTIVE \<and> i \<notin> mbr_id ` set rows"
  then show ?thesis using members.table_append by auto
next
  assume "\<exists>n. rows' = map (activated t i n) rows \<and> (\<exists>r\<in>set rows. mbr_id r = i \<and> mbr_tenant_id r = t \<and> mbr_user_id r = user
          \<and> mbr_member_type r = kind \<and> mbr_status r = MembershipStatus_INVITED)"
  moreover have "keeps_member r (activated t i n r)" for n r
    by (simp add: keeps_member_def activated_def activated_member_def)
  ultimately show ?thesis using members.table_map by auto
qed

lemma accept_body_tenant_kept:
  assumes "accept_body isvc fr c loc h created now db = Inr (a, db')" "tenant_keys db"
  shows "tenant_kept db db'"
  using assms(1)
proof (cases rule: accept_body_Inr)
  case replayed
  then show ?thesis using bookkeeping_tenant_kept assms(2) by blast
next
  case (accepted r codes kind members)
  let ?db = "after_acceptance r (mem_id (iar_membership a)) (iar_role_ids a) (dt_wall now) members db"
  note same = bookkeeping_same [OF accepted(7)]
  have rows: "td_memberships ?db = members" "td_tenants ?db = td_tenants db" "td_roles ?db = td_roles db"
    by (simp_all add: after_acceptance_def)
  have "distinct (td_assignments db')" using accepted(8) assms(2) by (simp add: tenant_keys_def)
  then have "tenant_keys db'"
    using joined_ids(1) [OF accepted(6)] assms(2) by (simp add: tenant_keys_def same rows)
  moreover have "owned t db'" if "owned t db" for t
    using joined_keeps_owner [OF assms(2) accepted(6) that] bookkeeping_kept(2) [OF accepted(7)] by simp
  ultimately show ?thesis
    using joined_keeps_members [OF accepted(6)] by (simp add: tenant_kept_def same rows)
qed

lemma tenant_step_kept:
  assumes "tenant_step sessions db db'" "tenant_keys db"
  shows "tenant_kept db db'"
  using assms
proof (cases rule: tenant_step.cases)
  case (step_create svc fr c created clock)
  show ?thesis
  proof (cases rule: create_application_cases [of db svc fr c created clock])
    case idle
    then show ?thesis using assms(2) step_create bookkeeping_tenant_kept by simp
  next
    case (founded name rsv now res idem)
    let ?db = "db\<lparr>td_idempotency := idem\<rparr>"
    have out: "found_tenant fr c name rsv created now ?db = Inr (res, db')" using founded step_create by simp
    have keys: "tenant_keys ?db" using assms(2) by (simp add: tenant_keys_def)
    note f = found_tenant_Inr [OF out keys]
    obtain t m new as perms where e: "bookkeeping (?db\<lparr>td_tenants := td_tenants db @ [t], td_roles := td_roles db @ new,
          td_role_permissions := perms, td_memberships := td_memberships db @ [m], td_assignments := td_assignments db @ as\<rparr>) db'"
        "ten_id t = tf_tenant_id fr" using f(3) by auto
    note same = bookkeeping_same [OF e(1)]
    have grow: "owned u db'" if "owned u db" for u
      by (rule owned_grows [OF that]) (use same in auto)
    have "table_keeps keeps_member (td_memberships db) (td_memberships db')"
      using same(3) members.table_append by simp
    then show ?thesis using f(1,2) grow same(2) e(2) by (auto simp: tenant_kept_def)
  qed
next
  case (step_rename svc fr actor c clock)
  obtain f where f: "\<forall>r. ten_id (f r) = ten_id r \<and> ten_status (f r) = ten_status r"
      "bookkeeping (db\<lparr>td_tenants := map f (td_tenants db)\<rparr>) db'"
    using update_tenant_effect [of db svc fr actor c clock] step_rename by blast
  let ?db = "db\<lparr>td_tenants := map f (td_tenants db)\<rparr>"
  have "tenant_keys ?db" using assms(2) f(1) by (simp add: tenant_keys_def comp_def)
  then have k: "tenant_kept ?db db'" by (rule bookkeeping_tenant_kept [OF f(2)])
  have "owned t ?db = owned t db" for t by (rule owned_cong) simp_all
  moreover have "ten_id ` set (td_tenants ?db) = ten_id ` set (td_tenants db)" using f(1) by (simp add: image_image)
  ultimately show ?thesis using k by (simp add: tenant_kept_def)
next
  case (step_member svc fr actor ch clock now)
  show ?thesis
  proof (cases rule: transaction_cases [of "mutate_member_body svc fr actor ch clock now" db])
    case (fails e)
    then show ?thesis using step_member assms(2) bookkeeping_tenant_kept by simp
  next
    case (commits a db2)
    obtain r task where "a = (r, task)" by (cases a)
    then show ?thesis using commits step_member mutate_member_body_tenant_kept [OF _ assms(2)] by simp
  qed
next
  case step_bookkeeping
  then show ?thesis using assms(2) bookkeeping_tenant_kept by simp
next
  case step_session
  then have "owned t db' = owned t db" for t by (intro owned_cong) simp_all
  then show ?thesis using step_session assms(2) by (simp add: tenant_kept_def tenant_keys_def members.table_refl)
next
  case step_outside
  have "owned t db' = owned t db" for t by (rule owned_cong) (use step_outside in simp_all)
  moreover have "ten_id ` set (td_tenants db') = ten_id ` set (td_tenants db)"
    using step_outside(4) by (metis image_set)
  ultimately show ?thesis using step_outside assms(2) by (simp add: tenant_kept_def tenant_keys_def members.table_refl)
next
  case (step_invite isvc ifr actor ic clock delivery)
  then show ?thesis using create_invitation_frame invitation_frame_tenant_kept assms(2) by blast
next
  case (step_accept isvc afr ac loc h created now)
  show ?thesis
  proof (cases rule: transaction_cases [of "accept_body isvc afr ac loc h created now" db])
    case (fails e)
    then show ?thesis using step_accept assms(2) bookkeeping_tenant_kept by simp
  next
    case (commits a db2)
    then show ?thesis using step_accept accept_body_tenant_kept assms(2) by simp
  qed
next
  case (step_reconcile fresh ack ctx clock)
  then show ?thesis using reconcile_legacy_frame invitation_frame_tenant_kept assms(2) by blast
qed

lemma tenant_run_kept:
  assumes "tenant_run sessions db db'" "tenant_keys db"
  shows "tenant_keys db' \<and> tenant_kept db db'"
  using assms(1) unfolding tenant_run_def
proof (induction rule: rtranclp_induct)
  case base
  then show ?case using assms(2) bookkeeping_tenant_kept [OF bookkeeping_refl] by blast
next
  case (step y z)
  then show ?case using tenant_step_kept tenant_kept_trans tenant_kept_def by blast
qed

text \<open>
  C12. From an empty database on, whatever the tenant service, the invitation service, the session service
  and the cache dispatcher do, and in whatever order, every stored tenant has an active member with
  the active role \<open>tenant_owner\<close>, and identifiers stay unique.
\<close>
theorem tenant_never_ownerless:
  assumes "tenant_run sessions db db'" "tenant_keys db" "td_tenants db = []" "tenant \<in> set (td_tenants db')"
  shows "active_owner_rows (ten_id tenant) db' \<noteq> [] \<and> tenant_keys db'"
  using tenant_run_kept [OF assms(1,2)] assms(3,4) by (auto simp: tenant_kept_def owned_def)


subsection \<open>Invitations along a run\<close>

lemma mutate_member_invitations:
  assumes "mutate_member_body svc fr actor ch clock now db = Inr ((r, task), db')"
  shows "td_invitations db' = td_invitations db"
proof (cases task)
  case None
  show ?thesis using assms
  proof (cases rule: mutate_member_body_cases)
    case replayed
    then show ?thesis using bookkeeping_same(9) by blast
  next
    case (planned locked current row pl rsv db1)
    have "\<not> plan_changes current pl" using commit_member_change_Inr(3) [OF planned(10)] None by (auto split: if_split_asm)
    then have "bookkeeping db db'"
      using commit_member_change_Inr(4) [OF planned(10)] planned(8) bookkeeping_trans by auto
    then show ?thesis using bookkeeping_same(9) by blast
  qed
next
  case (Some i)
  show ?thesis using assms [unfolded Some]
  proof (cases rule: mutate_member_body_changed)
    case (1 locked current row pl db1 s row')
    then show ?thesis using bookkeeping_same(9) [OF 1(7)] bookkeeping_same(9) [OF 1(10)]
      by (simp add: put_session_def member_written_def)
  qed
qed

lemma accept_body_invitations:
  assumes "accept_body isvc fr c loc h created now db = Inr (a, db')"
  shows "invitations_kept db db'"
  using assms
proof (cases rule: accept_body_Inr)
  case replayed
  then show ?thesis using bookkeeping_same(9) invitations_kept_same by blast
next
  case (accepted r codes kind members)
  show ?thesis
    by (rule invitations_kept_map [of "consumed (invitation_of_row r) (dt_wall now)"])
      (rule consumed_keeps, simp add: bookkeeping_same(9) [OF accepted(7)] after_acceptance_def)
qed

lemma tenant_step_invitations:
  assumes "tenant_step sessions db db'" "tenant_keys db"
  shows "invitations_kept db db'"
  using assms
proof (cases rule: tenant_step.cases)
  case (step_create svc fr c created clock)
  show ?thesis
  proof (cases rule: create_application_cases [of db svc fr c created clock])
    case idle
    then show ?thesis using step_create bookkeeping_same(9) invitations_kept_same by blast
  next
    case (founded name rsv now res idem)
    have "tenant_keys (db\<lparr>td_idempotency := idem\<rparr>)" using assms(2) by (simp add: tenant_keys_def)
    from found_tenant_Inr(3) [OF founded this]
    obtain t m new as perms where e: "bookkeeping (db\<lparr>td_idempotency := idem, td_tenants := td_tenants db @ [t], td_roles := td_roles db @ new,
          td_role_permissions := perms, td_memberships := td_memberships db @ [m], td_assignments := td_assignments db @ as\<rparr>) db'"
      using step_create by auto
    show ?thesis using bookkeeping_same(9) [OF e] by (simp add: invitations_kept_same)
  qed
next
  case (step_rename svc fr actor c clock)
  obtain f where "bookkeeping (db\<lparr>td_tenants := map f (td_tenants db)\<rparr>) db'"
    using update_tenant_effect [of db svc fr actor c clock] step_rename by blast
  from bookkeeping_same(9) [OF this] show ?thesis by (simp add: invitations_kept_same)
next
  case (step_member svc fr actor ch clock now)
  show ?thesis
  proof (cases rule: transaction_cases [of "mutate_member_body svc fr actor ch clock now" db])
    case (fails e)
    then show ?thesis using step_member by (simp add: invitations_kept_same)
  next
    case (commits a db2)
    obtain r task where a: "a = (r, task)" by (cases a)
    have "td_invitations db2 = td_invitations db" using commits(1) [unfolded a] by (rule mutate_member_invitations)
    then show ?thesis using commits step_member by (simp add: invitations_kept_same)
  qed
next
  case step_bookkeeping
  then show ?thesis using bookkeeping_same(9) invitations_kept_same by blast
next
  case step_session
  then show ?thesis by (simp add: invitations_kept_same)
next
  case step_outside
  then show ?thesis by (simp add: invitations_kept_same)
next
  case (step_invite isvc ifr actor ic clock delivery)
  then show ?thesis using create_invitation_frame by (auto simp: invitation_frame_def)
next
  case (step_accept isvc afr ac loc h created now)
  show ?thesis
  proof (cases rule: transaction_cases [of "accept_body isvc afr ac loc h created now" db])
    case (fails e)
    then show ?thesis using step_accept by (simp add: invitations_kept_same)
  next
    case (commits a db2)
    then show ?thesis using step_accept accept_body_invitations by simp
  qed
next
  case (step_reconcile fresh ack ctx clock)
  then show ?thesis using reconcile_legacy_frame by (auto simp: invitation_frame_def)
qed

lemma tenant_run_invitations:
  assumes "tenant_run sessions db db'" "tenant_keys db"
  shows "invitations_kept db db'"
  using assms(1) unfolding tenant_run_def
proof (induction rule: rtranclp_induct)
  case base
  then show ?case by (simp add: invitations_kept_same)
next
  case (step y z)
  have "tenant_keys y" using tenant_run_kept [of sessions db y] step(1) assms(2) by (simp add: tenant_run_def)
  then show ?case using tenant_step_invitations [OF step(2)] step(3) invitations_kept_trans by blast
qed

end
