(* ===== verification/TenantSafety.thy ===== *)
theory TenantSafety
  imports TenantRun
begin

text \<open>
  Who may act in a tenant: what a successful operation says about the stored membership, session, user and
  roles of its actor, and that a revoked member can do nothing any more.
\<close>

subsection \<open>The sessions follow the session machine\<close>

lemma session_view_keys:
  "usr_id ` set (sd_users (session_view db)) = usr_id ` set (td_users db)"
  "ten_id ` set (sd_tenants (session_view db)) = ten_id ` set (td_tenants db)"
  "(\<lambda>m. (mbr_tenant_id m, mbr_user_id m, mbr_id m)) ` set (sd_memberships (session_view db))
     = (\<lambda>m. (mbr_tenant_id m, mbr_user_id m, mbr_id m)) ` set (td_memberships db)"
  by (simp_all add: session_view_def image_image tenant_row.truncate_def membership_row.truncate_def)

lemma view_other:
  assumes "td_sessions db' = td_sessions db" "td_refresh db' = td_refresh db"
    "usr_id ` set (td_users db) \<subseteq> usr_id ` set (td_users db')"
    "ten_id ` set (td_tenants db) \<subseteq> ten_id ` set (td_tenants db')"
    "(\<lambda>m. (mbr_tenant_id m, mbr_user_id m, mbr_id m)) ` set (td_memberships db)
       \<subseteq> (\<lambda>m. (mbr_tenant_id m, mbr_user_id m, mbr_id m)) ` set (td_memberships db')"
  shows "session_run svc (session_view db) (session_view db')"
proof -
  have "references_kept (session_view db) (session_view db')"
    using assms(3-5) unfolding references_kept_def session_view_keys by blast
  then show ?thesis
    unfolding session_run_def by (intro r_into_rtranclp step_other) (use assms(1,2) in \<open>simp_all add: session_view_def\<close>)
qed

lemma session_run_trans: "session_run svc a b \<Longrightarrow> session_run svc b c \<Longrightarrow> session_run svc a c"
  unfolding session_run_def by (rule rtranclp_trans)

lemma view_bookkeeping: "bookkeeping db db' \<Longrightarrow> session_run svc (session_view db) (session_view db')"
  using bookkeeping_same [of db db'] by (intro view_other) simp_all

lemma revoke_for_membership_rows:
  "revoke_for_membership t m reason now db = Inr s \<Longrightarrow>
     sd_users s = sd_users db \<and> sd_tenants s = sd_tenants db \<and> sd_memberships s = sd_memberships db \<and> sd_audit s = sd_audit db"
  by (auto simp: revoke_for_membership_def revoke_tokens_def revoke_logins_def bindE_eq_Inr)

lemma view_put_session:
  "sd_users s = sd_users (session_view db) \<Longrightarrow> sd_tenants s = sd_tenants (session_view db) \<Longrightarrow>
     sd_memberships s = sd_memberships (session_view db) \<Longrightarrow> session_view (put_session s db) = s"
  by (cases s) (simp add: session_view_def put_session_def)

lemma member_written_keys:
  "(\<lambda>m. (mbr_tenant_id m, mbr_user_id m, mbr_id m)) ` set (td_memberships (member_written t ch pl db))
     = (\<lambda>m. (mbr_tenant_id m, mbr_user_id m, mbr_id m)) ` set (td_memberships db)"
  by (simp add: member_written_def image_image)

lemma view_mutate_member:
  assumes "mutate_member_body svc fr actor ch clock now db = Inr ((r, task), db')"
  shows "session_run sessions (session_view db) (session_view db')"
proof (cases task)
  case None
  show ?thesis using assms
  proof (cases rule: mutate_member_body_cases)
    case replayed
    then show ?thesis by (simp add: view_bookkeeping)
  next
    case (planned locked current row pl rsv db1)
    have "\<not> plan_changes current pl" using commit_member_change_Inr(3) [OF planned(10)] None by (auto split: if_split_asm)
    then have "bookkeeping db db'"
      using commit_member_change_Inr(4) [OF planned(10)] planned(8) bookkeeping_trans by auto
    then show ?thesis by (rule view_bookkeeping)
  qed
next
  case (Some i)
  show ?thesis using assms [unfolded Some]
  proof (cases rule: mutate_member_body_changed)
    case (1 locked current row pl db1 s row')
    let ?w = "member_written (ctx_tenant_id (act_context actor)) ch pl db1"
    have "session_run sessions (session_view db) (session_view db1)" by (rule view_bookkeeping [OF 1(7)])
    moreover have "session_run sessions (session_view db1) (session_view ?w)"
      by (rule view_other) (simp_all add: member_written_keys)
    moreover have "session_run sessions (session_view ?w) s"
      using 1(11) unfolding session_run_def by (blast intro: r_into_rtranclp step_membership)
    moreover have "session_view (put_session s ?w) = s"
      by (rule view_put_session) (use revoke_for_membership_rows [OF 1(11)] in simp_all)
    moreover have "session_run sessions (session_view (put_session s ?w)) (session_view db')"
      by (rule view_bookkeeping [OF 1(10)])
    ultimately show ?thesis by (metis session_run_trans)
  qed
qed

lemma view_acceptance:
  assumes "accept_body isvc fr c loc h created now db = Inr (a, db')"
  shows "session_run sessions (session_view db) (session_view db')"
  using assms
proof (cases rule: accept_body_Inr)
  case replayed
  then show ?thesis by (simp add: view_bookkeeping)
next
  case (accepted r codes kind members)
  show ?thesis
    by (rule view_other) (use bookkeeping_same [OF accepted(7)] joined_ids(2) [OF accepted(6)] in \<open>simp_all add: after_acceptance_def\<close>)
qed

lemma tenant_step_view: "tenant_step sessions db db' \<Longrightarrow> tenant_keys db \<Longrightarrow> session_run sessions (session_view db) (session_view db')"
proof (induction rule: tenant_step.induct)
  case (step_create db svc fr c created clock)
  let ?db' = "snd (create_application svc fr c created clock db)"
  show ?case
  proof (cases rule: create_application_cases [of db svc fr c created clock])
    case idle
    then show ?thesis by (rule view_bookkeeping)
  next
    case (founded name rsv now res idem)
    have "tenant_keys (db\<lparr>td_idempotency := idem\<rparr>)" using step_create by (simp add: tenant_keys_def)
    from found_tenant_Inr(3) [OF founded this]
    obtain t m new as perms where e: "bookkeeping (db\<lparr>td_idempotency := idem, td_tenants := td_tenants db @ [t], td_roles := td_roles db @ new,
          td_role_permissions := perms, td_memberships := td_memberships db @ [m], td_assignments := td_assignments db @ as\<rparr>) ?db'" by auto
    show ?thesis by (rule view_other) (use bookkeeping_same [OF e] in auto)
  qed
next
  case (step_rename db svc fr actor c clock)
  obtain f where f: "\<forall>r. ten_id (f r) = ten_id r \<and> ten_status (f r) = ten_status r"
      "bookkeeping (db\<lparr>td_tenants := map f (td_tenants db)\<rparr>) (snd (update_tenant svc fr actor c clock db))"
    using update_tenant_effect by blast
  show ?case by (rule view_other) (use bookkeeping_same [OF f(2)] f(1) in \<open>auto simp: image_image\<close>)
next
  case (step_member db svc fr actor ch clock now)
  show ?case
  proof (cases rule: transaction_cases [of "mutate_member_body svc fr actor ch clock now" db])
    case (fails e)
    then show ?thesis by (simp add: session_run_def)
  next
    case (commits a db2)
    obtain r task where "a = (r, task)" by (cases a)
    then show ?thesis using commits view_mutate_member by simp
  qed
next
  case (step_bookkeeping db db')
  then show ?case by (simp add: view_bookkeeping)
next
  case (step_session db db')
  then show ?case unfolding session_run_def by blast
next
  case (step_outside db' db)
  then have "ten_id ` set (td_tenants db') = ten_id ` set (td_tenants db)" by (metis image_set)
  then show ?case by (intro view_other) (use step_outside in auto)
next
  case (step_invite db isvc ifr actor ic clock delivery)
  then show ?case using create_invitation_frame [of db] by (intro view_other) (simp_all add: invitation_frame_def)
next
  case (step_accept db isvc afr ac loc h created now)
  show ?case
  proof (cases rule: transaction_cases [of "accept_body isvc afr ac loc h created now" db])
    case (fails e)
    then show ?thesis by (simp add: session_run_def)
  next
    case (commits a db2)
    then show ?thesis using view_acceptance by simp
  qed
next
  case (step_reconcile db fresh ack ctx clock)
  then show ?case using reconcile_legacy_frame [of db] by (intro view_other) (simp_all add: invitation_frame_def)
qed

lemma tenant_run_view:
  assumes "tenant_run sessions db db'" "tenant_keys db"
  shows "session_run sessions (session_view db) (session_view db')"
  using assms(1) unfolding tenant_run_def
proof (induction rule: rtranclp_induct)
  case base
  then show ?case by (simp add: session_run_def)
next
  case (step y z)
  have "tenant_keys y" using tenant_run_kept [of sessions db y] step(1) assms(2) by (simp add: tenant_run_def)
  then show ?case using tenant_step_view [OF step(2)] step(3) session_run_trans by blast
qed

subsection \<open>Who an actor is\<close>

text \<open>
  The stored facts a successful authorization rests on: the session of the principal is alive at the time
  of the first check, and its user, membership and roles give it the action at the time of the second.
\<close>

definition member_permissions :: "TenantActor \<Rightarrow> tenant_db \<Rightarrow> string set" where
  "member_permissions actor db = set (List.map_filter snd
     (member_role_rows (ctx_tenant_id (act_context actor)) (the (ctx_membership_id (act_context actor))) db))"

definition session_alive :: "TenantActor \<Rightarrow> int \<Rightarrow> tenant_db \<Rightarrow> bool" where
  "session_alive actor now db \<longleftrightarrow> (\<exists>s\<in>set (td_sessions db).
     ses_id s = pr_session_id (act_principal actor) \<and> ses_user_id s = pr_user_id (act_principal actor)
     \<and> (ses_tenant_id s = None \<or> (ses_tenant_id s = Some (ctx_tenant_id (act_context actor))
          \<and> ses_membership_id s = ctx_membership_id (act_context actor)))
     \<and> ses_revoked_at s = None \<and> now < ses_expires_at s)"

definition active_user :: "TenantActor \<Rightarrow> tenant_db \<Rightarrow> bool" where
  "active_user actor db \<longleftrightarrow> (\<exists>u\<in>set (td_users db). usr_id u = pr_user_id (act_principal actor) \<and> usr_status u = ''active''
     \<and> usr_auth_version u = pr_auth_version (act_principal actor))"

definition active_membership :: "TenantActor \<Rightarrow> int \<Rightarrow> tenant_db \<Rightarrow> bool" where
  "active_membership actor now db \<longleftrightarrow> (\<exists>m\<in>set (td_memberships db).
     Some (mbr_id m) = ctx_membership_id (act_context actor) \<and> mbr_tenant_id m = ctx_tenant_id (act_context actor)
     \<and> mbr_user_id m = pr_user_id (act_principal actor) \<and> mbr_status m = MembershipStatus_ACTIVE
     \<and> mbr_valid_from m \<le> now \<and> pred_option (\<lambda>u. now < u) (mbr_valid_until m)
     \<and> ctx_authz_version (act_context actor) = Some (mbr_authz_version m))"

definition entitled :: "TenantActor \<Rightarrow> Action \<Rightarrow> datetime \<Rightarrow> datetime \<Rightarrow> tenant_db \<Rightarrow> bool" where
  "entitled actor action checked decided db \<longleftrightarrow>
     session_alive actor (instant checked) db \<and> active_user actor db
     \<and> active_membership actor (instant decided) db
     \<and> Action_value action \<in> member_permissions actor db
     \<and> member_permissions actor db \<subseteq> known_permission_codes"

lemma authorize_resource_Inr:
  "authorize_resource actor snap action resource clock = Inr () \<Longrightarrow>
     grants (snapshot_principal actor snap) (tas_context snap) action resource clock"
  by (auto simp: authorize_resource_def Let_def bindE_eq_Inr tenant_now_def intro: allowedD split: if_split_asm)

lemma validate_actor_Inr:
  assumes "validate_authoritative_actor actor snap clock = Inr ()"
  obtains s where "tas_actor_session snap = Some s" "ass_id s = pr_session_id (act_principal actor)"
    "ass_user_id s = pr_user_id (act_principal actor)" "ass_revoked_at s = None" "instant clock < instant (ass_expires_at s)"
    "ass_tenant_id s = None \<or> (ass_tenant_id s = pr_tenant_id (act_principal actor)
       \<and> ass_membership_id s = pr_membership_id (act_principal actor))"
    "pr_tenant_id (act_principal actor) = Some (ctx_tenant_id (act_context actor))"
    "pr_membership_id (act_principal actor) = ctx_membership_id (act_context actor)"
    "ctx_membership_user_id (act_context actor) = Some (pr_user_id (act_principal actor))"
    "pr_auth_version (act_principal actor) = tas_user_auth_version snap"
    "ctx_authz_version (act_context actor) = Some (mem_authz_version (tas_actor_membership snap))"
  using assms
  by (cases "tas_actor_session snap")
    (auto simp: validate_authoritative_actor_def Let_def bindE_eq_Inr tenant_now_def require_eval split: if_split_asm)

lemma entitled_from:
  assumes ls: "load_snapshot (act_principal actor) (act_context actor) targets db = Inr (Some snap)"
    and s: "tas_actor_session snap = Some s" "ass_id s = pr_session_id (act_principal actor)"
      "ass_user_id s = pr_user_id (act_principal actor)" "ass_revoked_at s = None" "instant checked < instant (ass_expires_at s)"
      "ass_tenant_id s = None \<or> (ass_tenant_id s = pr_tenant_id (act_principal actor)
         \<and> ass_membership_id s = pr_membership_id (act_principal actor))"
      "pr_auth_version (act_principal actor) = tas_user_auth_version snap"
      "ctx_authz_version (act_context actor) = Some (mem_authz_version (tas_actor_membership snap))"
    and g: "grants (snapshot_principal actor snap) (tas_context snap) action resource decided" and a: "action \<notin> platform_actions"
  shows "entitled actor action checked decided db"
proof -
  obtain tenant m where m: "m \<in> set (td_memberships db)" "mbr_tenant_id m = ctx_tenant_id (act_context actor)"
      "Some (mbr_id m) = ctx_membership_id (act_context actor)" "member_of_row m = Inr (tas_actor_membership snap)"
      "Some (mbr_user_id m) = ctx_membership_user_id (act_context actor)"
      "tas_context snap = authoritative_context (act_context actor) tenant (tas_actor_membership snap)"
      "ten_id tenant = ctx_tenant_id (act_context actor)"
    using load_snapshot_Inr(1) [OF ls] by blast
  have am: "active_member (snapshot_principal actor snap) (tas_context snap) decided"
    and live: "live_session (snapshot_principal actor snap) decided"
    and perm: "holds_permission (snapshot_principal actor snap) action"
    using g a by (auto simp: grants_def split: PrincipalAudience.split_asm)
  note mm = member_of_row_Inr [OF m(4)]
  have p: "pr_tenant_id (act_principal actor) = Some (ctx_tenant_id (act_context actor))"
      "pr_membership_id (act_principal actor) = ctx_membership_id (act_context actor)"
      "mbr_user_id m = pr_user_id (act_principal actor)"
    using am mm m(2,3,5-7) by (simp_all add: active_member_def authoritative_context_def snapshot_principal_def)
  obtain r where r: "r \<in> set (td_sessions db)" "ses_id r = pr_session_id (act_principal actor)" "s = session_state_of r"
    using s(1) load_snapshot_Inr(6) [OF ls] by (auto dest: row_of_SomeD)
  have alive: "session_alive actor (instant checked) db"
    unfolding session_alive_def by (rule bexI [OF _ r(1)]) (use s r(2,3) p in \<open>auto simp: session_state_of_def\<close>)
  obtain u where u: "u \<in> set (td_users db)" "usr_id u = pr_user_id (act_principal actor)"
      "tas_user_status snap = usr_status u" "tas_user_auth_version snap = usr_auth_version u"
    using load_snapshot_Inr(5) [OF ls] by blast
  have user: "active_user actor db"
    unfolding active_user_def
    by (rule bexI [OF _ u(1)]) (use u live s(7) in \<open>simp add: live_session_def snapshot_principal_def\<close>)
  have dec: "instant decided = dt_wall decided" using live by (simp add: live_session_def instant_utc)
  have "active_membership actor (instant decided) db"
    unfolding active_membership_def
    by (rule bexI [OF _ m(1)])
      (use m mm am s(8) p in \<open>auto simp: active_member_def authoritative_context_def aware_optional_def pred_option_def\<close>)
  moreover have "member_permissions actor db = tas_permissions snap"
    using load_snapshot_Inr(3) [OF ls] by (simp add: member_permissions_def)
  ultimately show ?thesis
    using alive user perm by (simp add: entitled_def holds_permission_def snapshot_principal_def)
qed

lemma entitledI:
  assumes snap: "require_snapshot actor targets checked db = Inr snap"
    and auth: "authorize_resource actor snap action resource decided = Inr ()" and a: "action \<notin> platform_actions"
  shows "entitled actor action checked decided db"
proof -
  note valid = require_snapshot_Inr [OF snap]
  obtain s where s: "tas_actor_session snap = Some s" "ass_id s = pr_session_id (act_principal actor)"
    "ass_user_id s = pr_user_id (act_principal actor)" "ass_revoked_at s = None" "instant checked < instant (ass_expires_at s)"
    "ass_tenant_id s = None \<or> (ass_tenant_id s = pr_tenant_id (act_principal actor)
       \<and> ass_membership_id s = pr_membership_id (act_principal actor))"
    "pr_auth_version (act_principal actor) = tas_user_auth_version snap"
    "ctx_authz_version (act_context actor) = Some (mem_authz_version (tas_actor_membership snap))"
    using valid validate_actor_Inr by blast
  show ?thesis by (rule entitled_from [OF valid [THEN conjunct1] s authorize_resource_Inr [OF auth] a])
qed

lemma get_tenant_Inr:
  assumes "get_tenant actor clock db = Inr t"
  obtains snap where "require_snapshot actor [] (clock 0) db = Inr snap" "authorize_tenant actor snap TENANT_READ (clock 1) = Inr ()"
    "t = tas_tenant snap"
  using assms by (auto simp: get_tenant_def bindE_eq_Inr)

lemma tenant_actions: "TENANT_READ \<notin> platform_actions" "TENANT_UPDATE \<notin> platform_actions"
  "MEMBERSHIP_READ \<notin> platform_actions" "MEMBERSHIP_UPDATE \<notin> platform_actions" "MEMBERSHIP_REVOKE \<notin> platform_actions"
  "ROLE_ASSIGN \<notin> platform_actions"
  by (simp_all add: platform_actions_def)

lemma get_tenant_entitled_core:
  assumes "get_tenant actor clock db = Inr t"
  shows "entitled actor TENANT_READ (clock 0) (clock 1) db \<and> tenant_id t = ctx_tenant_id (act_context actor)
    \<and> (\<exists>row\<in>set (td_tenants db). tenant_of_row row = Inr t)"
proof -
  obtain snap where s: "require_snapshot actor [] (clock 0) db = Inr snap" "authorize_tenant actor snap TENANT_READ (clock 1) = Inr ()"
      "t = tas_tenant snap"
    using assms by (rule get_tenant_Inr)
  obtain row where row: "row \<in> set (td_tenants db)" "ten_id row = ctx_tenant_id (act_context actor)" "tenant_of_row row = Inr t"
    using load_snapshot_Inr(1) [OF require_snapshot_Inr [OF s(1), THEN conjunct1]] s(3) by blast
  have "tenant_id t = ten_id row" using row(3) by (auto simp: tenant_of_row_def Let_def bindE_eq_Inr)
  then show ?thesis
    using entitledI [OF s(1) s(2) [unfolded authorize_tenant_def] tenant_actions(1)] row by auto
qed

text \<open>
  C15. Reading a tenant succeeds only for its own stored tenant, with a live session of an active user whose
  active, currently valid membership in exactly that tenant holds \<open>tenant.read\<close> through its active roles,
  and no permission the policy engine does not know.
\<close>
theorem get_tenant_entitled:
  assumes "get_tenant actor clock db = Inr t"
  shows "entitled actor TENANT_READ (clock 0) (clock 1) db \<and> tenant_id t = ctx_tenant_id (act_context actor)
    \<and> (\<exists>row\<in>set (td_tenants db). tenant_of_row row = Inr t)"
  by (rule get_tenant_entitled_core [OF assms])

lemma update_tenant_entitled:
  assumes "fst (update_tenant svc fr actor c clock db) = Inr r"
  shows "entitled actor TENANT_UPDATE (clock 1) (clock 2) db \<and> entitled actor TENANT_UPDATE (clock 3) (clock 4) db"
proof -
  obtain name now db' where b: "update_tenant_body svc fr actor c name clock now db = Inr (r, db')"
    using assms by (auto simp: update_tenant_def transaction_def split: sum.split_asm prod.split_asm)
  obtain i l where 1: "require_snapshot actor [] (clock 1) db = Inr i" "authorize_tenant actor i TENANT_UPDATE (clock 2) = Inr ()"
      "require_snapshot actor [] (clock 3) db = Inr l" "authorize_tenant actor l TENANT_UPDATE (clock 4) = Inr ()"
    using b unfolding update_tenant_body_def by (elim bindE_InrE) simp
  show ?thesis
    using entitledI [OF 1(1) 1(2) [unfolded authorize_tenant_def] tenant_actions(2)]
      entitledI [OF 1(3) 1(4) [unfolded authorize_tenant_def] tenant_actions(2)] by simp
qed

lemma targeted_snapshot_entitled:
  assumes "targeted_snapshot actor ch clock db = Inr (snap, target)" "mch_action ch \<notin> platform_actions"
  shows "entitled actor (mch_action ch) (clock 0) (clock 1) db"
    "mch_role_ids ch \<noteq> None \<Longrightarrow> entitled actor ROLE_ASSIGN (clock 0) (clock 2) db"
proof -
  note s = targeted_snapshot_Inr(1,2) [OF assms(1)]
  have "authorize_resource actor snap (mch_action ch)
      (tenant_resource (tenant_id (tas_tenant snap)) (if mem_department_id target \<noteq> None then {Path_DEPARTMENT} else {})
         (mem_department_id target)) (clock 1) = Inr ()"
    using s(2) by (auto simp: authorize_change_def authorize_member_def bindE_eq_Inr)
  then show "entitled actor (mch_action ch) (clock 0) (clock 1) db" by (rule entitledI [OF s(1) _ assms(2)])
  assume "mch_role_ids ch \<noteq> None"
  then have "authorize_resource actor snap ROLE_ASSIGN
      (tenant_resource (tenant_id (tas_tenant snap)) (if mem_department_id target \<noteq> None then {Path_DEPARTMENT} else {})
         (mem_department_id target)) (clock 2) = Inr ()"
    using s(2) by (auto simp: authorize_change_def authorize_member_def bindE_eq_Inr)
  then show "entitled actor ROLE_ASSIGN (clock 0) (clock 2) db" by (rule entitledI [OF s(1) _ tenant_actions(6)])
qed

lemma mutate_member_entitled:
  assumes "mutate_member_body svc fr actor ch clock now db = Inr out" "mch_action ch \<notin> platform_actions"
  shows "entitled actor (mch_action ch) (clock 1) (clock 2) db \<and> entitled actor (mch_action ch) (clock 4) (clock 5) db
    \<and> (mch_role_ids ch \<noteq> None \<longrightarrow> entitled actor ROLE_ASSIGN (clock 4) (clock 6) db)"
proof -
  obtain x y where 1: "targeted_snapshot actor ch (\<lambda>i. clock (1 + i)) db = Inr x" "targeted_snapshot actor ch (\<lambda>i. clock (4 + i)) db = Inr y"
    using assms(1) unfolding mutate_member_body_def by (elim bindE_InrE) blast
  obtain s t s' t' where x: "x = (s, t)" and y: "y = (s', t')" by (cases x; cases y)
  show ?thesis
    using targeted_snapshot_entitled [OF 1(1) [unfolded x] assms(2)] targeted_snapshot_entitled [OF 1(2) [unfolded y] assms(2)]
    by (simp add: numeral_2_eq_2)
qed


subsection \<open>What a change of a membership may do\<close>

definition roles_held :: "uuid \<Rightarrow> uuid \<Rightarrow> tenant_db \<Rightarrow> string set" where
  "roles_held tenant membership db =
     role_codes_of tenant (map asg_role_id (member_assignments tenant membership db)) db"

definition actor_roles :: "TenantActor \<Rightarrow> tenant_db \<Rightarrow> string set" where
  "actor_roles actor db = fst ` set (member_role_rows (ctx_tenant_id (act_context actor)) (the (ctx_membership_id (act_context actor))) db)"

lemma role_codes_of_cong:
  "set ids = set ids' \<Longrightarrow> td_roles db = td_roles db' \<Longrightarrow> role_codes_of t ids db = role_codes_of t ids' db'"
  by (simp add: role_codes_of_def active_roles_def)

lemma roles_held_written:
  assumes "role_ids c i db = Inr (mpl_current_roles pl)" "ctx_tenant_id c = t" "i = mch_membership_id ch"
  shows "roles_held t i (member_written t ch pl db) = role_codes_of t (mpl_roles pl) db"
    "roles_held t i db = role_codes_of t (mpl_current_roles pl) db"
proof -
  have cur: "set (map asg_role_id (member_assignments t i db)) = set (mpl_current_roles pl)"
    using role_ids_set [OF assms(1)] assms(2) by simp
  then show "roles_held t i db = role_codes_of t (mpl_current_roles pl) db"
    unfolding roles_held_def by (intro role_codes_of_cong) simp_all
  have "set (map asg_role_id (member_assignments t i (member_written t ch pl db))) = set (mpl_roles pl)"
  proof (cases "mpl_roles pl = mpl_current_roles pl")
    case True
    then show ?thesis using cur by (simp add: member_written_def member_assignments_def)
  next
    case False
    then show ?thesis
      using assms(3) by (auto simp: member_written_def member_assignments_def assignments_after_def)
  qed
  then show "roles_held t i (member_written t ch pl db) = role_codes_of t (mpl_roles pl) db"
    unfolding roles_held_def by (intro role_codes_of_cong) simp_all
qed

lemma roles_held_cong:
  "td_roles db' = td_roles db \<Longrightarrow> td_assignments db' = td_assignments db \<Longrightarrow> roles_held t i db' = roles_held t i db"
  by (simp add: roles_held_def role_codes_of_def active_roles_def member_assignments_def)

lemma find_in_tenant_unique:
  assumes "tenant_keys db" "find_in_tenant t i db = Some r" "r' \<in> set (td_memberships db)" "mbr_id r' = i"
  shows "r' = r"
proof -
  have "r \<in> set (td_memberships db)" "mbr_id r = i"
    using sql_scalar_SomeD [OF assms(2) [unfolded find_in_tenant_def]] by simp_all
  then show ?thesis using assms(1,3,4) by (auto simp: tenant_keys_def intro: distinct_map_eq [of mbr_id])
qed

lemma member_change_lawful_core:
  assumes out: "mutate_member_body svc fr actor ch clock now db = Inr ((r, Some task), db')"
    and keys: "tenant_keys db" and action: "mch_action ch \<in> {MEMBERSHIP_UPDATE, MEMBERSHIP_REVOKE}"
    and t: "t = ctx_tenant_id (act_context actor)" and i: "i = mch_membership_id ch"
  shows "entitled actor (mch_action ch) (clock 4) (clock 5) db
    \<and> (\<exists>m m'. find_in_tenant t i db = Some m \<and> find_in_tenant t i db' = Some m'
        \<and> mbr_version m = mch_expected_version ch \<and> mbr_version m' = mbr_version m + 1
        \<and> mbr_authz_version m' = mbr_authz_version m + 1
        \<and> mbr_status m' = (case mch_status ch of None \<Rightarrow> mbr_status m | Some st \<Rightarrow> st)
        \<and> mbr_department_id m' = (if mch_change_department ch then mch_department_id ch else mbr_department_id m)
        \<and> mbr_status m \<in> {MembershipStatus_ACTIVE, MembershipStatus_SUSPENDED}
        \<and> (''tenant_owner'' \<in> roles_held t i db' \<longrightarrow> mbr_member_type m' = MemberType_OWNER)
        \<and> (''tenant_owner'' \<notin> actor_roles actor db \<and> Some i \<noteq> ctx_membership_id (act_context actor) \<longrightarrow>
             rank_of (roles_held t i db) < rank_of (actor_roles actor db)))
    \<and> rank_of (roles_held t i db') \<le> rank_of (actor_roles actor db)
    \<and> (''tenant_owner'' \<notin> actor_roles actor db \<longrightarrow>
         (''tenant_owner'' \<in> roles_held t i db') = (''tenant_owner'' \<in> roles_held t i db))"
proof -
  have nonplatform: "mch_action ch \<notin> platform_actions" using action tenant_actions by auto
  have ent: "entitled actor (mch_action ch) (clock 4) (clock 5) db"
    using mutate_member_entitled [OF out nonplatform] by simp
  show ?thesis using out
  proof (cases rule: mutate_member_body_changed)
    case (1 locked current row pl db1 s row')
    note b1 = bookkeeping_same [OF 1(7)] and b2 = bookkeeping_same [OF 1(10)]
    let ?w = "member_written t ch pl db1"
    note p = plan_member_change_Inr [OF 1(8)]
    have ct: "ctx_tenant_id (tas_context locked) = t" using 1(6) t by simp
    obtain removes where v: "validate_membership_mutation (tas_actor_membership locked) (tas_role_codes locked) (tas_context locked)
        current (role_codes_of t (mpl_current_roles pl) db1) (mpl_status pl) (mpl_department_id pl)
        (role_codes_of t (mpl_roles pl) db1) (mch_action ch) = Inr removes"
      using p(6) ct by auto
    note vv = validate_mutation_Inr [OF v]
    have h1: "roles_held t i db1 = role_codes_of t (mpl_current_roles pl) db1"
      and h2: "roles_held t i ?w = role_codes_of t (mpl_roles pl) db1"
      using roles_held_written [OF p(2) ct refl] i by simp_all
    have h1': "roles_held t i db = role_codes_of t (mpl_current_roles pl) db1"
      using h1 roles_held_cong [of db1 db] b1 by simp
    have h2': "roles_held t i db' = role_codes_of t (mpl_roles pl) db1"
      using h2 roles_held_cong [of db' ?w] b2 t by simp
    have snap: "require_snapshot actor [i] (clock 4) db = Inr locked"
      using targeted_snapshot_Inr(1) [OF 1(1)] i by simp
    note ls = load_snapshot_Inr [OF require_snapshot_Inr [OF snap, THEN conjunct1]]
    have roles: "tas_role_codes locked = actor_roles actor db" using ls(4) by (simp add: actor_roles_def)
    have self: "Some (mem_id (tas_actor_membership locked)) = ctx_membership_id (act_context actor)"
      using ls(1) member_of_row_Inr by auto
    have keys1: "tenant_keys db1" by (rule bookkeeping_kept(1) [OF 1(7) keys])
    note c = member_of_row_Inr [OF 1(5)]
    have find: "find_in_tenant t i db = Some row"
    proof -
      have "find_in_tenant t i db \<noteq> None"
        using 1(2-4) t i by (auto simp: find_in_tenant_def sql_scalar_def find_None_iff)
      then obtain m where "find_in_tenant t i db = Some m" by blast
      then show ?thesis using find_in_tenant_unique [OF keys _ 1(2)] 1(4) i by simp
    qed
    let ?moved = "moved t i (mpl_status pl) (mpl_department_id pl) (mch_expected_version ch) row"
    have "?moved \<in> set (td_memberships db')"
      using 1(2) b1(3) b2(3) t i by (simp add: member_written_def)
    moreover have "tenant_keys db'" using mutate_member_body_kept [OF out keys] by simp
    ultimately have "row' = ?moved"
      using find_in_tenant_unique [of db' t i row' ?moved] 1(4,12) t i by simp
    then have row': "find_in_tenant t i db' = Some ?moved" using 1(12) t i by simp
    have mv: "mbr_status ?moved = mpl_status pl \<and> mbr_department_id ?moved = mpl_department_id pl
        \<and> mbr_authz_version ?moved = mbr_authz_version row + 1 \<and> mbr_version ?moved = mch_expected_version ch + 1"
      by (rule moved_hit) (use 1(3,4) p(1) c t i in simp_all)
    have own: "''tenant_owner'' \<notin> actor_roles actor db \<and> Some i \<noteq> ctx_membership_id (act_context actor) \<longrightarrow>
             rank_of (roles_held t i db) < rank_of (actor_roles actor db)"
    proof (intro impI)
      assume a: "''tenant_owner'' \<notin> actor_roles actor db \<and> Some i \<noteq> ctx_membership_id (act_context actor)"
      then have "mem_id current \<noteq> mem_id (tas_actor_membership locked)" using self c 1(4) i by metis
      then show "rank_of (roles_held t i db) < rank_of (actor_roles actor db)" using a vv(6) roles h1' by simp
    qed
    have ex: "\<exists>m m'. find_in_tenant t i db = Some m \<and> find_in_tenant t i db' = Some m'
        \<and> mbr_version m = mch_expected_version ch \<and> mbr_version m' = mbr_version m + 1
        \<and> mbr_authz_version m' = mbr_authz_version m + 1
        \<and> mbr_status m' = (case mch_status ch of None \<Rightarrow> mbr_status m | Some st \<Rightarrow> st)
        \<and> mbr_department_id m' = (if mch_change_department ch then mch_department_id ch else mbr_department_id m)
        \<and> mbr_status m \<in> {MembershipStatus_ACTIVE, MembershipStatus_SUSPENDED}
        \<and> (''tenant_owner'' \<in> roles_held t i db' \<longrightarrow> mbr_member_type m' = MemberType_OWNER)
        \<and> (''tenant_owner'' \<notin> actor_roles actor db \<and> Some i \<noteq> ctx_membership_id (act_context actor) \<longrightarrow>
             rank_of (roles_held t i db) < rank_of (actor_roles actor db))"
    proof (rule exI [of _ row], rule exI [of _ ?moved], intro conjI)
      show "find_in_tenant t i db = Some row" by (rule find)
      show "find_in_tenant t i db' = Some ?moved" by (rule row')
      show "mbr_version row = mch_expected_version ch" using p(1) c by simp
      then show "mbr_version ?moved = mbr_version row + 1" using mv by simp
      show "mbr_authz_version ?moved = mbr_authz_version row + 1" using mv by simp
      show "mbr_status ?moved = (case mch_status ch of None \<Rightarrow> mbr_status row | Some st \<Rightarrow> st)"
        using mv p(3) c by (simp split: option.split)
      show "mbr_department_id ?moved = (if mch_change_department ch then mch_department_id ch else mbr_department_id row)"
        using mv p(4) c by simp
      show "mbr_status row \<in> {MembershipStatus_ACTIVE, MembershipStatus_SUSPENDED}" using vv(1) c by simp
      show "''tenant_owner'' \<in> roles_held t i db' \<longrightarrow> mbr_member_type ?moved = MemberType_OWNER" using vv(8) c h2' by simp
      show "''tenant_owner'' \<notin> actor_roles actor db \<and> Some i \<noteq> ctx_membership_id (act_context actor) \<longrightarrow>
             rank_of (roles_held t i db) < rank_of (actor_roles actor db)" by (rule own)
    qed
    have le: "rank_of (roles_held t i db') \<le> rank_of (actor_roles actor db)" using vv(5) roles h2' by simp
    have eq: "''tenant_owner'' \<notin> actor_roles actor db \<longrightarrow>
         (''tenant_owner'' \<in> roles_held t i db') = (''tenant_owner'' \<in> roles_held t i db)"
      using vv(7) roles h1' h2' by auto
    show ?thesis using ent ex le eq by blast
  qed
qed


text \<open>
  C14. A change of a membership that is written was asked for by an entitled actor, moves the row from the
  expected version by exactly one and its authorization version with it, to the asked status, department and
  roles; the roles it gives do not outrank the actor, an actor without the owner role only touches members
  of lower rank (or itself) and never gives or takes the owner role, and only a member of type owner holds it.
\<close>
theorem member_change_lawful:
  assumes out: "mutate_member_body svc fr actor ch clock now db = Inr ((r, Some task), db')"
    and keys: "tenant_keys db" and action: "mch_action ch \<in> {MEMBERSHIP_UPDATE, MEMBERSHIP_REVOKE}"
    and t: "t = ctx_tenant_id (act_context actor)" and i: "i = mch_membership_id ch"
  shows "entitled actor (mch_action ch) (clock 4) (clock 5) db
    \<and> (\<exists>m m'. find_in_tenant t i db = Some m \<and> find_in_tenant t i db' = Some m'
        \<and> mbr_version m = mch_expected_version ch \<and> mbr_version m' = mbr_version m + 1
        \<and> mbr_authz_version m' = mbr_authz_version m + 1
        \<and> mbr_status m' = (case mch_status ch of None \<Rightarrow> mbr_status m | Some st \<Rightarrow> st)
        \<and> mbr_department_id m' = (if mch_change_department ch then mch_department_id ch else mbr_department_id m)
        \<and> mbr_status m \<in> {MembershipStatus_ACTIVE, MembershipStatus_SUSPENDED}
        \<and> (''tenant_owner'' \<in> roles_held t i db' \<longrightarrow> mbr_member_type m' = MemberType_OWNER)
        \<and> (''tenant_owner'' \<notin> actor_roles actor db \<and> Some i \<noteq> ctx_membership_id (act_context actor) \<longrightarrow>
             rank_of (roles_held t i db) < rank_of (actor_roles actor db)))
    \<and> rank_of (roles_held t i db') \<le> rank_of (actor_roles actor db)
    \<and> (''tenant_owner'' \<notin> actor_roles actor db \<longrightarrow>
         (''tenant_owner'' \<in> roles_held t i db') = (''tenant_owner'' \<in> roles_held t i db))"
  by (rule member_change_lawful_core [OF assms])

subsection \<open>Revocation\<close>

lemma mutate_member_committed:
  assumes "mutate_member svc fr actor ch clock invalidated meanwhile db = (outcome, db1)"
    and "outcome = Answered (Inr r) \<or> outcome = PostCommitCacheInvalidation r"
  obtains now task dbc where "mutate_member_body svc fr actor ch clock now db = Inr ((r, task), dbc)"
    "bookkeeping dbc db1 \<or> bookkeeping (meanwhile dbc) db1"
proof -
  obtain now answer dbc where b: "mutate_member_body svc fr actor ch clock now db = Inr (answer, dbc)"
      "after_commit invalidated (clock 7) answer meanwhile dbc = (outcome, db1)"
    using assms by (auto simp: mutate_member_def transaction_def split: sum.split_asm prod.split_asm)
  obtain r' task where a: "answer = (r', task)" by (cases answer)
  show ?thesis
  proof (cases task)
    case None
    then have "r' = r" "db1 = dbc" using b(2) assms(2) by (auto simp: after_commit_def a)
    then show ?thesis using that [of now task dbc] b(1) a by simp
  next
    case (Some i)
    show ?thesis
    proof (cases "transaction (complete_immediately i (clock 7)) (meanwhile dbc)")
      case (Pair res db2)
      have "bookkeeping (meanwhile dbc) db2"
        using Pair complete_immediately_Inr [of i "clock 7" "meanwhile dbc"]
        by (auto simp: transaction_def split: sum.split_asm)
      then have "r' = r \<and> (bookkeeping dbc db1 \<or> bookkeeping (meanwhile dbc) db1)"
        using b(2) assms(2) Some Pair by (auto simp: after_commit_def a split: if_split_asm sum.split_asm)
      then show ?thesis using that [of now task dbc] b(1) a by simp
    qed
  qed
qed

lemma revoke_change_simps [simp]:
  "mch_action (revoke_change c) = MEMBERSHIP_REVOKE" "mch_membership_id (revoke_change c) = rmc_membership_id c"
  "mch_status (revoke_change c) = Some MembershipStatus_REVOKED" "mch_role_ids (revoke_change c) = None"
  by (simp_all add: revoke_change_def)

lemma revocation_changes:
  assumes "mutate_member_body svc fr actor (revoke_change c) clock now db = Inr ((r, task), db')" "\<not> mmr_replayed r"
  shows "\<exists>i. task = Some i"
  using assms(1)
proof (cases rule: mutate_member_body_cases)
  case replayed
  then show ?thesis using assms(2) by simp
next
  case (planned locked current row pl rsv db1)
  obtain removes where v: "validate_membership_mutation (tas_actor_membership locked) (tas_role_codes locked) (tas_context locked)
        current (role_codes_of (ctx_tenant_id (tas_context locked)) (mpl_current_roles pl) db1) (mpl_status pl) (mpl_department_id pl)
        (role_codes_of (ctx_tenant_id (tas_context locked)) (mpl_roles pl) db1) (mch_action (revoke_change c)) = Inr removes"
    using plan_member_change_Inr(6) [OF planned(9)] by blast
  have "mpl_status pl = MembershipStatus_REVOKED" using plan_member_change_Inr(3) [OF planned(9)] by simp
  then have "plan_changes current pl" using validate_mutation_Inr(1) [OF v] by (auto simp: plan_changes_def)
  then show ?thesis using commit_member_change_Inr(3) [OF planned(10)] by simp
qed

lemma revoked_sessions_dead:
  assumes "revoke_for_membership t i reason now db = Inr db'" "s \<in> set (sd_sessions db)"
    "ses_tenant_id s = Some t" "ses_membership_id s = Some i"
  shows "session_dead (ses_id s) db'"
proof -
  obtain db1 where 1: "revoke_tokens (\<lambda>r. rfr_tenant_id r = Some t \<and> rfr_membership_id r = Some i) reason now db = Inr db1"
      "revoke_logins (\<lambda>s. ses_tenant_id s = Some t \<and> ses_membership_id s = Some i) reason now db1 = Inr db'"
    using assms(1) by (auto simp: revoke_for_membership_def bindE_eq_Inr)
  have "sd_sessions db1 = sd_sessions db" using 1(1) by (auto simp: revoke_tokens_def bindE_eq_Inr)
  then show ?thesis by (intro revoke_logins_dead [OF 1(2)]) (use assms(2-4) in simp_all)
qed

lemma change_ends_sessions:
  assumes out: "mutate_member_body svc fr actor ch clock now db = Inr ((r, Some task), db')"
    and s: "s \<in> set (td_sessions db)" "ses_tenant_id s = Some (ctx_tenant_id (act_context actor))"
      "ses_membership_id s = Some (mch_membership_id ch)"
  shows "session_dead (ses_id s) (session_view db')"
  using out
proof (cases rule: mutate_member_body_changed)
  case (1 locked current row pl db1 x row')
  let ?w = "member_written (ctx_tenant_id (act_context actor)) ch pl db1"
  have "session_dead (ses_id s) x"
    by (rule revoked_sessions_dead [OF 1(11)])
      (use s bookkeeping_same [OF 1(7)] in \<open>simp_all add: session_view_def\<close>)
  moreover have "sd_sessions (session_view db') = sd_sessions x"
    using bookkeeping_same [OF 1(10)] by (simp add: session_view_def put_session_def)
  ultimately show ?thesis by (simp add: session_dead_def)
qed

lemma not_entitled:
  assumes "tenant_keys db" "find_in_tenant t i db = Some m" "mbr_status m \<noteq> MembershipStatus_ACTIVE"
    "ctx_membership_id (act_context actor) = Some i"
  shows "\<not> entitled actor action checked decided db"
proof
  assume "entitled actor action checked decided db"
  then obtain m' where m': "m' \<in> set (td_memberships db)" "mbr_id m' = i" "mbr_status m' = MembershipStatus_ACTIVE"
    using assms(4) by (auto simp: entitled_def active_membership_def)
  have "m' = m" by (rule find_in_tenant_unique [OF assms(1,2) m'(1,2)])
  then show False using m'(3) assms(3) by simp
qed

lemma session_dead_run:
  "session_ok db \<Longrightarrow> session_dead sid db \<Longrightarrow> session_run svc db db' \<Longrightarrow> unusable svc sid db'"
  using session_run_ok session_dead_evolves dead_unusable by blast

text \<open>
  C13. After a revocation of a membership was carried out, also when the caller was told that the cache
  could not be invalidated, the membership is revoked in every later state: no session opened for it can be
  refreshed, validated or switched, and no actor with that membership is entitled to anything, so that none of
  the operations on the tenant answers it.
\<close>
theorem revoked_member_locked_out:
  assumes before: "tenant_run sessions db0 db" "tenant_keys db0" "td_sessions db0 = []" "td_refresh db0 = []"
    and out: "revoke_member svc fr actor c clock invalidated meanwhile db = (outcome, db1)"
      "outcome = Answered (Inr r) \<or> outcome = PostCommitCacheInvalidation r" "\<not> mmr_replayed r"
    and between: "\<And>d. tenant_run sessions d (meanwhile d)" and after: "tenant_run sessions db1 db2"
    and ti: "t = ctx_tenant_id (act_context actor)" "i = rmc_membership_id c"
  shows "(\<exists>m. find_in_tenant t i db2 = Some m \<and> mbr_status m = MembershipStatus_REVOKED)
    \<and> (\<forall>s\<in>set (td_sessions db). ses_tenant_id s = Some t \<and> ses_membership_id s = Some i \<longrightarrow>
         unusable sessions (ses_id s) (session_view db2))
    \<and> (\<forall>actor'. ctx_membership_id (act_context actor') = Some i \<longrightarrow>
         (\<forall>action checked decided. \<not> entitled actor' action checked decided db2)
         \<and> (\<forall>clock' tn. get_tenant actor' clock' db2 \<noteq> Inr tn))"
proof -
  have keys: "tenant_keys db" using tenant_run_kept [OF before(1,2)] by simp
  have ok: "session_ok (session_view db)"
  proof -
    have "session_ok (session_view db0)" by (simp add: session_ok_def session_view_def before(3,4))
    then show ?thesis using session_run_ok tenant_run_view [OF before(1,2)] by blast
  qed
  obtain now task dbc where body: "mutate_member_body svc fr actor (revoke_change c) clock now db = Inr ((r, task), dbc)"
      and dbc: "bookkeeping dbc db1 \<or> bookkeeping (meanwhile dbc) db1"
    using out(1,2) by (auto simp: revoke_member_def split: sum.split_asm elim: mutate_member_committed)
  obtain k where task: "task = Some k" using revocation_changes [OF body out(3)] by blast
  have run: "tenant_run sessions dbc db2"
  proof -
    have "tenant_run sessions dbc db1"
    proof (cases "bookkeeping dbc db1")
      case True
      then show ?thesis unfolding tenant_run_def by (blast intro: step_bookkeeping)
    next
      case False
      then have "tenant_step sessions (meanwhile dbc) db1" using dbc step_bookkeeping by blast
      then show ?thesis using between [of dbc] unfolding tenant_run_def by (rule rtranclp.rtrancl_into_rtrancl [rotated])
    qed
    then show ?thesis using after unfolding tenant_run_def by (rule rtranclp_trans)
  qed
  have kc: "tenant_keys dbc" using mutate_member_body_kept [OF body keys] by simp
  have k2: "tenant_keys db2" and kept: "tenant_kept dbc db2" using tenant_run_kept [OF run kc] by simp_all
  obtain m where m: "find_in_tenant t i dbc = Some m" "mbr_status m = MembershipStatus_REVOKED"
  proof -
    have "\<exists>m m'. find_in_tenant t i db = Some m \<and> find_in_tenant t i dbc = Some m' \<and> mbr_status m' = MembershipStatus_REVOKED"
      using member_change_lawful_core [OF body [unfolded task] keys _ ti(1)] ti(2) by auto
    then show ?thesis using that by blast
  qed
  have mm: "m \<in> set (td_memberships dbc)" "mbr_tenant_id m = t" "mbr_id m = i"
    using sql_scalar_SomeD [OF m(1) [unfolded find_in_tenant_def]] by simp_all
  obtain m2 where m2: "m2 \<in> set (td_memberships db2)" "keeps_member m m2"
    using kept mm(1) by (auto simp: tenant_kept_def table_keeps_def)
  then have m2': "mbr_tenant_id m2 = t" "mbr_id m2 = i" "mbr_status m2 = MembershipStatus_REVOKED"
    using mm m(2) by (simp_all add: keeps_member_def)
  have "find_in_tenant t i db2 \<noteq> None" using m2(1) m2' by (auto simp: find_in_tenant_def sql_scalar_def find_None_iff)
  then obtain m3 where "find_in_tenant t i db2 = Some m3" by blast
  then have find: "find_in_tenant t i db2 = Some m2" using find_in_tenant_unique [OF k2 _ m2(1) m2'(2)] by simp
  have dead: "unusable sessions (ses_id s) (session_view db2)"
    if "s \<in> set (td_sessions db)" "ses_tenant_id s = Some t" "ses_membership_id s = Some i" for s
  proof -
    have "session_dead (ses_id s) (session_view dbc)"
      by (rule change_ends_sessions [OF body [unfolded task]]) (use that ti in simp_all)
    moreover have "session_ok (session_view dbc)" using session_run_ok [OF view_mutate_member [OF body] ok] by blast
    ultimately show ?thesis using session_dead_run tenant_run_view [OF run kc] by blast
  qed
  have no: "\<not> entitled actor' action checked decided db2" if "ctx_membership_id (act_context actor') = Some i"
    for actor' action checked decided
    by (rule not_entitled [OF k2 find _ that]) (simp add: m2'(3))
  have none: "get_tenant actor' clock' db2 \<noteq> Inr tn" if "ctx_membership_id (act_context actor') = Some i"
    for actor' clock' tn
    using no [OF that] get_tenant_entitled_core by blast
  show ?thesis using find m2'(3) dead no none by blast
qed


end
