(* ===== verification/TenantFounding.thy ===== *)
theory TenantFounding
  imports TenantSafety
begin

text \<open>
  What the founder of a tenant may do: the roles and permissions that an application clones, and how the
  permissions of the job feature meet the list of permissions the policy engine knows.
\<close>

lemma clone_templates_links:
  assumes "clone_templates_for_tenant tenant fresh db = Inr (roles, db')" "feature_phase db = ''activated''"
  shows "td_role_permissions db' = td_role_permissions db
      @ concat (map (cloned_permissions tenant fresh False db) (active_templates db))"
    "list_all (template_matches_seed True db) (active_templates db)"
    "td_roles db' = td_roles db @ map (cloned_role tenant fresh) (active_templates db)"
    "roles = map_of (map (\<lambda>t. (tpl_code t, fresh (tpl_code t))) (active_templates db))"
    "td_permissions db' = td_permissions db"
proof -
  let ?links = "concat (map (cloned_permissions tenant fresh False db) (active_templates db))"
  obtain db1 where m: "list_all (template_matches_seed True db) (active_templates db)"
    and 1: "insert_all insert_role (map (cloned_role tenant fresh) (active_templates db)) db = Inr db1"
    and 2: "insert_all insert_role_permission ?links db1 = Inr db'"
    and r: "roles = map_of (map (\<lambda>t. (tpl_code t, fresh (tpl_code t))) (active_templates db))"
    using assms unfolding clone_templates_for_tenant_def Let_def
    by (elim bindE_InrE) (simp add: require_eq_Inr)
  have d1: "db1 = db\<lparr>td_roles := td_roles db @ map (cloned_role tenant fresh) (active_templates db)\<rparr>"
    using roles.insert_all_Inr [OF 1] by simp
  have d2: "db' = db1\<lparr>td_role_permissions := td_role_permissions db1 @ ?links\<rparr>"
    using role_permissions.insert_all_Inr [OF 2] by simp
  show "td_role_permissions db' = td_role_permissions db @ ?links"
    "td_roles db' = td_roles db @ map (cloned_role tenant fresh) (active_templates db)"
    "td_permissions db' = td_permissions db"
    by (simp_all add: d2 d1)
qed (use assms in \<open>auto simp: clone_templates_for_tenant_def Let_def require_eq_Inr elim!: bindE_InrE\<close>)

lemma feature_not_known: "c \<in> set FEATURE_PERMISSION_CODES \<Longrightarrow> c \<notin> known_permission_codes"
  by (auto simp: FEATURE_PERMISSION_CODES_def known_permission_codes_def all_actions_def)

lemma member_permission_granted:
  assumes "role \<in> set (td_roles db)" "rol_tenant_id role = t" "rol_status role = ''active''"
    "\<lparr>asg_tenant_id = t, asg_membership_id = i, asg_role_id = rol_id role\<rparr> \<in> set (td_assignments db)"
    "\<lparr>rpm_tenant_id = t, rpm_role_id = rol_id role, rpm_permission_id = prm_id p\<rparr> \<in> set (td_role_permissions db)"
    "p \<in> set (td_permissions db)" "prm_status p = ''active''" "distinct (map prm_id (td_permissions db))"
  shows "(rol_code role, Some (prm_code p)) \<in> set (member_role_rows t i db)"
proof -
  let ?link = "\<lparr>rpm_tenant_id = t, rpm_role_id = rol_id role, rpm_permission_id = prm_id p\<rparr>"
  obtain q where q: "sql_scalar (\<lambda>q. prm_id q = prm_id p \<and> prm_status q = ''active'') (td_permissions db) = Some q"
    using assms(6,7) by (cases "sql_scalar (\<lambda>q. prm_id q = prm_id p \<and> prm_status q = ''active'') (td_permissions db)")
      (auto simp: sql_scalar_def find_None_iff)
  have "q \<in> set (td_permissions db)" "prm_id q = prm_id p" using sql_scalar_SomeD [OF q] by simp_all
  then have "q = p" using distinct_map_eq [OF assms(8) _ assms(6)] by blast
  let ?links = "filter (\<lambda>l. rpm_tenant_id l = rol_tenant_id role \<and> rpm_role_id l = rol_id role) (td_role_permissions db)"
  let ?code = "\<lambda>l. map_option prm_code (sql_scalar (\<lambda>q. prm_id q = rpm_permission_id l \<and> prm_status q = ''active'')
      (td_permissions db))"
  have link: "?link \<in> set ?links" using assms(2,5) by simp
  have "?code ?link = Some (prm_code p)" using q \<open>q = p\<close> by simp
  then have "Some (prm_code p) \<in> ?code ` set ?links" using link by (rule image_eqI [OF sym])
  moreover have "?links \<noteq> []" using link by (metis empty_iff empty_set)
  ultimately have "Some (prm_code p) \<in> set (member_role_permissions db role)"
    unfolding member_role_permissions_def Let_def by (simp only: if_False set_map)
  then show ?thesis
    using assms(1-4) unfolding member_role_rows_def
    by (auto intro!: bexI [of _ role] bexI [of _ "\<lparr>asg_tenant_id = t, asg_membership_id = i, asg_role_id = rol_id role\<rparr>"])
qed

lemma founder_permission:
  assumes out: "found_tenant fr c name rsv created now db = Inr (res, db')"
    and phase: "feature_phase db = ''activated''" and ids: "distinct (map prm_id (td_permissions db))"
  shows "(''tenant_owner'', Some ''ai_job.create'') \<in> set (member_role_rows (tf_tenant_id fr) (tf_membership_id fr) db')"
proof -
  let ?t = "applied_tenant fr c name" and ?owner = "founding_membership fr c now"
  obtain db1 db2 db3 db4 db5 roles owner_role e where
    1: "add_application ?t db = Inr db1"
    and 2: "clone_templates_for_tenant (tenant_id ?t) (tf_role_id fr) db1 = Inr (roles, db2)"
    and 3: "roles ''tenant_owner'' = Some owner_role"
    and 4: "add_owner_for_application created ?owner db2 = Inr db3"
    and 5: "assign_owner (tenant_id ?t) (mem_id ?owner) owner_role now db3 = Inr db4"
    and 6: "append_structured e db4 = Inr db5"
    and 7: "complete_in rsv ''tenant'' (tenant_id ?t) None None now db5 = Inr db'"
    using out unfolding found_tenant_def Let_def
    by (auto elim!: bindE_InrE split: option.split_asm)
  have tid: "tenant_id ?t = tf_tenant_id fr" "mem_id ?owner = tf_membership_id fr"
    by (simp_all add: applied_tenant_def founding_membership_def)
  have d1: "feature_phase db1 = ''activated''" "td_permissions db1 = td_permissions db"
    using 1 phase by (simp_all add: add_application_def tenant_ops feature_phase_def)
  note c = clone_templates_links [OF 2 d1(1)]
  obtain tpl where tpl: "tpl \<in> set (active_templates db1)" "tpl_code tpl = ''tenant_owner''"
      "owner_role = tf_role_id fr ''tenant_owner''"
    using map_of_SomeD [OF 3 [unfolded c(4)]] by auto
  have "template_matches_seed True db1 tpl" using c(2) tpl(1) by (simp add: list_all_iff)
  then have "''ai_job.create'' \<in> prm_code ` set (template_permissions db1 tpl)"
    using tpl(2) by (auto simp: template_matches_seed_def list_ex_iff FEATURE_TARGET_ROLES_def FEATURE_PERMISSION_CODES_def)
  then obtain p where p: "p \<in> set (template_permissions db1 tpl)" "prm_code p = ''ai_job.create''" by auto
  have p': "p \<in> set (td_permissions db1)" "prm_status p = ''active''" using p(1) by (auto simp: template_permissions_def)
  let ?role = "cloned_role (tf_tenant_id fr) (tf_role_id fr) tpl"
  have "?role \<in> set (map (cloned_role (tf_tenant_id fr) (tf_role_id fr)) (active_templates db1))" using tpl(1) by simp
  then have "?role \<in> set (td_roles db2)" unfolding c(3) tid(1) set_append by (rule UnI2)
  moreover have "rol_id ?role = owner_role" "rol_code ?role = ''tenant_owner''"
      "rol_tenant_id ?role = tf_tenant_id fr" "rol_status ?role = ''active''"
    using tpl(2,3) by (simp_all add: cloned_role_def)
  ultimately have role: "?role \<in> set (td_roles db2)" "rol_id ?role = owner_role" "rol_code ?role = ''tenant_owner''"
      "rol_tenant_id ?role = tf_tenant_id fr" "rol_status ?role = ''active''" by blast+
  have link: "\<lparr>rpm_tenant_id = tf_tenant_id fr, rpm_role_id = owner_role, rpm_permission_id = prm_id p\<rparr> \<in> set (td_role_permissions db2)"
    using c(1) tpl p(1) tid by (force simp: cloned_permissions_def)
  obtain m where "insert_member m db2 = Inr db3" using 4 by (auto simp: add_owner_for_application_def bindE_eq_Inr)
  from insert_member_Inr [OF this] have d3: "td_roles db3 = td_roles db2" "td_role_permissions db3 = td_role_permissions db2" "td_permissions db3 = td_permissions db2"
    by simp_all
  let ?a = "\<lparr>asg_tenant_id = tf_tenant_id fr, asg_membership_id = tf_membership_id fr, asg_role_id = owner_role\<rparr>"
  have "insert_assignment (tf_membership_id fr) ?a db3 = Inr db4"
    using 5 tid by (auto simp: assign_owner_def bindE_eq_Inr)
  then have d4: "db4 = db3\<lparr>td_assignments := td_assignments db3 @ [?a]\<rparr>" using insert_assignment_Inr by blast
  have "(rol_code ?role, Some (prm_code p)) \<in> set (member_role_rows (tf_tenant_id fr) (tf_membership_id fr) db4)"
    by (rule member_permission_granted)
      (use role link p' ids d1(2) c(5) d3 in \<open>simp_all add: d4\<close>)
  moreover have "member_role_rows t i db' = member_role_rows t i db4" for t i
  proof -
    have same: "td_roles db' = td_roles db4" "td_assignments db' = td_assignments db4"
        "td_role_permissions db' = td_role_permissions db4" "td_permissions db' = td_permissions db4"
      using append_structured_Inr [OF 6] complete_in_Inr [OF 7] by auto
    then have "member_role_permissions db' = member_role_permissions db4"
      by (simp add: fun_eq_iff member_role_permissions_def)
    then show ?thesis unfolding member_role_rows_def same by (simp only:)
  qed
  ultimately show ?thesis using role(3) p(2) by simp
qed

lemma create_application_founded:
  assumes "create_application svc fr c created clock db = (Inr res, db')" "\<not> tar_replayed res"
  obtains name rsv idem where "found_tenant fr c name rsv created clock (db\<lparr>td_idempotency := idem\<rparr>) = Inr (res, db')"
proof -
  obtain name where b: "create_application_body svc fr c name created clock db = Inr (res, db')"
    using assms(1) by (auto simp: create_application_def transaction_def tenant_now_def bindE_eq_Inr split: sum.split_asm prod.split_asm)
  obtain scope rsv db1 where
    1: "reserve_in svc scope ''tenant.create'' (application_request svc c name) clock (tf_record_id fr) db = Inr (rsv, db1)"
    and 2: "(case rsv_replay rsv of
        Some ref \<Rightarrow> bindE (reload_application_result (cta_actor_user_id c) ref db1) (\<lambda>r. Inr (r, db1))
      | None \<Rightarrow> found_tenant fr c name rsv created clock db1) = Inr (res, db')"
    using b unfolding create_application_body_def Let_def by (auto elim!: bindE_InrE split: if_split_asm)
  obtain idem where d1: "db1 = db\<lparr>td_idempotency := idem\<rparr>" using reserve_in_Inr [OF 1] by blast
  show ?thesis
  proof (cases "rsv_replay rsv")
    case None
    then show ?thesis using 2 d1 that by simp
  next
    case (Some ref)
    then have "tar_replayed res"
      using 2 by (auto simp: reload_application_result_def elim!: bindE_InrE split: if_split_asm option.split_asm)
    then show ?thesis using assms(2) by simp
  qed
qed

text \<open>
  C19. While the job feature is activated, a new tenant is born locked: the cloned owner role holds
  \<open>ai_job.create\<close>, which the policy engine does not know, so its founder is entitled to no tenant action and
  can neither read nor rename the tenant nor change a member of it.
\<close>
theorem founder_locked_out_by_feature:
  assumes out: "create_application svc fr c created clock db = (Inr res, db')" "\<not> tar_replayed res"
    and phase: "td_feature_phase db = Some ''activated''" and ids: "distinct (map prm_id (td_permissions db))"
    and actor: "ctx_tenant_id (act_context actor) = tenant_id (tar_tenant res)"
      "ctx_membership_id (act_context actor) = Some (mem_id (tar_owner_membership res))"
  shows "get_tenant actor clock' db' \<noteq> Inr t \<and> fst (update_tenant svc' fr' actor uc clock' db') \<noteq> Inr tr
    \<and> fst (update_member svc' fr' actor mc clock' invalidated meanwhile db') \<noteq> Answered (Inr mr)
    \<and> fst (revoke_member svc' fr' actor rc clock' invalidated meanwhile db') \<noteq> Answered (Inr mr)"
proof -
  obtain name rsv idem where f: "found_tenant fr c name rsv created clock (db\<lparr>td_idempotency := idem\<rparr>) = Inr (res, db')"
    using create_application_founded [OF out] by blast
  have r: "tenant_id (tar_tenant res) = tf_tenant_id fr" "mem_id (tar_owner_membership res) = tf_membership_id fr"
    using f unfolding found_tenant_def Let_def
    by (auto elim!: bindE_InrE split: option.split_asm simp: applied_tenant_def founding_membership_def)
  have "(''tenant_owner'', Some ''ai_job.create'') \<in> set (member_role_rows (tf_tenant_id fr) (tf_membership_id fr) db')"
    by (rule founder_permission [OF f]) (use phase ids in \<open>simp_all add: feature_phase_def\<close>)
  then have "''ai_job.create'' \<in> member_permissions actor db'"
    using actor r by (force simp: member_permissions_def List.map_filter_def)
  then have no: "\<not> entitled actor action checked decided db'" for action checked decided
    using feature_not_known [of "''ai_job.create''"] by (auto simp: entitled_def FEATURE_PERMISSION_CODES_def)
  have "mutate_member_body svc' fr' actor ch clock' now db' \<noteq> Inr answer"
    if "mch_action ch \<notin> platform_actions" for ch now answer
    using mutate_member_entitled [OF _ that] no by blast
  then have m: "fst (mutate_member svc' fr' actor ch clock' invalidated meanwhile db') \<noteq> Answered (Inr mr)"
    if "mch_action ch \<notin> platform_actions" for ch
    using that by (auto simp: mutate_member_def transaction_def split: sum.split)
  have "fst (update_member svc' fr' actor mc clock' invalidated meanwhile db') \<noteq> Answered (Inr mr)"
    using m [of "update_change mc"] tenant_actions by (auto simp: update_member_def update_change_def split: sum.split)
  moreover have "fst (revoke_member svc' fr' actor rc clock' invalidated meanwhile db') \<noteq> Answered (Inr mr)"
    using m [of "revoke_change rc"] tenant_actions by (auto simp: revoke_member_def split: sum.split)
  moreover have "get_tenant actor clock' db' \<noteq> Inr t" using no get_tenant_entitled_core by blast
  moreover have "fst (update_tenant svc' fr' actor uc clock' db') \<noteq> Inr tr" using no update_tenant_entitled by blast
  ultimately show ?thesis by blast
qed

end
