(* ===== verification/TenantSamples.thy ===== *)
theory TenantSamples
  imports TenantFounding SessionSamples
begin

text \<open>A small tenant, its owner signed in, and the operations and properties of the tenant workflows applied to it.\<close>

subsection \<open>Requests on tenant routes\<close>

lemma takeWhile_none: "list_all (\<lambda>c. \<not> p c) s \<Longrightarrow> takeWhile (\<lambda>c. \<not> p c) s = s \<and> dropWhile (\<lambda>c. \<not> p c) s = []"
  by (auto simp: list_all_iff takeWhile_eq_all_conv)

definition plain_char :: "char \<Rightarrow> bool" where
  "plain_char c \<longleftrightarrow> route_char c \<and> c \<noteq> CHR '':'' \<and> c \<noteq> CHR ''/''"

lemma route_char_code: "route_char c \<Longrightarrow> 33 \<le> code c \<and> c \<noteq> CHR ''?'' \<and> c \<noteq> CHR ''#''"
  by (cases "is_alnum c")
    (auto simp: route_char_def is_alnum_def is_upper_def is_lower_def is_digit_def code_def)

lemma canonical_route_plain:
  assumes "list_all route_char w" "w \<noteq> []" "hd w \<noteq> CHR ''/''" "last w \<noteq> CHR ''/''" "length w \<le> 511"
  shows "canonical_route (CHR ''/'' # w) = Inr (CHR ''/'' # w)"
proof -
  let ?v = "CHR ''/'' # w"
  have rc: "list_all route_char ?v" using assms(1) by (simp add: route_char_def)
  have keep: "filter (\<lambda>c. code c \<notin> {9, 10, 13}) ?v = ?v"
    unfolding filter_id_conv using rc route_char_code by (fastforce simp: list_all_iff)
  have lead: "dropWhile (\<lambda>c. code c \<le> 32) ?v = ?v" by (simp add: code_def)
  have cut: "takeWhile (\<lambda>c. c \<noteq> CHR ''#'') ?v = ?v" "dropWhile (\<lambda>c. c \<noteq> CHR ''#'') ?v = []"
    "takeWhile (\<lambda>c. c \<noteq> CHR ''?'') ?v = ?v" "dropWhile (\<lambda>c. c \<noteq> CHR ''?'') ?v = []"
    using rc route_char_code by (auto simp: list_all_iff takeWhile_eq_all_conv)
  have slash: "is_upper CHR ''/'' = False" "is_lower CHR ''/'' = False" by code_simp+
  obtain x where x: "takeWhile (\<lambda>c. c \<noteq> CHR '':'') ?v = CHR ''/'' # x" by simp
  have two: "take 2 ?v \<noteq> ''//''" using assms(2,3) by (cases w) auto
  have url: "urlsplit ?v = ([], [], ?v, [], [])"
    unfolding urlsplit_def lead keep split_at_def Let_def prod.case x list.sel(1) slash if_False simp_thms cut
    using two by (simp only: if_False prod.case cut drop_Nil)
  have strip: "rstrip_slash ?v = ?v"
    using assms(2,4) by (cases w rule: rev_cases) (simp_all add: rstrip_slash_def)
  show ?thesis
    using assms(1,2,5) by (simp add: canonical_route_def url strip matches_class_def Suc_le_eq)
qed


lemma pad_route: "list_all route_char (pad 16 k n)"
proof (induction k arbitrary: n)
  case (Suc k)
  have "route_char (hex_digit (n mod 16))"
    using code_hex_digit [of "n mod 16"] by (auto simp: route_char_def is_alnum_def is_digit_def is_lower_def)
  then show ?case using Suc by simp
qed simp

lemma list_all_take_drop: "list_all p s \<Longrightarrow> list_all p (take n s) \<and> list_all p (drop n s)"
  by (auto simp: list_all_iff dest: in_set_takeD in_set_dropD)

lemma uuid_route: "list_all route_char (uuid_str u)"
proof -
  have "route_char CHR ''-''" by (simp add: route_char_def)
  then show ?thesis
    unfolding uuid_str_def Let_def by (simp add: list_all_take_drop pad_route del: pad.simps)
qed

lemma last_pad: "0 < k \<Longrightarrow> last (pad 16 k n) \<noteq> CHR ''/''"
proof -
  assume "0 < k"
  then obtain j where "k = Suc j" by (cases k) auto
  moreover have "hex_digit (n mod 16) \<noteq> CHR ''/''"
    using code_hex_digit [of "n mod 16"] by (auto simp: code_def split: if_splits)
  ultimately show ?thesis by simp
qed

lemma uuid_last: "last (uuid_str u) \<noteq> CHR ''/''"
  using last_pad [of 32 "unat u"] by (simp add: uuid_str_def Let_def last_drop del: pad.simps)

lemma tenant_route_canonical [simp]:
  "canonical_route (tenant_route actor) = Inr (tenant_route actor)"
  "canonical_route (tenant_route actor @ ''/members/'' @ uuid_str m) = Inr (tenant_route actor @ ''/members/'' @ uuid_str m)"
proof -
  have lit: "list_all route_char ''api/v1/tenants/''" "list_all route_char ''/members/''" by code_simp+
  let ?t = "''api/v1/tenants/'' @ uuid_str (ctx_tenant_id (act_context actor))"
  have ne: "uuid_str u \<noteq> []" for u using length_uuid_str [of u] by fastforce
  have 1: "canonical_route (CHR ''/'' # ?t) = Inr (CHR ''/'' # ?t)"
    by (rule canonical_route_plain) (use lit uuid_route uuid_last ne in \<open>simp_all add: last_append\<close>)
  show "canonical_route (tenant_route actor) = Inr (tenant_route actor)" using 1 by (simp add: tenant_route_def)
  let ?m = "?t @ ''/members/'' @ uuid_str m"
  have 2: "canonical_route (CHR ''/'' # ?m) = Inr (CHR ''/'' # ?m)"
    by (rule canonical_route_plain) (use lit uuid_route uuid_last ne in \<open>simp_all add: last_append\<close>)
  show "canonical_route (tenant_route actor @ ''/members/'' @ uuid_str m) = Inr (tenant_route actor @ ''/members/'' @ uuid_str m)"
    using 2 by (simp add: tenant_route_def)
qed

lemma project_plain:
  assumes "\<And>k v. (k, v) \<in> set kvs \<Longrightarrow> [k] \<in> set business \<and> canonical_business_leaf v = Inr v"
  shows "project_items business [] [] kvs = Inr kvs"
  using assms
proof (induction kvs)
  case (Cons kv kvs)
  obtain k v where kv: "kv = (k, v)" by (cases kv)
  have "[k] \<in> set business" "canonical_business_leaf v = Inr v" using Cons.prems [of k v] kv by simp_all
  moreover have "project_items business [] [] kvs = Inr kvs" by (rule Cons.IH) (use Cons.prems in auto)
  ultimately show ?case by (simp add: kv)
qed simp

lemma member_body_canonical:
  "\<exists>body. canonical_business_values (req_body (member_request actor ch)) = Inr body"
proof -
  let ?kvs = "payload_values (req_body (member_request actor ch))"
  have "project_items (payload_business_paths (req_body (member_request actor ch))) [] [] ?kvs = Inr ?kvs"
    by (rule project_plain)
      (auto simp: member_request_def list_ex_iff split: option.splits)
  then show ?thesis by (simp add: canonical_business_values_def member_request_def)
qed

lemma sample_hash_lengths: "length (ext_sha256 sample_externals b) = 32" "length (ext_hmac_sha256 sample_externals sample_secret b) = 32"
  by (simp_all add: sample_externals_def sample_secret_def)

lemma member_request_prepared:
  assumes "matches_class key_char 16 128 (mch_idempotency_key ch)" "mch_method ch \<in> {''PATCH'', ''DELETE''}"
  obtains p where "prepare sample_externals sample_secret (member_request actor ch) = Inr p"
    "length (prep_key_hash p) = 32" "length (prep_request_fingerprint p) = 32"
proof -
  obtain body where b: "canonical_business_values (req_body (member_request actor ch)) = Inr body"
    using member_body_canonical by blast
  have "canonical_method ''PATCH'' = Inr ''PATCH''" "canonical_method ''DELETE'' = Inr ''DELETE''" by code_simp+
  then have m: "canonical_method (req_method (member_request actor ch)) = Inr (mch_method ch)"
    using assms(2) by (auto simp: member_request_def)
  have r: "canonical_route (req_canonical_route (member_request actor ch)) = Inr (req_canonical_route (member_request actor ch))"
    using tenant_route_canonical(2) by (simp add: member_request_def)
  have k: "matches_class key_char 16 128 (req_key (member_request actor ch))" using assms(1) by (simp add: member_request_def)
  show ?thesis
    by (rule that, simp add: prepare_def b m r k) (simp_all only: PreparedIdempotencyRequest.simps sample_hash_lengths)
qed

subsection \<open>The first reservation of a membership\<close>

definition first_record :: "uuid \<Rightarrow> IdempotencyScope \<Rightarrow> string \<Rightarrow> PreparedIdempotencyRequest \<Rightarrow> int \<Rightarrow> idem_row" where
  "first_record fresh scope operation p expires =
     \<lparr>idem_id = fresh, idem_tenant_id = scope_tenant_id scope, idem_scope_type = scope_type scope, idem_scope_id = scope_id scope,
      idem_operation = operation, idem_key_hash = prep_key_hash p, idem_request_fingerprint = prep_request_fingerprint p,
      idem_status = RESERVED, idem_result_type = None, idem_result_id = None, idem_expires_at = expires, idem_version = 1\<rparr>"

lemma reserve_empty:
  assumes "prepare ext secret request = Inr p" "length (prep_key_hash p) = 32" "length (prep_request_fingerprint p) = 32"
    "IdempotencyScope_post_init scope = Inr ()" "(scope_type scope = ScopeType_MEMBERSHIP) = (scope_tenant_id scope \<noteq> None)"
    "is_utc now" "token_matches 127 operation"
  shows "IdempotencyService_reserve ext secret ttl scope operation request now fresh [] =
    Inr (\<lparr>rsv_record_id = fresh, rsv_request_fingerprint = prep_request_fingerprint p, rsv_replay = None\<rparr>,
      [first_record fresh scope operation p (dt_wall now + ttl)])"
proof -
  have scope: "idem_scope (first_record fresh scope operation p e) = scope" for e
    by (simp add: idem_scope_def first_record_def)
  obtain st si tn where sc: "scope = \<lparr>scope_type = st, scope_id = si, scope_tenant_id = tn\<rparr>" by (cases scope)
  show ?thesis
    using assms scope
    by (simp add: sc IdempotencyService_reserve_def require_eval repo_acquire_def naive_def candidate_row_def first_record_def
        idem_check_def sql_scalar_def stored_record_def idem_scope_def Let_def)
qed


definition sample_change_result :: "uuid \<Rightarrow> IdempotencyResultReference" where
  "sample_change_result i = \<lparr>ref_result_type = ''membership'', ref_result_id = i, ref_mutation_effect = Some CHANGED,
     ref_cache_authz_version = Some 1\<rparr>"

lemma change_serialized: "\<exists>t. serialize_result_type (sample_change_result i) = Inr t"
proof -
  have "json_dumps (result_metadata (sample_change_result i)) = ''{\"a\":1,\"e\":\"changed\",\"t\":\"membership\"}''"
    unfolding result_metadata_def sample_change_result_def by code_simp
  then show ?thesis by (simp add: serialize_result_type_def)
qed

subsection \<open>A tenant with an owner and a lawyer\<close>

lemma u7_eq [simp]: "n < 2 ^ 62 \<Longrightarrow> m < 2 ^ 62 \<Longrightarrow> u7 n = u7 m \<longleftrightarrow> n = m"
proof -
  assume n: "n < 2 ^ 62" and m: "m < 2 ^ 62"
  have c: "take_bit 62 (0x70008000000000000000 :: uuid) = 0" by simp
  have "take_bit 62 (u7 k) = k" if "k < 2 ^ 62" for k :: uuid
    using less_mask_eq [OF that] c unfolding u7_def take_bit_or by (simp add: take_bit_eq_mask)
  then show "u7 n = u7 m \<longleftrightarrow> n = m" using n m by metis
qed

definition sample_row :: "uuid \<Rightarrow> uuid \<Rightarrow> MemberType \<Rightarrow> member_row" where
  "sample_row i user kind = \<lparr>mbr_id = i, mbr_tenant_id = u7 2, mbr_user_id = user, mbr_department_id = None,
     mbr_member_type = kind, mbr_status = MembershipStatus_ACTIVE, mbr_valid_from = 0, mbr_valid_until = None,
     mbr_authz_version = 1, mbr_version = 1, mbr_created_at = 0\<rparr>"

lemma sample_member_row_fields [simp]:
  "mbr_id (sample_row i u k) = i" "mbr_tenant_id (sample_row i u k) = u7 2" "mbr_user_id (sample_row i u k) = u"
  "mbr_version (sample_row i u k) = 1" "mbr_authz_version (sample_row i u k) = 1"
  "mbr_status (sample_row i u k) = MembershipStatus_ACTIVE" "mbr_member_type (sample_row i u k) = k"
  "mbr_department_id (sample_row i u k) = None"
  by (simp_all add: sample_row_def)

definition sample_tenants :: tenant_db where
  "sample_tenants = \<lparr>
     td_users = [\<lparr>usr_id = u7 1, usr_status = ''active'', usr_auth_version = 1\<rparr>, \<lparr>usr_id = u7 5, usr_status = ''active'', usr_auth_version = 1\<rparr>],
     td_tenants = [\<lparr>ten_id = u7 2, ten_status = TenantStatus_ACTIVE, tnm_name = [65], tnm_normalized_name = [97],
       tnm_tenant_type = ''law_firm'', tnm_created_by_user_id = u7 1, tnm_review_status = ''approved'', tnm_version = 1\<rparr>],
     td_departments = [],
     td_memberships = [sample_row (u7 3) (u7 1) MemberType_OWNER, sample_row (u7 4) (u7 5) MemberType_INTERNAL],
     td_roles = [\<lparr>rol_id = u7 6, rol_tenant_id = u7 2, rol_code = ''tenant_owner'', rol_status = ''active''\<rparr>,
       \<lparr>rol_id = u7 7, rol_tenant_id = u7 2, rol_code = ''lawyer_or_legal'', rol_status = ''active''\<rparr>],
     td_assignments = [\<lparr>asg_tenant_id = u7 2, asg_membership_id = u7 3, asg_role_id = u7 6\<rparr>,
       \<lparr>asg_tenant_id = u7 2, asg_membership_id = u7 4, asg_role_id = u7 7\<rparr>],
     td_role_permissions = [\<lparr>rpm_tenant_id = u7 2, rpm_role_id = u7 6, rpm_permission_id = u7 8\<rparr>,
       \<lparr>rpm_tenant_id = u7 2, rpm_role_id = u7 6, rpm_permission_id = u7 9\<rparr>,
       \<lparr>rpm_tenant_id = u7 2, rpm_role_id = u7 6, rpm_permission_id = u7 13\<rparr>,
       \<lparr>rpm_tenant_id = u7 2, rpm_role_id = u7 6, rpm_permission_id = u7 14\<rparr>],
     td_permissions = [\<lparr>prm_id = u7 8, prm_code = ''tenant.read'', prm_status = ''active''\<rparr>,
       \<lparr>prm_id = u7 9, prm_code = ''membership.revoke'', prm_status = ''active''\<rparr>,
       \<lparr>prm_id = u7 13, prm_code = ''membership.invite'', prm_status = ''active''\<rparr>,
       \<lparr>prm_id = u7 14, prm_code = ''role.assign'', prm_status = ''active''\<rparr>],
     td_templates = [], td_template_permissions = [], td_feature_phase = None, td_invitations = [], td_invitation_roles = [],
     td_identities = [], td_sessions = [], td_refresh = [], td_session_audit = [], td_audit = [], td_idempotency = [],
     td_cache_outbox = []\<rparr>"

definition sample_signed_in :: session_db where
  "sample_signed_in = (session_view sample_tenants)\<lparr>sd_sessions := sd_sessions sample_started,
     sd_refresh := sd_refresh sample_started, sd_audit := sd_audit sample_started\<rparr>"

lemma sample_sign_in:
  "snd (start sample_svc (sample_fresh 1 CHR ''A'') (u7 1) sample_ctx (aware 0) (session_view sample_tenants)) = sample_signed_in"
  by (simp add: start_def start_body_def run_defs sample_defs sample_started_def sample_signed_in_def sample_tenants_def
      session_view_def tenant_row.truncate_def membership_row.truncate_def sample_row_def)

definition sample_open :: tenant_db where
  "sample_open = put_session sample_signed_in sample_tenants"

lemma sample_open_keys: "tenant_keys sample_tenants" "tenant_keys sample_open"
  by (simp_all add: tenant_keys_def sample_tenants_def sample_open_def put_session_def)

lemma sample_open_run: "tenant_run sample_svc sample_tenants sample_open"
proof -
  have view: "session_view sample_open = sample_signed_in"
    unfolding sample_open_def by (rule view_put_session) (simp_all add: sample_signed_in_def)
  have "session_step sample_svc (session_view sample_tenants) sample_signed_in"
    unfolding sample_sign_in [symmetric]
    by (rule step_start) (simp add: families_def session_view_def sample_tenants_def)
  then have "tenant_step sample_svc sample_tenants sample_open"
    by (intro step_session) (simp_all only: view, simp_all add: sample_open_def put_session_def)
  then show ?thesis unfolding tenant_run_def by (rule r_into_rtranclp)
qed

definition sample_actor :: TenantActor where
  "sample_actor = \<lparr>act_principal = \<lparr>pr_user_id = u7 1, pr_session_id = u7 10, pr_audience = PrincipalAudience_TENANT,
       pr_tenant_id = Some (u7 2), pr_membership_id = Some (u7 3), pr_user_status = ''active'', pr_session_valid = True,
       pr_auth_version = 1, pr_session_auth_version = 1, pr_permissions = {}, pr_role_codes = {}, pr_authenticated_at = aware 0\<rparr>,
     act_context = \<lparr>ctx_tenant_id = u7 2, ctx_membership_id = Some (u7 3), ctx_membership_user_id = Some (u7 1),
       ctx_department_id = None, ctx_tenant_status = TenantStatus_ACTIVE, ctx_membership_status = Some MembershipStatus_ACTIVE,
       ctx_valid_from = Some (aware 0), ctx_valid_until = None, ctx_authz_version = Some 1, ctx_session_authz_version = Some 1,
       ctx_scope = sample_scope\<lparr>allow_tenant_wide := True\<rparr>\<rparr>\<rparr>"

lemma tenant_u7 [simp]: "is_uuid7 (u7 40)" "is_uuid7 (u7 41)" "is_uuid7 (u7 42)"
  by (simp_all add: is_uuid7_def uuid_is_rfc4122_def uuid_version_def u7_def)

definition sample_member :: "uuid \<Rightarrow> uuid \<Rightarrow> MemberType \<Rightarrow> Membership" where
  "sample_member i user kind = \<lparr>mem_id = i, mem_tenant_id = u7 2, mem_user_id = user, mem_department_id = None,
     mem_member_type = kind, mem_status = MembershipStatus_ACTIVE, mem_valid_from = aware 0, mem_valid_until = None,
     mem_authz_version = 1, mem_version = 1\<rparr>"

definition sample_tenant :: Tenant where
  "sample_tenant = \<lparr>tenant_id = u7 2, tenant_name = [65], tenant_normalized_name = [97], tenant_tenant_type = ''law_firm'',
     tenant_status = TenantStatus_ACTIVE, tenant_version = 1, tenant_created_by_user_id = u7 1, tenant_review_status = ''approved''\<rparr>"

definition sample_tas :: "(uuid \<rightharpoonup> Membership) \<Rightarrow> TenantAuthorizationSnapshot" where
  "sample_tas targets = \<lparr>tas_tenant = sample_tenant, tas_actor_membership = sample_member (u7 3) (u7 1) MemberType_OWNER,
     tas_context = act_context sample_actor, tas_user_status = ''active'', tas_user_auth_version = 1,
     tas_permissions = {''tenant.read'', ''membership.revoke'', ''membership.invite'', ''role.assign''}, tas_role_codes = {''tenant_owner''},
     tas_target_memberships = targets,
     tas_actor_session = Some (session_state_of (hd (sd_sessions sample_started)))\<rparr>"

lemma sample_role_rows:
  "member_role_rows (u7 2) (u7 3) sample_open
     = [(''tenant_owner'', Some ''tenant.read''), (''tenant_owner'', Some ''membership.revoke''),
        (''tenant_owner'', Some ''membership.invite''), (''tenant_owner'', Some ''role.assign'')]"
  by (simp add: member_role_rows_def member_role_permissions_def sample_open_def put_session_def sample_tenants_def sql_scalar_def)

lemma sample_member_rows:
  "is_uuid7 i \<Longrightarrow> is_uuid7 u \<Longrightarrow> member_of_row (sample_row i u k) = Inr (sample_member i u k)"
  by (simp add: member_of_row_def membership_of_row_def Let_def Membership_post_init_def require_eval sample_member_def
      sample_row_def membership_row.truncate_def version_ok_def aware_optional_def)

lemma sample_open_members:
  "td_memberships sample_open = [sample_row (u7 3) (u7 1) MemberType_OWNER, sample_row (u7 4) (u7 5) MemberType_INTERNAL]"
  by (simp add: sample_open_def put_session_def sample_tenants_def)

lemma sample_context_ok: "require_tenant_context (act_context sample_actor) = Inr ()"
  by (simp add: require_tenant_context_def sample_actor_def require_eval check_defs require_uuid7_def is_uuid7_opt_def)

lemma sample_snapshot_row:
  "row_of usr_id (u7 1) (td_users sample_open) = Some \<lparr>usr_id = u7 1, usr_status = ''active'', usr_auth_version = 1\<rparr>"
  "row_of ten_id (u7 2) (td_tenants sample_open) = Some (hd (td_tenants sample_open))"
  "row_of ses_id (u7 10) (td_sessions sample_open) = Some (hd (sd_sessions sample_started))"
  "tenant_of_row (hd (td_tenants sample_open)) = Inr sample_tenant"
  by (simp_all add: sample_open_def put_session_def sample_tenants_def row_of_def sample_signed_in_def sample_started_def
      tenant_of_row_def sample_tenant_def Let_def Tenant_post_init_def require_eval text_ok_def strip_def is_space_def version_ok_def)

lemma sample_actor_fields:
  "pr_user_id (act_principal sample_actor) = u7 1" "pr_session_id (act_principal sample_actor) = u7 10"
  "ctx_tenant_id (act_context sample_actor) = u7 2" "ctx_membership_id (act_context sample_actor) = Some (u7 3)"
  "ctx_membership_user_id (act_context sample_actor) = Some (u7 1)"
  by (simp_all add: sample_actor_def)

lemma sample_authoritative:
  "authoritative_context (act_context sample_actor) (hd (td_tenants sample_open)) (sample_member (u7 3) (u7 1) MemberType_OWNER)
     = act_context sample_actor"
  by (simp add: authoritative_context_def sample_actor_def sample_member_def sample_open_def put_session_def sample_tenants_def)

lemma sample_load:
  "load_snapshot (act_principal sample_actor) (act_context sample_actor) [] sample_open = Inr (Some (sample_tas (\<lambda>_. None)))"
  "load_snapshot (act_principal sample_actor) (act_context sample_actor) [u7 4] sample_open
     = Inr (Some (sample_tas (\<lambda>i. if i = u7 4 then Some (sample_member (u7 4) (u7 5) MemberType_INTERNAL) else None)))"
proof -
  let ?rows = "\<lambda>ts. filter (\<lambda>m. mbr_tenant_id m = u7 2 \<and> mbr_id m \<in> set (u7 3 # ts)) (td_memberships sample_open)"
  have c0: "convert_all member_of_row (?rows []) = Inr [sample_member (u7 3) (u7 1) MemberType_OWNER]"
    and c1: "convert_all member_of_row (?rows [u7 4])
      = Inr [sample_member (u7 3) (u7 1) MemberType_OWNER, sample_member (u7 4) (u7 5) MemberType_INTERNAL]"
    by (simp_all add: sample_open_members sample_member_rows)
  have m: "mem_id (sample_member i u k) = i" "mem_user_id (sample_member i u k) = u" for i u k by (simp_all add: sample_member_def)
  note snap = load_snapshot_def sample_context_ok sample_actor_fields sample_snapshot_row bindE_Inr prod.case option.case
    Let_def option.sel require_eval
  show "load_snapshot (act_principal sample_actor) (act_context sample_actor) [] sample_open = Inr (Some (sample_tas (\<lambda>_. None)))"
    unfolding snap list.map c0
    by (simp add: row_of_def m sample_role_rows sample_authoritative sample_tas_def List.map_filter_def)
  show "load_snapshot (act_principal sample_actor) (act_context sample_actor) [u7 4] sample_open
     = Inr (Some (sample_tas (\<lambda>i. if i = u7 4 then Some (sample_member (u7 4) (u7 5) MemberType_INTERNAL) else None)))"
    unfolding snap list.map c1
    by (auto simp add: row_of_def m sample_role_rows sample_authoritative sample_tas_def List.map_filter_def fun_eq_iff
        require_eval check_defs require_uuid7_def)
qed

lemma sample_valid_actor: "validate_authoritative_actor sample_actor (sample_tas targets) (aware 5) = Inr ()"
  by (simp add: validate_authoritative_actor_def tenant_now_def require_eval Let_def sample_tas_def sample_actor_def
      session_state_of_def sample_started_def aware_optional_def sample_member_def)

definition sample_seen :: Principal where
  "sample_seen = \<lparr>pr_user_id = u7 1, pr_session_id = u7 10, pr_audience = PrincipalAudience_TENANT,
     pr_tenant_id = Some (u7 2), pr_membership_id = Some (u7 3), pr_user_status = ''active'', pr_session_valid = True,
     pr_auth_version = 1, pr_session_auth_version = 1, pr_permissions = {''tenant.read'', ''membership.revoke'', ''membership.invite'', ''role.assign''},
     pr_role_codes = {''tenant_owner''}, pr_authenticated_at = aware 0\<rparr>"

lemma sample_snapshot_fields:
  "tas_context (sample_tas ts) = act_context sample_actor" "snapshot_principal sample_actor (sample_tas ts) = sample_seen"
  by (simp_all add: sample_tas_def snapshot_principal_def sample_actor_def sample_seen_def)

lemma sample_actor_granted:
  "live_session sample_seen (aware 5)"
  "active_member sample_seen (act_context sample_actor) (aware 5)"
  "well_formed_request (act_context sample_actor) (tenant_resource (u7 2) {} None)"
  "reaches_resource sample_seen (act_context sample_actor) (tenant_resource (u7 2) {} None)"
  by (simp_all add: sample_seen_def sample_actor_def live_session_def active_member_def well_formed_request_def
      reaches_resource_def is_uuid7_opt_def positive_int_def sample_scope_def tenant_resource_def valid_uuid_set_def
      valid_resource_attributes_def less_eq_ConfidentialityLevel_def)

lemma sample_authorized:
  assumes "a \<in> {TENANT_READ, MEMBERSHIP_REVOKE, MEMBERSHIP_INVITE, ROLE_ASSIGN}"
  shows "authorize_resource sample_actor (sample_tas ts) a (tenant_resource (u7 2) {} None) (aware 5) = Inr ()"
proof -
  have perm: "holds_permission (snapshot_principal sample_actor (sample_tas ts)) a"
    using assms by (auto simp: holds_permission_def sample_snapshot_fields sample_seen_def known_permission_codes_def all_actions_def known_role_codes_def)
  have "grants (snapshot_principal sample_actor (sample_tas ts)) (act_context sample_actor) a (tenant_resource (u7 2) {} None) (aware 5)"
  proof -
    have "pr_audience sample_seen = PrincipalAudience_TENANT" "res_tenant_id (tenant_resource (u7 2) {} None) = u7 2"
        "ctx_tenant_id (act_context sample_actor) = u7 2" "res_state (tenant_resource (u7 2) {} None) \<notin> terminal_resource_states"
        "tenant_open (act_context sample_actor) a"
      by (simp_all add: sample_seen_def tenant_resource_def sample_actor_def terminal_resource_states_def tenant_open_def)
    moreover have "a \<notin> platform_actions" using assms by (auto simp: platform_actions_def)
    ultimately show ?thesis
      using sample_actor_granted perm by (simp add: grants_def sample_snapshot_fields(2))
  qed
  then show ?thesis
    using grants_allowed by (simp add: authorize_resource_def tenant_now_def require_eval sample_snapshot_fields(1) Let_def)
qed

lemma sample_require:
  "require_snapshot sample_actor [] (aware 5) sample_open = Inr (sample_tas (\<lambda>_. None))"
  "require_snapshot sample_actor [u7 4] (aware 5) sample_open
     = Inr (sample_tas (\<lambda>i. if i = u7 4 then Some (sample_member (u7 4) (u7 5) MemberType_INTERNAL) else None))"
  by (simp_all add: require_snapshot_def sample_load sample_valid_actor)

lemma sample_get: "get_tenant sample_actor (\<lambda>_. aware 5) sample_open = Inr sample_tenant"
proof -
  have "tenant_id (tas_tenant (sample_tas ts)) = u7 2" "tas_tenant (sample_tas ts) = sample_tenant" for ts
    by (simp_all add: sample_tas_def sample_tenant_def)
  then show ?thesis by (simp add: get_tenant_def sample_require authorize_tenant_def sample_authorized)
qed

lemma get_tenant_entitled_witness:
  "get_tenant sample_actor (\<lambda>_. aware 5) sample_open = Inr sample_tenant
   \<and> entitled sample_actor TENANT_READ (aware 5) (aware 5) sample_open"
  using sample_get get_tenant_entitled [OF sample_get] by blast


end
