(* ===== verification/TenantRevocation.thy ===== *)
theory TenantRevocation
  imports TenantSamples
begin

text \<open>The owner of the sample tenant revokes the other member: the transaction statement by statement, its result
  and what the properties of the tenant workflows say of it.\<close>

subsection \<open>The command\<close>

definition sample_revoke :: RevokeMemberCommand where
  "sample_revoke = \<lparr>rmc_membership_id = u7 4, rmc_expected_version = 1, rmc_idempotency_key = ''0123456789abcdef'',
     rmc_audit_context = sample_ctx\<rparr>"

definition sample_tenant_fresh :: tenant_fresh where
  "sample_tenant_fresh = \<lparr>tf_record_id = u7 40, tf_tenant_id = u7 43, tf_membership_id = u7 44, tf_role_id = (\<lambda>c. u7 45),
     tf_audit_id = u7 41, tf_task_id = u7 42\<rparr>"

definition sample_tenant_service :: tenant_service where
  "sample_tenant_service = \<lparr>ts_ext = sample_externals, ts_secret = sample_secret, ts_ttl = seconds 3600, ts_nfkc = id,
     ts_casefold = id, ts_payload_text = (\<lambda>_. ''x'')\<rparr>"

abbreviation "sample_change \<equiv> revoke_change sample_revoke"

definition sample_targets :: "uuid \<rightharpoonup> Membership" where
  "sample_targets i = (if i = u7 4 then Some (sample_member (u7 4) (u7 5) MemberType_INTERNAL) else None)"

lemma sample_change_fields:
  "mch_membership_id sample_change = u7 4" "mch_expected_version sample_change = 1" "mch_role_ids sample_change = None"
  "mch_action sample_change = MEMBERSHIP_REVOKE" "mch_change_department sample_change = False" "mch_department_id sample_change = None"
  "mch_status sample_change = Some MembershipStatus_REVOKED" "mch_audit_context sample_change = sample_ctx"
  "mch_operation sample_change = ''membership.revoke''" "mch_revocation_reason sample_change = ''membership_revoked''"
  "mch_method sample_change = ''DELETE''" "mch_idempotency_key sample_change = ''0123456789abcdef''"
  by (simp_all add: revoke_change_def sample_revoke_def)

lemma sample_revoked_id [simp]: "rmc_membership_id sample_revoke = u7 4"
  by (simp add: sample_revoke_def)

lemma sample_targeted:
  "targeted_snapshot sample_actor sample_change (\<lambda>_. aware 5) sample_open
     = Inr (sample_tas sample_targets, sample_member (u7 4) (u7 5) MemberType_INTERNAL)"
proof -
  have r: "require_snapshot sample_actor [u7 4] (aware 5) sample_open = Inr (sample_tas sample_targets)"
    using sample_require(2) unfolding sample_targets_def [abs_def] .
  have t: "tas_target_memberships (sample_tas sample_targets) (u7 4) = Some (sample_member (u7 4) (u7 5) MemberType_INTERNAL)"
    "tenant_id (tas_tenant (sample_tas sample_targets)) = u7 2" "mem_department_id (sample_member i u k) = None" for i u k
    by (simp_all add: sample_tas_def sample_targets_def sample_tenant_def sample_member_def)
  show ?thesis
    by (simp add: targeted_snapshot_def sample_change_fields r t authorize_change_def authorize_member_def sample_authorized)
qed

lemma sample_lock: "acquire_write sample_actor [u7 4] sample_open = Inr ()"
  by (simp add: acquire_write_def tenant_write_lock_def sample_actor_fields Let_def TenantWriteLock_post_init_def require_eval
      check_defs uuid_check_def require_uuid7_def acquire_tenant_write_def acquire_tenant_gate_def session_view_def
      sample_open_def put_session_def sample_tenants_def row_of_def tenant_row.truncate_def)

definition sample_member_scope :: IdempotencyScope where
  "sample_member_scope = \<lparr>scope_type = ScopeType_MEMBERSHIP, scope_id = u7 3, scope_tenant_id = Some (u7 2)\<rparr>"

lemma sample_scope_ok: "membership_scope sample_actor = Inr sample_member_scope" "IdempotencyScope_post_init sample_member_scope = Inr ()"
  by (simp_all add: membership_scope_def sample_actor_fields IdempotencyScope_post_init_def require_eval sample_member_scope_def)

lemma sample_payload: "FingerprintPayload_post_init (req_body (member_request sample_actor sample_change)) = Inr ()"
  by (simp add: FingerprintPayload_post_init_def member_request_def require_eval paths_ok_def strict_prefix_path_def Let_def)

lemma sample_reserved_member:
  obtains p where "prepare sample_externals sample_secret (member_request sample_actor sample_change) = Inr p"
    "reserve_in sample_tenant_service sample_member_scope ''membership.revoke'' (member_request sample_actor sample_change) (aware 5)
       (u7 40) sample_open
     = Inr (\<lparr>rsv_record_id = u7 40, rsv_request_fingerprint = prep_request_fingerprint p, rsv_replay = None\<rparr>,
         sample_open\<lparr>td_idempotency := [first_record (u7 40) sample_member_scope ''membership.revoke'' p (5 + seconds 3600)]\<rparr>)"
proof -
  have key: "matches_class key_char 16 128 (mch_idempotency_key sample_change)" "mch_method sample_change \<in> {''PATCH'', ''DELETE''}"
    unfolding sample_change_fields by code_simp simp
  obtain p where p: "prepare sample_externals sample_secret (member_request sample_actor sample_change) = Inr p"
      "length (prep_key_hash p) = 32" "length (prep_request_fingerprint p) = 32"
    using member_request_prepared [OF key] by blast
  have op: "token_matches 127 ''membership.revoke''" by code_simp
  have none: "td_idempotency sample_open = []" by (simp add: sample_open_def put_session_def sample_tenants_def)
  have "IdempotencyService_reserve sample_externals sample_secret (seconds 3600) sample_member_scope ''membership.revoke''
      (member_request sample_actor sample_change) (aware 5) (u7 40) []
    = Inr (\<lparr>rsv_record_id = u7 40, rsv_request_fingerprint = prep_request_fingerprint p, rsv_replay = None\<rparr>,
        [first_record (u7 40) sample_member_scope ''membership.revoke'' p (5 + seconds 3600)])"
    using reserve_empty [OF p sample_scope_ok(2) _ is_utc_aware op, of "seconds 3600" 5 "u7 40"]
    by (simp add: sample_member_scope_def)
  then have "reserve_in sample_tenant_service sample_member_scope ''membership.revoke'' (member_request sample_actor sample_change)
      (aware 5) (u7 40) sample_open
    = Inr (\<lparr>rsv_record_id = u7 40, rsv_request_fingerprint = prep_request_fingerprint p, rsv_replay = None\<rparr>,
        sample_open\<lparr>td_idempotency := [first_record (u7 40) sample_member_scope ''membership.revoke'' p (5 + seconds 3600)]\<rparr>)"
    by (simp add: reserve_in_def sample_payload none sample_tenant_service_def)
  with p(1) show ?thesis by (rule that)
qed

definition sample_plan :: member_plan where
  "sample_plan = \<lparr>mpl_status = MembershipStatus_REVOKED, mpl_department_id = None, mpl_roles = [u7 7], mpl_current_roles = [u7 7]\<rparr>"

lemma sample_ranks: "rank_of {''tenant_owner''} = 100" "rank_of {''lawyer_or_legal''} = 40"
  by (simp_all add: rank_of_def ROLE_HIERARCHY_def)

lemma sample_validated:
  "validate_membership_mutation (sample_member (u7 3) (u7 1) MemberType_OWNER) {''tenant_owner''} (act_context sample_actor)
     (sample_member (u7 4) (u7 5) MemberType_INTERNAL) {''lawyer_or_legal''} MembershipStatus_REVOKED None {''lawyer_or_legal''}
     MEMBERSHIP_REVOKE = Inr False"
  by (simp add: validate_membership_mutation_def transition_checks_def hierarchy_checks_def department_checks_def
      member_type_checks_def require_eval ranked_def ROLE_HIERARCHY_def sample_ranks sample_member_def Let_def)

lemma sample_planned:
  "plan_member_change sample_change (sample_tas sample_targets) (sample_member (u7 4) (u7 5) MemberType_INTERNAL)
     (sample_open\<lparr>td_idempotency := rows\<rparr>) = Inr sample_plan"
proof -
  have c: "tas_context (sample_tas sample_targets) = act_context sample_actor"
    "tas_role_codes (sample_tas sample_targets) = {''tenant_owner''}"
    "tas_actor_membership (sample_tas sample_targets) = sample_member (u7 3) (u7 1) MemberType_OWNER"
    by (simp_all add: sample_tas_def)
  have m: "mem_version (sample_member i u k) = 1" "mem_status (sample_member i u k) = MembershipStatus_ACTIVE"
    "mem_department_id (sample_member i u k) = None" for i u k by (simp_all add: sample_member_def)
  have ids: "role_ids (act_context sample_actor) (u7 4) (sample_open\<lparr>td_idempotency := rows\<rparr>) = Inr [u7 7]"
    by (simp add: role_ids_def sample_context_ok require_eval check_defs uuid_check_def require_uuid7_def sample_actor_fields
        member_assignments_def sample_open_def put_session_def sample_tenants_def)
  have codes: "role_codes_for_ids (act_context sample_actor) [u7 7] (sample_open\<lparr>td_idempotency := rows\<rparr>)
      = Inr (Some [(u7 7, ''lawyer_or_legal'')])"
    by (simp add: role_codes_for_ids_def sample_context_ok require_eval check_defs uuid_check_def require_uuid7_def
        sample_actor_fields active_roles_def sample_open_def put_session_def sample_tenants_def Let_def)
  show ?thesis
    by (simp add: plan_member_change_def Let_def c m ids codes sample_change_fields desired_role_ids_def known_department_def
        sample_validated keeps_an_owner_def sample_plan_def)
qed


lemma sample_written:
  obtains m db' where "write_member_change sample_actor sample_change (sample_tas sample_targets)
      (sample_member (u7 4) (u7 5) MemberType_INTERNAL) sample_plan (aware 5) (sample_open\<lparr>td_idempotency := rows\<rparr>) = Inr (m, db')"
    "td_idempotency db' = rows" "td_audit db' = []" "td_cache_outbox db' = []" "td_users db' = td_users sample_open"
    "td_tenants db' = td_tenants sample_open"
    "(\<lambda>m. (mbr_tenant_id m, mbr_id m, mbr_user_id m)) ` set (td_memberships db') = {(u7 2, u7 3, u7 1), (u7 2, u7 4, u7 5)}"
proof -
  let ?q = "\<lparr>muq_tenant_id = u7 2, muq_membership_id = u7 4, muq_status = MembershipStatus_REVOKED,
      muq_department_id = None, muq_expected_version = 1\<rparr>"
  let ?db = "sample_open\<lparr>td_idempotency := rows\<rparr>"
  let ?rows = "[sample_row (u7 3) (u7 1) MemberType_OWNER, member_values ?q (sample_row (u7 4) (u7 5) MemberType_INTERNAL)]"
  have c: "tas_context (sample_tas sample_targets) = act_context sample_actor" by (simp add: sample_tas_def)
  have m: "mem_tenant_id (sample_member i u k) = u7 2" "mem_id (sample_member i u k) = i" for i u k by (simp_all add: sample_member_def)
  have w: "member_where ?q (sample_row (u7 4) u k)" "\<not> member_where ?q (sample_row (u7 3) u k)" for u k
    by (simp_all add: member_where_def)
  have mem: "td_memberships ?db = [sample_row (u7 3) (u7 1) MemberType_OWNER, sample_row (u7 4) (u7 5) MemberType_INTERNAL]"
    by (simp add: sample_open_members)
  have upd: "sql_update (\<lambda>_. True) (member_where ?q) (member_values ?q) (td_memberships ?db) = Inr (?rows, 1)"
    unfolding mem by (simp add: sql_update_def w)
  obtain stored where st: "member_of_row (member_values ?q (sample_row (u7 4) (u7 5) MemberType_INTERNAL)) = Inr stored"
    by (simp add: member_of_row_def membership_of_row_def Let_def Membership_post_init_def require_eval sample_row_def
        member_values_def membership_row.truncate_def version_ok_def aware_optional_def)
  have find: "find_in_tenant (u7 2) (u7 4) (?db\<lparr>td_memberships := ?rows\<rparr>)
      = Some (member_values ?q (sample_row (u7 4) (u7 5) MemberType_INTERNAL))"
    by (simp add: find_in_tenant_def sql_scalar_def member_values_def)
  have u: "update_locked (act_context sample_actor) (sample_member (u7 4) (u7 5) MemberType_INTERNAL) MembershipStatus_REVOKED None 1
      (aware 5) ?db = Inr (Some stored, ?db\<lparr>td_memberships := ?rows\<rparr>)"
    unfolding update_locked_def Let_def sample_context_ok bindE_Inr m sample_actor_fields upd
    by (simp add: require_eval foreign_def department_known_def find optional_row_def st)
  obtain s where s: "revoke_for_membership (u7 2) (u7 4) ''membership_revoked'' (aware 5)
      (session_view (?db\<lparr>td_memberships := ?rows\<rparr>)) = Inr s"
    by (simp add: revoke_for_membership_def require_eval uuid_check_def require_uuid7_def revoke_tokens_def revoke_logins_def)
  have wr: "write_member_change sample_actor sample_change (sample_tas sample_targets) (sample_member (u7 4) (u7 5) MemberType_INTERNAL)
      sample_plan (aware 5) ?db = Inr (stored, put_session s (?db\<lparr>td_memberships := ?rows\<rparr>))"
    unfolding write_member_change_def c
    by (simp add: sample_plan_def sample_change_fields(2,10) u revoke_membership_sessions_def s sample_actor_fields)
  show ?thesis
    by (rule that [OF wr])
      (auto simp: put_session_def sample_open_def sample_tenants_def member_values_def)
qed

lemma sample_event:
  obtains e where "tenant_audit_event (u7 41) sample_ctx (Some (u7 1)) (Some (u7 2)) (Some (u7 3)) ''membership.revoke'' ''changed''
      (Some ''membership'') (Some (u7 4)) (aware 5) = Inr e"
    "structured_check e" "sev_occurred_at e = aware 5" "sev_actor_user_id e = Some (u7 1)" "sev_tenant_id e = Some (u7 2)"
    "sev_actor_membership_id e = Some (u7 3)"
proof -
  let ?e = "\<lparr>sev_id = u7 41, sev_actor_kind = TENANT_USER, sev_action = ''membership.revoke'', sev_result = ''success'',
               sev_reason_code = ''changed'', sev_trace_id = actx_trace_id sample_ctx, sev_occurred_at = aware 5, sev_tenant_id = Some (u7 2),
               sev_actor_user_id = Some (u7 1), sev_actor_membership_id = Some (u7 3),
               sev_on_behalf_of_user_id = None, sev_on_behalf_of_membership_id = None, sev_target_job_id = None,
               sev_attempt_id = None, sev_message_id = None, sev_rollout_feature_code = None,
               sev_rollout_generation = None, sev_target_type = Some ''membership'', sev_target_id = Some (u7 4),
               sev_client_ip_hash = actx_client_ip_hash sample_ctx, sev_user_agent_hash = actx_user_agent_hash sample_ctx\<rparr>"
  have allowed: "validate_action_allowlist ?e = Inr ()"
    unfolding validate_action_allowlist_def by simp code_simp
  have "StructuredAuditEvent_post_init ?e = Inr ()"
    using allowed by (simp add: StructuredAuditEvent_post_init_def require_eval uuid_check_def require_uuid7_def audit_utc_check_def
        optional_uuid_check_def audit_hash_check_def validate_common_grouping_def validate_actor_kind_matrix_def
        absent_defs sample_ctx_def)
  moreover have "structured_check ?e"
    by (simp add: structured_check_def structured_columns_def sample_ctx_def)
  ultimately show ?thesis by (intro that [of ?e]) (simp_all add: tenant_audit_event_def Let_def)
qed

subsection \<open>The transaction and its result\<close>

lemma sample_completed:
  assumes "td_idempotency db = [first_record (u7 40) sample_member_scope operation p e]"
  obtains row where "complete_in \<lparr>rsv_record_id = u7 40, rsv_request_fingerprint = prep_request_fingerprint p, rsv_replay = None\<rparr>
      ''membership'' (u7 4) (Some CHANGED) (Some 1) (aware 5) db = Inr (db\<lparr>td_idempotency := [row]\<rparr>)"
    "idem_id row = u7 40" "idem_tenant_id row = Some (u7 2)"
proof -
  let ?row = "first_record (u7 40) sample_member_scope operation p e"
  obtain t where t: "serialize_result_type (sample_change_result (u7 4)) = Inr t" using change_serialized by blast
  let ?q = "\<lparr>fq_record_id = u7 40, fq_fingerprint = prep_request_fingerprint p, fq_status = COMPLETED,
      fq_result_type = Some t, fq_result_id = Some (u7 4)\<rparr>"
  have token: "token_matches 63 ''membership''" by code_simp
  have ref: "result_reference ''membership'' (u7 4) (Some CHANGED) (Some 1) = Inr (sample_change_result (u7 4))"
    by (simp add: result_reference_def ResultReference_post_init_def require_eval token sample_change_result_def)
  have upd: "sql_update idem_check (finish_where ?q) (finish_values ?q) [?row] = Inr ([finish_values ?q ?row], 1)"
    by (simp add: sql_update_def finish_where_def finish_values_def first_record_def idem_check_def sample_member_scope_def)
  have rid: "ref_result_id (sample_change_result (u7 4)) = u7 4" by (simp add: sample_change_result_def)
  have "repo_complete (u7 40) (prep_request_fingerprint p) (sample_change_result (u7 4)) (aware 5) [?row]
      = Inr (True, [finish_values ?q ?row])"
    unfolding repo_complete_def t bindE_Inr Let_def by (simp add: naive_def upd [simplified] rid)
  then have "complete_in \<lparr>rsv_record_id = u7 40, rsv_request_fingerprint = prep_request_fingerprint p, rsv_replay = None\<rparr>
      ''membership'' (u7 4) (Some CHANGED) (Some 1) (aware 5) db = Inr (db\<lparr>td_idempotency := [finish_values ?q ?row]\<rparr>)"
    by (simp add: complete_in_def ref IdempotencyService_complete_def is_replay_def assms)
  then show ?thesis
    by (rule that) (simp_all add: finish_values_def first_record_def sample_member_scope_def)
qed

lemma sample_body:
  obtains r db' where "mutate_member_body sample_tenant_service sample_tenant_fresh sample_actor sample_change (\<lambda>_. aware 5) (aware 5)
      sample_open = Inr ((r, Some (u7 42)), db')" "\<not> mmr_replayed r"
proof -
  obtain p where p: "reserve_in sample_tenant_service sample_member_scope ''membership.revoke''
        (member_request sample_actor sample_change) (aware 5) (u7 40) sample_open
      = Inr (\<lparr>rsv_record_id = u7 40, rsv_request_fingerprint = prep_request_fingerprint p, rsv_replay = None\<rparr>,
          sample_open\<lparr>td_idempotency := [first_record (u7 40) sample_member_scope ''membership.revoke'' p (5 + seconds 3600)]\<rparr>)"
    by (rule sample_reserved_member)
  let ?rsv = "\<lparr>rsv_record_id = u7 40, rsv_request_fingerprint = prep_request_fingerprint p, rsv_replay = None\<rparr>"
  let ?rows = "[first_record (u7 40) sample_member_scope ''membership.revoke'' p (5 + seconds 3600)]"
  let ?member = "sample_member (u7 4) (u7 5) MemberType_INTERNAL"
  obtain m db1 where w: "write_member_change sample_actor sample_change (sample_tas sample_targets) ?member sample_plan (aware 5)
        (sample_open\<lparr>td_idempotency := ?rows\<rparr>) = Inr (m, db1)"
      "td_idempotency db1 = ?rows" "td_audit db1 = []" "td_cache_outbox db1 = []" "td_users db1 = td_users sample_open"
      "td_tenants db1 = td_tenants sample_open"
      "(\<lambda>m. (mbr_tenant_id m, mbr_id m, mbr_user_id m)) ` set (td_memberships db1) = {(u7 2, u7 3, u7 1), (u7 2, u7 4, u7 5)}"
    by (rule sample_written [of ?rows])
  obtain e where e: "tenant_audit_event (u7 41) sample_ctx (Some (u7 1)) (Some (u7 2)) (Some (u7 3)) ''membership.revoke'' ''changed''
      (Some ''membership'') (Some (u7 4)) (aware 5) = Inr e"
      "structured_check e" "sev_occurred_at e = aware 5" "sev_actor_user_id e = Some (u7 1)" "sev_tenant_id e = Some (u7 2)"
      "sev_actor_membership_id e = Some (u7 3)"
    by (rule sample_event)
  let ?db2 = "db1\<lparr>td_audit := [e]\<rparr>"
  have known: "u7 1 \<in> usr_id ` set (td_users db1)" "u7 2 \<in> ten_id ` set (td_tenants db1)"
    unfolding w(5,6) by (simp_all add: sample_open_def put_session_def sample_tenants_def)
  have "(u7 2, u7 3, u7 1) \<in> (\<lambda>m. (mbr_tenant_id m, mbr_id m, mbr_user_id m)) ` set (td_memberships db1)"
    and there: "(u7 2, u7 4, u7 5) \<in> (\<lambda>m. (mbr_tenant_id m, mbr_id m, mbr_user_id m)) ` set (td_memberships db1)"
    unfolding w(7) by simp_all
  then have refs: "owner_references (session_view db1) (Some (u7 1)) (Some (u7 2)) (Some (u7 3))"
    using known by (force simp: owner_references_def member_reference_def session_view_def list_ex_iff
        tenant_row.truncate_def membership_row.truncate_def image_iff)
  then have a: "append_structured e db1 = Inr ?db2"
    by (simp add: append_structured_def e naive_def foreign_def sql_insert_def w(3))
  obtain row where c: "complete_in ?rsv ''membership'' (u7 4) (Some CHANGED) (Some 1) (aware 5) ?db2
      = Inr (?db2\<lparr>td_idempotency := [row]\<rparr>)" "idem_id row = u7 40" "idem_tenant_id row = Some (u7 2)"
    by (rule sample_completed [of ?db2]) (use w(2) in simp)
  have task: "\<exists>db3. leave_cache_task sample_tenant_fresh sample_actor sample_change ?member ?rsv (aware 5)
      (?db2\<lparr>td_idempotency := [row]\<rparr>) = Inr db3"
    using there by (auto simp: leave_cache_task_def Let_def NewCacheInvalidation_post_init_def CacheInvalidationTask_post_init_def
        require_eval check_defs uuid_check_def require_uuid7_def positive_version_def utc_check_def add_cache_task_def
        naive_def insert_cache_task_def foreign_def member_exists_def sql_insert_def w(4) cache_task_check_def c(2,3)
        sample_tenant_fresh_def sample_actor_fields sample_change_fields sample_member_def image_iff MAX_SIGNED_INTEGER_def
        optional_uuid_check_def intro: rev_bexI)
  then obtain db3 where d: "leave_cache_task sample_tenant_fresh sample_actor sample_change ?member ?rsv (aware 5)
      (?db2\<lparr>td_idempotency := [row]\<rparr>) = Inr db3" by blast
  have fields: "plan_changes ?member sample_plan" "mem_authz_version ?member = 1" "mem_id (tas_actor_membership (sample_tas ts)) = u7 3"
    "tf_audit_id sample_tenant_fresh = u7 41" "tf_task_id sample_tenant_fresh = u7 42" "tf_record_id sample_tenant_fresh = u7 40" for ts
    by (simp_all add: plan_changes_def sample_plan_def sample_member_def sample_tas_def sample_tenant_fresh_def)
  have commit: "commit_member_change sample_tenant_fresh sample_actor sample_change (sample_tas sample_targets) ?member sample_plan ?rsv
      (aware 5) (sample_open\<lparr>td_idempotency := ?rows\<rparr>)
    = Inr ((\<lparr>mmr_membership = m, mmr_role_ids = mpl_roles sample_plan, mmr_replayed = False\<rparr>, Some (u7 42)), db3)"
    unfolding commit_member_change_def Let_def if_P [OF fields(1)]
    by (simp only: w(1) bindE_Inr prod.case sample_actor_fields sample_change_fields fields e(1) a c(1) d)
  have "mutate_member_body sample_tenant_service sample_tenant_fresh sample_actor sample_change (\<lambda>_. aware 5) (aware 5) sample_open
    = Inr ((\<lparr>mmr_membership = m, mmr_role_ids = mpl_roles sample_plan, mmr_replayed = False\<rparr>, Some (u7 42)), db3)"
    unfolding mutate_member_body_def sample_targeted sample_lock sample_change_fields sample_scope_ok(1) fields(6) p bindE_Inr prod.case
      IdempotencyReservation.simps option.case sample_planned commit ..
  then show ?thesis by (rule that) simp
qed

lemma member_change_lawful_witness:
  "\<exists>r db'. mutate_member_body sample_tenant_service sample_tenant_fresh sample_actor sample_change (\<lambda>_. aware 5) (aware 5)
       sample_open = Inr ((r, Some (u7 42)), db')
     \<and> entitled sample_actor MEMBERSHIP_REVOKE (aware 5) (aware 5) sample_open
     \<and> rank_of (roles_held (u7 2) (u7 4) db') \<le> rank_of (actor_roles sample_actor sample_open)"
proof -
  obtain r db' where b: "mutate_member_body sample_tenant_service sample_tenant_fresh sample_actor sample_change (\<lambda>_. aware 5)
      (aware 5) sample_open = Inr ((r, Some (u7 42)), db')" by (rule sample_body)
  show ?thesis
    using member_change_lawful [OF b sample_open_keys(2) _ refl refl] b by (simp only: sample_change_fields sample_actor_fields) blast
qed

lemma sample_revoked:
  obtains r db' where "revoke_member sample_tenant_service sample_tenant_fresh sample_actor sample_revoke (\<lambda>_. aware 5) False id
      sample_open = (PostCommitCacheInvalidation r, db')" "\<not> mmr_replayed r"
proof -
  obtain r db' where b: "mutate_member_body sample_tenant_service sample_tenant_fresh sample_actor sample_change (\<lambda>_. aware 5)
      (aware 5) sample_open = Inr ((r, Some (u7 42)), db')" "\<not> mmr_replayed r" by (rule sample_body)
  have "RevokeMemberCommand_post_init sample_revoke = Inr ()"
    by (simp add: RevokeMemberCommand_post_init_def require_eval check_defs uuid_check_def require_uuid7_def positive_version_def
        sample_revoke_def MAX_SIGNED_INTEGER_def)
  then show ?thesis
    by (intro that [OF _ b(2)]) (simp add: revoke_member_def mutate_member_def tenant_now_def require_eval transaction_def b(1) after_commit_def)
qed

lemma revoked_member_locked_out_witness:
  "\<exists>r db'. revoke_member sample_tenant_service sample_tenant_fresh sample_actor sample_revoke (\<lambda>_. aware 5) False id
      sample_open = (PostCommitCacheInvalidation r, db')
    \<and> (\<exists>m. find_in_tenant (u7 2) (u7 4) db' = Some m \<and> mbr_status m = MembershipStatus_REVOKED)"
proof -
  obtain r db' where b: "revoke_member sample_tenant_service sample_tenant_fresh sample_actor sample_revoke (\<lambda>_. aware 5) False id
      sample_open = (PostCommitCacheInvalidation r, db')" "\<not> mmr_replayed r" by (rule sample_revoked)
  have refl_run: "tenant_run sample_svc d (id d)" for d by (simp add: tenant_run_def)
  have none: "td_sessions sample_tenants = []" "td_refresh sample_tenants = []" by (simp_all add: sample_tenants_def)
  show ?thesis
    using revoked_member_locked_out [OF sample_open_run sample_open_keys(1) none b(1) disjI2 [OF refl] b(2) refl_run
        refl_run [of db'] refl refl] b(1)
    by (simp only: sample_actor_fields sample_revoked_id id_apply) blast
qed

end
