(* ===== verification/TenantApplication.thy ===== *)
theory TenantApplication
  imports TenantRevocation
begin

text \<open>
  Founding a tenant in a database whose role templates are the built-in ones: when cloning them succeeds, a
  concrete catalog, the whole application, and the properties of founding applied to it.
\<close>

subsection \<open>When cloning succeeds\<close>

lemma insert_roles:
  assumes "list_all (\<lambda>r. rol_tenant_id r \<in> ten_id ` set (td_tenants db) \<and> rol_status r = ''active'') rs"
    "distinct (map rol_id (td_roles db @ rs))" "distinct (map (\<lambda>r. (rol_tenant_id r, rol_code r)) (td_roles db @ rs))"
  shows "insert_all insert_role rs db = Inr (db\<lparr>td_roles := td_roles db @ rs\<rparr>)"
  using assms
proof (induction rs arbitrary: db)
  case (Cons r rs)
  have "insert_role r db = Inr (db\<lparr>td_roles := td_roles db @ [r]\<rparr>)"
    using Cons.prems by (auto simp: insert_role_def foreign_def sql_insert_def role_conflict_def list_ex_iff image_iff)
  moreover have "insert_all insert_role rs (db\<lparr>td_roles := td_roles db @ [r]\<rparr>)
      = Inr (db\<lparr>td_roles := td_roles db @ r # rs\<rparr>)"
    using Cons.IH [of "db\<lparr>td_roles := td_roles db @ [r]\<rparr>"] Cons.prems by simp
  ultimately show ?case by simp
qed simp

lemma insert_role_permissions:
  assumes "list_all (\<lambda>r. role_exists (rpm_tenant_id r) (rpm_role_id r) db \<and> rpm_permission_id r \<in> prm_id ` set (td_permissions db)) rs"
    "distinct (td_role_permissions db @ rs)"
  shows "insert_all insert_role_permission rs db = Inr (db\<lparr>td_role_permissions := td_role_permissions db @ rs\<rparr>)"
  using assms
proof (induction rs arbitrary: db)
  case (Cons r rs)
  have "insert_role_permission r db = Inr (db\<lparr>td_role_permissions := td_role_permissions db @ [r]\<rparr>)"
    using Cons.prems by (auto simp: insert_role_permission_def foreign_def sql_insert_def list_ex_iff)
  moreover have "insert_all insert_role_permission rs (db\<lparr>td_role_permissions := td_role_permissions db @ [r]\<rparr>)
      = Inr (db\<lparr>td_role_permissions := td_role_permissions db @ r # rs\<rparr>)"
    using Cons.IH [of "db\<lparr>td_role_permissions := td_role_permissions db @ [r]\<rparr>"] Cons.prems by (simp add: role_exists_def)
  ultimately show ?case by simp
qed simp

lemma distinct_concat_map:
  "distinct xs \<Longrightarrow> (\<And>x. x \<in> set xs \<Longrightarrow> distinct (f x))
    \<Longrightarrow> (\<And>x y z. x \<in> set xs \<Longrightarrow> y \<in> set xs \<Longrightarrow> z \<in> set (f x) \<Longrightarrow> z \<in> set (f y) \<Longrightarrow> x = y)
    \<Longrightarrow> distinct (concat (map f xs))"
proof (induction xs)
  case (Cons x xs)
  have "distinct (concat (map f xs))" by (rule Cons.IH) (use Cons.prems in auto)
  then show ?case using Cons.prems by fastforce
qed simp

lemma clone_succeeds:
  assumes "is_uuid7 tenant" "tenant \<in> ten_id ` set (td_tenants db)" "feature_phase db = ''activated''"
    and codes: "tpl_code ` set (active_templates db) = seed_code ` set TENANT_ROLE_TEMPLATES"
    and matches: "list_all (template_matches_seed True db) (active_templates db)"
    and "td_roles db = []" "td_role_permissions db = []"
    and "distinct (map tpl_code (active_templates db))" "inj_on fresh (tpl_code ` set (active_templates db))"
    and permissions: "\<And>t. t \<in> set (active_templates db) \<Longrightarrow> distinct (map prm_id (template_permissions db t))"
  obtains perms where "clone_templates_for_tenant tenant fresh db
    = Inr (map_of (map (\<lambda>t. (tpl_code t, fresh (tpl_code t))) (active_templates db)),
        db\<lparr>td_roles := map (cloned_role tenant fresh) (active_templates db), td_role_permissions := perms\<rparr>)"
proof -
  let ?ts = "active_templates db"
  let ?roles = "map (cloned_role tenant fresh) ?ts"
  let ?db1 = "db\<lparr>td_roles := ?roles\<rparr>"
  let ?links = "concat (map (cloned_permissions tenant fresh False db) ?ts)"
  have dts: "distinct ?ts" and inj: "inj_on tpl_code (set ?ts)" using assms(8) by (simp_all add: distinct_map)
  have "distinct (map (fresh \<circ> tpl_code) ?ts)"
    using dts comp_inj_on [OF inj assms(9)] by (simp add: distinct_map)
  moreover have "rol_id \<circ> cloned_role tenant fresh = fresh \<circ> tpl_code" by (simp add: fun_eq_iff cloned_role_def)
  moreover have "distinct (map (\<lambda>r. (rol_tenant_id r, rol_code r)) ?roles)"
    using dts inj by (simp add: distinct_map cloned_role_def comp_def inj_on_def)
  ultimately have r: "insert_all insert_role ?roles db = Inr ?db1"
    using insert_roles [of db ?roles] assms(2,6) by (simp add: list_all_iff cloned_role_def)
  have separate: "distinct ?links"
  proof (rule distinct_concat_map)
    show "distinct (cloned_permissions tenant fresh False db t)" if "t \<in> set ?ts" for t
      using permissions [OF that] by (simp add: cloned_permissions_def distinct_map inj_on_def)
    show "t = t'" if "t \<in> set ?ts" "t' \<in> set ?ts" "z \<in> set (cloned_permissions tenant fresh False db t)"
        "z \<in> set (cloned_permissions tenant fresh False db t')" for t t' z
    proof -
      have "fresh (tpl_code t) = fresh (tpl_code t')" using that(3,4) by (auto simp: cloned_permissions_def)
      then show ?thesis using inj_onD [OF assms(9)] inj_onD [OF inj] that(1,2) by blast
    qed
  qed (rule dts)
  have known: "list_all (\<lambda>l. role_exists (rpm_tenant_id l) (rpm_role_id l) ?db1
      \<and> rpm_permission_id l \<in> prm_id ` set (td_permissions ?db1)) ?links"
    by (auto simp: list_all_iff cloned_permissions_def template_permissions_def role_exists_def cloned_role_def image_iff)
      metis
  have p: "insert_all insert_role_permission ?links ?db1 = Inr (?db1\<lparr>td_role_permissions := ?links\<rparr>)"
    using insert_role_permissions [OF known] separate assms(7) by simp
  show ?thesis
    by (rule that [of ?links])
      (simp add: clone_templates_for_tenant_def require_eval uuid_check_def require_uuid7_def assms(1,3) codes matches r p Let_def)
qed

subsection \<open>A catalog\<close>

definition sample_codes :: "string list" where
  "sample_codes = [''tenant.read'', ''tenant.update'', ''department.read'', ''department.manage'', ''membership.read'',
     ''membership.invite'', ''membership.update'', ''membership.revoke'', ''role.read'', ''role.assign'',
     ''external_service.enable'', ''ai_job.create'', ''ai_job.read'', ''ai_job.cancel'']"

definition sample_numbered :: "uuid list \<Rightarrow> string list \<Rightarrow> string \<Rightarrow> uuid" where
  "sample_numbered ids codes c = the (map_of (zip codes ids) c)"

lemma sample_numbered_inj:
  assumes "distinct ids" "distinct codes" "length ids = length codes"
  shows "inj_on (sample_numbered ids codes) (set codes)"
proof (rule inj_onI)
  fix c d
  assume c: "c \<in> set codes" and d: "d \<in> set codes" and eq: "sample_numbered ids codes c = sample_numbered ids codes d"
  obtain i where i: "i < length codes" "c = codes ! i" using c by (metis in_set_conv_nth)
  obtain j where j: "j < length codes" "d = codes ! j" using d by (metis in_set_conv_nth)
  have at: "sample_numbered ids codes (codes ! k) = ids ! k" if "k < length codes" for k
    using that assms by (simp add: sample_numbered_def map_of_zip_nth)
  have "ids ! i = ids ! j" using eq at i j by simp
  then show "c = d" using assms(1,3) i j by (simp add: nth_eq_iff_index_eq)
qed

definition sample_permission_id :: "string \<Rightarrow> uuid" where
  "sample_permission_id = sample_numbered (map u7 [101, 102, 103, 104, 105, 106, 107, 108, 109, 110, 111, 112, 113, 114]) sample_codes"

definition sample_template_id :: "string \<Rightarrow> uuid" where
  "sample_template_id = sample_numbered (map u7 [201, 202, 203, 204, 205, 206, 207, 208]) (map seed_code TENANT_ROLE_TEMPLATES)"

definition sample_role_id :: "string \<Rightarrow> uuid" where
  "sample_role_id = sample_numbered (map u7 [301, 302, 303, 304, 305, 306, 307, 308]) (map seed_code TENANT_ROLE_TEMPLATES)"

lemma sample_seed_codes: "distinct (map seed_code TENANT_ROLE_TEMPLATES)" "length TENANT_ROLE_TEMPLATES = 8"
  "distinct sample_codes" "length sample_codes = 14"
  by (simp_all add: TENANT_ROLE_TEMPLATES_def sample_codes_def)

lemma sample_ids_inj:
  "inj_on sample_permission_id (set sample_codes)"
  "inj_on sample_template_id (seed_code ` set TENANT_ROLE_TEMPLATES)"
  "inj_on sample_role_id (seed_code ` set TENANT_ROLE_TEMPLATES)"
  using sample_numbered_inj [OF _ sample_seed_codes(3)] sample_numbered_inj [OF _ sample_seed_codes(1)]
  by (simp_all add: sample_permission_id_def sample_template_id_def sample_role_id_def sample_seed_codes)

definition sample_granted :: "RoleSeed \<Rightarrow> string list" where
  "sample_granted s = seed_permission_codes s @ (if seed_code s \<in> set FEATURE_TARGET_ROLES then FEATURE_PERMISSION_CODES else [])"

lemma sample_granted_codes:
  "list_all (\<lambda>s. distinct (sample_granted s) \<and> set (sample_granted s) \<subseteq> set sample_codes) TENANT_ROLE_TEMPLATES"
  by (simp add: TENANT_ROLE_TEMPLATES_def sample_codes_def sample_granted_def FEATURE_TARGET_ROLES_def FEATURE_PERMISSION_CODES_def subset_iff)

definition sample_permission :: "string \<Rightarrow> permission_row" where
  "sample_permission c = \<lparr>prm_id = sample_permission_id c, prm_code = c, prm_status = ''active''\<rparr>"

definition sample_template :: "RoleSeed \<Rightarrow> template_row" where
  "sample_template s = \<lparr>tpl_id = sample_template_id (seed_code s), tpl_code = seed_code s, tpl_name = seed_name s,
     tpl_description = seed_description s, tpl_status = ''active''\<rparr>"

definition sample_template_links :: "RoleSeed \<Rightarrow> template_permission_row list" where
  "sample_template_links s = map (\<lambda>c. \<lparr>tpp_template_id = sample_template_id (seed_code s), tpp_permission_id = sample_permission_id c\<rparr>)
     (sample_granted s)"

definition sample_catalog :: tenant_db where
  "sample_catalog = sample_tenants\<lparr>td_tenants := [], td_memberships := [], td_roles := [], td_assignments := [],
     td_role_permissions := [], td_permissions := map sample_permission sample_codes,
     td_templates := map sample_template TENANT_ROLE_TEMPLATES,
     td_template_permissions := concat (map sample_template_links TENANT_ROLE_TEMPLATES),
     td_feature_phase := Some ''activated''\<rparr>"

lemma sample_catalog_fields:
  "td_permissions sample_catalog = map sample_permission sample_codes"
  "td_templates sample_catalog = map sample_template TENANT_ROLE_TEMPLATES"
  "td_template_permissions sample_catalog = concat (map sample_template_links TENANT_ROLE_TEMPLATES)"
  "td_feature_phase sample_catalog = Some ''activated''" "td_tenants sample_catalog = []" "td_memberships sample_catalog = []"
  "td_roles sample_catalog = []" "td_assignments sample_catalog = []" "td_role_permissions sample_catalog = []"
  "td_idempotency sample_catalog = []" "td_audit sample_catalog = []"
  "td_users sample_catalog = td_users sample_tenants"
  by (simp_all add: sample_catalog_def) (simp_all add: sample_tenants_def)

lemma filter_concat_map_single:
  assumes "s \<in> set xs" "distinct xs" "\<And>y z. y \<in> set xs \<Longrightarrow> z \<in> set (f y) \<Longrightarrow> P z \<longleftrightarrow> y = s"
  shows "filter P (concat (map f xs)) = f s"
  using assms
proof (induction xs)
  case (Cons x xs)
  have all: "filter P (f y) = (if y = s then f y else [])" if "y \<in> set (x # xs)" for y
    using Cons.prems(3) [OF that] by (auto simp: filter_id_conv filter_empty_conv)
  show ?case
  proof (cases "x = s")
    case True
    then have "s \<notin> set xs" using Cons.prems(2) by simp
    then have "filter P (concat (map f xs)) = []"
      using Cons.prems(3) by (auto simp: filter_empty_conv)
    then show ?thesis using all [of x] True by simp
  next
    case False
    then show ?thesis using Cons all [of x] by simp
  qed
qed simp

lemma sample_template_permissions:
  assumes s: "s \<in> set TENANT_ROLE_TEMPLATES" and td: "td_permissions db = td_permissions sample_catalog"
    "td_template_permissions db = td_template_permissions sample_catalog"
  shows "template_permissions db (sample_template s) = map sample_permission (sample_granted s)"
proof -
  have d: "distinct TENANT_ROLE_TEMPLATES" using sample_seed_codes(1) by (simp add: distinct_map)
  have "filter (\<lambda>l. tpp_template_id l = tpl_id (sample_template s)) (td_template_permissions db) = sample_template_links s"
    unfolding td(2) sample_catalog_fields
  proof (rule filter_concat_map_single [OF s d])
    fix y z
    assume y: "y \<in> set TENANT_ROLE_TEMPLATES" and z: "z \<in> set (sample_template_links y)"
    have "tpp_template_id z = sample_template_id (seed_code y)" using z by (auto simp: sample_template_links_def)
    then show "tpp_template_id z = tpl_id (sample_template s) \<longleftrightarrow> y = s"
      using inj_onD [OF sample_ids_inj(2)] y s distinct_map_eq [OF sample_seed_codes(1)]
      by (auto simp: sample_template_def)
  qed
  moreover have "filter (\<lambda>p. prm_id p = sample_permission_id c \<and> prm_status p = ''active'') (td_permissions db) = [sample_permission c]"
    if "c \<in> set (sample_granted s)" for c
  proof -
    have c: "c \<in> set sample_codes" using sample_granted_codes s that by (auto simp: list_all_iff)
    have "filter (\<lambda>p. prm_id p = sample_permission_id c \<and> prm_status p = ''active'') (concat (map (\<lambda>d. [sample_permission d]) sample_codes))
        = [sample_permission c]"
      by (rule filter_concat_map_single [OF c sample_seed_codes(3)])
        (use inj_onD [OF sample_ids_inj(1)] c in \<open>auto simp: sample_permission_def\<close>)
    moreover have "concat (map (\<lambda>d. [sample_permission d]) sample_codes) = td_permissions db"
      by (simp add: td(1) sample_catalog_fields concat_map_singleton)
    ultimately show ?thesis by simp
  qed
  moreover from this have "map (\<lambda>c. filter (\<lambda>p. prm_id p = sample_permission_id c \<and> prm_status p = ''active'') (td_permissions db))
      (sample_granted s) = map (\<lambda>c. [sample_permission c]) (sample_granted s)" by (rule map_cong [OF refl])
  ultimately show ?thesis
    by (simp only: template_permissions_def sample_template_links_def map_map comp_def template_permission_row.simps
        concat_map_singleton [of sample_permission])
qed

lemma sample_active_templates:
  assumes "td_templates db = td_templates sample_catalog"
  shows "set (active_templates db) = sample_template ` set TENANT_ROLE_TEMPLATES"
    "distinct (map tpl_code (active_templates db))"
    "tpl_code ` set (active_templates db) = seed_code ` set TENANT_ROLE_TEMPLATES"
proof -
  have active: "filter (\<lambda>t. tpl_status t = ''active'') (td_templates db) = map sample_template TENANT_ROLE_TEMPLATES"
    by (simp add: assms sample_catalog_fields filter_id_conv sample_template_def)
  show s: "set (active_templates db) = sample_template ` set TENANT_ROLE_TEMPLATES"
    by (simp add: active_templates_def active)
  have code: "tpl_code (sample_template x) = seed_code x" for x by (simp add: sample_template_def)
  have "distinct (map tpl_code (map sample_template TENANT_ROLE_TEMPLATES))"
    using sample_seed_codes(1) by (simp add: comp_def code)
  then have "distinct (map sample_template TENANT_ROLE_TEMPLATES)" "inj_on tpl_code (set (map sample_template TENANT_ROLE_TEMPLATES))"
    by (simp_all only: distinct_map)
  then show "distinct (map tpl_code (active_templates db))"
    by (simp add: active_templates_def active distinct_map)
  show "tpl_code ` set (active_templates db) = seed_code ` set TENANT_ROLE_TEMPLATES"
    by (simp add: s image_image code)
qed

lemma sample_templates_match:
  assumes td: "td_permissions db = td_permissions sample_catalog" "td_template_permissions db = td_template_permissions sample_catalog"
    "td_templates db = td_templates sample_catalog"
  shows "list_all (template_matches_seed True db) (active_templates db)"
    "t \<in> set (active_templates db) \<Longrightarrow> distinct (map prm_id (template_permissions db t))"
proof -
  have codes: "prm_code ` set (template_permissions db (sample_template s)) = set (sample_granted s)"
    if "s \<in> set TENANT_ROLE_TEMPLATES" for s
    using sample_template_permissions [OF that td(1,2)] by (simp add: image_image sample_permission_def)
  show "list_all (template_matches_seed True db) (active_templates db)"
    unfolding list_all_iff sample_active_templates(1) [OF td(3)]
  proof
    fix t
    assume "t \<in> sample_template ` set TENANT_ROLE_TEMPLATES"
    then obtain s where s: "s \<in> set TENANT_ROLE_TEMPLATES" "t = sample_template s" by blast
    have "tpl_code t = seed_code s" "tpl_name t = seed_name s" "tpl_description t = seed_description s"
      by (simp_all add: s sample_template_def)
    then show "template_matches_seed True db t"
      using s codes [OF s(1)] unfolding template_matches_seed_def list_ex_iff
      by (intro bexI [of _ s]) (simp_all add: sample_granted_def)
  qed
  show "distinct (map prm_id (template_permissions db t))" if t: "t \<in> set (active_templates db)"
  proof -
    obtain s where s: "s \<in> set TENANT_ROLE_TEMPLATES" "t = sample_template s"
      using t unfolding sample_active_templates(1) [OF td(3)] by blast
    have g: "distinct (sample_granted s)" "set (sample_granted s) \<subseteq> set sample_codes"
      using sample_granted_codes s(1) by (auto simp: list_all_iff)
    have "distinct (map sample_permission_id (sample_granted s))"
      using g inj_on_subset [OF sample_ids_inj(1) g(2)] by (simp add: distinct_map)
    then show ?thesis
      by (simp add: s(2) sample_template_permissions [OF s(1) td(1,2)] comp_def sample_permission_def)
  qed
qed

subsection \<open>The application\<close>

definition sample_application :: CreateTenantApplicationCommand where
  "sample_application = \<lparr>cta_actor_user_id = u7 1, cta_name = [65], cta_tenant_type = LAW_FIRM,
     cta_idempotency_key = ''0123456789abcdef'', cta_audit_context = sample_ctx\<rparr>"

definition sample_founding :: tenant_fresh where
  "sample_founding = \<lparr>tf_record_id = u7 40, tf_tenant_id = u7 41, tf_membership_id = u7 42, tf_role_id = sample_role_id,
     tf_audit_id = u7 40, tf_task_id = u7 40\<rparr>"

lemma sample_founding_fields [simp]:
  "tf_record_id sample_founding = u7 40" "tf_tenant_id sample_founding = u7 41" "tf_membership_id sample_founding = u7 42"
  "tf_role_id sample_founding = sample_role_id" "tf_audit_id sample_founding = u7 40"
  "cta_actor_user_id sample_application = u7 1" "cta_audit_context sample_application = sample_ctx"
  "cta_tenant_type sample_application = LAW_FIRM" "cta_name sample_application = [65]"
  by (simp_all add: sample_founding_def sample_application_def)

definition sample_name :: NormalizedTenantName where
  "sample_name = \<lparr>display_value = [65], normalized_value = [65]\<rparr>"

lemma sample_named: "normalize_tenant_name (ts_nfkc sample_tenant_service) (ts_casefold sample_tenant_service) [65] = Inr sample_name"
  by (simp add: normalize_tenant_name_def sample_tenant_service_def sample_name_def strip_def is_space_def Let_def)

lemma sample_applied_ok:
  "Tenant_post_init (applied_tenant sample_founding sample_application sample_name) = Inr ()"
  "tenant_check (tenant_row_of (applied_tenant sample_founding sample_application sample_name))"
  "Membership_post_init (founding_membership sample_founding sample_application (aware 5)) = Inr ()"
  by (simp_all add: Tenant_post_init_def applied_tenant_def sample_name_def require_eval text_ok_def strip_def is_space_def
      version_ok_def tenant_check_def tenant_row_of_def Membership_post_init_def founding_membership_def)

definition sample_application_scope :: IdempotencyScope where
  "sample_application_scope = \<lparr>scope_type = ScopeType_USER, scope_id = u7 1, scope_tenant_id = None\<rparr>"

lemma sample_application_prepared:
  obtains p where "prepare sample_externals sample_secret (application_request sample_tenant_service sample_application sample_name) = Inr p"
    "length (prep_key_hash p) = 32" "length (prep_request_fingerprint p) = 32"
proof -
  let ?r = "application_request sample_tenant_service sample_application sample_name"
  have fields: "req_method ?r = ''POST''" "req_canonical_route ?r = ''/api/v1/tenants''" "req_key ?r = ''0123456789abcdef''"
    by (simp_all add: application_request_def sample_application_def)
  have w: "list_all route_char ''api/v1/tenants''" by code_simp
  have route: "canonical_route ''/api/v1/tenants'' = Inr ''/api/v1/tenants''"
    using canonical_route_plain [OF w] by simp
  have verb: "canonical_method ''POST'' = Inr ''POST''" and long_key: "matches_class key_char 16 128 ''0123456789abcdef''"
    by code_simp+
  have body: "canonical_business_values (req_body ?r)
      = Inr (JObj [(''name'', JStr ''x''), (''tenant_type'', JStr (TenantType_value LAW_FIRM))])"
    by (simp add: canonical_business_values_def application_request_def sample_tenant_service_def)
  show ?thesis
    by (rule that, simp add: prepare_def fields route verb long_key body)
      (simp_all only: PreparedIdempotencyRequest.simps sample_hash_lengths)
qed

lemma sample_application_event:
  obtains e where "tenant_audit_event (u7 40) sample_ctx (Some (u7 1)) (Some (u7 41)) (Some (u7 42)) ''tenant.application.create''
      ''pending_verification'' (Some ''tenant'') (Some (u7 41)) (aware 5) = Inr e"
    "structured_check e" "sev_occurred_at e = aware 5" "sev_actor_user_id e = Some (u7 1)" "sev_tenant_id e = Some (u7 41)"
    "sev_actor_membership_id e = Some (u7 42)"
proof -
  let ?e = "\<lparr>sev_id = u7 40, sev_actor_kind = TENANT_USER, sev_action = ''tenant.application.create'', sev_result = ''success'',
               sev_reason_code = ''pending_verification'', sev_trace_id = actx_trace_id sample_ctx, sev_occurred_at = aware 5,
               sev_tenant_id = Some (u7 41), sev_actor_user_id = Some (u7 1), sev_actor_membership_id = Some (u7 42),
               sev_on_behalf_of_user_id = None, sev_on_behalf_of_membership_id = None, sev_target_job_id = None,
               sev_attempt_id = None, sev_message_id = None, sev_rollout_feature_code = None,
               sev_rollout_generation = None, sev_target_type = Some ''tenant'', sev_target_id = Some (u7 41),
               sev_client_ip_hash = actx_client_ip_hash sample_ctx, sev_user_agent_hash = actx_user_agent_hash sample_ctx\<rparr>"
  have allowed: "validate_action_allowlist ?e = Inr ()"
    unfolding validate_action_allowlist_def by simp code_simp
  have "StructuredAuditEvent_post_init ?e = Inr ()"
    using allowed by (simp add: StructuredAuditEvent_post_init_def require_eval uuid_check_def require_uuid7_def audit_utc_check_def
        optional_uuid_check_def audit_hash_check_def validate_common_grouping_def validate_actor_kind_matrix_def
        absent_defs sample_ctx_def)
  moreover have "structured_check ?e"
    by (simp add: structured_check_def structured_columns_def sample_ctx_def)
  ultimately show ?thesis by (intro that [of ?e]) (simp_all add: tenant_audit_event_def Let_def)
qed

lemma sample_application_completed:
  assumes "td_idempotency db = [first_record (u7 40) sample_application_scope operation p e]"
  obtains rows where "complete_in \<lparr>rsv_record_id = u7 40, rsv_request_fingerprint = prep_request_fingerprint p, rsv_replay = None\<rparr>
      ''tenant'' (u7 41) None None (aware 5) db = Inr (db\<lparr>td_idempotency := rows\<rparr>)"
proof -
  let ?row = "first_record (u7 40) sample_application_scope operation p e"
  let ?ref = "\<lparr>ref_result_type = ''tenant'', ref_result_id = u7 41, ref_mutation_effect = None, ref_cache_authz_version = None\<rparr>"
  let ?q = "\<lparr>fq_record_id = u7 40, fq_fingerprint = prep_request_fingerprint p, fq_status = COMPLETED,
      fq_result_type = Some ''tenant'', fq_result_id = Some (u7 41)\<rparr>"
  have token: "token_matches 63 ''tenant''" by code_simp
  have ref: "result_reference ''tenant'' (u7 41) None None = Inr ?ref"
    by (simp add: result_reference_def ResultReference_post_init_def require_eval token)
  have upd: "sql_update idem_check (finish_where ?q) (finish_values ?q) [?row] = Inr ([finish_values ?q ?row], 1)"
    by (simp add: sql_update_def finish_where_def finish_values_def first_record_def idem_check_def sample_application_scope_def)
  have "repo_complete (u7 40) (prep_request_fingerprint p) ?ref (aware 5) [?row] = Inr (True, [finish_values ?q ?row])"
    by (simp add: repo_complete_def serialize_result_type_def naive_def upd [simplified])
  then show ?thesis
    by (intro that) (simp add: complete_in_def ref IdempotencyService_complete_def is_replay_def assms)
qed

lemma sample_founded:
  assumes "rsv = \<lparr>rsv_record_id = u7 40, rsv_request_fingerprint = prep_request_fingerprint p, rsv_replay = None\<rparr>"
    "rows = [first_record (u7 40) sample_application_scope operation p e]"
  obtains res db' where "found_tenant sample_founding sample_application sample_name rsv 7 (aware 5)
      (sample_catalog\<lparr>td_idempotency := rows\<rparr>) = Inr (res, db')" "\<not> tar_replayed res" "tenant_id (tar_tenant res) = u7 41"
    "mem_id (tar_owner_membership res) = u7 42" "u7 41 \<in> ten_id ` set (td_tenants db')"
proof -
  let ?t = "applied_tenant sample_founding sample_application sample_name"
  let ?owner = "founding_membership sample_founding sample_application (aware 5)"
  let ?db = "sample_catalog\<lparr>td_idempotency := rows\<rparr>"
  let ?db1 = "?db\<lparr>td_tenants := [tenant_row_of ?t]\<rparr>"
  have ids: "tenant_id ?t = u7 41" "mem_id ?owner = u7 42" "mem_tenant_id ?owner = u7 41" "mem_user_id ?owner = u7 1"
      "mem_department_id ?owner = None" "mem_member_type ?owner = MemberType_OWNER" "mem_status ?owner = MembershipStatus_ACTIVE"
      "mem_valid_from ?owner = aware 5" "mem_valid_until ?owner = None" "mem_authz_version ?owner = 1" "mem_version ?owner = 1"
      "ten_id (tenant_row_of ?t) = u7 41" "tnm_created_by_user_id (tenant_row_of ?t) = u7 1"
    by (simp_all add: applied_tenant_def founding_membership_def tenant_row_of_def)
  have user: "u7 1 \<in> usr_id ` set (td_users sample_catalog)"
    unfolding sample_catalog_fields by (simp add: sample_tenants_def)
  have 1: "add_application ?t ?db = Inr ?db1"
    using sample_applied_ok(2) user
    by (simp add: add_application_def insert_tenant_def foreign_def sql_insert_def sample_catalog_fields ids)
  have same: "td_permissions ?db1 = td_permissions sample_catalog" "td_template_permissions ?db1 = td_template_permissions sample_catalog"
    "td_templates ?db1 = td_templates sample_catalog" by simp_all
  let ?ts = "active_templates ?db1"
  obtain perms where 2: "clone_templates_for_tenant (u7 41) sample_role_id ?db1
      = Inr (map_of (map (\<lambda>t. (tpl_code t, sample_role_id (tpl_code t))) ?ts),
          ?db1\<lparr>td_roles := map (cloned_role (u7 41) sample_role_id) ?ts, td_role_permissions := perms\<rparr>)"
  proof (rule clone_succeeds [of "u7 41" ?db1 sample_role_id])
    show "inj_on sample_role_id (tpl_code ` set ?ts)"
      unfolding sample_active_templates(3) [OF same(3)] by (rule sample_ids_inj(3))
  qed (use sample_active_templates [OF same(3)] sample_templates_match [OF same] in
      \<open>simp_all add: ids sample_catalog_fields feature_phase_def\<close>)
  let ?roles = "map_of (map (\<lambda>t. (tpl_code t, sample_role_id (tpl_code t))) ?ts)"
  let ?db2 = "?db1\<lparr>td_roles := map (cloned_role (u7 41) sample_role_id) ?ts, td_role_permissions := perms\<rparr>"
  have "''tenant_owner'' \<in> tpl_code ` set ?ts"
    unfolding sample_active_templates(3) [OF same(3)] by (simp add: TENANT_ROLE_TEMPLATES_def)
  then obtain o_tpl where o: "o_tpl \<in> set ?ts" "tpl_code o_tpl = ''tenant_owner''" by auto
  have 3: "?roles ''tenant_owner'' = Some (sample_role_id ''tenant_owner'')"
  proof (rule map_of_is_SomeI)
    show "distinct (map fst (map (\<lambda>t. (tpl_code t, sample_role_id (tpl_code t))) ?ts))"
      using sample_active_templates(2) [OF same(3)] by (simp add: comp_def)
    show "(''tenant_owner'', sample_role_id ''tenant_owner'') \<in> set (map (\<lambda>t. (tpl_code t, sample_role_id (tpl_code t))) ?ts)"
      using o by force
  qed
  let ?m = "\<lparr>mbr_id = u7 42, mbr_tenant_id = u7 41, mbr_user_id = u7 1, mbr_department_id = None, mbr_member_type = MemberType_OWNER,
     mbr_status = MembershipStatus_ACTIVE, mbr_valid_from = 5, mbr_valid_until = None, mbr_authz_version = 1, mbr_version = 1,
     mbr_created_at = 7\<rparr>"
  let ?db3 = "?db2\<lparr>td_memberships := [?m]\<rparr>"
  have 4: "add_owner_for_application 7 ?owner ?db2 = Inr ?db3"
    using user by (simp add: add_owner_for_application_def require_eval ids member_row_of_def naive_def naive_optional_def
        insert_member_def foreign_def sql_insert_def sample_catalog_fields)
  let ?a = "\<lparr>asg_tenant_id = u7 41, asg_membership_id = u7 42, asg_role_id = sample_role_id ''tenant_owner''\<rparr>"
  let ?db4 = "?db3\<lparr>td_assignments := [?a]\<rparr>"
  have role: "role_exists (u7 41) (sample_role_id ''tenant_owner'') ?db3" "is_uuid7 (sample_role_id ''tenant_owner'')"
    subgoal using o by (force simp: role_exists_def cloned_role_def)
    subgoal by (simp add: sample_role_id_def sample_numbered_def TENANT_ROLE_TEMPLATES_def is_uuid7_def uuid_is_rfc4122_def uuid_version_def u7_def)
    done
  have 5: "assign_owner (u7 41) (u7 42) (sample_role_id ''tenant_owner'') (aware 5) ?db3 = Inr ?db4"
    using role by (simp add: assign_owner_def require_eval uuid_check_def require_uuid7_def naive_def insert_assignment_def foreign_def
        member_exists_def sql_insert_def sample_catalog_fields)
  obtain e where e: "tenant_audit_event (u7 40) sample_ctx (Some (u7 1)) (Some (u7 41)) (Some (u7 42)) ''tenant.application.create''
      ''pending_verification'' (Some ''tenant'') (Some (u7 41)) (aware 5) = Inr e"
    "structured_check e" "sev_occurred_at e = aware 5" "sev_actor_user_id e = Some (u7 1)" "sev_tenant_id e = Some (u7 41)"
    "sev_actor_membership_id e = Some (u7 42)" by (rule sample_application_event)
  let ?db5 = "?db4\<lparr>td_audit := [e]\<rparr>"
  have "owner_references (session_view ?db4) (Some (u7 1)) (Some (u7 41)) (Some (u7 42))"
    using user by (simp add: owner_references_def member_reference_def session_view_def sample_catalog_fields
        tenant_row.truncate_def membership_row.truncate_def ids)
  then have 6: "append_structured e ?db4 = Inr ?db5"
    by (simp add: append_structured_def e naive_def foreign_def sql_insert_def sample_catalog_fields)
  obtain done_rows where 7: "complete_in rsv ''tenant'' (u7 41) None None (aware 5) ?db5 = Inr (?db5\<lparr>td_idempotency := done_rows\<rparr>)"
    by (rule sample_application_completed [of ?db5]) (simp_all add: assms)
  have "found_tenant sample_founding sample_application sample_name rsv 7 (aware 5) ?db
    = Inr (\<lparr>tar_tenant = ?t, tar_owner_membership = ?owner, tar_replayed = False\<rparr>, ?db5\<lparr>td_idempotency := done_rows\<rparr>)"
    unfolding found_tenant_def Let_def sample_applied_ok bindE_Inr 1 ids sample_founding_fields 2 prod.case 3 option.case 4 5 e(1) 6 7 ..
  then show ?thesis by (rule that) (simp_all add: ids)
qed

lemma sample_application_created:
  obtains res db' where "create_application sample_tenant_service sample_founding sample_application 7 (aware 5) sample_catalog = (Inr res, db')"
    "\<not> tar_replayed res" "tenant_id (tar_tenant res) = u7 41" "mem_id (tar_owner_membership res) = u7 42"
    "u7 41 \<in> ten_id ` set (td_tenants db')"
proof -
  let ?request = "application_request sample_tenant_service sample_application sample_name"
  obtain p where p: "prepare sample_externals sample_secret ?request = Inr p" "length (prep_key_hash p) = 32"
      "length (prep_request_fingerprint p) = 32" by (rule sample_application_prepared)
  let ?rsv = "\<lparr>rsv_record_id = u7 40, rsv_request_fingerprint = prep_request_fingerprint p, rsv_replay = None\<rparr>"
  let ?rows = "[first_record (u7 40) sample_application_scope ''tenant.create'' p (5 + seconds 3600)]"
  have op: "token_matches 127 ''tenant.create''" by code_simp
  have scope: "IdempotencyScope_post_init sample_application_scope = Inr ()"
    by (simp add: IdempotencyScope_post_init_def require_eval sample_application_scope_def)
  have payload: "FingerprintPayload_post_init (req_body ?request) = Inr ()"
    by (simp add: FingerprintPayload_post_init_def application_request_def require_eval paths_ok_def strict_prefix_path_def Let_def)
  have "IdempotencyService_reserve sample_externals sample_secret (seconds 3600) sample_application_scope ''tenant.create''
      ?request (aware 5) (u7 40) [] = Inr (?rsv, ?rows)"
    using reserve_empty [OF p scope _ is_utc_aware op, of "seconds 3600" 5 "u7 40"] by (simp add: sample_application_scope_def)
  moreover have service: "ts_ext sample_tenant_service = sample_externals" "ts_secret sample_tenant_service = sample_secret"
    "ts_ttl sample_tenant_service = seconds 3600" by (simp_all add: sample_tenant_service_def)
  ultimately have reserved: "reserve_in sample_tenant_service sample_application_scope ''tenant.create'' ?request (aware 5) (u7 40) sample_catalog
      = Inr (?rsv, sample_catalog\<lparr>td_idempotency := ?rows\<rparr>)"
    by (simp add: reserve_in_def payload sample_catalog_fields service)
  obtain res db' where f: "found_tenant sample_founding sample_application sample_name ?rsv 7 (aware 5)
      (sample_catalog\<lparr>td_idempotency := ?rows\<rparr>) = Inr (res, db')" "\<not> tar_replayed res" "tenant_id (tar_tenant res) = u7 41"
    "mem_id (tar_owner_membership res) = u7 42" "u7 41 \<in> ten_id ` set (td_tenants db')"
    by (rule sample_founded [OF refl refl])
  have user: "lock_active_user (u7 1) sample_catalog = Inr True"
    unfolding lock_active_user_def sample_catalog_fields
    by (simp add: require_eval uuid_check_def require_uuid7_def sql_scalar_def sample_tenants_def)
  have "create_application_body sample_tenant_service sample_founding sample_application sample_name 7 (aware 5) sample_catalog
      = Inr (res, db')"
    unfolding create_application_body_def sample_founding_fields user bindE_Inr Let_def sample_application_scope_def [symmetric]
      scope reserved prod.case IdempotencyReservation.simps option.case f(1) by simp
  then have "create_application sample_tenant_service sample_founding sample_application 7 (aware 5) sample_catalog = (Inr res, db')"
    by (simp add: create_application_def CreateTenantApplicationCommand_post_init_def require_eval uuid_check_def require_uuid7_def
        sample_named tenant_now_def transaction_def)
  then show ?thesis using f(2-5) by (rule that)
qed

lemma tenant_never_ownerless_witness:
  "\<exists>res db'. create_application sample_tenant_service sample_founding sample_application 7 (aware 5) sample_catalog = (Inr res, db')
     \<and> (\<exists>tenant. tenant \<in> set (td_tenants db') \<and> active_owner_rows (ten_id tenant) db' \<noteq> [])"
proof -
  obtain res db' where c: "create_application sample_tenant_service sample_founding sample_application 7 (aware 5) sample_catalog
      = (Inr res, db')" "u7 41 \<in> ten_id ` set (td_tenants db')" by (rule sample_application_created)
  have run: "tenant_run sample_svc sample_catalog db'"
    using step_create [of sample_svc sample_catalog sample_tenant_service sample_founding sample_application 7 "aware 5"] c(1)
    by (auto simp: tenant_run_def)
  have keys: "tenant_keys sample_catalog" by (simp add: tenant_keys_def sample_catalog_fields)
  obtain tenant where "tenant \<in> set (td_tenants db')" using c(2) by blast
  then show ?thesis
    using tenant_never_ownerless [OF run keys sample_catalog_fields(5)] c(1) by blast
qed

lemma founder_locked_out_by_feature_witness:
  "\<exists>res db'. create_application sample_tenant_service sample_founding sample_application 7 (aware 5) sample_catalog = (Inr res, db')
     \<and> get_tenant (sample_actor\<lparr>act_context := (act_context sample_actor)\<lparr>ctx_tenant_id := u7 41, ctx_membership_id := Some (u7 42)\<rparr>\<rparr>)
         (\<lambda>_. aware 6) db' \<noteq> Inr (tar_tenant res)"
proof -
  obtain res db' where c: "create_application sample_tenant_service sample_founding sample_application 7 (aware 5) sample_catalog
      = (Inr res, db')" "\<not> tar_replayed res" "tenant_id (tar_tenant res) = u7 41" "mem_id (tar_owner_membership res) = u7 42"
    by (rule sample_application_created)
  have "distinct (map prm_id (td_permissions sample_catalog))"
    using sample_ids_inj(1) sample_seed_codes(3)
    by (simp add: sample_catalog_fields distinct_map inj_on_def sample_permission_def)
  then show ?thesis
    using founder_locked_out_by_feature [OF c(1,2) sample_catalog_fields(4)] c(1,3,4) by simp
qed

end
