(* ===== verification/InvitationSafety.thy ===== *)
theory InvitationSafety
  imports TenantSafety
begin

text \<open>
  What a successful invitation and a successful acceptance say about the stored data, and that an invitation is
  accepted at most once.
\<close>

subsection \<open>The inviter\<close>

lemma inviting_snapshot_Inr:
  assumes "inviting_snapshot actor clock db = Inr snap"
  shows "entitled actor MEMBERSHIP_INVITE (clock 0) (clock 1) db" "entitled actor ROLE_ASSIGN (clock 0) (clock 2) db"
    "tas_role_codes snap = actor_roles actor db"
proof -
  let ?p = "act_principal actor" and ?c = "act_context actor"
  have snap: "require_tenant_snapshot actor (clock 0) db = Inr snap"
    and invite: "authorize_invitation actor snap MEMBERSHIP_INVITE (clock 1) = Inr ()"
    and assign: "authorize_invitation actor snap ROLE_ASSIGN (clock 2) = Inr ()"
    using assms by (auto simp: inviting_snapshot_def bindE_eq_Inr)
  have ls: "load_snapshot ?p ?c [] db = Inr (Some snap)"
    using snap by (auto simp: require_tenant_snapshot_def Let_def bindE_eq_Inr split: option.split_asm)
  obtain s where s: "tas_actor_session snap = Some s" "ass_id s = pr_session_id ?p" "ass_user_id s = pr_user_id ?p"
      "ass_revoked_at s = None" "instant (clock 0) < instant (ass_expires_at s)"
      "ass_tenant_id s = None \<or> (ass_tenant_id s = pr_tenant_id ?p \<and> ass_membership_id s = pr_membership_id ?p)"
      "pr_auth_version ?p = tas_user_auth_version snap"
      "ctx_authz_version ?c = Some (mem_authz_version (tas_actor_membership snap))"
    using snap unfolding require_tenant_snapshot_def Let_def
    by (elim bindE_InrE) (auto elim!: bindE_InrE simp: require_eq_Inr invitation_now_def split: option.split_asm)
  have "grants (snapshot_principal actor snap) (tas_context snap) MEMBERSHIP_INVITE (tenant_resource (tenant_id (tas_tenant snap)) {} None) (clock 1)"
      "grants (snapshot_principal actor snap) (tas_context snap) ROLE_ASSIGN (tenant_resource (tenant_id (tas_tenant snap)) {} None) (clock 2)"
    using invite assign
    by (auto simp: authorize_invitation_def Let_def bindE_eq_Inr invitation_now_def intro: allowedD split: if_split_asm)
  then show "entitled actor MEMBERSHIP_INVITE (clock 0) (clock 1) db" "entitled actor ROLE_ASSIGN (clock 0) (clock 2) db"
    by (auto intro!: entitled_from [OF ls s] simp: platform_actions_def)
  show "tas_role_codes snap = actor_roles actor db"
    using load_snapshot_Inr(4) [OF ls] by (simp add: actor_roles_def)
qed

lemma create_invitation_Inr:
  assumes "create_invitation svc fr actor c clock delivery db = (out, db')"
    "out = Invited (Inr res) \<or> out = InvitationDeliveryError res"
  obtains subject fp where "invite_body svc fr actor c subject fp clock (clock 0) db = Inr (res, db')"
    "instant (clock 0) < instant (cin_expires_at c)" "delivery \<noteq> None" "is_utc (cin_expires_at c)" "is_utc (clock 0)"
  using assms
  by (auto simp: create_invitation_def transaction_def bindE_eq_Inr invitation_now_def require_eq_Inr
      CreateInvitationCommand_post_init_def utc_check_def split: sum.split_asm prod.split_asm if_split_asm)

text \<open>
  C18. An invitation that is stored, also when its delivery then fails, comes from an actor entitled to
  invite members and to assign roles; it is pending, expires in the future and gives roles of the actor's
  tenant, none of them \<open>tenant_owner\<close> and all of lower rank than the roles of the actor unless it owns the
  tenant.  No membership, role assignment, session or earlier invitation changes.
\<close>
theorem invitation_lawful:
  assumes out: "create_invitation svc fr actor c clock delivery db = (out, db')"
      "out = Invited (Inr res) \<or> out = InvitationDeliveryError res" "\<not> ivt_replayed res"
    and t: "t = ctx_tenant_id (act_context actor)" "invited = role_codes_of t (cin_role_ids c) db"
  shows "entitled actor MEMBERSHIP_INVITE (clock 4) (clock 5) db \<and> entitled actor ROLE_ASSIGN (clock 4) (clock 6) db
    \<and> (\<exists>r. td_invitations db' = td_invitations db @ [r] \<and> inv_id r = ivt_invitation_id res \<and> inv_tenant_id r = t
        \<and> Some (inv_invited_by_membership_id r) = ctx_membership_id (act_context actor)
        \<and> inv_status r = Invitation_PENDING \<and> inv_accepted_at r = None \<and> instant (clock 0) < inv_expires_at r
        \<and> td_invitation_roles db' = td_invitation_roles db
            @ map (\<lambda>i. \<lparr>irl_tenant_id = t, irl_invitation_id = inv_id r, irl_role_id = i\<rparr>) (cin_role_ids c))
    \<and> invited \<noteq> {} \<and> ''tenant_owner'' \<notin> invited \<and> length (active_roles t (cin_role_ids c) db) = length (cin_role_ids c)
    \<and> rank_of invited \<le> rank_of (actor_roles actor db)
    \<and> (''tenant_owner'' \<notin> actor_roles actor db \<longrightarrow> rank_of invited < rank_of (actor_roles actor db))
    \<and> invitation_frame db db'"
proof -
  obtain subject fp where body: "invite_body svc fr actor c subject fp clock (clock 0) db = Inr (res, db')"
      and future: "instant (clock 0) < instant (cin_expires_at c)" "is_utc (cin_expires_at c)"
    using create_invitation_Inr [OF out(1,2)] by metis
  from body show ?thesis
  proof (cases rule: invite_body_Inr)
    case replayed
    then show ?thesis using out(3) by simp
  next
    case (stored r codes locked)
    note same = bookkeeping_same [OF stored(6)]
    have r: "inv_tenant_id r = t" "Some (inv_invited_by_membership_id r) = ctx_membership_id (act_context actor)"
        "inv_expires_at r = dt_wall (cin_expires_at c)" "inv_status r = Invitation_PENDING" "inv_accepted_at r = None"
        "role_codes_for_ids_locked t (cin_role_ids c) db = Inr (Some codes)"
      using stored(3) t(1) by (auto simp: inviting_def)
    have codes: "snd ` set codes = invited" "length (active_roles t (cin_role_ids c) db) = length (cin_role_ids c)"
      using r(6) t(2)
      by (auto simp: role_codes_for_ids_locked_def bindE_eq_Inr Let_def role_codes_of_def image_image split: if_split_asm)
    have "actor_roles actor db = tas_role_codes locked" by (rule inviting_snapshot_Inr(3) [OF stored(4), symmetric])
    note valid = validate_invitation_roles_Inr [OF stored(5), unfolded codes, folded this]
    have frame: "invitation_frame db db'"
      using after_invitation_frame [OF stored(3)] invitation_frame_bookkeeping [OF stored(6)] by (rule invitation_frame_trans)
    have "\<exists>r. td_invitations db' = td_invitations db @ [r] \<and> inv_id r = ivt_invitation_id res \<and> inv_tenant_id r = t
        \<and> Some (inv_invited_by_membership_id r) = ctx_membership_id (act_context actor)
        \<and> inv_status r = Invitation_PENDING \<and> inv_accepted_at r = None \<and> instant (clock 0) < inv_expires_at r
        \<and> td_invitation_roles db' = td_invitation_roles db
            @ map (\<lambda>i. \<lparr>irl_tenant_id = t, irl_invitation_id = inv_id r, irl_role_id = i\<rparr>) (cin_role_ids c)"
      by (rule exI [of _ r])
        (use r stored(2) same(9,10) future in \<open>simp add: after_invitation_def instant_utc\<close>)
    then show ?thesis
      using inviting_snapshot_Inr(1,2) [OF stored(4)] valid(1-4) codes(2) frame by (simp add: numeral_2_eq_2)
  qed
qed

subsection \<open>The accepted\<close>

lemma accept_invitation_Inr:
  assumes "accept_invitation svc fr c created clock meanwhile db = (Inr a, db')"
  obtains h loc where "token_digest svc (ain_token c) = Inr h" "is_utc clock"
    "accept_body svc fr c loc h created clock (meanwhile db) = Inr (a, db')"
  using assms
  by (auto simp: accept_invitation_def transaction_def bindE_eq_Inr invitation_now_def require_eq_Inr utc_check_def
      split: sum.split_asm prod.split_asm option.split_asm)

lemma role_codes_locked_Inr:
  assumes "role_codes_locked t i db = Inr (Some codes)"
  shows "snd ` set codes = role_codes_of t (invitation_role_ids t i db) db"
    "tenant_keys db \<Longrightarrow> set (map fst codes) = set (invitation_role_ids t i db)"
proof -
  let ?ids = "invitation_role_ids t i db"
  have c: "codes = map (\<lambda>r. (rol_id r, rol_code r)) (active_roles t ?ids db)"
      and len: "length (active_roles t ?ids db) = length ?ids"
    using assms by (auto simp: role_codes_locked_def role_codes_for_ids_locked_def bindE_eq_Inr Let_def split: if_split_asm)
  show "snd ` set codes = role_codes_of t ?ids db" by (simp add: c role_codes_of_def image_image)
  assume keys: "tenant_keys db"
  have "distinct (map rol_id (td_roles db))" using keys by (simp add: tenant_keys_def)
  then have "distinct (map fst codes)" by (simp add: c comp_def active_roles_def distinct_map_filter)
  then have "card (set (map fst codes)) = length ?ids" using len by (simp add: distinct_card c del: set_map)
  moreover have "set (map fst codes) \<subseteq> set ?ids" by (auto simp: c active_roles_def)
  ultimately show "set (map fst codes) = set ?ids" using card_length [of ?ids] by (intro card_seteq) simp_all
qed

text \<open>The roles of a member after it has joined.\<close>

lemma roles_after_acceptance:
  assumes b: "bookkeeping (after_acceptance r m ids n members db) db'" and "set ids = set ids'"
  shows "set (map asg_role_id (member_assignments (inv_tenant_id r) m db')) = set ids'"
    "roles_held (inv_tenant_id r) m db' = role_codes_of (inv_tenant_id r) ids' db"
proof -
  note same = bookkeeping_same [OF b]
  show ids: "set (map asg_role_id (member_assignments (inv_tenant_id r) m db')) = set ids'"
    using assms(2) by (auto simp: member_assignments_def same after_acceptance_def)
  show "roles_held (inv_tenant_id r) m db' = role_codes_of (inv_tenant_id r) ids' db"
    unfolding roles_held_def by (rule role_codes_of_cong [OF ids]) (simp add: same after_acceptance_def)
qed

lemma filter_activated: "filter (\<lambda>m. mbr_id m \<noteq> i) (map (activated t i n) rows) = filter (\<lambda>m. mbr_id m \<noteq> i) rows"
proof (induction rows)
  case (Cons m rows)
  moreover have "mbr_id m \<noteq> i \<Longrightarrow> activated t i n m = m" by (simp add: activated_def)
  ultimately show ?case by simp
qed simp

lemma joined_row:
  assumes "joined_rows t i user kind rows rows'" "distinct (map mbr_id rows)"
  shows "\<exists>m\<in>set rows'. mbr_id m = i \<and> mbr_tenant_id m = t \<and> mbr_user_id m = user \<and> mbr_status m = MembershipStatus_ACTIVE
      \<and> mbr_member_type m = kind"
    "filter (\<lambda>m. mbr_id m \<noteq> i) rows' = filter (\<lambda>m. mbr_id m \<noteq> i) rows"
    "m \<in> set rows \<Longrightarrow> mbr_id m = i \<Longrightarrow> mbr_status m = MembershipStatus_INVITED"
proof -
  consider (added) m where "rows' = rows @ [m]" "mbr_id m = i" "mbr_tenant_id m = t" "mbr_user_id m = user" "mbr_member_type m = kind"
      "mbr_status m = MembershipStatus_ACTIVE" "i \<notin> mbr_id ` set rows"
    | (invited) n r where "rows' = map (activated t i n) rows" "r \<in> set rows" "mbr_id r = i" "mbr_tenant_id r = t" "mbr_user_id r = user"
      "mbr_member_type r = kind" "mbr_status r = MembershipStatus_INVITED"
    using assms(1) unfolding joined_rows_def by blast
  then have "(\<exists>m\<in>set rows'. mbr_id m = i \<and> mbr_tenant_id m = t \<and> mbr_user_id m = user \<and> mbr_status m = MembershipStatus_ACTIVE
      \<and> mbr_member_type m = kind) \<and> filter (\<lambda>m. mbr_id m \<noteq> i) rows' = filter (\<lambda>m. mbr_id m \<noteq> i) rows
      \<and> (\<forall>m\<in>set rows. mbr_id m = i \<longrightarrow> mbr_status m = MembershipStatus_INVITED)"
  proof cases
    case added
    then show ?thesis by (auto simp: image_iff)
  next
    case invited
    have "activated t i n r \<in> set rows'" using invited(1,2) by simp
    moreover have "mbr_status (activated t i n r) = MembershipStatus_ACTIVE"
      using invited by (simp add: activated_def activated_member_def)
    moreover have "filter (\<lambda>m. mbr_id m \<noteq> i) rows' = filter (\<lambda>m. mbr_id m \<noteq> i) rows"
      unfolding invited(1) by (rule filter_activated)
    moreover have "\<forall>m\<in>set rows. mbr_id m = i \<longrightarrow> mbr_status m = MembershipStatus_INVITED"
      using distinct_map_eq [OF assms(2) _ invited(2)] invited(3,7) by metis
    ultimately show ?thesis using invited by (intro conjI bexI [of _ "activated t i n r"]) simp_all
  qed
  then show "\<exists>m\<in>set rows'. mbr_id m = i \<and> mbr_tenant_id m = t \<and> mbr_user_id m = user \<and> mbr_status m = MembershipStatus_ACTIVE
      \<and> mbr_member_type m = kind" "filter (\<lambda>m. mbr_id m \<noteq> i) rows' = filter (\<lambda>m. mbr_id m \<noteq> i) rows"
    "m \<in> set rows \<Longrightarrow> mbr_id m = i \<Longrightarrow> mbr_status m = MembershipStatus_INVITED" by blast+
qed

text \<open>
  C16. An acceptance that is not a replay rests on a pending, unexpired, unrevoked invitation with the digest
  of the presented token, in an open tenant, and on an active identity of the accepting active user whose
  blind index is the target of the invitation.  Afterwards the user is an active member of that tenant with
  exactly the roles of the invitation, which were active and do not include \<open>tenant_owner\<close>, and not of type
  owner; a row the user had before was only invited; every other membership is as before and the invitation is
  accepted.
\<close>
theorem acceptance_lawful:
  assumes out: "accept_invitation svc fr c created clock meanwhile db = (Inr a, db')" "\<not> iar_replayed a"
    and before: "d = meanwhile db" "tenant_keys d" and i: "i = mem_id (iar_membership a)" "user = ain_actor_user_id c"
  shows "\<exists>r h. token_digest svc (ain_token c) = Inr h \<and> inv_id r = iar_invitation_id a
    \<and> r \<in> set (td_invitations d) \<and> inv_token_hash r = h \<and> inv_status r = Invitation_PENDING \<and> inv_revoked_at r = None
    \<and> instant clock < inv_expires_at r \<and> owns_target svc user r d
    \<and> (\<exists>u\<in>set (td_users d). usr_id u = user \<and> usr_status u = ''active'')
    \<and> (\<exists>t\<in>set (td_tenants d). ten_id t = inv_tenant_id r \<and> ten_status t \<in> {TenantStatus_PENDING_VERIFICATION, TenantStatus_ACTIVE})
    \<and> (\<exists>m\<in>set (td_memberships db'). mbr_id m = i \<and> mbr_tenant_id m = inv_tenant_id r \<and> mbr_user_id m = user
        \<and> mbr_status m = MembershipStatus_ACTIVE \<and> mbr_member_type m \<noteq> MemberType_OWNER)
    \<and> (\<forall>m\<in>set (td_memberships d). mbr_id m = i \<longrightarrow> mbr_status m = MembershipStatus_INVITED)
    \<and> filter (\<lambda>m. mbr_id m \<noteq> i) (td_memberships db') = filter (\<lambda>m. mbr_id m \<noteq> i) (td_memberships d)
    \<and> set (map asg_role_id (member_assignments (inv_tenant_id r) i db')) = set (invitation_role_ids (inv_tenant_id r) (inv_id r) d)
    \<and> roles_held (inv_tenant_id r) i db' \<noteq> {} \<and> ''tenant_owner'' \<notin> roles_held (inv_tenant_id r) i db'
    \<and> (\<exists>r'\<in>set (td_invitations db'). inv_id r' = inv_id r \<and> inv_status r' = Invitation_ACCEPTED
        \<and> inv_accepted_at r' = Some (instant clock))"
proof -
  obtain h loc where h: "token_digest svc (ain_token c) = Inr h" and utc: "is_utc clock"
      and body: "accept_body svc fr c loc h created clock d = Inr (a, db')"
    using accept_invitation_Inr [OF out(1)] before(1) by metis
  from body show ?thesis
  proof (cases rule: accept_body_Inr)
    case replayed
    then show ?thesis using out(2) by simp
  next
    case (accepted r codes kind members)
    let ?t = "inv_tenant_id r" and ?ids = "invitation_role_ids (inv_tenant_id r) (inv_id r) d"
    note inv = accepted(5) [unfolded invited_to_def] and same = bookkeeping_same [OF accepted(7)]
    have codes: "role_codes_locked ?t (inv_id r) d = Inr (Some codes)" and kind: "member_type_for_roles (snd ` set codes) = Inr kind"
      using inv by blast+
    have members: "distinct (map mbr_id (td_memberships d))" using before(2) by (simp add: tenant_keys_def)
    have j: "joined_rows ?t i user kind (td_memberships d) (td_memberships db')"
      using accepted(6) i same(3) by (simp add: after_acceptance_def)
    have ids: "set (iar_role_ids a) = set ?ids"
      using accepted(3) role_codes_locked_Inr(2) [OF codes before(2)] by simp
    note roles = roles_after_acceptance [OF accepted(7) ids, folded i(1)]
    note held = member_type_not_owner [OF kind, unfolded role_codes_locked_Inr(1) [OF codes], folded roles(2)]
    have m: "\<exists>m\<in>set (td_memberships db'). mbr_id m = i \<and> mbr_tenant_id m = ?t \<and> mbr_user_id m = user
        \<and> mbr_status m = MembershipStatus_ACTIVE \<and> mbr_member_type m \<noteq> MemberType_OWNER"
      using joined_row(1) [OF j members] held by blast
    have "td_invitations db' = map (consumed (invitation_of_row r) (dt_wall clock)) (td_invitations d)"
      using same(9) by (simp add: after_acceptance_def)
    moreover have "consumed (invitation_of_row r) (dt_wall clock) r = consumed_invitation (dt_wall clock) r"
      using inv by (simp add: consumed_def consume_where_def invitation_of_row_def)
    ultimately have "consumed_invitation (dt_wall clock) r \<in> set (td_invitations db')" using inv by (metis image_eqI image_set)
    then have r': "\<exists>r'\<in>set (td_invitations db'). inv_id r' = inv_id r \<and> inv_status r' = Invitation_ACCEPTED
        \<and> inv_accepted_at r' = Some (instant clock)"
      by (rule rev_bexI) (simp add: consumed_invitation_def instant_utc [OF utc])
    show ?thesis
      by (intro exI [of _ r] exI [of _ h] conjI)
        (use inv accepted(2) [symmetric] h i(2) m joined_row(2,3) [OF j members] roles(1) held r' in blast)+
  qed
qed

subsection \<open>Accepted once\<close>

lemma accept_body_accepts:
  assumes "accept_body svc fr c loc h created now db = Inr (a, db')" "\<not> iar_replayed a"
  obtains r where "r \<in> set (td_invitations db)" "inv_token_hash r = h" "inv_status r = Invitation_PENDING"
    "inv_id r = iar_invitation_id a" "consumed_invitation (dt_wall now) r \<in> set (td_invitations db')"
  using assms(1)
proof (cases rule: accept_body_Inr)
  case replayed
  then show ?thesis using assms(2) by simp
next
  case (accepted r codes kind members)
  have r: "r \<in> set (td_invitations db)" "inv_token_hash r = h" "inv_status r = Invitation_PENDING"
    using accepted(5) by (simp_all add: invited_to_def)
  have "td_invitations db' = map (consumed (invitation_of_row r) (dt_wall now)) (td_invitations db)"
    using bookkeeping_same(9) [OF accepted(7)] by (simp add: after_acceptance_def)
  moreover have "consumed (invitation_of_row r) (dt_wall now) r = consumed_invitation (dt_wall now) r"
    using r(3) by (simp add: consumed_def consume_where_def invitation_of_row_def)
  ultimately have "consumed_invitation (dt_wall now) r \<in> set (td_invitations db')" using r(1) by (metis image_eqI image_set)
  then show ?thesis using that r accepted(2) by simp
qed

text \<open>
  C17. An invitation is accepted at most once.  After a first acceptance every later presentation of the same
  token, by whomever and whatever the tenant, session and invitation services did in between, is refused or
  answered as the replay of an earlier acceptance, and the invitation stays accepted.
\<close>
theorem invitation_accepted_once:
  assumes before: "tenant_run sessions db0 (meanwhile db)" "tenant_keys db0" "invitation_keys db0"
    and first: "accept_invitation svc fr c created clock meanwhile db = (Inr a, db1)" "\<not> iar_replayed a"
    and after: "tenant_run sessions db1 (meanwhile' db2)" and token: "ain_token c' = ain_token c"
  shows "(\<exists>r\<in>set (td_invitations (meanwhile' db2)). inv_id r = iar_invitation_id a \<and> inv_status r = Invitation_ACCEPTED)
    \<and> (case fst (accept_invitation svc fr' c' created' clock' meanwhile' db2) of Inl e \<Rightarrow> True | Inr a' \<Rightarrow> iar_replayed a')"
proof -
  let ?d = "meanwhile db" and ?d2 = "meanwhile' db2"
  obtain h loc where h: "token_digest svc (ain_token c) = Inr h"
      and body: "accept_body svc fr c loc h created clock ?d = Inr (a, db1)"
    using accept_invitation_Inr [OF first(1)] by metis
  have keys: "tenant_keys ?d" "invitation_keys ?d"
    using tenant_run_kept [OF before(1,2)] tenant_run_invitations [OF before(1,2)] before(3)
    by (simp_all add: invitations_kept_def)
  have keys1: "tenant_keys db1" "invitation_keys db1"
    using accept_body_tenant_kept [OF body keys(1)] accept_body_invitations [OF body] keys(2)
    by (simp_all add: invitations_kept_def tenant_kept_def)
  note kept = tenant_run_invitations [OF after keys1(1), unfolded invitations_kept_def]
  obtain r where r: "inv_token_hash r = h" "inv_id r = iar_invitation_id a" "consumed_invitation (dt_wall clock) r \<in> set (td_invitations db1)"
    by (rule accept_body_accepts [OF body first(2)]) blast
  let ?r = "consumed_invitation (dt_wall clock) r"
  have consumed: "inv_token_hash ?r = h" "inv_id ?r = iar_invitation_id a" "inv_status ?r = Invitation_ACCEPTED"
    using r(1,2) by (simp_all add: consumed_invitation_def)
  obtain r2 where r2: "r2 \<in> set (td_invitations ?d2)" "keeps_invitation ?r r2"
    using kept r(3) unfolding table_keeps_def by blast
  then have stays: "?r \<in> set (td_invitations ?d2)" using consumed(3) by (simp add: keeps_invitation_def)
  have "case fst (accept_invitation svc fr' c' created' clock' meanwhile' db2) of Inl e \<Rightarrow> True | Inr a' \<Rightarrow> iar_replayed a'"
  proof (cases "fst (accept_invitation svc fr' c' created' clock' meanwhile' db2)")
    case (Inr a')
    have "iar_replayed a'"
    proof (rule ccontr)
      assume fresh: "\<not> iar_replayed a'"
      obtain db3 where out: "accept_invitation svc fr' c' created' clock' meanwhile' db2 = (Inr a', db3)"
        using Inr by (metis prod.collapse)
      obtain h' loc' where h': "token_digest svc (ain_token c') = Inr h'"
          and body': "accept_body svc fr' c' loc' h' created' clock' ?d2 = Inr (a', db3)"
        using accept_invitation_Inr [OF out] by metis
      obtain r' where r': "r' \<in> set (td_invitations ?d2)" "inv_token_hash r' = h'" "inv_status r' = Invitation_PENDING"
        by (rule accept_body_accepts [OF body' fresh]) blast
      have "h' = h" using h h' token by simp
      then have "r' = ?r"
        using distinct_map_eq [of inv_token_hash "td_invitations ?d2" r' ?r] kept keys1(2) r'(1,2) stays consumed(1)
        by (simp add: invitation_keys_def)
      then show False using r'(3) consumed(3) by simp
    qed
    then show ?thesis by (simp add: Inr)
  qed simp
  then show ?thesis using stays consumed(2,3) by blast
qed

end
