(* ===== verification/InvitationSamples.thy ===== *)
theory InvitationSamples
  imports InvitationSafety TenantRevocation
begin

text \<open>
  A user that is invited to the sample tenant accepts: the acceptance statement by statement, its result and
  what the properties of the invitations say of it.
\<close>

subsection \<open>Preparing a request\<close>

lemma plain_request_prepared:
  assumes "matches_class key_char 16 128 (req_key r)" "canonical_method (req_method r) = Inr m"
    "canonical_route (req_canonical_route r) = Inr u" "canonical_business_values (req_body r) = Inr body"
  obtains p where "prepare sample_externals sample_secret r = Inr p"
    "length (prep_key_hash p) = 32" "length (prep_request_fingerprint p) = 32"
  by (rule that, simp add: prepare_def assms) (simp_all only: PreparedIdempotencyRequest.simps sample_hash_lengths)

lemma first_completed:
  assumes rows: "td_idempotency db = [first_record fresh scope operation p e]"
    and scope: "(scope_type scope = ScopeType_MEMBERSHIP) = (scope_tenant_id scope \<noteq> None)"
    and ok: "is_uuid7 i" "token_matches 63 kind"
  obtains row where "complete_in \<lparr>rsv_record_id = fresh, rsv_request_fingerprint = prep_request_fingerprint p, rsv_replay = None\<rparr>
      kind i None None (aware n) db = Inr (db\<lparr>td_idempotency := [row]\<rparr>)"
proof -
  let ?row = "first_record fresh scope operation p e"
  let ?ref = "\<lparr>ref_result_type = kind, ref_result_id = i, ref_mutation_effect = None, ref_cache_authz_version = None\<rparr>"
  let ?q = "\<lparr>fq_record_id = fresh, fq_fingerprint = prep_request_fingerprint p, fq_status = COMPLETED,
      fq_result_type = Some kind, fq_result_id = Some i\<rparr>"
  have ref: "result_reference kind i None None = Inr ?ref"
    using ok by (simp add: result_reference_def ResultReference_post_init_def require_eval)
  have t: "serialize_result_type ?ref = Inr kind" by (simp add: serialize_result_type_def)
  have upd: "sql_update idem_check (finish_where ?q) (finish_values ?q) [?row] = Inr ([finish_values ?q ?row], 1)"
    using scope by (simp add: sql_update_def finish_where_def finish_values_def first_record_def idem_check_def)
  have "repo_complete fresh (prep_request_fingerprint p) ?ref (aware n) [?row] = Inr (True, [finish_values ?q ?row])"
    unfolding repo_complete_def t bindE_Inr Let_def by (simp add: naive_def upd [simplified])
  then show ?thesis
    by (intro that) (simp add: complete_in_def ref IdempotencyService_complete_def is_replay_def rows)
qed

subsection \<open>The invited user\<close>

definition sample_invitations :: invitation_service where
  "sample_invitations = \<lparr>ivs_tenants = sample_tenant_service, ivs_token_key = replicate 32 1, ivs_fingerprint_key = replicate 32 2,
     ivs_blind_index = \<lparr>bix_keys = [(1, replicate 32 3)], bix_active_key_version = 1\<rparr>,
     ivs_normalize = (\<lambda>_. Inr), ivs_decrypt = (\<lambda>_ _. Inr [49])\<rparr>"

definition sample_token_hash :: bytes where
  "sample_token_hash = ext_hmac_sha256 sample_externals (replicate 32 1) (TOKEN_DOMAIN @ ascii (sample_raw CHR ''A''))"

definition sample_target :: bytes where
  "sample_target = ext_hmac_sha256 sample_externals (replicate 32 3) (BLIND_INDEX_DOMAIN @ [byte 0, byte 1] @ utf8 ''invite:phone'' @ [0] @ [49])"

definition sample_invitation :: invitation_row where
  "sample_invitation = \<lparr>inv_id = u7 61, inv_tenant_id = u7 2, inv_target_kind = Target_PHONE, inv_target_blind_index = sample_target,
     inv_key_version = Some 1, inv_token_hash = sample_token_hash, inv_invited_by_membership_id = u7 3, inv_expires_at = 100,
     inv_accepted_at = None, inv_revoked_at = None, inv_status = Invitation_PENDING, inv_version = 1\<rparr>"

definition sample_invited :: tenant_db where
  "sample_invited = sample_tenants\<lparr>
     td_users := td_users sample_tenants @ [\<lparr>usr_id = u7 60, usr_status = ''active'', usr_auth_version = 1\<rparr>],
     td_identities := [\<lparr>idn_id = u7 62, idn_user_id = u7 60, idn_kind = ''phone'', idn_subject_ciphertext = [], idn_verified_at = 0,
       idn_status = ''active''\<rparr>],
     td_invitations := [sample_invitation],
     td_invitation_roles := [\<lparr>irl_tenant_id = u7 2, irl_invitation_id = u7 61, irl_role_id = u7 7\<rparr>]\<rparr>"

definition sample_accept :: AcceptInvitationCommand where
  "sample_accept = \<lparr>ain_actor_user_id = u7 60, ain_token = sample_raw CHR ''A'', ain_idempotency_key = ''0123456789abcdef'',
     ain_audit_context = sample_ctx\<rparr>"

definition sample_acceptance_fresh :: acceptance_fresh where
  "sample_acceptance_fresh = \<lparr>acf_record_id = u7 40, acf_membership_id = u7 63, acf_audit_id = u7 41\<rparr>"

lemma invited_u7 [simp]: "is_uuid7 (u7 60)" "is_uuid7 (u7 61)" "is_uuid7 (u7 62)" "is_uuid7 (u7 63)"
  by (simp_all add: is_uuid7_def uuid_is_rfc4122_def uuid_version_def u7_def)

lemma sample_accept_fields:
  "ain_actor_user_id sample_accept = u7 60" "ain_token sample_accept = sample_raw CHR ''A''"
  "ain_idempotency_key sample_accept = ''0123456789abcdef''" "ain_audit_context sample_accept = sample_ctx"
  "acf_record_id sample_acceptance_fresh = u7 40" "acf_membership_id sample_acceptance_fresh = u7 63"
  "acf_audit_id sample_acceptance_fresh = u7 41"
  by (simp_all add: sample_accept_def sample_acceptance_fresh_def)

lemma sample_invited_tables:
  "td_users sample_invited = [\<lparr>usr_id = u7 1, usr_status = ''active'', usr_auth_version = 1\<rparr>,
     \<lparr>usr_id = u7 5, usr_status = ''active'', usr_auth_version = 1\<rparr>, \<lparr>usr_id = u7 60, usr_status = ''active'', usr_auth_version = 1\<rparr>]"
  "td_tenants sample_invited = td_tenants sample_tenants" "td_invitations sample_invited = [sample_invitation]"
  "td_memberships sample_invited = [sample_row (u7 3) (u7 1) MemberType_OWNER, sample_row (u7 4) (u7 5) MemberType_INTERNAL]"
  "td_roles sample_invited = td_roles sample_tenants" "td_assignments sample_invited = td_assignments sample_tenants"
  "td_invitation_roles sample_invited = [\<lparr>irl_tenant_id = u7 2, irl_invitation_id = u7 61, irl_role_id = u7 7\<rparr>]"
  "td_idempotency sample_invited = []" "td_audit sample_invited = []" "td_departments sample_invited = []"
  by (simp_all add: sample_invited_def sample_tenants_def)

lemma sample_invitation_fields:
  "inv_id sample_invitation = u7 61" "inv_tenant_id sample_invitation = u7 2" "inv_token_hash sample_invitation = sample_token_hash"
  "inv_target_kind sample_invitation = Target_PHONE" "inv_status sample_invitation = Invitation_PENDING"
  "inv_accepted_at sample_invitation = None" "inv_revoked_at sample_invitation = None" "inv_expires_at sample_invitation = 100"
  "inv_key_version sample_invitation = Some 1" "inv_target_blind_index sample_invitation = sample_target"
  "inv_invited_by_membership_id sample_invitation = u7 3" "inv_version sample_invitation = 1"
  by (simp_all add: sample_invitation_def)

lemma sample_hmac_size: "length k = 32 \<Longrightarrow> length (ext_hmac_sha256 sample_externals k b) = 32"
  by (simp add: sample_externals_def)

lemma sample_lengths: "length sample_token_hash = 32" "length sample_target = 32"
  by (simp_all add: sample_token_hash_def sample_target_def sample_hmac_size)

lemma sample_token_digest: "token_digest sample_invitations (sample_raw CHR ''A'') = Inr sample_token_hash"
proof -
  have "TOKEN_PATTERN (sample_raw CHR ''A'')" unfolding TOKEN_PATTERN_def sample_raw_def by code_simp
  then show ?thesis
    by (simp add: token_digest_def sample_token_hash_def sample_invitations_def sample_tenant_service_def)
qed

lemma sample_blind:
  "blind_digests (ivs_hmac sample_invitations) (ivs_blind_index sample_invitations) (invite_purpose Target_PHONE) [49]
     = Inr [\<lparr>vbi_key_version = 1, vbi_digest = sample_target\<rparr>]"
proof -
  have purpose: "invite_purpose Target_PHONE = ''invite:phone''" "CHR 0x00 \<notin> set ''invite:phone''" by (simp_all add: invite_purpose_def)
  have "encode_utf8 [49] = Inr [49]" by (simp add: encode_utf8_def utf8_point_def byte_def)
  then show ?thesis
    unfolding blind_digests_def key_versions_def purpose(1)
    by (simp add: blind_digest_def sample_invitations_def sample_tenant_service_def sample_target_def purpose(2))
qed

subsection \<open>What the transaction reads\<close>

lemma sample_locate: "locate_by_token_hash sample_token_hash sample_invited
    = Inr (Some \<lparr>loc_invitation_id = u7 61, loc_tenant_id = u7 2\<rparr>)"
  by (simp add: locate_by_token_hash_def require_digest_def require_eval sample_lengths sample_invited_tables row_of_def
      sample_invitation_fields)

lemma sample_tenant_ids: "map ten_id (td_tenants sample_tenants) = [u7 2]" "map ten_status (td_tenants sample_tenants) = [TenantStatus_ACTIVE]"
  by (simp_all add: sample_tenants_def)

lemma sample_tenant_row: "\<exists>t. td_tenants sample_tenants = [t] \<and> ten_id t = u7 2 \<and> ten_status t = TenantStatus_ACTIVE"
  by (simp add: sample_tenants_def)

lemma sample_opened: "open_invitation \<lparr>loc_invitation_id = u7 61, loc_tenant_id = u7 2\<rparr> sample_token_hash sample_invited
    = Inr (invitation_of_row sample_invitation)"
proof -
  obtain t where t: "td_tenants sample_tenants = [t]" "ten_id t = u7 2" "ten_status t = TenantStatus_ACTIVE"
    using sample_tenant_row by blast
  have gate: "acquire_tenant_gate (u7 2) (session_view sample_invited) = Inr True"
    by (simp add: acquire_tenant_gate_def require_eval check_defs uuid_check_def require_uuid7_def session_view_def
        sample_invited_tables t row_of_def tenant_row.truncate_def)
  have status: "tenant_status_locked (u7 2) sample_invited = Inr (Some TenantStatus_ACTIVE)"
    by (simp add: tenant_status_locked_def require_eval uuid_check_def require_uuid7_def sample_invited_tables t row_of_def)
  have lock: "lock_by_token_hash (u7 2) sample_token_hash sample_invited = Inr (Some (invitation_of_row sample_invitation))"
    by (simp add: lock_by_token_hash_def require_digest_def require_eval uuid_check_def require_uuid7_def sample_lengths
        sample_invited_tables sql_scalar_def sample_invitation_fields)
  have "ivr_id (invitation_of_row sample_invitation) = u7 61" by (simp add: invitation_of_row_def sample_invitation_fields)
  then show ?thesis by (simp add: open_invitation_def gate status lock)
qed

definition sample_identities :: "VerifiedIdentityRecord list" where
  "sample_identities = [\<lparr>vid_identity_id = u7 62, vid_kind = Target_PHONE, vid_subject_ciphertext = [], vid_verified_at = aware 0\<rparr>]"

lemma sample_reads:
  "lock_active_user_identities (u7 60) Target_PHONE sample_invited = Inr (Some sample_identities)"
  "lock_membership_by_user (u7 2) (u7 60) sample_invited = Inr None"
  "role_codes_locked (u7 2) (u7 61) sample_invited = Inr (Some [(u7 7, ''lawyer_or_legal'')])"
proof -
  have ids: "user_identities (u7 60) Target_PHONE sample_invited = [\<lparr>idn_id = u7 62, idn_user_id = u7 60, idn_kind = ''phone'',
      idn_subject_ciphertext = [], idn_verified_at = 0, idn_status = ''active''\<rparr>]"
    by (simp add: user_identities_def sample_invited_def)
  show "lock_active_user_identities (u7 60) Target_PHONE sample_invited = Inr (Some sample_identities)"
    by (simp add: lock_active_user_identities_def require_eval uuid_check_def require_uuid7_def sample_invited_tables row_of_def ids
        sample_identities_def)
  show "lock_membership_by_user (u7 2) (u7 60) sample_invited = Inr None"
    by (simp add: lock_membership_by_user_def require_scoped_ids_def require_eval uuid_check_def require_uuid7_def
        sample_invited_tables sql_scalar_def optional_row_def)
  have roles: "invitation_role_ids (u7 2) (u7 61) sample_invited = [u7 7]"
    by (simp add: invitation_role_ids_def sample_invited_tables)
  show "role_codes_locked (u7 2) (u7 61) sample_invited = Inr (Some [(u7 7, ''lawyer_or_legal'')])"
    by (simp add: role_codes_locked_def role_codes_for_ids_locked_def roles require_scoped_ids_def require_eval uuid_check_def
        require_uuid7_def active_roles_def sample_invited_tables sample_tenants_def Let_def)
qed

lemma sample_matches: "matches_target sample_invitations (invitation_of_row sample_invitation) sample_identities = Inr True"
proof -
  have "identity_candidates sample_invitations \<lparr>vid_identity_id = u7 62, vid_kind = Target_PHONE, vid_subject_ciphertext = [],
      vid_verified_at = aware 0\<rparr> = Inr [\<lparr>vbi_key_version = 1, vbi_digest = sample_target\<rparr>]"
  proof -
    have "ivs_decrypt sample_invitations c aad = Inr [49]" "ivs_normalize sample_invitations k v = Inr v" for c aad k v
      by (simp_all add: sample_invitations_def)
    then show ?thesis by (simp add: identity_candidates_def sample_blind)
  qed
  then show ?thesis
    by (simp add: sample_identities_def invitation_of_row_def sample_invitation_fields)
qed

definition sample_user_only :: IdempotencyScope where
  "sample_user_only = \<lparr>scope_type = ScopeType_USER, scope_id = u7 60, scope_tenant_id = None\<rparr>"

lemma sample_acceptance_reserved:
  obtains p where "reserve_in sample_tenant_service sample_user_only ''invitation.accept''
      (acceptance_request sample_accept sample_token_hash) (aware 5) (u7 40) sample_invited
     = Inr (\<lparr>rsv_record_id = u7 40, rsv_request_fingerprint = prep_request_fingerprint p, rsv_replay = None\<rparr>,
         sample_invited\<lparr>td_idempotency := [first_record (u7 40) sample_user_only ''invitation.accept'' p (5 + seconds 3600)]\<rparr>)"
proof -
  let ?r = "acceptance_request sample_accept sample_token_hash"
  let ?kvs = "payload_values (req_body ?r)"
  have fields: "req_key ?r = ''0123456789abcdef''" "req_method ?r = ''POST''" "req_canonical_route ?r = ''/api/v1/invitations/accept''"
    by (simp_all add: acceptance_request_def sample_accept_fields)
  have key: "matches_class key_char 16 128 (req_key ?r)" unfolding fields by code_simp
  have verb: "canonical_method (req_method ?r) = Inr ''POST''" unfolding fields by code_simp
  have lit: "list_all route_char ''api/v1/invitations/accept''" by code_simp
  have route: "canonical_route (req_canonical_route ?r) = Inr (req_canonical_route ?r)"
    using canonical_route_plain [OF lit] by (simp add: fields(3))
  have "project_items (payload_business_paths (req_body ?r)) [] [] ?kvs = Inr ?kvs"
    by (rule project_plain) (auto simp: acceptance_request_def)
  then have body: "\<exists>body. canonical_business_values (req_body ?r) = Inr body"
    by (simp add: canonical_business_values_def acceptance_request_def)
  obtain p where p: "prepare sample_externals sample_secret ?r = Inr p" "length (prep_key_hash p) = 32" "length (prep_request_fingerprint p) = 32"
    using plain_request_prepared [OF key verb route] body by blast
  have op: "token_matches 127 ''invitation.accept''" by code_simp
  have scope: "IdempotencyScope_post_init sample_user_only = Inr ()"
    "(scope_type sample_user_only = ScopeType_MEMBERSHIP) = (scope_tenant_id sample_user_only \<noteq> None)"
    by (simp_all add: IdempotencyScope_post_init_def require_eval sample_user_only_def)
  have payload: "FingerprintPayload_post_init (req_body ?r) = Inr ()"
    by (simp add: FingerprintPayload_post_init_def acceptance_request_def require_eval paths_ok_def strict_prefix_path_def Let_def)
  show ?thesis
    by (rule that [of p])
      (simp add: reserve_in_def payload sample_invited_tables sample_tenant_service_def
        reserve_empty [OF p scope is_utc_aware op, of "seconds 3600" 5 "u7 40", simplified])
qed

subsection \<open>What the transaction writes\<close>

lemma sample_acceptance_event:
  obtains e where "invitation_audit_event (u7 41) sample_ctx (Some (u7 60)) (Some (u7 2)) (Some (u7 63)) ''invitation.accept''
      ''invitation_accepted'' (Some ''membership'') (Some (u7 63)) (aware 5) = Inr e"
    "structured_check e" "sev_occurred_at e = aware 5" "sev_actor_user_id e = Some (u7 60)" "sev_tenant_id e = Some (u7 2)"
    "sev_actor_membership_id e = Some (u7 63)"
proof -
  let ?e = "\<lparr>sev_id = u7 41, sev_actor_kind = TENANT_USER, sev_action = ''invitation.accept'', sev_result = ''success'',
               sev_reason_code = ''invitation_accepted'', sev_trace_id = actx_trace_id sample_ctx, sev_occurred_at = aware 5,
               sev_tenant_id = Some (u7 2), sev_actor_user_id = Some (u7 60), sev_actor_membership_id = Some (u7 63),
               sev_on_behalf_of_user_id = None, sev_on_behalf_of_membership_id = None, sev_target_job_id = None,
               sev_attempt_id = None, sev_message_id = None, sev_rollout_feature_code = None,
               sev_rollout_generation = None, sev_target_type = Some ''membership'', sev_target_id = Some (u7 63),
               sev_client_ip_hash = actx_client_ip_hash sample_ctx, sev_user_agent_hash = actx_user_agent_hash sample_ctx\<rparr>"
  have allowed: "validate_action_allowlist ?e = Inr ()"
    unfolding validate_action_allowlist_def by simp code_simp
  have "StructuredAuditEvent_post_init ?e = Inr ()"
    using allowed by (simp add: StructuredAuditEvent_post_init_def require_eval uuid_check_def require_uuid7_def audit_utc_check_def
        optional_uuid_check_def audit_hash_check_def validate_common_grouping_def validate_actor_kind_matrix_def
        absent_defs sample_ctx_def)
  moreover have "structured_check ?e"
    by (simp add: structured_check_def structured_columns_def sample_ctx_def)
  ultimately show ?thesis by (intro that [of ?e]) (simp_all add: invitation_audit_event_def Let_def)
qed

definition sample_joined :: member_row where
  "sample_joined = \<lparr>mbr_id = u7 63, mbr_tenant_id = u7 2, mbr_user_id = u7 60, mbr_department_id = None,
     mbr_member_type = MemberType_INTERNAL, mbr_status = MembershipStatus_ACTIVE, mbr_valid_from = 5, mbr_valid_until = None,
     mbr_authz_version = 1, mbr_version = 1, mbr_created_at = 0\<rparr>"

lemma sample_joined_fields:
  "mbr_id sample_joined = u7 63" "mbr_tenant_id sample_joined = u7 2" "mbr_user_id sample_joined = u7 60"
  "mbr_department_id sample_joined = None"
  by (simp_all add: sample_joined_def)

abbreviation "sample_joining \<equiv> joining_membership sample_acceptance_fresh sample_accept (invitation_of_row sample_invitation) MemberType_INTERNAL (aware 5)"

lemma sample_joining_id: "mem_id sample_joining = u7 63"
  by (simp add: joining_membership_def sample_accept_fields)

lemma sample_join:
  "join_tenant sample_acceptance_fresh sample_accept (invitation_of_row sample_invitation) None MemberType_INTERNAL 0 (aware 5)
     (sample_invited\<lparr>td_idempotency := rows\<rparr>)
   = Inr (sample_joining, sample_invited\<lparr>td_idempotency := rows, td_memberships := td_memberships sample_invited @ [sample_joined]\<rparr>)"
proof -
  have "Membership_post_init sample_joining = Inr ()"
    by (simp add: joining_membership_def Membership_post_init_def require_eval sample_accept_fields invitation_of_row_def
        sample_invitation_fields version_ok_def)
  moreover have "member_row_of 0 sample_joining = Inr sample_joined"
    by (simp add: member_row_of_def naive_def naive_optional_def joining_membership_def sample_accept_fields invitation_of_row_def
        sample_invitation_fields sample_joined_def)
  moreover have "insert_member sample_joined (sample_invited\<lparr>td_idempotency := rows\<rparr>)
      = Inr (sample_invited\<lparr>td_idempotency := rows, td_memberships := td_memberships sample_invited @ [sample_joined]\<rparr>)"
  proof -
    obtain t where "td_tenants sample_tenants = [t]" "ten_id t = u7 2" using sample_tenant_row by blast
    then show ?thesis
      by (simp add: insert_member_def foreign_def sql_insert_def sample_joined_fields sample_invited_tables member_conflict_def)
  qed
  ultimately show ?thesis by (simp add: join_tenant_def Let_def add_joining_membership_def)
qed

lemma sample_assigned:
  assumes "td_memberships db = td_memberships sample_invited @ [sample_joined]" "td_roles db = td_roles sample_tenants"
    "td_assignments db = td_assignments sample_tenants"
  shows "\<exists>rows. assign_invited_roles (u7 2) (u7 63) [u7 7] (u7 3) (aware 5) db = Inr (db\<lparr>td_assignments := rows\<rparr>)"
  using assms
  by (simp add: assign_invited_roles_def require_scoped_ids_def require_eval uuid_check_def require_uuid7_def naive_def
      insert_assignment_def foreign_def member_exists_def role_exists_def sample_invited_tables sample_joined_fields
      sample_tenants_def sql_insert_def) (rule exI, rule refl)

lemma sample_consumed:
  assumes "td_invitations db = [sample_invitation]"
  shows "consume (invitation_of_row sample_invitation) (aware 5) db
    = Inr (db\<lparr>td_invitations := [consumed_invitation 5 sample_invitation]\<rparr>)"
proof -
  have ok: "require_invitation_record (invitation_of_row sample_invitation) = Inr ()"
    by (simp add: require_invitation_record_def require_scoped_ids_def require_digest_def require_eval uuid_check_def require_uuid7_def
        invitation_of_row_def sample_invitation_fields sample_lengths key_version_ok_def)
  have w: "consume_where (invitation_of_row sample_invitation) sample_invitation"
    by (simp add: consume_where_def invitation_of_row_def sample_invitation_fields)
  have "invitation_check (consumed_invitation 5 sample_invitation)"
    by (simp add: invitation_check_def consumed_invitation_def sample_invitation_fields sample_lengths)
  then show ?thesis
    by (simp add: consume_def ok naive_def assms w sql_update_def)
qed

lemma sample_accepted_body:
  obtains a db' where "accept_body sample_invitations sample_acceptance_fresh sample_accept
      \<lparr>loc_invitation_id = u7 61, loc_tenant_id = u7 2\<rparr> sample_token_hash 0 (aware 5) sample_invited = Inr (a, db')"
    "\<not> iar_replayed a" "mem_id (iar_membership a) = u7 63" "iar_invitation_id a = u7 61"
proof -
  let ?i = "invitation_of_row sample_invitation"
  obtain p where p: "reserve_in sample_tenant_service sample_user_only ''invitation.accept''
      (acceptance_request sample_accept sample_token_hash) (aware 5) (u7 40) sample_invited
     = Inr (\<lparr>rsv_record_id = u7 40, rsv_request_fingerprint = prep_request_fingerprint p, rsv_replay = None\<rparr>,
         sample_invited\<lparr>td_idempotency := [first_record (u7 40) sample_user_only ''invitation.accept'' p (5 + seconds 3600)]\<rparr>)"
    by (rule sample_acceptance_reserved)
  let ?rsv = "\<lparr>rsv_record_id = u7 40, rsv_request_fingerprint = prep_request_fingerprint p, rsv_replay = None\<rparr>"
  let ?rows = "[first_record (u7 40) sample_user_only ''invitation.accept'' p (5 + seconds 3600)]"
  let ?db = "sample_invited\<lparr>td_idempotency := ?rows\<rparr>"
  let ?db1 = "sample_invited\<lparr>td_idempotency := ?rows, td_memberships := td_memberships sample_invited @ [sample_joined]\<rparr>"
  obtain rows where 2: "assign_invited_roles (u7 2) (u7 63) [u7 7] (u7 3) (aware 5) ?db1 = Inr (?db1\<lparr>td_assignments := rows\<rparr>)"
    using sample_assigned [of ?db1] by (auto simp: sample_invited_tables)
  let ?db2 = "?db1\<lparr>td_assignments := rows\<rparr>"
  let ?db3 = "?db2\<lparr>td_invitations := [consumed_invitation 5 sample_invitation]\<rparr>"
  have 3: "consume ?i (aware 5) ?db2 = Inr ?db3" by (rule sample_consumed) (simp add: sample_invited_tables)
  obtain e where e: "invitation_audit_event (u7 41) sample_ctx (Some (u7 60)) (Some (u7 2)) (Some (u7 63)) ''invitation.accept''
      ''invitation_accepted'' (Some ''membership'') (Some (u7 63)) (aware 5) = Inr e"
    "structured_check e" "sev_occurred_at e = aware 5" "sev_actor_user_id e = Some (u7 60)" "sev_tenant_id e = Some (u7 2)"
    "sev_actor_membership_id e = Some (u7 63)"
    by (rule sample_acceptance_event)
  obtain t where t: "td_tenants sample_tenants = [t]" "ten_id t = u7 2" using sample_tenant_row by blast
  have refs: "owner_references (session_view ?db3) (Some (u7 60)) (Some (u7 2)) (Some (u7 63))"
    by (simp add: owner_references_def member_reference_def session_view_def sample_invited_tables t sample_joined_fields
        tenant_row.truncate_def membership_row.truncate_def)
  have 4: "append_structured e ?db3 = Inr (?db3\<lparr>td_audit := [e]\<rparr>)"
    using refs by (simp add: append_structured_def e(2-6) naive_def foreign_def sql_insert_def sample_invited_tables)
  have kind: "token_matches 63 ''membership''" by code_simp
  obtain row where 5: "complete_in ?rsv ''membership'' (u7 63) None None (aware 5) (?db3\<lparr>td_audit := [e]\<rparr>)
      = Inr (?db3\<lparr>td_audit := [e], td_idempotency := [row]\<rparr>)"
    by (rule first_completed [of "?db3\<lparr>td_audit := [e]\<rparr>" "u7 40" sample_user_only "''invitation.accept''" p "5 + seconds 3600" "u7 63" "''membership''" 5])
      (simp_all add: sample_user_only_def kind)
  have i: "ivr_status ?i = Invitation_PENDING" "ivr_accepted_at ?i = None" "ivr_revoked_at ?i = None" "ivr_expires_at ?i = aware 100"
      "ivr_tenant_id ?i = u7 2" "ivr_id ?i = u7 61" "ivr_invited_by_membership_id ?i = u7 3" "ivr_target_kind ?i = Target_PHONE"
    by (simp_all add: invitation_of_row_def sample_invitation_fields aware_optional_def)
  have kinds: "member_type_for_roles {''lawyer_or_legal''} = Inr MemberType_INTERNAL" by (simp add: member_type_for_roles_def)
  let ?a = "\<lparr>iar_invitation_id = u7 61, iar_membership = sample_joining, iar_role_ids = [u7 7], iar_replayed = False\<rparr>"
  have "finish_acceptance sample_invitations sample_acceptance_fresh sample_accept ?i sample_identities None [(u7 7, ''lawyer_or_legal'')]
      ?rsv 0 (aware 5) ?db = Inr (?a, ?db3\<lparr>td_audit := [e], td_idempotency := [row]\<rparr>)"
    by (simp add: finish_acceptance_def i sample_matches kinds sample_join sample_joining_id 2 3 sample_accept_fields e(1) 4 5)
  moreover have "ivs_tenants sample_invitations = sample_tenant_service" by (simp add: sample_invitations_def)
  moreover have "IdempotencyScope_post_init sample_user_only = Inr ()"
    by (simp add: IdempotencyScope_post_init_def require_eval sample_user_only_def)
  ultimately have "accept_body sample_invitations sample_acceptance_fresh sample_accept \<lparr>loc_invitation_id = u7 61, loc_tenant_id = u7 2\<rparr>
      sample_token_hash 0 (aware 5) sample_invited = Inr (?a, ?db3\<lparr>td_audit := [e], td_idempotency := [row]\<rparr>)"
    by (simp add: accept_body_def sample_opened i sample_reads sample_accept_fields sample_user_only_def [symmetric] p Let_def)
  then show ?thesis by (rule that) (simp_all add: sample_joining_id)
qed

subsection \<open>What the properties say\<close>

lemma sample_acceptance:
  obtains a db' where "accept_invitation sample_invitations sample_acceptance_fresh sample_accept 0 (aware 5) id sample_invited = (Inr a, db')"
    "\<not> iar_replayed a" "mem_id (iar_membership a) = u7 63" "iar_invitation_id a = u7 61"
proof -
  obtain a db' where b: "accept_body sample_invitations sample_acceptance_fresh sample_accept
      \<lparr>loc_invitation_id = u7 61, loc_tenant_id = u7 2\<rparr> sample_token_hash 0 (aware 5) sample_invited = Inr (a, db')"
    "\<not> iar_replayed a" "mem_id (iar_membership a) = u7 63" "iar_invitation_id a = u7 61"
    by (rule sample_accepted_body)
  have "TOKEN_PATTERN (sample_raw CHR ''A'')" unfolding TOKEN_PATTERN_def sample_raw_def by code_simp
  then have "AcceptInvitationCommand_post_init sample_accept = Inr ()"
    by (simp add: AcceptInvitationCommand_post_init_def require_eval uuid_check_def require_uuid7_def sample_accept_fields)
  then have "accept_invitation sample_invitations sample_acceptance_fresh sample_accept 0 (aware 5) id sample_invited = (Inr a, db')"
    by (simp add: accept_invitation_def invitation_now_def require_eval utc_check_def sample_accept_fields sample_token_digest sample_locate
        transaction_def b(1))
  then show ?thesis using b(2-4) by (rule that)
qed

lemma sample_invited_keys: "tenant_keys sample_invited" "invitation_keys sample_invited"
  by (simp_all add: tenant_keys_def invitation_keys_def sample_invited_tables sample_tenants_def)

lemma acceptance_lawful_witness:
  "\<exists>a db'. accept_invitation sample_invitations sample_acceptance_fresh sample_accept 0 (aware 5) id sample_invited = (Inr a, db')
    \<and> (\<exists>m\<in>set (td_memberships db'). mbr_id m = u7 63 \<and> mbr_user_id m = u7 60 \<and> mbr_status m = MembershipStatus_ACTIVE)"
proof -
  obtain a db' where a: "accept_invitation sample_invitations sample_acceptance_fresh sample_accept 0 (aware 5) id sample_invited = (Inr a, db')"
    "\<not> iar_replayed a" "mem_id (iar_membership a) = u7 63" by (rule sample_acceptance)
  have d: "sample_invited = id sample_invited" by simp
  show ?thesis
    using acceptance_lawful [OF a(1,2) d sample_invited_keys(1) refl refl] a(1) unfolding a(3) sample_accept_fields by blast
qed

lemma invitation_accepted_once_witness:
  "\<exists>a db1. accept_invitation sample_invitations sample_acceptance_fresh sample_accept 0 (aware 5) id sample_invited = (Inr a, db1)
    \<and> (\<exists>r\<in>set (td_invitations db1). inv_id r = u7 61 \<and> inv_status r = Invitation_ACCEPTED)
    \<and> (case fst (accept_invitation sample_invitations sample_acceptance_fresh sample_accept 0 (aware 6) id db1) of
         Inl e \<Rightarrow> True | Inr a' \<Rightarrow> iar_replayed a')"
proof -
  obtain a db1 where a: "accept_invitation sample_invitations sample_acceptance_fresh sample_accept 0 (aware 5) id sample_invited = (Inr a, db1)"
    "\<not> iar_replayed a" "iar_invitation_id a = u7 61" by (rule sample_acceptance)
  have run: "tenant_run sample_svc d (id d)" for d by (simp add: tenant_run_def)
  show ?thesis
    using invitation_accepted_once [where meanwhile = id and meanwhile' = id and db = sample_invited and ?db0.0 = sample_invited and
        ?db1.0 = db1 and ?db2.0 = db1 and sessions = sample_svc and svc = sample_invitations and fr = sample_acceptance_fresh and c = sample_accept and
        c' = sample_accept and fr' = sample_acceptance_fresh and created' = 0 and clock' = "aware 6",
        OF run sample_invited_keys a(1,2) run refl] a(1)
    unfolding a(3) id_apply by blast
qed

section \<open>Inviting\<close>

text \<open>The owner of the sample tenant invites the telephone number \<open>1\<close> as a lawyer.\<close>

definition sample_invite :: CreateInvitationCommand where
  "sample_invite = \<lparr>cin_target_kind = Target_PHONE, cin_target = [49], cin_role_ids = [u7 7], cin_expires_at = aware 100,
     cin_idempotency_key = ''0123456789abcdef'', cin_audit_context = sample_ctx\<rparr>"

definition sample_invitation_fresh :: invitation_fresh where
  "sample_invitation_fresh = \<lparr>ivf_record_id = u7 40, ivf_id = u7 61, ivf_audit_id = u7 41, ivf_token = sample_raw CHR ''A''\<rparr>"

lemma sample_invite_fields:
  "cin_target_kind sample_invite = Target_PHONE" "cin_target sample_invite = [49]" "cin_role_ids sample_invite = [u7 7]"
  "cin_expires_at sample_invite = aware 100" "cin_idempotency_key sample_invite = ''0123456789abcdef''"
  "cin_audit_context sample_invite = sample_ctx" "ivf_record_id sample_invitation_fresh = u7 40"
  "ivf_id sample_invitation_fresh = u7 61" "ivf_audit_id sample_invitation_fresh = u7 41"
  "ivf_token sample_invitation_fresh = sample_raw CHR ''A''"
  by (simp_all add: sample_invite_def sample_invitation_fresh_def)

lemma sample_inviting: "inviting_snapshot sample_actor (\<lambda>_. aware 5) sample_open = Inr (sample_tas (\<lambda>_. None))"
proof -
  let ?snap = "sample_tas (\<lambda>_. None)"
  have t: "tenant_id (tas_tenant ?snap) = u7 2" by (simp add: sample_tas_def sample_tenant_def)
  have auth: "authorize_invitation sample_actor ?snap a (aware 5) = Inr ()" if "a \<in> {MEMBERSHIP_INVITE, ROLE_ASSIGN}" for a
  proof -
    have "authorize_resource sample_actor ?snap a (tenant_resource (u7 2) {} None) (aware 5) = Inr ()"
      by (rule sample_authorized) (use that in auto)
    then show ?thesis
      by (simp add: authorize_resource_def authorize_invitation_def invitation_now_def tenant_now_def require_eval utc_check_def Let_def t
          split: if_split_asm)
  qed
  have "require_tenant_snapshot sample_actor (aware 5) sample_open = Inr ?snap"
    unfolding require_tenant_snapshot_def sample_load(1)
    by (simp add: invitation_now_def require_eval utc_check_def Let_def sample_tas_def sample_actor_def session_state_of_def
        sample_started_def aware_optional_def sample_member_def)
  then show ?thesis by (simp add: inviting_snapshot_def auth)
qed

lemma sample_invitable:
  "acquire_write sample_actor [] sample_open = Inr ()"
  "role_codes_for_ids_locked (u7 2) [u7 7] sample_open = Inr (Some [(u7 7, ''lawyer_or_legal'')])"
  "validate_invitation_roles {''tenant_owner''} {''lawyer_or_legal''} = Inr ()"
  by (simp_all add: acquire_write_def tenant_write_lock_def sample_actor_fields Let_def TenantWriteLock_post_init_def require_eval
      check_defs uuid_check_def require_uuid7_def acquire_tenant_write_def acquire_tenant_gate_def session_view_def
      sample_open_def put_session_def sample_tenants_def row_of_def tenant_row.truncate_def role_codes_for_ids_locked_def
      require_scoped_ids_def active_roles_def validate_invitation_roles_def sample_ranks ranked_def ROLE_HIERARCHY_def
      member_type_for_roles_def)

lemma invitation_route:
  "canonical_route (tenant_route actor @ ''/invitations'') = Inr (tenant_route actor @ ''/invitations'')"
proof -
  have lit: "list_all route_char ''api/v1/tenants/''" "list_all route_char ''/invitations''" by code_simp+
  let ?t = "''api/v1/tenants/'' @ uuid_str (ctx_tenant_id (act_context actor)) @ ''/invitations''"
  have "canonical_route (CHR ''/'' # ?t) = Inr (CHR ''/'' # ?t)"
    by (rule canonical_route_plain) (use lit uuid_route in \<open>simp_all add: last_append\<close>)
  then show ?thesis by (simp add: tenant_route_def)
qed

lemma sample_invitation_reserved:
  obtains p where "reserve_in sample_tenant_service sample_member_scope ''membership.invite''
      (invitation_request sample_actor sample_invite fp) (aware 5) (u7 40) sample_open
     = Inr (\<lparr>rsv_record_id = u7 40, rsv_request_fingerprint = prep_request_fingerprint p, rsv_replay = None\<rparr>,
         sample_open\<lparr>td_idempotency := [first_record (u7 40) sample_member_scope ''membership.invite'' p (5 + seconds 3600)]\<rparr>)"
proof -
  let ?r = "invitation_request sample_actor sample_invite fp"
  let ?kvs = "payload_values (req_body ?r)"
  have fields: "req_key ?r = ''0123456789abcdef''" "req_method ?r = ''POST''" "req_canonical_route ?r = tenant_route sample_actor @ ''/invitations''"
    by (simp_all add: invitation_request_def sample_invite_fields)
  have key: "matches_class key_char 16 128 (req_key ?r)" unfolding fields by code_simp
  have verb: "canonical_method (req_method ?r) = Inr ''POST''" unfolding fields by code_simp
  have route: "canonical_route (req_canonical_route ?r) = Inr (req_canonical_route ?r)" unfolding fields by (rule invitation_route)
  have "project_items (payload_business_paths (req_body ?r)) [] [] ?kvs = Inr ?kvs"
    by (rule project_plain) (auto simp: invitation_request_def sample_invite_fields)
  then have body: "\<exists>body. canonical_business_values (req_body ?r) = Inr body"
    by (simp add: canonical_business_values_def invitation_request_def)
  obtain p where p: "prepare sample_externals sample_secret ?r = Inr p" "length (prep_key_hash p) = 32" "length (prep_request_fingerprint p) = 32"
    using plain_request_prepared [OF key verb route] body by blast
  have op: "token_matches 127 ''membership.invite''" by code_simp
  have scope: "(scope_type sample_member_scope = ScopeType_MEMBERSHIP) = (scope_tenant_id sample_member_scope \<noteq> None)"
    by (simp add: sample_member_scope_def)
  have payload: "FingerprintPayload_post_init (req_body ?r) = Inr ()"
    by (simp add: FingerprintPayload_post_init_def invitation_request_def require_eval paths_ok_def strict_prefix_path_def Let_def)
  have none: "td_idempotency sample_open = []" by (simp add: sample_open_def put_session_def sample_tenants_def)
  show ?thesis
    by (rule that [of p])
      (simp add: reserve_in_def payload none sample_tenant_service_def
        reserve_empty [OF p sample_scope_ok(2) scope is_utc_aware op, of "seconds 3600" 5 "u7 40", simplified])
qed

lemma sample_invitation_event:
  obtains e where "invitation_audit_event (u7 41) sample_ctx (Some (u7 1)) (Some (u7 2)) (Some (u7 3)) ''membership.invite''
      ''invitation_created'' (Some ''invitation'') (Some (u7 61)) (aware 5) = Inr e"
    "structured_check e" "sev_occurred_at e = aware 5" "sev_actor_user_id e = Some (u7 1)" "sev_tenant_id e = Some (u7 2)"
    "sev_actor_membership_id e = Some (u7 3)"
proof -
  let ?e = "\<lparr>sev_id = u7 41, sev_actor_kind = TENANT_USER, sev_action = ''membership.invite'', sev_result = ''success'',
               sev_reason_code = ''invitation_created'', sev_trace_id = actx_trace_id sample_ctx, sev_occurred_at = aware 5,
               sev_tenant_id = Some (u7 2), sev_actor_user_id = Some (u7 1), sev_actor_membership_id = Some (u7 3),
               sev_on_behalf_of_user_id = None, sev_on_behalf_of_membership_id = None, sev_target_job_id = None,
               sev_attempt_id = None, sev_message_id = None, sev_rollout_feature_code = None,
               sev_rollout_generation = None, sev_target_type = Some ''invitation'', sev_target_id = Some (u7 61),
               sev_client_ip_hash = actx_client_ip_hash sample_ctx, sev_user_agent_hash = actx_user_agent_hash sample_ctx\<rparr>"
  have allowed: "validate_action_allowlist ?e = Inr ()"
    unfolding validate_action_allowlist_def by simp code_simp
  have "StructuredAuditEvent_post_init ?e = Inr ()"
    using allowed by (simp add: StructuredAuditEvent_post_init_def require_eval uuid_check_def require_uuid7_def audit_utc_check_def
        optional_uuid_check_def audit_hash_check_def validate_common_grouping_def validate_actor_kind_matrix_def
        absent_defs sample_ctx_def)
  moreover have "structured_check ?e"
    by (simp add: structured_check_def structured_columns_def sample_ctx_def)
  ultimately show ?thesis by (intro that [of ?e]) (simp_all add: invitation_audit_event_def Let_def)
qed

lemma sample_new_invitation:
  "new_invitation sample_invitations sample_invitation_fresh sample_actor (u7 3) sample_invite [49] = Inr (invitation_of_row sample_invitation)"
proof -
  have "bix_active_key_version (ivs_blind_index sample_invitations) = 1" by (simp add: sample_invitations_def)
  then have "active_invite_index sample_invitations Target_PHONE [49] = Inr \<lparr>vbi_key_version = 1, vbi_digest = sample_target\<rparr>"
    by (simp add: active_invite_index_def sample_blind)
  then show ?thesis
    by (simp add: new_invitation_def sample_invite_fields sample_token_digest sample_actor_fields invitation_of_row_def
        sample_invitation_fields aware_optional_def)
qed

lemma sample_inserted:
  assumes "td_tenants db = td_tenants sample_tenants" "td_memberships db = td_memberships sample_open" "td_invitations db = []"
  shows "add_invitation (invitation_of_row sample_invitation) db = Inr (db\<lparr>td_invitations := [sample_invitation]\<rparr>)"
proof -
  obtain t where t: "td_tenants sample_tenants = [t]" "ten_id t = u7 2" using sample_tenant_row by blast
  have ok: "require_invitation_record (invitation_of_row sample_invitation) = Inr ()"
    by (simp add: require_invitation_record_def require_scoped_ids_def require_digest_def require_eval uuid_check_def require_uuid7_def
        invitation_of_row_def sample_invitation_fields sample_lengths key_version_ok_def)
  have "insert_invitation sample_invitation db = Inr (db\<lparr>td_invitations := [sample_invitation]\<rparr>)"
    by (simp add: insert_invitation_def foreign_def member_exists_def assms t sample_open_members sample_invitation_fields sql_insert_def
        invitation_check_def sample_lengths)
  then show ?thesis
    by (simp add: add_invitation_def ok naive_def) (simp add: invitation_of_row_def sample_invitation_def)
qed

lemma sample_linked:
  assumes "td_invitations db = [sample_invitation]" "td_roles db = td_roles sample_tenants" "td_invitation_roles db = []"
  shows "add_invitation_roles (u7 2) (u7 61) [u7 7] db
    = Inr (db\<lparr>td_invitation_roles := [\<lparr>irl_tenant_id = u7 2, irl_invitation_id = u7 61, irl_role_id = u7 7\<rparr>]\<rparr>)"
  by (simp add: add_invitation_roles_def require_scoped_ids_def require_eval uuid_check_def require_uuid7_def assms
      insert_invitation_role_def foreign_def role_exists_def sample_invitation_fields sql_insert_def, simp add: sample_tenants_def)

lemma sample_open_tables:
  "td_tenants sample_open = td_tenants sample_tenants" "td_roles sample_open = td_roles sample_tenants"
  "td_invitations sample_open = []" "td_invitation_roles sample_open = []" "td_audit sample_open = []"
  "u7 1 \<in> usr_id ` set (td_users sample_open)"
  by (simp_all add: sample_open_def put_session_def sample_tenants_def)

lemma sample_invite_body:
  obtains res db' where "invite_body sample_invitations sample_invitation_fresh sample_actor sample_invite [49] fp (\<lambda>_. aware 5) (aware 5)
      sample_open = Inr (res, db')" "\<not> ivt_replayed res"
proof -
  let ?i = "invitation_of_row sample_invitation"
  obtain p where p: "reserve_in sample_tenant_service sample_member_scope ''membership.invite''
      (invitation_request sample_actor sample_invite fp) (aware 5) (u7 40) sample_open
     = Inr (\<lparr>rsv_record_id = u7 40, rsv_request_fingerprint = prep_request_fingerprint p, rsv_replay = None\<rparr>,
         sample_open\<lparr>td_idempotency := [first_record (u7 40) sample_member_scope ''membership.invite'' p (5 + seconds 3600)]\<rparr>)"
    by (rule sample_invitation_reserved)
  let ?rsv = "\<lparr>rsv_record_id = u7 40, rsv_request_fingerprint = prep_request_fingerprint p, rsv_replay = None\<rparr>"
  let ?db1 = "sample_open\<lparr>td_idempotency := [first_record (u7 40) sample_member_scope ''membership.invite'' p (5 + seconds 3600)]\<rparr>"
  let ?db2 = "?db1\<lparr>td_invitations := [sample_invitation]\<rparr>"
  let ?db3 = "?db2\<lparr>td_invitation_roles := [\<lparr>irl_tenant_id = u7 2, irl_invitation_id = u7 61, irl_role_id = u7 7\<rparr>]\<rparr>"
  have 2: "add_invitation ?i ?db1 = Inr ?db2" by (rule sample_inserted) (simp_all add: sample_open_tables)
  have 3: "add_invitation_roles (u7 2) (u7 61) [u7 7] ?db2 = Inr ?db3" by (rule sample_linked) (simp_all add: sample_open_tables)
  obtain e where e: "invitation_audit_event (u7 41) sample_ctx (Some (u7 1)) (Some (u7 2)) (Some (u7 3)) ''membership.invite''
      ''invitation_created'' (Some ''invitation'') (Some (u7 61)) (aware 5) = Inr e"
    "structured_check e" "sev_occurred_at e = aware 5" "sev_actor_user_id e = Some (u7 1)" "sev_tenant_id e = Some (u7 2)"
    "sev_actor_membership_id e = Some (u7 3)"
    by (rule sample_invitation_event)
  obtain t where t: "td_tenants sample_tenants = [t]" "ten_id t = u7 2" using sample_tenant_row by blast
  have refs: "owner_references (session_view ?db3) (Some (u7 1)) (Some (u7 2)) (Some (u7 3))"
    using sample_open_tables(6)
    by (simp add: owner_references_def member_reference_def session_view_def sample_open_tables(1) t sample_open_members
        tenant_row.truncate_def membership_row.truncate_def)
  have 4: "append_structured e ?db3 = Inr (?db3\<lparr>td_audit := [e]\<rparr>)"
    using refs by (simp add: append_structured_def e(2-6) naive_def foreign_def sql_insert_def sample_open_tables)
  have kind: "token_matches 63 ''invitation''" by code_simp
  obtain row where 5: "complete_in ?rsv ''invitation'' (u7 61) None None (aware 5) (?db3\<lparr>td_audit := [e]\<rparr>)
      = Inr (?db3\<lparr>td_audit := [e], td_idempotency := [row]\<rparr>)"
    by (rule first_completed [of "?db3\<lparr>td_audit := [e]\<rparr>" "u7 40" sample_member_scope "''membership.invite''" p "5 + seconds 3600" "u7 61" "''invitation''" 5])
      (simp_all add: sample_member_scope_def kind)
  have i: "ivr_tenant_id ?i = u7 2" "ivr_id ?i = u7 61" by (simp_all add: invitation_of_row_def sample_invitation_fields)
  have stored: "store_invitation sample_invitations sample_invitation_fresh sample_actor (u7 3) sample_invite [49] ?rsv (aware 5) ?db1
      = Inr (invitation_result ?i False, ?db3\<lparr>td_audit := [e], td_idempotency := [row]\<rparr>)"
    unfolding store_invitation_def sample_new_invitation bindE_Inr 2 i sample_invite_fields 3 sample_actor_fields e(1) 4 5 ..
  have codes: "snd ` set [(u7 7, ''lawyer_or_legal'')] = {''lawyer_or_legal''}" "tas_role_codes (sample_tas (\<lambda>_. None)) = {''tenant_owner''}"
      "ivs_tenants sample_invitations = sample_tenant_service"
    by (simp_all add: sample_tas_def sample_invitations_def)
  have "invite_body sample_invitations sample_invitation_fresh sample_actor sample_invite [49] fp (\<lambda>_. aware 5) (aware 5) sample_open
      = Inr (invitation_result ?i False, ?db3\<lparr>td_audit := [e], td_idempotency := [row]\<rparr>)"
    unfolding invite_body_def sample_inviting bindE_Inr sample_actor_fields option.case sample_invitable(1) sample_invite_fields
      sample_invitable(2) codes sample_invitable(3) sample_scope_ok(1) p prod.case IdempotencyReservation.simps stored ..
  then show ?thesis by (rule that) (simp add: invitation_result_def)
qed

lemma invitation_lawful_witness:
  "\<exists>res db'. create_invitation sample_invitations sample_invitation_fresh sample_actor sample_invite (\<lambda>_. aware 5) (Some False) sample_open
       = (InvitationDeliveryError res, db')
     \<and> entitled sample_actor ROLE_ASSIGN (aware 5) (aware 5) sample_open
     \<and> (\<exists>r. td_invitations db' = td_invitations sample_open @ [r] \<and> inv_status r = Invitation_PENDING)"
proof -
  have command: "CreateInvitationCommand_post_init sample_invite = Inr ()"
    by (simp add: CreateInvitationCommand_post_init_def require_eval uuid_check_def require_uuid7_def utc_check_def sample_invite_fields)
  have "encode_utf8 [49] = Inr [49]" by (simp add: encode_utf8_def utf8_point_def byte_def)
  then obtain fp where fp: "target_fingerprint sample_invitations Target_PHONE [49] = Inr fp"
    by (simp add: target_fingerprint_def require_eval)
  have norm: "ivs_normalize sample_invitations k v = Inr v" for k v by (simp add: sample_invitations_def)
  obtain res db' where b: "invite_body sample_invitations sample_invitation_fresh sample_actor sample_invite [49] fp (\<lambda>_. aware 5) (aware 5)
      sample_open = Inr (res, db')" "\<not> ivt_replayed res" by (rule sample_invite_body)
  have out: "create_invitation sample_invitations sample_invitation_fresh sample_actor sample_invite (\<lambda>_. aware 5) (Some False) sample_open
      = (InvitationDeliveryError res, db')"
    by (simp add: create_invitation_def command require_eval invitation_now_def utc_check_def sample_invite_fields norm fp transaction_def b)
  show ?thesis using invitation_lawful [OF out disjI2 [OF refl] b(2) refl refl] out by blast
qed

end
