(* ===== verification/Spec2Isabelle.thy ===== *)
theory Spec2Isabelle
  imports Prelude Text Base64 Calendar Tables Uuid7 Tenancy Authorization
    AIJobs GrantPolicy Idempotency Envelope
    JobTables JobStore JobMessages JobRuntime JobInvariant JobSafety JobDelivery JobOutbox JobService JobSubmission JobSamples
    Rejections
    Sessions SessionStore SessionService SessionInvariant SessionSafety AccessTokens SessionLife SessionSamples
    AuditTrail
    TenantValues TenantTables TenantStore TenantService TenantMembers TenantInvariant TenantOwners
    BlindIndex InvitationStore InvitationService InvitationInvariant
    TenantRun TenantSafety TenantFounding TenantSamples TenantRevocation TenantApplication
    InvitationSafety InvitationSamples
begin

text \<open>
  The backend of \<open>lawyer-agent\<close> (\<open>src/backend/src/lawyer_agent\<close>) is a multi-tenant service.  Users sign in
  and hold sessions with rotating refresh tokens and signed access tokens; they found tenants, invite
  members and change or revoke memberships under a policy engine; they submit long-running AI jobs, which
  are stored with an execution grant and an outbox row in one transaction, published as signed references
  over RabbitMQ, and claimed by a worker that checks the durable authority again.  Requests that create or
  change tenants, memberships, invitations and jobs run under an idempotency key.

  How the parts are modelled.  Data are records and datatypes with the names of the source; a constructor
  check \<open>__post_init__\<close> is a function \<open>..._post_init\<close>; an exception is the left side of a sum; a table is the
  list of its rows, an SQL statement a function on it that fails on a broken constraint; an operation of a
  service is a function from its inputs, the fresh identifiers, the readings of the clock and the database
  to its result and the new database, where a failed transaction leaves the database as it was.
  Transactions are serial and atomic, so a \<open>FOR UPDATE\<close> lock only reads; an operation that the source spreads
  over several transactions is modelled with what may happen in between.

  \<^bold>\<open>Shared vocabulary.\<close>
  \<^item> \<open>Prelude\<close>: exceptions, results, ordered guards (\<open>require\<close>), UTC datetimes as microseconds, JSON values.
  \<^item> \<open>Text\<close>, \<open>Base64\<close>, \<open>Calendar\<close>: what the code uses of the standard library: character classes of its
    regular expressions, UTF-8, JSON text, Base64, \<open>str(UUID)\<close>, the ISO form of a datetime.
  \<^item> \<open>Tables\<close>: \<open>SELECT\<close>, \<open>UPDATE\<close> and \<open>INSERT\<close> over lists of rows.  The locale \<open>guarded_update\<close> is the contract of
    an \<open>UPDATE\<close> by identifier and guard, \<open>cas_update\<close> adds that a second attempt under the same guard changes
    nothing; the statements of \<open>Idempotency\<close>, \<open>JobStore\<close>, \<open>JobMessages\<close> and \<open>TenantStore\<close> interpret them.
  \<^item> \<open>Uuid7\<close> (\<open>domain/common.py\<close>), \<open>Tenancy\<close> (\<open>domain/tenancy.py\<close>), \<open>Authorization\<close>
    (\<open>domain/authorization.py\<close>): identifiers, tenants and memberships, and the policy engine, proved equal to
    the specification \<open>grants\<close>.

  \<^bold>\<open>Durable jobs.\<close>
  \<^item> \<open>AIJobs\<close> (\<open>domain/ai_jobs.py\<close>), \<open>GrantPolicy\<close> (\<open>application/ai_jobs.py\<close>), \<open>Idempotency\<close>
    (\<open>application/idempotency.py\<close>, its repository and table), \<open>Envelope\<close> (\<open>messaging/envelope.py\<close>, \<open>signing.py\<close>,
    \<open>delivery.py\<close>).
  \<^item> \<open>JobTables\<close>, \<open>JobStore\<close>, \<open>JobMessages\<close> (\<open>models/ai_jobs.py\<close>, \<open>repositories/ai_jobs.py\<close>), \<open>JobRuntime\<close>
    (\<open>application/ai_job_runtime.py\<close> with the worker, the publisher and the consumer), \<open>JobService\<close>
    (\<open>application/ai_job_service.py\<close>).
  \<^item> \<open>JobInvariant\<close>: the runtime as the step relation \<open>runtime_step\<close>, one committed transaction of any process,
    and the invariant \<open>runtime_ok\<close>.  \<open>JobSafety\<close>: every transaction refines the abstract executor \<open>phase_step\<close>,
    jobs are claimed once, redelivery changes nothing.  \<open>JobDelivery\<close>: one delivery branch by branch.
    \<open>JobOutbox\<close>: published envelopes verify, rows become due again.  \<open>JobSubmission\<close>: creating, repeating and
    cancelling a job composed with any run of the runtime; \<open>issuing_run\<close> is a run in which the grants table is
    written by submissions only, which is so of every transaction in the repository.  \<open>JobSamples\<close>: a concrete database.
  \<^item> \<open>Rejections\<close> (\<open>repositories/message_security.py\<close>): the bounded log of rejected messages.

  \<^bold>\<open>Sessions.\<close>
  \<^item> \<open>Sessions\<close>, \<open>SessionStore\<close>, \<open>SessionService\<close> (\<open>domain/sessions.py\<close>, \<open>repositories/sessions.py\<close>,
    \<open>application/sessions.py\<close>), \<open>AccessTokens\<close> (\<open>infrastructure/security/jwt_tokens.py\<close>).
  \<^item> \<open>SessionInvariant\<close>: the locale \<open>advancing_rows\<close>, an order on rows that every statement respects, and the
    invariant \<open>session_ok\<close>.  \<open>SessionSafety\<close>: the operations in any order as \<open>session_step\<close>; refresh tokens are used
    once, a revoked session stays unusable, a cache can only deny.  The locale \<open>audience_tokens\<close> is what the
    service relies on of a token verifier; \<open>AccessTokens\<close> interprets it.  \<open>SessionLife\<close> and \<open>SessionSamples\<close>: what a
    session is good for, and concrete runs.

  \<^bold>\<open>Tenants and invitations.\<close>
  \<^item> \<open>AuditTrail\<close> (\<open>application/audit.py\<close>): the structured audit event, equal to the \<open>CHECK\<close> of its table.
  \<^item> \<open>TenantValues\<close>, \<open>TenantTables\<close>, \<open>TenantStore\<close>, \<open>TenantService\<close>, \<open>TenantMembers\<close> (\<open>application/tenancy.py\<close>,
    \<open>repositories/tenant_workflows.py\<close>, \<open>authorization_cache_outbox.py\<close>, the tables behind them and
    \<open>seed_authz.py\<close>): applying for, reading and renaming a tenant, changing and revoking a membership.  The session
    tables are shared: \<open>session_view\<close> is the database of the session service inside \<open>tenant_db\<close>.
  \<^item> \<open>BlindIndex\<close> (\<open>infrastructure/security/blind_index.py\<close>), \<open>InvitationStore\<close>, \<open>InvitationService\<close>
    (\<open>repositories/invitations.py\<close>, \<open>application/invitations.py\<close>): inviting, accepting, and the maintenance of
    invitations around blind-index keys.
  \<^item> \<open>TenantInvariant\<close>, \<open>TenantOwners\<close>, \<open>InvitationInvariant\<close>: each operation as an equation on the tables (the
    locale \<open>keyed_insert\<close> for batches of inserts), unique keys \<open>tenant_keys\<close> and \<open>invitation_keys\<close>, an active owner
    for every tenant (\<open>owned\<close>), and what is kept of an invitation (\<open>keeps_invitation\<close>).
  \<^item> \<open>TenantRun\<close>: \<open>tenant_step\<close>, one transaction of the tenant, invitation or session service, of the cache
    dispatcher, or of a part of the program that leaves members, roles, sessions and invitations alone; in every
    reachable state each tenant has an active owner.  \<open>TenantSafety\<close>: who is \<open>entitled\<close> to act, lawful changes of
    memberships, and that a revoked member is locked out.  \<open>InvitationSafety\<close>: lawful invitations and
    acceptances, and that a token is accepted once.  \<open>TenantFounding\<close>: the permissions of a founder.
    \<open>TenantSamples\<close>, \<open>TenantRevocation\<close>, \<open>TenantApplication\<close>, \<open>InvitationSamples\<close>: concrete runs of the operations.

  \<^bold>\<open>Assumptions and parameters.\<close>  Hash functions and HMAC, Ed25519, the JWT library, \<open>orjson\<close> and \<open>json.loads\<close>,
  the coercions of pydantic, Unicode normalisation and case folding, the decryption of identities, the
  normalisation of telephone numbers and mail addresses, the validation cache, the delivery of invitation
  tokens, the clock and random bits are arguments; where a property needs more than their type it states it.
  Datetimes do not overflow the range of Python, and \<open>int(value.timestamp())\<close> rounds down, which holds for the
  years in which a double represents microseconds.  Python integers are unbounded; the columns whose width
  matters carry their check.  Loops over claimed batches are structural recursion, so no fuel is needed.

  \<^bold>\<open>Not modelled.\<close>  In \<open>application/tenancy.py\<close> the member list with its cursors and the loop of the cache
  dispatcher (its statements are modelled and it is a step that only changes the outbox); of the worker and
  publisher their process loops, signals and broker connections; the listing of audit events; the
  table of step effects; the execution of a claimed job, which the repository does not contain.  Other components are left out:
  registration and login rest on password hashing and ciphers of libraries; Redis adapters are Lua scripts run
  by the server; the HTTP interface, settings and start-up are wiring of frameworks; document parsing,
  retrieval, chat, rules, reports, contract review and model gateways orchestrate language models, vector
  stores and parsers; migrations are DDL, whose constraints are taken from the table classes; scripts and the
  frontend run outside the service.

  \<^bold>\<open>What modelling showed.\<close>  A founder loses every permission while the job feature is active, because the cloned
  owner role holds codes the policy engine does not know (\<open>founder_locked_out_by_feature\<close>); jobs of owners and
  administrators are never claimed (\<open>owner_jobs_never_claimed\<close>); a key identifier with a dot never verifies
  (\<open>dotted_kid_never_verifies\<close>); a message of an unknown job is never settled (\<open>unknown_job_unsettled\<close>).  The
  code also departs from its design document: a duplicate delivery is acknowledged without being counted
  (\<open>redelivery_changes_nothing\<close>), a job whose authority is denied fails with the reason of the policy
  instead of \<open>authorization_revoked\<close> (\<open>denied_delivery_fails_closed\<close>), and cancelling asks for the tenant
  of the job but neither for its owner nor for a permission (\<open>cancelled_job_never_claimed\<close>).  No
  transaction recovers a running job whose lease expired.  An invitation stays acceptable after its
  inviter was revoked: acceptance checks the tenant, the roles and the identity, not the inviter.
\<close>

end
